(* ===== verification/Prelude.thy ===== *)
theory Prelude
  imports Main "HOL-Library.Char_ord" "HOL-Library.List_Lexorder" "HOL-Library.Multiset"
begin

text \<open>
  Shared vocabulary of the development: Go strings as byte lists and the operations of the
  packages \<open>strings\<close>, \<open>unicode/utf8\<close> that the repository calls, SQL timestamps with their order,
  the comparator sort behind every \<open>ORDER BY\<close>, and the laws of an \<open>AUTOINCREMENT\<close> table.
  A Go \<open>string\<close> is a sequence of bytes, so it is a HOL \<open>string\<close> (a list of 8-bit characters)
  holding the UTF-8 bytes; \<open>length\<close> is Go's \<open>len\<close>.
\<close>

named_theorems frame_simps "which table an operation leaves alone"

section \<open>Bytes\<close>

definition byte_of :: "char \<Rightarrow> nat" where
  "byte_of c = of_char c"

lemma byte_of_less [simp]: "byte_of c < 256"
  by (simp add: byte_of_def)

definition is_upper :: "char \<Rightarrow> bool" where
  "is_upper c \<longleftrightarrow> 65 \<le> byte_of c \<and> byte_of c \<le> 90"

definition is_lower :: "char \<Rightarrow> bool" where
  "is_lower c \<longleftrightarrow> 97 \<le> byte_of c \<and> byte_of c \<le> 122"

definition is_digit :: "char \<Rightarrow> bool" where
  "is_digit c \<longleftrightarrow> 48 \<le> byte_of c \<and> byte_of c \<le> 57"

definition ascii_lower :: "char \<Rightarrow> char" where
  "ascii_lower c = (if is_upper c then char_of (byte_of c + 32) else c)"

text \<open>On a character literal the fold reads and writes the bits.\<close>

lemma ascii_lower_Char [simp, code]:
  "ascii_lower (Char b0 b1 b2 b3 b4 b5 b6 b7) =
    (if \<not> b7 \<and> b6 \<and> \<not> b5 \<and> (b0 \<or> b1 \<or> b2 \<or> b3 \<or> b4) \<and> \<not> (b4 \<and> b3 \<and> (b2 \<or> b1 \<and> b0))
     then Char b0 b1 b2 b3 b4 True b6 b7 else Char b0 b1 b2 b3 b4 b5 b6 b7)"
  by (cases b0; cases b1; cases b2; cases b3; cases b4; cases b5; cases b6; cases b7;
      simp add: ascii_lower_def is_upper_def byte_of_def char_of_def bit_0)

lemma byte_of_char_of: "n < 256 \<Longrightarrow> byte_of (char_of n) = n"
  by (simp add: byte_of_def)

lemma ascii_lower_not_upper [simp]: "\<not> is_upper (ascii_lower c)"
  by (simp add: ascii_lower_def is_upper_def byte_of_char_of)

lemma ascii_lower_idem [simp]: "ascii_lower (ascii_lower c) = ascii_lower c"
  using ascii_lower_not_upper [of c] by (simp add: ascii_lower_def [of "ascii_lower c"])

text \<open>SQLite's \<open>COLLATE NOCASE\<close>: compare after folding the 26 ASCII letters.\<close>

definition nocase :: "string \<Rightarrow> string" where
  "nocase s = map ascii_lower s"

lemma nocase_idem [simp]: "nocase (nocase s) = nocase s"
  by (simp add: nocase_def)

lemma nocase_simps [simp]: "nocase [] = []" "nocase (c # s) = ascii_lower c # nocase s"
  by (simp_all add: nocase_def)

lemma nocase_append [simp]: "nocase (s @ t) = nocase s @ nocase t"
  by (simp add: nocase_def)

lemma nocase_Nil_iff [simp]: "nocase s = [] \<longleftrightarrow> s = []"
  by (simp add: nocase_def)

lemma length_nocase [simp]: "length (nocase s) = length s"
  by (simp add: nocase_def)

section \<open>The package strings\<close>

definition has_prefix :: "string \<Rightarrow> string \<Rightarrow> bool" where
  "has_prefix s p \<longleftrightarrow> take (length p) s = p"

definition has_suffix :: "string \<Rightarrow> string \<Rightarrow> bool" where
  "has_suffix s p \<longleftrightarrow> has_prefix (rev s) (rev p)"

lemma has_prefix_iff: "has_prefix s p \<longleftrightarrow> (\<exists>r. s = p @ r)"
  by (metis append_eq_conv_conj append_take_drop_id has_prefix_def)

lemma has_suffix_iff: "has_suffix s p \<longleftrightarrow> (\<exists>r. s = r @ p)"
  unfolding has_suffix_def has_prefix_iff by (metis rev_append rev_rev_ident)

lemma has_prefix_append [simp]: "has_prefix (p @ r) p"
  by (simp add: has_prefix_def)

lemma has_prefix_Nil [simp]: "has_prefix s []"
  by (simp add: has_prefix_def)

lemma has_prefix_empty [simp]: "has_prefix [] p \<longleftrightarrow> p = []"
  by (auto simp: has_prefix_def)

lemma has_prefix_Cons [simp]: "has_prefix (c # s) (d # p) \<longleftrightarrow> c = d \<and> has_prefix s p"
  by (auto simp: has_prefix_def)

text \<open>\<open>strings.Index\<close>: the first position at which the pattern occurs.\<close>

fun str_index :: "string \<Rightarrow> string \<Rightarrow> nat option" where
  "str_index [] p = (if p = [] then Some 0 else None)"
| "str_index (c # s) p =
     (if has_prefix (c # s) p then Some 0 else map_option Suc (str_index s p))"

definition str_contains :: "string \<Rightarrow> string \<Rightarrow> bool" where
  "str_contains s p \<longleftrightarrow> str_index s p \<noteq> None"

lemma str_index_Some:
  "str_index s p = Some i \<Longrightarrow> i + length p \<le> length s \<and> s = take i s @ p @ drop (i + length p) s"
proof (induction s arbitrary: i)
  case Nil
  then show ?case by (simp split: if_splits)
next
  case (Cons c s)
  show ?case
  proof (cases "has_prefix (c # s) p")
    case True
    with Cons.prems have i: "i = 0" by simp
    from True obtain r where r: "c # s = p @ r" by (auto simp: has_prefix_iff)
    then have "length p \<le> length (c # s)" and "drop (length p) (c # s) = r" by simp_all
    with i r show ?thesis by simp
  next
    case False
    with Cons.prems obtain j where j: "i = Suc j" "str_index s p = Some j" by auto
    with Cons.IH [OF j(2)] show ?thesis by simp
  qed
qed

lemma str_index_None: "str_index s p = None \<longleftrightarrow> (\<forall>u v. s \<noteq> u @ p @ v)"
proof (induction s)
  case Nil
  show ?case by simp
next
  case (Cons c s)
  have "(\<exists>u v. c # s = u @ p @ v) \<longleftrightarrow> has_prefix (c # s) p \<or> (\<exists>u v. s = u @ p @ v)"
    unfolding has_prefix_iff by (auto simp: Cons_eq_append_conv)
  with Cons.IH show ?case by auto
qed

lemma str_contains_iff: "str_contains s p \<longleftrightarrow> (\<exists>u v. s = u @ p @ v)"
  using str_index_None [of s p] by (auto simp: str_contains_def)

text \<open>\<open>strings.ReplaceAll\<close> with a non-empty pattern: leftmost, non-overlapping.\<close>

function replace_all :: "string \<Rightarrow> string \<Rightarrow> string \<Rightarrow> string" where
  "replace_all old new [] = []"
| "replace_all old new (c # s) =
     (if old \<noteq> [] \<and> has_prefix (c # s) old
      then new @ replace_all old new (drop (length old) (c # s))
      else c # replace_all old new s)"
  by pat_completeness auto
termination
  by (relation "measure (\<lambda>(old, new, s). length s)") auto

declare replace_all.simps(2) [simp del]

lemma replace_all_absent: "\<not> str_contains s old \<Longrightarrow> replace_all old new s = s"
proof (induction s)
  case Nil
  show ?case by simp
next
  case (Cons c s)
  from Cons.prems have "\<not> has_prefix (c # s) old"
    by (cases "old = []") (auto simp: str_contains_def)
  moreover from Cons.prems have "\<not> str_contains s old"
    by (auto simp: str_contains_def split: if_splits)
  ultimately show ?case using Cons.IH by (simp add: replace_all.simps(2))
qed

lemma replace_all_prefix: "old \<noteq> [] \<Longrightarrow> replace_all old new (old @ r) = new @ replace_all old new r"
  by (cases old) (simp_all add: replace_all.simps(2))

lemma str_index_prefix: "has_prefix s p \<Longrightarrow> str_index s p = Some 0"
  by (cases s) auto

text \<open>Replacing a single byte is a pointwise map.\<close>

lemma replace_all_byte: "replace_all [b] [r] s = map (\<lambda>c. if c = b then r else c) s"
  by (induction s) (simp_all add: replace_all.simps(2))

text \<open>\<open>strings.Split\<close> on a one-byte separator (also the sequence of \<open>SplitSeq\<close>).\<close>

fun split_byte :: "char \<Rightarrow> string \<Rightarrow> string list" where
  "split_byte b [] = [[]]"
| "split_byte b (c # s) =
     (if c = b then [] # split_byte b s
      else (case split_byte b s of [] \<Rightarrow> [[c]] | l # ls \<Rightarrow> (c # l) # ls))"

lemma split_byte_nonempty [simp]: "split_byte b s \<noteq> []"
  by (induction s) (auto split: list.splits)

lemma split_byte_no_sep: "b \<notin> set s \<Longrightarrow> split_byte b s = [s]"
  by (induction s) auto

lemma split_byte_append:
  "b \<notin> set l \<Longrightarrow> split_byte b (l @ b # s) = l # split_byte b s"
  by (induction l) auto

text \<open>\<open>strings.Join\<close>.\<close>

fun str_join :: "string \<Rightarrow> string list \<Rightarrow> string" where
  "str_join sep [] = []"
| "str_join sep [x] = x"
| "str_join sep (x # y # xs) = x @ sep @ str_join sep (y # xs)"

lemma split_join_byte:
  "\<forall>l \<in> set ls. b \<notin> set l \<Longrightarrow> ls \<noteq> [] \<Longrightarrow> split_byte b (str_join [b] ls) = ls"
  by (induction "[b]" ls rule: str_join.induct) (auto simp: split_byte_append split_byte_no_sep)

definition trim_left :: "string \<Rightarrow> string \<Rightarrow> string" where
  "trim_left cs s = dropWhile (\<lambda>c. c \<in> set cs) s"

definition trim_right :: "string \<Rightarrow> string \<Rightarrow> string" where
  "trim_right cs s = rev (trim_left cs (rev s))"

lemma trim_left_id: "s = [] \<or> hd s \<notin> set cs \<Longrightarrow> trim_left cs s = s"
  by (cases s) (auto simp: trim_left_def)

lemma trim_right_id: "s = [] \<or> last s \<notin> set cs \<Longrightarrow> trim_right cs s = s"
  by (auto simp: trim_right_def trim_left_id hd_rev)

lemma trim_right_snoc [simp]: "c \<in> set cs \<Longrightarrow> trim_right cs (s @ [c]) = trim_right cs s"
  by (simp add: trim_right_def trim_left_def)

lemma trim_left_Cons [simp]: "c \<in> set cs \<Longrightarrow> trim_left cs (c # s) = trim_left cs s"
  by (simp add: trim_left_def)

section \<open>White space and \<open>strings.TrimSpace\<close>\<close>

text \<open>The newline byte and the UTF-8 encodings of the runes with the White\_Space property.\<close>

abbreviation NL :: char where "NL \<equiv> CHR 0x0A"
abbreviation CR :: char where "CR \<equiv> CHR 0x0D"
abbreviation TAB :: char where "TAB \<equiv> CHR 0x09"
abbreviation SP :: char where "SP \<equiv> CHR 0x20"

definition spaces :: "string list" where
  "spaces =
    [[CHR 0x09], [CHR 0x0A], [CHR 0x0B], [CHR 0x0C], [CHR 0x0D], [CHR 0x20],
     [CHR 0xC2, CHR 0x85], [CHR 0xC2, CHR 0xA0], [CHR 0xE1, CHR 0x9A, CHR 0x80],
     [CHR 0xE2, CHR 0x80, CHR 0x80], [CHR 0xE2, CHR 0x80, CHR 0x81],
     [CHR 0xE2, CHR 0x80, CHR 0x82], [CHR 0xE2, CHR 0x80, CHR 0x83],
     [CHR 0xE2, CHR 0x80, CHR 0x84], [CHR 0xE2, CHR 0x80, CHR 0x85],
     [CHR 0xE2, CHR 0x80, CHR 0x86], [CHR 0xE2, CHR 0x80, CHR 0x87],
     [CHR 0xE2, CHR 0x80, CHR 0x88], [CHR 0xE2, CHR 0x80, CHR 0x89],
     [CHR 0xE2, CHR 0x80, CHR 0x8A], [CHR 0xE2, CHR 0x80, CHR 0xA8],
     [CHR 0xE2, CHR 0x80, CHR 0xA9], [CHR 0xE2, CHR 0x80, CHR 0xAF],
     [CHR 0xE2, CHR 0x81, CHR 0x9F], [CHR 0xE3, CHR 0x80, CHR 0x80]]"

definition leading :: "string list \<Rightarrow> string \<Rightarrow> nat" where
  "leading ws s = (case find (has_prefix s) ws of None \<Rightarrow> 0 | Some w \<Rightarrow> length w)"

function strip :: "string list \<Rightarrow> string \<Rightarrow> string" where
  "strip ws s = (if s = [] \<or> leading ws s = 0 then s else strip ws (drop (leading ws s) s))"
  by pat_completeness auto
termination
  by (relation "measure (\<lambda>(ws, s). length s)") auto

declare strip.simps [simp del]

definition trim_space :: "string \<Rightarrow> string" where
  "trim_space s = rev (strip (map rev spaces) (rev (strip spaces s)))"

text \<open>
  A text with neither a white-space rune at its start nor one at its end is left alone; this is
  the only fact about \<open>trim_space\<close> that most clients need, next to its idempotence.
\<close>

definition trimmed :: "string \<Rightarrow> bool" where
  "trimmed s \<longleftrightarrow> leading spaces s = 0 \<and> leading (map rev spaces) (rev s) = 0"

lemma strip_no_lead: "leading ws s = 0 \<Longrightarrow> strip ws s = s"
  by (subst strip.simps) simp

lemma trim_space_trimmed: "trimmed s \<Longrightarrow> trim_space s = s"
  by (simp add: trimmed_def trim_space_def strip_no_lead)

lemma leading_Nil: "[] \<notin> set ws \<Longrightarrow> leading ws [] = 0"
  by (auto simp: leading_def find_Some_iff split: option.splits)

lemma strip_leading: "[] \<notin> set ws \<Longrightarrow> leading ws (strip ws s) = 0"
proof (induction ws s rule: strip.induct)
  case (1 ws s)
  show ?case
  proof (cases "s = [] \<or> leading ws s = 0")
    case True
    with "1.prems" show ?thesis
      by (auto simp: strip.simps [of ws s] leading_Nil)
  next
    case False
    with 1 show ?thesis by (simp add: strip.simps [of ws s])
  qed
qed

lemma strip_suffix: "\<exists>u. s = u @ strip ws s"
proof (induction ws s rule: strip.induct)
  case (1 ws s)
  show ?case
  proof (cases "s = [] \<or> leading ws s = 0")
    case True
    then show ?thesis by (auto simp: strip.simps [of ws s])
  next
    case False
    with 1 obtain u where "drop (leading ws s) s = u @ strip ws s"
      by (auto simp: strip.simps [of ws s])
    then have "s = (take (leading ws s) s @ u) @ strip ws s"
      by (metis append.assoc append_take_drop_id)
    then show ?thesis by blast
  qed
qed

lemma leading_0_iff:
  "[] \<notin> set ws \<Longrightarrow> leading ws s = 0 \<longleftrightarrow> (\<forall>w \<in> set ws. \<not> has_prefix s w)"
  by (auto simp: leading_def find_None_iff find_Some_iff split: option.splits)
     (metis nth_mem)+

lemma leading_prefix:
  "[] \<notin> set ws \<Longrightarrow> leading ws (u @ v) = 0 \<Longrightarrow> leading ws u = 0"
  by (auto simp: leading_0_iff has_prefix_iff)

lemma spaces_no_Nil [simp]: "[] \<notin> set spaces" "[] \<notin> set (map rev spaces)"
  by (auto simp: spaces_def)

lemma trimmed_trim_space: "trimmed (trim_space s)"
proof -
  let ?t = "strip spaces s" and ?u = "strip (map rev spaces) (rev (strip spaces s))"
  obtain v where "rev ?t = v @ ?u" using strip_suffix by blast
  then have "?t = rev ?u @ rev v" by (metis rev_append rev_rev_ident)
  moreover have "leading spaces ?t = 0" by (simp add: strip_leading)
  ultimately have "leading spaces (rev ?u) = 0" by (metis leading_prefix spaces_no_Nil(1))
  moreover have "leading (map rev spaces) ?u = 0"
    using strip_leading spaces_no_Nil(2) by blast
  ultimately show ?thesis by (simp add: trimmed_def trim_space_def)
qed

lemma trim_space_idem [simp]: "trim_space (trim_space s) = trim_space s"
  by (simp add: trim_space_trimmed trimmed_trim_space)

end
