(* ===== verification/Sql.thy ===== *)
theory Sql
  imports Prelude
begin

text \<open>
  The fragment of SQLite that \<open>internal/store\<close> relies on: timestamps as \<open>CURRENT_TIMESTAMP\<close>
  writes them, \<open>ORDER BY\<close> as a stable sort by a chain of keys, tables with an
  \<open>INTEGER PRIMARY KEY AUTOINCREMENT\<close>, and the \<open>LIKE\<close> operator with an escape character.
\<close>

section \<open>Timestamps\<close>

text \<open>
  \<open>CURRENT_TIMESTAMP\<close> stores the UTC text \<open>YYYY-MM-DD HH:MM:SS\<close>, compared as text; the model
  keeps the six fields and compares them from the year down.
\<close>

datatype timestamp = TS (ts_year: nat) (ts_month: nat) (ts_day: nat)
  (ts_hour: nat) (ts_min: nat) (ts_sec: nat)

fun ts_key :: "timestamp \<Rightarrow> nat list" where
  "ts_key (TS y mo d h mi s) = [y, mo, d, h, mi, s]"

lemma ts_key_inject [simp]: "ts_key a = ts_key b \<longleftrightarrow> a = b"
  by (cases a; cases b) simp

instantiation timestamp :: linorder
begin

definition less_eq_timestamp :: "timestamp \<Rightarrow> timestamp \<Rightarrow> bool" where
  "less_eq_timestamp a b \<longleftrightarrow> ts_key a \<le> ts_key b"

definition less_timestamp :: "timestamp \<Rightarrow> timestamp \<Rightarrow> bool" where
  "less_timestamp a b \<longleftrightarrow> ts_key a < ts_key b"

instance
  by standard (auto simp: less_eq_timestamp_def less_timestamp_def order.strict_iff_order)

end

section \<open>ORDER BY\<close>

fun insert_by :: "('r \<Rightarrow> 'r \<Rightarrow> bool) \<Rightarrow> 'r \<Rightarrow> 'r list \<Rightarrow> 'r list" where
  "insert_by le x [] = [x]"
| "insert_by le x (y # ys) = (if le x y then x # y # ys else y # insert_by le x ys)"

definition sort_by :: "('r \<Rightarrow> 'r \<Rightarrow> bool) \<Rightarrow> 'r list \<Rightarrow> 'r list" where
  "sort_by le xs = foldr (insert_by le) xs []"

lemma mset_insert_by [simp]: "mset (insert_by le x ys) = add_mset x (mset ys)"
  by (induction ys) auto

lemma mset_sort_by [simp]: "mset (sort_by le xs) = mset xs"
  by (induction xs) (auto simp: sort_by_def)

lemma set_insert_by [simp]: "set (insert_by le x ys) = insert x (set ys)"
  by (induction ys) auto

lemma set_sort_by [simp]: "set (sort_by le xs) = set xs"
  by (metis mset_sort_by set_mset_mset)

lemma length_sort_by [simp]: "length (sort_by le xs) = length xs"
  by (metis mset_sort_by size_mset)

lemma sort_by_Nil [simp]: "sort_by le [] = []"
  by (simp add: sort_by_def)

text \<open>The contract of an \<open>ORDER BY\<close> clause: a total preorder on rows.\<close>

locale row_order =
  fixes le :: "'r \<Rightarrow> 'r \<Rightarrow> bool"
  assumes le_total: "le x y \<or> le y x"
    and le_trans: "le x y \<Longrightarrow> le y z \<Longrightarrow> le x z"
begin

lemma sorted_insert_by: "sorted_wrt le ys \<Longrightarrow> sorted_wrt le (insert_by le x ys)"
proof (induction ys)
  case Nil
  show ?case by simp
next
  case (Cons y ys)
  show ?case
  proof (cases "le x y")
    case True
    with Cons.prems show ?thesis by (auto intro: le_trans)
  next
    case False
    then have "le y x" using le_total by blast
    with Cons False show ?thesis by auto
  qed
qed

lemma sorted_sort_by: "sorted_wrt le (sort_by le xs)"
  by (induction xs) (auto simp: sort_by_def sorted_insert_by)

lemma sorted_take: "sorted_wrt le (take n (sort_by le xs))"
  by (simp add: sorted_sort_by sorted_wrt_take)

end

text \<open>One key of the chain, ascending or descending, before the remaining keys.\<close>

definition by_asc :: "('r \<Rightarrow> 'k::linorder) \<Rightarrow> ('r \<Rightarrow> 'r \<Rightarrow> bool) \<Rightarrow> 'r \<Rightarrow> 'r \<Rightarrow> bool" where
  "by_asc k le x y \<longleftrightarrow> k x < k y \<or> (k x = k y \<and> le x y)"

definition by_desc :: "('r \<Rightarrow> 'k::linorder) \<Rightarrow> ('r \<Rightarrow> 'r \<Rightarrow> bool) \<Rightarrow> 'r \<Rightarrow> 'r \<Rightarrow> bool" where
  "by_desc k le x y \<longleftrightarrow> k y < k x \<or> (k x = k y \<and> le x y)"

definition any_order :: "'r \<Rightarrow> 'r \<Rightarrow> bool" where
  "any_order x y = True"

lemma row_order_any [intro]: "row_order any_order"
  by standard (auto simp: any_order_def)

lemma row_order_asc [intro]:
  assumes "row_order le"
  shows "row_order (by_asc k le)"
proof
  show "by_asc k le x y \<or> by_asc k le y x" for x y
    using row_order.le_total [OF assms, of x y] by (auto simp: by_asc_def)
  show "by_asc k le x y \<Longrightarrow> by_asc k le y z \<Longrightarrow> by_asc k le x z" for x y z
    using row_order.le_trans [OF assms, of x y z] by (auto simp: by_asc_def)
qed

lemma row_order_desc [intro]:
  assumes "row_order le"
  shows "row_order (by_desc k le)"
proof
  show "by_desc k le x y \<or> by_desc k le y x" for x y
    using row_order.le_total [OF assms, of x y] by (auto simp: by_desc_def)
  show "by_desc k le x y \<Longrightarrow> by_desc k le y z \<Longrightarrow> by_desc k le x z" for x y z
    using row_order.le_trans [OF assms, of x y z] by (auto simp: by_desc_def)
qed

section \<open>Tables\<close>

definition find_row :: "('r \<Rightarrow> int) \<Rightarrow> int \<Rightarrow> 'r list \<Rightarrow> 'r option" where
  "find_row rid i rows = find (\<lambda>r. rid r = i) rows"

definition update_rows :: "('r \<Rightarrow> bool) \<Rightarrow> ('r \<Rightarrow> 'r) \<Rightarrow> 'r list \<Rightarrow> 'r list" where
  "update_rows P f rows = map (\<lambda>r. if P r then f r else r) rows"

definition delete_rows :: "('r \<Rightarrow> bool) \<Rightarrow> 'r list \<Rightarrow> 'r list" where
  "delete_rows P rows = filter (\<lambda>r. \<not> P r) rows"

text \<open>What \<open>AUTOINCREMENT\<close> keeps: ids ascend in insertion order and stay below the sequence.\<close>

definition table_ok :: "('r \<Rightarrow> int) \<Rightarrow> int \<Rightarrow> 'r list \<Rightarrow> bool" where
  "table_ok rid s rows \<longleftrightarrow>
     0 \<le> s \<and> sorted_wrt (<) (map rid rows) \<and> (\<forall>r \<in> set rows. 0 < rid r \<and> rid r \<le> s)"

lemma table_ok_empty [simp]: "table_ok rid 0 []"
  by (simp add: table_ok_def)

lemma table_ok_append:
  "table_ok rid s rows \<Longrightarrow> rid r = s + 1 \<Longrightarrow> table_ok rid (s + 1) (rows @ [r])"
  by (fastforce simp: table_ok_def sorted_wrt_append)

lemma map_rid_update:
  "(\<And>r. rid (f r) = rid r) \<Longrightarrow> map rid (update_rows P f rows) = map rid rows"
  by (simp add: update_rows_def)

lemma image_rid_update:
  "(\<And>r. rid (f r) = rid r) \<Longrightarrow> rid ` set (update_rows P f rows) = rid ` set rows"
  using map_rid_update [of rid f P rows] by (metis set_map)

lemma table_ok_later: "table_ok rid s rows \<Longrightarrow> table_ok rid (s + 1) rows"
  by (force simp: table_ok_def)

lemma table_ok_update:
  "table_ok rid s rows \<Longrightarrow> (\<And>r. rid (f r) = rid r) \<Longrightarrow> table_ok rid s (update_rows P f rows)"
  by (auto simp: table_ok_def map_rid_update) (auto simp: update_rows_def)

lemma table_ok_delete: "table_ok rid s rows \<Longrightarrow> table_ok rid s (delete_rows P rows)"
  by (auto simp: table_ok_def delete_rows_def sorted_wrt_map intro: sorted_wrt_filter)

lemma table_ok_distinct: "table_ok rid s rows \<Longrightarrow> distinct (map rid rows)"
  by (auto simp: table_ok_def strict_sorted_iff)

lemma find_row_Some: "find_row rid i rows = Some r \<Longrightarrow> r \<in> set rows \<and> rid r = i"
  by (auto simp: find_row_def find_Some_iff)

lemma find_row_None: "find_row rid i rows = None \<longleftrightarrow> i \<notin> rid ` set rows"
  by (auto simp: find_row_def find_None_iff)

lemma find_row_append:
  "find_row rid i (xs @ ys) = (case find_row rid i xs of Some r \<Rightarrow> Some r | None \<Rightarrow> find_row rid i ys)"
  by (induction xs) (auto simp: find_row_def)

lemma find_row_distinct:
  "distinct (map rid rows) \<Longrightarrow> find_row rid i rows = Some r \<longleftrightarrow> r \<in> set rows \<and> rid r = i"
proof (induction rows)
  case Nil
  show ?case by (simp add: find_row_def)
next
  case (Cons x xs)
  then show ?case by (auto simp: find_row_def image_iff)
qed

lemma find_row_update:
  assumes "\<And>r. rid (f r) = rid r"
  shows "find_row rid i (update_rows P f rows) =
    map_option (\<lambda>r. if P r then f r else r) (find_row rid i rows)"
  using assms by (induction rows) (auto simp: find_row_def update_rows_def)

lemma find_row_fresh:
  "table_ok rid s rows \<Longrightarrow> rid r = s + 1 \<Longrightarrow> find_row rid (s + 1) (rows @ [r]) = Some r"
  using find_row_distinct [OF table_ok_distinct [OF table_ok_append], of rid s rows r "s + 1" r]
  by simp

lemma set_update_rows: "set (update_rows P f rows) = f ` {r \<in> set rows. P r} \<union> {r \<in> set rows. \<not> P r}"
  by (auto simp: update_rows_def)

lemma set_delete_rows [simp]: "set (delete_rows P rows) = {r \<in> set rows. \<not> P r}"
  by (auto simp: delete_rows_def)

lemma update_rows_none: "\<forall>r \<in> set rows. \<not> P r \<Longrightarrow> update_rows P f rows = rows"
  by (simp add: update_rows_def map_idI)

text \<open>
  The interface of a table to the repository that owns it: the primitive insert appends one row
  under the next id and nothing else of the table changes. Every repository of the store is a
  client; each table of the database record is an interpretation.
\<close>

locale auto_table =
  fixes rid :: "'r \<Rightarrow> int"
    and rows :: "'d \<Rightarrow> 'r list"
    and seq :: "'d \<Rightarrow> int"
    and ins :: "(int \<Rightarrow> 'r) \<Rightarrow> 'd \<Rightarrow> int \<times> 'd"
  assumes ins_id: "fst (ins mk d) = seq d + 1"
    and ins_rows: "rows (snd (ins mk d)) = rows d @ [mk (seq d + 1)]"
    and ins_seq: "seq (snd (ins mk d)) = seq d + 1"
begin

lemma ins_table_ok:
  assumes "table_ok rid (seq d) (rows d)" and "\<And>i. rid (mk i) = i" and "ins mk d = (i, d')"
  shows "table_ok rid (seq d') (rows d')"
  using assms table_ok_append [of rid "seq d" "rows d" "mk (seq d + 1)"]
    ins_rows [of mk d] ins_seq [of mk d] by simp

lemma find_ins:
  assumes "table_ok rid (seq d) (rows d)" and "\<And>i. rid (mk i) = i" and "ins mk d = (i, d')"
  shows "find_row rid i (rows d') = Some (mk i)"
  using assms find_row_fresh [of rid "seq d" "rows d" "mk (seq d + 1)"]
    ins_rows [of mk d] ins_id [of mk d] by simp

lemma find_ins_old:
  assumes "ins mk d = (i, d')" and "find_row rid j (rows d) = Some r"
  shows "find_row rid j (rows d') = Some r"
  using assms ins_rows [of mk d] by (simp add: find_row_append)

lemma ins_fresh:
  assumes "table_ok rid (seq d) (rows d)" and "ins mk d = (i, d')"
  shows "i \<notin> rid ` set (rows d)" and "0 < i"
  using assms ins_id [of mk d] by (auto simp: table_ok_def)

end

section \<open>LIKE with ESCAPE\<close>

text \<open>
  \<open>LIKE\<close> folds ASCII case, \<open>%\<close> matches any sequence, \<open>_\<close> one character (one byte and, after a
  lead byte from \<open>0xC0\<close>, its continuation bytes), and the escape character makes the byte after
  it literal; an escape at the very end matches nothing.
\<close>

definition is_continuation :: "char \<Rightarrow> bool" where
  "is_continuation c \<longleftrightarrow> 128 \<le> byte_of c \<and> byte_of c < 192"

definition skip_char :: "char \<Rightarrow> string \<Rightarrow> string" where
  "skip_char c s = (if 192 \<le> byte_of c then dropWhile is_continuation s else s)"

function sql_like :: "string \<Rightarrow> string \<Rightarrow> bool" where
  "sql_like [] s \<longleftrightarrow> s = []"
| "sql_like (p # ps) s \<longleftrightarrow>
     (if p = CHR ''%'' then
        sql_like ps s \<or> (case s of [] \<Rightarrow> False | c # cs \<Rightarrow> sql_like (p # ps) cs)
      else case s of
        [] \<Rightarrow> False
      | c # cs \<Rightarrow>
          if p = CHR ''_'' then sql_like ps (skip_char c cs)
          else if p = CHR 0x5C then
            (case ps of
               [] \<Rightarrow> False
             | q # qs \<Rightarrow> ascii_lower c = ascii_lower q \<and> sql_like qs cs)
          else ascii_lower c = ascii_lower p \<and> sql_like ps cs)"
  by pat_completeness auto
termination
  by (relation "measures [\<lambda>(p, s). length p, \<lambda>(p, s). length s]") auto

declare sql_like.simps(2) [simp del]

lemma like_percent:
  "sql_like (CHR ''%'' # ps) s \<longleftrightarrow> (\<exists>u v. s = u @ v \<and> sql_like ps v)"
proof (induction s)
  case Nil
  show ?case by (simp add: sql_like.simps(2))
next
  case (Cons c s)
  have "sql_like (CHR ''%'' # ps) (c # s) \<longleftrightarrow>
      sql_like ps (c # s) \<or> sql_like (CHR ''%'' # ps) s"
    by (subst sql_like.simps(2)) simp
  with Cons show ?case by (auto simp: Cons_eq_append_conv)
qed

lemma like_all [simp]: "sql_like ''%'' s"
  by (simp add: like_percent)

end
