(* ===== verification/Schema.thy ===== *)
theory Schema
  imports Sql
begin

text \<open>
  The data model of \<open>internal/store\<close>: one record per row type (the Go structs, with the columns
  of \<open>internal/store/migrations\<close>), the database as a record of tables with the
  \<open>AUTOINCREMENT\<close> sequence of each, and the errors the repositories return. A nullable column is
  an option; a \<open>string\<close>-backed Go type (\<open>Role\<close>, \<open>CommentsMode\<close>, \<open>PushKind\<close>) stays a string, so
  that unknown values are representable.
\<close>

section \<open>Roles, comment modes and push kinds\<close>

type_synonym role = string

definition RoleGuest :: role where "RoleGuest = ''guest''"
definition RoleUser :: role where "RoleUser = ''user''"
definition RoleMod :: role where "RoleMod = ''mod''"
definition RoleAdmin :: role where "RoleAdmin = ''admin''"

lemmas role_defs = RoleGuest_def RoleUser_def RoleMod_def RoleAdmin_def

definition role_rank :: "role \<Rightarrow> int option" where
  "role_rank r =
    (if r = RoleGuest then Some 0 else if r = RoleUser then Some 1
     else if r = RoleMod then Some 2 else if r = RoleAdmin then Some 3 else None)"

definition role_at_least :: "role \<Rightarrow> role \<Rightarrow> bool" where
  "role_at_least r m =
    (case role_rank r of
       None \<Rightarrow> False
     | Some rr \<Rightarrow> (case role_rank m of None \<Rightarrow> False | Some mr \<Rightarrow> mr \<le> rr))"

definition role_valid :: "role \<Rightarrow> bool" where
  "role_valid r \<longleftrightarrow> role_rank r \<noteq> None"

lemma role_valid_iff: "role_valid r \<longleftrightarrow> r \<in> {RoleGuest, RoleUser, RoleMod, RoleAdmin}"
  by (simp add: role_valid_def role_rank_def)

lemma mod_rights_iff: "role_at_least r RoleMod \<longleftrightarrow> r = RoleMod \<or> r = RoleAdmin"
  by (auto simp: role_at_least_def role_rank_def role_defs)

type_synonym comments_mode = string

definition CommentsModeOpen :: comments_mode where "CommentsModeOpen = ''open''"
definition CommentsModeArrowsOnly :: comments_mode where "CommentsModeArrowsOnly = ''arrows_only''"
definition CommentsModeLocked :: comments_mode where "CommentsModeLocked = ''locked''"

lemmas mode_defs = CommentsModeOpen_def CommentsModeArrowsOnly_def CommentsModeLocked_def

definition comments_mode_valid :: "comments_mode \<Rightarrow> bool" where
  "comments_mode_valid m \<longleftrightarrow>
     m = CommentsModeOpen \<or> m = CommentsModeArrowsOnly \<or> m = CommentsModeLocked"

type_synonym push_kind = string

definition PushKindPush :: push_kind where "PushKindPush = ''push''"
definition PushKindBoo :: push_kind where "PushKindBoo = ''boo''"
definition PushKindArrow :: push_kind where "PushKindArrow = ''arrow''"

lemmas kind_defs = PushKindPush_def PushKindBoo_def PushKindArrow_def

section \<open>Rows\<close>

record user =
  uID :: int
  uUserID :: string
  uPasswordHash :: string
  uNickname :: string
  uRealName :: string
  uEmail :: string
  uNumLogins :: int
  uNumPosts :: int
  uLastLoginAt :: "timestamp option"
  uLastHost :: "string option"
  uCreatedAt :: timestamp
  uRole :: role
  uMustChangePassword :: bool
  uBio :: string
  uLocale :: string

record board =
  bID :: int
  bName :: string
  bTitle :: string
  bDescription :: string
  bBM :: string
  bAttr :: int
  bCreatedAt :: timestamp
  bBannerCol :: "string option"

record article =
  aID :: int
  aBoardID :: int
  aAuthorID :: int
  aAuthorUserID :: string
  aTitle :: string
  aBody :: string
  aRecommendScore :: int
  aFilemode :: int
  aCreatedAt :: timestamp
  aUpdatedAt :: "timestamp option"
  aPinnedAt :: "timestamp option"
  aCommentsMode :: comments_mode

record push =
  pID :: int
  pArticleID :: int
  pUserID :: int
  pUserUserID :: string
  pKind :: push_kind
  pBody :: string
  pCreatedAt :: timestamp

record water_balloon =
  wID :: int
  wFromUserID :: int
  wFromUserIDStr :: string
  wToUserID :: int
  wBody :: string
  wDeliveredLive :: bool
  wReadAt :: "timestamp option"
  wCreatedAt :: timestamp

record mail =
  mID :: int
  mThreadCol :: "int option"
  mParentID :: "int option"
  mFromUserID :: int
  mFromUserIDStr :: string
  mToUserID :: int
  mSubject :: string
  mBody :: string
  mReadAt :: "timestamp option"
  mCreatedAt :: timestamp

record notify_prefs =
  npOnPush :: bool
  npOnWB :: bool
  npOnMail :: bool
  npOnReply :: bool
  npOnlyWhenOffline :: bool

record notify_target =
  ntID :: int
  ntUserID :: int
  ntLabel :: string
  ntURL :: string
  ntEnabled :: bool
  ntCreatedAt :: timestamp

text \<open>\<open>scanBoard\<close> reads a NULL banner as the empty string.\<close>

definition bBanner :: "board \<Rightarrow> string" where
  "bBanner b = (case bBannerCol b of None \<Rightarrow> [] | Some s \<Rightarrow> s)"

section \<open>The database\<close>

record db =
  users :: "user list"
  seq_users :: int
  boards :: "board list"
  seq_boards :: int
  articles :: "article list"
  seq_articles :: int
  pushes :: "push list"
  seq_pushes :: int
  wbs :: "water_balloon list"
  seq_wbs :: int
  mails :: "mail list"
  seq_mails :: int
  prefs :: "(int \<times> notify_prefs) list"
  targets :: "notify_target list"
  seq_targets :: int

definition empty_db :: db where
  "empty_db = \<lparr>users = [], seq_users = 0, boards = [], seq_boards = 0, articles = [],
     seq_articles = 0, pushes = [], seq_pushes = 0, wbs = [], seq_wbs = 0, mails = [],
     seq_mails = 0, prefs = [], targets = [], seq_targets = 0\<rparr>"

text \<open>
  The errors of the repositories: the sentinels of \<open>internal/store\<close>, the constraint failures
  of the schema, \<open>sql.ErrNoRows\<close> where it is passed on, and a failed \<open>Scan\<close> of a NULL.
\<close>

datatype db_error =
    ErrUserNotFound
  | ErrInvalidRole
  | ErrBoardNotFound
  | ErrArticleNotFound
  | ErrPermissionDenied
  | ErrInvalidCommentsMode
  | ErrPushNotFound
  | ErrCommentsLocked
  | ErrCommentsArrowsOnly
  | ErrInvalidPushKind push_kind
  | ErrMailNotFound
  | ErrNotifyTargetNotFound
  | ErrInvalidNotifyURL
  | ErrNoRows
  | SqlUnique
  | SqlForeignKey
  | SqlCheck
  | ScanNull

type_synonym 'a res = "db_error + 'a"

definition ok_res :: "'a res \<Rightarrow> bool" where
  "ok_res r = (case r of Inl _ \<Rightarrow> False | Inr _ \<Rightarrow> True)"

lemma ok_res_simps [simp]: "ok_res (Inr x)" "\<not> ok_res (Inl e)"
  by (simp_all add: ok_res_def)

section \<open>The primitive inserts\<close>

definition ins_user :: "(int \<Rightarrow> user) \<Rightarrow> db \<Rightarrow> int \<times> db" where
  "ins_user mk d = (let i = seq_users d + 1 in (i, d\<lparr>users := users d @ [mk i], seq_users := i\<rparr>))"

definition ins_board :: "(int \<Rightarrow> board) \<Rightarrow> db \<Rightarrow> int \<times> db" where
  "ins_board mk d = (let i = seq_boards d + 1 in (i, d\<lparr>boards := boards d @ [mk i], seq_boards := i\<rparr>))"

definition ins_article :: "(int \<Rightarrow> article) \<Rightarrow> db \<Rightarrow> int \<times> db" where
  "ins_article mk d =
    (let i = seq_articles d + 1 in (i, d\<lparr>articles := articles d @ [mk i], seq_articles := i\<rparr>))"

definition ins_push :: "(int \<Rightarrow> push) \<Rightarrow> db \<Rightarrow> int \<times> db" where
  "ins_push mk d = (let i = seq_pushes d + 1 in (i, d\<lparr>pushes := pushes d @ [mk i], seq_pushes := i\<rparr>))"

definition ins_wb :: "(int \<Rightarrow> water_balloon) \<Rightarrow> db \<Rightarrow> int \<times> db" where
  "ins_wb mk d = (let i = seq_wbs d + 1 in (i, d\<lparr>wbs := wbs d @ [mk i], seq_wbs := i\<rparr>))"

definition ins_mail :: "(int \<Rightarrow> mail) \<Rightarrow> db \<Rightarrow> int \<times> db" where
  "ins_mail mk d = (let i = seq_mails d + 1 in (i, d\<lparr>mails := mails d @ [mk i], seq_mails := i\<rparr>))"

definition ins_target :: "(int \<Rightarrow> notify_target) \<Rightarrow> db \<Rightarrow> int \<times> db" where
  "ins_target mk d =
    (let i = seq_targets d + 1 in (i, d\<lparr>targets := targets d @ [mk i], seq_targets := i\<rparr>))"

lemmas ins_defs = ins_user_def ins_board_def ins_article_def ins_push_def ins_wb_def ins_mail_def
  ins_target_def Let_def

interpretation user_table: auto_table uID users seq_users ins_user
  by standard (simp_all add: ins_defs)

interpretation board_table: auto_table bID boards seq_boards ins_board
  by standard (simp_all add: ins_defs)

interpretation article_table: auto_table aID articles seq_articles ins_article
  by standard (simp_all add: ins_defs)

interpretation push_table: auto_table pID pushes seq_pushes ins_push
  by standard (simp_all add: ins_defs)

interpretation wb_table: auto_table wID wbs seq_wbs ins_wb
  by standard (simp_all add: ins_defs)

interpretation mail_table: auto_table mID mails seq_mails ins_mail
  by standard (simp_all add: ins_defs)

interpretation target_table: auto_table ntID targets seq_targets ins_target
  by standard (simp_all add: ins_defs)

section \<open>The integrity constraints\<close>

text \<open>
  What the schema and the repositories keep, table by table. The foreign keys are stated over
  the id sets of the referenced tables, so that each predicate depends on few fields.
\<close>

definition user_ids :: "db \<Rightarrow> int set" where "user_ids d = uID ` set (users d)"
definition board_ids :: "db \<Rightarrow> int set" where "board_ids d = bID ` set (boards d)"
definition article_ids :: "db \<Rightarrow> int set" where "article_ids d = aID ` set (articles d)"

lemmas id_set_defs = user_ids_def board_ids_def article_ids_def

definition users_ok :: "db \<Rightarrow> bool" where
  "users_ok d \<longleftrightarrow> table_ok uID (seq_users d) (users d)
     \<and> distinct (map (\<lambda>u. nocase (uUserID u)) (users d))
     \<and> (\<forall>u \<in> set (users d). role_valid (uRole u))"

definition boards_ok :: "db \<Rightarrow> bool" where
  "boards_ok d \<longleftrightarrow> table_ok bID (seq_boards d) (boards d)
     \<and> distinct (map (\<lambda>b. nocase (bName b)) (boards d))"

definition articles_ok :: "db \<Rightarrow> bool" where
  "articles_ok d \<longleftrightarrow> table_ok aID (seq_articles d) (articles d)
     \<and> (\<forall>a \<in> set (articles d). aBoardID a \<in> board_ids d \<and> aAuthorID a \<in> user_ids d
          \<and> comments_mode_valid (aCommentsMode a))"

definition kind_ok :: "push_kind \<Rightarrow> bool" where
  "kind_ok k \<longleftrightarrow> k = PushKindPush \<or> k = PushKindBoo \<or> k = PushKindArrow"

definition pushes_ok :: "db \<Rightarrow> bool" where
  "pushes_ok d \<longleftrightarrow> table_ok pID (seq_pushes d) (pushes d)
     \<and> (\<forall>p \<in> set (pushes d). pArticleID p \<in> article_ids d \<and> pUserID p \<in> user_ids d
          \<and> kind_ok (pKind p))"

definition wbs_ok :: "db \<Rightarrow> bool" where
  "wbs_ok d \<longleftrightarrow> table_ok wID (seq_wbs d) (wbs d)
     \<and> (\<forall>w \<in> set (wbs d). wFromUserID w \<in> user_ids d \<and> wToUserID w \<in> user_ids d)"

definition prefs_ok :: "db \<Rightarrow> bool" where
  "prefs_ok d \<longleftrightarrow> distinct (map fst (prefs d)) \<and> fst ` set (prefs d) \<subseteq> user_ids d"

end
