(* ===== verification/UserRepo.thy ===== *)
theory UserRepo
  imports Schema
begin

text \<open>
  \<open>internal/store/users.go\<close>: the user repository. A mutating operation takes the database and
  the time of the statement and returns its result with the new database; the process-wide write
  mutex makes each of them one atomic step. Reads are plain functions of the database.
\<close>

section \<open>Reads\<close>

definition users_get_by_id :: "int \<Rightarrow> db \<Rightarrow> user res" where
  "users_get_by_id i d =
    (case find_row uID i (users d) of None \<Rightarrow> Inl ErrUserNotFound | Some u \<Rightarrow> Inr u)"

definition users_get_by_user_id :: "string \<Rightarrow> db \<Rightarrow> user res" where
  "users_get_by_user_id name d =
    (case find (\<lambda>u. nocase (uUserID u) = nocase name) (users d) of
       None \<Rightarrow> Inl ErrUserNotFound
     | Some u \<Rightarrow> Inr u)"

definition users_list_all :: "int \<Rightarrow> int \<Rightarrow> db \<Rightarrow> user list" where
  "users_list_all limit offset d =
    (let limit = (if limit \<le> 0 then 20 else limit);
         offset = (if offset < 0 then 0 else offset)
     in take (nat limit) (drop (nat offset) (sort_by (by_asc uID any_order) (users d))))"

definition users_count_by_role :: "role \<Rightarrow> db \<Rightarrow> nat" where
  "users_count_by_role r d = length (filter (\<lambda>u. uRole u = r) (users d))"

section \<open>Writes\<close>

definition new_user :: "string \<Rightarrow> string \<Rightarrow> string \<Rightarrow> string \<Rightarrow> timestamp \<Rightarrow> int \<Rightarrow> user" where
  "new_user name hash nick email now i =
    \<lparr>uID = i, uUserID = name, uPasswordHash = hash, uNickname = nick, uRealName = [],
     uEmail = email, uNumLogins = 0, uNumPosts = 0, uLastLoginAt = None, uLastHost = None,
     uCreatedAt = now, uRole = RoleUser, uMustChangePassword = False, uBio = [],
     uLocale = ''zh-TW''\<rparr>"

definition user_name_taken :: "string \<Rightarrow> db \<Rightarrow> bool" where
  "user_name_taken name d \<longleftrightarrow> (\<exists>u \<in> set (users d). nocase (uUserID u) = nocase name)"

definition users_create ::
  "string \<Rightarrow> string \<Rightarrow> string \<Rightarrow> string \<Rightarrow> timestamp \<Rightarrow> db \<Rightarrow> user res \<times> db" where
  "users_create name hash nick email now d =
    (if user_name_taken name d then (Inl SqlUnique, d)
     else let (i, d') = ins_user (new_user name hash nick email now) d
          in (users_get_by_id i d', d'))"

definition users_note_login :: "int \<Rightarrow> string \<Rightarrow> timestamp \<Rightarrow> db \<Rightarrow> unit res \<times> db" where
  "users_note_login i host now d =
    (Inr (), d\<lparr>users := update_rows (\<lambda>u. uID u = i)
       (\<lambda>u. u\<lparr>uLastLoginAt := Some now, uLastHost := Some host, uNumLogins := uNumLogins u + 1\<rparr>)
       (users d)\<rparr>)"

definition users_increment_posts :: "int \<Rightarrow> db \<Rightarrow> unit res \<times> db" where
  "users_increment_posts i d =
    (Inr (), d\<lparr>users := update_rows (\<lambda>u. uID u = i) (\<lambda>u. u\<lparr>uNumPosts := uNumPosts u + 1\<rparr>)
       (users d)\<rparr>)"

definition users_insert_system_account ::
  "string \<Rightarrow> string \<Rightarrow> role \<Rightarrow> bool \<Rightarrow> timestamp \<Rightarrow> db \<Rightarrow> user res \<times> db" where
  "users_insert_system_account name hash r must now d =
    (if \<not> role_valid r then (Inl SqlCheck, d)
     else if user_name_taken name d then (Inl SqlUnique, d)
     else let (i, d') = ins_user
                (\<lambda>i. (new_user name hash [] [] now i)\<lparr>uRole := r, uMustChangePassword := must\<rparr>) d
          in (users_get_by_id i d', d'))"

definition users_set_password :: "int \<Rightarrow> string \<Rightarrow> db \<Rightarrow> unit res \<times> db" where
  "users_set_password i hash d =
    (Inr (), d\<lparr>users := update_rows (\<lambda>u. uID u = i)
       (\<lambda>u. u\<lparr>uPasswordHash := hash, uMustChangePassword := False\<rparr>) (users d)\<rparr>)"

definition users_set_locale :: "int \<Rightarrow> string \<Rightarrow> db \<Rightarrow> unit res \<times> db" where
  "users_set_locale i loc d =
    (Inr (), d\<lparr>users := update_rows (\<lambda>u. uID u = i) (\<lambda>u. u\<lparr>uLocale := loc\<rparr>) (users d)\<rparr>)"

definition users_set_bio :: "int \<Rightarrow> string \<Rightarrow> db \<Rightarrow> unit res \<times> db" where
  "users_set_bio i bio d =
    (Inr (), d\<lparr>users := update_rows (\<lambda>u. uID u = i) (\<lambda>u. u\<lparr>uBio := bio\<rparr>) (users d)\<rparr>)"

definition users_set_role :: "int \<Rightarrow> role \<Rightarrow> db \<Rightarrow> unit res \<times> db" where
  "users_set_role i r d =
    (if \<not> role_valid r then (Inl ErrInvalidRole, d)
     else (Inr (), d\<lparr>users := update_rows (\<lambda>u. uID u = i) (\<lambda>u. u\<lparr>uRole := r\<rparr>) (users d)\<rparr>))"

lemmas user_write_defs = users_note_login_def users_increment_posts_def users_set_password_def
  users_set_locale_def users_set_bio_def users_set_role_def

lemmas user_insert_defs = users_create_def users_insert_system_account_def

section \<open>Lookups\<close>

lemma get_by_id_Inr: "users_get_by_id i d = Inr u \<Longrightarrow> u \<in> set (users d) \<and> uID u = i"
  by (auto simp: users_get_by_id_def split: option.splits dest: find_row_Some)

lemma get_by_id_iff:
  "users_ok d \<Longrightarrow> users_get_by_id i d = Inr u \<longleftrightarrow> u \<in> set (users d) \<and> uID u = i"
  using find_row_distinct [OF table_ok_distinct, of uID "seq_users d" "users d" i u]
  by (auto simp: users_ok_def users_get_by_id_def split: option.splits)

lemma get_by_user_id_Inr:
  "users_get_by_user_id name d = Inr u \<Longrightarrow> u \<in> set (users d) \<and> nocase (uUserID u) = nocase name"
  by (auto simp: users_get_by_user_id_def find_Some_iff split: option.splits)

lemma get_by_user_id_Inl: "users_get_by_user_id name d = Inl e \<Longrightarrow> e = ErrUserNotFound"
  by (auto simp: users_get_by_user_id_def split: option.splits)

lemma get_by_user_id_taken: "user_name_taken name d \<longleftrightarrow> ok_res (users_get_by_user_id name d)"
  by (auto simp: users_get_by_user_id_def user_name_taken_def ok_res_def find_None_iff find_Some_iff
      split: option.splits)

lemma distinct_key_eq:
  "distinct (map f xs) \<Longrightarrow> x \<in> set xs \<Longrightarrow> y \<in> set xs \<Longrightarrow> f x = f y \<Longrightarrow> x = y"
  by (auto simp: distinct_map inj_on_def)

lemma get_by_user_id_iff:
  assumes "users_ok d"
  shows "users_get_by_user_id name d = Inr u \<longleftrightarrow>
    u \<in> set (users d) \<and> nocase (uUserID u) = nocase name" (is "?L \<longleftrightarrow> ?R")
proof
  show "?L \<Longrightarrow> ?R" by (rule get_by_user_id_Inr)
next
  assume R: ?R
  then have "user_name_taken name d" by (auto simp: user_name_taken_def)
  then obtain v where v: "users_get_by_user_id name d = Inr v"
    by (cases "users_get_by_user_id name d") (auto simp: get_by_user_id_taken)
  from get_by_user_id_Inr [OF v] R assms have "v = u"
    by (auto simp: users_ok_def intro: distinct_key_eq)
  with v show ?L by simp
qed

section \<open>The users table keeps its invariant\<close>

lemma user_ids_update:
  "(\<And>u. uID (f u) = uID u) \<Longrightarrow> user_ids (d\<lparr>users := update_rows P f (users d)\<rparr>) = user_ids d"
  by (simp add: user_ids_def image_rid_update)

lemma users_ok_update:
  assumes "users_ok d" and "\<And>u. uID (f u) = uID u" and "\<And>u. uUserID (f u) = uUserID u"
    and "\<And>u. role_valid (uRole u) \<Longrightarrow> role_valid (uRole (f u))"
  shows "users_ok (d\<lparr>users := update_rows P f (users d)\<rparr>)"
proof -
  have "map (\<lambda>u. nocase (uUserID u)) (update_rows P f (users d)) =
      map (\<lambda>u. nocase (uUserID u)) (users d)"
    using assms(3) by (simp add: update_rows_def)
  then show ?thesis
    using assms by (auto simp: users_ok_def table_ok_update set_update_rows)
qed

lemma users_ok_insert:
  assumes "users_ok d" and "\<not> user_name_taken name d"
    and "\<And>i. uID (mk i) = i" and "\<And>i. uUserID (mk i) = name" and "\<And>i. role_valid (uRole (mk i))"
    and "ins_user mk d = (i, d')"
  shows "users_ok d'"
proof -
  have "users d' = users d @ [mk (seq_users d + 1)]" and "seq_users d' = seq_users d + 1"
    using assms(6) by (auto simp: ins_defs)
  moreover have "nocase name \<notin> (\<lambda>u. nocase (uUserID u)) ` set (users d)"
    using assms(2) by (auto simp: user_name_taken_def)
  ultimately show ?thesis
    using assms user_table.ins_table_ok [of d mk i d'] by (auto simp: users_ok_def)
qed

lemma users_write_ok:
  "users_ok d \<Longrightarrow> users_ok (snd (users_note_login i host now d))"
  "users_ok d \<Longrightarrow> users_ok (snd (users_increment_posts i d))"
  "users_ok d \<Longrightarrow> users_ok (snd (users_set_password i hash d))"
  "users_ok d \<Longrightarrow> users_ok (snd (users_set_locale i loc d))"
  "users_ok d \<Longrightarrow> users_ok (snd (users_set_bio i bio d))"
  "users_ok d \<Longrightarrow> users_ok (snd (users_set_role i r d))"
  by (auto simp: user_write_defs intro!: users_ok_update)

lemma new_user_sel [simp]:
  "uID (new_user name hash nick email now i) = i"
  "uUserID (new_user name hash nick email now i) = name"
  "uRole (new_user name hash nick email now i) = RoleUser"
  "uPasswordHash (new_user name hash nick email now i) = hash"
  by (simp_all add: new_user_def)

lemma role_valid_consts [simp]:
  "role_valid RoleGuest" "role_valid RoleUser" "role_valid RoleMod" "role_valid RoleAdmin"
  by (simp_all add: role_valid_iff)

lemma users_create_ok: "users_ok d \<Longrightarrow> users_ok (snd (users_create name hash nick email now d))"
  using users_ok_insert [of d name "new_user name hash nick email now"]
  by (auto simp: users_create_def split: prod.splits)

lemma users_insert_system_account_ok:
  "users_ok d \<Longrightarrow> users_ok (snd (users_insert_system_account name hash r must now d))"
  using users_ok_insert [of d name
    "\<lambda>i. (new_user name hash [] [] now i)\<lparr>uRole := r, uMustChangePassword := must\<rparr>"]
  by (auto simp: users_insert_system_account_def split: prod.splits)

section \<open>What each write does\<close>

lemma users_create_spec:
  assumes "users_ok d" and "\<not> user_name_taken name d"
  shows "users_create name hash nick email now d =
    (Inr (new_user name hash nick email now (seq_users d + 1)),
     d\<lparr>users := users d @ [new_user name hash nick email now (seq_users d + 1)],
       seq_users := seq_users d + 1\<rparr>)"
proof -
  let ?mk = "new_user name hash nick email now"
  obtain i d' where ins: "ins_user ?mk d = (i, d')" by (cases "ins_user ?mk d") auto
  then have "find_row uID i (users d') = Some (?mk i)"
    using assms(1) by (intro user_table.find_ins) (auto simp: users_ok_def)
  with ins assms(2) show ?thesis
    by (auto simp: users_create_def users_get_by_id_def ins_defs)
qed

lemma users_create_taken:
  "user_name_taken name d \<Longrightarrow> users_create name hash nick email now d = (Inl SqlUnique, d)"
  by (simp add: users_create_def)

lemma get_by_id_update:
  assumes "\<And>u. uID (f u) = uID u"
  shows "users_get_by_id j (d\<lparr>users := update_rows P f (users d)\<rparr>) =
    (case users_get_by_id j d of Inl e \<Rightarrow> Inl e | Inr u \<Rightarrow> Inr (if P u then f u else u))"
  using find_row_update [of uID f j P "users d"] assms
  by (auto simp: users_get_by_id_def split: option.splits)

text \<open>A page of the user list is a contiguous, ascending part of the table.\<close>

lemma sort_by_id_table:
  "table_ok rid s rows \<Longrightarrow> sort_by (by_asc rid any_order) rows = rows"
proof -
  assume "table_ok rid s rows"
  then have "sorted_wrt (<) (map rid rows)" by (simp add: table_ok_def)
  then show ?thesis
  proof (induction rows)
    case Nil
    show ?case by simp
  next
    case (Cons r rows)
    then have "sort_by (by_asc rid any_order) (r # rows) = insert_by (by_asc rid any_order) r rows"
      by (simp add: sort_by_def)
    also have "\<dots> = r # rows"
      using Cons.prems by (cases rows) (auto simp: by_asc_def)
    finally show ?case .
  qed
qed

end
