(* ===== verification/BoardRepo.thy ===== *)
theory BoardRepo
  imports UserRepo
begin

text \<open>\<open>internal/store/boards.go\<close>: the board repository.\<close>

definition boards_list :: "db \<Rightarrow> board list" where
  "boards_list d = sort_by (by_asc (\<lambda>b. nocase (bName b)) any_order) (boards d)"

definition boards_get_by_id :: "int \<Rightarrow> db \<Rightarrow> board res" where
  "boards_get_by_id i d =
    (case find_row bID i (boards d) of None \<Rightarrow> Inl ErrBoardNotFound | Some b \<Rightarrow> Inr b)"

definition boards_get_by_name :: "string \<Rightarrow> db \<Rightarrow> board res" where
  "boards_get_by_name name d =
    (case find (\<lambda>b. nocase (bName b) = nocase name) (boards d) of
       None \<Rightarrow> Inl ErrBoardNotFound
     | Some b \<Rightarrow> Inr b)"

text \<open>The three boards of the seed, their titles in UTF-8.\<close>

definition default_boards :: "(string \<times> string \<times> string) list" where
  "default_boards =
    [(''Welcome'',
      [CHR 0xE6, CHR 0xAD, CHR 0xA1, CHR 0xE8, CHR 0xBF, CHR 0x8E, CHR 0xE4, CHR 0xBE, CHR 0x86,
       CHR 0xE5, CHR 0x88, CHR 0xB0] @ '' SSH-BBS'',
      ''System welcome and announcements''),
     (''Test'',
      [CHR 0xE6, CHR 0xB8, CHR 0xAC, CHR 0xE8, CHR 0xA9, CHR 0xA6, CHR 0xE6, CHR 0x9D, CHR 0xBF],
      ''Try things here. Posts may be cleared periodically.''),
     (''ChitChat'', [CHR 0xE9, CHR 0x96, CHR 0x92, CHR 0xE8, CHR 0x81, CHR 0x8A],
      ''General chat. Be kind.'')]"

definition new_board :: "string \<Rightarrow> string \<Rightarrow> string \<Rightarrow> timestamp \<Rightarrow> int \<Rightarrow> board" where
  "new_board name title desc now i =
    \<lparr>bID = i, bName = name, bTitle = title, bDescription = desc, bBM = [], bAttr = 0,
     bCreatedAt = now, bBannerCol = None\<rparr>"

definition board_name_taken :: "string \<Rightarrow> db \<Rightarrow> bool" where
  "board_name_taken name d \<longleftrightarrow> (\<exists>b \<in> set (boards d). nocase (bName b) = nocase name)"

text \<open>\<open>INSERT OR IGNORE\<close>: a row that would violate the unique name is skipped; SQLite has chosen its id by then, so the
  \<open>AUTOINCREMENT\<close> counter advances all the same.\<close>

definition insert_or_ignore_board :: "timestamp \<Rightarrow> string \<times> string \<times> string \<Rightarrow> db \<Rightarrow> db" where
  "insert_or_ignore_board now row d =
    (case row of (name, title, desc) \<Rightarrow>
       if board_name_taken name d then d\<lparr>seq_boards := seq_boards d + 1\<rparr>
       else snd (ins_board (new_board name title desc now) d))"

definition boards_seed_defaults :: "timestamp \<Rightarrow> db \<Rightarrow> unit res \<times> db" where
  "boards_seed_defaults now d = (Inr (), fold (insert_or_ignore_board now) default_boards d)"

definition boards_update_banner :: "int \<Rightarrow> int \<Rightarrow> role \<Rightarrow> string \<Rightarrow> db \<Rightarrow> unit res \<times> db" where
  "boards_update_banner board_id requester r banner d =
    (if \<not> role_at_least r RoleMod then (Inl ErrPermissionDenied, d)
     else case find_row bID board_id (boards d) of
       None \<Rightarrow> (Inl ErrBoardNotFound, d)
     | Some _ \<Rightarrow> (Inr (), d\<lparr>boards := update_rows (\<lambda>b. bID b = board_id)
                      (\<lambda>b. b\<lparr>bBannerCol := Some banner\<rparr>) (boards d)\<rparr>))"

section \<open>Facts\<close>

lemma new_board_sel [simp]:
  "bID (new_board name title desc now i) = i" "bName (new_board name title desc now i) = name"
  by (simp_all add: new_board_def)

lemma row_order_board_name: "row_order (by_asc (\<lambda>b. nocase (bName b)) any_order)"
  by (intro row_order_asc row_order_any)

interpretation board_list_order: row_order "by_asc (\<lambda>b. nocase (bName b)) any_order"
  by (rule row_order_board_name)

lemma boards_ok_update:
  assumes "boards_ok d" and "\<And>b. bID (f b) = bID b" and "\<And>b. bName (f b) = bName b"
  shows "boards_ok (d\<lparr>boards := update_rows P f (boards d)\<rparr>)"
proof -
  have "map (\<lambda>b. nocase (bName b)) (update_rows P f (boards d)) =
      map (\<lambda>b. nocase (bName b)) (boards d)"
    using assms(3) by (simp add: update_rows_def)
  then show ?thesis using assms by (auto simp: boards_ok_def table_ok_update)
qed

lemma boards_update_banner_ok:
  "boards_ok d \<Longrightarrow> boards_ok (snd (boards_update_banner i req r banner d))"
  by (auto simp: boards_update_banner_def intro!: boards_ok_update split: option.splits)

lemma insert_or_ignore_ok:
  assumes "boards_ok d"
  shows "boards_ok (insert_or_ignore_board now row d)"
proof (cases row)
  case (fields name title desc)
  show ?thesis
  proof (cases "board_name_taken name d")
    case True
    with assms fields show ?thesis by (simp add: insert_or_ignore_board_def boards_ok_def table_ok_later)
  next
    case False
    let ?mk = "new_board name title desc now"
    have "nocase name \<notin> (\<lambda>b. nocase (bName b)) ` set (boards d)"
      using False by (auto simp: board_name_taken_def)
    with assms board_table.ins_table_ok [of d ?mk] False fields show ?thesis
      by (auto simp: insert_or_ignore_board_def boards_ok_def ins_board_def Let_def)
  qed
qed

lemma fold_insert_or_ignore_ok:
  "boards_ok d \<Longrightarrow> boards_ok (fold (insert_or_ignore_board now) rows d)"
  by (induction rows arbitrary: d) (simp_all add: insert_or_ignore_ok)

lemma boards_seed_defaults_ok: "boards_ok d \<Longrightarrow> boards_ok (snd (boards_seed_defaults now d))"
  by (simp add: boards_seed_defaults_def fold_insert_or_ignore_ok)

lemma insert_or_ignore_taken:
  "board_name_taken name d \<Longrightarrow> board_name_taken name (insert_or_ignore_board now row d)"
  by (auto simp: insert_or_ignore_board_def board_name_taken_def ins_board_def Let_def
      split: prod.splits)

lemma insert_or_ignore_takes: "board_name_taken (fst row) (insert_or_ignore_board now row d)"
  by (auto simp: insert_or_ignore_board_def board_name_taken_def ins_board_def Let_def
      split: prod.splits)

lemma fold_insert_keeps:
  "board_name_taken name d \<Longrightarrow> board_name_taken name (fold (insert_or_ignore_board now) rows d)"
  by (induction rows arbitrary: d) (simp_all add: insert_or_ignore_taken)

lemma fold_insert_takes:
  "row \<in> set rows \<Longrightarrow> board_name_taken (fst row) (fold (insert_or_ignore_board now) rows d)"
proof (induction rows arbitrary: d)
  case Nil
  then show ?case by simp
next
  case (Cons r rows)
  then show ?case
    using fold_insert_keeps [OF insert_or_ignore_takes [of row now d], of now rows] by force
qed

lemma fold_insert_noop:
  "\<forall>row \<in> set rows. board_name_taken (fst row) d \<Longrightarrow>
    fold (insert_or_ignore_board now) rows d = d\<lparr>seq_boards := seq_boards d + int (length rows)\<rparr>"
proof (induction rows arbitrary: d)
  case (Cons row rows)
  let ?e = "d\<lparr>seq_boards := seq_boards d + 1\<rparr>"
  have "insert_or_ignore_board now row d = ?e" using Cons.prems by (auto simp: insert_or_ignore_board_def split: prod.splits)
  moreover have "\<forall>r \<in> set rows. board_name_taken (fst r) ?e" using Cons.prems by (simp add: board_name_taken_def)
  ultimately show ?case using Cons.IH [of ?e] by simp
qed simp

lemma boards_get_by_name_Inr:
  "boards_get_by_name name d = Inr b \<Longrightarrow> b \<in> set (boards d) \<and> nocase (bName b) = nocase name"
  by (auto simp: boards_get_by_name_def find_Some_iff split: option.splits)

end
