(* ===== verification/ArticleRepo.thy ===== *)
theory ArticleRepo
  imports BoardRepo
begin

text \<open>\<open>internal/store/articles.go\<close>: listing, searching, creating, editing and moderating articles.\<close>

section \<open>Listing\<close>

datatype article_sort = SortNewestFirst | SortByScoreDesc

record list_articles_opts =
  loLimit :: int
  loTitleSearch :: string
  loSort :: article_sort

text \<open>\<open>likeEscape\<close>: a backslash before each of backslash, percent and underscore.\<close>

definition like_escape_char :: "char \<Rightarrow> string" where
  "like_escape_char c =
    (if c = CHR 0x5C then [CHR 0x5C, CHR 0x5C]
     else if c = CHR ''%'' then [CHR 0x5C, CHR ''%'']
     else if c = CHR ''_'' then [CHR 0x5C, CHR ''_'']
     else [c])"

definition like_escape :: "string \<Rightarrow> string" where
  "like_escape q = concat (map like_escape_char q)"

definition title_matches :: "string \<Rightarrow> article \<Rightarrow> bool" where
  "title_matches search a =
    (let q = trim_space search
     in q = [] \<or> sql_like (''%'' @ like_escape q @ ''%'') (aTitle a))"

definition newest_first :: "article \<Rightarrow> article \<Rightarrow> bool" where
  "newest_first = by_asc (\<lambda>a. aPinnedAt a = None) (by_desc aCreatedAt (by_desc aID any_order))"

definition score_first :: "article \<Rightarrow> article \<Rightarrow> bool" where
  "score_first = by_asc (\<lambda>a. aPinnedAt a = None)
     (by_desc aRecommendScore (by_desc aCreatedAt (by_desc aID any_order)))"

definition article_order :: "article_sort \<Rightarrow> article \<Rightarrow> article \<Rightarrow> bool" where
  "article_order s = (case s of SortNewestFirst \<Rightarrow> newest_first | SortByScoreDesc \<Rightarrow> score_first)"

definition articles_list_by_board_opts ::
  "int \<Rightarrow> list_articles_opts \<Rightarrow> db \<Rightarrow> article list" where
  "articles_list_by_board_opts board_id opts d =
    (let limit = (if loLimit opts \<le> 0 then 50 else loLimit opts)
     in take (nat limit) (sort_by (article_order (loSort opts))
          (filter (\<lambda>a. aBoardID a = board_id \<and> title_matches (loTitleSearch opts) a) (articles d))))"

definition articles_list_by_board :: "int \<Rightarrow> int \<Rightarrow> db \<Rightarrow> article list" where
  "articles_list_by_board board_id limit d =
    articles_list_by_board_opts board_id
      \<lparr>loLimit = limit, loTitleSearch = [], loSort = SortNewestFirst\<rparr> d"

definition articles_get_by_id :: "int \<Rightarrow> db \<Rightarrow> article res" where
  "articles_get_by_id i d =
    (case find_row aID i (articles d) of None \<Rightarrow> Inl ErrArticleNotFound | Some a \<Rightarrow> Inr a)"

text \<open>The neighbours: the first id of the descending (ascending) list below (above), or 0.\<close>

definition first_id :: "int list \<Rightarrow> int" where
  "first_id is = (case is of [] \<Rightarrow> 0 | i # _ \<Rightarrow> i)"

definition articles_neighbours_of :: "int \<Rightarrow> int \<Rightarrow> db \<Rightarrow> int \<times> int" where
  "articles_neighbours_of board_id article_id d =
    (let ids = map aID (filter (\<lambda>a. aBoardID a = board_id) (articles d))
     in (first_id (sort_by (by_desc id any_order) (filter (\<lambda>i. i < article_id) ids)),
         first_id (sort_by (by_asc id any_order) (filter (\<lambda>i. article_id < i) ids))))"

section \<open>Writes\<close>

definition new_article ::
  "int \<Rightarrow> int \<Rightarrow> string \<Rightarrow> string \<Rightarrow> string \<Rightarrow> timestamp \<Rightarrow> int \<Rightarrow> article" where
  "new_article board_id author_id author_name title body now i =
    \<lparr>aID = i, aBoardID = board_id, aAuthorID = author_id, aAuthorUserID = author_name,
     aTitle = title, aBody = body, aRecommendScore = 0, aFilemode = 0, aCreatedAt = now,
     aUpdatedAt = None, aPinnedAt = None, aCommentsMode = CommentsModeOpen\<rparr>"

definition articles_create ::
  "int \<Rightarrow> int \<Rightarrow> string \<Rightarrow> string \<Rightarrow> string \<Rightarrow> timestamp \<Rightarrow> db \<Rightarrow> article res \<times> db" where
  "articles_create board_id author_id author_name title body now d =
    (if board_id \<notin> board_ids d \<or> author_id \<notin> user_ids d then (Inl SqlForeignKey, d)
     else let (i, d') = ins_article (new_article board_id author_id author_name title body now) d
          in (articles_get_by_id i d', d'))"

definition articles_delete :: "int \<Rightarrow> int \<Rightarrow> role \<Rightarrow> db \<Rightarrow> unit res \<times> db" where
  "articles_delete article_id requester r d =
    (case find_row aID article_id (articles d) of
       None \<Rightarrow> (Inl ErrArticleNotFound, d)
     | Some a \<Rightarrow>
         if aAuthorID a \<noteq> requester \<and> \<not> role_at_least r RoleMod then (Inl ErrPermissionDenied, d)
         else (Inr (), d\<lparr>articles := delete_rows (\<lambda>a. aID a = article_id) (articles d),
                         pushes := delete_rows (\<lambda>p. pArticleID p = article_id) (pushes d)\<rparr>))"

definition article_repo_update ::
  "int \<Rightarrow> int \<Rightarrow> role \<Rightarrow> string \<Rightarrow> string \<Rightarrow> timestamp \<Rightarrow> db \<Rightarrow> unit res \<times> db" where
  "article_repo_update article_id requester r title body now d =
    (case find_row aID article_id (articles d) of
       None \<Rightarrow> (Inl ErrArticleNotFound, d)
     | Some a \<Rightarrow>
         if aAuthorID a \<noteq> requester \<and> \<not> role_at_least r RoleMod then (Inl ErrPermissionDenied, d)
         else (Inr (), d\<lparr>articles := update_rows (\<lambda>a. aID a = article_id)
                 (\<lambda>a. a\<lparr>aTitle := title, aBody := body, aUpdatedAt := Some now\<rparr>) (articles d)\<rparr>))"

definition articles_set_pinned ::
  "int \<Rightarrow> int \<Rightarrow> role \<Rightarrow> bool \<Rightarrow> timestamp \<Rightarrow> db \<Rightarrow> unit res \<times> db" where
  "articles_set_pinned article_id requester r pinned now d =
    (if \<not> role_at_least r RoleMod then (Inl ErrPermissionDenied, d)
     else case find_row aID article_id (articles d) of
       None \<Rightarrow> (Inl ErrArticleNotFound, d)
     | Some _ \<Rightarrow> (Inr (), d\<lparr>articles := update_rows (\<lambda>a. aID a = article_id)
                    (\<lambda>a. a\<lparr>aPinnedAt := (if pinned then Some now else None)\<rparr>) (articles d)\<rparr>))"

definition articles_set_comments_mode ::
  "int \<Rightarrow> int \<Rightarrow> role \<Rightarrow> comments_mode \<Rightarrow> db \<Rightarrow> unit res \<times> db" where
  "articles_set_comments_mode article_id requester r m d =
    (if \<not> comments_mode_valid m then (Inl ErrInvalidCommentsMode, d)
     else if \<not> role_at_least r RoleMod then (Inl ErrPermissionDenied, d)
     else case find_row aID article_id (articles d) of
       None \<Rightarrow> (Inl ErrArticleNotFound, d)
     | Some _ \<Rightarrow> (Inr (), d\<lparr>articles := update_rows (\<lambda>a. aID a = article_id)
                    (\<lambda>a. a\<lparr>aCommentsMode := m\<rparr>) (articles d)\<rparr>))"

lemmas article_mod_defs = article_repo_update_def articles_set_pinned_def articles_set_comments_mode_def

lemma new_article_sel [simp]:
  "aID (new_article b u n t s now i) = i" "aBoardID (new_article b u n t s now i) = b"
  "aAuthorID (new_article b u n t s now i) = u" "aTitle (new_article b u n t s now i) = t"
  "aBody (new_article b u n t s now i) = s" "aRecommendScore (new_article b u n t s now i) = 0"
  "aCommentsMode (new_article b u n t s now i) = CommentsModeOpen"
  "aPinnedAt (new_article b u n t s now i) = None"
  "aAuthorUserID (new_article b u n t s now i) = n"
  "aCreatedAt (new_article b u n t s now i) = now"
  by (simp_all add: new_article_def)

section \<open>Order\<close>

interpretation newest: row_order newest_first
  unfolding newest_first_def by (intro row_order_asc row_order_desc row_order_any)

interpretation score_order: row_order score_first
  unfolding score_first_def by (intro row_order_asc row_order_desc row_order_any)

lemma row_order_article: "row_order (article_order s)"
  using newest.row_order_axioms score_order.row_order_axioms
  by (cases s) (simp_all add: article_order_def)

lemma article_order_pinned:
  "article_order s a b \<Longrightarrow> aPinnedAt b \<noteq> None \<Longrightarrow> aPinnedAt a \<noteq> None"
  by (cases s) (auto simp: article_order_def newest_first_def score_first_def by_asc_def)

lemma list_by_board_sorted:
  "sorted_wrt (article_order (loSort opts)) (articles_list_by_board_opts b opts d)"
  unfolding articles_list_by_board_opts_def Let_def
  by (rule row_order.sorted_take [OF row_order_article])

lemma list_by_board_set:
  "set (articles_list_by_board_opts b opts d) \<subseteq>
    {a \<in> set (articles d). aBoardID a = b \<and> title_matches (loTitleSearch opts) a}"
proof
  fix a assume "a \<in> set (articles_list_by_board_opts b opts d)"
  then have "a \<in> set (sort_by (article_order (loSort opts))
      (filter (\<lambda>a. aBoardID a = b \<and> title_matches (loTitleSearch opts) a) (articles d)))"
    unfolding articles_list_by_board_opts_def Let_def by (rule in_set_takeD)
  then show "a \<in> {a \<in> set (articles d). aBoardID a = b \<and> title_matches (loTitleSearch opts) a}"
    by simp
qed

section \<open>Search\<close>

lemma like_literal:
  "sql_like (like_escape_char q @ ps) s \<longleftrightarrow>
    (\<exists>c cs. s = c # cs \<and> ascii_lower c = ascii_lower q \<and> sql_like ps cs)"
  by (cases s) (auto simp: like_escape_char_def sql_like.simps(2))

lemma like_escape_append:
  "sql_like (like_escape q @ ps) s \<longleftrightarrow>
    (\<exists>u v. s = u @ v \<and> nocase u = nocase q \<and> sql_like ps v)"
proof (induction q arbitrary: s)
  case Nil
  show ?case by (simp add: like_escape_def)
next
  case (Cons c q)
  have "sql_like (like_escape (c # q) @ ps) s \<longleftrightarrow>
      (\<exists>x xs. s = x # xs \<and> ascii_lower x = ascii_lower c \<and> sql_like (like_escape q @ ps) xs)"
    by (simp add: like_escape_def like_literal)
  also have "\<dots> \<longleftrightarrow> (\<exists>x u v. s = x # u @ v \<and> ascii_lower x = ascii_lower c \<and> nocase u = nocase q
      \<and> sql_like ps v)"
    using Cons.IH by blast
  also have "\<dots> \<longleftrightarrow> (\<exists>u v. s = u @ v \<and> nocase u = nocase (c # q) \<and> sql_like ps v)"
  proof
    assume "\<exists>x u v. s = x # u @ v \<and> ascii_lower x = ascii_lower c \<and> nocase u = nocase q
      \<and> sql_like ps v"
    then obtain x u v where "s = (x # u) @ v" "nocase (x # u) = nocase (c # q)" "sql_like ps v"
      by auto
    then show "\<exists>u v. s = u @ v \<and> nocase u = nocase (c # q) \<and> sql_like ps v" by blast
  next
    assume "\<exists>u v. s = u @ v \<and> nocase u = nocase (c # q) \<and> sql_like ps v"
    then obtain u v where "s = u @ v" "nocase u = nocase (c # q)" "sql_like ps v" by blast
    then show "\<exists>x u v. s = x # u @ v \<and> ascii_lower x = ascii_lower c \<and> nocase u = nocase q
      \<and> sql_like ps v" by (cases u) auto
  qed
  finally show ?case .
qed

lemma map_middle:
  "(\<exists>u w v. t = u @ w @ v \<and> map f w = q) \<longleftrightarrow> (\<exists>u v. map f t = u @ q @ v)"
proof
  assume "\<exists>u v. map f t = u @ q @ v"
  then obtain u v where "map f t = u @ q @ v" by blast
  then obtain a b where "t = a @ b" and b: "q @ v = map f b"
    unfolding map_eq_append_conv by blast
  moreover from b [symmetric] obtain w z where "b = w @ z" "map f w = q"
    unfolding map_eq_append_conv by blast
  ultimately show "\<exists>u w v. t = u @ w @ v \<and> map f w = q" by blast
next
  assume "\<exists>u w v. t = u @ w @ v \<and> map f w = q"
  then obtain u w v where "map f t = map f u @ q @ map f v" by auto
  then show "\<exists>u v. map f t = u @ q @ v" by blast
qed

lemma like_search_contains:
  "sql_like (''%'' @ like_escape q @ ''%'') t \<longleftrightarrow> str_contains (nocase t) (nocase q)"
proof -
  have "sql_like (''%'' @ like_escape q @ ''%'') t \<longleftrightarrow>
      (\<exists>u w v. t = u @ w @ v \<and> nocase w = nocase q)"
    by (auto simp: like_percent like_escape_append)
  also have "\<dots> \<longleftrightarrow> (\<exists>u v. nocase t = u @ nocase q @ v)"
    unfolding nocase_def by (rule map_middle)
  finally show ?thesis by (simp add: str_contains_iff)
qed

section \<open>Neighbours\<close>

lemma first_id_sorted:
  assumes "row_order le"
  shows "is = [] \<and> first_id (sort_by le is) = 0
    \<or> first_id (sort_by le is) \<in> set is \<and> (\<forall>i \<in> set is. le (first_id (sort_by le is)) i \<or> i = first_id (sort_by le is))"
proof (cases "sort_by le is")
  case Nil
  then have "is = []" using set_sort_by [of le "is"] by simp
  then show ?thesis by (simp add: first_id_def)
next
  case (Cons x xs)
  then have "sorted_wrt le (x # xs)" by (metis assms row_order.sorted_sort_by)
  moreover have "set is = insert x (set xs)" using Cons set_sort_by [of le "is"] by simp
  ultimately show ?thesis using Cons by (auto simp: first_id_def)
qed

lemma first_id_desc:
  "first_id (sort_by (by_desc id any_order) is) = (if is = [] then 0 else Max (set is))"
proof -
  have "row_order (by_desc (id :: int \<Rightarrow> int) any_order)" by (intro row_order_desc row_order_any)
  from first_id_sorted [OF this, of "is"] show ?thesis
    by (auto simp: by_desc_def intro!: Max_eqI [symmetric])
qed

lemma first_id_asc:
  "first_id (sort_by (by_asc id any_order) is) = (if is = [] then 0 else Min (set is))"
proof -
  have "row_order (by_asc (id :: int \<Rightarrow> int) any_order)" by (intro row_order_asc row_order_any)
  from first_id_sorted [OF this, of "is"] show ?thesis
    by (auto simp: by_asc_def intro!: Min_eqI [symmetric])
qed

section \<open>Invariant\<close>

lemma articles_ok_update:
  assumes "articles_ok d" and "\<And>a. aID (f a) = aID a" and "\<And>a. aBoardID (f a) = aBoardID a"
    and "\<And>a. aAuthorID (f a) = aAuthorID a"
    and "\<And>a. comments_mode_valid (aCommentsMode a) \<Longrightarrow> comments_mode_valid (aCommentsMode (f a))"
  shows "articles_ok (d\<lparr>articles := update_rows P f (articles d)\<rparr>)"
  using assms
  by (auto simp: articles_ok_def table_ok_update set_update_rows board_ids_def user_ids_def)

lemma article_mod_ok:
  "articles_ok d \<Longrightarrow> articles_ok (snd (article_repo_update i u r t b now d))"
  "articles_ok d \<Longrightarrow> articles_ok (snd (articles_set_pinned i u r pin now d))"
  "articles_ok d \<Longrightarrow> articles_ok (snd (articles_set_comments_mode i u r m d))"
  by (auto simp: article_mod_defs intro!: articles_ok_update split: option.splits)

lemma mode_open_valid [simp]: "comments_mode_valid CommentsModeOpen"
  by (simp add: comments_mode_valid_def)

lemma articles_create_ok:
  "articles_ok d \<Longrightarrow> articles_ok (snd (articles_create b u n t s now d))"
  using article_table.ins_table_ok [of d "new_article b u n t s now"]
  by (auto simp: articles_create_def articles_ok_def board_ids_def user_ids_def ins_article_def Let_def)

lemma articles_create_spec:
  assumes "articles_ok d" and "b \<in> board_ids d" and "u \<in> user_ids d"
  shows "articles_create b u n t s now d =
    (Inr (new_article b u n t s now (seq_articles d + 1)),
     d\<lparr>articles := articles d @ [new_article b u n t s now (seq_articles d + 1)],
       seq_articles := seq_articles d + 1\<rparr>)"
proof -
  let ?mk = "new_article b u n t s now"
  obtain i d' where ins: "ins_article ?mk d = (i, d')" by (cases "ins_article ?mk d") auto
  then have "find_row aID i (articles d') = Some (?mk i)"
    using assms(1) by (intro article_table.find_ins) (auto simp: articles_ok_def)
  with ins assms(2,3) show ?thesis
    by (auto simp: articles_create_def articles_get_by_id_def ins_defs)
qed

lemma find_article_iff:
  "articles_ok d \<Longrightarrow> find_row aID i (articles d) = Some a \<longleftrightarrow> a \<in> set (articles d) \<and> aID a = i"
  by (rule find_row_distinct [OF table_ok_distinct]) (auto simp: articles_ok_def)

section \<open>Rows selected by key\<close>

lemma find_row_delete:
  "find_row rid j (delete_rows (\<lambda>r. rid r = i) rows) = (if j = i then None else find_row rid j rows)"
  by (induction rows) (auto simp: find_row_def delete_rows_def)

lemma filter_delete_rows:
  "filter (\<lambda>r. f r = j) (delete_rows (\<lambda>r. f r = i) rows) = (if j = i then [] else filter (\<lambda>r. f r = j) rows)"
  by (induction rows) (auto simp: delete_rows_def)

section \<open>The shape of a listing\<close>

lemma sorted_wrt_take_drop:
  "sorted_wrt le xs \<Longrightarrow> x \<in> set (take n xs) \<Longrightarrow> y \<in> set (drop n xs) \<Longrightarrow> le x y"
  by (metis append_take_drop_id sorted_wrt_append)

lemma sorted_filter_prefix:
  "sorted_wrt le xs \<Longrightarrow> (\<And>x y. le x y \<Longrightarrow> P y \<Longrightarrow> P x) \<Longrightarrow>
    filter P xs @ filter (\<lambda>x. \<not> P x) xs = xs"
proof (induction xs)
  case Nil
  show ?case by simp
next
  case (Cons x xs)
  show ?case
  proof (cases "P x")
    case True
    with Cons show ?thesis by simp
  next
    case False
    with Cons.prems have "\<forall>y \<in> set xs. \<not> P y" by auto
    then have "filter P xs = []" "filter (\<lambda>x. \<not> P x) xs = xs" by (simp_all add: filter_empty_conv)
    with False show ?thesis by simp
  qed
qed

definition board_matches :: "int \<Rightarrow> string \<Rightarrow> db \<Rightarrow> article list" where
  "board_matches b q d = filter (\<lambda>a. aBoardID a = b \<and> title_matches q a) (articles d)"

lemma list_by_board_unfold:
  "articles_list_by_board_opts b opts d =
    take (nat (if loLimit opts \<le> 0 then 50 else loLimit opts))
      (sort_by (article_order (loSort opts)) (board_matches b (loTitleSearch opts) d))"
  by (simp add: articles_list_by_board_opts_def board_matches_def Let_def)

lemma list_by_board_omitted:
  assumes "x \<in> set (board_matches b (loTitleSearch opts) d)"
    and "x \<notin> set (articles_list_by_board_opts b opts d)"
    and "y \<in> set (articles_list_by_board_opts b opts d)"
  shows "article_order (loSort opts) y x"
proof -
  let ?s = "sort_by (article_order (loSort opts)) (board_matches b (loTitleSearch opts) d)"
  let ?n = "nat (if loLimit opts \<le> 0 then 50 else loLimit opts)"
  have "x \<in> set (take ?n ?s @ drop ?n ?s)" using assms(1) by simp
  then have "x \<in> set (drop ?n ?s)"
    using assms(2) unfolding list_by_board_unfold set_append by blast
  with assms(3) show ?thesis
    unfolding list_by_board_unfold
    by (rule_tac sorted_wrt_take_drop [OF row_order.sorted_sort_by [OF row_order_article]])
qed

lemma list_by_board_length:
  "length (articles_list_by_board_opts b opts d) =
    min (length (board_matches b (loTitleSearch opts) d))
      (nat (if loLimit opts \<le> 0 then 50 else loLimit opts))"
  by (simp add: list_by_board_unfold)

lemma list_by_board_distinct:
  assumes "articles_ok d"
  shows "distinct (articles_list_by_board_opts b opts d)"
proof -
  have "distinct (articles d)"
    using assms by (auto simp: articles_ok_def distinct_map dest!: table_ok_distinct)
  then have "distinct (sort_by (article_order (loSort opts)) (board_matches b (loTitleSearch opts) d))"
    by (metis board_matches_def distinct_filter mset_eq_imp_distinct_iff mset_sort_by)
  then show ?thesis unfolding list_by_board_unfold by (rule distinct_take)
qed

lemma title_matches_iff:
  "title_matches q a \<longleftrightarrow> str_contains (nocase (aTitle a)) (nocase (trim_space q))"
proof (cases "trim_space q = []")
  case True
  have "str_contains s []" for s by (cases s) (simp_all add: str_contains_def)
  with True show ?thesis by (simp add: title_matches_def)
next
  case False
  with like_search_contains [of "trim_space q" "aTitle a"] show ?thesis
    by (simp add: title_matches_def)
qed

section \<open>Neighbours as adjacent ids\<close>

definition board_article_ids :: "int \<Rightarrow> db \<Rightarrow> int set" where
  "board_article_ids b d = {aID a | a. a \<in> set (articles d) \<and> aBoardID a = b}"

lemma neighbours_spec:
  "articles_neighbours_of b i d =
    (if {j \<in> board_article_ids b d. j < i} = {} then 0 else Max {j \<in> board_article_ids b d. j < i},
     if {j \<in> board_article_ids b d. i < j} = {} then 0 else Min {j \<in> board_article_ids b d. i < j})"
proof -
  let ?ids = "map aID (filter (\<lambda>a. aBoardID a = b) (articles d))"
  have eq: "set (filter P ?ids) = {j \<in> board_article_ids b d. P j}" for P
    by (auto simp: board_article_ids_def)
  have nil: "filter P ?ids = [] \<longleftrightarrow> {j \<in> board_article_ids b d. P j} = {}" for P
    unfolding eq [symmetric] set_empty ..
  show ?thesis
    unfolding articles_neighbours_of_def Let_def first_id_desc first_id_asc eq nil ..
qed

lemma finite_board_article_ids [simp]: "finite (board_article_ids b d)"
  unfolding board_article_ids_def by (rule finite_subset [of _ "aID ` set (articles d)"]) auto

lemma neighbours_next_prev:
  assumes "i \<in> board_article_ids b d" and "fst (articles_neighbours_of b i d) = p"
    and "p \<noteq> 0"
  shows "snd (articles_neighbours_of b p d) = i"
proof -
  let ?S = "board_article_ids b d"
  from assms have ne: "{j \<in> ?S. j < i} \<noteq> {}" and p: "p = Max {j \<in> ?S. j < i}"
    by (auto simp: neighbours_spec split: if_splits)
  have "finite {j \<in> ?S. j < i}" by simp
  from Max_in [OF this ne] p have "p < i" by auto
  moreover have "Min {j \<in> ?S. p < j} = i"
  proof (rule Min_eqI)
    fix j assume j: "j \<in> {j \<in> ?S. p < j}"
    have "j \<le> p" if "j < i"
    proof -
      have "j \<in> {j \<in> ?S. j < i}" using j that by simp
      then show ?thesis unfolding p by (intro Max_ge) simp_all
    qed
    with j show "i \<le> j" by fastforce
  qed (use assms(1) \<open>p < i\<close> in auto)
  ultimately show ?thesis using assms(1) by (auto simp: neighbours_spec)
qed

end
