(* ===== verification/PushRepo.thy ===== *)
theory PushRepo
  imports ArticleRepo
begin

text \<open>
  \<open>internal/store/pushes.go\<close>: the pushes of an article and the cached \<open>recommend_score\<close>, which
  every operation must keep equal to the sum over the pushes that exist.
\<close>

section \<open>Operations\<close>

text \<open>The canonical glyphs: U+63A8, U+5653 and U+2192 in UTF-8.\<close>

definition push_glyph :: "push_kind \<Rightarrow> string" where
  "push_glyph k =
    (if k = PushKindPush then [CHR 0xE6, CHR 0x8E, CHR 0xA8]
     else if k = PushKindBoo then [CHR 0xE5, CHR 0x99, CHR 0x93]
     else if k = PushKindArrow then [CHR 0xE2, CHR 0x86, CHR 0x92]
     else ''?'')"

definition pushes_list_by_article :: "int \<Rightarrow> db \<Rightarrow> push list" where
  "pushes_list_by_article article_id d =
    sort_by (by_asc pID any_order) (filter (\<lambda>p. pArticleID p = article_id) (pushes d))"

definition score_delta :: "push_kind \<Rightarrow> int res" where
  "score_delta k =
    (if k = PushKindPush then Inr 1
     else if k = PushKindBoo then Inr (-1)
     else if k = PushKindArrow then Inr 0
     else Inl (ErrInvalidPushKind k))"

definition new_push ::
  "int \<Rightarrow> int \<Rightarrow> string \<Rightarrow> push_kind \<Rightarrow> string \<Rightarrow> timestamp \<Rightarrow> int \<Rightarrow> push" where
  "new_push article_id user_id user_name k body now i =
    \<lparr>pID = i, pArticleID = article_id, pUserID = user_id, pUserUserID = user_name, pKind = k,
     pBody = body, pCreatedAt = now\<rparr>"

definition add_score :: "int \<Rightarrow> int \<Rightarrow> db \<Rightarrow> db" where
  "add_score article_id delta d =
    d\<lparr>articles := update_rows (\<lambda>a. aID a = article_id)
       (\<lambda>a. a\<lparr>aRecommendScore := aRecommendScore a + delta\<rparr>) (articles d)\<rparr>"

text \<open>The gate on the article's mode, read inside the transaction.\<close>

definition comments_gate :: "comments_mode \<Rightarrow> push_kind \<Rightarrow> db_error option" where
  "comments_gate m k =
    (if m = CommentsModeLocked then Some ErrCommentsLocked
     else if m = CommentsModeArrowsOnly \<and> k \<noteq> PushKindArrow then Some ErrCommentsArrowsOnly
     else None)"

definition pushes_get :: "int \<Rightarrow> db \<Rightarrow> push res" where
  "pushes_get i d = (case find_row pID i (pushes d) of None \<Rightarrow> Inl ErrNoRows | Some p \<Rightarrow> Inr p)"

definition pushes_create ::
  "int \<Rightarrow> int \<Rightarrow> string \<Rightarrow> push_kind \<Rightarrow> string \<Rightarrow> timestamp \<Rightarrow> db \<Rightarrow> push res \<times> db" where
  "pushes_create article_id user_id user_name k body now d =
    (case score_delta k of
       Inl e \<Rightarrow> (Inl e, d)
     | Inr delta \<Rightarrow>
         (case find_row aID article_id (articles d) of
            None \<Rightarrow> (Inl ErrArticleNotFound, d)
          | Some a \<Rightarrow>
              (case comments_gate (aCommentsMode a) k of
                 Some e \<Rightarrow> (Inl e, d)
               | None \<Rightarrow>
                   if user_id \<notin> user_ids d then (Inl SqlForeignKey, d)
                   else let (i, d1) = ins_push (new_push article_id user_id user_name k body now) d;
                            d2 = (if delta \<noteq> 0 then add_score article_id delta d1 else d1)
                        in (pushes_get i d2, d2))))"

definition pushes_delete :: "int \<Rightarrow> int \<Rightarrow> role \<Rightarrow> db \<Rightarrow> unit res \<times> db" where
  "pushes_delete push_id requester r d =
    (case find_row pID push_id (pushes d) of
       None \<Rightarrow> (Inl ErrPushNotFound, d)
     | Some p \<Rightarrow>
         if pUserID p \<noteq> requester \<and> \<not> role_at_least r RoleMod then (Inl ErrPermissionDenied, d)
         else (case score_delta (pKind p) of
             Inl e \<Rightarrow> (Inl e, d)
           | Inr delta \<Rightarrow>
               let d1 = d\<lparr>pushes := delete_rows (\<lambda>q. pID q = push_id) (pushes d)\<rparr>
               in (Inr (), if delta \<noteq> 0 then add_score (pArticleID p) (- delta) d1 else d1)))"

section \<open>The score invariant\<close>

definition push_score :: "push \<Rightarrow> int" where
  "push_score p = (case score_delta (pKind p) of Inl _ \<Rightarrow> 0 | Inr n \<Rightarrow> n)"

text \<open>The specification of \<open>recommend_score\<close>: pushes minus boos of the rows that exist.\<close>

definition score_of :: "int \<Rightarrow> push list \<Rightarrow> int" where
  "score_of article_id ps = (\<Sum>p \<leftarrow> filter (\<lambda>p. pArticleID p = article_id) ps. push_score p)"

definition score_ok :: "db \<Rightarrow> bool" where
  "score_ok d \<longleftrightarrow> (\<forall>a \<in> set (articles d). aRecommendScore a = score_of (aID a) (pushes d))"

lemma new_push_sel [simp]:
  "pID (new_push a u n k b now i) = i" "pArticleID (new_push a u n k b now i) = a"
  "pUserID (new_push a u n k b now i) = u" "pKind (new_push a u n k b now i) = k"
  "pBody (new_push a u n k b now i) = b" "pUserUserID (new_push a u n k b now i) = n"
  "pCreatedAt (new_push a u n k b now i) = now"
  by (simp_all add: new_push_def)

lemma kind_ok_delta: "kind_ok k \<longleftrightarrow> ok_res (score_delta k)"
  by (simp add: kind_ok_def score_delta_def)

lemma add_score_0 [simp]: "add_score i 0 d = d"
proof -
  have "update_rows (\<lambda>a. aID a = i) (\<lambda>a. a) (articles d) = articles d" by (simp add: update_rows_def)
  then show ?thesis by (simp add: add_score_def)
qed

lemma add_score_if [simp]:
  "(if n \<noteq> 0 then add_score i n d else d) = add_score i n d"
  "(if n \<noteq> 0 then add_score i (- n) d else d) = add_score i (- n) d"
  by simp_all

lemma add_score_sel [simp]:
  "pushes (add_score i n d) = pushes d" "users (add_score i n d) = users d"
  "boards (add_score i n d) = boards d" "seq_pushes (add_score i n d) = seq_pushes d"
  "seq_articles (add_score i n d) = seq_articles d"
  by (simp_all add: add_score_def)

lemma set_articles_add_score:
  "a \<in> set (articles (add_score i n d)) \<longleftrightarrow>
    (\<exists>b \<in> set (articles d). a = (if aID b = i then b\<lparr>aRecommendScore := aRecommendScore b + n\<rparr> else b))"
  by (fastforce simp: add_score_def update_rows_def image_iff)

lemma article_ids_add_score [simp]: "article_ids (add_score i n d) = article_ids d"
  by (simp add: article_ids_def add_score_def image_rid_update)

lemma articles_ok_add_score: "articles_ok d \<Longrightarrow> articles_ok (add_score i n d)"
  unfolding add_score_def by (rule articles_ok_update) simp_all

lemma score_of_append: "score_of i (xs @ ys) = score_of i xs + score_of i ys"
  by (simp add: score_of_def)

lemma score_of_single: "score_of i [p] = (if pArticleID p = i then push_score p else 0)"
  by (simp add: score_of_def)

lemma score_of_Cons: "score_of i (p # ps) = (if pArticleID p = i then push_score p else 0) + score_of i ps"
  by (simp add: score_of_def)

lemma score_of_Nil [simp]: "score_of i [] = 0"
  by (simp add: score_of_def)

lemma score_of_delete:
  "distinct (map pID ps) \<Longrightarrow> p \<in> set ps \<Longrightarrow>
    score_of i (delete_rows (\<lambda>q. pID q = pID p) ps) =
    score_of i ps - (if pArticleID p = i then push_score p else 0)"
proof (induction ps)
  case Nil
  then show ?case by simp
next
  case (Cons x xs)
  show ?case
  proof (cases "x = p")
    case True
    with Cons.prems have "\<forall>q \<in> set xs. pID q \<noteq> pID p" by (metis distinct.simps(2) image_eqI list.simps(9) set_map)
    then have "delete_rows (\<lambda>q. pID q = pID p) xs = xs"
      by (simp add: delete_rows_def)
    with True show ?thesis by (simp add: delete_rows_def score_of_Cons)
  next
    case False
    with Cons.prems have "pID x \<noteq> pID p" and "p \<in> set xs" by (auto simp: image_iff)
    with Cons show ?thesis by (simp add: delete_rows_def score_of_Cons)
  qed
qed

lemma score_ok_shift:
  assumes "score_ok d" and "pushes d' = ps"
    and "\<And>i. score_of i ps = score_of i (pushes d) + (if i = j then n else 0)"
    and "articles d' = articles d"
  shows "score_ok (add_score j n d')"
  unfolding score_ok_def
proof
  fix a assume "a \<in> set (articles (add_score j n d'))"
  then obtain b where "b \<in> set (articles d)"
    and "a = (if aID b = j then b\<lparr>aRecommendScore := aRecommendScore b + n\<rparr> else b)"
    using assms(4) by (auto simp: set_articles_add_score)
  with assms show "aRecommendScore a = score_of (aID a) (pushes (add_score j n d'))"
    by (auto simp: score_ok_def)
qed

section \<open>Case analysis of the two writes\<close>

lemma pushes_create_cases:
  obtains (err) e where "pushes_create a u n k b now d = (Inl e, d)"
  | (ok) art delta i d1 where "score_delta k = Inr delta" and "find_row aID a (articles d) = Some art"
      and "comments_gate (aCommentsMode art) k = None" and "u \<in> user_ids d"
      and "ins_push (new_push a u n k b now) d = (i, d1)"
      and "pushes_create a u n k b now d = (pushes_get i (add_score a delta d1), add_score a delta d1)"
proof (cases "score_delta k")
  case (Inl e)
  then show ?thesis by (intro err) (simp add: pushes_create_def)
next
  case (Inr delta)
  show ?thesis
  proof (cases "find_row aID a (articles d)")
    case None
    with Inr show ?thesis by (intro err) (simp add: pushes_create_def)
  next
    case (Some art)
    show ?thesis
    proof (cases "comments_gate (aCommentsMode art) k = None \<and> u \<in> user_ids d")
      case True
      obtain i d1 where "ins_push (new_push a u n k b now) d = (i, d1)"
        by (cases "ins_push (new_push a u n k b now) d")
      with True show ?thesis
        by (intro ok [OF Inr Some]) (auto simp: pushes_create_def Inr Some Let_def)
    next
      case False
      then show ?thesis
        by (cases "comments_gate (aCommentsMode art) k")
           (auto intro: err simp: pushes_create_def Inr Some)
    qed
  qed
qed

lemma pushes_delete_cases:
  obtains (err) e where "pushes_delete i u r d = (Inl e, d)"
  | (ok) p delta where "find_row pID i (pushes d) = Some p" and "score_delta (pKind p) = Inr delta"
      and "pUserID p = u \<or> role_at_least r RoleMod"
      and "pushes_delete i u r d = (Inr (), add_score (pArticleID p) (- delta)
            (d\<lparr>pushes := delete_rows (\<lambda>q. pID q = i) (pushes d)\<rparr>))"
proof (cases "find_row pID i (pushes d)")
  case None
  then show ?thesis by (intro err) (simp add: pushes_delete_def)
next
  case (Some p)
  show ?thesis
  proof (cases "pUserID p = u \<or> role_at_least r RoleMod")
    case False
    with Some show ?thesis by (intro err) (simp add: pushes_delete_def)
  next
    case True
    show ?thesis
    proof (cases "score_delta (pKind p)")
      case (Inl e)
      with Some True show ?thesis by (intro err) (auto simp: pushes_delete_def)
    next
      case (Inr delta)
      with Some True show ?thesis by (intro ok) (auto simp: pushes_delete_def Let_def)
    qed
  qed
qed

section \<open>Preservation\<close>

lemma ins_push_eqs:
  "ins_push mk d = (i, d1) \<Longrightarrow> i = seq_pushes d + 1
     \<and> d1 = d\<lparr>pushes := pushes d @ [mk i], seq_pushes := i\<rparr>"
  by (auto simp: ins_push_def Let_def)

lemma push_score_new: "score_delta k = Inr n \<Longrightarrow> push_score (new_push a u m k b now i) = n"
  by (simp add: push_score_def)

lemma pushes_create_score_ok:
  assumes "score_ok d"
  shows "score_ok (snd (pushes_create a u n k b now d))"
proof (cases rule: pushes_create_cases [of a u n k b now d])
  case (err e)
  with assms show ?thesis by simp
next
  case (ok art delta i d1)
  have "score_ok (add_score a delta d1)"
    by (rule score_ok_shift [OF assms refl])
       (use ok(1) ins_push_eqs [OF ok(5)] in
         \<open>simp_all add: score_of_append score_of_single push_score_new\<close>)
  with ok show ?thesis by simp
qed

lemma pushes_delete_score_ok:
  assumes "score_ok d" and "pushes_ok d"
  shows "score_ok (snd (pushes_delete i u r d))"
proof (cases rule: pushes_delete_cases [of i u r d])
  case (err e)
  with assms show ?thesis by simp
next
  case (ok p delta)
  from find_row_Some [OF ok(1)] have p: "p \<in> set (pushes d)" "pID p = i" by auto
  have dist: "distinct (map pID (pushes d))"
    using assms(2) by (auto simp: pushes_ok_def intro: table_ok_distinct)
  have "push_score p = delta" using ok(2) by (simp add: push_score_def)
  with score_of_delete [OF dist p(1)] p(2) have
    "score_ok (add_score (pArticleID p) (- delta)
       (d\<lparr>pushes := delete_rows (\<lambda>q. pID q = i) (pushes d)\<rparr>))"
    by (intro score_ok_shift [OF assms(1) refl]) auto
  with ok show ?thesis by simp
qed

lemma pushes_create_ok:
  assumes "pushes_ok d"
  shows "pushes_ok (snd (pushes_create a u n k b now d))"
proof (cases rule: pushes_create_cases [of a u n k b now d])
  case (err e)
  with assms show ?thesis by simp
next
  case (ok art delta i d1)
  have "a \<in> article_ids d" using find_row_Some [OF ok(2)] by (auto simp: article_ids_def)
  moreover have "kind_ok k" using ok(1) by (simp add: kind_ok_delta)
  ultimately have "pushes_ok d1"
    using assms ok(4) push_table.ins_table_ok [of d "new_push a u n k b now", OF _ _ ok(5)]
      ins_push_eqs [OF ok(5)]
    by (auto simp: pushes_ok_def article_ids_def user_ids_def)
  then have "pushes_ok (add_score a delta d1)"
    by (simp add: pushes_ok_def user_ids_def)
  with ok show ?thesis by simp
qed

lemma pushes_delete_ok:
  assumes "pushes_ok d"
  shows "pushes_ok (snd (pushes_delete i u r d))"
proof (cases rule: pushes_delete_cases [of i u r d])
  case (err e)
  with assms show ?thesis by simp
next
  case (ok p delta)
  from assms have "pushes_ok (d\<lparr>pushes := delete_rows (\<lambda>q. pID q = i) (pushes d)\<rparr>)"
    by (auto simp: pushes_ok_def table_ok_delete article_ids_def user_ids_def)
  then have "pushes_ok (add_score (pArticleID p) (- delta)
      (d\<lparr>pushes := delete_rows (\<lambda>q. pID q = i) (pushes d)\<rparr>))"
    by (simp add: pushes_ok_def user_ids_def)
  with ok show ?thesis by simp
qed

lemma push_ops_articles_ok:
  "articles_ok d \<Longrightarrow> articles_ok (snd (pushes_create a u n k b now d))"
  "articles_ok d \<Longrightarrow> articles_ok (snd (pushes_delete i u r d))"
proof -
  assume ok: "articles_ok d"
  show "articles_ok (snd (pushes_create a u n k b now d))"
  proof (cases rule: pushes_create_cases [of a u n k b now d])
    case (ok art delta i d1)
    then have "articles_ok d1"
      using \<open>articles_ok d\<close> ins_push_eqs [OF ok(5)]
      by (auto simp: articles_ok_def board_ids_def user_ids_def)
    with ok show ?thesis by (simp add: articles_ok_add_score)
  qed (use ok in simp)
  show "articles_ok (snd (pushes_delete i u r d))"
  proof (cases rule: pushes_delete_cases [of i u r d])
    case (ok p delta)
    have "articles_ok (d\<lparr>pushes := delete_rows (\<lambda>q. pID q = i) (pushes d)\<rparr>)"
      using \<open>articles_ok d\<close> by (auto simp: articles_ok_def board_ids_def user_ids_def)
    with ok show ?thesis by (simp add: articles_ok_add_score)
  qed (use ok in simp)
qed

section \<open>The score as a count, and undoing a push\<close>

lemma push_score_kind:
  "push_score p = (if pKind p = PushKindPush then 1 else 0) - (if pKind p = PushKindBoo then 1 else 0)"
  by (auto simp: push_score_def score_delta_def kind_defs)

lemma score_of_counts:
  "score_of i ps = int (length (filter (\<lambda>p. pArticleID p = i \<and> pKind p = PushKindPush) ps))
     - int (length (filter (\<lambda>p. pArticleID p = i \<and> pKind p = PushKindBoo) ps))"
  by (induction ps) (auto simp: score_of_Cons push_score_kind)

lemma add_score_inverse:
  "articles (add_score i (- n) (add_score i n d)) = articles d"
  by (simp add: add_score_def update_rows_def comp_def) (rule map_idI, simp)

lemma push_create_delete:
  assumes "pushes_ok d" and create: "pushes_create a u n k s now d = (Inr p, d1)"
    and "v = u \<or> role_at_least r RoleMod"
  shows "pushes_delete (pID p) v r d1 = (Inr (), d\<lparr>seq_pushes := seq_pushes d + 1\<rparr>)"
proof (cases rule: pushes_create_cases [of a u n k s now d])
  case (err e)
  with create show ?thesis by simp
next
  case (ok art delta i d2)
  let ?q = "new_push a u n k s now i"
  have tok: "table_ok pID (seq_pushes d) (pushes d)" using assms(1) by (simp add: pushes_ok_def)
  have d2: "i = seq_pushes d + 1" "d2 = d\<lparr>pushes := pushes d @ [?q], seq_pushes := i\<rparr>"
    using ins_push_eqs [OF ok(5)] by auto
  have find: "find_row pID i (pushes d @ [?q]) = Some ?q"
    using tok unfolding d2(1) by (intro find_row_fresh) simp_all
  with create ok(6) d2(2) have p: "p = ?q" "d1 = add_score a delta d2"
    by (auto simp: pushes_get_def)
  have del: "delete_rows (\<lambda>q. pID q = i) (pushes d @ [?q]) = pushes d"
    using tok d2(1) by (auto simp: delete_rows_def table_ok_def intro!: filter_True)
  have "add_score a (- delta) (d1\<lparr>pushes := pushes d\<rparr>) = d\<lparr>seq_pushes := i\<rparr>"
    using add_score_inverse [of a delta d] unfolding p(2) d2(2)
    by (simp add: add_score_def)
  then show ?thesis
    using find del ok(1) assms(3) d2 p by (auto simp: pushes_delete_def Let_def)
qed

section \<open>Acceptance\<close>

lemma pushes_list_table:
  "table_ok pID s (pushes d) \<Longrightarrow>
    pushes_list_by_article i d = filter (\<lambda>p. pArticleID p = i) (pushes d)"
  unfolding pushes_list_by_article_def
  using table_ok_delete [of pID s "pushes d" "\<lambda>p. pArticleID p \<noteq> i"]
  by (intro sort_by_id_table [of pID s]) (simp add: delete_rows_def)

lemma pushes_create_spec:
  assumes "pushes_ok d" and "score_delta k = Inr delta" and "find_row aID a (articles d) = Some art"
    and "comments_gate (aCommentsMode art) k = None" and "u \<in> user_ids d"
  shows "pushes_create a u n k s now d =
    (Inr (new_push a u n k s now (seq_pushes d + 1)),
     add_score a delta (d\<lparr>pushes := pushes d @ [new_push a u n k s now (seq_pushes d + 1)],
       seq_pushes := seq_pushes d + 1\<rparr>))"
proof -
  have "table_ok pID (seq_pushes d) (pushes d)" using assms(1) by (simp add: pushes_ok_def)
  then have "find_row pID (seq_pushes d + 1) (pushes d @ [new_push a u n k s now (seq_pushes d + 1)]) =
      Some (new_push a u n k s now (seq_pushes d + 1))"
    by (rule find_row_fresh) simp
  with assms show ?thesis
    by (simp add: pushes_create_def ins_push_def Let_def pushes_get_def)
qed

lemma pushes_create_accepts:
  assumes "pushes_ok d" and "articles_ok d" and "art \<in> set (articles d)" and "u \<in> user_ids d"
  shows "ok_res (fst (pushes_create (aID art) u n k s now d)) \<longleftrightarrow>
      kind_ok k \<and> aCommentsMode art \<noteq> CommentsModeLocked
        \<and> (aCommentsMode art = CommentsModeArrowsOnly \<longrightarrow> k = PushKindArrow)"
proof -
  have fr: "find_row aID (aID art) (articles d) = Some art"
    using assms(2,3) by (simp add: find_article_iff)
  show ?thesis
  proof (cases "score_delta k")
    case (Inl e)
    then show ?thesis using kind_ok_delta [of k] by (simp add: pushes_create_def)
  next
    case (Inr delta)
    then have "kind_ok k" by (simp add: kind_ok_delta)
    then show ?thesis
    proof (cases "comments_gate (aCommentsMode art) k")
      case None
      with pushes_create_spec [OF assms(1) Inr fr None assms(4)] \<open>kind_ok k\<close> show ?thesis
        by (auto simp: comments_gate_def split: if_splits)
    next
      case (Some e)
      with Inr fr show ?thesis
        by (auto simp: pushes_create_def comments_gate_def split: if_splits)
    qed
  qed
qed

lemma pushes_create_lists:
  assumes "pushes_ok d"
  shows "case pushes_create a u n k s now d of
         (Inl e, d') \<Rightarrow> d' = d
       | (Inr p, d') \<Rightarrow> p = new_push a u n k s now (seq_pushes d + 1)
           \<and> pushes_list_by_article a d' = pushes_list_by_article a d @ [p]
           \<and> (\<forall>i. i \<noteq> a \<longrightarrow> pushes_list_by_article i d' = pushes_list_by_article i d)"
proof (cases rule: pushes_create_cases [of a u n k s now d])
  case (err e)
  then show ?thesis by simp
next
  case (ok art delta i d1)
  let ?p = "new_push a u n k s now (seq_pushes d + 1)"
  have spec: "pushes_create a u n k s now d =
    (Inr ?p, add_score a delta (d\<lparr>pushes := pushes d @ [?p], seq_pushes := seq_pushes d + 1\<rparr>))"
    by (rule pushes_create_spec [OF assms ok(1,2,3,4)])
  have tok: "table_ok pID (seq_pushes d) (pushes d)" using assms by (simp add: pushes_ok_def)
  then have "table_ok pID (seq_pushes d + 1) (pushes d @ [?p])" by (rule table_ok_append) simp
  then have "pushes_list_by_article i
        (add_score a delta (d\<lparr>pushes := pushes d @ [?p], seq_pushes := seq_pushes d + 1\<rparr>)) =
      filter (\<lambda>p. pArticleID p = i) (pushes d @ [?p])" for i
    using pushes_list_table [of "seq_pushes d + 1" "add_score a delta (d\<lparr>pushes := pushes d @ [?p],
        seq_pushes := seq_pushes d + 1\<rparr>)" i] by simp
  with spec pushes_list_table [OF tok] show ?thesis by simp
qed

lemma articles_delete_effect:
  assumes "articles_delete i u r d = (Inr (), d')"
  shows "articles_get_by_id i d' = Inl ErrArticleNotFound \<and> pushes_list_by_article i d' = []
    \<and> (\<forall>j. j \<noteq> i \<longrightarrow> articles_get_by_id j d' = articles_get_by_id j d
         \<and> pushes_list_by_article j d' = pushes_list_by_article j d)
    \<and> users d' = users d \<and> boards d' = boards d \<and> wbs d' = wbs d \<and> mails d' = mails d"
proof -
  have "d' = d\<lparr>articles := delete_rows (\<lambda>a. aID a = i) (articles d),
      pushes := delete_rows (\<lambda>p. pArticleID p = i) (pushes d)\<rparr>"
    using assms by (auto simp: articles_delete_def split: option.splits if_splits)
  then show ?thesis
    by (simp add: articles_get_by_id_def find_row_delete pushes_list_by_article_def filter_delete_rows)
qed

end
