(* ===== verification/WaterBalloonRepo.thy ===== *)
theory WaterBalloonRepo
  imports PushRepo
begin

text \<open>
  \<open>internal/store/waterballoons.go\<close>: private one-line messages, their read marks, the
  conversation of two users and the roll-up per counterparty.
\<close>

section \<open>Operations\<close>

definition new_wb ::
  "int \<Rightarrow> string \<Rightarrow> int \<Rightarrow> string \<Rightarrow> bool \<Rightarrow> timestamp \<Rightarrow> int \<Rightarrow> water_balloon" where
  "new_wb from_id from_name to_id body live now i =
    \<lparr>wID = i, wFromUserID = from_id, wFromUserIDStr = from_name, wToUserID = to_id, wBody = body,
     wDeliveredLive = live, wReadAt = None, wCreatedAt = now\<rparr>"

definition wbs_get_by_id :: "int \<Rightarrow> db \<Rightarrow> water_balloon res" where
  "wbs_get_by_id i d = (case find_row wID i (wbs d) of None \<Rightarrow> Inl ErrNoRows | Some w \<Rightarrow> Inr w)"

definition wbs_insert ::
  "int \<Rightarrow> string \<Rightarrow> int \<Rightarrow> string \<Rightarrow> bool \<Rightarrow> timestamp \<Rightarrow> db \<Rightarrow> water_balloon res \<times> db" where
  "wbs_insert from_id from_name to_id body live now d =
    (if from_id \<notin> user_ids d \<or> to_id \<notin> user_ids d then (Inl SqlForeignKey, d)
     else let (i, d') = ins_wb (new_wb from_id from_name to_id body live now) d
          in (wbs_get_by_id i d', d'))"

definition wb_unread :: "water_balloon \<Rightarrow> bool" where
  "wb_unread w \<longleftrightarrow> wReadAt w = None"

definition wbs_list_unread_for :: "int \<Rightarrow> db \<Rightarrow> water_balloon list" where
  "wbs_list_unread_for to_id d =
    sort_by (by_asc wID any_order) (filter (\<lambda>w. wToUserID w = to_id \<and> wb_unread w) (wbs d))"

definition wb_inbox_order :: "water_balloon \<Rightarrow> water_balloon \<Rightarrow> bool" where
  "wb_inbox_order = by_desc wb_unread (by_desc wID any_order)"

definition wbs_list_inbox_for :: "int \<Rightarrow> int \<Rightarrow> db \<Rightarrow> water_balloon list" where
  "wbs_list_inbox_for to_id limit d =
    (let limit = (if limit \<le> 0 then 50 else limit)
     in take (nat limit) (sort_by wb_inbox_order (filter (\<lambda>w. wToUserID w = to_id) (wbs d))))"

definition mark_wb :: "timestamp \<Rightarrow> water_balloon \<Rightarrow> water_balloon" where
  "mark_wb now w = w\<lparr>wReadAt := Some now\<rparr>"

definition wbs_mark_read :: "int \<Rightarrow> timestamp \<Rightarrow> db \<Rightarrow> unit res \<times> db" where
  "wbs_mark_read i now d =
    (Inr (), d\<lparr>wbs := update_rows (\<lambda>w. wID w = i \<and> wb_unread w) (mark_wb now) (wbs d)\<rparr>)"

definition wbs_mark_all_read_for :: "int \<Rightarrow> timestamp \<Rightarrow> db \<Rightarrow> unit res \<times> db" where
  "wbs_mark_all_read_for to_id now d =
    (Inr (), d\<lparr>wbs := update_rows (\<lambda>w. wToUserID w = to_id \<and> wb_unread w) (mark_wb now) (wbs d)\<rparr>)"

definition between :: "int \<Rightarrow> int \<Rightarrow> water_balloon \<Rightarrow> bool" where
  "between v c w \<longleftrightarrow> (wFromUserID w = v \<and> wToUserID w = c) \<or> (wFromUserID w = c \<and> wToUserID w = v)"

definition wbs_list_conversation :: "int \<Rightarrow> int \<Rightarrow> int \<Rightarrow> db \<Rightarrow> water_balloon list" where
  "wbs_list_conversation viewer cp limit d =
    (let limit = (if limit \<le> 0 then 200 else limit)
     in take (nat limit) (sort_by (by_asc wID any_order) (filter (between viewer cp) (wbs d))))"

definition wbs_mark_conversation_read :: "int \<Rightarrow> int \<Rightarrow> timestamp \<Rightarrow> db \<Rightarrow> unit res \<times> db" where
  "wbs_mark_conversation_read viewer cp now d =
    (Inr (), d\<lparr>wbs := update_rows
       (\<lambda>w. wToUserID w = viewer \<and> wFromUserID w = cp \<and> wb_unread w) (mark_wb now) (wbs d)\<rparr>)"

lemmas wb_mark_defs = wbs_mark_read_def wbs_mark_all_read_for_def wbs_mark_conversation_read_def

section \<open>The roll-up per counterparty\<close>

record wb_counterparty =
  cpUserID :: int
  cpUserIDStr :: string
  cpLastBody :: string
  cpLastFromMe :: bool
  cpLastAt :: timestamp
  cpUnreadCount :: nat

definition cp_id :: "int \<Rightarrow> water_balloon \<Rightarrow> int" where
  "cp_id viewer w = (if wFromUserID w = viewer then wToUserID w else wFromUserID w)"

definition wb_related :: "int \<Rightarrow> db \<Rightarrow> water_balloon list" where
  "wb_related viewer d = filter (\<lambda>w. wFromUserID w = viewer \<or> wToUserID w = viewer) (wbs d)"

definition unread_count :: "int \<Rightarrow> water_balloon list \<Rightarrow> nat" where
  "unread_count viewer ws = length (filter (\<lambda>w. wToUserID w = viewer \<and> wb_unread w) ws)"

definition last_wb_id :: "water_balloon list \<Rightarrow> int" where
  "last_wb_id ws = foldr (\<lambda>w m. max (wID w) m) ws 0"

definition counterparty_row :: "int \<Rightarrow> db \<Rightarrow> int \<Rightarrow> wb_counterparty option" where
  "counterparty_row viewer d cp =
    (let grp = filter (\<lambda>w. cp_id viewer w = cp) (wb_related viewer d)
     in case find_row wID (last_wb_id grp) (wb_related viewer d) of
          None \<Rightarrow> None
        | Some r \<Rightarrow>
            (case find_row uID cp (users d) of
               None \<Rightarrow> None
             | Some u \<Rightarrow> Some \<lparr>cpUserID = cp, cpUserIDStr = uUserID u, cpLastBody = wBody r,
                 cpLastFromMe = (wFromUserID r = viewer), cpLastAt = wCreatedAt r,
                 cpUnreadCount = unread_count viewer grp\<rparr>))"

definition wbs_list_counterparties_for :: "int \<Rightarrow> int \<Rightarrow> db \<Rightarrow> wb_counterparty list" where
  "wbs_list_counterparties_for viewer limit d =
    (let limit = (if limit \<le> 0 then 50 else limit)
     in take (nat limit) (sort_by (by_desc (\<lambda>c. 0 < cpUnreadCount c) (by_desc cpLastAt any_order))
          (List.map_filter (counterparty_row viewer d)
             (remdups (map (cp_id viewer) (wb_related viewer d))))))"

section \<open>Facts\<close>

lemma new_wb_sel [simp]:
  "wID (new_wb f n t b l now i) = i" "wFromUserID (new_wb f n t b l now i) = f"
  "wToUserID (new_wb f n t b l now i) = t" "wBody (new_wb f n t b l now i) = b"
  "wReadAt (new_wb f n t b l now i) = None" "wFromUserIDStr (new_wb f n t b l now i) = n"
  by (simp_all add: new_wb_def)

lemma mark_wb_sel [simp]:
  "wID (mark_wb now w) = wID w" "wFromUserID (mark_wb now w) = wFromUserID w"
  "wToUserID (mark_wb now w) = wToUserID w" "wBody (mark_wb now w) = wBody w"
  "wReadAt (mark_wb now w) = Some now"
  by (simp_all add: mark_wb_def)

lemma not_unread_mark [simp]: "\<not> wb_unread (mark_wb now w)"
  by (simp add: wb_unread_def)

interpretation wb_inbox: row_order wb_inbox_order
  unfolding wb_inbox_order_def by (intro row_order_desc row_order_any)

lemma wbs_ok_update:
  "wbs_ok d \<Longrightarrow> wbs_ok (d\<lparr>wbs := update_rows P (mark_wb now) (wbs d)\<rparr>)"
  by (auto simp: wbs_ok_def table_ok_update set_update_rows user_ids_def)

lemma wb_mark_ok:
  "wbs_ok d \<Longrightarrow> wbs_ok (snd (wbs_mark_read i now d))"
  "wbs_ok d \<Longrightarrow> wbs_ok (snd (wbs_mark_all_read_for t now d))"
  "wbs_ok d \<Longrightarrow> wbs_ok (snd (wbs_mark_conversation_read v c now d))"
  by (simp_all add: wb_mark_defs wbs_ok_update)

lemma wbs_insert_ok: "wbs_ok d \<Longrightarrow> wbs_ok (snd (wbs_insert f n t b l now d))"
  using wb_table.ins_table_ok [of d "new_wb f n t b l now"]
  by (auto simp: wbs_insert_def wbs_ok_def user_ids_def ins_wb_def Let_def)

lemma wbs_insert_spec:
  assumes "wbs_ok d" and "f \<in> user_ids d" and "t \<in> user_ids d"
  shows "wbs_insert f n t b l now d =
    (Inr (new_wb f n t b l now (seq_wbs d + 1)),
     d\<lparr>wbs := wbs d @ [new_wb f n t b l now (seq_wbs d + 1)], seq_wbs := seq_wbs d + 1\<rparr>)"
proof -
  let ?mk = "new_wb f n t b l now"
  obtain i d' where ins: "ins_wb ?mk d = (i, d')" by (cases "ins_wb ?mk d") auto
  then have "find_row wID i (wbs d') = Some (?mk i)"
    using assms(1) by (intro wb_table.find_ins) (auto simp: wbs_ok_def)
  with ins assms(2,3) show ?thesis
    by (auto simp: wbs_insert_def wbs_get_by_id_def ins_defs)
qed

lemma wbs_insert_fk:
  "\<not> (f \<in> user_ids d \<and> t \<in> user_ids d) \<Longrightarrow> wbs_insert f n t b l now d = (Inl SqlForeignKey, d)"
  by (auto simp: wbs_insert_def)

lemma last_wb_id_max: "w \<in> set ws \<Longrightarrow> wID w \<le> last_wb_id ws"
  by (induction ws) (auto simp: last_wb_id_def)

lemma last_wb_id_in:
  "ws \<noteq> [] \<Longrightarrow> \<forall>w \<in> set ws. 0 < wID w \<Longrightarrow> \<exists>w \<in> set ws. last_wb_id ws = wID w"
proof (induction ws)
  case Nil
  then show ?case by simp
next
  case (Cons w ws)
  show ?case
  proof (cases "ws = []")
    case True
    with Cons.prems show ?thesis by (auto simp: last_wb_id_def)
  next
    case False
    with Cons obtain v where "v \<in> set ws" "last_wb_id ws = wID v" by auto
    then show ?thesis by (auto simp: last_wb_id_def max_def)
  qed
qed

lemma counterparty_row_spec:
  assumes "wbs_ok d" and "users_ok d" and "w \<in> set (wb_related v d)" and "cp_id v w = c"
  shows "\<exists>r u. counterparty_row v d c = Some \<lparr>cpUserID = c, cpUserIDStr = uUserID u,
      cpLastBody = wBody r, cpLastFromMe = (wFromUserID r = v), cpLastAt = wCreatedAt r,
      cpUnreadCount = unread_count v (filter (\<lambda>w. cp_id v w = c) (wb_related v d))\<rparr>
    \<and> r \<in> set (wb_related v d) \<and> cp_id v r = c
    \<and> (\<forall>w' \<in> set (wb_related v d). cp_id v w' = c \<longrightarrow> wID w' \<le> wID r)
    \<and> u \<in> set (users d) \<and> uID u = c"
proof -
  let ?g = "filter (\<lambda>w. cp_id v w = c) (wb_related v d)"
  have pos: "\<forall>w \<in> set (wbs d). 0 < wID w" and dist: "distinct (map wID (wbs d))"
    using assms(1) by (auto simp: wbs_ok_def table_ok_def table_ok_distinct strict_sorted_iff)
  have sub: "set ?g \<subseteq> set (wb_related v d)" "set (wb_related v d) \<subseteq> set (wbs d)"
    by (auto simp: wb_related_def)
  have "?g \<noteq> []" using assms(3,4) by (auto simp: filter_empty_conv)
  then obtain r where r: "r \<in> set ?g" "last_wb_id ?g = wID r"
    using last_wb_id_in [of ?g] pos sub by blast
  have "distinct (map wID (wb_related v d))"
    unfolding wb_related_def using dist by (rule distinct_map_filter)
  then have fr: "find_row wID (last_wb_id ?g) (wb_related v d) = Some r"
    using r sub by (auto simp: find_row_distinct)
  have "c \<in> user_ids d"
    using assms(1,3,4) by (auto simp: wbs_ok_def wb_related_def cp_id_def split: if_splits)
  then obtain u where u: "u \<in> set (users d)" "uID u = c" by (auto simp: user_ids_def)
  then have fu: "find_row uID c (users d) = Some u"
    using assms(2) by (auto simp: users_ok_def find_row_distinct table_ok_distinct)
  have "\<forall>w' \<in> set (wb_related v d). cp_id v w' = c \<longrightarrow> wID w' \<le> wID r"
    using last_wb_id_max [of _ ?g] r(2) by auto
  with fr fu u r(1) show ?thesis
    by (intro exI [of _ r] exI [of _ u]) (auto simp: counterparty_row_def Let_def)
qed

section \<open>Listings over a table in id order\<close>

lemma sort_filter_table:
  "table_ok rid s rows \<Longrightarrow> sort_by (by_asc rid any_order) (filter P rows) = filter P rows"
  using table_ok_delete [of rid s rows "\<lambda>r. \<not> P r"]
  by (intro sort_by_id_table [of rid s]) (simp add: delete_rows_def)

lemma wbs_ok_table: "wbs_ok d \<Longrightarrow> table_ok wID (seq_wbs d) (wbs d)"
  by (simp add: wbs_ok_def)

lemma list_unread_table:
  "wbs_ok d \<Longrightarrow> wbs_list_unread_for t d = filter (\<lambda>w. wToUserID w = t \<and> wb_unread w) (wbs d)"
  unfolding wbs_list_unread_for_def by (rule sort_filter_table [OF wbs_ok_table])

lemma list_conversation_table:
  "wbs_ok d \<Longrightarrow> wbs_list_conversation v c limit d =
    take (nat (if limit \<le> 0 then 200 else limit)) (filter (between v c) (wbs d))"
  unfolding wbs_list_conversation_def Let_def by (simp add: sort_filter_table [OF wbs_ok_table])

lemma filter_unread_mark:
  "filter (\<lambda>w. Q w \<and> wb_unread w) (update_rows P (mark_wb now) ws) =
    filter (\<lambda>w. Q w \<and> wb_unread w \<and> \<not> P w) ws"
  by (induction ws) (auto simp: update_rows_def)

lemma marked_once:
  "update_rows (\<lambda>w. Q w \<and> wb_unread w) (mark_wb later) (update_rows (\<lambda>w. Q w \<and> wb_unread w) (mark_wb now) ws)
    = update_rows (\<lambda>w. Q w \<and> wb_unread w) (mark_wb now) ws"
  by (induction ws) (auto simp: update_rows_def)

section \<open>The roll-up\<close>

definition cp_ids :: "int \<Rightarrow> db \<Rightarrow> int set" where
  "cp_ids v d = {cp_id v w | w. w \<in> set (wb_related v d)}"

definition cp_rows :: "int \<Rightarrow> db \<Rightarrow> wb_counterparty list" where
  "cp_rows v d = List.map_filter (counterparty_row v d) (remdups (map (cp_id v) (wb_related v d)))"

lemma counterparty_row_cases:
  assumes "wbs_ok d" and "users_ok d" and "c \<in> cp_ids v d"
  obtains row where "counterparty_row v d c = Some row" and "cpUserID row = c"
  using counterparty_row_spec [OF assms(1,2)] assms(3) by (fastforce simp: cp_ids_def)

lemma cp_rows_ids:
  assumes "wbs_ok d" and "users_ok d"
  shows "map cpUserID (cp_rows v d) = remdups (map (cp_id v) (wb_related v d))"
proof -
  have "map cpUserID (List.map_filter (counterparty_row v d) cs) = cs" if "set cs \<subseteq> cp_ids v d" for cs
    using that
  proof (induction cs)
    case (Cons c cs)
    then obtain row where "counterparty_row v d c = Some row" "cpUserID row = c"
      by (auto elim: counterparty_row_cases [OF assms])
    with Cons show ?case by (simp add: List.map_filter_simps)
  qed (simp add: List.map_filter_simps)
  moreover have "set (remdups (map (cp_id v) (wb_related v d))) \<subseteq> cp_ids v d"
    by (auto simp: cp_ids_def)
  ultimately show ?thesis unfolding cp_rows_def by blast
qed

lemma in_cp_rows:
  "row \<in> set (cp_rows v d) \<Longrightarrow> \<exists>w \<in> set (wb_related v d). counterparty_row v d (cp_id v w) = Some row"
  by (auto simp: cp_rows_def List.map_filter_def)

lemma row_order_cp: "row_order (by_desc (\<lambda>c. 0 < cpUnreadCount c) (by_desc cpLastAt any_order))"
  by (intro row_order_desc row_order_any)

interpretation cp_order: row_order "by_desc (\<lambda>c. 0 < cpUnreadCount c) (by_desc cpLastAt any_order)"
  by (rule row_order_cp)

lemma list_counterparties_unfold:
  "wbs_list_counterparties_for v limit d =
    take (nat (if limit \<le> 0 then 50 else limit))
      (sort_by (by_desc (\<lambda>c. 0 < cpUnreadCount c) (by_desc cpLastAt any_order)) (cp_rows v d))"
  by (simp add: wbs_list_counterparties_for_def cp_rows_def Let_def)

lemma list_counterparties_distinct:
  assumes "wbs_ok d" and "users_ok d"
  shows "distinct (map cpUserID (wbs_list_counterparties_for v limit d))"
proof -
  let ?le = "by_desc (\<lambda>c. 0 < cpUnreadCount c) (by_desc cpLastAt any_order)"
  have "distinct (map cpUserID (cp_rows v d))" by (simp add: cp_rows_ids [OF assms])
  moreover have "mset (map cpUserID (sort_by ?le (cp_rows v d))) = mset (map cpUserID (cp_rows v d))"
    by simp
  ultimately have "distinct (map cpUserID (sort_by ?le (cp_rows v d)))"
    by (metis mset_eq_imp_distinct_iff)
  then show ?thesis unfolding list_counterparties_unfold take_map [symmetric] by (rule distinct_take)
qed

lemma list_counterparties_length:
  assumes "wbs_ok d" and "users_ok d"
  shows "length (wbs_list_counterparties_for v limit d) =
    min (card (cp_ids v d)) (nat (if limit \<le> 0 then 50 else limit))"
proof -
  have "length (cp_rows v d) = length (remdups (map (cp_id v) (wb_related v d)))"
    by (metis cp_rows_ids [OF assms] length_map)
  also have "\<dots> = card (cp_ids v d)"
    by (simp add: length_remdups_card_conv cp_ids_def setcompr_eq_image image_def)
  finally show ?thesis by (simp add: list_counterparties_unfold)
qed

lemma list_counterparties_row:
  assumes "wbs_ok d" and "users_ok d" and "row \<in> set (wbs_list_counterparties_for v limit d)"
  shows "\<exists>r u. r \<in> set (wb_related v d) \<and> cp_id v r = cpUserID row
    \<and> (\<forall>w \<in> set (wb_related v d). cp_id v w = cpUserID row \<longrightarrow> wID w \<le> wID r)
    \<and> cpLastBody row = wBody r \<and> cpLastFromMe row = (wFromUserID r = v) \<and> cpLastAt row = wCreatedAt r
    \<and> u \<in> set (users d) \<and> uID u = cpUserID row \<and> cpUserIDStr row = uUserID u
    \<and> cpUnreadCount row = unread_count v (filter (\<lambda>w. cp_id v w = cpUserID row) (wb_related v d))"
proof -
  have "row \<in> set (cp_rows v d)"
    using assms(3) in_set_takeD unfolding list_counterparties_unfold by fastforce
  then obtain w where w: "w \<in> set (wb_related v d)" "counterparty_row v d (cp_id v w) = Some row"
    using in_cp_rows by blast
  from counterparty_row_spec [OF assms(1,2) w(1) refl] w(2) show ?thesis by fastforce
qed

end
