(* ===== verification/MailRepo.thy ===== *)
theory MailRepo
  imports WaterBalloonRepo
begin

text \<open>
  \<open>internal/store/mail.go\<close>: threaded mail. \<open>Insert\<close> is two statements outside a transaction,
  the insert and, for a thread root, the back-fill of \<open>thread_id\<close>; they are separate definitions
  here so that a reader between them can be modelled.
\<close>

section \<open>Operations\<close>

text \<open>\<open>scanMail\<close> scans \<open>thread_id\<close> into an \<open>int64\<close>, which fails on NULL.\<close>

definition scan_mail :: "mail \<Rightarrow> mail res" where
  "scan_mail m = (if mThreadCol m = None then Inl ScanNull else Inr m)"

definition scan_mails :: "mail list \<Rightarrow> mail list res" where
  "scan_mails ms = (if \<exists>m \<in> set ms. mThreadCol m = None then Inl ScanNull else Inr ms)"

definition new_mail ::
  "int \<Rightarrow> string \<Rightarrow> int \<Rightarrow> string \<Rightarrow> string \<Rightarrow> int option \<Rightarrow> int option \<Rightarrow> timestamp \<Rightarrow> int \<Rightarrow> mail" where
  "new_mail from_id from_name to_id subject body thread parent now i =
    \<lparr>mID = i, mThreadCol = thread, mParentID = parent, mFromUserID = from_id,
     mFromUserIDStr = from_name, mToUserID = to_id, mSubject = subject, mBody = body,
     mReadAt = None, mCreatedAt = now\<rparr>"

definition mail_backfill :: "int \<Rightarrow> db \<Rightarrow> db" where
  "mail_backfill i d =
    d\<lparr>mails := update_rows (\<lambda>m. mID m = i) (\<lambda>m. m\<lparr>mThreadCol := Some i\<rparr>) (mails d)\<rparr>"

text \<open>The thread a new mail joins: the parent's, none for a root; the parent must exist.\<close>

definition mail_parent_thread :: "int option \<Rightarrow> db \<Rightarrow> int option res" where
  "mail_parent_thread parent d =
    (case parent of
       None \<Rightarrow> Inr None
     | Some p \<Rightarrow>
         (case find_row mID p (mails d) of None \<Rightarrow> Inl ErrMailNotFound | Some m \<Rightarrow> Inr (mThreadCol m)))"

definition mails_get_by_id :: "int \<Rightarrow> db \<Rightarrow> mail res" where
  "mails_get_by_id i d =
    (case find_row mID i (mails d) of None \<Rightarrow> Inl ErrMailNotFound | Some m \<Rightarrow> scan_mail m)"

definition mail_insert_row ::
  "int \<Rightarrow> string \<Rightarrow> int \<Rightarrow> string \<Rightarrow> string \<Rightarrow> int option \<Rightarrow> int option \<Rightarrow> timestamp \<Rightarrow> db \<Rightarrow>
    (int \<times> db) res" where
  "mail_insert_row from_id from_name to_id subject body thread parent now d =
    (if from_id \<notin> user_ids d \<or> to_id \<notin> user_ids d then Inl SqlForeignKey
     else Inr (ins_mail (new_mail from_id from_name to_id subject body thread parent now) d))"

definition mails_insert ::
  "int \<Rightarrow> string \<Rightarrow> int \<Rightarrow> string \<Rightarrow> string \<Rightarrow> int option \<Rightarrow> timestamp \<Rightarrow> db \<Rightarrow> mail res \<times> db" where
  "mails_insert from_id from_name to_id subject body parent now d =
    (case mail_parent_thread parent d of
       Inl e \<Rightarrow> (Inl e, d)
     | Inr thread \<Rightarrow>
         (case mail_insert_row from_id from_name to_id subject body thread parent now d of
            Inl e \<Rightarrow> (Inl e, d)
          | Inr (i, d1) \<Rightarrow>
              let d2 = (if thread = None then mail_backfill i d1 else d1)
              in (mails_get_by_id i d2, d2)))"

definition mail_unread :: "mail \<Rightarrow> bool" where
  "mail_unread m \<longleftrightarrow> mReadAt m = None"

definition mail_inbox_order :: "mail \<Rightarrow> mail \<Rightarrow> bool" where
  "mail_inbox_order = by_desc mail_unread (by_desc mID any_order)"

definition mails_list_inbox_for :: "int \<Rightarrow> int \<Rightarrow> db \<Rightarrow> mail list res" where
  "mails_list_inbox_for to_id limit d =
    (let limit = (if limit \<le> 0 then 50 else limit)
     in scan_mails (take (nat limit)
          (sort_by mail_inbox_order (filter (\<lambda>m. mToUserID m = to_id) (mails d)))))"

definition mails_list_thread :: "int \<Rightarrow> db \<Rightarrow> mail list res" where
  "mails_list_thread t d =
    scan_mails (sort_by (by_asc mID any_order) (filter (\<lambda>m. mThreadCol m = Some t) (mails d)))"

definition mails_mark_read :: "int \<Rightarrow> timestamp \<Rightarrow> db \<Rightarrow> unit res \<times> db" where
  "mails_mark_read i now d =
    (Inr (), d\<lparr>mails := update_rows (\<lambda>m. mID m = i \<and> mail_unread m)
       (\<lambda>m. m\<lparr>mReadAt := Some now\<rparr>) (mails d)\<rparr>)"

definition mails_mark_all_read_for :: "int \<Rightarrow> timestamp \<Rightarrow> db \<Rightarrow> unit res \<times> db" where
  "mails_mark_all_read_for to_id now d =
    (Inr (), d\<lparr>mails := update_rows (\<lambda>m. mToUserID m = to_id \<and> mail_unread m)
       (\<lambda>m. m\<lparr>mReadAt := Some now\<rparr>) (mails d)\<rparr>)"

definition mails_count_unread_for :: "int \<Rightarrow> db \<Rightarrow> nat" where
  "mails_count_unread_for to_id d = length (filter (\<lambda>m. mToUserID m = to_id \<and> mail_unread m) (mails d))"

section \<open>The thread invariant\<close>

text \<open>
  Every mail has a thread; a root's thread is its own id; a reply has an earlier parent and
  shares its thread.
\<close>

definition mail_linked :: "mail list \<Rightarrow> mail \<Rightarrow> bool" where
  "mail_linked ms m \<longleftrightarrow>
    (case mParentID m of
       None \<Rightarrow> mThreadCol m = Some (mID m)
     | Some p \<Rightarrow> (\<exists>pm \<in> set ms. mID pm = p \<and> p < mID m \<and> mThreadCol pm = mThreadCol m))"

definition mails_ok :: "db \<Rightarrow> bool" where
  "mails_ok d \<longleftrightarrow> table_ok mID (seq_mails d) (mails d)
     \<and> (\<forall>m \<in> set (mails d). mFromUserID m \<in> user_ids d \<and> mToUserID m \<in> user_ids d
          \<and> mThreadCol m \<noteq> None \<and> mail_linked (mails d) m)"

lemma new_mail_sel [simp]:
  "mID (new_mail f n t s b th p now i) = i" "mThreadCol (new_mail f n t s b th p now i) = th"
  "mParentID (new_mail f n t s b th p now i) = p" "mFromUserID (new_mail f n t s b th p now i) = f"
  "mToUserID (new_mail f n t s b th p now i) = t" "mReadAt (new_mail f n t s b th p now i) = None"
  by (simp_all add: new_mail_def)

interpretation mail_inbox: row_order mail_inbox_order
  unfolding mail_inbox_order_def by (intro row_order_desc row_order_any)

lemma mail_linked_mono: "mail_linked ms m \<Longrightarrow> set ms \<subseteq> set ms' \<Longrightarrow> mail_linked ms' m"
  by (auto simp: mail_linked_def split: option.splits)

lemma mails_ok_append:
  assumes "mails_ok d" and "mID m = seq_mails d + 1" and "mThreadCol m \<noteq> None"
    and "mail_linked (mails d @ [m]) m"
    and "mFromUserID m \<in> user_ids d" and "mToUserID m \<in> user_ids d"
  shows "mails_ok (d\<lparr>mails := mails d @ [m], seq_mails := seq_mails d + 1\<rparr>)"
  using assms table_ok_append [of mID "seq_mails d" "mails d" m]
  by (auto simp: mails_ok_def user_ids_def intro: mail_linked_mono)

text \<open>Insert as one equation: the row that ends up in the table.\<close>

definition mail_row ::
  "int \<Rightarrow> string \<Rightarrow> int \<Rightarrow> string \<Rightarrow> string \<Rightarrow> int option \<Rightarrow> int option \<Rightarrow> timestamp \<Rightarrow> db \<Rightarrow> mail" where
  "mail_row f n t s b thread parent now d =
    (let i = seq_mails d + 1
     in new_mail f n t s b (case thread of None \<Rightarrow> Some i | Some th \<Rightarrow> Some th) parent now i)"

lemma mails_insert_table:
  assumes "table_ok mID (seq_mails d) (mails d)" and "f \<in> user_ids d" and "t \<in> user_ids d"
    and "mail_parent_thread parent d = Inr thread"
  shows "mails_insert f n t s b parent now d =
    (Inr (mail_row f n t s b thread parent now d),
     d\<lparr>mails := mails d @ [mail_row f n t s b thread parent now d], seq_mails := seq_mails d + 1\<rparr>)"
proof -
  let ?i = "seq_mails d + 1" and ?m = "mail_row f n t s b thread parent now d"
  note tok = assms(1)
  have old: "update_rows (\<lambda>m. mID m = ?i) g (mails d) = mails d" for g
    using tok by (intro update_rows_none) (auto simp: table_ok_def)
  have row: "find_row mID ?i (mails d @ [?m]) = Some ?m"
    using tok by (intro find_row_fresh) (simp_all add: mail_row_def Let_def)
  have th: "mThreadCol ?m \<noteq> None" by (simp add: mail_row_def Let_def split: option.splits)
  show ?thesis
  proof (cases thread)
    case None
    then have "mails (mail_backfill ?i (snd (ins_mail (new_mail f n t s b thread parent now) d))) =
        mails d @ [?m]"
      using old by (simp add: mail_backfill_def ins_mail_def Let_def update_rows_def mail_row_def new_mail_def)
    with None assms row th show ?thesis
      by (simp add: mails_insert_def mail_insert_row_def ins_mail_def Let_def mails_get_by_id_def
          mail_backfill_def scan_mail_def)
  next
    case (Some x)
    with assms row th show ?thesis
      by (simp add: mails_insert_def mail_insert_row_def ins_mail_def Let_def mails_get_by_id_def
          scan_mail_def mail_row_def)
  qed
qed

lemma mails_insert_spec:
  "mails_ok d \<Longrightarrow> f \<in> user_ids d \<Longrightarrow> t \<in> user_ids d \<Longrightarrow> mail_parent_thread parent d = Inr thread \<Longrightarrow>
    mails_insert f n t s b parent now d =
      (Inr (mail_row f n t s b thread parent now d),
       d\<lparr>mails := mails d @ [mail_row f n t s b thread parent now d], seq_mails := seq_mails d + 1\<rparr>)"
  by (rule mails_insert_table) (simp_all add: mails_ok_def)

lemma mails_insert_cases:
  obtains (err) e where "mails_insert f n t s b parent now d = (Inl e, d)"
  | (ok) thread where "mail_parent_thread parent d = Inr thread" "f \<in> user_ids d" "t \<in> user_ids d"
proof (cases "mail_parent_thread parent d")
  case (Inl e)
  then show ?thesis by (intro err) (simp add: mails_insert_def)
next
  case (Inr thread)
  show ?thesis
  proof (cases "f \<in> user_ids d \<and> t \<in> user_ids d")
    case True
    with Inr ok show ?thesis by blast
  next
    case False
    with Inr show ?thesis by (intro err) (auto simp: mails_insert_def mail_insert_row_def)
  qed
qed

lemma mail_row_linked:
  assumes "mails_ok d" and "mail_parent_thread parent d = Inr thread"
  shows "mail_linked (mails d @ [mail_row f n t s b thread parent now d])
    (mail_row f n t s b thread parent now d)"
proof (cases parent)
  case None
  with assms(2) show ?thesis
    by (simp add: mail_parent_thread_def mail_linked_def mail_row_def Let_def)
next
  case (Some p)
  with assms(2) obtain pm where pm: "find_row mID p (mails d) = Some pm" "mThreadCol pm = thread"
    by (auto simp: mail_parent_thread_def split: option.splits)
  from find_row_Some [OF pm(1)] have "pm \<in> set (mails d)" "mID pm = p" by auto
  moreover from this assms(1) have "p < seq_mails d + 1" "thread \<noteq> None"
    using pm(2) by (auto simp: mails_ok_def table_ok_def)
  ultimately show ?thesis
    using Some pm(2) by (auto simp: mail_linked_def mail_row_def Let_def split: option.splits)
qed

lemma mails_insert_ok: "mails_ok d \<Longrightarrow> mails_ok (snd (mails_insert f n t s b parent now d))"
proof (cases rule: mails_insert_cases [of f n t s b parent now d])
  case (ok thread)
  assume "mails_ok d"
  with ok show ?thesis
    using mails_ok_append [of d "mail_row f n t s b thread parent now d"]
      mail_row_linked [of d parent thread f n t s b now]
    by (simp add: mails_insert_spec mail_row_def Let_def split: option.splits)
qed simp

lemma mails_ok_update:
  assumes "mails_ok d" and f: "\<And>m. mID (f m) = mID m" "\<And>m. mThreadCol (f m) = mThreadCol m"
    "\<And>m. mParentID (f m) = mParentID m" "\<And>m. mFromUserID (f m) = mFromUserID m"
    "\<And>m. mToUserID (f m) = mToUserID m"
  shows "mails_ok (d\<lparr>mails := update_rows P f (mails d)\<rparr>)"
proof -
  define g where "g = (\<lambda>m. if P m then f m else m)"
  have g: "mID (g m) = mID m" "mThreadCol (g m) = mThreadCol m" "mParentID (g m) = mParentID m"
    "mFromUserID (g m) = mFromUserID m" "mToUserID (g m) = mToUserID m" for m
    using f by (auto simp: g_def)
  have upd: "update_rows P f (mails d) = map g (mails d)" by (simp add: update_rows_def g_def)
  have "mail_linked (map g (mails d)) (g m)" if "mail_linked (mails d) m" for m
    using that by (auto simp: mail_linked_def g split: option.splits)
  moreover have "table_ok mID (seq_mails d) (map g (mails d))"
    using assms(1) table_ok_update [of mID "seq_mails d" "mails d" f P] f(1)
    by (simp add: mails_ok_def upd)
  ultimately show ?thesis
    using assms(1) by (auto simp: mails_ok_def user_ids_def upd g)
qed

lemma mails_mark_ok:
  "mails_ok d \<Longrightarrow> mails_ok (snd (mails_mark_read i now d))"
  "mails_ok d \<Longrightarrow> mails_ok (snd (mails_mark_all_read_for t now d))"
  by (simp_all add: mails_mark_read_def mails_mark_all_read_for_def mails_ok_update)

lemma scan_mails_ok: "mails_ok d \<Longrightarrow> set ms \<subseteq> set (mails d) \<Longrightarrow> scan_mails ms = Inr ms"
  by (auto simp: scan_mails_def mails_ok_def)

text \<open>Following parents, every thread id is the id of a root mail.\<close>

lemma mail_thread_root:
  assumes "mails_ok d"
  shows "m \<in> set (mails d) \<Longrightarrow>
    \<exists>r \<in> set (mails d). mThreadCol m = Some (mID r) \<and> mParentID r = None \<and> mID r \<le> mID m"
proof (induction "nat (mID m)" arbitrary: m rule: less_induct)
  case less
  have pos: "\<forall>m \<in> set (mails d). 0 < mID m" using assms by (simp add: mails_ok_def table_ok_def)
  from less.prems assms have lk: "mail_linked (mails d) m" by (simp add: mails_ok_def)
  show ?case
  proof (cases "mParentID m")
    case None
    with lk less.prems show ?thesis by (auto simp: mail_linked_def)
  next
    case (Some p)
    with lk obtain pm where pm: "pm \<in> set (mails d)" "mID pm < mID m" "mThreadCol pm = mThreadCol m"
      by (auto simp: mail_linked_def)
    have "nat (mID pm) < nat (mID m)" using pm(1,2) pos by auto
    from less.hyps [OF this pm(1)] obtain r where "r \<in> set (mails d)"
      "mThreadCol pm = Some (mID r)" "mParentID r = None" "mID r \<le> mID pm" by blast
    with pm show ?thesis by (intro bexI [of _ r]) auto
  qed
qed

section \<open>Threads as lists\<close>

lemma list_thread_table:
  assumes "mails_ok d"
  shows "mails_list_thread t d = Inr (filter (\<lambda>m. mThreadCol m = Some t) (mails d))"
proof -
  have "table_ok mID (seq_mails d) (mails d)" using assms by (simp add: mails_ok_def)
  then show ?thesis
    unfolding mails_list_thread_def
    by (simp add: sort_filter_table scan_mails_ok [OF assms])
qed

lemma sort_by_first:
  assumes "\<And>y. y \<in> set xs \<Longrightarrow> le x y \<and> \<not> le y x"
  shows "sort_by le (xs @ [x]) = x # sort_by le xs"
  using assms
proof (induction xs)
  case Nil
  then show ?case by (simp add: sort_by_def)
next
  case (Cons y ys)
  then have "sort_by le (ys @ [x]) = x # sort_by le ys" by simp
  with Cons.prems [of y] show ?case by (simp add: sort_by_def)
qed

text \<open>The state between the two statements of the insertion of a root mail.\<close>

lemma root_insert_window:
  assumes "mails_ok d" and "mail_insert_row f n t subj s None None now d = Inr (i, d1)"
  shows "mails_get_by_id i d1 = Inl ScanNull" and "mails_list_inbox_for t limit d1 = Inl ScanNull"
proof -
  let ?m = "new_mail f n t subj s None None now i"
  have i: "i = seq_mails d + 1" and d1: "mails d1 = mails d @ [?m]"
    using assms(2) by (auto simp: mail_insert_row_def ins_mail_def Let_def split: if_splits)
  have tok: "table_ok mID (seq_mails d) (mails d)" using assms(1) by (simp add: mails_ok_def)
  then have "find_row mID i (mails d1) = Some ?m"
    unfolding d1 i by (intro find_row_fresh) simp_all
  then show "mails_get_by_id i d1 = Inl ScanNull"
    by (simp add: mails_get_by_id_def scan_mail_def)
  have le: "mID m < i" if "m \<in> set (mails d)" for m
    using tok that i by (auto simp: table_ok_def)
  have "sort_by mail_inbox_order (filter (\<lambda>m. mToUserID m = t) (mails d) @ [?m]) =
      ?m # sort_by mail_inbox_order (filter (\<lambda>m. mToUserID m = t) (mails d))"
    using le by (intro sort_by_first) (force simp: mail_inbox_order_def by_desc_def mail_unread_def)
  moreover have "mToUserID ?m = t" by simp
  ultimately have "sort_by mail_inbox_order (filter (\<lambda>m. mToUserID m = t) (mails d1)) =
      ?m # sort_by mail_inbox_order (filter (\<lambda>m. mToUserID m = t) (mails d))"
    by (simp add: d1)
  moreover have "0 < nat (if limit \<le> 0 then 50 else limit)" by simp
  ultimately show "mails_list_inbox_for t limit d1 = Inl ScanNull"
    by (auto simp: mails_list_inbox_for_def Let_def scan_mails_def take_Cons' simp del: nat_0_iff)
qed

lemma mail_insert_thread:
  assumes ok: "mails_ok d" and ins: "mails_insert f n t subj s parent now d = (r, d')"
  shows "case r of
      Inl e \<Rightarrow> d' = d
    | Inr m \<Rightarrow> mID m = seq_mails d + 1 \<and> mParentID m = parent \<and> mails_get_by_id (mID m) d' = Inr m
        \<and> (\<exists>th ms. mThreadCol m = Some th \<and> mails_list_thread th d = Inr ms
             \<and> mails_list_thread th d' = Inr (ms @ [m])
             \<and> (case parent of None \<Rightarrow> th = mID m
                | Some p \<Rightarrow> (\<exists>pm. mails_get_by_id p d = Inr pm \<and> mThreadCol pm = Some th))
             \<and> (\<forall>x. x \<noteq> th \<longrightarrow> mails_list_thread x d' = mails_list_thread x d))"
proof (cases rule: mails_insert_cases [of f n t subj s parent now d])
  case (err e)
  with ins show ?thesis by auto
next
  case (ok thread)
  let ?m = "mail_row f n t subj s thread parent now d"
  let ?i = "seq_mails d + 1"
  have r: "r = Inr ?m" "d' = d\<lparr>mails := mails d @ [?m], seq_mails := ?i\<rparr>"
    using mails_insert_spec [OF \<open>mails_ok d\<close> ok(2,3,1), of n subj s now] ins by auto
  have ok': "mails_ok d'" using mails_insert_ok [OF \<open>mails_ok d\<close>] ins by (metis snd_conv)
  have m: "mID ?m = ?i" "mParentID ?m = parent"
    by (simp_all add: mail_row_def Let_def)
  obtain th where th: "mThreadCol ?m = Some th" "thread = None \<longrightarrow> th = ?i" "thread \<noteq> None \<longrightarrow> thread = Some th"
    by (cases thread) (simp_all add: mail_row_def Let_def)
  have par: "case parent of None \<Rightarrow> th = ?i
      | Some p \<Rightarrow> (\<exists>pm. mails_get_by_id p d = Inr pm \<and> mThreadCol pm = Some th)"
  proof (cases parent)
    case None
    with ok(1) th(2) show ?thesis by (simp add: mail_parent_thread_def)
  next
    case (Some p)
    with ok(1) obtain pm where pm: "find_row mID p (mails d) = Some pm" "mThreadCol pm = thread"
      by (auto simp: mail_parent_thread_def split: option.splits)
    moreover have "mThreadCol pm \<noteq> None"
      using find_row_Some [OF pm(1)] \<open>mails_ok d\<close> by (auto simp: mails_ok_def)
    ultimately show ?thesis using Some th(3) by (auto simp: mails_get_by_id_def scan_mail_def)
  qed
  have tok: "table_ok mID (seq_mails d) (mails d)" using \<open>mails_ok d\<close> by (simp add: mails_ok_def)
  have "find_row mID ?i (mails d') = Some ?m" unfolding r(2) using find_row_fresh [OF tok m(1)] by simp
  then have "mails_get_by_id ?i d' = Inr ?m" using th(1) by (simp add: mails_get_by_id_def scan_mail_def)
  moreover have "mails_list_thread x d' =
      Inr (filter (\<lambda>m. mThreadCol m = Some x) (mails d) @ (if x = th then [?m] else []))" for x
    using list_thread_table [OF ok', of x] th(1) by (simp add: r(2))
  ultimately show ?thesis
    using r(1) m th(1) par
    by (cases parent) (simp_all add: list_thread_table [OF \<open>mails_ok d\<close>])
qed

end
