(* ===== verification/NotifyRepo.thy ===== *)
theory NotifyRepo
  imports MailRepo
begin

text \<open>\<open>internal/store/notify.go\<close>: notification preferences and webhook targets.\<close>

definition default_notify_prefs :: notify_prefs where
  "default_notify_prefs = \<lparr>npOnPush = True, npOnWB = True, npOnMail = True, npOnReply = True,
     npOnlyWhenOffline = False\<rparr>"

definition validate_notify_url :: "string \<Rightarrow> unit res" where
  "validate_notify_url u =
    (let u = trim_space u
     in if has_prefix u ''http://'' \<or> has_prefix u ''https://'' then Inr () else Inl ErrInvalidNotifyURL)"

definition notify_get_prefs :: "int \<Rightarrow> db \<Rightarrow> notify_prefs" where
  "notify_get_prefs user_id d =
    (case map_of (prefs d) user_id of None \<Rightarrow> default_notify_prefs | Some p \<Rightarrow> p)"

text \<open>The upsert on the primary key \<open>user_id\<close>; the user must exist.\<close>

primrec upsert :: "'k \<Rightarrow> 'v \<Rightarrow> ('k \<times> 'v) list \<Rightarrow> ('k \<times> 'v) list" where
  "upsert k v [] = [(k, v)]"
| "upsert k v (x # xs) = (if fst x = k then (k, v) # xs else x # upsert k v xs)"

definition notify_set_prefs :: "int \<Rightarrow> notify_prefs \<Rightarrow> db \<Rightarrow> unit res \<times> db" where
  "notify_set_prefs user_id p d =
    (if user_id \<notin> user_ids d then (Inl SqlForeignKey, d)
     else (Inr (), d\<lparr>prefs := upsert user_id p (prefs d)\<rparr>))"

definition notify_list_targets :: "int \<Rightarrow> db \<Rightarrow> notify_target list" where
  "notify_list_targets user_id d =
    sort_by (by_asc ntID any_order) (filter (\<lambda>t. ntUserID t = user_id) (targets d))"

definition notify_list_enabled_targets :: "int \<Rightarrow> db \<Rightarrow> notify_target list" where
  "notify_list_enabled_targets user_id d =
    sort_by (by_asc ntID any_order) (filter (\<lambda>t. ntUserID t = user_id \<and> ntEnabled t) (targets d))"

definition new_target :: "int \<Rightarrow> string \<Rightarrow> string \<Rightarrow> timestamp \<Rightarrow> int \<Rightarrow> notify_target" where
  "new_target user_id label url now i =
    \<lparr>ntID = i, ntUserID = user_id, ntLabel = label, ntURL = url, ntEnabled = True, ntCreatedAt = now\<rparr>"

definition notify_add_target ::
  "int \<Rightarrow> string \<Rightarrow> string \<Rightarrow> timestamp \<Rightarrow> db \<Rightarrow> int res \<times> db" where
  "notify_add_target user_id label url now d =
    (case validate_notify_url url of
       Inl e \<Rightarrow> (Inl e, d)
     | Inr _ \<Rightarrow>
         if user_id \<notin> user_ids d then (Inl SqlForeignKey, d)
         else let (i, d') = ins_target (new_target user_id (trim_space label) (trim_space url) now) d
              in (Inr i, d'))"

definition owned_target :: "int \<Rightarrow> int \<Rightarrow> notify_target \<Rightarrow> bool" where
  "owned_target i user_id t \<longleftrightarrow> ntID t = i \<and> ntUserID t = user_id"

definition notify_update_target ::
  "int \<Rightarrow> int \<Rightarrow> string \<Rightarrow> string \<Rightarrow> bool \<Rightarrow> db \<Rightarrow> unit res \<times> db" where
  "notify_update_target i requester label url enabled d =
    (case validate_notify_url url of
       Inl e \<Rightarrow> (Inl e, d)
     | Inr _ \<Rightarrow>
         let d' = d\<lparr>targets := update_rows (owned_target i requester)
               (\<lambda>t. t\<lparr>ntLabel := trim_space label, ntURL := trim_space url, ntEnabled := enabled\<rparr>)
               (targets d)\<rparr>
         in if \<exists>t \<in> set (targets d). owned_target i requester t then (Inr (), d')
            else (Inl ErrNotifyTargetNotFound, d'))"

definition notify_set_target_enabled :: "int \<Rightarrow> int \<Rightarrow> bool \<Rightarrow> db \<Rightarrow> unit res \<times> db" where
  "notify_set_target_enabled i requester enabled d =
    (let d' = d\<lparr>targets := update_rows (owned_target i requester)
           (\<lambda>t. t\<lparr>ntEnabled := enabled\<rparr>) (targets d)\<rparr>
     in if \<exists>t \<in> set (targets d). owned_target i requester t then (Inr (), d')
        else (Inl ErrNotifyTargetNotFound, d'))"

definition notify_delete_target :: "int \<Rightarrow> int \<Rightarrow> db \<Rightarrow> unit res \<times> db" where
  "notify_delete_target i requester d =
    (let d' = d\<lparr>targets := delete_rows (owned_target i requester) (targets d)\<rparr>
     in if \<exists>t \<in> set (targets d). owned_target i requester t then (Inr (), d')
        else (Inl ErrNotifyTargetNotFound, d'))"

lemmas target_write_defs = notify_update_target_def notify_set_target_enabled_def
  notify_delete_target_def Let_def

section \<open>Invariant\<close>

definition http_url :: "string \<Rightarrow> bool" where
  "http_url u \<longleftrightarrow> has_prefix u ''http://'' \<or> has_prefix u ''https://''"

definition targets_ok :: "db \<Rightarrow> bool" where
  "targets_ok d \<longleftrightarrow> table_ok ntID (seq_targets d) (targets d)
     \<and> (\<forall>t \<in> set (targets d). ntUserID t \<in> user_ids d \<and> http_url (ntURL t) \<and> trimmed (ntURL t))"

lemma validate_url_cases:
  "validate_notify_url u = (if http_url (trim_space u) then Inr () else Inl ErrInvalidNotifyURL)"
  by (simp add: validate_notify_url_def http_url_def Let_def)

lemma new_target_sel [simp]:
  "ntID (new_target u l url now i) = i" "ntUserID (new_target u l url now i) = u"
  "ntURL (new_target u l url now i) = url" "ntEnabled (new_target u l url now i)"
  by (simp_all add: new_target_def)

lemma notify_add_target_ok: "targets_ok d \<Longrightarrow> targets_ok (snd (notify_add_target u l url now d))"
  using target_table.ins_table_ok [of d "new_target u (trim_space l) (trim_space url) now"]
  by (auto simp: notify_add_target_def validate_url_cases targets_ok_def user_ids_def ins_target_def
      Let_def trimmed_trim_space)

lemma target_write_ok:
  "targets_ok d \<Longrightarrow> targets_ok (snd (notify_update_target i r l url e d))"
  "targets_ok d \<Longrightarrow> targets_ok (snd (notify_set_target_enabled i r e d))"
  "targets_ok d \<Longrightarrow> targets_ok (snd (notify_delete_target i r d))"
  by (auto simp: target_write_defs validate_url_cases targets_ok_def user_ids_def table_ok_update
      table_ok_delete set_update_rows trimmed_trim_space)

lemma upsert_keys [simp]: "fst ` set (upsert k v xs) = insert k (fst ` set xs)"
  by (induction xs) auto

lemma upsert_distinct: "distinct (map fst xs) \<Longrightarrow> distinct (map fst (upsert k v xs))"
proof (induction xs)
  case (Cons x xs)
  then show ?case using upsert_keys [of k v xs] by (auto simp del: upsert_keys)
qed simp

lemma map_of_upsert [simp]: "map_of (upsert k v xs) = (map_of xs)(k \<mapsto> v)"
  by (induction xs) auto

lemma notify_set_prefs_ok: "prefs_ok d \<Longrightarrow> prefs_ok (snd (notify_set_prefs u p d))"
  by (simp add: notify_set_prefs_def prefs_ok_def user_ids_def upsert_distinct)

lemma get_set_prefs:
  assumes "u \<in> user_ids d"
  shows "notify_get_prefs v (snd (notify_set_prefs u p d)) = (if v = u then p else notify_get_prefs v d)"
  using assms by (simp add: notify_get_prefs_def notify_set_prefs_def)

section \<open>Ownership\<close>

lemma not_owned:
  assumes "targets_ok d" and "t \<in> set (targets d)" and "q \<noteq> ntUserID t"
  shows "\<forall>x \<in> set (targets d). \<not> owned_target (ntID t) q x"
proof
  fix x assume x: "x \<in> set (targets d)"
  have "distinct (map ntID (targets d))"
    using assms(1) by (auto simp: targets_ok_def intro: table_ok_distinct)
  then have "ntID x = ntID t \<Longrightarrow> x = t" using x assms(2) by (rule distinct_key_eq)
  with assms(3) show "\<not> owned_target (ntID t) q x" by (auto simp: owned_target_def)
qed

lemma target_foreign:
  assumes "targets_ok d" and "t \<in> set (targets d)" and "q \<noteq> ntUserID t"
  shows "http_url (trim_space url) \<Longrightarrow>
      notify_update_target (ntID t) q l url e d = (Inl ErrNotifyTargetNotFound, d)"
    and "notify_set_target_enabled (ntID t) q e d = (Inl ErrNotifyTargetNotFound, d)"
    and "notify_delete_target (ntID t) q d = (Inl ErrNotifyTargetNotFound, d)"
  using not_owned [OF assms]
  by (auto simp: target_write_defs validate_url_cases update_rows_none delete_rows_def filter_id_conv)

lemma target_own:
  assumes "t \<in> set (targets d)"
  shows "http_url (trim_space url) \<Longrightarrow>
      fst (notify_update_target (ntID t) (ntUserID t) l url e d) = Inr ()"
    and "fst (notify_set_target_enabled (ntID t) (ntUserID t) e d) = Inr ()"
  using assms by (auto simp: target_write_defs validate_url_cases owned_target_def)

lemma list_targets_table:
  "table_ok ntID s (targets d) \<Longrightarrow> notify_list_targets u d = filter (\<lambda>t. ntUserID t = u) (targets d)"
  unfolding notify_list_targets_def by (rule sort_filter_table)

lemma list_update_targets:
  assumes "targets_ok d" and "\<And>t. ntID (f t) = ntID t" and "\<And>t. ntUserID (f t) = ntUserID t"
  shows "notify_list_targets u (d\<lparr>targets := update_rows P f (targets d)\<rparr>) =
    update_rows P f (notify_list_targets u d)"
proof -
  have tok: "table_ok ntID (seq_targets d) (targets d)" using assms(1) by (simp add: targets_ok_def)
  have "filter (\<lambda>t. ntUserID t = u) (update_rows P f ts) = update_rows P f (filter (\<lambda>t. ntUserID t = u) ts)"
    for ts by (induction ts) (auto simp: update_rows_def assms(3))
  then show ?thesis
    using list_targets_table [OF tok] list_targets_table [of "seq_targets d" "d\<lparr>targets := update_rows P f (targets d)\<rparr>"]
      table_ok_update [OF tok, of f P] assms(2) by simp
qed

lemma list_delete_targets:
  assumes "targets_ok d"
  shows "notify_list_targets u (d\<lparr>targets := delete_rows P (targets d)\<rparr>) = delete_rows P (notify_list_targets u d)"
proof -
  have tok: "table_ok ntID (seq_targets d) (targets d)" using assms(1) by (simp add: targets_ok_def)
  then show ?thesis
    using list_targets_table [OF tok] list_targets_table [of "seq_targets d" "d\<lparr>targets := delete_rows P (targets d)\<rparr>"]
      table_ok_delete [OF tok, of P] by (simp add: delete_rows_def conj_commute)
qed

lemma target_write_snd:
  "snd (notify_update_target i r l url e d) =
    (if http_url (trim_space url)
     then d\<lparr>targets := update_rows (owned_target i r)
       (\<lambda>t. t\<lparr>ntLabel := trim_space l, ntURL := trim_space url, ntEnabled := e\<rparr>) (targets d)\<rparr>
     else d)"
  "snd (notify_set_target_enabled i r e d) =
    d\<lparr>targets := update_rows (owned_target i r) (\<lambda>t. t\<lparr>ntEnabled := e\<rparr>) (targets d)\<rparr>"
  "snd (notify_delete_target i r d) = d\<lparr>targets := delete_rows (owned_target i r) (targets d)\<rparr>"
  by (simp_all add: target_write_defs validate_url_cases)

lemma in_list_targets: "t \<in> set (notify_list_targets u d) \<longleftrightarrow> t \<in> set (targets d) \<and> ntUserID t = u"
  by (simp add: notify_list_targets_def)

lemma target_own_lists:
  assumes "targets_ok d" and "t \<in> set (targets d)"
  shows "notify_list_targets (ntUserID t) (snd (notify_set_target_enabled (ntID t) (ntUserID t) e d)) =
        map (\<lambda>x. if ntID x = ntID t then x\<lparr>ntEnabled := e\<rparr> else x) (notify_list_targets (ntUserID t) d)"
    and "notify_list_targets (ntUserID t) (snd (notify_delete_target (ntID t) (ntUserID t) d)) =
        filter (\<lambda>x. ntID x \<noteq> ntID t) (notify_list_targets (ntUserID t) d)"
proof -
  have own: "x \<in> set (notify_list_targets (ntUserID t) d) \<Longrightarrow>
      owned_target (ntID t) (ntUserID t) x \<longleftrightarrow> ntID x = ntID t" for x
    by (simp add: in_list_targets owned_target_def)
  show "notify_list_targets (ntUserID t) (snd (notify_set_target_enabled (ntID t) (ntUserID t) e d)) =
        map (\<lambda>x. if ntID x = ntID t then x\<lparr>ntEnabled := e\<rparr> else x) (notify_list_targets (ntUserID t) d)"
    unfolding target_write_snd using own
    by (subst list_update_targets [OF assms(1)]) (auto simp: update_rows_def)
  show "notify_list_targets (ntUserID t) (snd (notify_delete_target (ntID t) (ntUserID t) d)) =
        filter (\<lambda>x. ntID x \<noteq> ntID t) (notify_list_targets (ntUserID t) d)"
    unfolding target_write_snd list_delete_targets [OF assms(1)]
    unfolding delete_rows_def using own by (intro filter_cong) auto
qed

lemma target_other_lists:
  assumes "targets_ok d" and "u \<noteq> r"
  shows "notify_list_targets u (snd (notify_delete_target i r d)) = notify_list_targets u d"
    and "notify_list_targets u (snd (notify_update_target i r l url e d)) = notify_list_targets u d"
proof -
  have "\<forall>x \<in> set (notify_list_targets u d). \<not> owned_target i r x"
    using assms(2) by (auto simp: in_list_targets owned_target_def)
  then show "notify_list_targets u (snd (notify_delete_target i r d)) = notify_list_targets u d"
    "notify_list_targets u (snd (notify_update_target i r l url e d)) = notify_list_targets u d"
    unfolding target_write_snd list_delete_targets [OF assms(1)]
    using assms(1) by (simp_all add: list_update_targets update_rows_none delete_rows_def filter_id_conv)
qed

end
