(* ===== verification/StoreInv.thy ===== *)
theory StoreInv
  imports NotifyRepo
begin

text \<open>
  The store as a transition system. The process-wide \<open>writeMu\<close> of \<open>internal/store/store.go\<close>
  serialises the writes, so a step is one whole repository call with arbitrary arguments, whatever
  session issued it and whether it returned an error. \<open>db_inv\<close> collects the integrity predicates of
  the tables with the score and thread invariants; \<open>db_reachable_inv\<close> carries it to every database
  a running server can reach.
\<close>

definition db_inv :: "db \<Rightarrow> bool" where
  "db_inv d \<longleftrightarrow> users_ok d \<and> boards_ok d \<and> articles_ok d \<and> pushes_ok d \<and> score_ok d \<and> wbs_ok d
     \<and> mails_ok d \<and> prefs_ok d \<and> targets_ok d"

lemma db_invD:
  assumes "db_inv d"
  shows "users_ok d" "boards_ok d" "articles_ok d" "pushes_ok d" "score_ok d" "wbs_ok d" "mails_ok d"
    "prefs_ok d" "targets_ok d"
  using assms by (simp_all add: db_inv_def)

section \<open>Steps\<close>

inductive db_step :: "db \<Rightarrow> db \<Rightarrow> bool" where
  user_create: "db_step d (snd (users_create name hash nick email now d))"
| user_system: "db_step d (snd (users_insert_system_account name hash r must now d))"
| user_login: "db_step d (snd (users_note_login i host now d))"
| user_posts: "db_step d (snd (users_increment_posts i d))"
| user_password: "db_step d (snd (users_set_password i hash d))"
| user_locale: "db_step d (snd (users_set_locale i loc d))"
| user_bio: "db_step d (snd (users_set_bio i bio d))"
| user_role: "db_step d (snd (users_set_role i r d))"
| board_seed: "db_step d (snd (boards_seed_defaults now d))"
| board_banner: "db_step d (snd (boards_update_banner i req r banner d))"
| article_create: "db_step d (snd (articles_create b u n t s now d))"
| article_delete: "db_step d (snd (articles_delete i u r d))"
| article_edit: "db_step d (snd (article_repo_update i u r t s now d))"
| article_pin: "db_step d (snd (articles_set_pinned i u r pin now d))"
| article_mode: "db_step d (snd (articles_set_comments_mode i u r m d))"
| push_create: "db_step d (snd (pushes_create a u n k s now d))"
| push_delete: "db_step d (snd (pushes_delete i u r d))"
| wb_insert: "db_step d (snd (wbs_insert f n t s l now d))"
| wb_mark: "db_step d (snd (wbs_mark_read i now d))"
| wb_mark_all: "db_step d (snd (wbs_mark_all_read_for t now d))"
| wb_mark_conv: "db_step d (snd (wbs_mark_conversation_read v c now d))"
| mail_insert: "db_step d (snd (mails_insert f n t subj s parent now d))"
| mail_mark: "db_step d (snd (mails_mark_read i now d))"
| mail_mark_all: "db_step d (snd (mails_mark_all_read_for t now d))"
| notify_prefs: "db_step d (snd (notify_set_prefs i p d))"
| target_add: "db_step d (snd (notify_add_target i l url now d))"
| target_update: "db_step d (snd (notify_update_target i r l url e d))"
| target_enable: "db_step d (snd (notify_set_target_enabled i r e d))"
| target_delete: "db_step d (snd (notify_delete_target i r d))"

inductive db_reachable :: "db \<Rightarrow> bool" where
  start: "db_reachable empty_db"
| step: "db_reachable d \<Longrightarrow> db_step d d' \<Longrightarrow> db_reachable d'"

lemma db_inv_empty: "db_inv empty_db"
  by (simp add: db_inv_def empty_db_def users_ok_def boards_ok_def articles_ok_def pushes_ok_def
      score_ok_def wbs_ok_def mails_ok_def prefs_ok_def targets_ok_def)

section \<open>Changes confined to one table\<close>

text \<open>
  A database that differs from \<open>d\<close> in one table only: the premise \<open>d' = d\<lparr>t := t d', \<dots>\<rparr>\<close> is the
  frame, and the predicates of the other tables carry over because they read the fields of that
  table through its id set at most.
\<close>

lemma db_inv_users:
  assumes "db_inv d" and fr: "d' = d\<lparr>users := users d', seq_users := seq_users d'\<rparr>"
    and "users_ok d'" and "user_ids d \<subseteq> user_ids d'"
  shows "db_inv d'"
proof -
  have eqs: "boards d' = boards d" "seq_boards d' = seq_boards d" "articles d' = articles d"
    "seq_articles d' = seq_articles d" "pushes d' = pushes d" "seq_pushes d' = seq_pushes d"
    "wbs d' = wbs d" "seq_wbs d' = seq_wbs d" "mails d' = mails d" "seq_mails d' = seq_mails d"
    "prefs d' = prefs d" "targets d' = targets d" "seq_targets d' = seq_targets d"
    by (subst fr; simp)+
  show ?thesis
    using assms(1,3,4)
    by (auto simp: db_inv_def boards_ok_def articles_ok_def pushes_ok_def score_ok_def wbs_ok_def
        mails_ok_def prefs_ok_def targets_ok_def board_ids_def article_ids_def eqs)
qed

lemma db_inv_users_update:
  assumes "db_inv d" and "users_ok (d\<lparr>users := update_rows P f (users d)\<rparr>)"
    and "\<And>u. uID (f u) = uID u"
  shows "db_inv (d\<lparr>users := update_rows P f (users d)\<rparr>)"
  by (rule db_inv_users [OF assms(1) _ assms(2)]) (simp_all add: user_ids_update assms(3))

lemma db_inv_boards:
  assumes "db_inv d" and fr: "d' = d\<lparr>boards := boards d', seq_boards := seq_boards d'\<rparr>"
    and "boards_ok d'" and "board_ids d \<subseteq> board_ids d'"
  shows "db_inv d'"
proof -
  have eqs: "users d' = users d" "seq_users d' = seq_users d" "articles d' = articles d"
    "seq_articles d' = seq_articles d" "pushes d' = pushes d" "seq_pushes d' = seq_pushes d"
    "wbs d' = wbs d" "seq_wbs d' = seq_wbs d" "mails d' = mails d" "seq_mails d' = seq_mails d"
    "prefs d' = prefs d" "targets d' = targets d" "seq_targets d' = seq_targets d"
    by (subst fr; simp)+
  show ?thesis
    using assms(1,3,4)
    by (auto simp: db_inv_def users_ok_def articles_ok_def pushes_ok_def score_ok_def wbs_ok_def
        mails_ok_def prefs_ok_def targets_ok_def user_ids_def article_ids_def eqs)
qed

lemma db_inv_wbs:
  assumes "db_inv d" and fr: "d' = d\<lparr>wbs := wbs d', seq_wbs := seq_wbs d'\<rparr>" and "wbs_ok d'"
  shows "db_inv d'"
proof -
  have eqs: "users d' = users d" "seq_users d' = seq_users d" "boards d' = boards d"
    "seq_boards d' = seq_boards d" "articles d' = articles d"
    "seq_articles d' = seq_articles d" "pushes d' = pushes d" "seq_pushes d' = seq_pushes d"
    "mails d' = mails d" "seq_mails d' = seq_mails d" "prefs d' = prefs d"
    "targets d' = targets d" "seq_targets d' = seq_targets d"
    by (subst fr; simp)+
  show ?thesis
    using assms(1,3)
    by (simp add: db_inv_def users_ok_def boards_ok_def articles_ok_def pushes_ok_def
        score_ok_def mails_ok_def prefs_ok_def targets_ok_def id_set_defs eqs)
qed

lemma db_inv_mails:
  assumes "db_inv d" and fr: "d' = d\<lparr>mails := mails d', seq_mails := seq_mails d'\<rparr>" and "mails_ok d'"
  shows "db_inv d'"
proof -
  have eqs: "users d' = users d" "seq_users d' = seq_users d" "boards d' = boards d"
    "seq_boards d' = seq_boards d" "articles d' = articles d"
    "seq_articles d' = seq_articles d" "pushes d' = pushes d" "seq_pushes d' = seq_pushes d"
    "wbs d' = wbs d" "seq_wbs d' = seq_wbs d" "prefs d' = prefs d" "targets d' = targets d"
    "seq_targets d' = seq_targets d"
    by (subst fr; simp)+
  show ?thesis
    using assms(1,3)
    by (simp add: db_inv_def users_ok_def boards_ok_def articles_ok_def pushes_ok_def
        score_ok_def wbs_ok_def prefs_ok_def targets_ok_def id_set_defs eqs)
qed

lemma db_inv_prefs:
  assumes "db_inv d" and fr: "d' = d\<lparr>prefs := prefs d'\<rparr>" and "prefs_ok d'"
  shows "db_inv d'"
proof -
  have eqs: "users d' = users d" "seq_users d' = seq_users d" "boards d' = boards d"
    "seq_boards d' = seq_boards d" "articles d' = articles d"
    "seq_articles d' = seq_articles d" "pushes d' = pushes d" "seq_pushes d' = seq_pushes d"
    "wbs d' = wbs d" "seq_wbs d' = seq_wbs d" "mails d' = mails d"
    "seq_mails d' = seq_mails d" "targets d' = targets d" "seq_targets d' = seq_targets d"
    by (subst fr; simp)+
  show ?thesis
    using assms(1,3)
    by (simp add: db_inv_def users_ok_def boards_ok_def articles_ok_def pushes_ok_def
        score_ok_def wbs_ok_def mails_ok_def targets_ok_def id_set_defs eqs)
qed

lemma db_inv_targets:
  assumes "db_inv d" and fr: "d' = d\<lparr>targets := targets d', seq_targets := seq_targets d'\<rparr>" and "targets_ok d'"
  shows "db_inv d'"
proof -
  have eqs: "users d' = users d" "seq_users d' = seq_users d" "boards d' = boards d"
    "seq_boards d' = seq_boards d" "articles d' = articles d"
    "seq_articles d' = seq_articles d" "pushes d' = pushes d" "seq_pushes d' = seq_pushes d"
    "wbs d' = wbs d" "seq_wbs d' = seq_wbs d" "mails d' = mails d"
    "seq_mails d' = seq_mails d" "prefs d' = prefs d"
    by (subst fr; simp)+
  show ?thesis
    using assms(1,3)
    by (simp add: db_inv_def users_ok_def boards_ok_def articles_ok_def pushes_ok_def
        score_ok_def wbs_ok_def mails_ok_def prefs_ok_def id_set_defs eqs)
qed

lemma db_inv_articles_pushes:
  assumes "db_inv d"
    and fr: "d' = d\<lparr>articles := articles d', seq_articles := seq_articles d', pushes := pushes d',
      seq_pushes := seq_pushes d'\<rparr>"
    and "articles_ok d'" and "pushes_ok d'" and "score_ok d'"
  shows "db_inv d'"
proof -
  have eqs: "users d' = users d" "seq_users d' = seq_users d" "boards d' = boards d"
    "seq_boards d' = seq_boards d" "wbs d' = wbs d" "seq_wbs d' = seq_wbs d" "mails d' = mails d"
    "seq_mails d' = seq_mails d" "prefs d' = prefs d" "targets d' = targets d"
    "seq_targets d' = seq_targets d"
    by (subst fr; simp)+
  show ?thesis
    using assms(1,3,4,5)
    by (simp add: db_inv_def users_ok_def boards_ok_def wbs_ok_def mails_ok_def prefs_ok_def
        targets_ok_def id_set_defs eqs)
qed

section \<open>Preservation, table by table\<close>

lemma users_insert_inv:
  assumes "db_inv d" and "users_ok d'" and "ins_user mk d = (i, d')"
  shows "db_inv d'"
  using assms by (intro db_inv_users [OF assms(1)]) (auto simp: ins_user_def Let_def user_ids_def)

lemma users_step_inv:
  assumes "db_inv d"
  shows "db_inv (snd (users_create name hash nick email now d))"
    "db_inv (snd (users_insert_system_account name hash r must now d))"
    "db_inv (snd (users_note_login i host now d))"
    "db_inv (snd (users_increment_posts i d))"
    "db_inv (snd (users_set_password i hash d))"
    "db_inv (snd (users_set_locale i loc d))"
    "db_inv (snd (users_set_bio i bio d))"
    "db_inv (snd (users_set_role i r d))"
proof -
  note ok = db_invD(1) [OF assms]
  show "db_inv (snd (users_create name hash nick email now d))"
    using users_create_ok [OF ok, of name hash nick email now] assms
    by (auto simp: users_create_def intro: users_insert_inv split: prod.splits if_splits)
  show "db_inv (snd (users_insert_system_account name hash r must now d))"
    using users_insert_system_account_ok [OF ok, of name hash r must now] assms
    by (auto simp: users_insert_system_account_def intro: users_insert_inv split: prod.splits if_splits)
  show "db_inv (snd (users_note_login i host now d))" "db_inv (snd (users_increment_posts i d))"
    "db_inv (snd (users_set_password i hash d))" "db_inv (snd (users_set_locale i loc d))"
    "db_inv (snd (users_set_bio i bio d))"
    using users_write_ok(1-5) [OF ok] assms
    by (auto simp: user_write_defs intro!: db_inv_users_update)
  show "db_inv (snd (users_set_role i r d))"
    using users_write_ok(6) [OF ok, of i r] assms
    by (auto simp: users_set_role_def intro!: db_inv_users_update)
qed

lemma fold_boards_shape:
  "\<exists>bs s. fold (insert_or_ignore_board now) rows d = d\<lparr>boards := bs, seq_boards := s\<rparr>
     \<and> board_ids d \<subseteq> board_ids (d\<lparr>boards := bs, seq_boards := s\<rparr>)"
proof (induction rows arbitrary: d)
  case Nil
  show ?case by (intro exI [of _ "boards d"] exI [of _ "seq_boards d"]) simp
next
  case (Cons r rows)
  obtain bs s where r: "insert_or_ignore_board now r d = d\<lparr>boards := bs, seq_boards := s\<rparr>"
    "board_ids d \<subseteq> board_ids (d\<lparr>boards := bs, seq_boards := s\<rparr>)"
  proof (cases "board_name_taken (fst r) d")
    case True
    then show ?thesis
      by (intro that [where bs = "boards d" and s = "seq_boards d + 1"])
         (auto simp: insert_or_ignore_board_def board_ids_def split: prod.splits)
  next
    case False
    then show ?thesis
      by (intro that [where s = "seq_boards d + 1" and
            bs = "boards d @ [new_board (fst r) (fst (snd r)) (snd (snd r)) now (seq_boards d + 1)]"])
         (auto simp: insert_or_ignore_board_def ins_board_def Let_def board_ids_def split: prod.splits)
  qed
  from Cons.IH [of "d\<lparr>boards := bs, seq_boards := s\<rparr>"] r show ?case by fastforce
qed

lemma boards_step_inv:
  assumes "db_inv d"
  shows "db_inv (snd (boards_seed_defaults now d))"
    "db_inv (snd (boards_update_banner i req r banner d))"
proof -
  obtain bs s where shape:
    "fold (insert_or_ignore_board now) default_boards d = d\<lparr>boards := bs, seq_boards := s\<rparr>"
    "board_ids d \<subseteq> board_ids (d\<lparr>boards := bs, seq_boards := s\<rparr>)"
    using fold_boards_shape by blast
  then show "db_inv (snd (boards_seed_defaults now d))"
    using db_inv_boards [OF assms, of "d\<lparr>boards := bs, seq_boards := s\<rparr>"]
      boards_seed_defaults_ok [OF db_invD(2) [OF assms], of now]
    by (simp add: boards_seed_defaults_def)
  have "board_ids d = board_ids (d\<lparr>boards := update_rows P (bBannerCol_update g) (boards d)\<rparr>)" for P g
    by (simp add: board_ids_def image_rid_update)
  then show "db_inv (snd (boards_update_banner i req r banner d))"
    using boards_update_banner_ok [OF db_invD(2) [OF assms], of i req r banner] assms
    by (auto simp: boards_update_banner_def intro!: db_inv_boards [OF assms]
        split: option.splits if_splits)
qed

lemma score_ok_article_update:
  assumes "score_ok d" and "\<And>a. aID (f a) = aID a" and "\<And>a. aRecommendScore (f a) = aRecommendScore a"
  shows "score_ok (d\<lparr>articles := update_rows P f (articles d)\<rparr>)"
  using assms by (auto simp: score_ok_def set_update_rows)

lemma article_update_inv:
  assumes "db_inv d" and "articles_ok (d\<lparr>articles := update_rows P f (articles d)\<rparr>)"
    and "\<And>a. aID (f a) = aID a" and "\<And>a. aRecommendScore (f a) = aRecommendScore a"
  shows "db_inv (d\<lparr>articles := update_rows P f (articles d)\<rparr>)"
proof (rule db_inv_articles_pushes [OF assms(1) _ assms(2)])
  show "pushes_ok (d\<lparr>articles := update_rows P f (articles d)\<rparr>)"
    using db_invD(4) [OF assms(1)] assms(3)
    by (simp add: pushes_ok_def article_ids_def user_ids_def image_rid_update)
  show "score_ok (d\<lparr>articles := update_rows P f (articles d)\<rparr>)"
    using db_invD(5) [OF assms(1)] assms(3,4) by (rule score_ok_article_update)
qed simp

lemma score_of_absent: "\<forall>p \<in> set ps. pArticleID p \<noteq> i \<Longrightarrow> score_of i ps = 0"
  by (simp add: score_of_def filter_empty_conv [THEN iffD2])

lemma articles_create_inv:
  assumes "db_inv d"
  shows "db_inv (snd (articles_create b u n t s now d))"
proof (cases "b \<in> board_ids d \<and> u \<in> user_ids d")
  case False
  with assms show ?thesis by (auto simp: articles_create_def)
next
  case True
  let ?a = "new_article b u n t s now (seq_articles d + 1)"
  let ?d = "d\<lparr>articles := articles d @ [?a], seq_articles := seq_articles d + 1\<rparr>"
  have step: "snd (articles_create b u n t s now d) = ?d"
    using True by (simp add: articles_create_spec db_invD(3) [OF assms])
  have "\<forall>p \<in> set (pushes d). pArticleID p \<noteq> seq_articles d + 1"
    using db_invD(3,4) [OF assms] by (fastforce simp: pushes_ok_def articles_ok_def table_ok_def article_ids_def)
  then have "score_ok ?d"
    using db_invD(5) [OF assms] by (auto simp: score_ok_def score_of_absent)
  moreover have "articles_ok ?d"
    using articles_create_ok [OF db_invD(3) [OF assms], of b u n t s now] step by simp
  moreover have "pushes_ok ?d"
    using db_invD(4) [OF assms] by (auto simp: pushes_ok_def article_ids_def user_ids_def)
  ultimately have "db_inv ?d" by (intro db_inv_articles_pushes [OF assms, of ?d]) simp_all
  then show ?thesis by (simp only: step)
qed

lemma score_of_cascade:
  "i \<noteq> j \<Longrightarrow> score_of i (delete_rows (\<lambda>p. pArticleID p = j) ps) = score_of i ps"
  by (induction ps) (auto simp: score_of_def delete_rows_def)

lemma articles_delete_inv:
  assumes "db_inv d"
  shows "db_inv (snd (articles_delete i u r d))"
proof -
  let ?d = "d\<lparr>articles := delete_rows (\<lambda>a. aID a = i) (articles d),
    pushes := delete_rows (\<lambda>p. pArticleID p = i) (pushes d)\<rparr>"
  have "score_ok ?d"
    using db_invD(5) [OF assms] by (auto simp: score_ok_def score_of_cascade)
  moreover have "pushes_ok ?d"
    using db_invD(4) [OF assms]
    by (auto simp: pushes_ok_def article_ids_def user_ids_def table_ok_delete)
  moreover have "articles_ok ?d"
    using db_invD(3) [OF assms]
    by (auto simp: articles_ok_def board_ids_def user_ids_def table_ok_delete)
  ultimately have "db_inv ?d" by (intro db_inv_articles_pushes [OF assms, of ?d]) simp_all
  with assms show ?thesis by (auto simp: articles_delete_def split: option.splits)
qed

lemma articles_step_inv:
  assumes "db_inv d"
  shows "db_inv (snd (article_repo_update i u r t s now d))"
    "db_inv (snd (articles_set_pinned i u r pin now d))"
    "db_inv (snd (articles_set_comments_mode i u r m d))"
proof -
  note ok = db_invD(3) [OF assms]
  show "db_inv (snd (article_repo_update i u r t s now d))"
    using article_mod_ok(1) [OF ok, of i u r t s now] assms
    by (auto simp: article_repo_update_def intro!: article_update_inv split: option.splits)
  show "db_inv (snd (articles_set_pinned i u r pin now d))"
    using article_mod_ok(2) [OF ok, of i u r pin now] assms
    by (auto simp: articles_set_pinned_def intro!: article_update_inv split: option.splits)
  show "db_inv (snd (articles_set_comments_mode i u r m d))"
    using article_mod_ok(3) [OF ok, of i u r m] assms
    by (auto simp: articles_set_comments_mode_def intro!: article_update_inv split: option.splits)
qed

definition push_frame :: "db \<Rightarrow> db \<Rightarrow> bool" where
  "push_frame d d' \<longleftrightarrow> d' = d\<lparr>articles := articles d', seq_articles := seq_articles d',
     pushes := pushes d', seq_pushes := seq_pushes d'\<rparr>"

lemma pushes_frame:
  "push_frame d (snd (pushes_create a u n k s now d))" "push_frame d (snd (pushes_delete i u r d))"
proof -
  show "push_frame d (snd (pushes_create a u n k s now d))"
    by (cases rule: pushes_create_cases [of a u n k s now d])
       (auto simp: push_frame_def add_score_def ins_push_def Let_def)
  show "push_frame d (snd (pushes_delete i u r d))"
    by (cases rule: pushes_delete_cases [of i u r d]) (auto simp: push_frame_def add_score_def)
qed

lemma pushes_step_inv:
  assumes "db_inv d"
  shows "db_inv (snd (pushes_create a u n k s now d))" "db_inv (snd (pushes_delete i u r d))"
proof -
  show "db_inv (snd (pushes_create a u n k s now d))"
    using pushes_frame(1) [of d a u n k s now] pushes_create_ok [OF db_invD(4) [OF assms]]
      push_ops_articles_ok(1) [OF db_invD(3) [OF assms]]
      pushes_create_score_ok [OF db_invD(5) [OF assms]]
    unfolding push_frame_def by (intro db_inv_articles_pushes [OF assms])
  show "db_inv (snd (pushes_delete i u r d))"
    using pushes_frame(2) [of d i u r] pushes_delete_ok [OF db_invD(4) [OF assms]]
      push_ops_articles_ok(2) [OF db_invD(3) [OF assms]]
      pushes_delete_score_ok [OF db_invD(5) [OF assms] db_invD(4) [OF assms]]
    unfolding push_frame_def by (intro db_inv_articles_pushes [OF assms])
qed

lemma wbs_step_inv:
  assumes "db_inv d"
  shows "db_inv (snd (wbs_insert f n t s l now d))" "db_inv (snd (wbs_mark_read i now d))"
    "db_inv (snd (wbs_mark_all_read_for t now d))" "db_inv (snd (wbs_mark_conversation_read v c now d))"
proof -
  note ok = db_invD(6) [OF assms]
  show "db_inv (snd (wbs_insert f n t s l now d))"
  proof (cases "f \<in> user_ids d \<and> t \<in> user_ids d")
    case True
    with wbs_insert_ok [OF ok, of f n t s l now] show ?thesis
      by (intro db_inv_wbs [OF assms]) (simp_all add: wbs_insert_spec ok)
  qed (use assms in \<open>simp add: wbs_insert_fk\<close>)
  show "db_inv (snd (wbs_mark_read i now d))" "db_inv (snd (wbs_mark_all_read_for t now d))"
    "db_inv (snd (wbs_mark_conversation_read v c now d))"
    using wb_mark_ok [OF ok]
    by (auto simp: wb_mark_defs intro!: db_inv_wbs [OF assms])
qed

lemma mails_step_inv:
  assumes "db_inv d"
  shows "db_inv (snd (mails_insert f n t subj s parent now d))" "db_inv (snd (mails_mark_read i now d))"
    "db_inv (snd (mails_mark_all_read_for t now d))"
proof -
  note ok = db_invD(7) [OF assms]
  show "db_inv (snd (mails_insert f n t subj s parent now d))"
  proof (cases rule: mails_insert_cases [of f n t subj s parent now d])
    case (ok thread)
    with mails_insert_ok [OF \<open>mails_ok d\<close>, of f n t subj s parent now] show ?thesis
      by (intro db_inv_mails [OF assms]) (simp_all add: mails_insert_spec \<open>mails_ok d\<close>)
  qed (use assms in simp)
  show "db_inv (snd (mails_mark_read i now d))" "db_inv (snd (mails_mark_all_read_for t now d))"
    using mails_mark_ok [OF ok]
    by (auto simp: mails_mark_read_def mails_mark_all_read_for_def
        intro!: db_inv_mails [OF assms])
qed

lemma notify_step_inv:
  assumes "db_inv d"
  shows "db_inv (snd (notify_set_prefs i p d))" "db_inv (snd (notify_add_target i l url now d))"
    "db_inv (snd (notify_update_target i r l url e d))"
    "db_inv (snd (notify_set_target_enabled i r e d))" "db_inv (snd (notify_delete_target i r d))"
proof -
  show "db_inv (snd (notify_set_prefs i p d))"
    using notify_set_prefs_ok [OF db_invD(8) [OF assms], of i p] assms
    by (auto simp: notify_set_prefs_def intro: db_inv_prefs [OF assms])
  show "db_inv (snd (notify_add_target i l url now d))"
    using notify_add_target_ok [OF db_invD(9) [OF assms], of i l url now] assms
    by (auto simp: notify_add_target_def validate_url_cases ins_target_def Let_def
        intro!: db_inv_targets [OF assms])
  show "db_inv (snd (notify_update_target i r l url e d))"
    using target_write_ok(1) [OF db_invD(9) [OF assms], of i r l url e] assms
    by (auto simp: notify_update_target_def Let_def validate_url_cases
        intro!: db_inv_targets [OF assms] split: if_splits)
  show "db_inv (snd (notify_set_target_enabled i r e d))"
    using target_write_ok(2) [OF db_invD(9) [OF assms], of i r e] assms
    by (auto simp: notify_set_target_enabled_def Let_def
        intro!: db_inv_targets [OF assms] split: if_splits)
  show "db_inv (snd (notify_delete_target i r d))"
    using target_write_ok(3) [OF db_invD(9) [OF assms], of i r] assms
    by (auto simp: notify_delete_target_def Let_def
        intro!: db_inv_targets [OF assms] split: if_splits)
qed

lemma db_step_inv: "db_step d d' \<Longrightarrow> db_inv d \<Longrightarrow> db_inv d'"
  by (induction rule: db_step.induct)
     (simp_all add: users_step_inv boards_step_inv articles_create_inv articles_delete_inv
       articles_step_inv pushes_step_inv wbs_step_inv mails_step_inv notify_step_inv)

lemma db_reachable_inv: "db_reachable d \<Longrightarrow> db_inv d"
  by (induction rule: db_reachable.induct) (auto intro: db_inv_empty db_step_inv)

end
