(* ===== verification/StoreProps.thy ===== *)
theory StoreProps
  imports StoreInv
begin

text \<open>
  What the store promises to the rest of the program, over the repositories of
  \<open>internal/store\<close>. The witnesses run on \<open>demo_db\<close>, a database with two boards,
  two users, three articles of one board, a push, water balloons, a mail thread and a webhook.
\<close>

section \<open>A database to run on\<close>

definition demo_now :: timestamp where
  "demo_now = TS 2026 4 1 12 0 0"

definition demo_user :: "int \<Rightarrow> string \<Rightarrow> user" where
  "demo_user i name = new_user name ''hash'' [] [] demo_now i"

definition demo_db :: db where
  "demo_db = \<lparr>users = [demo_user 1 ''alice'', demo_user 2 ''bob''], seq_users = 2,
     boards = [new_board ''Welcome'' ''W'' ''d'' demo_now 1, new_board ''Test'' ''T'' ''d'' demo_now 2],
     seq_boards = 2,
     articles = [(new_article 1 1 ''alice'' ''Go 100% done'' ''body'' demo_now 1)
                   \<lparr>aRecommendScore := 1, aPinnedAt := Some demo_now\<rparr>,
                 new_article 1 2 ''bob'' ''second'' ''body'' (TS 2026 4 2 0 0 0) 2,
                 new_article 1 1 ''alice'' ''third'' ''body'' (TS 2026 4 3 0 0 0) 4],
     seq_articles = 4,
     pushes = [new_push 1 2 ''bob'' PushKindPush ''nice'' demo_now 1], seq_pushes = 1,
     wbs = [new_wb 1 ''alice'' 2 ''hi'' True demo_now 1, new_wb 2 ''bob'' 1 ''hey'' True demo_now 2],
     seq_wbs = 2,
     mails = [new_mail 1 ''alice'' 2 ''hello'' ''body'' (Some 1) None demo_now 1,
              new_mail 2 ''bob'' 1 ''Re'' ''body'' (Some 1) (Some 1) demo_now 2],
     seq_mails = 2, prefs = [], targets = [new_target 1 ''hook'' ''https://x.io'' demo_now 1],
     seq_targets = 1\<rparr>"

lemma demo_sel [simp]:
  "users demo_db = [demo_user 1 ''alice'', demo_user 2 ''bob'']"
  "seq_users demo_db = 2" "seq_boards demo_db = 2" "seq_articles demo_db = 4"
  "seq_pushes demo_db = 1" "seq_wbs demo_db = 2" "seq_mails demo_db = 2" "seq_targets demo_db = 1"
  "prefs demo_db = []"
  by (simp_all add: demo_db_def)

lemma demo_users_ok: "users_ok demo_db"
  by (simp add: users_ok_def demo_user_def table_ok_def)

lemma demo_boards_ok: "boards_ok demo_db"
  by (simp add: boards_ok_def demo_db_def table_ok_def)

lemma demo_articles_ok: "articles_ok demo_db"
  by (simp add: articles_ok_def demo_db_def table_ok_def board_ids_def user_ids_def demo_user_def)

lemma demo_pushes_ok: "pushes_ok demo_db" "score_ok demo_db"
  by (simp_all add: pushes_ok_def score_ok_def demo_db_def table_ok_def article_ids_def user_ids_def
      demo_user_def kind_ok_def score_of_def push_score_def score_delta_def)

lemma demo_wbs_ok: "wbs_ok demo_db"
  by (simp add: wbs_ok_def demo_db_def table_ok_def user_ids_def demo_user_def)

lemma demo_mails_ok: "mails_ok demo_db"
  by (simp add: mails_ok_def demo_db_def table_ok_def user_ids_def demo_user_def mail_linked_def)

lemma demo_targets_ok: "prefs_ok demo_db" "targets_ok demo_db"
  by (simp_all add: prefs_ok_def targets_ok_def demo_db_def table_ok_def user_ids_def demo_user_def
      http_url_def trimmed_def leading_def spaces_def)

lemma demo_db_inv: "db_inv demo_db"
  by (simp add: db_inv_def demo_users_ok demo_boards_ok demo_articles_ok demo_pushes_ok demo_wbs_ok
      demo_mails_ok demo_targets_ok)


text \<open>A database reached by repository calls, for the properties of reachable databases.\<close>

definition first_calls :: db where
  "first_calls =
    (let d = snd (boards_seed_defaults demo_now empty_db);
         d = snd (users_create ''alice'' ''h1'' [] [] demo_now d);
         d = snd (articles_create 1 1 ''alice'' ''Hello'' ''body'' demo_now d)
     in snd (pushes_create 1 1 ''alice'' PushKindBoo ''no'' demo_now d))"

lemma first_calls_reachable: "db_reachable first_calls"
  unfolding first_calls_def Let_def
  by (rule db_reachable.step [OF _ db_step.push_create], rule db_reachable.step [OF _ db_step.article_create],
      rule db_reachable.step [OF _ db_step.user_create], rule db_reachable.step [OF _ db_step.board_seed],
      rule db_reachable.start)

lemma first_calls_rows:
  "map (\<lambda>a. (aID a, aRecommendScore a)) (articles first_calls) = [(1, -1)]"
  "map (\<lambda>p. (pArticleID p, pKind p)) (pushes first_calls) = [(1, ''boo'')]"
  by code_simp+


section \<open>Reachable databases\<close>

text \<open>C1: in every database the server can reach, whatever sequence of repository calls produced
  it, ids are unique in every table, user and board names are unique up to letter case, roles and comments
  modes are valid, every reference resolves (board and author of an article, article and author of a push, sender and
  recipient of a water balloon, sender, recipient, parent and thread of a mail, owner of preferences and of a webhook), and
  every webhook has an http or https address.\<close>

theorem reachable_integrity:
  assumes "db_reachable d"
  shows "distinct (map uID (users d)) \<and> distinct (map bID (boards d)) \<and> distinct (map aID (articles d))
    \<and> distinct (map pID (pushes d)) \<and> distinct (map wID (wbs d)) \<and> distinct (map mID (mails d))
    \<and> distinct (map fst (prefs d)) \<and> distinct (map ntID (targets d))
    \<and> distinct (map (\<lambda>u. nocase (uUserID u)) (users d))
    \<and> distinct (map (\<lambda>b. nocase (bName b)) (boards d))
    \<and> (\<forall>u \<in> set (users d). role_valid (uRole u))
    \<and> (\<forall>a \<in> set (articles d). aBoardID a \<in> board_ids d \<and> aAuthorID a \<in> user_ids d
         \<and> comments_mode_valid (aCommentsMode a))
    \<and> (\<forall>p \<in> set (pushes d). pArticleID p \<in> article_ids d \<and> pUserID p \<in> user_ids d)
    \<and> (\<forall>w \<in> set (wbs d). wFromUserID w \<in> user_ids d \<and> wToUserID w \<in> user_ids d)
    \<and> (\<forall>m \<in> set (mails d). mFromUserID m \<in> user_ids d \<and> mToUserID m \<in> user_ids d
         \<and> (\<forall>p. mParentID m = Some p \<longrightarrow> p \<in> mID ` set (mails d))
         \<and> (\<exists>th. mThreadCol m = Some th \<and> th \<in> mID ` set (mails d)))
    \<and> (\<forall>x \<in> set (prefs d). fst x \<in> user_ids d)
    \<and> (\<forall>t \<in> set (targets d). ntUserID t \<in> user_ids d \<and> http_url (ntURL t))"
proof -
  have inv: "db_inv d" using assms by (rule db_reachable_inv)
  have "p \<in> mID ` set (mails d)" if "m \<in> set (mails d)" "mParentID m = Some p" for m p
  proof -
    have "mail_linked (mails d) m" using db_invD(7) [OF inv] that(1) by (simp add: mails_ok_def)
    with that(2) show ?thesis by (auto simp: mail_linked_def)
  qed
  moreover have "\<exists>th. mThreadCol m = Some th \<and> th \<in> mID ` set (mails d)" if "m \<in> set (mails d)" for m
    using mail_thread_root [OF db_invD(7) [OF inv] that] by auto
  ultimately show ?thesis
    using inv
    by (auto simp: db_inv_def users_ok_def boards_ok_def articles_ok_def pushes_ok_def wbs_ok_def
        mails_ok_def prefs_ok_def targets_ok_def intro: table_ok_distinct)
qed

lemma reachable_integrity_witness: "articles first_calls \<noteq> [] \<and> distinct (map aID (articles first_calls))"
  using reachable_integrity [OF first_calls_reachable] first_calls_rows(1) by auto

text \<open>C9: the cached \<open>recommend_score\<close> of every article of a reachable database is the number of
  its pushes minus the number of its boos, the arrows counting nothing.\<close>

theorem reachable_score:
  assumes "db_reachable d" and "a \<in> set (articles d)"
  shows "aRecommendScore a =
    int (length (filter (\<lambda>p. pArticleID p = aID a \<and> pKind p = PushKindPush) (pushes d)))
    - int (length (filter (\<lambda>p. pArticleID p = aID a \<and> pKind p = PushKindBoo) (pushes d)))"
proof -
  have "score_ok d" using db_reachable_inv [OF assms(1)] by (simp add: db_inv_def)
  then have "aRecommendScore a = score_of (aID a) (pushes d)" using assms(2) by (simp add: score_ok_def)
  then show ?thesis by (simp add: score_of_counts)
qed

lemma reachable_score_witness:
  "\<exists>a \<in> set (articles first_calls). aRecommendScore a = -1 \<and>
    aRecommendScore a =
      int (length (filter (\<lambda>p. pArticleID p = aID a \<and> pKind p = PushKindPush) (pushes first_calls)))
      - int (length (filter (\<lambda>p. pArticleID p = aID a \<and> pKind p = PushKindBoo) (pushes first_calls)))"
proof -
  obtain a where a: "a \<in> set (articles first_calls)" "aRecommendScore a = -1"
    using first_calls_rows(1) by (cases "articles first_calls") auto
  with reachable_score [OF first_calls_reachable a(1)] show ?thesis by blast
qed

section \<open>Pushes\<close>

text \<open>Posting a push and deleting it again, by its author or by a moderator, restores the
  database: the row is gone, the score of the article is what it was, and only the
  \<open>AUTOINCREMENT\<close> counter has advanced.\<close>

theorem push_delete_undoes_create:
  assumes "db_inv d" and "pushes_create a u n k s now d = (Inr p, d1)"
    and "v = u \<or> role_at_least r RoleMod"
  shows "pushes_delete (pID p) v r d1 = (Inr (), d\<lparr>seq_pushes := seq_pushes d + 1\<rparr>)"
  using assms by (intro push_create_delete) (auto simp: db_inv_def)

lemma push_delete_undoes_create_witness:
  "\<exists>p d1. pushes_create 2 1 ''alice'' PushKindBoo ''no'' demo_now demo_db = (Inr p, d1)
    \<and> d1 \<noteq> demo_db
    \<and> pushes_delete (pID p) 1 RoleUser d1 = (Inr (), demo_db\<lparr>seq_pushes := seq_pushes demo_db + 1\<rparr>)"
proof -
  have "\<exists>p d1. pushes_create 2 1 ''alice'' PushKindBoo ''no'' demo_now demo_db = (Inr p, d1)
      \<and> d1 \<noteq> demo_db"
    by (simp add: pushes_create_def score_delta_def kind_defs demo_db_def find_row_def comments_gate_def
        mode_defs new_article_def demo_user_def user_ids_def ins_push_def pushes_get_def add_score_def)
  then obtain p d1 where pd: "pushes_create 2 1 ''alice'' PushKindBoo ''no'' demo_now demo_db = (Inr p, d1)"
    "d1 \<noteq> demo_db" by blast
  with push_delete_undoes_create [OF demo_db_inv pd(1), of 1 RoleUser] show ?thesis by blast
qed

text \<open>C10: whether a push is accepted depends on the kind and on the mode of the article exactly as the
  comments modes promise: any valid kind on an open article, arrows only in the arrows-only mode,
  nothing on a locked one. A refusal changes nothing; an accepted push is appended to the pushes of
  its article and to those of no other.\<close>

theorem comments_mode_gates_pushes:
  assumes "db_inv d" and "art \<in> set (articles d)" and "u \<in> user_ids d"
  shows "(ok_res (fst (pushes_create (aID art) u n k s now d)) \<longleftrightarrow>
      kind_ok k \<and> aCommentsMode art \<noteq> CommentsModeLocked
        \<and> (aCommentsMode art = CommentsModeArrowsOnly \<longrightarrow> k = PushKindArrow))
    \<and> (case pushes_create (aID art) u n k s now d of
         (Inl e, d') \<Rightarrow> d' = d
       | (Inr p, d') \<Rightarrow> p = new_push (aID art) u n k s now (seq_pushes d + 1)
           \<and> pushes_list_by_article (aID art) d' = pushes_list_by_article (aID art) d @ [p]
           \<and> (\<forall>i. i \<noteq> aID art \<longrightarrow> pushes_list_by_article i d' = pushes_list_by_article i d))"
  using assms by (intro conjI pushes_create_accepts pushes_create_lists) (auto simp: db_inv_def)

lemma comments_mode_gates_pushes_witness:
  "\<exists>art. art \<in> set (articles demo_db) \<and> (ok_res (fst (pushes_create (aID art) 1 ''alice'' PushKindBoo ''no'' demo_now demo_db)) \<longleftrightarrow>
      kind_ok PushKindBoo \<and> aCommentsMode art \<noteq> CommentsModeLocked
        \<and> (aCommentsMode art = CommentsModeArrowsOnly \<longrightarrow> PushKindBoo = PushKindArrow))"
  using comments_mode_gates_pushes [OF demo_db_inv,
      of "new_article 1 2 ''bob'' ''second'' ''body'' (TS 2026 4 2 0 0 0) 2" 1 "''alice''" PushKindBoo "''no''" demo_now]
  by (intro exI [of _ "new_article 1 2 ''bob'' ''second'' ''body'' (TS 2026 4 2 0 0 0) 2"])
     (auto simp: demo_db_def user_ids_def demo_user_def)

section \<open>Articles\<close>

text \<open>C11: who may change an article. Its author, a moderator or an administrator may edit and delete
  it; only a moderator or an administrator may pin it or set its comments mode, the author as such
  may not; every refused call leaves the database as it was.\<close>

theorem article_write_rights:
  assumes "db_inv d" and "a \<in> set (articles d)" and "comments_mode_valid m"
  shows "(ok_res (fst (articles_delete (aID a) u r d)) \<longleftrightarrow> aAuthorID a = u \<or> r \<in> {RoleMod, RoleAdmin})
    \<and> (ok_res (fst (article_repo_update (aID a) u r t s now d)) \<longleftrightarrow>
         aAuthorID a = u \<or> r \<in> {RoleMod, RoleAdmin})
    \<and> (ok_res (fst (articles_set_pinned (aID a) u r pin now d)) \<longleftrightarrow> r \<in> {RoleMod, RoleAdmin})
    \<and> (ok_res (fst (articles_set_comments_mode (aID a) u r m d)) \<longleftrightarrow> r \<in> {RoleMod, RoleAdmin})
    \<and> (\<not> ok_res (fst (articles_delete (aID a) u r d)) \<longrightarrow> snd (articles_delete (aID a) u r d) = d)
    \<and> (\<not> ok_res (fst (article_repo_update (aID a) u r t s now d)) \<longrightarrow>
         snd (article_repo_update (aID a) u r t s now d) = d)
    \<and> (\<not> ok_res (fst (articles_set_pinned (aID a) u r pin now d)) \<longrightarrow>
         snd (articles_set_pinned (aID a) u r pin now d) = d)
    \<and> (\<not> ok_res (fst (articles_set_comments_mode (aID a) u r m d)) \<longrightarrow>
         snd (articles_set_comments_mode (aID a) u r m d) = d)"
proof -
  have "find_row aID (aID a) (articles d) = Some a"
    using assms by (simp add: find_article_iff db_inv_def)
  with assms(3) show ?thesis
    by (simp add: articles_delete_def article_mod_defs mod_rights_iff)
qed

lemma article_write_rights_witness:
  "\<exists>a \<in> set (articles demo_db). aAuthorID a = 2
    \<and> \<not> ok_res (fst (articles_delete (aID a) 1 RoleUser demo_db))
    \<and> ok_res (fst (articles_set_pinned (aID a) 1 RoleMod True demo_now demo_db))"
proof -
  let ?a = "new_article 1 2 ''bob'' ''second'' ''body'' (TS 2026 4 2 0 0 0) 2"
  have a: "?a \<in> set (articles demo_db)" by (simp add: demo_db_def)
  from article_write_rights [OF demo_db_inv this mode_open_valid, of 1 RoleUser]
    article_write_rights [OF demo_db_inv this mode_open_valid, of 1 RoleMod _ _ _ True]
  show ?thesis by (intro bexI [OF _ a]) (auto simp: role_defs)
qed

text \<open>Deleting an article removes it and, by the cascade of the schema, exactly the pushes on it;
  every other row stays.\<close>

theorem articles_delete_cascades:
  assumes "db_inv d" and "articles_delete i u r d = (Inr (), d')"
  shows "articles_get_by_id i d' = Inl ErrArticleNotFound \<and> pushes_list_by_article i d' = []
    \<and> (\<forall>j. j \<noteq> i \<longrightarrow> articles_get_by_id j d' = articles_get_by_id j d
         \<and> pushes_list_by_article j d' = pushes_list_by_article j d)
    \<and> users d' = users d \<and> boards d' = boards d \<and> wbs d' = wbs d \<and> mails d' = mails d"
  using assms by (intro articles_delete_effect) (auto simp: db_inv_def)

lemma articles_delete_cascades_witness:
  "\<exists>d'. articles_delete 1 1 RoleUser demo_db = (Inr (), d') \<and> pushes_list_by_article 1 demo_db \<noteq> []
    \<and> pushes_list_by_article 1 d' = []"
proof -
  obtain d' where d': "articles_delete 1 1 RoleUser demo_db = (Inr (), d')"
    by (simp add: articles_delete_def demo_db_def find_row_def new_article_def)
  have "pushes_list_by_article 1 demo_db \<noteq> []"
    by (simp add: pushes_list_by_article_def demo_db_def sort_by_def)
  with d' articles_delete_cascades [OF demo_db_inv d'] show ?thesis by blast
qed

text \<open>C32: a board listing holds matching articles of that board only, without repetition, at most
  the limit (50 when none is given) and all of them when they fit; it is in the chosen order with
  the pinned articles in front, and an article left out comes after every listed one.\<close>

theorem board_listing:
  assumes "db_inv d" and "articles_list_by_board_opts b opts d = l"
  shows "set l \<subseteq> {a \<in> set (articles d). aBoardID a = b \<and> title_matches (loTitleSearch opts) a}
    \<and> distinct l \<and> sorted_wrt (article_order (loSort opts)) l
    \<and> length l = min (length (board_matches b (loTitleSearch opts) d))
         (nat (if loLimit opts \<le> 0 then 50 else loLimit opts))
    \<and> filter (\<lambda>a. aPinnedAt a \<noteq> None) l @ filter (\<lambda>a. aPinnedAt a = None) l = l
    \<and> (\<forall>x \<in> set (board_matches b (loTitleSearch opts) d) - set l. \<forall>y \<in> set l.
         article_order (loSort opts) y x)"
proof -
  have "filter (\<lambda>a. aPinnedAt a \<noteq> None) l @ filter (\<lambda>a. \<not> aPinnedAt a \<noteq> None) l = l"
    using list_by_board_sorted [of opts b d] article_order_pinned [of "loSort opts"] assms(2)
    by (intro sorted_filter_prefix [of "article_order (loSort opts)"]) auto
  with assms list_by_board_set [of b opts d] list_by_board_sorted [of opts b d]
    list_by_board_omitted [of _ b opts d] list_by_board_length [of b opts d]
    list_by_board_distinct [of d b opts]
  show ?thesis by (auto simp: db_inv_def)
qed

lemma board_listing_witness:
  "map aID (articles_list_by_board_opts 1 \<lparr>loLimit = 2, loTitleSearch = [], loSort = SortNewestFirst\<rparr> demo_db)
     = [1, 4]
   \<and> distinct (articles_list_by_board_opts 1 \<lparr>loLimit = 2, loTitleSearch = [], loSort = SortNewestFirst\<rparr> demo_db)"
proof
  show "map aID (articles_list_by_board_opts 1 \<lparr>loLimit = 2, loTitleSearch = [], loSort = SortNewestFirst\<rparr> demo_db)
     = [1, 4]" by code_simp
qed (use board_listing [OF demo_db_inv refl] in blast)

text \<open>C39: the title search is a literal substring search that ignores ASCII case: the percent sign,
  the underscore and the backslash of the query match themselves, white space around it is dropped,
  and an empty query matches every title.\<close>

theorem title_search_is_substring:
  "title_matches q a \<longleftrightarrow> str_contains (nocase (aTitle a)) (nocase (trim_space q))"
  by (rule title_matches_iff)

text \<open>The neighbours of an article are the nearest smaller and the nearest larger article ids of
  its board, 0 at the ends, and going to the previous article and back to the next returns to it.\<close>

theorem neighbours_adjacent:
  assumes "i \<in> board_article_ids b d" and "articles_neighbours_of b i d = (p, n)"
  shows "(p = 0 \<or> p \<in> board_article_ids b d \<and> p < i \<and> \<not> (\<exists>j \<in> board_article_ids b d. p < j \<and> j < i)
        \<and> snd (articles_neighbours_of b p d) = i)
    \<and> (n = 0 \<or> n \<in> board_article_ids b d \<and> i < n \<and> \<not> (\<exists>j \<in> board_article_ids b d. i < j \<and> j < n))
    \<and> (p = 0 \<and> n = 0 \<and> 0 \<notin> board_article_ids b d \<longrightarrow> board_article_ids b d = {i})"
proof -
  let ?S = "board_article_ids b d" and ?B = "{j \<in> board_article_ids b d. j < i}"
    and ?A = "{j \<in> board_article_ids b d. i < j}"
  have p: "p = (if ?B = {} then 0 else Max ?B)" and n: "n = (if ?A = {} then 0 else Min ?A)"
    using assms(2) by (simp_all only: neighbours_spec prod.inject)
  have fin: "finite ?A" "finite ?B" by simp_all
  have ret: "p = 0 \<or> snd (articles_neighbours_of b p d) = i"
    using neighbours_next_prev [OF assms(1)] assms(2) by auto
  have B: "?B \<noteq> {} \<Longrightarrow> p \<in> ?B \<and> (\<forall>j \<in> ?B. j \<le> p)"
    using Max_in [OF fin(2)] Max_ge [OF fin(2)] p by auto
  have A: "?A \<noteq> {} \<Longrightarrow> n \<in> ?A \<and> (\<forall>j \<in> ?A. n \<le> j)"
    using Min_in [OF fin(1)] Min_le [OF fin(1)] n by auto
  have "p = 0 \<or> p \<in> ?S \<and> p < i \<and> \<not> (\<exists>j \<in> ?S. p < j \<and> j < i)"
    using B p by fastforce
  moreover have "n = 0 \<or> n \<in> ?S \<and> i < n \<and> \<not> (\<exists>j \<in> ?S. i < j \<and> j < n)"
    using A n by fastforce
  moreover have "?S = {i}" if "p = 0 \<and> n = 0 \<and> 0 \<notin> ?S"
  proof -
    have "?A = {}" "?B = {}" using A B that by auto
    then show ?thesis using assms(1) by (auto intro: linorder_neqE)
  qed
  ultimately show ?thesis using ret by blast
qed

lemma neighbours_adjacent_witness:
  "articles_neighbours_of 1 2 demo_db = (1, 4) \<and> snd (articles_neighbours_of 1 1 demo_db) = 2"
proof -
  have n: "articles_neighbours_of 1 2 demo_db = (1, 4)" by code_simp
  have "(2 :: int) \<in> board_article_ids 1 demo_db"
    by (auto simp: board_article_ids_def demo_db_def intro!: exI [of _ "new_article 1 2 ''bob'' ''second'' ''body'' (TS 2026 4 2 0 0 0) 2"])
  from neighbours_adjacent [OF this n] n show ?thesis by simp
qed

end
