(* ===== verification/MessageProps.thy ===== *)
theory MessageProps
  imports StoreProps
begin

text \<open>
  What \<open>internal/store\<close> promises about accounts, private messages, mail threads and webhook
  targets. The witnesses run on \<open>demo_db\<close> of \<open>StoreProps\<close>.
\<close>

section \<open>Mail\<close>

text \<open>C36: sending a mail appends it to its thread, the thread of the mail it answers or a new thread
  of its own id, and to no other; a reply to a mail that does not exist is refused, and an error
  leaves the database as it was.\<close>

theorem mail_joins_thread:
  assumes "db_inv d" and "mails_insert f n t subj s parent now d = (r, d')"
  shows "case r of
      Inl e \<Rightarrow> d' = d
    | Inr m \<Rightarrow> mID m = seq_mails d + 1 \<and> mParentID m = parent \<and> mails_get_by_id (mID m) d' = Inr m
        \<and> (\<exists>th ms. mThreadCol m = Some th \<and> mails_list_thread th d = Inr ms
             \<and> mails_list_thread th d' = Inr (ms @ [m])
             \<and> (case parent of None \<Rightarrow> th = mID m
                | Some p \<Rightarrow> (\<exists>pm. mails_get_by_id p d = Inr pm \<and> mThreadCol pm = Some th))
             \<and> (\<forall>x. x \<noteq> th \<longrightarrow> mails_list_thread x d' = mails_list_thread x d))"
  using assms by (intro mail_insert_thread) (auto simp: db_inv_def)

lemma mail_joins_thread_witness:
  "\<exists>m d'. mails_insert 1 ''alice'' 2 ''Re'' ''again'' (Some 2) demo_now demo_db = (Inr m, d')
    \<and> mails_get_by_id (mID m) d' = Inr m \<and> mID m = 3"
proof -
  obtain r d' where eq: "mails_insert 1 ''alice'' 2 ''Re'' ''again'' (Some 2) demo_now demo_db = (r, d')"
    by fastforce
  have "ok_res (fst (mails_insert 1 ''alice'' 2 ''Re'' ''again'' (Some 2) demo_now demo_db))" by code_simp
  with eq obtain m where "r = Inr m" by (cases r) auto
  with mail_joins_thread [OF demo_db_inv eq] eq show ?thesis by (auto simp: demo_db_def)
qed

text \<open>Every mail of the database belongs to the thread of a root mail that is not later than it,
  and reading that thread always succeeds and contains both.\<close>

theorem mail_in_root_thread:
  assumes "db_inv d" and "m \<in> set (mails d)"
  shows "\<exists>r \<in> set (mails d). mParentID r = None \<and> mID r \<le> mID m \<and> mThreadCol m = Some (mID r)
    \<and> (\<exists>ms. mails_list_thread (mID r) d = Inr ms \<and> r \<in> set ms \<and> m \<in> set ms)"
proof -
  have ok: "mails_ok d" using assms(1) by (simp add: db_inv_def)
  obtain r where r: "r \<in> set (mails d)" "mThreadCol m = Some (mID r)" "mParentID r = None" "mID r \<le> mID m"
    using mail_thread_root [OF ok assms(2)] by blast
  moreover have "mThreadCol r = Some (mID r)"
    using ok r(1,3) by (auto simp: mails_ok_def mail_linked_def)
  ultimately show ?thesis using assms(2) by (auto simp: list_thread_table [OF ok])
qed

lemma mail_in_root_thread_witness:
  "\<exists>r \<in> set (mails demo_db). mID r = 1 \<and> mThreadCol (new_mail 2 ''bob'' 1 ''Re'' ''body'' (Some 1) (Some 1) demo_now 2) = Some (mID r)"
proof -
  have "new_mail 2 ''bob'' 1 ''Re'' ''body'' (Some 1) (Some 1) demo_now 2 \<in> set (mails demo_db)"
    by (simp add: demo_db_def)
  from mail_in_root_thread [OF demo_db_inv this] show ?thesis by auto
qed

text \<open>\<open>Insert\<close> writes a root mail and its \<open>thread_id\<close> in two statements outside a transaction.
  Between them the new row exists with a NULL thread, and both reading it and listing the inbox of
  its recipient fail, whatever the limit, because the new unread mail sorts first; after the second
  statement the inbox can be read again.\<close>

theorem root_mail_insert_window:
  assumes "db_inv d" and "mail_insert_row f n t subj s None None now d = Inr (i, d1)"
  shows "mails_get_by_id i d1 = Inl ScanNull \<and> mails_list_inbox_for t limit d1 = Inl ScanNull
    \<and> ok_res (mails_list_inbox_for t limit (mail_backfill i d1))
    \<and> mails_insert f n t subj s None now d = (mails_get_by_id i (mail_backfill i d1), mail_backfill i d1)"
proof -
  have ok: "mails_ok d" using assms(1) by (simp add: db_inv_def)
  have ins: "mails_insert f n t subj s None now d =
      (mails_get_by_id i (mail_backfill i d1), mail_backfill i d1)"
    using assms(2) by (simp add: mails_insert_def mail_parent_thread_def Let_def)
  have "mails_ok (mail_backfill i d1)"
    using mails_step_inv(1) [OF assms(1), of f n t subj s None now] ins by (simp add: db_inv_def)
  then have "ok_res (mails_list_inbox_for t limit (mail_backfill i d1))"
    unfolding mails_list_inbox_for_def Let_def
    by (subst scan_mails_ok [OF \<open>mails_ok (mail_backfill i d1)\<close>]) (auto dest: in_set_takeD)
  then show ?thesis using root_insert_window [OF ok assms(2)] ins by blast
qed

lemma root_mail_insert_window_witness:
  "\<exists>i d1. mail_insert_row 1 ''alice'' 2 ''hi'' ''x'' None None demo_now demo_db = Inr (i, d1)
    \<and> mails_list_inbox_for 2 50 d1 = Inl ScanNull"
proof -
  obtain i d1 where eq: "mail_insert_row 1 ''alice'' 2 ''hi'' ''x'' None None demo_now demo_db = Inr (i, d1)"
    by (simp add: mail_insert_row_def user_ids_def demo_user_def ins_mail_def Let_def)
  with root_mail_insert_window [OF demo_db_inv eq] show ?thesis by blast
qed

section \<open>Water balloons\<close>

text \<open>C25: opening a conversation drains exactly that conversation: the unread list of the viewer
  keeps the water balloons of the other senders in their order, the lists of the other users do not
  change, and marking a second time, at any later moment, changes nothing, so the first reading
  time stays.\<close>

theorem mark_conversation_drains:
  assumes "db_inv d" and "d' = snd (wbs_mark_conversation_read v c now d)"
  shows "wbs_list_unread_for v d' = filter (\<lambda>w. wFromUserID w \<noteq> c) (wbs_list_unread_for v d)
    \<and> (u \<noteq> v \<longrightarrow> wbs_list_unread_for u d' = wbs_list_unread_for u d)
    \<and> snd (wbs_mark_conversation_read v c later d') = d'
    \<and> map wBody (wbs_list_conversation v c limit d') = map wBody (wbs_list_conversation v c limit d)"
proof -
  have ok: "wbs_ok d" "wbs_ok d'"
    using assms wbs_step_inv(4) [OF assms(1)] by (auto simp: db_inv_def)
  have d': "d' = d\<lparr>wbs := update_rows
       (\<lambda>w. wToUserID w = v \<and> wFromUserID w = c \<and> wb_unread w) (mark_wb now) (wbs d)\<rparr>"
    using assms(2) by (simp add: wbs_mark_conversation_read_def)
  have conv: "map wBody (filter (between v c) (update_rows P (mark_wb now) ws)) =
      map wBody (filter (between v c) ws)" for P ws
    by (induction ws) (auto simp: update_rows_def between_def)
  have "wbs_list_unread_for v d' = filter (\<lambda>w. wFromUserID w \<noteq> c) (wbs_list_unread_for v d)"
    unfolding list_unread_table [OF ok(1)] list_unread_table [OF ok(2)]
    by (simp add: d' filter_unread_mark) (rule filter_cong, auto)
  moreover have "u \<noteq> v \<longrightarrow> wbs_list_unread_for u d' = wbs_list_unread_for u d"
    unfolding list_unread_table [OF ok(1)] list_unread_table [OF ok(2)]
    by (auto simp: d' filter_unread_mark intro!: filter_cong)
  moreover have "snd (wbs_mark_conversation_read v c later d') = d'"
    using marked_once [of "\<lambda>w. wToUserID w = v \<and> wFromUserID w = c" later now "wbs d"]
    by (simp add: d' wbs_mark_conversation_read_def conj_assoc)
  moreover have "map wBody (wbs_list_conversation v c limit d') = map wBody (wbs_list_conversation v c limit d)"
    unfolding list_conversation_table [OF ok(1)] list_conversation_table [OF ok(2)]
    using conv by (simp add: d' take_map [symmetric])
  ultimately show ?thesis by blast
qed

lemma mark_conversation_drains_witness:
  "length (wbs_list_unread_for 2 demo_db) = 1
    \<and> wbs_list_unread_for 2 (snd (wbs_mark_conversation_read 2 1 demo_now demo_db)) = []"
proof -
  have "wbs_list_unread_for 2 demo_db = [new_wb 1 ''alice'' 2 ''hi'' True demo_now 1]"
    by (simp add: wbs_list_unread_for_def demo_db_def sort_by_def wb_unread_def)
  with mark_conversation_drains [OF demo_db_inv refl, of 2 1 demo_now] show ?thesis by simp
qed

text \<open>\<open>ListConversation\<close> with \<open>ORDER BY id ASC LIMIT\<close> keeps the oldest rows: once a conversation
  has reached the limit, a water balloon sent in it, although stored and unread, is not listed any
  more and the listing stays what it was. The comment on the function says that the limit clips the
  oldest.\<close>

theorem conversation_limit_hides_newest:
  assumes "db_inv d" and "wbs_insert v n c s l now d = (Inr w, d')"
    and "0 < limit" and "nat limit \<le> length (filter (between v c) (wbs d))"
  shows "wbs_list_conversation v c limit d' = wbs_list_conversation v c limit d
    \<and> w \<notin> set (wbs_list_conversation v c limit d') \<and> w \<in> set (wbs_list_unread_for c d')"
proof -
  have ok: "wbs_ok d" "wbs_ok d'"
    using assms(1) wbs_step_inv(1) [OF assms(1), of v n c s l now] assms(2) by (auto simp: db_inv_def)
  have "v \<in> user_ids d \<and> c \<in> user_ids d"
    using assms(2) wbs_insert_fk [of v d c n s l now] by auto
  with wbs_insert_spec [OF ok(1)] assms(2)
  have w: "w = new_wb v n c s l now (seq_wbs d + 1)" and wbs: "wbs d' = wbs d @ [w]" by auto
  have "wID w = seq_wbs d + 1" using w by simp
  then have "w \<notin> set (wbs d)" using ok(1) by (force simp: wbs_ok_def table_ok_def)
  then have "w \<notin> set (take (nat limit) (filter (between v c) (wbs d)))"
    using in_set_takeD by fastforce
  then show ?thesis
    using assms(3,4)
    unfolding list_conversation_table [OF ok(1)] list_conversation_table [OF ok(2)] list_unread_table [OF ok(2)]
    by (simp add: wbs w wb_unread_def)
qed

lemma conversation_limit_hides_newest_witness:
  "\<exists>w d'. wbs_insert 1 ''alice'' 2 ''new'' True demo_now demo_db = (Inr w, d')
    \<and> w \<notin> set (wbs_list_conversation 1 2 2 d')"
proof -
  have "\<exists>w d'. wbs_insert 1 ''alice'' 2 ''new'' True demo_now demo_db = (Inr w, d')"
    using wbs_insert_spec [OF demo_wbs_ok, of 1 2] by (simp add: user_ids_def demo_user_def)
  then obtain w d' where ins: "wbs_insert 1 ''alice'' 2 ''new'' True demo_now demo_db = (Inr w, d')" by blast
  have "nat 2 \<le> length (filter (between 1 2) (wbs demo_db))" by (simp add: demo_db_def between_def)
  from conversation_limit_hides_newest [OF demo_db_inv ins _ this] ins show ?thesis by auto
qed

text \<open>The inbox roll-up has one row per user the viewer has exchanged water balloons with, up to
  the limit, unread conversations first; a row shows the present name of that user, the body,
  direction and time of the newest message of the conversation, and the number of unread ones.\<close>

theorem counterparty_rollup:
  assumes "db_inv d" and "wbs_list_counterparties_for v limit d = l"
  shows "distinct (map cpUserID l)
    \<and> length l = min (card (cp_ids v d)) (nat (if limit \<le> 0 then 50 else limit))
    \<and> sorted_wrt (by_desc (\<lambda>c. 0 < cpUnreadCount c) (by_desc cpLastAt any_order)) l
    \<and> (\<forall>row \<in> set l. \<exists>r u. r \<in> set (wb_related v d) \<and> cp_id v r = cpUserID row
         \<and> (\<forall>w \<in> set (wb_related v d). cp_id v w = cpUserID row \<longrightarrow> wID w \<le> wID r)
         \<and> cpLastBody row = wBody r \<and> cpLastFromMe row = (wFromUserID r = v) \<and> cpLastAt row = wCreatedAt r
         \<and> u \<in> set (users d) \<and> uID u = cpUserID row \<and> cpUserIDStr row = uUserID u
         \<and> cpUnreadCount row = unread_count v (filter (\<lambda>w. cp_id v w = cpUserID row) (wb_related v d)))"
proof -
  have ok: "wbs_ok d" "users_ok d" using assms(1) by (simp_all add: db_inv_def)
  have "sorted_wrt (by_desc (\<lambda>c. 0 < cpUnreadCount c) (by_desc cpLastAt any_order)) l"
    using assms(2) unfolding list_counterparties_unfold by (auto intro: cp_order.sorted_take)
  with list_counterparties_distinct [OF ok, of v limit] list_counterparties_length [OF ok, of v limit]
    list_counterparties_row [OF ok] assms(2)
  show ?thesis by blast
qed

lemma counterparty_rollup_witness:
  "map (\<lambda>r. (cpUserIDStr r, cpLastBody r, cpUnreadCount r)) (wbs_list_counterparties_for 1 10 demo_db)
     = [(''bob'', ''hey'', 1)]
   \<and> distinct (map cpUserID (wbs_list_counterparties_for 1 10 demo_db))"
proof
  show "map (\<lambda>r. (cpUserIDStr r, cpLastBody r, cpUnreadCount r)) (wbs_list_counterparties_for 1 10 demo_db)
     = [(''bob'', ''hey'', 1)]" by code_simp
qed (use counterparty_rollup [OF demo_db_inv refl] in blast)

section \<open>Accounts\<close>

text \<open>An account is created exactly when no account has its name up to letter case; it is then
  found under every spelling of the name, all other lookups stay the same, and a refusal changes
  nothing.\<close>

theorem user_names_unique:
  assumes "db_inv d" and "users_create name h nick email now d = (r, d')"
  shows "(ok_res r \<longleftrightarrow> users_get_by_user_id name d = Inl ErrUserNotFound)
    \<and> (case r of
         Inl e \<Rightarrow> e = SqlUnique \<and> d' = d
       | Inr u \<Rightarrow> uUserID u = name \<and> uRole u = RoleUser \<and> uPasswordHash u = h
           \<and> users_get_by_id (uID u) d' = Inr u
           \<and> (\<forall>x. users_get_by_user_id x d' =
                (if nocase x = nocase name then Inr u else users_get_by_user_id x d)))"
proof (cases "user_name_taken name d")
  case True
  moreover from this have "ok_res (users_get_by_user_id name d)" by (simp add: get_by_user_id_taken)
  ultimately show ?thesis using users_create_taken assms(2) by (auto simp: ok_res_def)
next
  case False
  have ok: "users_ok d" "users_ok d'"
    using assms users_step_inv(1) [OF assms(1), of name h nick email now] by (simp_all add: db_inv_def)
  let ?u = "new_user name h nick email now (seq_users d + 1)"
  from users_create_spec [OF ok(1) False] assms(2)
  have r: "r = Inr ?u" "users d' = users d @ [?u]" by auto
  have nf: "users_get_by_user_id name d = Inl ErrUserNotFound"
    using False by (cases "users_get_by_user_id name d")
      (auto simp: get_by_user_id_taken dest: get_by_user_id_Inl)
  have look: "users_get_by_user_id x d' =
      (if nocase x = nocase name then Inr ?u else users_get_by_user_id x d)" for x
  proof (cases "nocase x = nocase name")
    case True
    then show ?thesis using get_by_user_id_iff [OF ok(2)] r(2) by simp
  next
    case False
    then have "find (\<lambda>u. nocase (uUserID u) = nocase x) (us @ [?u]) =
        find (\<lambda>u. nocase (uUserID u) = nocase x) us" for us
      by (induction us) auto
    with False show ?thesis by (simp add: users_get_by_user_id_def r(2))
  qed
  show ?thesis using r nf look get_by_id_iff [OF ok(2)] by simp
qed

lemma user_names_unique_witness:
  "fst (users_create ''ALICE'' ''h'' [] [] demo_now demo_db) = Inl SqlUnique
    \<and> ok_res (fst (users_create ''carol'' ''h'' [] [] demo_now demo_db))"
proof
  obtain r d' where eq: "users_create ''ALICE'' ''h'' [] [] demo_now demo_db = (r, d')" by fastforce
  have "users_get_by_user_id ''ALICE'' demo_db = Inr (demo_user 1 ''alice'')"
    by (simp add: users_get_by_user_id_def demo_user_def)
  with user_names_unique [OF demo_db_inv eq] eq
  show "fst (users_create ''ALICE'' ''h'' [] [] demo_now demo_db) = Inl SqlUnique"
    by (cases r) auto
next
  obtain r d' where eq: "users_create ''carol'' ''h'' [] [] demo_now demo_db = (r, d')" by fastforce
  have "users_get_by_user_id ''carol'' demo_db = Inl ErrUserNotFound"
    by (simp add: users_get_by_user_id_def demo_user_def)
  with user_names_unique [OF demo_db_inv eq] eq
  show "ok_res (fst (users_create ''carol'' ''h'' [] [] demo_now demo_db))" by simp
qed

section \<open>Webhook targets\<close>

text \<open>Only its owner can change, disable or delete a webhook target. For every other requester the
  three calls fail and leave the database as it was; the owner's calls succeed, given a URL the
  validation accepts, change that target only and never the list of another user.\<close>

theorem target_ownership:
  assumes "db_inv d" and "t \<in> set (targets d)" and "http_url (trim_space url)"
  shows "(q \<noteq> ntUserID t \<longrightarrow>
        notify_update_target (ntID t) q l url e d = (Inl ErrNotifyTargetNotFound, d)
      \<and> notify_set_target_enabled (ntID t) q e d = (Inl ErrNotifyTargetNotFound, d)
      \<and> notify_delete_target (ntID t) q d = (Inl ErrNotifyTargetNotFound, d))
    \<and> fst (notify_update_target (ntID t) (ntUserID t) l url e d) = Inr ()
    \<and> fst (notify_set_target_enabled (ntID t) (ntUserID t) e d) = Inr ()
    \<and> notify_list_targets (ntUserID t) (snd (notify_set_target_enabled (ntID t) (ntUserID t) e d)) =
        map (\<lambda>x. if ntID x = ntID t then x\<lparr>ntEnabled := e\<rparr> else x) (notify_list_targets (ntUserID t) d)
    \<and> notify_list_targets (ntUserID t) (snd (notify_delete_target (ntID t) (ntUserID t) d)) =
        filter (\<lambda>x. ntID x \<noteq> ntID t) (notify_list_targets (ntUserID t) d)
    \<and> (\<forall>u. u \<noteq> ntUserID t \<longrightarrow>
         notify_list_targets u (snd (notify_delete_target (ntID t) (ntUserID t) d)) = notify_list_targets u d
       \<and> notify_list_targets u (snd (notify_update_target (ntID t) (ntUserID t) l url e d)) =
           notify_list_targets u d)"
  using assms
  by (intro conjI impI allI target_foreign target_own target_own_lists target_other_lists)
     (auto simp: db_inv_def)

lemma target_ownership_witness:
  "\<exists>t \<in> set (targets demo_db). ntID t = 1
    \<and> notify_delete_target 1 2 demo_db = (Inl ErrNotifyTargetNotFound, demo_db)
    \<and> notify_list_targets 1 (snd (notify_delete_target 1 1 demo_db)) = []"
proof -
  let ?t = "new_target 1 ''hook'' ''https://x.io'' demo_now 1"
  have t: "?t \<in> set (targets demo_db)" by (simp add: demo_db_def)
  have "http_url (trim_space ''https://x.io'')"
    by (simp add: http_url_def trim_space_trimmed trimmed_def leading_def spaces_def)
  from target_ownership [OF demo_db_inv t this, of 2]
  have "notify_delete_target 1 2 demo_db = (Inl ErrNotifyTargetNotFound, demo_db)"
    "notify_list_targets 1 (snd (notify_delete_target 1 1 demo_db)) =
      filter (\<lambda>x. ntID x \<noteq> 1) (notify_list_targets 1 demo_db)"
    by auto
  moreover have "notify_list_targets 1 demo_db = [?t]"
    by (simp add: notify_list_targets_def demo_db_def sort_by_def)
  ultimately show ?thesis using t by (intro bexI [of _ ?t]) auto
qed

end
