(* ===== verification/Strconv.thy ===== *)
theory Strconv
  imports Prelude
begin

text \<open>
  Decimal numbers and RFC 3339 times as Go prints and parses them (\<open>strconv\<close>, \<open>time\<close>).
\<close>

section \<open>Integers\<close>

definition digits_value :: "string \<Rightarrow> int" where
  "digits_value s = foldl (\<lambda>n c. 10 * n + (int (byte_of c) - 48)) 0 s"

text \<open>\<open>strconv.Atoi\<close> and \<open>ParseInt(s, 10, 64)\<close>: an optional sign and decimal digits, within 64 bits.\<close>

definition atoi :: "string \<Rightarrow> int option" where
  "atoi s =
    (let neg = has_prefix s ''-'';
         body = (if neg \<or> has_prefix s ''+'' then tl s else s);
         v = (if neg then - digits_value body else digits_value body)
     in if body = [] \<or> \<not> list_all is_digit body then None
        else if v < - (2 ^ 63) \<or> 2 ^ 63 - 1 < v then None
        else Some v)"

definition digit_char :: "nat \<Rightarrow> char" where
  "digit_char n = char_of (48 + n)"

fun nat_digits :: "nat \<Rightarrow> string" where
  "nat_digits n = (if n < 10 then [digit_char n] else nat_digits (n div 10) @ [digit_char (n mod 10)])"

declare nat_digits.simps [simp del]

definition itoa :: "int \<Rightarrow> string" where
  "itoa n = (if n < 0 then CHR ''-'' # nat_digits (nat (- n)) else nat_digits (nat n))"

definition int64 :: "int \<Rightarrow> bool" where
  "int64 n \<longleftrightarrow> - (2 ^ 63) \<le> n \<and> n \<le> 2 ^ 63 - 1"

lemma byte_digit [simp]: "n < 10 \<Longrightarrow> byte_of (digit_char n) = 48 + n"
  by (simp add: digit_char_def byte_of_def)

lemma digit_is_digit [simp]: "n < 10 \<Longrightarrow> is_digit (digit_char n)"
  by (simp add: is_digit_def)

lemma digits_value_snoc: "digits_value (s @ [c]) = 10 * digits_value s + (int (byte_of c) - 48)"
  by (simp add: digits_value_def)

lemma digits_value_nat: "digits_value (nat_digits n) = int n"
proof (induction n rule: nat_digits.induct)
  case (1 n)
  show ?case
  proof (cases "n < 10")
    case True
    then show ?thesis by (simp add: nat_digits.simps [of n] digits_value_def)
  next
    case False
    with 1 have "digits_value (nat_digits n) = 10 * int (n div 10) + int (n mod 10)"
      by (simp add: nat_digits.simps [of n] digits_value_snoc)
    also have "\<dots> = int n" by presburger
    finally show ?thesis .
  qed
qed

lemma nat_digits_digits: "list_all is_digit (nat_digits n)"
  by (induction n rule: nat_digits.induct) (simp add: nat_digits.simps)

lemma nat_digits_ne [simp]: "nat_digits n \<noteq> []"
  by (simp add: nat_digits.simps [of n])

lemma digit_not_sign: "is_digit c \<Longrightarrow> c \<noteq> CHR ''-'' \<and> c \<noteq> CHR ''+''"
  by (auto simp: is_digit_def byte_of_def)

lemma nat_digits_no_sign: "\<not> has_prefix (nat_digits n) ''-''" "\<not> has_prefix (nat_digits n) ''+''"
  using nat_digits_digits [of n] digit_not_sign by (cases "nat_digits n"; force)+

lemma atoi_itoa: "int64 n \<Longrightarrow> atoi (itoa n) = Some n"
  by (cases "n < 0")
     (simp_all add: atoi_def itoa_def Let_def nat_digits_digits nat_digits_no_sign digits_value_nat int64_def)

section \<open>Times\<close>

text \<open>A Go time: the civil fields in its zone, nanoseconds, and the offset of the zone in seconds.\<close>

record gotime =
  gtYear :: nat
  gtMonth :: nat
  gtDay :: nat
  gtHour :: nat
  gtMin :: nat
  gtSec :: nat
  gtNanos :: nat
  gtOffset :: int

definition zero_time :: gotime where
  "zero_time = \<lparr>gtYear = 1, gtMonth = 1, gtDay = 1, gtHour = 0, gtMin = 0, gtSec = 0, gtNanos = 0, gtOffset = 0\<rparr>"

definition is_leap :: "nat \<Rightarrow> bool" where
  "is_leap y \<longleftrightarrow> y mod 4 = 0 \<and> (y mod 100 \<noteq> 0 \<or> y mod 400 = 0)"

definition days_in :: "nat \<Rightarrow> nat \<Rightarrow> nat" where
  "days_in m y =
    (if m = 2 then (if is_leap y then 29 else 28)
     else if m \<in> {4, 6, 9, 11} then 30 else 31)"

definition pad :: "nat \<Rightarrow> nat \<Rightarrow> string" where
  "pad w n = replicate (w - length (nat_digits n)) (CHR ''0'') @ nat_digits n"

text \<open>Exactly \<open>w\<close> digits at the head.\<close>

definition take_num :: "nat \<Rightarrow> string \<Rightarrow> (nat \<times> string) option" where
  "take_num w s =
    (if w \<le> length s \<and> list_all is_digit (take w s)
     then Some (nat (digits_value (take w s)), drop w s) else None)"

definition take_byte :: "char \<Rightarrow> string \<Rightarrow> string option" where
  "take_byte c s = (case s of [] \<Rightarrow> None | d # r \<Rightarrow> if d = c then Some r else None)"

text \<open>The hour may have one digit: \<open>time.Parse\<close> reads it with the layout \<open>15\<close>.\<close>

definition take_hour :: "string \<Rightarrow> (nat \<times> string) option" where
  "take_hour s =
    (case s of
       c # d # _ \<Rightarrow> if is_digit c \<and> is_digit d then take_num 2 s else take_num 1 s
     | _ \<Rightarrow> take_num 1 s)"

text \<open>A fraction after the seconds: a dot or comma and at least one digit, nine of them counting.\<close>

definition take_fraction :: "string \<Rightarrow> nat \<times> string" where
  "take_fraction s =
    (case s of
       c # d # _ \<Rightarrow>
         if (c = CHR ''.'' \<or> c = CHR '','') \<and> is_digit d then
           (let ds = takeWhile is_digit (tl s); ns = take 9 (ds @ replicate 9 (CHR ''0''))
            in (nat (digits_value ns), dropWhile is_digit (tl s)))
         else (0, s)
     | _ \<Rightarrow> (0, s))"

definition parse_zone :: "string \<Rightarrow> int option" where
  "parse_zone s =
    (if s = ''Z'' then Some 0
     else if s = [] \<or> hd s \<noteq> CHR ''+'' \<and> hd s \<noteq> CHR ''-'' then None
     else Option.bind (take_num 2 (tl s)) (\<lambda>(h, r).
       Option.bind (take_byte (CHR '':'') r) (\<lambda>r.
       Option.bind (take_num 2 r) (\<lambda>(m, r).
         if r \<noteq> [] \<or> 24 < h \<or> 60 < m then None
         else Some ((if hd s = CHR ''-'' then -1 else 1) * int (3600 * h + 60 * m))))))"

definition parse_date :: "string \<Rightarrow> (nat \<times> nat \<times> nat \<times> string) option" where
  "parse_date s =
    Option.bind (take_num 4 s) (\<lambda>(y, s).
    Option.bind (take_byte (CHR ''-'') s) (\<lambda>s.
    Option.bind (take_num 2 s) (\<lambda>(mo, s).
    Option.bind (take_byte (CHR ''-'') s) (\<lambda>s.
    Option.bind (take_num 2 s) (\<lambda>(d, s). Some (y, mo, d, s))))))"

definition parse_clock :: "string \<Rightarrow> (nat \<times> nat \<times> nat \<times> string) option" where
  "parse_clock s =
    Option.bind (take_hour s) (\<lambda>(h, s).
    Option.bind (take_byte (CHR '':'') s) (\<lambda>s.
    Option.bind (take_num 2 s) (\<lambda>(mi, s).
    Option.bind (take_byte (CHR '':'') s) (\<lambda>s.
    Option.bind (take_num 2 s) (\<lambda>(sec, s). Some (h, mi, sec, s))))))"

definition parse_rfc3339 :: "string \<Rightarrow> gotime option" where
  "parse_rfc3339 s =
    Option.bind (parse_date s) (\<lambda>(y, mo, d, s).
    Option.bind (take_byte (CHR ''T'') s) (\<lambda>s.
    Option.bind (parse_clock s) (\<lambda>(h, mi, sec, s).
      let (ns, z) = take_fraction s
      in Option.bind (parse_zone z) (\<lambda>off.
        if mo < 1 \<or> 12 < mo \<or> d < 1 \<or> days_in mo y < d \<or> 23 < h \<or> 59 < mi \<or> 59 < sec then None
        else Some \<lparr>gtYear = y, gtMonth = mo, gtDay = d, gtHour = h, gtMin = mi, gtSec = sec,
               gtNanos = ns, gtOffset = off\<rparr>))))"

subsection \<open>Padded numbers\<close>

lemma length_nat_digits: "n < 10 ^ w \<Longrightarrow> 0 < w \<Longrightarrow> length (nat_digits n) \<le> w"
proof (induction n arbitrary: w rule: nat_digits.induct)
  case (1 n)
  show ?case
  proof (cases "n < 10")
    case True
    with 1 show ?thesis by (simp add: nat_digits.simps [of n])
  next
    case False
    with "1.prems" obtain v where v: "w = Suc v" "0 < v"
      by (cases w; cases "w - 1") auto
    with "1.prems" have "n div 10 < 10 ^ v" by (simp add: less_mult_imp_div_less mult.commute)
    with "1.IH" [OF False this v(2)] False v(1) show ?thesis by (simp add: nat_digits.simps [of n])
  qed
qed

lemma length_pad: "n < 10 ^ w \<Longrightarrow> 0 < w \<Longrightarrow> length (pad w n) = w"
  using length_nat_digits [of n w] by (simp add: pad_def)

lemma zero_is_digit: "is_digit (CHR ''0'')"
  by (simp add: is_digit_def byte_of_def)

lemma pad_digits: "list_all is_digit (pad w n)"
  using nat_digits_digits [of n] zero_is_digit by (auto simp: pad_def list_all_iff)

lemma digits_value_zeros: "digits_value (replicate k (CHR ''0'') @ s) = digits_value s"
  by (induction k) (simp_all add: digits_value_def byte_of_def)

lemma digits_value_pad: "digits_value (pad w n) = int n"
  by (simp add: pad_def digits_value_zeros digits_value_nat)

lemma take_num_pad: "n < 10 ^ w \<Longrightarrow> 0 < w \<Longrightarrow> take_num w (pad w n @ r) = Some (n, r)"
  by (simp add: take_num_def length_pad pad_digits digits_value_pad)

lemma take_hour_pad:
  assumes "n < 100"
  shows "take_hour (pad 2 n @ r) = Some (n, r)"
proof -
  have "length (pad 2 n) = 2" using assms by (intro length_pad) simp_all
  then obtain c d where cd: "pad 2 n = [c, d]" by (auto simp: length_Suc_conv numeral_2_eq_2)
  then have "is_digit c" "is_digit d" using pad_digits [of 2 n] by simp_all
  with cd take_num_pad [of n 2 r] assms show ?thesis by (simp add: take_hour_def)
qed

subsection \<open>Printing and parsing again\<close>

text \<open>\<open>t.UTC().Format(time.RFC3339)\<close> for a time that is already in UTC.\<close>

definition format_rfc3339 :: "gotime \<Rightarrow> string" where
  "format_rfc3339 t =
    pad 4 (gtYear t) @ ''-'' @ pad 2 (gtMonth t) @ ''-'' @ pad 2 (gtDay t) @ ''T'' @ pad 2 (gtHour t) @ '':''
    @ pad 2 (gtMin t) @ '':'' @ pad 2 (gtSec t) @ ''Z''"

definition civil_utc :: "gotime \<Rightarrow> bool" where
  "civil_utc t \<longleftrightarrow> gtYear t < 10000 \<and> 1 \<le> gtMonth t \<and> gtMonth t \<le> 12 \<and> 1 \<le> gtDay t
     \<and> gtDay t \<le> days_in (gtMonth t) (gtYear t) \<and> gtHour t < 24 \<and> gtMin t < 60 \<and> gtSec t < 60
     \<and> gtNanos t = 0 \<and> gtOffset t = 0"

lemma days_in_31: "days_in m y \<le> 31"
  by (simp add: days_in_def)

lemma parse_format_rfc3339:
  assumes "civil_utc t"
  shows "parse_rfc3339 (format_rfc3339 t) = Some t"
proof -
  have b: "gtYear t < 10 ^ 4" "gtMonth t < 10 ^ 2" "gtDay t < 10 ^ 2" "gtHour t < 100" "gtMin t < 10 ^ 2"
    "gtSec t < 10 ^ 2"
    using assms days_in_31 [of "gtMonth t" "gtYear t"] by (auto simp: civil_utc_def)
  have "parse_date (format_rfc3339 t) = Some (gtYear t, gtMonth t, gtDay t,
      ''T'' @ pad 2 (gtHour t) @ '':'' @ pad 2 (gtMin t) @ '':'' @ pad 2 (gtSec t) @ ''Z'')"
    using b by (simp add: parse_date_def format_rfc3339_def take_num_pad take_byte_def)
  moreover have "parse_clock (pad 2 (gtHour t) @ '':'' @ pad 2 (gtMin t) @ '':'' @ pad 2 (gtSec t) @ ''Z'') =
      Some (gtHour t, gtMin t, gtSec t, ''Z'')"
    using b by (simp add: parse_clock_def take_hour_pad take_num_pad take_byte_def)
  moreover have "take_fraction ''Z'' = (0, ''Z'')" by (simp add: take_fraction_def)
  moreover have "parse_zone ''Z'' = Some 0" by (simp add: parse_zone_def)
  ultimately show ?thesis
    using assms by (simp add: parse_rfc3339_def take_byte_def civil_utc_def)
qed

lemma format_rfc3339_chars:
  assumes "c \<in> set (format_rfc3339 t)"
  shows "is_digit c \<or> c \<in> set ''-:TZ''"
  using assms pad_digits by (auto simp: format_rfc3339_def list_all_iff)

lemma format_rfc3339_last: "format_rfc3339 t \<noteq> [] \<and> last (format_rfc3339 t) = CHR ''Z''"
  by (simp add: format_rfc3339_def)

end
