(* ===== verification/Migrate.thy ===== *)
theory Migrate
  imports Sql Strconv
begin

text \<open>
  \<open>internal/store/migrate.go\<close>: the schema migrations, over a function \<open>exec\<close> that runs the body of a migration
  on a database and either fails or returns the new database (\<open>Ddl\<close> has it for SQL); the
  bookkeeping of \<open>schema_migrations\<close>, the transaction around each file and the order are the code's.
\<close>

section \<open>Versions\<close>

datatype migrate_error = MissingVersionPrefix | BadVersion | ExecFailed | VersionTaken

definition parse_version :: "string \<Rightarrow> migrate_error + int" where
  "parse_version filename =
    (case str_index filename ''_'' of
       None \<Rightarrow> Inl MissingVersionPrefix
     | Some idx \<Rightarrow>
         if idx = 0 then Inl MissingVersionPrefix
         else (case atoi (take idx filename) of None \<Rightarrow> Inl BadVersion | Some v \<Rightarrow> Inr v))"

section \<open>Running migrations\<close>

text \<open>The versions recorded in \<open>schema_migrations\<close>, latest first, and the rest of the database.\<close>

record 'd mig_db =
  migApplied :: "int list"
  migData :: 'd

record 'b mig_entry =
  meName :: string
  meIsDir :: bool
  meBody :: 'b

definition run_one ::
  "('b \<Rightarrow> 'd \<Rightarrow> 'd option) \<Rightarrow> int \<Rightarrow> 'b \<Rightarrow> 'd mig_db \<Rightarrow> (migrate_error + unit) \<times> 'd mig_db" where
  "run_one exec version body m =
    (case exec body (migData m) of
       None \<Rightarrow> (Inl ExecFailed, m)
     | Some x \<Rightarrow>
         if version \<in> set (migApplied m) then (Inl VersionTaken, m)
         else (Inr (), \<lparr>migApplied = version # migApplied m, migData = x\<rparr>))"

text \<open>The loop that collects the pending files; a malformed name stops it.\<close>

fun collect_pending :: "int list \<Rightarrow> 'b mig_entry list \<Rightarrow> migrate_error + (int \<times> 'b mig_entry) list" where
  "collect_pending applied [] = Inr []"
| "collect_pending applied (e # es) =
     (if meIsDir e \<or> \<not> has_suffix (meName e) ''.sql'' then collect_pending applied es
      else (case parse_version (meName e) of
         Inl err \<Rightarrow> Inl err
       | Inr v \<Rightarrow>
           (case collect_pending applied es of
              Inl err \<Rightarrow> Inl err
            | Inr ps \<Rightarrow> Inr (if v \<in> set applied then ps else (v, e) # ps))))"

fun run_pending ::
  "('b \<Rightarrow> 'd \<Rightarrow> 'd option) \<Rightarrow> (int \<times> 'b mig_entry) list \<Rightarrow> 'd mig_db \<Rightarrow> (migrate_error + unit) \<times> 'd mig_db" where
  "run_pending exec [] m = (Inr (), m)"
| "run_pending exec (p # ps) m =
     (case run_one exec (fst p) (meBody (snd p)) m of
        (Inl err, m') \<Rightarrow> (Inl err, m')
      | (Inr _, m') \<Rightarrow> run_pending exec ps m')"

definition migrate_apply ::
  "('b \<Rightarrow> 'd \<Rightarrow> 'd option) \<Rightarrow> 'b mig_entry list \<Rightarrow> 'd mig_db \<Rightarrow> (migrate_error + unit) \<times> 'd mig_db" where
  "migrate_apply exec entries m =
    (case collect_pending (migApplied m) entries of
       Inl err \<Rightarrow> (Inl err, m)
     | Inr ps \<Rightarrow> run_pending exec (sort_by (by_asc fst any_order) ps) m)"

section \<open>Facts\<close>

text \<open>The migration files: every name is well formed and no version occurs twice.\<close>

definition migration_files :: "'b mig_entry list \<Rightarrow> (int \<times> 'b mig_entry) list \<Rightarrow> bool" where
  "migration_files entries vs \<longleftrightarrow> collect_pending [] entries = Inr vs \<and> distinct (map fst vs)"

lemma collect_pending_applied:
  "collect_pending [] es = Inr vs \<Longrightarrow>
    collect_pending applied es = Inr (filter (\<lambda>p. fst p \<notin> set applied) vs)"
proof (induction es arbitrary: vs)
  case Nil
  then show ?case by simp
next
  case (Cons e es)
  show ?case
  proof (cases "meIsDir e \<or> \<not> has_suffix (meName e) ''.sql''")
    case True
    with Cons show ?thesis by simp
  next
    case False
    with Cons.prems obtain v ws where "parse_version (meName e) = Inr v"
      "collect_pending [] es = Inr ws" "vs = (v, e) # ws"
      by (auto split: sum.splits)
    with Cons.IH False show ?thesis by simp
  qed
qed

lemma row_order_version: "row_order (by_asc (fst :: int \<times> 'b mig_entry \<Rightarrow> int) any_order)"
  by (intro row_order_asc row_order_any)

lemma run_one_Inr:
  "run_one exec v body m = (Inr u, m') \<Longrightarrow> migApplied m' = v # migApplied m \<and> v \<notin> set (migApplied m)"
  by (auto simp: run_one_def split: option.splits if_splits)

lemma run_one_Inl: "run_one exec v body m = (Inl e, m') \<Longrightarrow> m' = m"
  by (auto simp: run_one_def split: option.splits if_splits)

lemma run_pending_prefix:
  assumes "run_pending exec ps m = (r, m')"
  shows "\<exists>qs rest. ps = qs @ rest \<and> migApplied m' = rev (map fst qs) @ migApplied m
    \<and> (r = Inr () \<longleftrightarrow> rest = []) \<and> run_pending exec qs m = (Inr (), m')"
  using assms
proof (induction ps arbitrary: m)
  case Nil
  then show ?case by auto
next
  case (Cons p ps)
  obtain r1 m1 where one: "run_one exec (fst p) (meBody (snd p)) m = (r1, m1)" by fastforce
  show ?case
  proof (cases r1)
    case (Inl e1)
    with one Cons.prems run_one_Inl [of exec "fst p"] have "r = Inl e1" "m' = m" by auto
    then show ?thesis by (intro exI [of _ "[]"] exI [of _ "p # ps"]) auto
  next
    case (Inr u)
    with one Cons.prems have "run_pending exec ps m1 = (r, m')" by simp
    from Cons.IH [OF this] obtain qs rest where q: "ps = qs @ rest"
      "migApplied m' = rev (map fst qs) @ migApplied m1" "r = Inr () \<longleftrightarrow> rest = []"
      "run_pending exec qs m1 = (Inr (), m')" by blast
    moreover have "migApplied m1 = fst p # migApplied m" using run_one_Inr [of exec "fst p"] one Inr by auto
    ultimately show ?thesis using one Inr by (intro exI [of _ "p # qs"] exI [of _ rest]) auto
  qed
qed

lemma strict_fst_unique:
  assumes "sorted_wrt (<) (map fst xs)" and "sorted_wrt (<) (map fst ys)" and "set xs = set ys"
  shows "xs = (ys :: (int \<times> 'b) list)"
proof -
  have "map fst xs = map fst ys" using assms by (intro strict_sorted_equal) simp_all
  moreover have "inj_on fst (set xs \<union> set ys)"
    using assms by (simp add: strict_sorted_iff distinct_map)
  ultimately show ?thesis by (simp add: inj_on_map_eq_map)
qed

lemma sort_by_version_strict:
  assumes "distinct (map fst ps)"
  shows "sorted_wrt (<) (map fst (sort_by (by_asc fst any_order) (ps :: (int \<times> 'b mig_entry) list)))"
proof -
  let ?s = "sort_by (by_asc fst any_order) ps"
  have "sorted_wrt (by_asc fst any_order) ?s" by (rule row_order.sorted_sort_by [OF row_order_version])
  then have "sorted (map fst ?s)"
    unfolding sorted_map by (rule sorted_wrt_mono_rel [rotated]) (auto simp: by_asc_def)
  moreover have "mset (map fst ?s) = mset (map fst ps)" by simp
  then have "distinct (map fst ?s)" using assms by (metis mset_eq_imp_distinct_iff)
  ultimately show ?thesis by (simp add: strict_sorted_iff)
qed

definition pending_order :: "int list \<Rightarrow> (int \<times> 'b mig_entry) list \<Rightarrow> (int \<times> 'b mig_entry) list" where
  "pending_order applied vs = sort_by (by_asc fst any_order) (filter (\<lambda>p. fst p \<notin> set applied) vs)"

lemma pending_order_strict:
  "distinct (map fst vs) \<Longrightarrow> sorted_wrt (<) (map fst (pending_order applied vs))"
  unfolding pending_order_def by (intro sort_by_version_strict distinct_map_filter)

lemma migrate_apply_files:
  "migration_files entries vs \<Longrightarrow>
    migrate_apply exec entries m = run_pending exec (pending_order (migApplied m) vs) m"
  by (simp add: migrate_apply_def migration_files_def pending_order_def collect_pending_applied)

lemma pending_order_rest:
  assumes "distinct (map fst vs)" and "pending_order applied vs = qs @ rest"
  shows "pending_order (rev (map fst qs) @ applied) vs = rest"
proof (rule strict_fst_unique)
  have str: "sorted_wrt (<) (map fst (qs @ rest))"
    using pending_order_strict [OF assms(1), of applied] assms(2) by simp
  then show "sorted_wrt (<) (map fst rest)" by (simp add: sorted_wrt_append)
  from str have "x \<in> set rest \<Longrightarrow> fst x \<notin> fst ` set qs" for x
    by (force simp: sorted_wrt_append)
  moreover have "set (qs @ rest) = {p \<in> set vs. fst p \<notin> set applied}"
    unfolding assms(2) [symmetric] by (simp add: pending_order_def)
  ultimately show "set (pending_order (rev (map fst qs) @ applied) vs) = set rest"
    by (auto simp: pending_order_def)
qed (rule pending_order_strict [OF assms(1)])

section \<open>The SQL engine as an interface\<close>

text \<open>
  What running migrations needs of an engine: a plan that says from the shape of a database alone what a body does to the
  shape, which the engine follows on every good database, keeping it good and only growing it.
\<close>

locale sql_engine =
  fixes exec :: "'b \<Rightarrow> 'd \<Rightarrow> 'd option"
    and plan :: "'b \<Rightarrow> 's \<Rightarrow> 's option"
    and shape :: "'d \<Rightarrow> 's"
    and good :: "'d \<Rightarrow> bool"
    and grows :: "'d \<Rightarrow> 'd \<Rightarrow> bool"
  assumes follows: "plan b (shape d) = Some s \<Longrightarrow> good d \<Longrightarrow> \<exists>d'. exec b d = Some d' \<and> shape d' = s \<and> good d' \<and> grows d d'"
    and grows_self: "grows d d"
    and grows_on: "grows d e \<Longrightarrow> grows e f \<Longrightarrow> grows d f"
begin

fun plan_all :: "'b list \<Rightarrow> 's \<Rightarrow> 's option" where
  "plan_all [] s = Some s"
| "plan_all (b # bs) s = (case plan b s of None \<Rightarrow> None | Some s' \<Rightarrow> plan_all bs s')"

lemma run_planned:
  "plan_all (map (\<lambda>p. meBody (snd p)) ps) (shape (migData m)) = Some s \<Longrightarrow> good (migData m) \<Longrightarrow>
    distinct (map fst ps) \<Longrightarrow> set (map fst ps) \<inter> set (migApplied m) = {} \<Longrightarrow>
    \<exists>m'. run_pending exec ps m = (Inr (), m') \<and> shape (migData m') = s \<and> good (migData m')
      \<and> grows (migData m) (migData m') \<and> set (migApplied m') = set (map fst ps) \<union> set (migApplied m)"
proof (induction ps arbitrary: m)
  case Nil
  then show ?case by (simp add: grows_self)
next
  case (Cons p ps)
  then obtain s1 where s1: "plan (meBody (snd p)) (shape (migData m)) = Some s1" "plan_all (map (\<lambda>p. meBody (snd p)) ps) s1 = Some s"
    by (auto split: option.splits)
  from follows [OF s1(1) Cons.prems(2)] obtain d1 where d1: "exec (meBody (snd p)) (migData m) = Some d1"
    "shape d1 = s1" "good d1" "grows (migData m) d1" by blast
  let ?m = "\<lparr>migApplied = fst p # migApplied m, migData = d1\<rparr>"
  have "run_one exec (fst p) (meBody (snd p)) m = (Inr (), ?m)" using d1(1) Cons.prems(4) by (simp add: run_one_def)
  moreover have "\<exists>m'. run_pending exec ps ?m = (Inr (), m') \<and> shape (migData m') = s \<and> good (migData m')
      \<and> grows (migData ?m) (migData m') \<and> set (migApplied m') = set (map fst ps) \<union> set (migApplied ?m)"
    by (rule Cons.IH) (use s1(2) d1(2,3) Cons.prems(3,4) in auto)
  ultimately show ?case using d1(4) by (auto intro: grows_on)
qed

end

section \<open>Properties\<close>

text \<open>C24: migrations run in strictly ascending version order, each at most once. A run applies a
  prefix of the pending ones, all of them exactly when it succeeds; a failing migration leaves the
  database as the ones before it made it, and starting again, with whatever engine, continues with
  exactly the ones that are left, none after a successful run.\<close>

theorem migrations_resume:
  assumes "migration_files entries vs" and "migrate_apply exec entries m = (r, m')"
  shows "\<exists>qs rest. pending_order (migApplied m) vs = qs @ rest
    \<and> sorted_wrt (<) (map fst (qs @ rest))
    \<and> migApplied m' = rev (map fst qs) @ migApplied m
    \<and> (r = Inr () \<longleftrightarrow> rest = [])
    \<and> run_pending exec qs m = (Inr (), m')
    \<and> (\<forall>exec'. migrate_apply exec' entries m' = run_pending exec' rest m')"
proof -
  have dist: "distinct (map fst vs)" using assms(1) by (simp add: migration_files_def)
  from assms have "run_pending exec (pending_order (migApplied m) vs) m = (r, m')"
    by (simp add: migrate_apply_files)
  from run_pending_prefix [OF this] obtain qs rest where
    q: "pending_order (migApplied m) vs = qs @ rest" "migApplied m' = rev (map fst qs) @ migApplied m"
      "r = Inr () \<longleftrightarrow> rest = []" "run_pending exec qs m = (Inr (), m')" by blast
  moreover have "sorted_wrt (<) (map fst (qs @ rest))"
    using pending_order_strict [OF dist, of "migApplied m"] q(1) by simp
  moreover have "migrate_apply exec' entries m' = run_pending exec' rest m'" for exec'
    unfolding migrate_apply_files [OF assms(1)] q(2) pending_order_rest [OF dist q(1)] ..
  ultimately show ?thesis by blast
qed

text \<open>The witness runs three files, given in directory order, on an engine that logs what it runs and
  fails on the third.\<close>

definition demo_files :: "string mig_entry list" where
  "demo_files =
    [\<lparr>meName = ''0002_b.sql'', meIsDir = False, meBody = ''B''\<rparr>,
     \<lparr>meName = ''0001_a.sql'', meIsDir = False, meBody = ''A''\<rparr>,
     \<lparr>meName = ''README.md'', meIsDir = False, meBody = []\<rparr>,
     \<lparr>meName = ''0010_c.sql'', meIsDir = False, meBody = ''C''\<rparr>]"

definition demo_exec :: "string \<Rightarrow> string list \<Rightarrow> string list option" where
  "demo_exec body log = (if body = ''C'' then None else Some (log @ [body]))"

lemma demo_migrate_run:
  "migrate_apply demo_exec demo_files \<lparr>migApplied = [], migData = []\<rparr> =
    (Inl ExecFailed, \<lparr>migApplied = [2, 1], migData = [''A'', ''B'']\<rparr>)"
  by code_simp

lemma migrations_resume_witness:
  "migrate_apply demo_exec demo_files \<lparr>migApplied = [], migData = []\<rparr> =
      (Inl ExecFailed, \<lparr>migApplied = [2, 1], migData = [''A'', ''B'']\<rparr>)
   \<and> (\<exists>rest. rest \<noteq> [] \<and> (\<forall>exec'. migrate_apply exec' demo_files \<lparr>migApplied = [2, 1], migData = [''A'', ''B'']\<rparr> =
        run_pending exec' rest \<lparr>migApplied = [2, 1], migData = [''A'', ''B'']\<rparr>))"
proof -
  let ?vs = "[(2, demo_files ! 0), (1, demo_files ! 1), (10, demo_files ! 3)]"
  have "migration_files demo_files ?vs" unfolding migration_files_def by code_simp
  from migrations_resume [OF this demo_migrate_run] demo_migrate_run show ?thesis by auto
qed

end
