(* ===== verification/I18nTables.thy ===== *)
theory I18nTables
  imports Prelude
begin

text \<open>
  The translation tables of \<open>internal/i18n\<close>, section by section: the keys declared in \<open>keys.go\<close>, the
  canonical table of \<open>zh_tw.go\<close> and the English one of \<open>en.go\<close>, each value as the UTF-8 bytes of the
  Go literal. A table is an association list in the order of its source.
\<close>

section \<open>common\<close>

definition keys_common :: "string list" where
  "keys_common =
    [''common.back'',
     ''common.loading'']"

definition zh_common :: "(string \<times> string) list" where
  "zh_common =
    [(''common.back'', [CHR 0xE8, CHR 0xBF, CHR 0x94, CHR 0xE5, CHR 0x9B, CHR 0x9E] @ '' Back''),
     (''common.loading'', [CHR 0xE8, CHR 0xBC, CHR 0x89, CHR 0xE5, CHR 0x85, CHR 0xA5, CHR 0xE4,
      CHR 0xB8, CHR 0xAD, CHR 0xE2, CHR 0x80, CHR 0xA6])]"

definition en_common :: "(string \<times> string) list" where
  "en_common =
    [(''common.back'', ''Back''),
     (''common.loading'', ''loading'' @ [CHR 0xE2, CHR 0x80, CHR 0xA6])]"

section \<open>main menu\<close>

definition keys_main_menu :: "string list" where
  "keys_main_menu =
    [''screen.main_menu.title'',
     ''screen.main_menu.last_login_line'',
     ''screen.main_menu.item.boards'',
     ''screen.main_menu.item.wb'',
     ''screen.main_menu.item.online'',
     ''screen.main_menu.item.mail'',
     ''screen.main_menu.item.settings'',
     ''screen.main_menu.item.admin'',
     ''screen.main_menu.item.quit'',
     ''screen.main_menu.hint.boards'',
     ''screen.main_menu.hint.wb'',
     ''screen.main_menu.hint.online'',
     ''screen.main_menu.hint.mail'',
     ''screen.main_menu.hint.settings'',
     ''screen.main_menu.hint.admin'',
     ''screen.main_menu.hint.quit'',
     ''screen.main_menu.mid_header'',
     ''screen.main_menu.help_line'']"

definition zh_main_menu :: "(string \<times> string) list" where
  "zh_main_menu =
    [(''screen.main_menu.title'', '' SSH-BBS '' @ [CHR 0xC2, CHR 0xB7] @ '' %s (%s) ''),
     (''screen.main_menu.last_login_line'', [CHR 0xE4, CHR 0xB8, CHR 0x8A, CHR 0xE6, CHR 0xAC,
      CHR 0xA1, CHR 0xE7, CHR 0x99, CHR 0xBB, CHR 0xE5, CHR 0x85, CHR 0xA5] @ '' %s '' @ [CHR 0xC2
      , CHR 0xB7] @ '' '' @ [CHR 0xE7, CHR 0xB4, CHR 0xAF, CHR 0xE8, CHR 0xA8, CHR 0x88, CHR 0xE7
      , CHR 0x99, CHR 0xBB, CHR 0xE5, CHR 0x85, CHR 0xA5] @ '' %d '' @ [CHR 0xE6, CHR 0xAC,
      CHR 0xA1] @ '' '' @ [CHR 0xC2, CHR 0xB7] @ '' '' @ [CHR 0xE7, CHR 0x99, CHR 0xBC, CHR 0xE6,
      CHR 0x96, CHR 0x87] @ '' %d '' @ [CHR 0xE7, CHR 0xAF, CHR 0x87]),
     (''screen.main_menu.mid_header'', '' '' @ [CHR 0xE4, CHR 0xB8, CHR 0xBB, CHR 0xE9, CHR 0x81,
      CHR 0xB8, CHR 0xE5, CHR 0x96, CHR 0xAE] @ '' Main Menu ''),
     (''screen.main_menu.item.boards'', [CHR 0xE7, CHR 0x9C, CHR 0x8B, CHR 0xE6, CHR 0x9D,
      CHR 0xBF, CHR 0xE5, CHR 0x88, CHR 0x97, CHR 0xE8, CHR 0xA1, CHR 0xA8] @ '' Boards''),
     (''screen.main_menu.item.wb'', [CHR 0xE6, CHR 0xB0, CHR 0xB4, CHR 0xE7, CHR 0x90, CHR 0x83]
      @ '' Water Balloons''),
     (''screen.main_menu.item.online'', [CHR 0xE7, CHR 0xB7, CHR 0x9A, CHR 0xE4, CHR 0xB8,
      CHR 0x8A, CHR 0xE4, CHR 0xBD, CHR 0xBF, CHR 0xE7, CHR 0x94, CHR 0xA8, CHR 0xE8, CHR 0x80,
      CHR 0x85] @ '' Online''),
     (''screen.main_menu.item.mail'', [CHR 0xE4, CHR 0xBF, CHR 0xA1, CHR 0xE7, CHR 0xAE, CHR 0xB1]
      @ '' Mail''),
     (''screen.main_menu.item.settings'', [CHR 0xE5, CHR 0x80, CHR 0x8B, CHR 0xE4, CHR 0xBA,
      CHR 0xBA, CHR 0xE8, CHR 0xA8, CHR 0xAD, CHR 0xE5, CHR 0xAE, CHR 0x9A] @ '' User settings''),
     (''screen.main_menu.item.admin'', [CHR 0xE7, CHR 0xAE, CHR 0xA1, CHR 0xE7, CHR 0x90,
      CHR 0x86] @ '' Admin''),
     (''screen.main_menu.item.quit'', [CHR 0xE9, CHR 0x9B, CHR 0xA2, CHR 0xE7, CHR 0xB7, CHR 0x9A]
      @ '' Quit''),
     (''screen.main_menu.hint.boards'', [CHR 0xE7, CHR 0x80, CHR 0x8F, CHR 0xE8, CHR 0xA6,
      CHR 0xBD, CHR 0xE7, CHR 0x9C, CHR 0x8B, CHR 0xE6, CHR 0x9D, CHR 0xBF, CHR 0xE8, CHR 0x88,
      CHR 0x87, CHR 0xE6, CHR 0x96, CHR 0x87, CHR 0xE7, CHR 0xAB, CHR 0xA0]),
     (''screen.main_menu.hint.wb'', [CHR 0xE8, CHR 0x88, CHR 0x87, CHR 0xE7, CHR 0xB7, CHR 0x9A,
      CHR 0xE4, CHR 0xB8, CHR 0x8A, CHR 0xE4, CHR 0xBD, CHR 0xBF, CHR 0xE7, CHR 0x94, CHR 0xA8,
      CHR 0xE8, CHR 0x80, CHR 0x85, CHR 0xE7, CHR 0xA7, CHR 0x81, CHR 0xE8, CHR 0xA8, CHR 0x8A]),
     (''screen.main_menu.hint.online'', [CHR 0xE6, CHR 0x9F, CHR 0xA5, CHR 0xE7, CHR 0x9C,
      CHR 0x8B, CHR 0xE8, CHR 0xAA, CHR 0xB0, CHR 0xE5, CHR 0x9C, CHR 0xA8, CHR 0xE7, CHR 0xB7,
      CHR 0x9A, CHR 0xE4, CHR 0xB8, CHR 0x8A]),
     (''screen.main_menu.hint.mail'', [CHR 0xE6, CHR 0x8C, CHR 0x81, CHR 0xE4, CHR 0xB9, CHR 0x85
      , CHR 0xE5, CHR 0x8C, CHR 0x96, CHR 0xE4, CHR 0xBF, CHR 0xA1, CHR 0xE4, CHR 0xBB, CHR 0xB6]
      @ '' / '' @ [CHR 0xE5, CHR 0xB0, CHR 0x8D, CHR 0xE8, CHR 0xA9, CHR 0xB1, CHR 0xE4, CHR 0xB8
      , CHR 0xB2]),
     (''screen.main_menu.hint.settings'', [CHR 0xE5, CHR 0xAF, CHR 0x86, CHR 0xE7, CHR 0xA2,
      CHR 0xBC] @ '' / bio / '' @ [CHR 0xE9, CHR 0x80, CHR 0x9A, CHR 0xE7, CHR 0x9F, CHR 0xA5] @
      '' / '' @ [CHR 0xE8, CHR 0xAA, CHR 0x9E, CHR 0xE8, CHR 0xA8, CHR 0x80]),
     (''screen.main_menu.hint.admin'', [CHR 0xE7, CHR 0xAE, CHR 0xA1, CHR 0xE7, CHR 0x90, CHR 0x86
      , CHR 0xE4, CHR 0xBD, CHR 0xBF, CHR 0xE7, CHR 0x94, CHR 0xA8, CHR 0xE8, CHR 0x80, CHR 0x85,
      CHR 0xE8, CHR 0xA7, CHR 0x92, CHR 0xE8, CHR 0x89, CHR 0xB2]),
     (''screen.main_menu.hint.quit'', [CHR 0xE4, CHR 0xB8, CHR 0xAD, CHR 0xE6, CHR 0x96, CHR 0xB7]
      @ '' SSH '' @ [CHR 0xE9, CHR 0x80, CHR 0xA3, CHR 0xE7, CHR 0xB7, CHR 0x9A]),
     (''screen.main_menu.help_line'', [CHR 0xE2, CHR 0x86, CHR 0x91] @ ''/'' @ [CHR 0xE2, CHR 0x86
      , CHR 0x93] @ '' j/k move '' @ [CHR 0xC2, CHR 0xB7] @ '' Enter/'' @ [CHR 0xE2, CHR 0x86,
      CHR 0x92] @ ''/l '' @ [CHR 0xE9, CHR 0x81, CHR 0xB8, CHR 0xE6, CHR 0x93, CHR 0x87] @ '' ''
      @ [CHR 0xC2, CHR 0xB7] @ '' 1-%d '' @ [CHR 0xE7, CHR 0x9B, CHR 0xB4, CHR 0xE8, CHR 0xB7,
      CHR 0xB3] @ '' '' @ [CHR 0xC2, CHR 0xB7] @ '' ? '' @ [CHR 0xE8, CHR 0xAA, CHR 0xAA, CHR 0xE6
      , CHR 0x98, CHR 0x8E] @ '' '' @ [CHR 0xC2, CHR 0xB7] @ '' q '' @ [CHR 0xE9, CHR 0x9B,
      CHR 0xA2, CHR 0xE7, CHR 0xB7, CHR 0x9A])]"

definition en_main_menu :: "(string \<times> string) list" where
  "en_main_menu =
    [(''screen.main_menu.title'', '' SSH-BBS '' @ [CHR 0xC2, CHR 0xB7] @ '' %s (%s) ''),
     (''screen.main_menu.last_login_line'', ''last login %s '' @ [CHR 0xC2, CHR 0xB7] @
      '' %d logins '' @ [CHR 0xC2, CHR 0xB7] @ '' %d posts''),
     (''screen.main_menu.mid_header'', '' Main Menu ''),
     (''screen.main_menu.item.boards'', ''Boards''),
     (''screen.main_menu.item.wb'', ''Water Balloons''),
     (''screen.main_menu.item.online'', ''Online users''),
     (''screen.main_menu.item.mail'', ''Mail''),
     (''screen.main_menu.item.settings'', ''User settings''),
     (''screen.main_menu.item.admin'', ''Admin''),
     (''screen.main_menu.item.quit'', ''Quit''),
     (''screen.main_menu.hint.boards'', ''browse and read articles''),
     (''screen.main_menu.hint.wb'', ''private messages with online users''),
     (''screen.main_menu.hint.online'', ''see who'' @ [CHR 0x27] @ ''s logged in''),
     (''screen.main_menu.hint.mail'', ''persistent threaded mail''),
     (''screen.main_menu.hint.settings'', ''password / bio / notifications / language''),
     (''screen.main_menu.hint.admin'', ''manage user roles''),
     (''screen.main_menu.hint.quit'', ''disconnect''),
     (''screen.main_menu.help_line'', [CHR 0xE2, CHR 0x86, CHR 0x91] @ ''/'' @ [CHR 0xE2, CHR 0x86
      , CHR 0x93] @ '' j/k move '' @ [CHR 0xC2, CHR 0xB7] @ '' Enter/'' @ [CHR 0xE2, CHR 0x86,
      CHR 0x92] @ ''/l choose '' @ [CHR 0xC2, CHR 0xB7] @ '' 1-%d jump '' @ [CHR 0xC2, CHR 0xB7]
      @ '' ? help '' @ [CHR 0xC2, CHR 0xB7] @ '' q quit'')]"

section \<open>user settings\<close>

definition keys_user_settings :: "string list" where
  "keys_user_settings =
    [''screen.user_settings.title'',
     ''screen.user_settings.account_line'',
     ''screen.user_settings.no_bio'',
     ''screen.user_settings.item.password'',
     ''screen.user_settings.item.bio'',
     ''screen.user_settings.item.notify'',
     ''screen.user_settings.item.back'',
     ''screen.user_settings.hint.password'',
     ''screen.user_settings.hint.bio'',
     ''screen.user_settings.hint.notify'',
     ''screen.user_settings.hint.back'',
     ''screen.user_settings.locale'',
     ''screen.user_settings.locale_hint'',
     ''screen.user_settings.help_line'']"

definition zh_user_settings :: "(string \<times> string) list" where
  "zh_user_settings =
    [(''screen.user_settings.title'', '' '' @ [CHR 0xE5, CHR 0x80, CHR 0x8B, CHR 0xE4, CHR 0xBA,
      CHR 0xBA, CHR 0xE8, CHR 0xA8, CHR 0xAD, CHR 0xE5, CHR 0xAE, CHR 0x9A] @ '' User Settings ''),
     (''screen.user_settings.account_line'', [CHR 0xE5, CHR 0xB8, CHR 0xB3, CHR 0xE8, CHR 0x99,
      CHR 0x9F] @ '' %s '' @ [CHR 0xC2, CHR 0xB7] @ '' '' @ [CHR 0xE8, CHR 0xA7, CHR 0x92,
      CHR 0xE8, CHR 0x89, CHR 0xB2] @ '' %s''),
     (''screen.user_settings.no_bio'', ''('' @ [CHR 0xE5, CHR 0xB0, CHR 0x9A, CHR 0xE6, CHR 0x9C,
      CHR 0xAA, CHR 0xE5, CHR 0xA1, CHR 0xAB, CHR 0xE5, CHR 0xAF, CHR 0xAB] @ '' bio)''),
     (''screen.user_settings.item.password'', [CHR 0xE4, CHR 0xBF, CHR 0xAE, CHR 0xE6, CHR 0x94,
      CHR 0xB9, CHR 0xE5, CHR 0xAF, CHR 0x86, CHR 0xE7, CHR 0xA2, CHR 0xBC] @ '' Change password''),
     (''screen.user_settings.item.bio'', [CHR 0xE4, CHR 0xBF, CHR 0xAE, CHR 0xE6, CHR 0x94,
      CHR 0xB9] @ '' Bio Edit bio''),
     (''screen.user_settings.item.notify'', [CHR 0xE9, CHR 0x80, CHR 0x9A, CHR 0xE7, CHR 0x9F,
      CHR 0xA5, CHR 0xE8, CHR 0xA8, CHR 0xAD, CHR 0xE5, CHR 0xAE, CHR 0x9A] @
      '' Notification settings''),
     (''screen.user_settings.item.back'', [CHR 0xE8, CHR 0xBF, CHR 0x94, CHR 0xE5, CHR 0x9B,
      CHR 0x9E] @ '' Back''),
     (''screen.user_settings.hint.password'', [CHR 0xE7, CHR 0x9B, CHR 0xAE, CHR 0xE5, CHR 0x89,
      CHR 0x8D] @ '' '' @ [CHR 0xE2, CHR 0x86, CHR 0x92] @ '' '' @ [CHR 0xE6, CHR 0x96, CHR 0xB0]
      @ '' '' @ [CHR 0xE2, CHR 0x86, CHR 0x92] @ '' '' @ [CHR 0xE7, CHR 0xA2, CHR 0xBA, CHR 0xE8,
      CHR 0xAA, CHR 0x8D]),
     (''screen.user_settings.hint.bio'', [CHR 0xE8, CHR 0x87, CHR 0xAA, CHR 0xE7, CHR 0x94,
      CHR 0xB1, CHR 0xE6, CHR 0xA0, CHR 0xBC, CHR 0xE5, CHR 0xBC, CHR 0x8F, CHR 0xE7, CHR 0x9A,
      CHR 0x84, CHR 0xE5, CHR 0x80, CHR 0x8B, CHR 0xE4, CHR 0xBA, CHR 0xBA, CHR 0xE7, CHR 0xB0,
      CHR 0xA1, CHR 0xE4, CHR 0xBB, CHR 0x8B]),
     (''screen.user_settings.hint.notify'', ''Webhook '' @ [CHR 0xE7, CHR 0x9B, CHR 0xAE, CHR 0xE6
      , CHR 0xA8, CHR 0x99, CHR 0xE8, CHR 0x88, CHR 0x87, CHR 0xE4, CHR 0xBA, CHR 0x8B, CHR 0xE4,
      CHR 0xBB, CHR 0xB6, CHR 0xE9, CHR 0x96, CHR 0x8B, CHR 0xE9, CHR 0x97, CHR 0x9C]),
     (''screen.user_settings.hint.back'', [CHR 0xE5, CHR 0x9B, CHR 0x9E, CHR 0xE5, CHR 0x88,
      CHR 0xB0, CHR 0xE4, CHR 0xB8, CHR 0xBB, CHR 0xE9, CHR 0x81, CHR 0xB8, CHR 0xE5, CHR 0x96,
      CHR 0xAE]),
     (''screen.user_settings.locale'', [CHR 0xE8, CHR 0xAA, CHR 0x9E, CHR 0xE8, CHR 0xA8,
      CHR 0x80] @ '' Language''),
     (''screen.user_settings.locale_hint'', [CHR 0xE4, CHR 0xBB, CHR 0x8B, CHR 0xE9, CHR 0x9D,
      CHR 0xA2, CHR 0xE8, CHR 0xAA, CHR 0x9E, CHR 0xE8, CHR 0xA8, CHR 0x80] @ '' (zh-TW / en)''),
     (''screen.user_settings.help_line'', [CHR 0xE2, CHR 0x86, CHR 0x91] @ ''/'' @ [CHR 0xE2,
      CHR 0x86, CHR 0x93] @ '' j/k move '' @ [CHR 0xC2, CHR 0xB7] @ '' Enter/'' @ [CHR 0xE2,
      CHR 0x86, CHR 0x92] @ ''/l '' @ [CHR 0xE9, CHR 0x81, CHR 0xB8, CHR 0xE6, CHR 0x93, CHR 0x87]
      @ '' '' @ [CHR 0xC2, CHR 0xB7] @ '' 1-5 '' @ [CHR 0xE7, CHR 0x9B, CHR 0xB4, CHR 0xE8,
      CHR 0xB7, CHR 0xB3] @ '' '' @ [CHR 0xC2, CHR 0xB7] @ '' Esc/'' @ [CHR 0xE2, CHR 0x86,
      CHR 0x90] @ ''/h '' @ [CHR 0xE8, CHR 0xBF, CHR 0x94, CHR 0xE5, CHR 0x9B, CHR 0x9E])]"

definition en_user_settings :: "(string \<times> string) list" where
  "en_user_settings =
    [(''screen.user_settings.title'', '' User Settings ''),
     (''screen.user_settings.account_line'', ''user %s '' @ [CHR 0xC2, CHR 0xB7] @ '' role %s''),
     (''screen.user_settings.no_bio'', ''(no bio yet)''),
     (''screen.user_settings.item.password'', ''Change password''),
     (''screen.user_settings.item.bio'', ''Edit bio''),
     (''screen.user_settings.item.notify'', ''Notification settings''),
     (''screen.user_settings.item.back'', ''Back''),
     (''screen.user_settings.hint.password'', ''current '' @ [CHR 0xE2, CHR 0x86, CHR 0x92] @
      '' new '' @ [CHR 0xE2, CHR 0x86, CHR 0x92] @ '' confirm''),
     (''screen.user_settings.hint.bio'', ''free-form profile blurb''),
     (''screen.user_settings.hint.notify'', ''webhook targets + per-event toggles''),
     (''screen.user_settings.hint.back'', ''main menu''),
     (''screen.user_settings.locale'', ''Language''),
     (''screen.user_settings.locale_hint'', ''interface language (zh-TW / en)''),
     (''screen.user_settings.help_line'', [CHR 0xE2, CHR 0x86, CHR 0x91] @ ''/'' @ [CHR 0xE2,
      CHR 0x86, CHR 0x93] @ '' j/k move '' @ [CHR 0xC2, CHR 0xB7] @ '' Enter/'' @ [CHR 0xE2,
      CHR 0x86, CHR 0x92] @ ''/l choose '' @ [CHR 0xC2, CHR 0xB7] @ '' 1-5 jump '' @ [CHR 0xC2,
      CHR 0xB7] @ '' Esc/'' @ [CHR 0xE2, CHR 0x86, CHR 0x90] @ ''/h back'')]"

section \<open>locale settings\<close>

definition keys_locale_settings :: "string list" where
  "keys_locale_settings =
    [''screen.locale_settings.title'',
     ''screen.locale_settings.intro'',
     ''screen.locale_settings.option_zh_label'',
     ''screen.locale_settings.option_en_label'',
     ''screen.locale_settings.note_glyphs'',
     ''screen.locale_settings.dirty_marker'',
     ''screen.locale_settings.flash_saved'',
     ''screen.locale_settings.help_line'',
     ''screen.locale_settings.header_help'']"

definition zh_locale_settings :: "(string \<times> string) list" where
  "zh_locale_settings =
    [(''screen.locale_settings.title'', '' '' @ [CHR 0xE8, CHR 0xAA, CHR 0x9E, CHR 0xE8, CHR 0xA8
      , CHR 0x80] @ '' Language ''),
     (''screen.locale_settings.intro'', [CHR 0xE9, CHR 0x81, CHR 0xB8, CHR 0xE6, CHR 0x93,
      CHR 0x87, CHR 0xE4, CHR 0xBB, CHR 0x8B, CHR 0xE9, CHR 0x9D, CHR 0xA2, CHR 0xE8, CHR 0xAA,
      CHR 0x9E, CHR 0xE8, CHR 0xA8, CHR 0x80, CHR 0xEF, CHR 0xBC, CHR 0x9A]),
     (''screen.locale_settings.option_zh_label'', [CHR 0xE7, CHR 0xB9, CHR 0x81, CHR 0xE9,
      CHR 0xAB, CHR 0x94, CHR 0xE4, CHR 0xB8, CHR 0xAD, CHR 0xE6, CHR 0x96, CHR 0x87] @
      '' (zh-TW)''),
     (''screen.locale_settings.option_en_label'', ''English (en)''),
     (''screen.locale_settings.note_glyphs'', [CHR 0xE8, CHR 0xA8, CHR 0xBB, CHR 0xEF, CHR 0xBC,
      CHR 0x9A, CHR 0xE8, CHR 0x8B, CHR 0xB1, CHR 0xE6, CHR 0x96, CHR 0x87, CHR 0xE6, CHR 0xA8,
      CHR 0xA1, CHR 0xE5, CHR 0xBC, CHR 0x8F, CHR 0xE6, CHR 0x9C, CHR 0x83, CHR 0xE6, CHR 0x8A,
      CHR 0x8A, CHR 0xE6, CHR 0x8E, CHR 0xA8] @ ''/'' @ [CHR 0xE5, CHR 0x99, CHR 0x93] @ ''/'' @
      [CHR 0xE7, CHR 0x88, CHR 0x86, CHR 0xE9, CHR 0xA1, CHR 0xAF, CHR 0xE7, CHR 0xA4, CHR 0xBA,
      CHR 0xE7, CHR 0x82, CHR 0xBA] @ '' '' @ [CHR 0xF0, CHR 0x9F, CHR 0x91, CHR 0x8D] @ ''/'' @
      [CHR 0xF0, CHR 0x9F, CHR 0x91, CHR 0x8E] @ ''/'' @ [CHR 0xF0, CHR 0x9F, CHR 0x92, CHR 0xA5]
      @ '' ('' @ [CHR 0xE5, CHR 0xAF, CHR 0xAC, CHR 0xE5, CHR 0xBA, CHR 0xA6, CHR 0xE7, CHR 0x9B,
      CHR 0xB8, CHR 0xE5, CHR 0x90, CHR 0x8C, CHR 0xEF, CHR 0xBC, CHR 0x8C, CHR 0xE4, CHR 0xB8,
      CHR 0x8D, CHR 0xE6, CHR 0x9C, CHR 0x83, CHR 0xE8, CHR 0xB7, CHR 0x91, CHR 0xE7, CHR 0x89,
      CHR 0x88] @ '')''),
     (''screen.locale_settings.dirty_marker'', ''('' @ [CHR 0xE5, CHR 0xB0, CHR 0x9A, CHR 0xE6,
      CHR 0x9C, CHR 0xAA, CHR 0xE5, CHR 0x84, CHR 0xB2, CHR 0xE5, CHR 0xAD, CHR 0x98] @ '')''),
     (''screen.locale_settings.flash_saved'', [CHR 0xE2, CHR 0x9C, CHR 0x93] @ '' '' @ [CHR 0xE5,
      CHR 0xB7, CHR 0xB2, CHR 0xE5, CHR 0x84, CHR 0xB2, CHR 0xE5, CHR 0xAD, CHR 0x98, CHR 0xE8,
      CHR 0xAA, CHR 0x9E, CHR 0xE8, CHR 0xA8, CHR 0x80, CHR 0xE5, CHR 0x81, CHR 0x8F, CHR 0xE5,
      CHR 0xA5, CHR 0xBD]),
     (''screen.locale_settings.help_line'', [CHR 0xE2, CHR 0x86, CHR 0x91] @ ''/'' @ [CHR 0xE2,
      CHR 0x86, CHR 0x93] @ '' j/k move '' @ [CHR 0xC2, CHR 0xB7] @ '' Enter/Space '' @ [CHR 0xE9
      , CHR 0x81, CHR 0xB8, CHR 0xE6, CHR 0x93, CHR 0x87] @ '' '' @ [CHR 0xC2, CHR 0xB7] @
      '' Ctrl+S '' @ [CHR 0xE5, CHR 0x84, CHR 0xB2, CHR 0xE5, CHR 0xAD, CHR 0x98] @ '' '' @
      [CHR 0xC2, CHR 0xB7] @ '' Esc '' @ [CHR 0xE5, CHR 0x8F, CHR 0x96, CHR 0xE6, CHR 0xB6,
      CHR 0x88]),
     (''screen.locale_settings.header_help'', ''Locale settings'')]"

definition en_locale_settings :: "(string \<times> string) list" where
  "en_locale_settings =
    [(''screen.locale_settings.title'', '' Language ''),
     (''screen.locale_settings.intro'', ''Choose interface language:''),
     (''screen.locale_settings.option_zh_label'', ''Traditional Chinese (zh-TW)''),
     (''screen.locale_settings.option_en_label'', ''English (en)''),
     (''screen.locale_settings.note_glyphs'', ''Note: English mode renders '' @ [CHR 0xE6,
      CHR 0x8E, CHR 0xA8] @ ''/'' @ [CHR 0xE5, CHR 0x99, CHR 0x93] @ ''/'' @ [CHR 0xE7, CHR 0x88,
      CHR 0x86] @ '' as '' @ [CHR 0xF0, CHR 0x9F, CHR 0x91, CHR 0x8D] @ ''/'' @ [CHR 0xF0,
      CHR 0x9F, CHR 0x91, CHR 0x8E] @ ''/'' @ [CHR 0xF0, CHR 0x9F, CHR 0x92, CHR 0xA5] @
      '' (same display width '' @ [CHR 0xE2, CHR 0x80, CHR 0x94] @ '' no layout shift).''),
     (''screen.locale_settings.dirty_marker'', ''(unsaved)''),
     (''screen.locale_settings.flash_saved'', [CHR 0xE2, CHR 0x9C, CHR 0x93] @ '' Locale saved''),
     (''screen.locale_settings.help_line'', [CHR 0xE2, CHR 0x86, CHR 0x91] @ ''/'' @ [CHR 0xE2,
      CHR 0x86, CHR 0x93] @ '' j/k move '' @ [CHR 0xC2, CHR 0xB7] @ '' Enter/Space select '' @
      [CHR 0xC2, CHR 0xB7] @ '' Ctrl+S save '' @ [CHR 0xC2, CHR 0xB7] @ '' Esc cancel''),
     (''screen.locale_settings.header_help'', ''Locale settings'')]"

section \<open>online\<close>

definition keys_online :: "string list" where
  "keys_online =
    [''screen.online.title'',
     ''screen.online.empty'',
     ''screen.online.empty_help_line'',
     ''screen.online.help_line'']"

definition zh_online :: "(string \<times> string) list" where
  "zh_online =
    [(''screen.online.title'', '' '' @ [CHR 0xE7, CHR 0xB7, CHR 0x9A, CHR 0xE4, CHR 0xB8, CHR 0x8A
      , CHR 0xE4, CHR 0xBD, CHR 0xBF, CHR 0xE7, CHR 0x94, CHR 0xA8, CHR 0xE8, CHR 0x80, CHR 0x85]
      @ '' Online (%d) ''),
     (''screen.online.empty'', ''('' @ [CHR 0xE7, CHR 0x9B, CHR 0xAE, CHR 0xE5, CHR 0x89, CHR 0x8D
      , CHR 0xE6, CHR 0xB2, CHR 0x92, CHR 0xE6, CHR 0x9C, CHR 0x89, CHR 0xE5, CHR 0x85, CHR 0xB6,
      CHR 0xE4, CHR 0xBB, CHR 0x96, CHR 0xE4, CHR 0xBA, CHR 0xBA, CHR 0xE5, CHR 0x9C, CHR 0xA8,
      CHR 0xE7, CHR 0xB7, CHR 0x9A] @ '')''),
     (''screen.online.empty_help_line'', ''Esc/'' @ [CHR 0xE2, CHR 0x86, CHR 0x90] @ ''/h '' @
      [CHR 0xE8, CHR 0xBF, CHR 0x94, CHR 0xE5, CHR 0x9B, CHR 0x9E] @ '' '' @ [CHR 0xC2, CHR 0xB7]
      @ '' Q '' @ [CHR 0xE5, CHR 0x9B, CHR 0x9E, CHR 0xE4, CHR 0xB8, CHR 0xBB, CHR 0xE9, CHR 0x81
      , CHR 0xB8, CHR 0xE5, CHR 0x96, CHR 0xAE]),
     (''screen.online.help_line'', [CHR 0xE2, CHR 0x86, CHR 0x91] @ ''/'' @ [CHR 0xE2, CHR 0x86,
      CHR 0x93] @ '' j/k move '' @ [CHR 0xC2, CHR 0xB7] @ '' Enter/'' @ [CHR 0xE2, CHR 0x86,
      CHR 0x92] @ ''/l '' @ [CHR 0xE4, CHR 0xB8, CHR 0x9F, CHR 0xE6, CHR 0xB0, CHR 0xB4, CHR 0xE7
      , CHR 0x90, CHR 0x83] @ '' '' @ [CHR 0xC2, CHR 0xB7] @ '' t '' @ [CHR 0xE5, CHR 0xB0,
      CHR 0x8D, CHR 0xE8, CHR 0xA9, CHR 0xB1] @ '' thread '' @ [CHR 0xC2, CHR 0xB7] @ '' Esc/'' @
      [CHR 0xE2, CHR 0x86, CHR 0x90] @ ''/h '' @ [CHR 0xE8, CHR 0xBF, CHR 0x94, CHR 0xE5, CHR 0x9B
      , CHR 0x9E] @ '' '' @ [CHR 0xC2, CHR 0xB7] @ '' Q '' @ [CHR 0xE9, CHR 0x9B, CHR 0xA2,
      CHR 0xE7, CHR 0xB7, CHR 0x9A])]"

definition en_online :: "(string \<times> string) list" where
  "en_online =
    [(''screen.online.title'', '' Online (%d) ''),
     (''screen.online.empty'', ''(nobody else online)''),
     (''screen.online.empty_help_line'', ''Esc/'' @ [CHR 0xE2, CHR 0x86, CHR 0x90] @ ''/h back ''
      @ [CHR 0xC2, CHR 0xB7] @ '' Q quit to menu''),
     (''screen.online.help_line'', [CHR 0xE2, CHR 0x86, CHR 0x91] @ ''/'' @ [CHR 0xE2, CHR 0x86,
      CHR 0x93] @ '' j/k move '' @ [CHR 0xC2, CHR 0xB7] @ '' Enter/'' @ [CHR 0xE2, CHR 0x86,
      CHR 0x92] @ ''/l whisper '' @ [CHR 0xC2, CHR 0xB7] @ '' t chat thread '' @ [CHR 0xC2,
      CHR 0xB7] @ '' Esc/'' @ [CHR 0xE2, CHR 0x86, CHR 0x90] @ ''/h back '' @ [CHR 0xC2, CHR 0xB7]
      @ '' Q quit'')]"

section \<open>board list\<close>

definition keys_board_list :: "string list" where
  "keys_board_list =
    [''screen.board_list.title'',
     ''screen.board_list.search_placeholder'',
     ''screen.board_list.search_prompt'',
     ''screen.board_list.search_in_progress'',
     ''screen.board_list.search_active'',
     ''screen.board_list.no_match'',
     ''screen.board_list.no_boards'',
     ''screen.board_list.load_failed'',
     ''screen.board_list.help_line'']"

definition zh_board_list :: "(string \<times> string) list" where
  "zh_board_list =
    [(''screen.board_list.title'', '' '' @ [CHR 0xE7, CHR 0x9C, CHR 0x8B, CHR 0xE6, CHR 0x9D,
      CHR 0xBF, CHR 0xE5, CHR 0x88, CHR 0x97, CHR 0xE8, CHR 0xA1, CHR 0xA8] @ '' Boards ''),
     (''screen.board_list.search_placeholder'', [CHR 0xE6, CHR 0x90, CHR 0x9C, CHR 0xE5, CHR 0xB0
      , CHR 0x8B, CHR 0xE7, CHR 0x9C, CHR 0x8B, CHR 0xE6, CHR 0x9D, CHR 0xBF] @
      '' / search boards''),
     (''screen.board_list.search_prompt'', [CHR 0xE6, CHR 0x90, CHR 0x9C, CHR 0xE5, CHR 0xB0,
      CHR 0x8B] @ '' / : ''),
     (''screen.board_list.search_in_progress'', ''(%d '' @ [CHR 0xE7, CHR 0xAD, CHR 0x86, CHR 0xE7
      , CHR 0xAC, CHR 0xA6, CHR 0xE5, CHR 0x90, CHR 0x88] @ '' '' @ [CHR 0xC2, CHR 0xB7] @
      '' Enter '' @ [CHR 0xE5, CHR 0xA5, CHR 0x97, CHR 0xE7, CHR 0x94, CHR 0xA8] @ '' '' @
      [CHR 0xC2, CHR 0xB7] @ '' Esc '' @ [CHR 0xE5, CHR 0x8F, CHR 0x96, CHR 0xE6, CHR 0xB6,
      CHR 0x88] @ '')''),
     (''screen.board_list.search_active'', ''['' @ [CHR 0xE6, CHR 0x90, CHR 0x9C, CHR 0xE5,
      CHR 0xB0, CHR 0x8B] @ '': %s '' @ [CHR 0xC2, CHR 0xB7] @ '' %d '' @ [CHR 0xE7, CHR 0xAD,
      CHR 0x86] @ '' '' @ [CHR 0xC2, CHR 0xB7] @ '' / '' @ [CHR 0xE4, CHR 0xBF, CHR 0xAE, CHR 0xE6
      , CHR 0x94, CHR 0xB9] @ '' '' @ [CHR 0xC2, CHR 0xB7] @ '' Esc '' @ [CHR 0xE6, CHR 0xB8,
      CHR 0x85, CHR 0xE9, CHR 0x99, CHR 0xA4] @ '']''),
     (''screen.board_list.no_match'', ''('' @ [CHR 0xE6, CHR 0xB2, CHR 0x92, CHR 0xE6, CHR 0x9C,
      CHR 0x89, CHR 0xE7, CHR 0xAC, CHR 0xA6, CHR 0xE5, CHR 0x90, CHR 0x88, CHR 0xE7, CHR 0x9A,
      CHR 0x84, CHR 0xE7, CHR 0x9C, CHR 0x8B, CHR 0xE6, CHR 0x9D, CHR 0xBF] @ '')''),
     (''screen.board_list.no_boards'', ''('' @ [CHR 0xE5, CHR 0xB0, CHR 0x9A, CHR 0xE6, CHR 0x9C,
      CHR 0xAA, CHR 0xE5, CHR 0xBB, CHR 0xBA, CHR 0xE7, CHR 0xAB, CHR 0x8B, CHR 0xE7, CHR 0x9C,
      CHR 0x8B, CHR 0xE6, CHR 0x9D, CHR 0xBF] @ '')''),
     (''screen.board_list.load_failed'', [CHR 0xE2, CHR 0x9A, CHR 0xA0] @ '' '' @ [CHR 0xE8,
      CHR 0xBC, CHR 0x89, CHR 0xE5, CHR 0x85, CHR 0xA5, CHR 0xE5, CHR 0xA4, CHR 0xB1, CHR 0xE6,
      CHR 0x95, CHR 0x97, CHR 0xEF, CHR 0xBC, CHR 0x9A] @ ''%s''),
     (''screen.board_list.help_line'', [CHR 0xE2, CHR 0x86, CHR 0x91] @ ''/'' @ [CHR 0xE2,
      CHR 0x86, CHR 0x93] @ '' j/k move '' @ [CHR 0xC2, CHR 0xB7] @ '' Enter/'' @ [CHR 0xE2,
      CHR 0x86, CHR 0x92] @ ''/l '' @ [CHR 0xE9, CHR 0x96, CHR 0x8B, CHR 0xE5, CHR 0x95, CHR 0x9F]
      @ '' '' @ [CHR 0xC2, CHR 0xB7] @ '' / '' @ [CHR 0xE6, CHR 0x90, CHR 0x9C, CHR 0xE5, CHR 0xB0
      , CHR 0x8B] @ '' '' @ [CHR 0xC2, CHR 0xB7] @ '' ? '' @ [CHR 0xE8, CHR 0xAA, CHR 0xAA,
      CHR 0xE6, CHR 0x98, CHR 0x8E] @ '' '' @ [CHR 0xC2, CHR 0xB7] @ '' Esc/'' @ [CHR 0xE2,
      CHR 0x86, CHR 0x90] @ ''/h '' @ [CHR 0xE8, CHR 0xBF, CHR 0x94, CHR 0xE5, CHR 0x9B, CHR 0x9E]
      @ '' '' @ [CHR 0xC2, CHR 0xB7] @ '' Ctrl+C '' @ [CHR 0xE4, CHR 0xB8, CHR 0xAD, CHR 0xE6,
      CHR 0x96, CHR 0xB7])]"

definition en_board_list :: "(string \<times> string) list" where
  "en_board_list =
    [(''screen.board_list.title'', '' Boards ''),
     (''screen.board_list.search_placeholder'', ''search boards''),
     (''screen.board_list.search_prompt'', ''search / : ''),
     (''screen.board_list.search_in_progress'', ''(%d match '' @ [CHR 0xC2, CHR 0xB7] @
      '' Enter apply '' @ [CHR 0xC2, CHR 0xB7] @ '' Esc cancel)''),
     (''screen.board_list.search_active'', ''[search: %s '' @ [CHR 0xC2, CHR 0xB7] @
      '' %d match '' @ [CHR 0xC2, CHR 0xB7] @ '' / edit '' @ [CHR 0xC2, CHR 0xB7] @
      '' Esc clear]''),
     (''screen.board_list.no_match'', ''(no matching boards)''),
     (''screen.board_list.no_boards'', ''(no boards yet)''),
     (''screen.board_list.load_failed'', [CHR 0xE2, CHR 0x9A, CHR 0xA0] @ '' load failed: %s''),
     (''screen.board_list.help_line'', [CHR 0xE2, CHR 0x86, CHR 0x91] @ ''/'' @ [CHR 0xE2,
      CHR 0x86, CHR 0x93] @ '' j/k move '' @ [CHR 0xC2, CHR 0xB7] @ '' Enter/'' @ [CHR 0xE2,
      CHR 0x86, CHR 0x92] @ ''/l open '' @ [CHR 0xC2, CHR 0xB7] @ '' / search '' @ [CHR 0xC2,
      CHR 0xB7] @ '' ? help '' @ [CHR 0xC2, CHR 0xB7] @ '' Esc/'' @ [CHR 0xE2, CHR 0x86, CHR 0x90]
      @ ''/h back '' @ [CHR 0xC2, CHR 0xB7] @ '' Ctrl+C disconnect'')]"

section \<open>board view\<close>

definition keys_board_view :: "string list" where
  "keys_board_view =
    [''screen.board_view.title_named'',
     ''screen.board_view.title_bare'',
     ''screen.board_view.search_placeholder'',
     ''screen.board_view.search_prompt'',
     ''screen.board_view.search_in_progress'',
     ''screen.board_view.search_active'',
     ''screen.board_view.no_articles'',
     ''screen.board_view.sort_by_score'',
     ''screen.board_view.help_line'']"

definition zh_board_view :: "(string \<times> string) list" where
  "zh_board_view =
    [(''screen.board_view.title_named'', '' '' @ [CHR 0xE7, CHR 0x9C, CHR 0x8B, CHR 0xE6, CHR 0x9D
      , CHR 0xBF] @ '' %s '' @ [CHR 0xC2, CHR 0xB7] @ '' %s ''),
     (''screen.board_view.title_bare'', '' '' @ [CHR 0xE7, CHR 0x9C, CHR 0x8B, CHR 0xE6, CHR 0x9D
      , CHR 0xBF] @ '' ''),
     (''screen.board_view.search_placeholder'', [CHR 0xE6, CHR 0x90, CHR 0x9C, CHR 0xE5, CHR 0xB0
      , CHR 0x8B, CHR 0xE6, CHR 0xA8, CHR 0x99, CHR 0xE9, CHR 0xA1, CHR 0x8C] @
      '' / search title''),
     (''screen.board_view.search_prompt'', [CHR 0xE6, CHR 0x90, CHR 0x9C, CHR 0xE5, CHR 0xB0,
      CHR 0x8B] @ '' / '' @ [CHR 0xE6, CHR 0xA8, CHR 0x99, CHR 0xE9, CHR 0xA1, CHR 0x8C] @ '': ''),
     (''screen.board_view.search_in_progress'', ''(Enter '' @ [CHR 0xE5, CHR 0xA5, CHR 0x97,
      CHR 0xE7, CHR 0x94, CHR 0xA8] @ '' '' @ [CHR 0xC2, CHR 0xB7] @ '' Esc '' @ [CHR 0xE5,
      CHR 0x8F, CHR 0x96, CHR 0xE6, CHR 0xB6, CHR 0x88] @ '')''),
     (''screen.board_view.search_active'', ''['' @ [CHR 0xE6, CHR 0x90, CHR 0x9C, CHR 0xE5,
      CHR 0xB0, CHR 0x8B] @ '': %s '' @ [CHR 0xC2, CHR 0xB7] @ '' %d '' @ [CHR 0xE7, CHR 0xAD,
      CHR 0x86] @ '' '' @ [CHR 0xC2, CHR 0xB7] @ '' / '' @ [CHR 0xE4, CHR 0xBF, CHR 0xAE, CHR 0xE6
      , CHR 0x94, CHR 0xB9] @ '' '' @ [CHR 0xC2, CHR 0xB7] @ '' Esc '' @ [CHR 0xE6, CHR 0xB8,
      CHR 0x85, CHR 0xE9, CHR 0x99, CHR 0xA4] @ '']''),
     (''screen.board_view.no_articles'', ''('' @ [CHR 0xE6, CHR 0xB2, CHR 0x92, CHR 0xE6, CHR 0x9C
      , CHR 0x89, CHR 0xE7, CHR 0xAC, CHR 0xA6, CHR 0xE5, CHR 0x90, CHR 0x88, CHR 0xE7, CHR 0x9A,
      CHR 0x84, CHR 0xE6, CHR 0x96, CHR 0x87, CHR 0xE7, CHR 0xAB, CHR 0xA0] @ '')''),
     (''screen.board_view.sort_by_score'', ''['' @ [CHR 0xE6, CHR 0x8E, CHR 0x92, CHR 0xE5,
      CHR 0xBA, CHR 0x8F] @ '': '' @ [CHR 0xE6, CHR 0x8E, CHR 0xA8, CHR 0xE6, CHR 0x96, CHR 0x87,
      CHR 0xE9, CHR 0x87, CHR 0x8F, CHR 0xE2, CHR 0x86, CHR 0x93] @ '']''),
     (''screen.board_view.help_line'', [CHR 0xE2, CHR 0x86, CHR 0x91] @ ''/'' @ [CHR 0xE2,
      CHR 0x86, CHR 0x93] @ '' j/k move '' @ [CHR 0xC2, CHR 0xB7] @ '' Enter/'' @ [CHR 0xE2,
      CHR 0x86, CHR 0x92] @ ''/l '' @ [CHR 0xE9, CHR 0x96, CHR 0x8B, CHR 0xE5, CHR 0x95, CHR 0x9F]
      @ '' '' @ [CHR 0xC2, CHR 0xB7] @ '' / '' @ [CHR 0xE6, CHR 0x90, CHR 0x9C, CHR 0xE5, CHR 0xB0
      , CHR 0x8B] @ '' '' @ [CHR 0xC2, CHR 0xB7] @ '' s '' @ [CHR 0xE6, CHR 0x8E, CHR 0x92,
      CHR 0xE5, CHR 0xBA, CHR 0x8F] @ '' '' @ [CHR 0xC2, CHR 0xB7] @ '' p '' @ [CHR 0xE7, CHR 0x99
      , CHR 0xBC, CHR 0xE6, CHR 0x96, CHR 0x87] @ '' '' @ [CHR 0xC2, CHR 0xB7] @ '' ? '' @
      [CHR 0xE8, CHR 0xAA, CHR 0xAA, CHR 0xE6, CHR 0x98, CHR 0x8E] @ '' '' @ [CHR 0xC2, CHR 0xB7]
      @ '' Esc/'' @ [CHR 0xE2, CHR 0x86, CHR 0x90] @ ''/h '' @ [CHR 0xE8, CHR 0xBF, CHR 0x94,
      CHR 0xE5, CHR 0x9B, CHR 0x9E])]"

definition en_board_view :: "(string \<times> string) list" where
  "en_board_view =
    [(''screen.board_view.title_named'', '' Board %s '' @ [CHR 0xC2, CHR 0xB7] @ '' %s ''),
     (''screen.board_view.title_bare'', '' Board ''),
     (''screen.board_view.search_placeholder'', ''search title''),
     (''screen.board_view.search_prompt'', ''search / title: ''),
     (''screen.board_view.search_in_progress'', ''(Enter apply '' @ [CHR 0xC2, CHR 0xB7] @
      '' Esc cancel)''),
     (''screen.board_view.search_active'', ''[search: %s '' @ [CHR 0xC2, CHR 0xB7] @
      '' %d match '' @ [CHR 0xC2, CHR 0xB7] @ '' / edit '' @ [CHR 0xC2, CHR 0xB7] @
      '' Esc clear]''),
     (''screen.board_view.no_articles'', ''(no matching articles)''),
     (''screen.board_view.sort_by_score'', ''[sort: by score'' @ [CHR 0xE2, CHR 0x86, CHR 0x93] @
      '']''),
     (''screen.board_view.help_line'', [CHR 0xE2, CHR 0x86, CHR 0x91] @ ''/'' @ [CHR 0xE2,
      CHR 0x86, CHR 0x93] @ '' j/k move '' @ [CHR 0xC2, CHR 0xB7] @ '' Enter/'' @ [CHR 0xE2,
      CHR 0x86, CHR 0x92] @ ''/l open '' @ [CHR 0xC2, CHR 0xB7] @ '' / search '' @ [CHR 0xC2,
      CHR 0xB7] @ '' s sort '' @ [CHR 0xC2, CHR 0xB7] @ '' p post '' @ [CHR 0xC2, CHR 0xB7] @
      '' ? help '' @ [CHR 0xC2, CHR 0xB7] @ '' Esc/'' @ [CHR 0xE2, CHR 0x86, CHR 0x90] @
      ''/h back'')]"

section \<open>article view\<close>

definition keys_article_view :: "string list" where
  "keys_article_view =
    [''screen.article_view.title'',
     ''screen.article_view.comments_prefix'',
     ''screen.article_view.comments_arrows_only'',
     ''screen.article_view.comments_locked'',
     ''screen.article_view.pushes_header'',
     ''screen.article_view.confirm_delete_article'',
     ''screen.article_view.confirm_delete_push'',
     ''screen.article_view.mode_banner'',
     ''screen.article_view.mode_options'',
     ''screen.article_view.help_base'',
     ''screen.article_view.help_push_kinds'',
     ''screen.article_view.help_select_push'',
     ''screen.article_view.help_edit'',
     ''screen.article_view.help_mode_toggle'',
     ''screen.article_view.help_delete_push'',
     ''screen.article_view.help_delete_article'',
     ''screen.article_view.err_push_body_empty'']"

definition zh_article_view :: "(string \<times> string) list" where
  "zh_article_view =
    [(''screen.article_view.title'', '' '' @ [CHR 0xE6, CHR 0x96, CHR 0x87, CHR 0xE7, CHR 0xAB,
      CHR 0xA0] @ '' #%d '' @ [CHR 0xC2, CHR 0xB7] @ '' %s ''),
     (''screen.article_view.comments_prefix'', [CHR 0xE7, CHR 0x95, CHR 0x99, CHR 0xE8, CHR 0xA8,
      CHR 0x80] @ '':  ''),
     (''screen.article_view.comments_arrows_only'', ''['' @ [CHR 0xE7, CHR 0xAE, CHR 0xAD] @
      ''] '' @ [CHR 0xE5, CHR 0x83, CHR 0x85, CHR 0xE9, CHR 0x96, CHR 0x8B, CHR 0xE6, CHR 0x94,
      CHR 0xBE, CHR 0xE7, CHR 0xAE, CHR 0xAD, CHR 0xE9, CHR 0xA0, CHR 0xAD]),
     (''screen.article_view.comments_locked'', ''['' @ [CHR 0xE9, CHR 0x8E, CHR 0x96] @ ''] '' @
      [CHR 0xE5, CHR 0xB7, CHR 0xB2, CHR 0xE9, CHR 0x97, CHR 0x9C, CHR 0xE9, CHR 0x96, CHR 0x89,
      CHR 0xE7, CHR 0x95, CHR 0x99, CHR 0xE8, CHR 0xA8, CHR 0x80]),
     (''screen.article_view.pushes_header'', [CHR 0xE2, CHR 0x94, CHR 0x80, CHR 0xE2, CHR 0x94,
      CHR 0x80] @ '' '' @ [CHR 0xE6, CHR 0x8E, CHR 0xA8, CHR 0xE6, CHR 0x96, CHR 0x87] @
      '' (%d) '' @ [CHR 0xE2, CHR 0x94, CHR 0x80, CHR 0xE2, CHR 0x94, CHR 0x80]),
     (''screen.article_view.confirm_delete_article'', [CHR 0xE7, CHR 0xA2, CHR 0xBA, CHR 0xE5,
      CHR 0xAE, CHR 0x9A, CHR 0xE5, CHR 0x88, CHR 0xAA, CHR 0xE9, CHR 0x99, CHR 0xA4, CHR 0xE9,
      CHR 0x80, CHR 0x99, CHR 0xE7, CHR 0xAF, CHR 0x87, CHR 0xE6, CHR 0x96, CHR 0x87, CHR 0xE7,
      CHR 0xAB, CHR 0xA0] @ ''? (y/N)''),
     (''screen.article_view.confirm_delete_push'', [CHR 0xE7, CHR 0xA2, CHR 0xBA, CHR 0xE5,
      CHR 0xAE, CHR 0x9A, CHR 0xE5, CHR 0x88, CHR 0xAA, CHR 0xE9, CHR 0x99, CHR 0xA4, CHR 0xE6,
      CHR 0x8E, CHR 0xA8, CHR 0xE6, CHR 0x96, CHR 0x87] @ '' #%d? (y/N)''),
     (''screen.article_view.mode_banner'', '' '' @ [CHR 0xE7, CHR 0x95, CHR 0x99, CHR 0xE8,
      CHR 0xA8, CHR 0x80, CHR 0xE6, CHR 0xA8, CHR 0xA1, CHR 0xE5, CHR 0xBC, CHR 0x8F] @ '' ''),
     (''screen.article_view.mode_options'', ''1 '' @ [CHR 0xE9, CHR 0x96, CHR 0x8B, CHR 0xE6,
      CHR 0x94, CHR 0xBE] @ ''  2 '' @ [CHR 0xE5, CHR 0x83, CHR 0x85, CHR 0xE7, CHR 0xAE, CHR 0xAD
      , CHR 0xE9, CHR 0xA0, CHR 0xAD] @ ''  3 '' @ [CHR 0xE9, CHR 0x8E, CHR 0x96, CHR 0xE6,
      CHR 0x96, CHR 0x87] @ ''  Esc '' @ [CHR 0xE5, CHR 0x8F, CHR 0x96, CHR 0xE6, CHR 0xB6,
      CHR 0x88]),
     (''screen.article_view.help_base'', ''j/k '' @ [CHR 0xE5, CHR 0x8D, CHR 0xB7, CHR 0xE5,
      CHR 0x8B, CHR 0x95] @ '' '' @ [CHR 0xC2, CHR 0xB7] @ '' y '' @ [CHR 0xE5, CHR 0x8C, CHR 0xAF
      , CHR 0xE5, CHR 0x87, CHR 0xBA]),
     (''screen.article_view.help_push_kinds'', '' '' @ [CHR 0xC2, CHR 0xB7] @ '' + '' @ [CHR 0xE6
      , CHR 0x8E, CHR 0xA8] @ '' '' @ [CHR 0xC2, CHR 0xB7] @ '' - '' @ [CHR 0xE5, CHR 0x99,
      CHR 0x93] @ '' '' @ [CHR 0xC2, CHR 0xB7] @ '' = '' @ [CHR 0xE2, CHR 0x86, CHR 0x92] @ '' ''
      @ [CHR 0xC2, CHR 0xB7] @ '' r '' @ [CHR 0xE5, CHR 0x9B, CHR 0x9E, CHR 0xE6, CHR 0x96,
      CHR 0x87]),
     (''screen.article_view.help_select_push'', '' '' @ [CHR 0xC2, CHR 0xB7] @ '' p/P '' @
      [CHR 0xE9, CHR 0x81, CHR 0xB8, CHR 0xE6, CHR 0x8E, CHR 0xA8, CHR 0xE6, CHR 0x96, CHR 0x87]),
     (''screen.article_view.help_edit'', '' '' @ [CHR 0xC2, CHR 0xB7] @ '' E '' @ [CHR 0xE7,
      CHR 0xB7, CHR 0xA8, CHR 0xE8, CHR 0xBC, CHR 0xAF]),
     (''screen.article_view.help_mode_toggle'', '' '' @ [CHR 0xC2, CHR 0xB7] @ '' M '' @ [CHR 0xE7
      , CHR 0x95, CHR 0x99, CHR 0xE8, CHR 0xA8, CHR 0x80, CHR 0xE6, CHR 0xA8, CHR 0xA1, CHR 0xE5,
      CHR 0xBC, CHR 0x8F]),
     (''screen.article_view.help_delete_push'', '' '' @ [CHR 0xC2, CHR 0xB7] @ '' D '' @ [CHR 0xE5
      , CHR 0x88, CHR 0xAA, CHR 0xE9, CHR 0x99, CHR 0xA4, CHR 0xE6, CHR 0x8E, CHR 0xA8, CHR 0xE6,
      CHR 0x96, CHR 0x87]),
     (''screen.article_view.help_delete_article'', '' '' @ [CHR 0xC2, CHR 0xB7] @ '' D '' @
      [CHR 0xE5, CHR 0x88, CHR 0xAA, CHR 0xE9, CHR 0x99, CHR 0xA4, CHR 0xE6, CHR 0x96, CHR 0x87,
      CHR 0xE7, CHR 0xAB, CHR 0xA0]),
     (''screen.article_view.err_push_body_empty'', [CHR 0xE6, CHR 0x8E, CHR 0xA8] @ ''/'' @
      [CHR 0xE5, CHR 0x99, CHR 0x93] @ '' '' @ [CHR 0xE5, CHR 0xBF, CHR 0x85, CHR 0xE9, CHR 0xA0,
      CHR 0x88, CHR 0xE9, CHR 0x99, CHR 0x84, CHR 0xE4, CHR 0xB8, CHR 0x8A, CHR 0xE6, CHR 0x8E,
      CHR 0xA8, CHR 0xE6, CHR 0x96, CHR 0x87, CHR 0xE5, CHR 0x85, CHR 0xA7, CHR 0xE5, CHR 0xAE,
      CHR 0xB9])]"

definition en_article_view :: "(string \<times> string) list" where
  "en_article_view =
    [(''screen.article_view.title'', '' Article #%d '' @ [CHR 0xC2, CHR 0xB7] @ '' %s ''),
     (''screen.article_view.comments_prefix'', ''comments:  ''),
     (''screen.article_view.comments_arrows_only'', ''[A] arrows-only''),
     (''screen.article_view.comments_locked'', ''[L] locked''),
     (''screen.article_view.pushes_header'', [CHR 0xE2, CHR 0x94, CHR 0x80, CHR 0xE2, CHR 0x94,
      CHR 0x80] @ '' Reactions (%d) '' @ [CHR 0xE2, CHR 0x94, CHR 0x80, CHR 0xE2, CHR 0x94,
      CHR 0x80]),
     (''screen.article_view.confirm_delete_article'', ''Delete this article? (y/N)''),
     (''screen.article_view.confirm_delete_push'', ''Delete reaction #%d? (y/N)''),
     (''screen.article_view.mode_banner'', '' Comments mode ''),
     (''screen.article_view.mode_options'', ''1 open  2 arrows-only  3 locked  Esc cancel''),
     (''screen.article_view.help_base'', ''j/k scroll '' @ [CHR 0xC2, CHR 0xB7] @ '' y export''),
     (''screen.article_view.help_push_kinds'', '' '' @ [CHR 0xC2, CHR 0xB7] @ '' + '' @ [CHR 0xF0
      , CHR 0x9F, CHR 0x91, CHR 0x8D] @ '' '' @ [CHR 0xC2, CHR 0xB7] @ '' - '' @ [CHR 0xF0,
      CHR 0x9F, CHR 0x91, CHR 0x8E] @ '' '' @ [CHR 0xC2, CHR 0xB7] @ '' = '' @ [CHR 0xE2, CHR 0x86
      , CHR 0x92] @ '' '' @ [CHR 0xC2, CHR 0xB7] @ '' r reply''),
     (''screen.article_view.help_select_push'', '' '' @ [CHR 0xC2, CHR 0xB7] @
      '' p/P pick reaction''),
     (''screen.article_view.help_edit'', '' '' @ [CHR 0xC2, CHR 0xB7] @ '' E edit''),
     (''screen.article_view.help_mode_toggle'', '' '' @ [CHR 0xC2, CHR 0xB7] @
      '' M comments-mode''),
     (''screen.article_view.help_delete_push'', '' '' @ [CHR 0xC2, CHR 0xB7] @
      '' D delete reaction''),
     (''screen.article_view.help_delete_article'', '' '' @ [CHR 0xC2, CHR 0xB7] @
      '' D delete article''),
     (''screen.article_view.err_push_body_empty'', ''comment required for '' @ [CHR 0xF0, CHR 0x9F
      , CHR 0x91, CHR 0x8D] @ ''/'' @ [CHR 0xF0, CHR 0x9F, CHR 0x91, CHR 0x8E])]"

section \<open>post compose\<close>

definition keys_post_compose :: "string list" where
  "keys_post_compose =
    [''screen.post_compose.title_new'',
     ''screen.post_compose.title_reply'',
     ''screen.post_compose.reply_prefix'',
     ''screen.post_compose.wrote_suffix'',
     ''screen.post_compose.title_placeholder'',
     ''screen.post_compose.body_placeholder'',
     ''screen.post_compose.fm_hint_missing'',
     ''screen.post_compose.fm_hint_paste'',
     ''screen.article_edit.title'',
     ''screen.article_edit.title_placeholder'',
     ''screen.article_edit.body_placeholder'']"

definition zh_post_compose :: "(string \<times> string) list" where
  "zh_post_compose =
    [(''screen.post_compose.title_new'', '' '' @ [CHR 0xE7, CHR 0x99, CHR 0xBC, CHR 0xE8, CHR 0xA1
      , CHR 0xA8, CHR 0xE6, CHR 0x96, CHR 0xB0, CHR 0xE6, CHR 0x96, CHR 0x87, CHR 0xE7, CHR 0xAB,
      CHR 0xA0] @ '' New Post ''),
     (''screen.post_compose.title_reply'', '' '' @ [CHR 0xE5, CHR 0x9B, CHR 0x9E, CHR 0xE6,
      CHR 0x96, CHR 0x87] @ '' Reply ''),
     (''screen.post_compose.reply_prefix'', [CHR 0xE5, CHR 0x9B, CHR 0x9E, CHR 0xE8, CHR 0xA6,
      CHR 0x86] @ '' #%d  %s '' @ [CHR 0xC2, CHR 0xB7] @ '' %s''),
     (''screen.post_compose.wrote_suffix'', [CHR 0xE5, CHR 0xAF, CHR 0xAB, CHR 0xE9, CHR 0x81,
      CHR 0x93]),
     (''screen.post_compose.title_placeholder'', [CHR 0xE6, CHR 0xA8, CHR 0x99, CHR 0xE9, CHR 0xA1
      , CHR 0x8C] @ '' title''),
     (''screen.post_compose.body_placeholder'', [CHR 0xE5, CHR 0x85, CHR 0xA7, CHR 0xE5, CHR 0xAE
      , CHR 0xB9] @ '' body'' @ [CHR 0xE2, CHR 0x80, CHR 0xA6]),
     (''screen.post_compose.fm_hint_missing'', [CHR 0xE6, CHR 0x89, CHR 0xBE, CHR 0xE4, CHR 0xB8,
      CHR 0x8D, CHR 0xE5, CHR 0x88, CHR 0xB0] @ '' frontmatter'' @ [CHR 0xEF, CHR 0xBC, CHR 0x88,
      CHR 0xE8, CHR 0xAB, CHR 0x8B, CHR 0xE8, CHR 0xB2, CHR 0xBC, CHR 0xE4, CHR 0xB8, CHR 0x8A,
      CHR 0xE9, CHR 0x96, CHR 0x8B, CHR 0xE9, CHR 0xA0, CHR 0xAD, CHR 0xE5, CHR 0x90, CHR 0xAB] @
      '' --- ... --- '' @ [CHR 0xE7, CHR 0x9A, CHR 0x84] @ '' markdown'' @ [CHR 0xEF, CHR 0xBC,
      CHR 0x89]),
     (''screen.post_compose.fm_hint_paste'', [CHR 0xE8, CHR 0xB2, CHR 0xBC, CHR 0xE4, CHR 0xB8,
      CHR 0x8A] @ '' markdown'' @ [CHR 0xEF, CHR 0xBC, CHR 0x88, CHR 0xE5, CHR 0x90, CHR 0xAB] @
      '' --- frontmatter ---'' @ [CHR 0xEF, CHR 0xBC, CHR 0x89, CHR 0xE5, CHR 0xBE, CHR 0x8C,
      CHR 0xE5, CHR 0x86, CHR 0x8D, CHR 0xE6, CHR 0x8C, CHR 0x89] @ '' Ctrl+I''),
     (''screen.article_edit.title'', '' '' @ [CHR 0xE7, CHR 0xB7, CHR 0xA8, CHR 0xE8, CHR 0xBC,
      CHR 0xAF, CHR 0xE6, CHR 0x96, CHR 0x87, CHR 0xE7, CHR 0xAB, CHR 0xA0] @ '' Edit Post ''),
     (''screen.article_edit.title_placeholder'', [CHR 0xE6, CHR 0xA8, CHR 0x99, CHR 0xE9, CHR 0xA1
      , CHR 0x8C] @ '' title''),
     (''screen.article_edit.body_placeholder'', [CHR 0xE5, CHR 0x85, CHR 0xA7, CHR 0xE5, CHR 0xAE
      , CHR 0xB9] @ '' body'' @ [CHR 0xE2, CHR 0x80, CHR 0xA6])]"

definition en_post_compose :: "(string \<times> string) list" where
  "en_post_compose =
    [(''screen.post_compose.title_new'', '' New Post ''),
     (''screen.post_compose.title_reply'', '' Reply ''),
     (''screen.post_compose.reply_prefix'', ''Re: #%d  %s '' @ [CHR 0xC2, CHR 0xB7] @ '' %s''),
     (''screen.post_compose.wrote_suffix'', ''wrote''),
     (''screen.post_compose.title_placeholder'', ''title''),
     (''screen.post_compose.body_placeholder'', ''body'' @ [CHR 0xE2, CHR 0x80, CHR 0xA6]),
     (''screen.post_compose.fm_hint_missing'', ''no frontmatter found (paste markdown starting with --- ... --- block)''),
     (''screen.post_compose.fm_hint_paste'', ''paste markdown (with --- frontmatter ---) then press Ctrl+I''),
     (''screen.article_edit.title'', '' Edit Post ''),
     (''screen.article_edit.title_placeholder'', ''title''),
     (''screen.article_edit.body_placeholder'', ''body'' @ [CHR 0xE2, CHR 0x80, CHR 0xA6])]"

section \<open>article export\<close>

definition keys_article_export :: "string list" where
  "keys_article_export =
    [''screen.article_export.title'',
     ''screen.article_export.guest_no_write'',
     ''screen.article_export.wrote_file'',
     ''screen.article_export.osc52_truncated'',
     ''screen.article_export.osc52_copied'',
     ''screen.article_export.help_line'']"

definition zh_article_export :: "(string \<times> string) list" where
  "zh_article_export =
    [(''screen.article_export.title'', '' '' @ [CHR 0xE5, CHR 0x8C, CHR 0xAF, CHR 0xE5, CHR 0x87,
      CHR 0xBA] @ '' markdown '' @ [CHR 0xC2, CHR 0xB7] @ '' Export ''),
     (''screen.article_export.guest_no_write'', ''guest '' @ [CHR 0xE4, CHR 0xB8, CHR 0x8D,
      CHR 0xE8, CHR 0x83, CHR 0xBD, CHR 0xE5, CHR 0xAF, CHR 0xAB, CHR 0xE6, CHR 0xAA, CHR 0x94] @
      '' (read-only)''),
     (''screen.article_export.wrote_file'', [CHR 0xE5, CHR 0xB7, CHR 0xB2, CHR 0xE5, CHR 0xAF,
      CHR 0xAB, CHR 0xE5, CHR 0x85, CHR 0xA5] @ '' %s''),
     (''screen.article_export.osc52_truncated'', [CHR 0xE2, CHR 0x9A, CHR 0xA0] @ '' %dB '' @
      [CHR 0xE8, CHR 0xB6, CHR 0x85, CHR 0xE9, CHR 0x81, CHR 0x8E] @ '' OSC52 '' @ [CHR 0xE4,
      CHR 0xB8, CHR 0x8A, CHR 0xE9, CHR 0x99, CHR 0x90, CHR 0xEF, CHR 0xBC, CHR 0x8C, CHR 0xE5,
      CHR 0x8F, CHR 0xAF, CHR 0xE8, CHR 0x83, CHR 0xBD, CHR 0xE8, CHR 0xA2, CHR 0xAB, CHR 0xE7,
      CHR 0xB5, CHR 0x82, CHR 0xE7, CHR 0xAB, CHR 0xAF, CHR 0xE6, CHR 0xA9, CHR 0x9F, CHR 0xE6,
      CHR 0x88, CHR 0xAA, CHR 0xE6, CHR 0x96, CHR 0xB7, CHR 0xEF, CHR 0xBC, CHR 0x9B, CHR 0xE6,
      CHR 0x94, CHR 0xB9, CHR 0xE6, CHR 0x8C, CHR 0x89] @ '' 3 '' @ [CHR 0xE5, CHR 0xAF, CHR 0xAB
      , CHR 0xE6, CHR 0xAA, CHR 0x94]),
     (''screen.article_export.osc52_copied'', [CHR 0xE5, CHR 0xB7, CHR 0xB2, CHR 0xE8, CHR 0xA4,
      CHR 0x87, CHR 0xE8, CHR 0xA3, CHR 0xBD, CHR 0xE5, CHR 0x88, CHR 0xB0, CHR 0xE5, CHR 0x89,
      CHR 0xAA, CHR 0xE8, CHR 0xB2, CHR 0xBC, CHR 0xE7, CHR 0xB0, CHR 0xBF, CHR 0xEF, CHR 0xBC,
      CHR 0x88, CHR 0xE9, CHR 0x9C, CHR 0x80, CHR 0xE7, CHR 0xB5, CHR 0x82, CHR 0xE7, CHR 0xAB,
      CHR 0xAF, CHR 0xE6, CHR 0xA9, CHR 0x9F, CHR 0xE6, CHR 0x94, CHR 0xAF, CHR 0xE6, CHR 0x8F,
      CHR 0xB4] @ '' OSC 52'' @ [CHR 0xEF, CHR 0xBC, CHR 0x89]),
     (''screen.article_export.help_line'', ''1 '' @ [CHR 0xE7, CHR 0xB4, CHR 0x94, CHR 0xE5,
      CHR 0x85, CHR 0xA7, CHR 0xE6, CHR 0x96, CHR 0x87] @ '' '' @ [CHR 0xC2, CHR 0xB7] @ '' 2 ''
      @ [CHR 0xE5, CHR 0x90, CHR 0xAB, CHR 0xE7, CHR 0x95, CHR 0x99, CHR 0xE8, CHR 0xA8, CHR 0x80]
      @ '' '' @ [CHR 0xC2, CHR 0xB7] @ '' 3 '' @ [CHR 0xE5, CHR 0xAF, CHR 0xAB, CHR 0xE6, CHR 0xAA
      , CHR 0x94] @ '' '' @ [CHR 0xC2, CHR 0xB7] @ '' c '' @ [CHR 0xE5, CHR 0x89, CHR 0xAA,
      CHR 0xE8, CHR 0xB2, CHR 0xBC, CHR 0xE7, CHR 0xB0, CHR 0xBF] @ '' (OSC52) '' @ [CHR 0xC2,
      CHR 0xB7] @ '' j/k '' @ [CHR 0xE5, CHR 0x8D, CHR 0xB7, CHR 0xE5, CHR 0x8B, CHR 0x95] @ '' ''
      @ [CHR 0xC2, CHR 0xB7] @ '' Esc '' @ [CHR 0xE8, CHR 0xBF, CHR 0x94, CHR 0xE5, CHR 0x9B,
      CHR 0x9E])]"

definition en_article_export :: "(string \<times> string) list" where
  "en_article_export =
    [(''screen.article_export.title'', '' Export markdown ''),
     (''screen.article_export.guest_no_write'', ''guest accounts cannot write files (read-only)''),
     (''screen.article_export.wrote_file'', ''wrote %s''),
     (''screen.article_export.osc52_truncated'', [CHR 0xE2, CHR 0x9A, CHR 0xA0] @
      '' %dB exceeds OSC52 limit; may be truncated by the terminal '' @ [CHR 0xE2, CHR 0x80,
      CHR 0x94] @ '' press 3 to write to disk instead''),
     (''screen.article_export.osc52_copied'', ''copied to clipboard (requires terminal OSC 52 support)''),
     (''screen.article_export.help_line'', ''1 plain '' @ [CHR 0xC2, CHR 0xB7] @
      '' 2 with reactions '' @ [CHR 0xC2, CHR 0xB7] @ '' 3 write file '' @ [CHR 0xC2, CHR 0xB7] @
      '' c clipboard (OSC52) '' @ [CHR 0xC2, CHR 0xB7] @ '' j/k scroll '' @ [CHR 0xC2, CHR 0xB7]
      @ '' Esc back'')]"

section \<open>accounts\<close>

definition keys_accounts :: "string list" where
  "keys_accounts =
    [''screen.register.title'',
     ''screen.register.success'',
     ''screen.register.retry_hint'',
     ''screen.register.done_hint'',
     ''screen.register.field_user_id'',
     ''screen.register.field_password'',
     ''screen.register.field_nickname'',
     ''screen.register.nickname_placeholder'',
     ''screen.password_change.title'',
     ''screen.password_change.title_must'',
     ''screen.password_change.placeholder_current'',
     ''screen.password_change.placeholder_new'',
     ''screen.password_change.placeholder_confirm'',
     ''screen.password_change.label_current'',
     ''screen.password_change.label_new'',
     ''screen.password_change.label_confirm'',
     ''screen.password_change.err_wrong'',
     ''screen.password_change.err_mismatch'',
     ''screen.password_change.err_same'',
     ''screen.password_change.ok_to_menu'',
     ''screen.password_change.ok'',
     ''screen.bio_edit.title'',
     ''screen.bio_edit.placeholder'',
     ''screen.board_banner_edit.title'',
     ''screen.board_banner_edit.placeholder'',
     ''screen.board_banner_edit.help_line'',
     ''screen.board_splash.title_named'',
     ''screen.board_splash.title_bare'']"

definition zh_accounts :: "(string \<times> string) list" where
  "zh_accounts =
    [(''screen.register.title'', ''  === '' @ [CHR 0xE8, CHR 0xA8, CHR 0xBB, CHR 0xE5, CHR 0x86,
      CHR 0x8A, CHR 0xE6, CHR 0x96, CHR 0xB0, CHR 0xE5, CHR 0xB8, CHR 0xB3, CHR 0xE8, CHR 0x99,
      CHR 0x9F] @ '' ===''),
     (''screen.register.success'', [CHR 0x0A] @ ''  '' @ [CHR 0xE2, CHR 0x9C, CHR 0x93] @ '' '' @
      [CHR 0xE8, CHR 0xA8, CHR 0xBB, CHR 0xE5, CHR 0x86, CHR 0x8A, CHR 0xE6, CHR 0x88, CHR 0x90,
      CHR 0xE5, CHR 0x8A, CHR 0x9F, CHR 0xEF, CHR 0xBC, CHR 0x81]),
     (''screen.register.retry_hint'', [CHR 0x0A, CHR 0x0A] @ ''  '' @ [CHR 0xE8, CHR 0xAB,
      CHR 0x8B, CHR 0xE9, CHR 0x87, CHR 0x8D, CHR 0xE6, CHR 0x96, CHR 0xB0, CHR 0xE9, CHR 0x80,
      CHR 0xA3, CHR 0xE7, CHR 0xB7, CHR 0x9A, CHR 0xEF, CHR 0xBC, CHR 0x9A, CHR 0x0A, CHR 0x0A] @
      ''    ''),
     (''screen.register.done_hint'', [CHR 0x0A, CHR 0x0A] @ ''  '' @ [CHR 0xE6, CHR 0x8C, CHR 0x89
      , CHR 0xE4, CHR 0xBB, CHR 0xBB, CHR 0xE6, CHR 0x84, CHR 0x8F, CHR 0xE9, CHR 0x8D, CHR 0xB5,
      CHR 0xE7, CHR 0xB5, CHR 0x90, CHR 0xE6, CHR 0x9D, CHR 0x9F, CHR 0xE3, CHR 0x80, CHR 0x82,
      CHR 0x0A]),
     (''screen.register.field_user_id'', [CHR 0xE5, CHR 0xB8, CHR 0xB3, CHR 0xE8, CHR 0x99,
      CHR 0x9F] @ '' user id (3-12, '' @ [CHR 0xE5, CHR 0xAD, CHR 0x97, CHR 0xE6, CHR 0xAF,
      CHR 0x8D, CHR 0xE9, CHR 0x96, CHR 0x8B, CHR 0xE9, CHR 0xA0, CHR 0xAD] @ '', '' @ [CHR 0xE8,
      CHR 0x8B, CHR 0xB1, CHR 0xE6, CHR 0x95, CHR 0xB8] @ ''+'' @ [CHR 0xE5, CHR 0xBA, CHR 0x95,
      CHR 0xE7, CHR 0xB7, CHR 0x9A] @ '')''),
     (''screen.register.field_password'', [CHR 0xE5, CHR 0xAF, CHR 0x86, CHR 0xE7, CHR 0xA2,
      CHR 0xBC] @ '' password ('' @ [CHR 0xE2, CHR 0x89, CHR 0xA5] @ '' 6)''),
     (''screen.register.field_nickname'', [CHR 0xE6, CHR 0x9A, CHR 0xB1, CHR 0xE7, CHR 0xA8,
      CHR 0xB1] @ '' nickname''),
     (''screen.register.nickname_placeholder'', [CHR 0xE6, CHR 0x84, CHR 0x9B, CHR 0xE9, CHR 0xBA
      , CHR 0x97, CHR 0xE7, CHR 0xB5, CHR 0xB2]),
     (''screen.password_change.title'', ''  === '' @ [CHR 0xE4, CHR 0xBF, CHR 0xAE, CHR 0xE6,
      CHR 0x94, CHR 0xB9, CHR 0xE5, CHR 0xAF, CHR 0x86, CHR 0xE7, CHR 0xA2, CHR 0xBC] @
      '' Change password ===''),
     (''screen.password_change.title_must'', ''  === '' @ [CHR 0xE4, CHR 0xBF, CHR 0xAE, CHR 0xE6
      , CHR 0x94, CHR 0xB9, CHR 0xE5, CHR 0xAF, CHR 0x86, CHR 0xE7, CHR 0xA2, CHR 0xBC] @ '' (''
      @ [CHR 0xE9, CHR 0xA6, CHR 0x96, CHR 0xE6, CHR 0xAC, CHR 0xA1, CHR 0xE7, CHR 0x99, CHR 0xBB
      , CHR 0xE5, CHR 0x85, CHR 0xA5, CHR 0xE5, CHR 0xBF, CHR 0x85, CHR 0xE9, CHR 0xA0, CHR 0x88,
      CHR 0xE4, CHR 0xBF, CHR 0xAE, CHR 0xE6, CHR 0x94, CHR 0xB9] @ '') ===''),
     (''screen.password_change.placeholder_current'', [CHR 0xE7, CHR 0x9B, CHR 0xAE, CHR 0xE5,
      CHR 0x89, CHR 0x8D, CHR 0xE5, CHR 0xAF, CHR 0x86, CHR 0xE7, CHR 0xA2, CHR 0xBC]),
     (''screen.password_change.placeholder_new'', [CHR 0xE6, CHR 0x96, CHR 0xB0, CHR 0xE5,
      CHR 0xAF, CHR 0x86, CHR 0xE7, CHR 0xA2, CHR 0xBC] @ '' ('' @ [CHR 0xE2, CHR 0x89, CHR 0xA5]
      @ '' 6)''),
     (''screen.password_change.placeholder_confirm'', [CHR 0xE5, CHR 0x86, CHR 0x8D, CHR 0xE6,
      CHR 0xAC, CHR 0xA1, CHR 0xE8, CHR 0xBC, CHR 0xB8, CHR 0xE5, CHR 0x85, CHR 0xA5, CHR 0xE6,
      CHR 0x96, CHR 0xB0, CHR 0xE5, CHR 0xAF, CHR 0x86, CHR 0xE7, CHR 0xA2, CHR 0xBC]),
     (''screen.password_change.label_current'', [CHR 0xE7, CHR 0x9B, CHR 0xAE, CHR 0xE5, CHR 0x89
      , CHR 0x8D, CHR 0xE5, CHR 0xAF, CHR 0x86, CHR 0xE7, CHR 0xA2, CHR 0xBC] @ '' current''),
     (''screen.password_change.label_new'', [CHR 0xE6, CHR 0x96, CHR 0xB0, CHR 0xE5, CHR 0xAF,
      CHR 0x86, CHR 0xE7, CHR 0xA2, CHR 0xBC] @ '' new ('' @ [CHR 0xE2, CHR 0x89, CHR 0xA5] @
      '' 6)''),
     (''screen.password_change.label_confirm'', [CHR 0xE5, CHR 0x86, CHR 0x8D, CHR 0xE6, CHR 0xAC
      , CHR 0xA1, CHR 0xE8, CHR 0xBC, CHR 0xB8, CHR 0xE5, CHR 0x85, CHR 0xA5] @ '' confirm''),
     (''screen.password_change.err_wrong'', [CHR 0xE7, CHR 0x9B, CHR 0xAE, CHR 0xE5, CHR 0x89,
      CHR 0x8D, CHR 0xE5, CHR 0xAF, CHR 0x86, CHR 0xE7, CHR 0xA2, CHR 0xBC, CHR 0xE9, CHR 0x8C,
      CHR 0xAF, CHR 0xE8, CHR 0xAA, CHR 0xA4]),
     (''screen.password_change.err_mismatch'', [CHR 0xE6, CHR 0x96, CHR 0xB0, CHR 0xE5, CHR 0xAF,
      CHR 0x86, CHR 0xE7, CHR 0xA2, CHR 0xBC, CHR 0xE8, CHR 0x88, CHR 0x87, CHR 0xE7, CHR 0xA2,
      CHR 0xBA, CHR 0xE8, CHR 0xAA, CHR 0x8D, CHR 0xE4, CHR 0xB8, CHR 0x8D, CHR 0xE4, CHR 0xB8,
      CHR 0x80, CHR 0xE8, CHR 0x87, CHR 0xB4]),
     (''screen.password_change.err_same'', [CHR 0xE6, CHR 0x96, CHR 0xB0, CHR 0xE5, CHR 0xAF,
      CHR 0x86, CHR 0xE7, CHR 0xA2, CHR 0xBC, CHR 0xE4, CHR 0xB8, CHR 0x8D, CHR 0xE5, CHR 0x8F,
      CHR 0xAF, CHR 0xE8, CHR 0x88, CHR 0x87, CHR 0xE7, CHR 0x9B, CHR 0xAE, CHR 0xE5, CHR 0x89,
      CHR 0x8D, CHR 0xE5, CHR 0xAF, CHR 0x86, CHR 0xE7, CHR 0xA2, CHR 0xBC, CHR 0xE7, CHR 0x9B,
      CHR 0xB8, CHR 0xE5, CHR 0x90, CHR 0x8C]),
     (''screen.password_change.ok_to_menu'', [CHR 0xE2, CHR 0x9C, CHR 0x93] @ '' '' @ [CHR 0xE5,
      CHR 0xB7, CHR 0xB2, CHR 0xE6, CHR 0x9B, CHR 0xB4, CHR 0xE6, CHR 0x96, CHR 0xB0, CHR 0xEF,
      CHR 0xBC, CHR 0x8C, CHR 0xE5, CHR 0xB0, CHR 0x87, CHR 0xE9, CHR 0x80, CHR 0xB2, CHR 0xE5,
      CHR 0x85, CHR 0xA5, CHR 0xE4, CHR 0xB8, CHR 0xBB, CHR 0xE9, CHR 0x81, CHR 0xB8, CHR 0xE5,
      CHR 0x96, CHR 0xAE, CHR 0xE2, CHR 0x80, CHR 0xA6]),
     (''screen.password_change.ok'', [CHR 0xE2, CHR 0x9C, CHR 0x93] @ '' '' @ [CHR 0xE5, CHR 0xB7
      , CHR 0xB2, CHR 0xE6, CHR 0x9B, CHR 0xB4, CHR 0xE6, CHR 0x96, CHR 0xB0]),
     (''screen.bio_edit.title'', '' '' @ [CHR 0xE4, CHR 0xBF, CHR 0xAE, CHR 0xE6, CHR 0x94,
      CHR 0xB9] @ '' Bio Edit bio ''),
     (''screen.bio_edit.placeholder'', [CHR 0xE4, CHR 0xBD, CHR 0xA0, CHR 0xE7, CHR 0x9A,
      CHR 0x84] @ '' bio'' @ [CHR 0xE2, CHR 0x80, CHR 0xA6, CHR 0xEF, CHR 0xBC, CHR 0x88, CHR 0xE6
      , CHR 0x9C, CHR 0x80, CHR 0xE5, CHR 0xA4, CHR 0x9A] @ '' 1024 '' @ [CHR 0xE5, CHR 0xAD,
      CHR 0x97, CHR 0xE5, CHR 0x85, CHR 0x83, CHR 0xEF, CHR 0xBC, CHR 0x8C, CHR 0xE5, CHR 0x8F,
      CHR 0xAF, CHR 0xE6, CHR 0x8F, CHR 0x9B, CHR 0xE8, CHR 0xA1, CHR 0x8C, CHR 0xEF, CHR 0xBC,
      CHR 0x89]),
     (''screen.board_banner_edit.title'', '' '' @ [CHR 0xE7, CHR 0xB7, CHR 0xA8, CHR 0xE8,
      CHR 0xBC, CHR 0xAF, CHR 0xE7, CHR 0x9C, CHR 0x8B, CHR 0xE6, CHR 0x9D, CHR 0xBF] @
      '' banner '' @ [CHR 0xC2, CHR 0xB7] @ '' Edit Banner ''),
     (''screen.board_banner_edit.placeholder'', [CHR 0xE8, CHR 0xB2, CHR 0xBC, CHR 0xE4, CHR 0xB8
      , CHR 0x8A] @ '' ANSI / ASCII art'' @ [CHR 0xE2, CHR 0x80, CHR 0xA6] @ '' ('' @ [CHR 0xE7,
      CHR 0xA9, CHR 0xBA, CHR 0xE5, CHR 0xAD, CHR 0x97, CHR 0xE4, CHR 0xB8, CHR 0xB2, CHR 0xE6,
      CHR 0x9C, CHR 0x83, CHR 0xE6, CHR 0xB8, CHR 0x85, CHR 0xE6, CHR 0x8E, CHR 0x89] @
      '' banner)''),
     (''screen.board_banner_edit.help_line'', ''Ctrl+S '' @ [CHR 0xE5, CHR 0x84, CHR 0xB2,
      CHR 0xE5, CHR 0xAD, CHR 0x98] @ '' '' @ [CHR 0xC2, CHR 0xB7] @ '' Esc '' @ [CHR 0xE5,
      CHR 0x8F, CHR 0x96, CHR 0xE6, CHR 0xB6, CHR 0x88] @ '' '' @ [CHR 0xC2, CHR 0xB7] @ '' '' @
      [CHR 0xE7, CHR 0xA9, CHR 0xBA] @ '' body '' @ [CHR 0xE7, CHR 0xAD, CHR 0x89, CHR 0xE6,
      CHR 0x96, CHR 0xBC, CHR 0xE6, CHR 0xB8, CHR 0x85, CHR 0xE6, CHR 0x8E, CHR 0x89] @
      '' banner''),
     (''screen.board_splash.title_named'', '' '' @ [CHR 0xE7, CHR 0x9C, CHR 0x8B, CHR 0xE6,
      CHR 0x9D, CHR 0xBF] @ '' banner '' @ [CHR 0xC2, CHR 0xB7] @ '' %s ''),
     (''screen.board_splash.title_bare'', '' '' @ [CHR 0xE7, CHR 0x9C, CHR 0x8B, CHR 0xE6,
      CHR 0x9D, CHR 0xBF] @ '' banner '')]"

definition en_accounts :: "(string \<times> string) list" where
  "en_accounts =
    [(''screen.register.title'', ''  === Register new account ===''),
     (''screen.register.success'', [CHR 0x0A] @ ''  '' @ [CHR 0xE2, CHR 0x9C, CHR 0x93] @
      '' Registered successfully!''),
     (''screen.register.retry_hint'', [CHR 0x0A, CHR 0x0A] @ ''  Reconnect with:'' @ [CHR 0x0A,
      CHR 0x0A] @ ''    ''),
     (''screen.register.done_hint'', [CHR 0x0A, CHR 0x0A] @ ''  Press any key to disconnect.'' @
      [CHR 0x0A]),
     (''screen.register.field_user_id'', ''user id (3-12, letter-leading, alnum + underscore)''),
     (''screen.register.field_password'', ''password ('' @ [CHR 0xE2, CHR 0x89, CHR 0xA5] @
      '' 6)''),
     (''screen.register.field_nickname'', ''nickname''),
     (''screen.register.nickname_placeholder'', ''Alice''),
     (''screen.password_change.title'', ''  === Change password ===''),
     (''screen.password_change.title_must'', ''  === Change password (required on first login) ===''),
     (''screen.password_change.placeholder_current'', ''current password''),
     (''screen.password_change.placeholder_new'', ''new password ('' @ [CHR 0xE2, CHR 0x89,
      CHR 0xA5] @ '' 6)''),
     (''screen.password_change.placeholder_confirm'', ''new password (again)''),
     (''screen.password_change.label_current'', ''current''),
     (''screen.password_change.label_new'', ''new ('' @ [CHR 0xE2, CHR 0x89, CHR 0xA5] @ '' 6)''),
     (''screen.password_change.label_confirm'', ''confirm''),
     (''screen.password_change.err_wrong'', ''current password is wrong''),
     (''screen.password_change.err_mismatch'', ''new password and confirmation do not match''),
     (''screen.password_change.err_same'', ''new password must differ from the current one''),
     (''screen.password_change.ok_to_menu'', [CHR 0xE2, CHR 0x9C, CHR 0x93] @ '' updated '' @
      [CHR 0xE2, CHR 0x80, CHR 0x94] @ '' entering main menu'' @ [CHR 0xE2, CHR 0x80, CHR 0xA6]),
     (''screen.password_change.ok'', [CHR 0xE2, CHR 0x9C, CHR 0x93] @ '' updated''),
     (''screen.bio_edit.title'', '' Edit bio ''),
     (''screen.bio_edit.placeholder'', ''your bio'' @ [CHR 0xE2, CHR 0x80, CHR 0xA6] @ '' ('' @
      [CHR 0xE2, CHR 0x89, CHR 0xA4] @ '' 1024 chars; newlines OK)''),
     (''screen.board_banner_edit.title'', '' Edit board banner ''),
     (''screen.board_banner_edit.placeholder'', ''paste ANSI / ASCII art'' @ [CHR 0xE2, CHR 0x80,
      CHR 0xA6] @ '' (empty body clears the banner)''),
     (''screen.board_banner_edit.help_line'', ''Ctrl+S save '' @ [CHR 0xC2, CHR 0xB7] @
      '' Esc cancel '' @ [CHR 0xC2, CHR 0xB7] @ '' empty body clears the banner''),
     (''screen.board_splash.title_named'', '' Banner '' @ [CHR 0xC2, CHR 0xB7] @ '' %s ''),
     (''screen.board_splash.title_bare'', '' Banner '')]"

section \<open>mail wb\<close>

definition keys_mail_wb :: "string list" where
  "keys_mail_wb =
    [''screen.mail.inbox_title'',
     ''screen.mail.thread_title'',
     ''screen.mail.compose_title_new'',
     ''screen.mail.compose_title_reply'',
     ''screen.mail.wrote_suffix'',
     ''screen.wb.inbox_title'',
     ''screen.wb.compose_title'',
     ''screen.wb.thread_title'']"

definition zh_mail_wb :: "(string \<times> string) list" where
  "zh_mail_wb =
    [(''screen.mail.inbox_title'', '' '' @ [CHR 0xE4, CHR 0xBF, CHR 0xA1, CHR 0xE7, CHR 0xAE,
      CHR 0xB1] @ '' Mail ''),
     (''screen.mail.thread_title'', '' '' @ [CHR 0xE4, CHR 0xBF, CHR 0xA1, CHR 0xE4, CHR 0xBB,
      CHR 0xB6] @ '' Thread #%d ''),
     (''screen.mail.compose_title_new'', '' '' @ [CHR 0xE5, CHR 0xAF, CHR 0xAB, CHR 0xE4, CHR 0xBF
      , CHR 0xA1] @ '' New Mail ''),
     (''screen.mail.compose_title_reply'', '' '' @ [CHR 0xE5, CHR 0x9B, CHR 0x9E, CHR 0xE4,
      CHR 0xBF, CHR 0xA1] @ '' Reply ''),
     (''screen.mail.wrote_suffix'', [CHR 0xE5, CHR 0xAF, CHR 0xAB, CHR 0xE9, CHR 0x81, CHR 0x93]),
     (''screen.wb.inbox_title'', '' '' @ [CHR 0xE6, CHR 0xB0, CHR 0xB4, CHR 0xE7, CHR 0x90,
      CHR 0x83] @ '' Water Balloons ''),
     (''screen.wb.compose_title'', '' '' @ [CHR 0xE4, CHR 0xB8, CHR 0x9F, CHR 0xE6, CHR 0xB0,
      CHR 0xB4, CHR 0xE7, CHR 0x90, CHR 0x83] @ '' Send Water Balloon ''),
     (''screen.wb.thread_title'', '' '' @ [CHR 0xE5, CHR 0xB0, CHR 0x8D, CHR 0xE8, CHR 0xA9,
      CHR 0xB1] @ '' with %s '')]"

definition en_mail_wb :: "(string \<times> string) list" where
  "en_mail_wb =
    [(''screen.mail.inbox_title'', '' Mail ''),
     (''screen.mail.thread_title'', '' Thread #%d ''),
     (''screen.mail.compose_title_new'', '' New Mail ''),
     (''screen.mail.compose_title_reply'', '' Reply ''),
     (''screen.mail.wrote_suffix'', ''wrote''),
     (''screen.wb.inbox_title'', '' Water Balloons ''),
     (''screen.wb.compose_title'', '' Send Water Balloon ''),
     (''screen.wb.thread_title'', '' Chat with %s '')]"

section \<open>notify settings\<close>

definition keys_notify_settings :: "string list" where
  "keys_notify_settings =
    [''screen.notify_settings.title'',
     ''screen.notify_settings.events_header'',
     ''screen.notify_settings.targets_header'',
     ''screen.notify_settings.no_targets'',
     ''screen.notify_settings.add_target'',
     ''screen.notify_settings.label.on_push'',
     ''screen.notify_settings.label.on_wb'',
     ''screen.notify_settings.label.on_mail'',
     ''screen.notify_settings.label.on_reply'',
     ''screen.notify_settings.label.only_when_offline'',
     ''screen.notify_settings.hint.on_push'',
     ''screen.notify_settings.hint.on_wb'',
     ''screen.notify_settings.hint.on_mail'',
     ''screen.notify_settings.hint.on_reply'',
     ''screen.notify_settings.hint.offline'',
     ''screen.notify_settings.edit_label_placeholder'',
     ''screen.notify_settings.edit_url_placeholder'',
     ''screen.notify_settings.flash_prefs_saved'',
     ''screen.notify_settings.flash_enabled'',
     ''screen.notify_settings.flash_disabled'',
     ''screen.notify_settings.flash_deleted'',
     ''screen.notify_settings.flash_added'',
     ''screen.notify_settings.flash_updated'',
     ''screen.notify_settings.help_line'']"

definition zh_notify_settings :: "(string \<times> string) list" where
  "zh_notify_settings =
    [(''screen.notify_settings.title'', '' '' @ [CHR 0xE9, CHR 0x80, CHR 0x9A, CHR 0xE7, CHR 0x9F
      , CHR 0xA5, CHR 0xE8, CHR 0xA8, CHR 0xAD, CHR 0xE5, CHR 0xAE, CHR 0x9A] @
      '' Notification settings ''),
     (''screen.notify_settings.events_header'', [CHR 0xE4, CHR 0xBA, CHR 0x8B, CHR 0xE4, CHR 0xBB
      , CHR 0xB6] @ '' Events''),
     (''screen.notify_settings.targets_header'', [CHR 0xE9, CHR 0x80, CHR 0x9A, CHR 0xE7, CHR 0x9F
      , CHR 0xA5, CHR 0xE7, CHR 0x9B, CHR 0xAE, CHR 0xE6, CHR 0xA8, CHR 0x99] @
      '' Webhook targets''),
     (''screen.notify_settings.no_targets'', ''  ('' @ [CHR 0xE5, CHR 0xB0, CHR 0x9A, CHR 0xE6,
      CHR 0x9C, CHR 0xAA, CHR 0xE8, CHR 0xA8, CHR 0xAD, CHR 0xE5, CHR 0xAE, CHR 0x9A] @
      '' target '' @ [CHR 0xE2, CHR 0x80, CHR 0x94] @ '' '' @ [CHR 0xE6, CHR 0x8C, CHR 0x89] @
      '' a '' @ [CHR 0xE6, CHR 0x96, CHR 0xB0, CHR 0xE5, CHR 0xA2, CHR 0x9E] @ '')''),
     (''screen.notify_settings.add_target'', ''  + '' @ [CHR 0xE6, CHR 0x96, CHR 0xB0, CHR 0xE5,
      CHR 0xA2, CHR 0x9E] @ '' target Add new target''),
     (''screen.notify_settings.label.on_push'', [CHR 0xE6, CHR 0x8E, CHR 0xA8] @ ''/'' @ [CHR 0xE5
      , CHR 0x99, CHR 0x93] @ '' '' @ [CHR 0xE6, CHR 0x88, CHR 0x91, CHR 0xE7, CHR 0x9A, CHR 0x84
      , CHR 0xE6, CHR 0x96, CHR 0x87, CHR 0xE7, CHR 0xAB, CHR 0xA0] @ '' (push)''),
     (''screen.notify_settings.label.on_wb'', [CHR 0xE6, CHR 0x94, CHR 0xB6, CHR 0xE5, CHR 0x88,
      CHR 0xB0, CHR 0xE6, CHR 0xB0, CHR 0xB4, CHR 0xE7, CHR 0x90, CHR 0x83] @ '' (wb)''),
     (''screen.notify_settings.label.on_mail'', [CHR 0xE6, CHR 0x94, CHR 0xB6, CHR 0xE5, CHR 0x88
      , CHR 0xB0, CHR 0xE7, CHR 0xAB, CHR 0x99, CHR 0xE5, CHR 0x85, CHR 0xA7, CHR 0xE4, CHR 0xBF,
      CHR 0xA1] @ '' (mail)''),
     (''screen.notify_settings.label.on_reply'', [CHR 0xE6, CHR 0x9C, CHR 0x89, CHR 0xE4, CHR 0xBA
      , CHR 0xBA, CHR 0xE5, CHR 0x9B, CHR 0x9E, CHR 0xE6, CHR 0x96, CHR 0x87] @ '' Re: (reply)''),
     (''screen.notify_settings.label.only_when_offline'', [CHR 0xE5, CHR 0x83, CHR 0x85, CHR 0xE5
      , CHR 0x9C, CHR 0xA8, CHR 0xE9, CHR 0x9B, CHR 0xA2, CHR 0xE7, CHR 0xB7, CHR 0x9A, CHR 0xE6,
      CHR 0x99, CHR 0x82, CHR 0xE9, CHR 0x80, CHR 0x9A, CHR 0xE7, CHR 0x9F, CHR 0xA5] @
      '' only-when-offline''),
     (''screen.notify_settings.hint.on_push'', [CHR 0xE6, CHR 0x9C, CHR 0x89, CHR 0xE4, CHR 0xBA,
      CHR 0xBA, CHR 0xE6, CHR 0x8E, CHR 0xA8] @ ''/'' @ [CHR 0xE5, CHR 0x99, CHR 0x93, CHR 0xE6,
      CHR 0x88, CHR 0x91, CHR 0xE7, CHR 0x9A, CHR 0x84, CHR 0xE6, CHR 0x96, CHR 0x87, CHR 0xE7,
      CHR 0xAB, CHR 0xA0]),
     (''screen.notify_settings.hint.on_wb'', [CHR 0xE7, CHR 0xA7, CHR 0x81, CHR 0xE8, CHR 0xA8,
      CHR 0x8A] @ '' DM''),
     (''screen.notify_settings.hint.on_mail'', [CHR 0xE6, CHR 0x8C, CHR 0x81, CHR 0xE4, CHR 0xB9,
      CHR 0x85, CHR 0xE5, CHR 0x8C, CHR 0x96, CHR 0xE4, CHR 0xBF, CHR 0xA1, CHR 0xE4, CHR 0xBB,
      CHR 0xB6]),
     (''screen.notify_settings.hint.on_reply'', [CHR 0xE6, CHR 0x9C, CHR 0x89, CHR 0xE4, CHR 0xBA
      , CHR 0xBA, CHR 0xE5, CHR 0x9B, CHR 0x9E, CHR 0xE4, CHR 0xBA, CHR 0x86, CHR 0xE6, CHR 0x88,
      CHR 0x91, CHR 0xE7, CHR 0x9A, CHR 0x84, CHR 0xE6, CHR 0x96, CHR 0x87, CHR 0xE7, CHR 0xAB,
      CHR 0xA0]),
     (''screen.notify_settings.hint.offline'', [CHR 0xE6, CHR 0x9C, CHR 0x89] @ '' live session ''
      @ [CHR 0xE6, CHR 0x99, CHR 0x82, CHR 0xE4, CHR 0xB8, CHR 0x8D, CHR 0xE9, CHR 0x80, CHR 0x81
      , CHR 0xE5, CHR 0x87, CHR 0xBA]),
     (''screen.notify_settings.edit_label_placeholder'', ''label ('' @ [CHR 0xE4, CHR 0xBB,
      CHR 0xBB, CHR 0xE6, CHR 0x84, CHR 0x8F, CHR 0xE4, CHR 0xBE, CHR 0xBF, CHR 0xE6, CHR 0x96,
      CHR 0xBC, CHR 0xE8, CHR 0xBE, CHR 0xA8, CHR 0xE8, CHR 0xAD, CHR 0x98, CHR 0xE7, CHR 0x9A,
      CHR 0x84, CHR 0xE5, CHR 0x90, CHR 0x8D, CHR 0xE7, CHR 0xA8, CHR 0xB1] @ '')''),
     (''screen.notify_settings.edit_url_placeholder'', ''Discord webhook URL / https://ntfy.sh/<topic> / ''
      @ [CHR 0xE4, CHR 0xBB, CHR 0xBB, CHR 0xE4, CHR 0xBD, CHR 0x95] @ '' HTTP(S) '' @ [CHR 0xE7,
      CHR 0xAB, CHR 0xAF, CHR 0xE9, CHR 0xBB, CHR 0x9E]),
     (''screen.notify_settings.flash_prefs_saved'', [CHR 0xE2, CHR 0x9C, CHR 0x93] @ '' '' @
      [CHR 0xE5, CHR 0xB7, CHR 0xB2, CHR 0xE5, CHR 0x84, CHR 0xB2, CHR 0xE5, CHR 0xAD, CHR 0x98,
      CHR 0xE4, CHR 0xBA, CHR 0x8B, CHR 0xE4, CHR 0xBB, CHR 0xB6, CHR 0xE5, CHR 0x81, CHR 0x8F,
      CHR 0xE5, CHR 0xA5, CHR 0xBD]),
     (''screen.notify_settings.flash_enabled'', [CHR 0xE2, CHR 0x9C, CHR 0x93] @ '' '' @ [CHR 0xE5
      , CHR 0xB7, CHR 0xB2, CHR 0xE5, CHR 0x95, CHR 0x9F, CHR 0xE7, CHR 0x94, CHR 0xA8] @
      '' target #%d''),
     (''screen.notify_settings.flash_disabled'', [CHR 0xE2, CHR 0x9C, CHR 0x93] @ '' '' @
      [CHR 0xE5, CHR 0xB7, CHR 0xB2, CHR 0xE5, CHR 0x81, CHR 0x9C, CHR 0xE7, CHR 0x94, CHR 0xA8]
      @ '' target #%d''),
     (''screen.notify_settings.flash_deleted'', [CHR 0xE2, CHR 0x9C, CHR 0x93] @ '' '' @ [CHR 0xE5
      , CHR 0xB7, CHR 0xB2, CHR 0xE5, CHR 0x88, CHR 0xAA, CHR 0xE9, CHR 0x99, CHR 0xA4] @
      '' target''),
     (''screen.notify_settings.flash_added'', [CHR 0xE2, CHR 0x9C, CHR 0x93] @ '' '' @ [CHR 0xE5,
      CHR 0xB7, CHR 0xB2, CHR 0xE6, CHR 0x96, CHR 0xB0, CHR 0xE5, CHR 0xA2, CHR 0x9E] @
      '' target #%d''),
     (''screen.notify_settings.flash_updated'', [CHR 0xE2, CHR 0x9C, CHR 0x93] @ '' '' @ [CHR 0xE5
      , CHR 0xB7, CHR 0xB2, CHR 0xE6, CHR 0x9B, CHR 0xB4, CHR 0xE6, CHR 0x96, CHR 0xB0] @
      '' target #%d''),
     (''screen.notify_settings.help_line'', ''j/k move '' @ [CHR 0xC2, CHR 0xB7] @
      '' Space toggle/select '' @ [CHR 0xC2, CHR 0xB7] @ '' Ctrl+S '' @ [CHR 0xE5, CHR 0x84,
      CHR 0xB2, CHR 0xE5, CHR 0xAD, CHR 0x98] @ '' '' @ [CHR 0xC2, CHR 0xB7] @ '' a '' @ [CHR 0xE6
      , CHR 0x96, CHR 0xB0, CHR 0xE5, CHR 0xA2, CHR 0x9E] @ '' '' @ [CHR 0xC2, CHR 0xB7] @ '' e ''
      @ [CHR 0xE7, CHR 0xB7, CHR 0xA8, CHR 0xE8, CHR 0xBC, CHR 0xAF] @ '' '' @ [CHR 0xC2,
      CHR 0xB7] @ '' t '' @ [CHR 0xE5, CHR 0x95, CHR 0x9F, CHR 0xE5, CHR 0x81, CHR 0x9C] @ '' ''
      @ [CHR 0xC2, CHR 0xB7] @ '' T '' @ [CHR 0xE6, CHR 0xB8, CHR 0xAC, CHR 0xE8, CHR 0xA9,
      CHR 0xA6] @ '' '' @ [CHR 0xC2, CHR 0xB7] @ '' d '' @ [CHR 0xE5, CHR 0x88, CHR 0xAA, CHR 0xE9
      , CHR 0x99, CHR 0xA4] @ '' '' @ [CHR 0xC2, CHR 0xB7] @ '' Esc '' @ [CHR 0xE8, CHR 0xBF,
      CHR 0x94, CHR 0xE5, CHR 0x9B, CHR 0x9E])]"

definition en_notify_settings :: "(string \<times> string) list" where
  "en_notify_settings =
    [(''screen.notify_settings.title'', '' Notification settings ''),
     (''screen.notify_settings.events_header'', ''Events''),
     (''screen.notify_settings.targets_header'', ''Webhook targets''),
     (''screen.notify_settings.no_targets'', ''  (no targets yet '' @ [CHR 0xE2, CHR 0x80,
      CHR 0x94] @ '' press a to add)''),
     (''screen.notify_settings.add_target'', ''  + Add new target''),
     (''screen.notify_settings.label.on_push'', [CHR 0xF0, CHR 0x9F, CHR 0x91, CHR 0x8D] @ ''/''
      @ [CHR 0xF0, CHR 0x9F, CHR 0x91, CHR 0x8E] @ '' on my article (push)''),
     (''screen.notify_settings.label.on_wb'', ''received water balloon (wb)''),
     (''screen.notify_settings.label.on_mail'', ''received mail (mail)''),
     (''screen.notify_settings.label.on_reply'', ''someone replied Re: (reply)''),
     (''screen.notify_settings.label.only_when_offline'', ''only when offline''),
     (''screen.notify_settings.hint.on_push'', ''someone reacted to my article''),
     (''screen.notify_settings.hint.on_wb'', ''private message''),
     (''screen.notify_settings.hint.on_mail'', ''persistent threaded mail''),
     (''screen.notify_settings.hint.on_reply'', ''someone posted a Re: reply on my article''),
     (''screen.notify_settings.hint.offline'', ''skip dispatch when I have a live session''),
     (''screen.notify_settings.edit_label_placeholder'', ''label (any easy-to-recognise name)''),
     (''screen.notify_settings.edit_url_placeholder'', ''Discord webhook URL / https://ntfy.sh/<topic> / any HTTP(S) endpoint''),
     (''screen.notify_settings.flash_prefs_saved'', [CHR 0xE2, CHR 0x9C, CHR 0x93] @
      '' event preferences saved''),
     (''screen.notify_settings.flash_enabled'', [CHR 0xE2, CHR 0x9C, CHR 0x93] @
      '' enabled target #%d''),
     (''screen.notify_settings.flash_disabled'', [CHR 0xE2, CHR 0x9C, CHR 0x93] @
      '' disabled target #%d''),
     (''screen.notify_settings.flash_deleted'', [CHR 0xE2, CHR 0x9C, CHR 0x93] @
      '' deleted target''),
     (''screen.notify_settings.flash_added'', [CHR 0xE2, CHR 0x9C, CHR 0x93] @
      '' added target #%d''),
     (''screen.notify_settings.flash_updated'', [CHR 0xE2, CHR 0x9C, CHR 0x93] @
      '' updated target #%d''),
     (''screen.notify_settings.help_line'', ''j/k move '' @ [CHR 0xC2, CHR 0xB7] @
      '' Space toggle/select '' @ [CHR 0xC2, CHR 0xB7] @ '' Ctrl+S save prefs '' @ [CHR 0xC2,
      CHR 0xB7] @ '' a add '' @ [CHR 0xC2, CHR 0xB7] @ '' e edit '' @ [CHR 0xC2, CHR 0xB7] @
      '' t enable/disable '' @ [CHR 0xC2, CHR 0xB7] @ '' T test '' @ [CHR 0xC2, CHR 0xB7] @
      '' d delete '' @ [CHR 0xC2, CHR 0xB7] @ '' Esc back'')]"

section \<open>admin\<close>

definition keys_admin :: "string list" where
  "keys_admin =
    [''screen.admin_users.title'',
     ''screen.admin_users.toast_already'',
     ''screen.admin_users.toast_no_last_admin'']"

definition zh_admin :: "(string \<times> string) list" where
  "zh_admin =
    [(''screen.admin_users.title'', '' '' @ [CHR 0xE4, CHR 0xBD, CHR 0xBF, CHR 0xE7, CHR 0x94,
      CHR 0xA8, CHR 0xE8, CHR 0x80, CHR 0x85, CHR 0xE7, CHR 0xAE, CHR 0xA1, CHR 0xE7, CHR 0x90,
      CHR 0x86] @ '' Admin Users ''),
     (''screen.admin_users.toast_already'', ''%s '' @ [CHR 0xE5, CHR 0xB7, CHR 0xB2, CHR 0xE6,
      CHR 0x98, CHR 0xAF] @ '' %s''),
     (''screen.admin_users.toast_no_last_admin'', [CHR 0xE7, CHR 0x84, CHR 0xA1, CHR 0xE6,
      CHR 0xB3, CHR 0x95, CHR 0xE8, CHR 0xA7, CHR 0xA3, CHR 0xE9, CHR 0x99, CHR 0xA4, CHR 0xE6,
      CHR 0x9C, CHR 0x80, CHR 0xE5, CHR 0xBE, CHR 0x8C, CHR 0xE4, CHR 0xB8, CHR 0x80, CHR 0xE5,
      CHR 0x90, CHR 0x8D, CHR 0xE7, CHR 0xAE, CHR 0xA1, CHR 0xE7, CHR 0x90, CHR 0x86, CHR 0xE5,
      CHR 0x93, CHR 0xA1] @ '' (cannot demote the last admin)'')]"

definition en_admin :: "(string \<times> string) list" where
  "en_admin =
    [(''screen.admin_users.title'', '' Admin Users ''),
     (''screen.admin_users.toast_already'', ''%s is already %s''),
     (''screen.admin_users.toast_no_last_admin'', ''cannot demote the last admin'')]"

section \<open>help\<close>

definition keys_help :: "string list" where
  "keys_help =
    [''help.overlay.title'',
     ''help.global.wb_inbox'']"

definition zh_help :: "(string \<times> string) list" where
  "zh_help =
    [(''help.overlay.title'', '' '' @ [CHR 0xE9, CHR 0x8D, CHR 0xB5, CHR 0xE7, CHR 0x9B, CHR 0xA4
      , CHR 0xE6, CHR 0x8D, CHR 0xB7, CHR 0xE5, CHR 0xBE, CHR 0x91, CHR 0xE8, CHR 0xAA, CHR 0xAA,
      CHR 0xE6, CHR 0x98, CHR 0x8E] @ '' Help ''),
     (''help.global.wb_inbox'', ''open '' @ [CHR 0xE6, CHR 0xB0, CHR 0xB4, CHR 0xE7, CHR 0x90,
      CHR 0x83] @ '' inbox (logged-in only)'')]"

definition en_help :: "(string \<times> string) list" where
  "en_help =
    [(''help.overlay.title'', '' Keyboard shortcuts ''),
     (''help.global.wb_inbox'', ''open Water Balloon inbox (logged-in only)'')]"

section \<open>errors\<close>

definition keys_errors :: "string list" where
  "keys_errors =
    [''error.guest_read_only'',
     ''error.admin_only'',
     ''error.permission_denied'',
     ''error.comments_locked'',
     ''error.comments_arrows_only'']"

definition zh_errors :: "(string \<times> string) list" where
  "zh_errors =
    [(''error.guest_read_only'', ''guest '' @ [CHR 0xE7, CHR 0x82, CHR 0xBA, CHR 0xE5, CHR 0x94,
      CHR 0xAF, CHR 0xE8, CHR 0xAE, CHR 0x80, CHR 0xE5, CHR 0xB8, CHR 0xB3, CHR 0xE8, CHR 0x99,
      CHR 0x9F] @ '' (read-only)''),
     (''error.admin_only'', [CHR 0xE7, CHR 0xAE, CHR 0xA1, CHR 0xE7, CHR 0x90, CHR 0x86, CHR 0xE5
      , CHR 0x93, CHR 0xA1, CHR 0xE5, CHR 0xB0, CHR 0x88, CHR 0xE7, CHR 0x94, CHR 0xA8] @
      '' (admin only)''),
     (''error.permission_denied'', [CHR 0xE6, CHR 0xAC, CHR 0x8A, CHR 0xE9, CHR 0x99, CHR 0x90,
      CHR 0xE4, CHR 0xB8, CHR 0x8D, CHR 0xE8, CHR 0xB6, CHR 0xB3]),
     (''error.comments_locked'', [CHR 0xE6, CHR 0x9C, CHR 0xAC, CHR 0xE6, CHR 0x96, CHR 0x87,
      CHR 0xE5, CHR 0xB7, CHR 0xB2, CHR 0xE9, CHR 0x8E, CHR 0x96, CHR 0xE5, CHR 0xAE, CHR 0x9A,
      CHR 0xE7, CHR 0x95, CHR 0x99, CHR 0xE8, CHR 0xA8, CHR 0x80]),
     (''error.comments_arrows_only'', [CHR 0xE6, CHR 0x9C, CHR 0xAC, CHR 0xE6, CHR 0x96, CHR 0x87
      , CHR 0xE5, CHR 0x83, CHR 0x85, CHR 0xE9, CHR 0x96, CHR 0x8B, CHR 0xE6, CHR 0x94, CHR 0xBE,
      CHR 0xE7, CHR 0xAE, CHR 0xAD, CHR 0xE9, CHR 0xA0, CHR 0xAD, CHR 0xE7, CHR 0x95, CHR 0x99,
      CHR 0xE8, CHR 0xA8, CHR 0x80])]"

definition en_errors :: "(string \<times> string) list" where
  "en_errors =
    [(''error.guest_read_only'', ''guest accounts are read-only''),
     (''error.admin_only'', ''admin only''),
     (''error.permission_denied'', ''permission denied''),
     (''error.comments_locked'', ''comments are locked on this article''),
     (''error.comments_arrows_only'', ''this article only allows arrow comments'')]"

section \<open>webhooks\<close>

definition keys_webhooks :: "string list" where
  "keys_webhooks =
    [''notify.push.title'',
     ''notify.wb.title'',
     ''notify.mail.title'',
     ''notify.reply.title'',
     ''notify.reply.body'']"

definition zh_webhooks :: "(string \<times> string) list" where
  "zh_webhooks =
    [(''notify.push.title'', ''[BBS] %s %s '' @ [CHR 0xE4, CHR 0xBA, CHR 0x86, CHR 0xE4, CHR 0xBD
      , CHR 0xA0, CHR 0xE7, CHR 0x9A, CHR 0x84, CHR 0xE6, CHR 0x96, CHR 0x87, CHR 0xE7, CHR 0xAB,
      CHR 0xA0]),
     (''notify.wb.title'', ''[BBS] %s '' @ [CHR 0xE4, CHR 0xB8, CHR 0x9F, CHR 0xE4, CHR 0xBA,
      CHR 0x86, CHR 0xE6, CHR 0xB0, CHR 0xB4, CHR 0xE7, CHR 0x90, CHR 0x83, CHR 0xE7, CHR 0xB5,
      CHR 0xA6, CHR 0xE4, CHR 0xBD, CHR 0xA0]),
     (''notify.mail.title'', ''[BBS] %s '' @ [CHR 0xE5, CHR 0xAF, CHR 0x84, CHR 0xE4, CHR 0xBF,
      CHR 0xA1, CHR 0xE7, CHR 0xB5, CHR 0xA6, CHR 0xE4, CHR 0xBD, CHR 0xA0] @ '': %s''),
     (''notify.reply.title'', ''[BBS] %s '' @ [CHR 0xE5, CHR 0x9B, CHR 0x9E, CHR 0xE4, CHR 0xBA,
      CHR 0x86, CHR 0xE4, CHR 0xBD, CHR 0xA0, CHR 0xE7, CHR 0x9A, CHR 0x84, CHR 0xE6, CHR 0x96,
      CHR 0x87, CHR 0xE7, CHR 0xAB, CHR 0xA0]),
     (''notify.reply.body'', ''%s'' @ [CHR 0x0A, CHR 0x0A, CHR 0xE5, CHR 0x8E, CHR 0x9F, CHR 0xE6
      , CHR 0x96, CHR 0x87] @ '': %s'')]"

definition en_webhooks :: "(string \<times> string) list" where
  "en_webhooks =
    [(''notify.push.title'', ''[BBS] %s %s your post''),
     (''notify.wb.title'', ''[BBS] %s sent you a water balloon''),
     (''notify.mail.title'', ''[BBS] %s mailed you: %s''),
     (''notify.reply.title'', ''[BBS] %s replied to your post''),
     (''notify.reply.body'', ''%s'' @ [CHR 0x0A, CHR 0x0A] @ ''In reply to: %s'')]"

section \<open>The tables\<close>

definition declared_keys :: "string list" where
  "declared_keys =
    keys_common @ keys_main_menu @ keys_user_settings @ keys_locale_settings @ keys_online @
    keys_board_list @ keys_board_view @ keys_article_view @ keys_post_compose @
    keys_article_export @ keys_accounts @ keys_mail_wb @ keys_notify_settings @ keys_admin @
    keys_help @ keys_errors @ keys_webhooks"

definition zh_table :: "(string \<times> string) list" where
  "zh_table =
    zh_common @ zh_main_menu @ zh_user_settings @ zh_locale_settings @ zh_online @ zh_board_list
    @ zh_board_view @ zh_article_view @ zh_post_compose @ zh_article_export @ zh_accounts @
    zh_mail_wb @ zh_notify_settings @ zh_admin @ zh_help @ zh_errors @ zh_webhooks"

definition en_table :: "(string \<times> string) list" where
  "en_table =
    en_common @ en_main_menu @ en_user_settings @ en_locale_settings @ en_online @ en_board_list
    @ en_board_view @ en_article_view @ en_post_compose @ en_article_export @ en_accounts @
    en_mail_wb @ en_notify_settings @ en_admin @ en_help @ en_errors @ en_webhooks"

text \<open>The \<open>fmt\<close> verbs of a value in order, a doubled percent sign being a literal.\<close>

fun directives :: "string \<Rightarrow> string" where
  "directives (c # v # s) =
     (if c = CHR ''%'' then (if v = CHR ''%'' then directives s else v # directives s)
      else directives (v # s))"
| "directives s = []"

text \<open>Two tables translate a list of keys: the same keys, no empty value, the same verbs.\<close>

definition translates :: "string list \<Rightarrow> (string \<times> string) list \<Rightarrow> (string \<times> string) list \<Rightarrow> bool" where
  "translates ks zh en \<longleftrightarrow> set ks = set (map fst zh) \<and> map fst en = map fst zh
     \<and> list_all (\<lambda>p. snd p \<noteq> []) zh \<and> list_all (\<lambda>p. snd p \<noteq> []) en
     \<and> map (\<lambda>p. directives (snd p)) en = map (\<lambda>p. directives (snd p)) zh"

lemma translates_append:
  "translates ks zh en \<Longrightarrow> translates ks' zh' en' \<Longrightarrow> translates (ks @ ks') (zh @ zh') (en @ en')"
  by (simp add: translates_def)

lemma translatesI:
  "set ks = set (map fst zh) \<Longrightarrow> map fst en = map fst zh \<Longrightarrow> list_all (\<lambda>p. snd p \<noteq> []) zh \<Longrightarrow>
    list_all (\<lambda>p. snd p \<noteq> []) en \<Longrightarrow>
    map (\<lambda>p. directives (snd p)) en = map (\<lambda>p. directives (snd p)) zh \<Longrightarrow> translates ks zh en"
  by (simp add: translates_def)

section \<open>The tables are complete, section by section\<close>

lemma translates_common: "translates keys_common zh_common en_common"
  unfolding keys_common_def zh_common_def en_common_def by (rule translatesI; (auto | code_simp))

lemma translates_main_menu: "translates keys_main_menu zh_main_menu en_main_menu"
  unfolding keys_main_menu_def zh_main_menu_def en_main_menu_def by (rule translatesI; (auto | code_simp))

lemma translates_user_settings: "translates keys_user_settings zh_user_settings en_user_settings"
  unfolding keys_user_settings_def zh_user_settings_def en_user_settings_def by (rule translatesI; (auto | code_simp))

lemma translates_locale_settings: "translates keys_locale_settings zh_locale_settings en_locale_settings"
  unfolding keys_locale_settings_def zh_locale_settings_def en_locale_settings_def by (rule translatesI; (auto | code_simp))

lemma translates_online: "translates keys_online zh_online en_online"
  unfolding keys_online_def zh_online_def en_online_def by (rule translatesI; (auto | code_simp))

lemma translates_board_list: "translates keys_board_list zh_board_list en_board_list"
  unfolding keys_board_list_def zh_board_list_def en_board_list_def by (rule translatesI; (auto | code_simp))

lemma translates_board_view: "translates keys_board_view zh_board_view en_board_view"
  unfolding keys_board_view_def zh_board_view_def en_board_view_def by (rule translatesI; (auto | code_simp))

lemma translates_article_view: "translates keys_article_view zh_article_view en_article_view"
  unfolding keys_article_view_def zh_article_view_def en_article_view_def by (rule translatesI; (auto | code_simp))

lemma translates_post_compose: "translates keys_post_compose zh_post_compose en_post_compose"
  unfolding keys_post_compose_def zh_post_compose_def en_post_compose_def by (rule translatesI; (auto | code_simp))

lemma translates_article_export: "translates keys_article_export zh_article_export en_article_export"
  unfolding keys_article_export_def zh_article_export_def en_article_export_def by (rule translatesI; (auto | code_simp))

lemma translates_accounts: "translates keys_accounts zh_accounts en_accounts"
  unfolding keys_accounts_def zh_accounts_def en_accounts_def by (rule translatesI; (auto | code_simp))

lemma translates_mail_wb: "translates keys_mail_wb zh_mail_wb en_mail_wb"
  unfolding keys_mail_wb_def zh_mail_wb_def en_mail_wb_def by (rule translatesI; (auto | code_simp))

lemma translates_notify_settings: "translates keys_notify_settings zh_notify_settings en_notify_settings"
  unfolding keys_notify_settings_def zh_notify_settings_def en_notify_settings_def by (rule translatesI; (auto | code_simp))

lemma translates_admin: "translates keys_admin zh_admin en_admin"
  unfolding keys_admin_def zh_admin_def en_admin_def by (rule translatesI; (auto | code_simp))

lemma translates_help: "translates keys_help zh_help en_help"
  unfolding keys_help_def zh_help_def en_help_def by (rule translatesI; (auto | code_simp))

lemma translates_errors: "translates keys_errors zh_errors en_errors"
  unfolding keys_errors_def zh_errors_def en_errors_def by (rule translatesI; (auto | code_simp))

lemma translates_webhooks: "translates keys_webhooks zh_webhooks en_webhooks"
  unfolding keys_webhooks_def zh_webhooks_def en_webhooks_def by (rule translatesI; (auto | code_simp))

lemmas translates_sections =
  translates_common
  translates_main_menu
  translates_user_settings
  translates_locale_settings
  translates_online
  translates_board_list
  translates_board_view
  translates_article_view
  translates_post_compose
  translates_article_export
  translates_accounts
  translates_mail_wb
  translates_notify_settings
  translates_admin
  translates_help
  translates_errors
  translates_webhooks

lemma tables_translate: "translates declared_keys zh_table en_table"
  unfolding declared_keys_def zh_table_def en_table_def
  by (intro translates_append translates_sections)

end
