(* ===== verification/I18n.thy ===== *)
theory I18n
  imports I18nTables PushRepo
begin

text \<open>
  \<open>internal/i18n\<close>: locales, the fallback chain of \<open>T\<close> and the glyphs that differ between locales.
  The package variable \<open>Default\<close>, set once at startup, is the argument \<open>dflt\<close>.
\<close>

type_synonym locale_tag = string

definition LocaleZHTW :: locale_tag where "LocaleZHTW = ''zh-TW''"
definition LocaleEN :: locale_tag where "LocaleEN = ''en''"

lemmas locale_defs = LocaleZHTW_def LocaleEN_def

definition locale_valid :: "string \<Rightarrow> bool" where
  "locale_valid s \<longleftrightarrow> s = LocaleZHTW \<or> s = LocaleEN"

definition set_default :: "locale_tag \<Rightarrow> locale_tag \<Rightarrow> locale_tag" where
  "set_default loc dflt = (if locale_valid loc then loc else dflt)"

definition normalize :: "locale_tag \<Rightarrow> string \<Rightarrow> locale_tag" where
  "normalize dflt s = (if locale_valid s then s else dflt)"

definition table_for :: "locale_tag \<Rightarrow> (string \<times> string) list option" where
  "table_for loc =
    (if loc = LocaleZHTW then Some zh_table else if loc = LocaleEN then Some en_table else None)"

text \<open>A table entry that is present and not empty.\<close>

definition table_entry :: "locale_tag \<Rightarrow> string \<Rightarrow> string option" where
  "table_entry loc key =
    (case table_for loc of
       None \<Rightarrow> None
     | Some tbl \<Rightarrow>
         (case map_of tbl key of Some v \<Rightarrow> if v \<noteq> [] then Some v else None | None \<Rightarrow> None))"

definition key_sentinel :: "string \<Rightarrow> string" where
  "key_sentinel key = [CHR 0xC2, CHR 0xAB] @ key @ [CHR 0xC2, CHR 0xBB]"

definition translate :: "locale_tag \<Rightarrow> locale_tag \<Rightarrow> string \<Rightarrow> string" where
  "translate dflt loc key =
    (case table_entry loc key of
       Some v \<Rightarrow> v
     | None \<Rightarrow>
         if loc \<noteq> dflt then
           (case table_entry dflt key of Some v \<Rightarrow> v | None \<Rightarrow> key_sentinel key)
         else key_sentinel key)"

section \<open>Glyphs\<close>

definition glyph_push :: "locale_tag \<Rightarrow> push_kind \<Rightarrow> string" where
  "glyph_push loc k =
    (if loc = LocaleEN then
       (if k = PushKindPush then [CHR 0xF0, CHR 0x9F, CHR 0x91, CHR 0x8D]
        else if k = PushKindBoo then [CHR 0xF0, CHR 0x9F, CHR 0x91, CHR 0x8E]
        else if k = PushKindArrow then [CHR 0xE2, CHR 0x86, CHR 0x92]
        else push_glyph k)
     else push_glyph k)"

definition push_verb :: "locale_tag \<Rightarrow> push_kind \<Rightarrow> string" where
  "push_verb loc k = glyph_push loc k"

definition score_exploded :: "locale_tag \<Rightarrow> string" where
  "score_exploded loc =
    (if loc = LocaleEN then [CHR 0xF0, CHR 0x9F, CHR 0x92, CHR 0xA5] else [CHR 0xE7, CHR 0x88, CHR 0x86])"

definition comments_mode_badge :: "locale_tag \<Rightarrow> comments_mode \<Rightarrow> string" where
  "comments_mode_badge loc m =
    (if m = CommentsModeLocked then
       (if loc = LocaleEN then ''[L]'' else ''['' @ [CHR 0xE9, CHR 0x8E, CHR 0x96] @ '']'')
     else if m = CommentsModeArrowsOnly then
       (if loc = LocaleEN then ''[A]'' else ''['' @ [CHR 0xE7, CHR 0xAE, CHR 0xAD] @ '']'')
     else [])"

section \<open>Lookups\<close>

lemma locale_valid_simps [simp]: "locale_valid LocaleZHTW" "locale_valid LocaleEN"
  by (simp_all add: locale_valid_def)

lemma set_default_valid [simp]: "locale_valid dflt \<Longrightarrow> locale_valid (set_default loc dflt)"
  by (simp add: set_default_def)

lemma normalize_valid [simp]: "locale_valid dflt \<Longrightarrow> locale_valid (normalize dflt s)"
  by (simp add: normalize_def)

lemma map_of_nonempty:
  "k \<in> set (map fst t) \<Longrightarrow> list_all (\<lambda>p. snd p \<noteq> []) t \<Longrightarrow> \<exists>v. map_of t k = Some v \<and> v \<noteq> []"
  by (induction t) auto

lemma map_of_parallel:
  "map fst t = map fst u \<Longrightarrow> map (\<lambda>p. f (snd p)) t = map (\<lambda>p. f (snd p)) u \<Longrightarrow>
    map_of t k = Some v \<Longrightarrow> map_of u k = Some w \<Longrightarrow> f v = f w"
proof (induction t arbitrary: u)
  case (Cons p t)
  then show ?case by (cases u) (auto split: if_splits)
qed simp

lemma entry_declared:
  assumes "key \<in> set declared_keys" and "locale_valid loc"
  shows "\<exists>v. table_entry loc key = Some v \<and> v \<noteq> []"
proof -
  have tr: "translates declared_keys zh_table en_table" by (rule tables_translate)
  then have "key \<in> set (map fst zh_table)" "key \<in> set (map fst en_table)"
    using assms(1) by (auto simp: translates_def)
  with tr map_of_nonempty [of key zh_table] map_of_nonempty [of key en_table] assms(2) show ?thesis
    by (auto simp: table_entry_def table_for_def locale_valid_def translates_def locale_defs)
qed

lemma entry_directives:
  assumes "table_entry l key = Some v" and "table_entry l' key = Some w"
  shows "directives v = directives w"
proof -
  have "map fst en_table = map fst zh_table"
    "map (\<lambda>p. directives (snd p)) en_table = map (\<lambda>p. directives (snd p)) zh_table"
    using tables_translate by (simp_all add: translates_def)
  then have "map_of en_table key = Some x \<Longrightarrow> map_of zh_table key = Some y \<Longrightarrow> directives x = directives y"
    for x y by (rule map_of_parallel)
  with assms show ?thesis
    by (auto simp: table_entry_def table_for_def split: option.splits if_splits)
qed

text \<open>Every declared key has a text in both locales, whatever the server default is, so \<open>T\<close> never
  falls back to the other locale or to the guillemet sentinel for it; the texts of a key in the two
  locales contain the same \<open>fmt\<close> verbs in the same order, so no translation drops an argument.\<close>

theorem declared_keys_translated:
  assumes "key \<in> set declared_keys" and "locale_valid loc" and "locale_valid loc'"
  shows "table_entry loc key = Some (translate dflt loc key) \<and> translate dflt loc key \<noteq> []
    \<and> directives (translate dflt loc key) = directives (translate dflt' loc' key)"
proof -
  obtain v where v: "table_entry loc key = Some v" "v \<noteq> []"
    using entry_declared [OF assms(1,2)] by blast
  obtain w where w: "table_entry loc' key = Some w" "w \<noteq> []"
    using entry_declared [OF assms(1,3)] by blast
  show ?thesis using v w entry_directives [OF v(1) w(1)] by (simp add: translate_def)
qed

lemma declared_keys_translated_witness:
  "''common.back'' \<in> set declared_keys \<and> table_entry ''en'' ''common.back'' = Some (translate ''zh-TW'' ''en'' ''common.back'')
    \<and> translate ''zh-TW'' ''en'' ''common.back'' = ''Back''"
proof -
  have k: "''common.back'' \<in> set declared_keys"
    by (simp add: declared_keys_def keys_common_def)
  have "translate ''zh-TW'' ''en'' ''common.back'' = ''Back''"
    by (simp add: translate_def table_entry_def table_for_def locale_defs en_table_def en_common_def)
  with declared_keys_translated [OF k, of "''en''" "''en''" "''zh-TW''" "''zh-TW''"] k show ?thesis
    by (simp add: locale_valid_def locale_defs)
qed

end
