(* ===== verification/Utf8.thy ===== *)
theory Utf8
  imports Prelude
begin

text \<open>
  Go's conversions between strings and runes (\<open>unicode/utf8\<close>): \<open>[]rune(s)\<close> decodes the bytes, an
  invalid byte becoming U+FFFD, and \<open>string(rs)\<close> encodes them again. A rune is kept as the bytes of
  its encoding.
\<close>

definition is_cont :: "char \<Rightarrow> nat \<Rightarrow> nat \<Rightarrow> bool" where
  "is_cont c lo hi \<longleftrightarrow> lo \<le> byte_of c \<and> byte_of c \<le> hi"

text \<open>The length of the valid encoding at the head of a string, following Unicode table 3-7.\<close>

fun rune_len :: "string \<Rightarrow> nat option" where
  "rune_len [] = None"
| "rune_len (c # s) =
    (let n = byte_of c in
     if n < 128 then Some 1
     else if 194 \<le> n \<and> n \<le> 223 then
       (case s of c1 # _ \<Rightarrow> if is_cont c1 128 191 then Some 2 else None | _ \<Rightarrow> None)
     else if 224 \<le> n \<and> n \<le> 239 then
       (case s of c1 # c2 # _ \<Rightarrow>
          if is_cont c1 (if n = 224 then 160 else 128) (if n = 237 then 159 else 191) \<and> is_cont c2 128 191
          then Some 3 else None
        | _ \<Rightarrow> None)
     else if 240 \<le> n \<and> n \<le> 244 then
       (case s of c1 # c2 # c3 # _ \<Rightarrow>
          if is_cont c1 (if n = 240 then 144 else 128) (if n = 244 then 143 else 191)
             \<and> is_cont c2 128 191 \<and> is_cont c3 128 191
          then Some 4 else None
        | _ \<Rightarrow> None)
     else None)"

definition rune_error :: string where
  "rune_error = [CHR 0xEF, CHR 0xBF, CHR 0xBD]"

lemma rune_len_bounds: "rune_len s = Some n \<Longrightarrow> 0 < n \<and> n \<le> length s"
  by (cases s) (auto simp: Let_def split: if_splits list.splits)

function go_runes :: "string \<Rightarrow> string list" where
  "go_runes s =
    (if s = [] then []
     else case rune_len s of
         Some n \<Rightarrow> take n s # go_runes (drop n s)
       | None \<Rightarrow> rune_error # go_runes (tl s))"
  by pat_completeness auto
termination
  by (relation "measure length") (auto dest: rune_len_bounds)

declare go_runes.simps [simp del]

lemma go_runes_Nil [simp]: "go_runes [] = []"
  by (subst go_runes.simps) simp

definition rune_count :: "string \<Rightarrow> nat" where
  "rune_count s = length (go_runes s)"

text \<open>A string is valid UTF-8 when every position of the decoding is a valid encoding.\<close>

function valid_utf8 :: "string \<Rightarrow> bool" where
  "valid_utf8 s \<longleftrightarrow>
    (if s = [] then True
     else case rune_len s of Some n \<Rightarrow> valid_utf8 (drop n s) | None \<Rightarrow> False)"
  by pat_completeness auto
termination
  by (relation "measure length") (auto dest: rune_len_bounds)

declare valid_utf8.simps [simp del]

lemma valid_utf8_Nil [simp]: "valid_utf8 []"
  by (subst valid_utf8.simps) simp

lemma ascii_rune_len: "byte_of c < 128 \<Longrightarrow> rune_len (c # s) = Some 1"
  by (simp add: Let_def)

lemma go_runes_ascii: "byte_of c < 128 \<Longrightarrow> go_runes (c # s) = [c] # go_runes s"
  by (subst go_runes.simps) (simp add: ascii_rune_len del: rune_len.simps)

lemma concat_go_runes: "valid_utf8 s \<Longrightarrow> concat (go_runes s) = s"
proof (induction s rule: go_runes.induct)
  case (1 s)
  show ?case
  proof (cases "s = []")
    case False
    with "1.prems" obtain n where n: "rune_len s = Some n" "valid_utf8 (drop n s)"
      by (subst (asm) valid_utf8.simps) (auto split: option.splits)
    with "1.IH"(2) [OF False n(1)] False show ?thesis by (subst go_runes.simps) simp
  qed simp
qed

text \<open>The encoding at the head of a string depends on its own bytes only.\<close>

lemma rune_len_take: "rune_len s = Some n \<Longrightarrow> rune_len (take n s @ t) = Some n"
  by (cases s) (auto simp: Let_def numeral_2_eq_2 numeral_3_eq_3 eval_nat_numeral
      split: if_splits list.splits)

lemma go_runes_append_head:
  "rune_len s = Some n \<Longrightarrow> go_runes (take n s @ t) = take n s # go_runes t"
proof -
  assume n: "rune_len s = Some n"
  from rune_len_bounds [OF n] have "take n s \<noteq> []" "length (take n s) = n" by auto
  with rune_len_take [OF n, of t] show ?thesis by (subst go_runes.simps) simp
qed

lemma rune_error_len: "rune_len (rune_error @ t) = Some 3"
  by (simp add: rune_error_def is_cont_def byte_of_def)

lemma go_runes_error: "go_runes (rune_error @ t) = rune_error # go_runes t"
  using go_runes_append_head [OF rune_error_len [of "[]"], of t] by (simp add: rune_error_def)

text \<open>Encoding a list of decoded runes and decoding it again changes nothing.\<close>

lemma go_runes_chunk: "r \<in> set (go_runes s) \<Longrightarrow> r = rune_error \<or> (\<exists>u n. rune_len u = Some n \<and> r = take n u)"
proof (induction s rule: go_runes.induct)
  case (1 s)
  show ?case
  proof (cases "s = []")
    case True
    with "1.prems" show ?thesis by simp
  next
    case False
    show ?thesis
    proof (cases "rune_len s")
      case None
      with "1.prems" False have "r = rune_error \<or> r \<in> set (go_runes (tl s))"
        by (subst (asm) go_runes.simps) auto
      with "1.IH"(1) [OF False None] show ?thesis by blast
    next
      case (Some n)
      with "1.prems" False have "r = take n s \<or> r \<in> set (go_runes (drop n s))"
        by (subst (asm) go_runes.simps) auto
      with "1.IH"(2) [OF False Some] Some show ?thesis by blast
    qed
  qed
qed

lemma go_runes_concat:
  "set rs \<subseteq> set (go_runes s) \<Longrightarrow> go_runes (concat rs @ t) = rs @ go_runes t"
proof (induction rs)
  case (Cons r rs)
  from Cons.prems have "r = rune_error \<or> (\<exists>u n. rune_len u = Some n \<and> r = take n u)"
    by (intro go_runes_chunk) auto
  with Cons show ?case by (auto simp: go_runes_error go_runes_append_head)
qed simp

lemma rune_count_concat:
  "set rs \<subseteq> set (go_runes s) \<Longrightarrow> rune_count (concat rs @ t) = length rs + rune_count t"
  by (simp add: rune_count_def go_runes_concat)

lemma rune_count_le: "rune_count s \<le> length s"
proof (induction s rule: go_runes.induct)
  case (1 s)
  show ?case
  proof (cases "s = []")
    case False
    show ?thesis
    proof (cases "rune_len s")
      case None
      with "1.IH"(1) [OF False None] False show ?thesis
        unfolding rune_count_def by (subst go_runes.simps) (cases s, auto)
    next
      case (Some n)
      with "1.IH"(2) [OF False Some] False rune_len_bounds [OF Some] show ?thesis
        unfolding rune_count_def by (subst go_runes.simps) auto
    qed
  qed (simp add: rune_count_def)
qed

section \<open>\<open>strings.EqualFold\<close> with an ASCII word\<close>

text \<open>
  Simple Unicode case folding relates two runes outside ASCII to ASCII letters: U+212A (Kelvin
  sign) to k and U+017F (long s) to s. \<open>fold_ascii_eq\<close> decides \<open>EqualFold(s, w)\<close> for an ASCII word.
\<close>

definition rune_folds_to :: "string \<Rightarrow> char \<Rightarrow> bool" where
  "rune_folds_to r w \<longleftrightarrow>
    (case r of [c] \<Rightarrow> ascii_lower c = ascii_lower w | _ \<Rightarrow> False)
    \<or> r = [CHR 0xE2, CHR 0x84, CHR 0xAA] \<and> ascii_lower w = CHR ''k''
    \<or> r = [CHR 0xC5, CHR 0xBF] \<and> ascii_lower w = CHR ''s''"

definition fold_ascii_eq :: "string \<Rightarrow> string \<Rightarrow> bool" where
  "fold_ascii_eq s w \<longleftrightarrow> list_all2 rune_folds_to (go_runes s) w"

lemma go_runes_all_ascii: "\<forall>c \<in> set s. byte_of c < 128 \<Longrightarrow> go_runes s = map (\<lambda>c. [c]) s"
  by (induction s) (auto simp: go_runes_ascii)

lemma fold_ascii_eq_ascii:
  "\<forall>c \<in> set s. byte_of c < 128 \<Longrightarrow> fold_ascii_eq s w \<longleftrightarrow> nocase s = nocase w"
proof -
  assume "\<forall>c \<in> set s. byte_of c < 128"
  then have "fold_ascii_eq s w \<longleftrightarrow> list_all2 (\<lambda>c d. ascii_lower c = ascii_lower d) s w"
    by (simp add: fold_ascii_eq_def go_runes_all_ascii list_all2_map1 rune_folds_to_def)
  also have "\<dots> \<longleftrightarrow> nocase s = nocase w"
    by (simp add: nocase_def list_all2_map1 [symmetric] list_all2_map2 [symmetric] list.rel_eq
        list_all2_conv_all_nth list_eq_iff_nth_eq) (auto simp: list_eq_iff_nth_eq)
  finally show ?thesis .
qed

end
