(* ===== verification/NetAddr.thy ===== *)
theory NetAddr
  imports Utf8
begin

text \<open>
  The part of Go's package \<open>net\<close> behind \<open>isLoopbackHost\<close> of \<open>internal/auth/policy.go\<close>:
  \<open>SplitHostPort\<close>, \<open>ParseIP\<close> for IPv4 and IPv6 texts, and \<open>IP.IsLoopback\<close>.
\<close>

section \<open>Host and port\<close>

definition last_index :: "string \<Rightarrow> char \<Rightarrow> nat option" where
  "last_index s c = (case str_index (rev s) [c] of None \<Rightarrow> None | Some i \<Rightarrow> Some (length s - 1 - i))"

definition split_host_port :: "string \<Rightarrow> (string \<times> string) option" where
  "split_host_port s =
    (case last_index s (CHR '':'') of
       None \<Rightarrow> None
     | Some i \<Rightarrow>
         if has_prefix s ''['' then
           (case str_index s '']'' of
              None \<Rightarrow> None
            | Some e \<Rightarrow>
                if e + 1 \<noteq> i then None
                else if str_contains (drop 1 s) ''['' \<or> str_contains (drop (e + 1) s) '']'' then None
                else Some (take (e - 1) (drop 1 s), drop (i + 1) s))
         else if str_contains (take i s) '':'' then None
         else if str_contains s ''['' \<or> str_contains s '']'' then None
         else Some (take i s, drop (i + 1) s))"

section \<open>Addresses\<close>

definition dec_value :: "string \<Rightarrow> nat" where
  "dec_value s = foldl (\<lambda>n c. 10 * n + (byte_of c - 48)) 0 s"

definition octet_ok :: "string \<Rightarrow> bool" where
  "octet_ok s \<longleftrightarrow> s \<noteq> [] \<and> list_all is_digit s \<and> dec_value s \<le> 255 \<and> (hd s = CHR ''0'' \<longrightarrow> length s = 1)"

definition parse_ipv4 :: "string \<Rightarrow> nat list option" where
  "parse_ipv4 s =
    (let parts = split_byte (CHR ''.'') s
     in if length parts = 4 \<and> list_all octet_ok parts then Some (map dec_value parts) else None)"

definition hex_digit :: "char \<Rightarrow> nat option" where
  "hex_digit c =
    (if is_digit c then Some (byte_of c - 48)
     else if 97 \<le> byte_of c \<and> byte_of c \<le> 102 then Some (byte_of c - 87)
     else if 65 \<le> byte_of c \<and> byte_of c \<le> 70 then Some (byte_of c - 55)
     else None)"

definition is_hex :: "char \<Rightarrow> bool" where
  "is_hex c \<longleftrightarrow> hex_digit c \<noteq> None"

definition hex_value :: "string \<Rightarrow> nat" where
  "hex_value s = foldl (\<lambda>n c. 16 * n + (case hex_digit c of Some d \<Rightarrow> d | None \<Rightarrow> 0)) 0 s"

text \<open>
  The loop over the 16-bit groups: the groups so far, the position of the double colon if one has
  been seen, and the rest of the text.
\<close>

function ipv6_groups :: "nat list \<Rightarrow> nat option \<Rightarrow> string \<Rightarrow> (nat list \<times> nat option \<times> string) option" where
  "ipv6_groups gs ell s =
    (if 8 \<le> length gs then Some (gs, ell, s)
     else let h = takeWhile is_hex s; r = dropWhile is_hex s in
       if h = [] \<or> 4 < length h then None
       else if has_prefix r ''.'' then
         (if ell = None \<and> length gs \<noteq> 6 \<or> 6 < length gs then None
          else case parse_ipv4 s of
              Some [a, b, c, d] \<Rightarrow> Some (gs @ [256 * a + b, 256 * c + d], ell, [])
            | _ \<Rightarrow> None)
       else let gs' = gs @ [hex_value h] in
         if r = [] then Some (gs', ell, [])
         else if hd r \<noteq> CHR '':'' \<or> tl r = [] then None
         else if hd (tl r) = CHR '':'' then
           (if ell \<noteq> None then None
            else if tl (tl r) = [] then Some (gs', Some (length gs'), [])
            else ipv6_groups gs' (Some (length gs')) (tl (tl r)))
         else ipv6_groups gs' ell (tl r))"
  by pat_completeness auto
termination
proof (relation "measure (\<lambda>(gs, ell, s). length s)", goal_cases)
  case (2 gs ell s x xa xb)
  then show ?case
    using length_dropWhile_le [of is_hex s] by (cases "dropWhile is_hex s") auto
next
  case (3 gs ell s x xa xb)
  then show ?case
    using length_dropWhile_le [of is_hex s] by (cases "dropWhile is_hex s") auto
qed simp

declare ipv6_groups.simps [simp del]

definition expand_groups :: "nat list \<times> nat option \<times> string \<Rightarrow> nat list option" where
  "expand_groups x =
    (case x of (gs, ell, rest) \<Rightarrow>
       if rest \<noteq> [] then None
       else if length gs < 8 then
         (case ell of None \<Rightarrow> None | Some e \<Rightarrow> Some (take e gs @ replicate (8 - length gs) 0 @ drop e gs))
       else if ell \<noteq> None then None
       else Some gs)"

definition parse_ipv6 :: "string \<Rightarrow> nat list option" where
  "parse_ipv6 s =
    (if str_contains s ''%'' then None
     else if has_prefix s ''::'' then
       (if length s = 2 then Some (replicate 8 0)
        else case ipv6_groups [] (Some 0) (drop 2 s) of None \<Rightarrow> None | Some x \<Rightarrow> expand_groups x)
     else case ipv6_groups [] None s of None \<Rightarrow> None | Some x \<Rightarrow> expand_groups x)"

text \<open>\<open>net.ParseIP\<close> looks for the first dot or colon to choose the family.\<close>

datatype ip_addr = IPv4 "nat list" | IPv6 "nat list"

definition parse_ip :: "string \<Rightarrow> ip_addr option" where
  "parse_ip s =
    (case find (\<lambda>c. c = CHR ''.'' \<or> c = CHR '':'' \<or> c = CHR ''%'') s of
       None \<Rightarrow> None
     | Some c \<Rightarrow>
         if c = CHR ''.'' then map_option IPv4 (parse_ipv4 s)
         else if c = CHR '':'' then map_option IPv6 (parse_ipv6 s)
         else None)"

definition ip_is_loopback :: "ip_addr \<Rightarrow> bool" where
  "ip_is_loopback ip =
    (case ip of
       IPv4 os \<Rightarrow> hd os = 127
     | IPv6 gs \<Rightarrow>
         if take 6 gs = [0, 0, 0, 0, 0, 65535] then gs ! 6 div 256 = 127
         else gs = [0, 0, 0, 0, 0, 0, 0, 1])"

section \<open>The texts of IPv4 remote addresses\<close>

lemma str_contains_byte: "str_contains s [c] \<longleftrightarrow> c \<in> set s"
  by (auto simp: str_contains_iff in_set_conv_decomp)

lemma str_index_absent: "c \<notin> set u \<Longrightarrow> str_index (u @ c # v) [c] = Some (length u)"
  by (induction u) auto

lemma last_index_last: "c \<notin> set v \<Longrightarrow> last_index (u @ c # v) c = Some (length u)"
  using str_index_absent [of c "rev v" "rev u"] by (simp add: last_index_def)

lemma split_host_port_plain:
  assumes "CHR '':'' \<notin> set h" and "CHR '':'' \<notin> set p" and "CHR ''['' \<notin> set (h @ p)"
    and "CHR '']'' \<notin> set (h @ p)"
  shows "split_host_port (h @ CHR '':'' # p) = Some (h, p)"
proof -
  have np: "\<not> has_prefix (h @ CHR '':'' # p) ''[''"
    using assms(3) by (cases h) auto
  show ?thesis
    using assms last_index_last [of "CHR '':''" p h] np
    by (simp add: split_host_port_def str_contains_byte)
qed

lemma octet_chars: "octet_ok s \<Longrightarrow> c \<in> set s \<Longrightarrow> is_digit c"
  by (auto simp: octet_ok_def list_all_iff)

definition dotted :: "string list \<Rightarrow> string" where
  "dotted os = str_join ''.'' os"

lemma dotted_chars:
  "\<forall>x \<in> set os. octet_ok x \<Longrightarrow> c \<in> set (dotted os) \<Longrightarrow> is_digit c \<or> c = CHR ''.''"
  unfolding dotted_def
  by (induction "''.''" os rule: str_join.induct) (auto dest: octet_chars)

lemma parse_dotted:
  assumes "length os = 4" and "\<forall>x \<in> set os. octet_ok x"
  shows "parse_ip (dotted os) = Some (IPv4 (map dec_value os))"
proof -
  have nodot: "\<forall>l \<in> set os. CHR ''.'' \<notin> set l"
    using assms(2) octet_chars [of _ "CHR ''.''"] by (fastforce simp: is_digit_def byte_of_def)
  obtain a b c d where os: "os = [a, b, c, d]"
    using assms(1) by (auto simp: length_Suc_conv numeral_eq_Suc)
  have "find (\<lambda>c. c = CHR ''.'' \<or> c = CHR '':'' \<or> c = CHR ''%'') (x @ CHR ''.'' # y) = Some (CHR ''.'')"
    if "octet_ok x" for x y
  proof -
    have "\<forall>c \<in> set x. is_digit c" using that octet_chars by blast
    then show ?thesis by (induction x) (auto simp: is_digit_def byte_of_def)
  qed
  then have "find (\<lambda>c. c = CHR ''.'' \<or> c = CHR '':'' \<or> c = CHR ''%'') (dotted os) = Some (CHR ''.'')"
    using assms(2) by (simp add: os dotted_def)
  moreover have "parse_ipv4 (dotted os) = Some (map dec_value os)"
    using split_join_byte [OF nodot] assms by (simp add: parse_ipv4_def dotted_def list_all_iff os)
  ultimately show ?thesis by (simp add: parse_ip_def)
qed

end
