(* ===== verification/Auth.thy ===== *)
theory Auth
  imports I18n NetAddr StoreProps
begin

text \<open>
  \<open>internal/auth\<close>: reserved names, validation, registration, login, the remote block of the
  bootstrap administrator and the seed of the system accounts. bcrypt is third-party code: its
  \<open>GenerateFromPassword\<close> and \<open>CompareHashAndPassword\<close> are the arguments \<open>gen\<close> (with the salt of the
  call) and \<open>cmp\<close>, and \<open>bcrypt_laws\<close> states what its documentation promises.
\<close>

section \<open>Names and validation\<close>

definition ReservedUsernameNew :: string where "ReservedUsernameNew = ''new''"
definition ReservedUsernameGuest :: string where "ReservedUsernameGuest = ''guest''"
definition ReservedUsernameAdmin :: string where "ReservedUsernameAdmin = ''admin''"

lemmas reserved_defs = ReservedUsernameNew_def ReservedUsernameGuest_def ReservedUsernameAdmin_def

definition is_reserved_username :: "string \<Rightarrow> bool" where
  "is_reserved_username s \<longleftrightarrow>
    (let s = trim_space s
     in fold_ascii_eq s ReservedUsernameNew \<or> fold_ascii_eq s ReservedUsernameGuest
        \<or> fold_ascii_eq s ReservedUsernameAdmin)"

definition minPasswordLen :: nat where "minPasswordLen = 6"
definition maxPasswordLen :: nat where "maxPasswordLen = 128"
definition maxNickname :: nat where "maxNickname = 32"
definition maxEmail :: nat where "maxEmail = 128"
definition maxBio :: nat where "maxBio = 1024"

lemmas limit_defs = minPasswordLen_def maxPasswordLen_def maxNickname_def maxEmail_def maxBio_def

datatype auth_error =
    ErrUserExists
  | ErrInvalidUserID
  | ErrInvalidPassword
  | ErrNicknameTooLong
  | ErrEmailTooLong
  | ErrBioTooLong
  | ErrReservedUsername
  | ErrBadCredentials
  | HashError
  | StoreError db_error

text \<open>\<open>userIDRe\<close>: a letter followed by 2 to 11 letters, digits or underscores.\<close>

definition is_letter :: "char \<Rightarrow> bool" where
  "is_letter c \<longleftrightarrow> is_upper c \<or> is_lower c"

definition user_id_matches :: "string \<Rightarrow> bool" where
  "user_id_matches s \<longleftrightarrow>
    3 \<le> length s \<and> length s \<le> 12 \<and> is_letter (hd s)
    \<and> list_all (\<lambda>c. is_letter c \<or> is_digit c \<or> c = CHR ''_'') (tl s)"

definition validate_password :: "string \<Rightarrow> auth_error option" where
  "validate_password p =
    (if length p < minPasswordLen \<or> maxPasswordLen < length p then Some ErrInvalidPassword else None)"

definition validate_bio :: "string \<Rightarrow> auth_error option" where
  "validate_bio b = (if maxBio < rune_count b then Some ErrBioTooLong else None)"

definition hash_password :: "(string \<Rightarrow> string option) \<Rightarrow> string \<Rightarrow> auth_error + string" where
  "hash_password gen p = (case gen p of None \<Rightarrow> Inl HashError | Some h \<Rightarrow> Inr h)"

definition verify_password_hash :: "(string \<Rightarrow> string \<Rightarrow> bool) \<Rightarrow> string \<Rightarrow> string \<Rightarrow> bool" where
  "verify_password_hash cmp h p \<longleftrightarrow> cmp h p"

section \<open>Registration and login\<close>

definition register ::
  "(string \<Rightarrow> string option) \<Rightarrow> locale_tag \<Rightarrow> string \<Rightarrow> string \<Rightarrow> string \<Rightarrow> string \<Rightarrow> timestamp \<Rightarrow> db \<Rightarrow>
    (auth_error + user) \<times> db" where
  "register gen dflt user_id password nickname email now d =
    (let user_id = trim_space user_id; nickname = trim_space nickname; email = trim_space email
     in if \<not> user_id_matches user_id then (Inl ErrInvalidUserID, d)
        else if is_reserved_username user_id then (Inl ErrReservedUsername, d)
        else case validate_password password of Some e \<Rightarrow> (Inl e, d) | None \<Rightarrow>
        if maxNickname < rune_count nickname then (Inl ErrNicknameTooLong, d)
        else if maxEmail < length email then (Inl ErrEmailTooLong, d)
        else case hash_password gen password of Inl e \<Rightarrow> (Inl e, d) | Inr h \<Rightarrow>
        (case users_create user_id h nickname email now d of
           (Inl SqlUnique, d1) \<Rightarrow> (Inl ErrUserExists, d1)
         | (Inl e, d1) \<Rightarrow> (Inl (StoreError e), d1)
         | (Inr u, d1) \<Rightarrow>
             (case users_set_locale (uID u) dflt d1 of
                (Inl e, d2) \<Rightarrow> (Inl (StoreError e), d2)
              | (Inr _, d2) \<Rightarrow> (Inr (u\<lparr>uLocale := dflt\<rparr>), d2))))"

definition verify_login ::
  "(string \<Rightarrow> string \<Rightarrow> bool) \<Rightarrow> string \<Rightarrow> string \<Rightarrow> string \<Rightarrow> timestamp \<Rightarrow> db \<Rightarrow> (auth_error + user) \<times> db" where
  "verify_login cmp user_id password host now d =
    (case users_get_by_user_id (trim_space user_id) d of
       Inl e \<Rightarrow> (if e = ErrUserNotFound then (Inl ErrBadCredentials, d) else (Inl (StoreError e), d))
     | Inr u \<Rightarrow>
         if \<not> cmp (uPasswordHash u) password then (Inl ErrBadCredentials, d)
         else if uRole u = RoleGuest then (Inr u, d)
         else (case users_note_login (uID u) host now d of
             (Inl e, d1) \<Rightarrow> (Inl (StoreError e), d1)
           | (Inr _, d1) \<Rightarrow>
               (case users_get_by_id (uID u) d1 of Inl e \<Rightarrow> (Inl (StoreError e), d1) | Inr v \<Rightarrow> (Inr v, d1))))"

section \<open>The remote block\<close>

definition is_loopback_host :: "string \<Rightarrow> bool" where
  "is_loopback_host host =
    (if host = [] then False
     else let h = (case split_host_port host of None \<Rightarrow> host | Some (h, _) \<Rightarrow> h);
              h = (if has_prefix h ''['' then drop 1 h else h);
              h = (if has_suffix h '']'' then butlast h else h)
          in case parse_ip h of
               None \<Rightarrow> fold_ascii_eq h ''localhost''
             | Some ip \<Rightarrow> ip_is_loopback ip)"

definition must_change_password_remote_blocked :: "user option \<Rightarrow> string \<Rightarrow> bool" where
  "must_change_password_remote_blocked u host =
    (case u of
       None \<Rightarrow> False
     | Some u \<Rightarrow>
         if uRole u \<noteq> RoleAdmin then False
         else if \<not> uMustChangePassword u then False
         else \<not> is_loopback_host host)"

section \<open>The system accounts\<close>

definition GuestPasswordSentinel :: string where "GuestPasswordSentinel = ''!''"
definition DefaultAdminPassword :: string where "DefaultAdminPassword = ''admin''"

definition seed_admin ::
  "(string \<Rightarrow> string option) \<Rightarrow> string \<Rightarrow> timestamp \<Rightarrow> db \<Rightarrow> (auth_error + unit) \<times> db" where
  "seed_admin gen admin_password now d =
    (case users_get_by_user_id ReservedUsernameAdmin d of
       Inr _ \<Rightarrow> (Inr (), d)
     | Inl e \<Rightarrow>
         if e \<noteq> ErrUserNotFound then (Inl (StoreError e), d)
         else let pw = (if admin_password = [] then DefaultAdminPassword else admin_password)
           in case gen pw of
                None \<Rightarrow> (Inl HashError, d)
              | Some h \<Rightarrow>
                  (case users_insert_system_account ReservedUsernameAdmin h RoleAdmin True now d of
                     (Inl e, d1) \<Rightarrow> (Inl (StoreError e), d1)
                   | (Inr _, d1) \<Rightarrow> (Inr (), d1)))"

definition seed_guest :: "timestamp \<Rightarrow> db \<Rightarrow> (auth_error + unit) \<times> db" where
  "seed_guest now d =
    (case users_get_by_user_id ReservedUsernameGuest d of
       Inr _ \<Rightarrow> (Inr (), d)
     | Inl e \<Rightarrow>
         if e \<noteq> ErrUserNotFound then (Inl (StoreError e), d)
         else (case users_insert_system_account ReservedUsernameGuest GuestPasswordSentinel RoleGuest False now d of
             (Inl e, d1) \<Rightarrow> (Inl (StoreError e), d1)
           | (Inr _, d1) \<Rightarrow> (Inr (), d1)))"

definition seed_system_accounts ::
  "(string \<Rightarrow> string option) \<Rightarrow> string \<Rightarrow> timestamp \<Rightarrow> db \<Rightarrow> (auth_error + unit) \<times> db" where
  "seed_system_accounts gen admin_password now d =
    (case seed_admin gen admin_password now d of
       (Inl e, d1) \<Rightarrow> (Inl e, d1)
     | (Inr _, d1) \<Rightarrow> seed_guest now d1)"

section \<open>What bcrypt promises\<close>

text \<open>
  \<open>golang.org/x/crypto/bcrypt\<close>: a password of at most 72 bytes gets a hash that it matches, a longer
  one is refused with \<open>ErrPasswordTooLong\<close>, and a text that is too short to be a hash matches nothing.
\<close>

definition bcrypt_laws :: "(string \<Rightarrow> string option) \<Rightarrow> (string \<Rightarrow> string \<Rightarrow> bool) \<Rightarrow> bool" where
  "bcrypt_laws gen cmp \<longleftrightarrow>
    (\<forall>p. length p \<le> 72 \<longrightarrow> (\<exists>h. gen p = Some h \<and> cmp h p))
    \<and> (\<forall>p. 72 < length p \<longrightarrow> gen p = None)
    \<and> (\<forall>h p. length h < 59 \<longrightarrow> \<not> cmp h p)"

definition demo_gen :: "string \<Rightarrow> string option" where
  "demo_gen p = (if length p \<le> 72 then Some (replicate 59 (CHR ''$'') @ p) else None)"

definition demo_cmp :: "string \<Rightarrow> string \<Rightarrow> bool" where
  "demo_cmp h p \<longleftrightarrow> h = replicate 59 (CHR ''$'') @ p"

lemma demo_bcrypt: "bcrypt_laws demo_gen demo_cmp"
  by (auto simp: bcrypt_laws_def demo_gen_def demo_cmp_def)

section \<open>Names that pass the pattern\<close>

lemma letter_ascii: "is_letter c \<Longrightarrow> byte_of c < 128"
  by (auto simp: is_letter_def is_upper_def is_lower_def)

lemma user_id_chars: "user_id_matches s \<Longrightarrow> c \<in> set s \<Longrightarrow> is_letter c \<or> is_digit c \<or> c = CHR ''_''"
  by (cases s) (auto simp: user_id_matches_def list_all_iff)

lemma user_id_ascii: "user_id_matches s \<Longrightarrow> \<forall>c \<in> set s. byte_of c < 128"
  using user_id_chars letter_ascii by (fastforce simp: is_digit_def byte_of_def)

lemma nocase_fold: "is_reserved_username s \<longleftrightarrow> nocase s \<in> {''new'', ''guest'', ''admin''}"
  if "user_id_matches s" "trimmed s"
  using fold_ascii_eq_ascii [OF user_id_ascii [OF that(1)]] that(2)
  by (simp add: is_reserved_username_def Let_def trim_space_trimmed reserved_defs)

lemma set_locale_appended:
  assumes "table_ok uID (seq_users d) (users d)" and "uID u = seq_users d + 1"
  shows "users_set_locale (uID u) l (d\<lparr>users := users d @ [u], seq_users := seq_users d + 1\<rparr>) =
    (Inr (), d\<lparr>users := users d @ [u\<lparr>uLocale := l\<rparr>], seq_users := seq_users d + 1\<rparr>)"
proof -
  have "\<forall>r \<in> set (users d). uID r \<noteq> uID u"
    using assms by (auto simp: table_ok_def)
  then have "update_rows (\<lambda>r. uID r = uID u) (\<lambda>r. r\<lparr>uLocale := l\<rparr>) (users d) = users d"
    by (intro update_rows_none) auto
  then show ?thesis by (simp add: users_set_locale_def update_rows_def)
qed

definition registered_user ::
  "locale_tag \<Rightarrow> string \<Rightarrow> string \<Rightarrow> string \<Rightarrow> string \<Rightarrow> timestamp \<Rightarrow> db \<Rightarrow> user" where
  "registered_user dflt x h nick email now d =
    (new_user (trim_space x) h (trim_space nick) (trim_space email) now (seq_users d + 1))\<lparr>uLocale := dflt\<rparr>"

lemma registered_user_sel [simp]:
  "uID (registered_user dflt x h nick email now d) = seq_users d + 1"
  "uUserID (registered_user dflt x h nick email now d) = trim_space x"
  "uRole (registered_user dflt x h nick email now d) = RoleUser"
  "uPasswordHash (registered_user dflt x h nick email now d) = h"
  "uLocale (registered_user dflt x h nick email now d) = dflt"
  "uNumLogins (registered_user dflt x h nick email now d) = 0"
  "\<not> uMustChangePassword (registered_user dflt x h nick email now d)"
  by (simp_all add: registered_user_def new_user_def)

text \<open>The whole outcome of \<open>Register\<close>, the checks in their order.\<close>

definition register_outcome ::
  "(string \<Rightarrow> string option) \<Rightarrow> string \<Rightarrow> string \<Rightarrow> string \<Rightarrow> string \<Rightarrow> db \<Rightarrow> auth_error + string" where
  "register_outcome gen x p nick email d =
    (if \<not> user_id_matches (trim_space x) then Inl ErrInvalidUserID
     else if nocase (trim_space x) \<in> {''new'', ''guest'', ''admin''} then Inl ErrReservedUsername
     else if length p < 6 \<or> 128 < length p then Inl ErrInvalidPassword
     else if 32 < rune_count (trim_space nick) then Inl ErrNicknameTooLong
     else if 128 < length (trim_space email) then Inl ErrEmailTooLong
     else case gen p of None \<Rightarrow> Inl HashError
       | Some h \<Rightarrow> if user_name_taken (trim_space x) d then Inl ErrUserExists else Inr h)"

lemma register_cases:
  assumes "users_ok d"
  shows "register gen dflt x p nick email now d =
    (case register_outcome gen x p nick email d of
       Inl e \<Rightarrow> (Inl e, d)
     | Inr h \<Rightarrow> (Inr (registered_user dflt x h nick email now d),
         d\<lparr>users := users d @ [registered_user dflt x h nick email now d], seq_users := seq_users d + 1\<rparr>))"
proof (cases "user_id_matches (trim_space x)")
  case False
  then show ?thesis by (simp add: register_def register_outcome_def)
next
  case True
  then have res: "is_reserved_username (trim_space x) \<longleftrightarrow> nocase (trim_space x) \<in> {''new'', ''guest'', ''admin''}"
    by (rule nocase_fold) (rule trimmed_trim_space)
  show ?thesis
  proof (cases "user_name_taken (trim_space x) d")
    case True
    then show ?thesis
      using \<open>user_id_matches _\<close>
      by (auto simp: register_def register_outcome_def res limit_defs validate_password_def hash_password_def
          users_create_taken Let_def split: option.splits)
  next
    case False
    let ?mk = "\<lambda>h. new_user (trim_space x) h (trim_space nick) (trim_space email) now (seq_users d + 1)"
    have "users_set_locale (seq_users d + 1) dflt
        (d\<lparr>users := users d @ [?mk h], seq_users := seq_users d + 1\<rparr>) =
      (Inr (), d\<lparr>users := users d @ [registered_user dflt x h nick email now d], seq_users := seq_users d + 1\<rparr>)" for h
      using set_locale_appended [of d "?mk h" dflt] assms by (simp add: users_ok_def registered_user_def)
    with \<open>user_id_matches _\<close> False users_create_spec [OF assms False] show ?thesis
      by (auto simp: register_def register_outcome_def res limit_defs validate_password_def hash_password_def
          registered_user_def Let_def split: option.splits)
  qed
qed

lemma users_ok_appended:
  assumes "users_ok d" and "\<not> user_name_taken (uUserID u) d" and "uID u = seq_users d + 1" and "role_valid (uRole u)"
  shows "users_ok (d\<lparr>users := users d @ [u], seq_users := seq_users d + 1\<rparr>)"
  using assms table_ok_append [of uID "seq_users d" "users d" u]
  by (auto simp: users_ok_def user_name_taken_def)

lemma verify_login_found:
  assumes "users_ok d" and "u \<in> set (users d)" and "nocase (uUserID u) = nocase (trim_space x)"
    and "cmp (uPasswordHash u) p" and "uRole u \<noteq> RoleGuest"
  shows "verify_login cmp x p host now d =
    (Inr (u\<lparr>uLastLoginAt := Some now, uLastHost := Some host, uNumLogins := uNumLogins u + 1\<rparr>),
     snd (users_note_login (uID u) host now d))"
proof -
  have "users_get_by_user_id (trim_space x) d = Inr u"
    using assms(1-3) by (simp add: get_by_user_id_iff)
  moreover have "users_get_by_id (uID u) d = Inr u" using assms(1,2) by (simp add: get_by_id_iff)
  ultimately show ?thesis
    using assms(4,5) by (simp add: verify_login_def users_note_login_def get_by_id_update)
qed

lemma verify_login_Inl:
  assumes "users_ok d" and "verify_login cmp x p host now d = (Inl e, d')"
  shows "e = ErrBadCredentials \<and> d' = d
    \<and> \<not> (\<exists>u \<in> set (users d). nocase (uUserID u) = nocase (trim_space x) \<and> cmp (uPasswordHash u) p)"
proof (cases "users_get_by_user_id (trim_space x) d")
  case (Inl err)
  with get_by_user_id_Inl have "err = ErrUserNotFound" by blast
  moreover have "\<not> user_name_taken (trim_space x) d" using Inl by (simp add: get_by_user_id_taken)
  ultimately show ?thesis using Inl assms(2) by (auto simp: verify_login_def user_name_taken_def)
next
  case (Inr u)
  then have u: "u \<in> set (users d)" "nocase (uUserID u) = nocase (trim_space x)"
    using get_by_user_id_Inr by blast+
  have uniq: "v = u" if "v \<in> set (users d)" "nocase (uUserID v) = nocase (trim_space x)" for v
    using get_by_user_id_iff [OF assms(1), of "trim_space x" v] that Inr by simp
  show ?thesis
  proof (cases "cmp (uPasswordHash u) p")
    case False
    with Inr assms(2) uniq show ?thesis by (auto simp: verify_login_def)
  next
    case True
    then show ?thesis
      using Inr assms(2) verify_login_found [OF assms(1) u, of cmp p] by (auto simp: verify_login_def split: if_splits)
  qed
qed

section \<open>Seeding\<close>

lemma insert_system_spec:
  assumes "users_ok d" and "role_valid r" and "\<not> user_name_taken name d"
  shows "users_insert_system_account name h r must now d =
    (let u = (new_user name h [] [] now (seq_users d + 1))\<lparr>uRole := r, uMustChangePassword := must\<rparr>
     in (Inr u, d\<lparr>users := users d @ [u], seq_users := seq_users d + 1\<rparr>))"
proof -
  let ?u = "(new_user name h [] [] now (seq_users d + 1))\<lparr>uRole := r, uMustChangePassword := must\<rparr>"
  have "find_row uID (seq_users d + 1) (users d @ [?u]) = Some ?u"
    using assms(1) by (intro find_row_fresh) (auto simp: users_ok_def)
  with assms show ?thesis
    by (simp add: users_insert_system_account_def ins_user_def users_get_by_id_def Let_def)
qed

lemma find_appended:
  "\<not> user_name_taken name d \<Longrightarrow> nocase (uUserID u) = nocase name \<Longrightarrow>
    users_get_by_user_id name (d\<lparr>users := users d @ [u], seq_users := s\<rparr>) = Inr u"
proof -
  assume "\<not> user_name_taken name d" "nocase (uUserID u) = nocase name"
  then have "find (\<lambda>u. nocase (uUserID u) = nocase name) (us @ [u]) = Some u" if "set us \<subseteq> set (users d)" for us
    using that by (induction us) (auto simp: user_name_taken_def)
  then show ?thesis by (simp add: users_get_by_user_id_def)
qed

lemma find_kept:
  "users_get_by_user_id name d = Inr v \<Longrightarrow>
    users_get_by_user_id name (d\<lparr>users := users d @ [u], seq_users := s\<rparr>) = Inr v"
proof -
  assume "users_get_by_user_id name d = Inr v"
  moreover have "find P us = Some v \<Longrightarrow> find P (us @ [u]) = Some v" for P us
    by (induction us) (auto split: if_splits)
  ultimately show ?thesis by (auto simp: users_get_by_user_id_def split: option.splits)
qed

lemma not_found_free: "users_get_by_user_id name d = Inl e \<longleftrightarrow> \<not> user_name_taken name d \<and> e = ErrUserNotFound"
  by (cases "users_get_by_user_id name d") (auto simp: get_by_user_id_taken dest: get_by_user_id_Inl)

text \<open>The two halves of the seed: the state before the guest, and the new rows.\<close>

definition admin_row :: "string \<Rightarrow> timestamp \<Rightarrow> db \<Rightarrow> user" where
  "admin_row h now d = (new_user ReservedUsernameAdmin h [] [] now (seq_users d + 1))
     \<lparr>uRole := RoleAdmin, uMustChangePassword := True\<rparr>"

definition guest_row :: "timestamp \<Rightarrow> db \<Rightarrow> user" where
  "guest_row now d = (new_user ReservedUsernameGuest GuestPasswordSentinel [] [] now (seq_users d + 1))
     \<lparr>uRole := RoleGuest, uMustChangePassword := False\<rparr>"

lemma seed_rows_sel [simp]:
  "uUserID (admin_row h now d) = ReservedUsernameAdmin" "uRole (admin_row h now d) = RoleAdmin"
  "uMustChangePassword (admin_row h now d)" "uPasswordHash (admin_row h now d) = h"
  "uID (admin_row h now d) = seq_users d + 1"
  "uUserID (guest_row now d) = ReservedUsernameGuest" "uRole (guest_row now d) = RoleGuest"
  "uPasswordHash (guest_row now d) = GuestPasswordSentinel"
  by (simp_all add: admin_row_def guest_row_def new_user_def)

lemma seed_admin_spec:
  assumes "users_ok d" and "seed_admin gen pw now d = (Inr (), d1)"
  shows "(\<exists>u. users_get_by_user_id ReservedUsernameAdmin d = Inr u) \<and> d1 = d
    \<or> (\<exists>h. gen (if pw = [] then DefaultAdminPassword else pw) = Some h
         \<and> \<not> user_name_taken ReservedUsernameAdmin d
         \<and> d1 = d\<lparr>users := users d @ [admin_row h now d], seq_users := seq_users d + 1\<rparr>)"
proof (cases "users_get_by_user_id ReservedUsernameAdmin d")
  case (Inl e)
  then have "\<not> user_name_taken ReservedUsernameAdmin d" "e = ErrUserNotFound" by (simp_all add: not_found_free)
  with assms Inl insert_system_spec [OF assms(1), of RoleAdmin ReservedUsernameAdmin _ True now] show ?thesis
    by (auto simp: seed_admin_def Let_def admin_row_def split: option.splits)
qed (use assms in \<open>auto simp: seed_admin_def\<close>)

lemma seed_guest_spec:
  assumes "users_ok d" and "seed_guest now d = (Inr (), d1)"
  shows "(\<exists>u. users_get_by_user_id ReservedUsernameGuest d = Inr u) \<and> d1 = d
    \<or> (\<not> user_name_taken ReservedUsernameGuest d
         \<and> d1 = d\<lparr>users := users d @ [guest_row now d], seq_users := seq_users d + 1\<rparr>)"
proof (cases "users_get_by_user_id ReservedUsernameGuest d")
  case (Inl e)
  then have "\<not> user_name_taken ReservedUsernameGuest d" "e = ErrUserNotFound" by (simp_all add: not_found_free)
  with assms Inl insert_system_spec [OF assms(1), of RoleGuest ReservedUsernameGuest GuestPasswordSentinel False now]
  show ?thesis by (auto simp: seed_guest_def Let_def guest_row_def)
qed (use assms in \<open>auto simp: seed_guest_def\<close>)

lemma seed_admin_ok: "users_ok d \<Longrightarrow> users_ok (snd (seed_admin gen pw now d))"
  by (auto simp: seed_admin_def Let_def split: sum.splits option.splits prod.splits
      dest: users_insert_system_account_ok [of _ ReservedUsernameAdmin _ RoleAdmin True now]
      intro: snd_conv [THEN subst])
     (metis snd_conv users_insert_system_account_ok)+

lemma seed_guest_ok: "users_ok d \<Longrightarrow> users_ok (snd (seed_guest now d))"
  by (auto simp: seed_guest_def split: sum.splits prod.splits intro: snd_conv [THEN subst])
     (metis snd_conv users_insert_system_account_ok)+

lemma admin_guest_differ [simp]:
  "nocase ReservedUsernameAdmin \<noteq> nocase ReservedUsernameGuest" "nocase ReservedUsernameGuest \<noteq> nocase ReservedUsernameAdmin"
  by (simp_all add: reserved_defs)

lemma seed_split:
  assumes "users_ok d" and "seed_system_accounts gen pw now d = (Inr (), d')"
  obtains d1 where "seed_admin gen pw now d = (Inr (), d1)" "seed_guest now d1 = (Inr (), d')" "users_ok d1"
proof -
  from assms(2) obtain d1 where "seed_admin gen pw now d = (Inr (), d1)" "seed_guest now d1 = (Inr (), d')"
    by (auto simp: seed_system_accounts_def split: prod.splits sum.splits)
  with that seed_admin_ok [OF assms(1), of gen pw now] show thesis by simp
qed

lemma seed_admin_found: "users_get_by_user_id ReservedUsernameAdmin d = Inr u \<Longrightarrow> seed_admin gen pw now d = (Inr (), d)"
  by (simp add: seed_admin_def)

lemma seed_guest_found: "users_get_by_user_id ReservedUsernameGuest d = Inr u \<Longrightarrow> seed_guest now d = (Inr (), d)"
  by (simp add: seed_guest_def)

lemma seed_finds:
  assumes "users_ok d" and "seed_system_accounts gen pw now d = (Inr (), d')"
  shows "\<exists>u. users_get_by_user_id ReservedUsernameAdmin d' = Inr u
      \<and> (user_name_taken ReservedUsernameAdmin d \<or> (\<exists>h. gen (if pw = [] then DefaultAdminPassword else pw) = Some h
           \<and> u = admin_row h now d))"
    and "\<exists>u. users_get_by_user_id ReservedUsernameGuest d' = Inr u
      \<and> (user_name_taken ReservedUsernameGuest d \<or> uPasswordHash u = GuestPasswordSentinel)"
proof -
  obtain d1 where d1: "seed_admin gen pw now d = (Inr (), d1)" "seed_guest now d1 = (Inr (), d')" "users_ok d1"
    using seed_split [OF assms] .
  have a1: "\<exists>u. users_get_by_user_id ReservedUsernameAdmin d1 = Inr u
      \<and> (user_name_taken ReservedUsernameAdmin d \<or> (\<exists>h. gen (if pw = [] then DefaultAdminPassword else pw) = Some h
           \<and> u = admin_row h now d))"
    using seed_admin_spec [OF assms(1) d1(1)]
    by (auto simp: find_appended get_by_user_id_taken ok_res_def split: sum.splits)
  then show "\<exists>u. users_get_by_user_id ReservedUsernameAdmin d' = Inr u
      \<and> (user_name_taken ReservedUsernameAdmin d \<or> (\<exists>h. gen (if pw = [] then DefaultAdminPassword else pw) = Some h
           \<and> u = admin_row h now d))"
    using seed_guest_spec [OF d1(3,2)] find_kept by blast
  have g1: "user_name_taken ReservedUsernameGuest d1 \<longleftrightarrow> user_name_taken ReservedUsernameGuest d"
    using seed_admin_spec [OF assms(1) d1(1)] by (auto simp: user_name_taken_def)
  then show "\<exists>u. users_get_by_user_id ReservedUsernameGuest d' = Inr u
      \<and> (user_name_taken ReservedUsernameGuest d \<or> uPasswordHash u = GuestPasswordSentinel)"
    using seed_guest_spec [OF d1(3,2)] get_by_user_id_taken [of ReservedUsernameGuest d1]
    by (auto simp: find_appended)
qed

lemma seed_again:
  assumes "users_ok d" and "seed_system_accounts gen pw now d = (Inr (), d')"
  shows "seed_system_accounts gen' pw' now' d' = (Inr (), d')"
  using seed_finds [OF assms] seed_admin_found [of d' _ gen' pw' now'] seed_guest_found [of d' _ now']
  by (auto simp: seed_system_accounts_def)

lemma seeded_admin:
  assumes "users_ok d" and "bcrypt_laws gen cmp" and "seed_system_accounts gen pw now d = (Inr (), d')"
    and "users_get_by_user_id ReservedUsernameAdmin d = Inl ErrUserNotFound"
  shows "\<exists>u. users_get_by_user_id ReservedUsernameAdmin d' = Inr u \<and> uRole u = RoleAdmin
     \<and> uMustChangePassword u \<and> cmp (uPasswordHash u) (if pw = [] then DefaultAdminPassword else pw)"
proof -
  let ?pw = "if pw = [] then DefaultAdminPassword else pw"
  have "\<not> user_name_taken ReservedUsernameAdmin d" using assms(4) by (simp add: not_found_free)
  with seed_finds(1) [OF assms(1,3)] obtain h where h: "gen ?pw = Some h"
    "users_get_by_user_id ReservedUsernameAdmin d' = Inr (admin_row h now d)" by blast
  have "length ?pw \<le> 72" using h(1) assms(2) unfolding bcrypt_laws_def by (metis not_le option.distinct(1))
  then have "cmp h ?pw" using h(1) assms(2) unfolding bcrypt_laws_def by (metis option.inject)
  with h(2) show ?thesis by simp
qed

lemma seeded_guest:
  assumes "users_ok d" and "bcrypt_laws gen cmp" and "seed_system_accounts gen pw now d = (Inr (), d')"
    and "users_get_by_user_id ReservedUsernameGuest d = Inl ErrUserNotFound"
  shows "verify_login cmp ReservedUsernameGuest p host now' d' = (Inl ErrBadCredentials, d')"
proof -
  have "\<not> user_name_taken ReservedUsernameGuest d" using assms(4) by (simp add: not_found_free)
  with seed_finds(2) [OF assms(1,3)] obtain u where
    u: "users_get_by_user_id ReservedUsernameGuest d' = Inr u" "uPasswordHash u = GuestPasswordSentinel" by blast
  have "\<not> cmp GuestPasswordSentinel p"
    using assms(2) by (simp add: bcrypt_laws_def GuestPasswordSentinel_def)
  moreover have "trim_space ReservedUsernameGuest = ReservedUsernameGuest"
    by (simp add: reserved_defs trim_space_trimmed trimmed_def leading_def spaces_def)
  ultimately show ?thesis using u by (simp add: verify_login_def)
qed

section \<open>Loopback addresses\<close>

lemma loopback_dotted:
  assumes "length os = 4" and "\<forall>x \<in> set os. octet_ok x" and "\<forall>c \<in> set port. is_digit c"
  shows "is_loopback_host (dotted os @ '':'' @ port) \<longleftrightarrow> dec_value (hd os) = 127"
proof -
  have chars: "is_digit c \<or> c = CHR ''.''" if "c \<in> set (dotted os @ port)" for c
    using dotted_chars [OF assms(2), of c] assms(3) that by auto
  have no: "CHR '':'' \<notin> set (dotted os @ port)" "CHR ''['' \<notin> set (dotted os @ port)"
    "CHR '']'' \<notin> set (dotted os @ port)"
    using chars [of "CHR '':''"] chars [of "CHR ''[''"] chars [of "CHR '']''"]
    by (auto simp: is_digit_def byte_of_def simp del: set_append)
  then have sp: "split_host_port (dotted os @ CHR '':'' # port) = Some (dotted os, port)"
    by (intro split_host_port_plain) auto
  have "dotted os \<noteq> []" using assms(1) by (cases os; cases "tl os") (auto simp: dotted_def)
  then have "\<not> has_prefix (dotted os) ''[''" "\<not> has_suffix (dotted os) '']''"
    using no(2,3) by (auto simp: has_prefix_iff has_suffix_iff)
  moreover have "os \<noteq> []" using assms(1) by auto
  ultimately show ?thesis
    using sp parse_dotted [OF assms(1,2)]
    by (simp add: is_loopback_host_def Let_def ip_is_loopback_def hd_map)
qed

end
