(* ===== verification/AuthProps.thy ===== *)
theory AuthProps
  imports Auth
begin

text \<open>What \<open>internal/auth\<close> promises: who can register and log in, and what a refusal leaves behind.\<close>

section \<open>Registration\<close>

text \<open>C37: \<open>Register\<close> succeeds exactly for a free, well-formed, unreserved name, a password of 6 to 72
  bytes, a nickname of at most 32 runes and an e-mail of at most 128 bytes; the account it returns is
  the one in the database, an ordinary user with the default locale. A refusal changes nothing and is answered
  with the error of the first check that fails, in the order name, reserved name, password, nickname, e-mail, bcrypt,
  taken name.\<close>

theorem register_succeeds_iff:
  assumes "db_inv d" and "bcrypt_laws gen cmp" and "register gen dflt x p nick email now d = (r, d')"
  shows "((\<exists>u. r = Inr u) \<longleftrightarrow>
      user_id_matches (trim_space x) \<and> nocase (trim_space x) \<notin> {''new'', ''guest'', ''admin''}
      \<and> 6 \<le> length p \<and> length p \<le> 72 \<and> rune_count (trim_space nick) \<le> 32
      \<and> length (trim_space email) \<le> 128
      \<and> (\<forall>v \<in> set (users d). nocase (uUserID v) \<noteq> nocase (trim_space x)))
    \<and> (case r of
         Inl e \<Rightarrow> d' = d
           \<and> e = (if \<not> user_id_matches (trim_space x) then ErrInvalidUserID
                  else if nocase (trim_space x) \<in> {''new'', ''guest'', ''admin''} then ErrReservedUsername
                  else if length p < 6 \<or> 128 < length p then ErrInvalidPassword
                  else if 32 < rune_count (trim_space nick) then ErrNicknameTooLong
                  else if 128 < length (trim_space email) then ErrEmailTooLong
                  else if 72 < length p then HashError
                  else ErrUserExists)
       | Inr u \<Rightarrow> users d' = users d @ [u] \<and> uUserID u = trim_space x \<and> uRole u = RoleUser
           \<and> uLocale u = dflt \<and> cmp (uPasswordHash u) p \<and> \<not> uMustChangePassword u)"
proof -
  have ok: "users_ok d" using assms(1) by (simp add: db_inv_def)
  have gen: "gen p = Some h \<Longrightarrow> length p \<le> 72 \<and> cmp h p" "gen p = None \<longleftrightarrow> 72 < length p" for h
    using assms(2) unfolding bcrypt_laws_def by (metis not_le option.distinct(1) option.inject)+
  show ?thesis
  proof (cases "register_outcome gen x p nick email d")
    case (Inl e)
    then have "r = Inl e" "d' = d" using register_cases [OF ok, of gen dflt x p nick email now] assms(3) by auto
    with Inl gen(2) show ?thesis
      by (auto simp: register_outcome_def user_name_taken_def split: if_splits option.splits)
  next
    case (Inr h)
    then have "r = Inr (registered_user dflt x h nick email now d)"
      "users d' = users d @ [registered_user dflt x h nick email now d]"
      using register_cases [OF ok, of gen dflt x p nick email now] assms(3) by auto
    with Inr gen(1) [of h] show ?thesis
      by (auto simp: register_outcome_def user_name_taken_def split: if_splits option.splits)
  qed
qed

lemma demo_register:
  "register demo_gen ''en'' ''carol'' ''secret'' [] [] demo_now demo_db =
    (Inr (registered_user ''en'' ''carol'' (replicate 59 (CHR ''$'') @ ''secret'') [] [] demo_now demo_db),
     demo_db\<lparr>users := users demo_db @ [registered_user ''en'' ''carol'' (replicate 59 (CHR ''$'') @ ''secret'') [] [] demo_now demo_db],
       seq_users := 3\<rparr>)"
proof -
  have t: "trim_space ''carol'' = ''carol''" "trim_space [] = []"
    by (simp_all add: trim_space_trimmed trimmed_def leading_def spaces_def)
  have "user_id_matches ''carol''"
    by (simp add: user_id_matches_def is_letter_def is_upper_def is_lower_def byte_of_def)
  moreover have "\<not> user_name_taken ''carol'' demo_db" by (simp add: user_name_taken_def demo_user_def)
  ultimately have "register_outcome demo_gen ''carol'' ''secret'' [] [] demo_db =
      Inr (replicate 59 (CHR ''$'') @ ''secret'')"
    by (simp add: register_outcome_def t rune_count_def demo_gen_def)
  with register_cases [OF demo_users_ok, of demo_gen "''en''" "''carol''" "''secret''" "[]" "[]" demo_now]
  show ?thesis by simp
qed

lemma register_succeeds_iff_witness:
  "\<exists>u d'. register demo_gen ''en'' ''carol'' ''secret'' [] [] demo_now demo_db = (Inr u, d')
    \<and> users d' = users demo_db @ [u] \<and> uLocale u = ''en''"
  using register_succeeds_iff [OF demo_db_inv demo_bcrypt demo_register] demo_register by auto

text \<open>The limits of \<open>ValidatePassword\<close> and of bcrypt disagree: a password of 73 to 128 bytes passes
  the validation that announces 6 to 128 characters, and registering with it fails with a hash error
  when everything else is right.\<close>

theorem long_password_hash_error:
  assumes "db_inv d" and "bcrypt_laws gen cmp" and "72 < length p" and "length p \<le> 128"
    and "user_id_matches (trim_space x)" and "nocase (trim_space x) \<notin> {''new'', ''guest'', ''admin''}"
    and "rune_count (trim_space nick) \<le> 32" and "length (trim_space email) \<le> 128"
  shows "validate_password p = None \<and> register gen dflt x p nick email now d = (Inl HashError, d)"
proof -
  have "users_ok d" using assms(1) by (simp add: db_inv_def)
  moreover have "gen p = None" using assms(2,3) by (simp add: bcrypt_laws_def)
  ultimately show ?thesis
    using assms(3-8) by (simp add: register_cases register_outcome_def validate_password_def limit_defs)
qed

lemma long_password_hash_error_witness:
  "register demo_gen ''en'' ''carol'' (replicate 100 (CHR ''x'')) [] [] demo_now demo_db = (Inl HashError, demo_db)"
proof -
  have t: "trim_space ''carol'' = ''carol''" "trim_space [] = []"
    by (simp_all add: trim_space_trimmed trimmed_def leading_def spaces_def)
  have "user_id_matches ''carol''"
    by (simp add: user_id_matches_def is_letter_def is_upper_def is_lower_def byte_of_def)
  with long_password_hash_error [OF demo_db_inv demo_bcrypt, of "replicate 100 (CHR ''x'')" "''carol''" "[]" "[]"] t
  show ?thesis by (simp add: rune_count_def)
qed

section \<open>Login\<close>

text \<open>C18: an account just registered can log in with its password, under any letter case of its name
  and with white space around it; the login is recorded in its row, counted once, with the time and
  host of the connection. Any text that bcrypt does not match with the stored hash is refused as the password, and the
  refusal changes nothing.\<close>

theorem register_then_login:
  assumes "db_inv d" and "bcrypt_laws gen cmp" and "register gen dflt x p nick email now d = (Inr u, d1)"
    and "nocase (trim_space y) = nocase (uUserID u)"
  shows "\<exists>v d2. verify_login cmp y p host later d1 = (Inr v, d2)
    \<and> v = u\<lparr>uLastLoginAt := Some later, uLastHost := Some host, uNumLogins := 1\<rparr>
    \<and> users_get_by_id (uID u) d2 = Inr v
    \<and> (\<not> cmp (uPasswordHash u) q \<longrightarrow> verify_login cmp y q host later d1 = (Inl ErrBadCredentials, d1))"
proof -
  have ok: "users_ok d" using assms(1) by (simp add: db_inv_def)
  obtain h where h: "register_outcome gen x p nick email d = Inr h"
    "u = registered_user dflt x h nick email now d"
    "d1 = d\<lparr>users := users d @ [u], seq_users := seq_users d + 1\<rparr>"
    using register_cases [OF ok, of gen dflt x p nick email now] assms(3) by (auto split: sum.splits)
  then have free: "\<not> user_name_taken (uUserID u) d" and hash: "gen p = Some h"
    by (auto simp: register_outcome_def split: if_splits option.splits)
  have ok1: "users_ok d1" unfolding h(3)
    using free h(2) by (intro users_ok_appended [OF ok]) simp_all
  have "length p \<le> 72" using hash assms(2) unfolding bcrypt_laws_def by (metis not_le option.distinct(1))
  then have "cmp (uPasswordHash u) p"
    using assms(2) hash h(2) unfolding bcrypt_laws_def by fastforce
  then have vl: "verify_login cmp y p host later d1 =
      (Inr (u\<lparr>uLastLoginAt := Some later, uLastHost := Some host, uNumLogins := uNumLogins u + 1\<rparr>),
       snd (users_note_login (uID u) host later d1))"
    using assms(4) h(2,3) by (intro verify_login_found [OF ok1]) (simp_all add: role_defs)
  have "users_get_by_id (uID u) d1 = Inr u" using ok1 h(3) by (simp add: get_by_id_iff)
  then have "users_get_by_id (uID u) (snd (users_note_login (uID u) host later d1)) =
      Inr (u\<lparr>uLastLoginAt := Some later, uLastHost := Some host, uNumLogins := uNumLogins u + 1\<rparr>)"
    by (simp add: users_note_login_def get_by_id_update)
  moreover have "users_get_by_user_id (trim_space y) d1 = Inr u" using ok1 h(3) assms(4) by (simp add: get_by_user_id_iff)
  then have "\<not> cmp (uPasswordHash u) q \<longrightarrow> verify_login cmp y q host later d1 = (Inl ErrBadCredentials, d1)"
    by (simp add: verify_login_def)
  ultimately show ?thesis using vl h(2) by simp
qed

lemma register_then_login_witness:
  "\<exists>u d1 v d2. register demo_gen ''en'' ''carol'' ''secret'' [] [] demo_now demo_db = (Inr u, d1)
    \<and> verify_login demo_cmp ''CAROL'' ''secret'' ''127.0.0.1:5'' demo_now d1 = (Inr v, d2) \<and> uNumLogins v = 1
    \<and> verify_login demo_cmp ''CAROL'' ''Secret'' ''127.0.0.1:5'' demo_now d1 = (Inl ErrBadCredentials, d1)"
proof -
  have t: "trim_space ''CAROL'' = ''CAROL''" "trim_space ''carol'' = ''carol''"
    by (simp_all add: trim_space_trimmed trimmed_def leading_def spaces_def)
  let ?u = "registered_user ''en'' ''carol'' (replicate 59 (CHR ''$'') @ ''secret'') [] [] demo_now demo_db"
  have "\<not> demo_cmp (uPasswordHash ?u) ''Secret''" by (simp add: registered_user_def demo_cmp_def)
  moreover have "nocase (trim_space ''CAROL'') = nocase (uUserID ?u)" by (simp add: t)
  ultimately obtain v d2 where "verify_login demo_cmp ''CAROL'' ''secret'' ''127.0.0.1:5'' demo_now (demo_db\<lparr>users := users demo_db @ [?u], seq_users := 3\<rparr>) = (Inr v, d2)"
    "v = ?u\<lparr>uLastLoginAt := Some demo_now, uLastHost := Some ''127.0.0.1:5'', uNumLogins := 1\<rparr>"
    "verify_login demo_cmp ''CAROL'' ''Secret'' ''127.0.0.1:5'' demo_now (demo_db\<lparr>users := users demo_db @ [?u], seq_users := 3\<rparr>) =
      (Inl ErrBadCredentials, demo_db\<lparr>users := users demo_db @ [?u], seq_users := 3\<rparr>)"
    using register_then_login [OF demo_db_inv demo_bcrypt demo_register, of "''CAROL''" "''127.0.0.1:5''" demo_now "''Secret''"] by blast
  with demo_register show ?thesis by auto
qed

text \<open>Every failed login is answered with the same error, for a name that does not exist and for a
  wrong password alike, leaves the database as it was, and means that no account of that name has
  that password.\<close>

theorem login_failure_uniform:
  assumes "db_inv d" and "verify_login cmp x p host now d = (Inl e, d')"
  shows "e = ErrBadCredentials \<and> d' = d
    \<and> (\<forall>u \<in> set (users d). nocase (uUserID u) = nocase (trim_space x) \<longrightarrow> \<not> cmp (uPasswordHash u) p)"
  using verify_login_Inl [of d cmp x p host now e d'] assms by (auto simp: db_inv_def)

lemma login_failure_uniform_witness:
  "verify_login demo_cmp ''alice'' ''wrong'' ''h'' demo_now demo_db = (Inl ErrBadCredentials, demo_db)
   \<and> verify_login demo_cmp ''nobody'' ''wrong'' ''h'' demo_now demo_db = (Inl ErrBadCredentials, demo_db)"
proof -
  have t: "trim_space ''alice'' = ''alice''" "trim_space ''nobody'' = ''nobody''"
    by (simp_all add: trim_space_trimmed trimmed_def leading_def spaces_def)
  have "\<exists>e d'. verify_login demo_cmp ''alice'' ''wrong'' ''h'' demo_now demo_db = (Inl e, d')"
    "\<exists>e d'. verify_login demo_cmp ''nobody'' ''wrong'' ''h'' demo_now demo_db = (Inl e, d')"
    by (simp_all add: verify_login_def t users_get_by_user_id_def demo_user_def demo_cmp_def new_user_def)
  then show ?thesis using login_failure_uniform [OF demo_db_inv] by blast
qed

section \<open>System accounts\<close>

text \<open>Seeding the system accounts twice is seeding them once: after a successful run both accounts
  exist and a further run, with any password, changes nothing. Where they did not exist before, the
  administrator has to change the given or default password, and the guest account cannot log in
  with any password.\<close>

theorem seed_accounts_once:
  assumes "db_inv d" and "bcrypt_laws gen cmp" and "seed_system_accounts gen pw now d = (Inr (), d')"
  shows "seed_system_accounts gen' pw' now' d' = (Inr (), d')
    \<and> (users_get_by_user_id ReservedUsernameAdmin d = Inl ErrUserNotFound \<longrightarrow>
        (\<exists>u. users_get_by_user_id ReservedUsernameAdmin d' = Inr u \<and> uRole u = RoleAdmin
           \<and> uMustChangePassword u
           \<and> cmp (uPasswordHash u) (if pw = [] then DefaultAdminPassword else pw)))
    \<and> (users_get_by_user_id ReservedUsernameGuest d = Inl ErrUserNotFound \<longrightarrow>
        verify_login cmp ReservedUsernameGuest p host now' d' = (Inl ErrBadCredentials, d'))"
  using assms by (intro conjI impI seed_again seeded_admin seeded_guest) (auto simp: db_inv_def)

lemma seed_accounts_once_witness:
  "\<exists>d'. seed_system_accounts demo_gen [] demo_now demo_db = (Inr (), d')
    \<and> seed_system_accounts demo_gen ''other'' demo_now d' = (Inr (), d') \<and> length (users d') = 4"
proof -
  obtain r d' where sd: "seed_system_accounts demo_gen [] demo_now demo_db = (r, d')" by fastforce
  have "r = Inr () \<and> length (users d') = 4"
    using sd
    by (simp add: seed_system_accounts_def seed_admin_def seed_guest_def demo_gen_def reserved_defs
        DefaultAdminPassword_def users_insert_system_account_def user_name_taken_def users_get_by_user_id_def
        demo_user_def ins_user_def users_get_by_id_def find_row_def new_user_def Let_def split: if_splits)
      (auto simp: demo_db_def new_user_def demo_user_def)
  with sd seed_accounts_once [OF demo_db_inv demo_bcrypt, of "[]" demo_now d'] show ?thesis by auto
qed

section \<open>The remote block\<close>

text \<open>An administrator who has not changed the bootstrap password yet can come in over IPv4 from
  the loopback network 127.0.0.0/8 only, whatever the port; other roles and administrators who have
  changed it are never blocked.\<close>

theorem bootstrap_admin_local_only:
  assumes "length os = 4" and "\<forall>x \<in> set os. octet_ok x" and "\<forall>c \<in> set port. is_digit c"
  shows "must_change_password_remote_blocked (Some u) (dotted os @ '':'' @ port) \<longleftrightarrow>
    uRole u = RoleAdmin \<and> uMustChangePassword u \<and> dec_value (hd os) \<noteq> 127"
  using loopback_dotted [OF assms] by (simp add: must_change_password_remote_blocked_def)

lemma bootstrap_admin_local_only_witness:
  "must_change_password_remote_blocked (Some ((demo_user 1 ''admin'')\<lparr>uRole := RoleAdmin, uMustChangePassword := True\<rparr>))
     ''10.0.0.7:2222''
   \<and> \<not> must_change_password_remote_blocked (Some ((demo_user 1 ''admin'')\<lparr>uRole := RoleAdmin, uMustChangePassword := True\<rparr>))
     ''127.0.0.1:2222''"
proof -
  have "octet_ok ''10''" "octet_ok ''0''" "octet_ok ''7''" "octet_ok ''127''" "octet_ok ''1''"
    "dec_value ''10'' = 10" "dec_value ''127'' = 127" "\<forall>c \<in> set ''2222''. is_digit c"
    by (simp_all add: octet_ok_def dec_value_def is_digit_def byte_of_def)
  with bootstrap_admin_local_only [of "[''10'', ''0'', ''0'', ''7'']" "''2222''"
      "(demo_user 1 ''admin'')\<lparr>uRole := RoleAdmin, uMustChangePassword := True\<rparr>"]
    bootstrap_admin_local_only [of "[''127'', ''0'', ''0'', ''1'']" "''2222''"
      "(demo_user 1 ''admin'')\<lparr>uRole := RoleAdmin, uMustChangePassword := True\<rparr>"]
  show ?thesis by (simp add: dotted_def)
qed

end
