(* ===== verification/Broker.thy ===== *)
theory Broker
  imports NotifyRepo
begin

text \<open>
  \<open>internal/chat/broker.go\<close>: the registry of live sessions. A \<open>*tea.Program\<close> is an identity, here a
  number; the map from user ids to sessions is an association list with one entry per user, and a
  loop over the map visits the entries in list order, one of the orders Go may choose. Every method
  holds the mutex for its whole body, so each is one step.
\<close>

record session =
  sUserID :: int
  sUserIDStr :: string
  sProgram :: nat

record online_user =
  ouUserID :: int
  ouUserIDStr :: string
  ouSessions :: nat

type_synonym broker = "(int \<times> session list) list"

definition new_broker :: broker where
  "new_broker = []"

definition sessions_of :: "broker \<Rightarrow> int \<Rightarrow> session list" where
  "sessions_of b uid = (case map_of b uid of None \<Rightarrow> [] | Some ss \<Rightarrow> ss)"

definition broker_register :: "session \<Rightarrow> broker \<Rightarrow> broker" where
  "broker_register s b = upsert (sUserID s) (sessions_of b (sUserID s) @ [s]) b"

fun remove_program :: "nat \<Rightarrow> session list \<Rightarrow> session list" where
  "remove_program p [] = []"
| "remove_program p (s # ss) = (if sProgram s = p then ss else s # remove_program p ss)"

definition broker_unregister :: "int \<Rightarrow> nat \<Rightarrow> broker \<Rightarrow> broker" where
  "broker_unregister uid p b =
    (let ss = remove_program p (sessions_of b uid)
     in if ss = [] then filter (\<lambda>e. fst e \<noteq> uid) b else upsert uid ss b)"

text \<open>A delivery is a message handed to a program, in the order of the calls to \<open>Send\<close>.\<close>

definition broker_send :: "int \<Rightarrow> 'm \<Rightarrow> broker \<Rightarrow> bool \<times> (nat \<times> 'm) list" where
  "broker_send to_uid msg b =
    (let ss = sessions_of b to_uid in (ss \<noteq> [], map (\<lambda>s. (sProgram s, msg)) ss))"

definition broker_send_to_all :: "int \<Rightarrow> 'm \<Rightarrow> broker \<Rightarrow> (nat \<times> 'm) list" where
  "broker_send_to_all exclude msg b =
    concat (map (\<lambda>e. if fst e = exclude then [] else map (\<lambda>s. (sProgram s, msg)) (snd e)) b)"

definition broker_is_online :: "int \<Rightarrow> broker \<Rightarrow> bool" where
  "broker_is_online uid b \<longleftrightarrow> sessions_of b uid \<noteq> []"

definition equal_fold :: "string \<Rightarrow> string \<Rightarrow> bool" where
  "equal_fold a b \<longleftrightarrow> length a = length b \<and> list_all2 (\<lambda>x y. ascii_lower x = ascii_lower y) a b"

definition broker_lookup_by_user_id :: "string \<Rightarrow> broker \<Rightarrow> int" where
  "broker_lookup_by_user_id name b =
    (case find (\<lambda>e. list_ex (\<lambda>s. equal_fold (sUserIDStr s) name) (snd e)) b of
       None \<Rightarrow> 0
     | Some e \<Rightarrow> fst e)"

definition broker_online_list :: "broker \<Rightarrow> online_user list" where
  "broker_online_list b =
    map (\<lambda>e. \<lparr>ouUserID = fst e, ouUserIDStr = sUserIDStr (hd (snd e)), ouSessions = length (snd e)\<rparr>)
      (filter (\<lambda>e. snd e \<noteq> []) b)"

definition broker_sessions_snapshot :: "broker \<Rightarrow> session list" where
  "broker_sessions_snapshot b = concat (map snd b)"

section \<open>The interface: sessions that join and leave\<close>

text \<open>
  What the rest of the program relies on: a session that joins is appended to those of its user, a
  session that leaves is taken out, and other users are not touched.
\<close>

lemma filter_key_absent: "k \<notin> f ` set xs \<Longrightarrow> filter (\<lambda>x. f x \<noteq> k) xs = xs"
  by (induction xs) auto

text \<open>
  A log of joins and leaves. It is orderly when a program joins once and leaves only after it has
  joined.
\<close>

definition log_joined :: "('s + int \<times> nat) list \<Rightarrow> 's list" where
  "log_joined evs = concat (map (\<lambda>e. case e of Inl s \<Rightarrow> [s] | Inr _ \<Rightarrow> []) evs)"

fun log_orderly :: "('s \<Rightarrow> nat) \<Rightarrow> ('s + int \<times> nat) list \<Rightarrow> bool" where
  "log_orderly prog [] = True"
| "log_orderly prog (Inl s # evs) = (log_orderly prog evs \<and> prog s \<notin> prog ` set (log_joined evs))"
| "log_orderly prog (Inr (u, p) # evs) = (log_orderly prog evs \<and> p \<notin> prog ` set (log_joined evs))"

lemma log_joined_simps [simp]:
  "log_joined [] = []" "log_joined (Inl s # evs) = s # log_joined evs"
  "log_joined (Inr x # evs) = log_joined evs" "log_joined (evs @ evs') = log_joined evs @ log_joined evs'"
  by (simp_all add: log_joined_def)

lemma log_joined_mem: "s \<in> set (log_joined evs) \<longleftrightarrow> Inl s \<in> set evs"
  by (force simp: log_joined_def split: sum.splits)

lemma log_orderly_distinct: "log_orderly prog evs \<Longrightarrow> distinct (map prog (log_joined evs))"
  by (induction prog evs rule: log_orderly.induct) auto

lemma log_orderly_append: "log_orderly prog (evs @ evs') \<Longrightarrow> log_orderly prog evs"
  by (induction prog evs rule: log_orderly.induct) auto

lemma log_orderly_last:
  "log_orderly prog (evs @ [Inl s]) \<Longrightarrow> Inr (u, prog s) \<notin> set evs \<and> prog s \<notin> prog ` set (log_joined evs)"
  by (induction prog evs rule: log_orderly.induct) auto

locale presence =
  fixes join :: "'s \<Rightarrow> 'b \<Rightarrow> 'b"
    and leave :: "int \<Rightarrow> nat \<Rightarrow> 'b \<Rightarrow> 'b"
    and sess :: "'b \<Rightarrow> int \<Rightarrow> 's list"
    and owner :: "'s \<Rightarrow> int"
    and prog :: "'s \<Rightarrow> nat"
    and none :: 'b
  assumes sess_none: "sess none u = []"
    and sess_join: "sess (join s b) u = (if u = owner s then sess b u @ [s] else sess b u)"
    and sess_leave: "distinct (map prog (sess b u)) \<Longrightarrow>
      sess (leave u p b) v = (if v = u then filter (\<lambda>s. prog s \<noteq> p) (sess b u) else sess b v)"
begin

lemma join_leave:
  "distinct (map prog (sess (join s b) (owner s))) \<Longrightarrow>
    sess (leave (owner s) (prog s) (join s b)) v = sess b v"
proof -
  assume d: "distinct (map prog (sess (join s b) (owner s)))"
  then have "prog s \<notin> prog ` set (sess b (owner s))" by (auto simp: sess_join)
  then have "filter (\<lambda>x. prog x \<noteq> prog s) (sess b (owner s)) = sess b (owner s)"
    by (rule filter_key_absent)
  with sess_leave [OF d] show ?thesis by (simp add: sess_join)
qed

text \<open>After a log, the live sessions of a user are those that joined and have not left.\<close>

definition replay :: "('s + int \<times> nat) list \<Rightarrow> 'b" where
  "replay evs = fold (\<lambda>e b. case e of Inl s \<Rightarrow> join s b | Inr (u, p) \<Rightarrow> leave u p b) evs none"

lemma replay_live:
  "log_orderly prog evs \<Longrightarrow>
    sess (replay evs) u = filter (\<lambda>s. owner s = u \<and> Inr (u, prog s) \<notin> set evs) (log_joined evs)"
proof (induction evs arbitrary: u rule: rev_induct)
  case Nil
  show ?case by (simp add: replay_def sess_none)
next
  case (snoc e evs)
  have ord: "log_orderly prog evs" using snoc.prems by (rule log_orderly_append)
  show ?case
  proof (cases e)
    case (Inl s)
    with snoc.prems have "Inr (u, prog s) \<notin> set evs" for u by (auto dest: log_orderly_last)
    with Inl snoc.IH [OF ord] show ?thesis
      by (auto simp: replay_def sess_join)
  next
    case (Inr x)
    obtain v p where x: "x = (v, p)" by fastforce
    have "distinct (map prog (sess (replay evs) v))"
      using log_orderly_distinct [OF ord] unfolding snoc.IH [OF ord] by (rule distinct_map_filter)
    from sess_leave [OF this, of p u] snoc.IH [OF ord] Inr x show ?thesis
      by (auto simp: replay_def intro: filter_cong)
  qed
qed

end

section \<open>The broker provides it\<close>

lemma sessions_of_upsert [simp]: "sessions_of (upsert k v b) u = (if u = k then v else sessions_of b u)"
  by (simp add: sessions_of_def)

lemma map_of_filter_key: "map_of (filter (\<lambda>e. fst e \<noteq> k) b) u = (if u = k then None else map_of b u)"
  by (induction b) auto

lemma sessions_of_filter [simp]:
  "sessions_of (filter (\<lambda>e. fst e \<noteq> k) b) u = (if u = k then [] else sessions_of b u)"
  by (simp add: sessions_of_def map_of_filter_key)

lemma sessions_of_unregister:
  "sessions_of (broker_unregister u p b) v = (if v = u then remove_program p (sessions_of b u) else sessions_of b v)"
  by (simp add: broker_unregister_def Let_def)

lemma remove_program_filter:
  "distinct (map sProgram ss) \<Longrightarrow> remove_program p ss = filter (\<lambda>s. sProgram s \<noteq> p) ss"
proof (induction ss)
  case (Cons s ss)
  show ?case
  proof (cases "sProgram s = p")
    case True
    with Cons.prems have "p \<notin> sProgram ` set ss" by simp
    from filter_key_absent [OF this] True show ?thesis by simp
  qed (use Cons in simp)
qed simp

interpretation chat: presence broker_register broker_unregister sessions_of sUserID sProgram new_broker
proof
  show "sessions_of new_broker u = []" for u by (simp add: new_broker_def sessions_of_def)
  show "sessions_of (broker_register s b) u =
      (if u = sUserID s then sessions_of b u @ [s] else sessions_of b u)" for s b u
    by (simp add: broker_register_def)
  show "distinct (map sProgram (sessions_of b u)) \<Longrightarrow> sessions_of (broker_unregister u p b) v =
      (if v = u then filter (\<lambda>s. sProgram s \<noteq> p) (sessions_of b u) else sessions_of b v)" for b u p v
    by (simp add: sessions_of_unregister remove_program_filter)
qed

text \<open>One entry per user, none of them empty.\<close>

definition broker_ok :: "broker \<Rightarrow> bool" where
  "broker_ok b \<longleftrightarrow> distinct (map fst b) \<and> (\<forall>e \<in> set b. snd e \<noteq> [])"

lemma set_upsert: "distinct (map fst b) \<Longrightarrow>
    set (upsert k v b) = insert (k, v) {e \<in> set b. fst e \<noteq> k}"
proof (induction b)
  case (Cons e b)
  then show ?case by (auto simp: image_iff)
qed simp

lemma broker_ok_register: "broker_ok b \<Longrightarrow> broker_ok (broker_register s b)"
  by (auto simp: broker_ok_def broker_register_def upsert_distinct set_upsert)

lemma broker_ok_unregister: "broker_ok b \<Longrightarrow> broker_ok (broker_unregister u p b)"
  by (auto simp: broker_ok_def broker_unregister_def Let_def upsert_distinct set_upsert distinct_map_filter)

lemma broker_ok_new: "broker_ok new_broker"
  by (simp add: broker_ok_def new_broker_def)

definition broker_replay :: "(session + int \<times> nat) list \<Rightarrow> broker" where
  "broker_replay evs =
    fold (\<lambda>e b. case e of Inl s \<Rightarrow> broker_register s b | Inr (u, p) \<Rightarrow> broker_unregister u p b) evs new_broker"

lemma broker_replay_chat: "broker_replay evs = chat.replay evs"
  by (simp add: broker_replay_def chat.replay_def)

lemma broker_ok_replay: "broker_ok (broker_replay evs)"
proof -
  have "broker_ok b \<Longrightarrow> broker_ok (fold (\<lambda>e b. case e of Inl s \<Rightarrow> broker_register s b
      | Inr (u, p) \<Rightarrow> broker_unregister u p b) evs b)" for b
    by (induction evs arbitrary: b) (auto simp: broker_ok_register broker_ok_unregister split: sum.splits)
  then show ?thesis by (simp add: broker_replay_def broker_ok_new)
qed

lemma sessions_of_mem: "distinct (map fst b) \<Longrightarrow> (u, ss) \<in> set b \<Longrightarrow> sessions_of b u = ss"
  by (simp add: sessions_of_def)

lemma sessions_of_ex: "sessions_of b u \<noteq> [] \<Longrightarrow> (u, sessions_of b u) \<in> set b"
  by (auto simp: sessions_of_def split: option.splits dest: map_of_SomeD)

lemma snapshot_set:
  assumes "broker_ok b"
  shows "set (broker_sessions_snapshot b) = (\<Union>u. set (sessions_of b u))"
proof
  show "set (broker_sessions_snapshot b) \<subseteq> (\<Union>u. set (sessions_of b u))"
    using assms sessions_of_mem by (fastforce simp: broker_sessions_snapshot_def broker_ok_def)
  show "(\<Union>u. set (sessions_of b u)) \<subseteq> set (broker_sessions_snapshot b)"
  proof
    fix s assume "s \<in> (\<Union>u. set (sessions_of b u))"
    then obtain u where u: "s \<in> set (sessions_of b u)" by blast
    then have "(u, sessions_of b u) \<in> set b" by (intro sessions_of_ex) auto
    with u show "s \<in> set (broker_sessions_snapshot b)" by (force simp: broker_sessions_snapshot_def)
  qed
qed

lemma send_to_all_set:
  assumes "broker_ok b"
  shows "set (broker_send_to_all x msg b) = {(sProgram s, msg) | s u. u \<noteq> x \<and> s \<in> set (sessions_of b u)}"
proof
  show "set (broker_send_to_all x msg b) \<subseteq> {(sProgram s, msg) | s u. u \<noteq> x \<and> s \<in> set (sessions_of b u)}"
    using assms sessions_of_mem
    by (fastforce simp: broker_send_to_all_def broker_ok_def split: if_splits)
  show "{(sProgram s, msg) | s u. u \<noteq> x \<and> s \<in> set (sessions_of b u)} \<subseteq> set (broker_send_to_all x msg b)"
  proof
    fix d assume "d \<in> {(sProgram s, msg) | s u. u \<noteq> x \<and> s \<in> set (sessions_of b u)}"
    then obtain s u where u: "d = (sProgram s, msg)" "u \<noteq> x" "s \<in> set (sessions_of b u)" by blast
    then have "(u, sessions_of b u) \<in> set b" by (intro sessions_of_ex) auto
    with u show "d \<in> set (broker_send_to_all x msg b)" by (force simp: broker_send_to_all_def)
  qed
qed

lemma equal_fold_nocase: "equal_fold a b \<longleftrightarrow> nocase a = nocase b"
  by (auto simp: equal_fold_def nocase_def list_all2_conv_all_nth list_eq_iff_nth_eq dest: map_eq_imp_length_eq)

section \<open>Properties\<close>

text \<open>C31: after any sequence of registrations and unregistrations in which every program registers
  before it unregisters and registers once, the sessions of a user are exactly those that registered
  and have not unregistered, in order of arrival; the user is online exactly when there is one, and
  the online list names each such user once with the number of sessions.\<close>

theorem broker_tracks_sessions:
  assumes "log_orderly sProgram evs" and "b = broker_replay evs"
  shows "sessions_of b u = filter (\<lambda>s. sUserID s = u \<and> Inr (u, sProgram s) \<notin> set evs) (log_joined evs)
    \<and> (broker_is_online u b \<longleftrightarrow>
         (\<exists>s. Inl s \<in> set evs \<and> sUserID s = u \<and> Inr (u, sProgram s) \<notin> set evs))
    \<and> distinct (map ouUserID (broker_online_list b))
    \<and> (\<forall>x \<in> set (broker_online_list b). ouSessions x = length (sessions_of b (ouUserID x)) \<and> 0 < ouSessions x)
    \<and> (broker_is_online u b \<longleftrightarrow> u \<in> ouUserID ` set (broker_online_list b))"
proof -
  have live: "sessions_of b u = filter (\<lambda>s. sUserID s = u \<and> Inr (u, sProgram s) \<notin> set evs) (log_joined evs)" for u
    using chat.replay_live [OF assms(1)] assms(2) by (simp add: broker_replay_chat)
  have ok: "broker_ok b" using broker_ok_replay assms(2) by simp
  have "broker_is_online u b \<longleftrightarrow> (\<exists>s. Inl s \<in> set evs \<and> sUserID s = u \<and> Inr (u, sProgram s) \<notin> set evs)"
    by (auto simp: broker_is_online_def live log_joined_mem filter_empty_conv)
  moreover have ids: "map ouUserID (broker_online_list b) = map fst b"
    using ok by (simp add: broker_online_list_def broker_ok_def filter_True comp_def)
  then have "ouUserID ` set (broker_online_list b) = fst ` set b" by (metis list.set_map)
  moreover have "distinct (map ouUserID (broker_online_list b))"
    unfolding ids using ok by (simp add: broker_ok_def)
  moreover have "\<forall>x \<in> set (broker_online_list b). ouSessions x = length (sessions_of b (ouUserID x)) \<and> 0 < ouSessions x"
    using ok sessions_of_mem by (auto simp: broker_online_list_def broker_ok_def)
  moreover have "broker_is_online u b \<longleftrightarrow> u \<in> fst ` set b"
  proof
    show "broker_is_online u b \<Longrightarrow> u \<in> fst ` set b"
      using sessions_of_ex [of b u] by (force simp: broker_is_online_def)
    show "u \<in> fst ` set b \<Longrightarrow> broker_is_online u b"
      using ok sessions_of_mem by (fastforce simp: broker_is_online_def broker_ok_def)
  qed
  ultimately show ?thesis using live [of u] by (intro conjI) (assumption | simp)+
qed

definition demo_session :: "int \<Rightarrow> string \<Rightarrow> nat \<Rightarrow> session" where
  "demo_session u n p = \<lparr>sUserID = u, sUserIDStr = n, sProgram = p\<rparr>"

definition demo_log :: "(session + int \<times> nat) list" where
  "demo_log = [Inl (demo_session 1 ''alice'' 10), Inl (demo_session 1 ''alice'' 11),
     Inl (demo_session 2 ''bob'' 12), Inr (1, 10), Inr (2, 12)]"

lemma demo_log_orderly: "log_orderly sProgram demo_log"
  by (simp add: demo_log_def demo_session_def)

lemma broker_tracks_sessions_witness:
  "broker_is_online 1 (broker_replay demo_log) \<and> \<not> broker_is_online 2 (broker_replay demo_log)
    \<and> sessions_of (broker_replay demo_log) 1 = [demo_session 1 ''alice'' 11]"
proof -
  have "sessions_of (broker_replay demo_log) 1 =
      filter (\<lambda>s. sUserID s = 1 \<and> Inr (1, sProgram s) \<notin> set demo_log) (log_joined demo_log)"
    "sessions_of (broker_replay demo_log) 2 =
      filter (\<lambda>s. sUserID s = 2 \<and> Inr (2, sProgram s) \<notin> set demo_log) (log_joined demo_log)"
    by (rule broker_tracks_sessions [OF demo_log_orderly refl, THEN conjunct1])+
  moreover have "filter (\<lambda>s. sUserID s = 1 \<and> Inr (1, sProgram s) \<notin> set demo_log) (log_joined demo_log) =
      [demo_session 1 ''alice'' 11]"
    "filter (\<lambda>s. sUserID s = 2 \<and> Inr (2, sProgram s) \<notin> set demo_log) (log_joined demo_log) = []"
    by (simp_all add: demo_log_def demo_session_def)
  ultimately show ?thesis by (simp add: broker_is_online_def)
qed

text \<open>\<open>Send\<close> hands the message once to every session of the recipient and reports whether there is
  one; \<open>SendToAll\<close> hands it to every session of every other user and to no session of the excluded
  user, so a second session of the sender gets nothing either.\<close>

theorem broker_delivery:
  assumes "broker_ok b"
  shows "(fst (broker_send u msg b) \<longleftrightarrow> broker_is_online u b)
    \<and> snd (broker_send u msg b) = map (\<lambda>s. (sProgram s, msg)) (sessions_of b u)
    \<and> set (broker_send_to_all x msg b) = {(sProgram s, msg) | s v. v \<noteq> x \<and> s \<in> set (sessions_of b v)}
    \<and> set (broker_sessions_snapshot b) = (\<Union>v. set (sessions_of b v))"
  using send_to_all_set [OF assms] snapshot_set [OF assms]
  by (simp add: broker_send_def Let_def broker_is_online_def)

lemma broker_delivery_witness:
  "broker_send_to_all 1 ''hi'' (broker_replay demo_log) = []
    \<and> fst (broker_send 1 ''hi'' (broker_replay demo_log))"
proof -
  have "broker_replay demo_log = [(1, [demo_session 1 ''alice'' 11])]"
    by (simp add: broker_replay_def demo_log_def demo_session_def new_broker_def broker_register_def
        broker_unregister_def sessions_of_def Let_def)
  with broker_delivery [OF broker_ok_replay [of demo_log], of 1 "''hi''"] show ?thesis
    by (simp add: broker_send_to_all_def broker_is_online_def sessions_of_def)
qed

end
