(* ===== verification/Dispatch.thy ===== *)
theory Dispatch
  imports Broker Utf8 StoreProps
begin

text \<open>
  \<open>internal/notify\<close>: the bounded event queue of \<open>dispatcher.go\<close>, the delivery of one event and the
  payloads of \<open>encoder.go\<close>. The HTTP exchange is outside; a delivery is the list of requests handed to
  the client. Whether \<open>http.NewRequest\<close> accepts a URL is the argument \<open>url_ok\<close>.
\<close>

section \<open>Events and the queue\<close>

definition KindPush :: string where "KindPush = ''push''"
definition KindWB :: string where "KindWB = ''wb''"
definition KindMail :: string where "KindMail = ''mail''"
definition KindReply :: string where "KindReply = ''reply''"

record event =
  evKind :: string
  evToUserID :: int
  evFromUserID :: string
  evTitle :: string
  evBody :: string

definition defaultQueue :: nat where "defaultQueue = 256"

text \<open>
  The queue, the flag \<open>closed\<close>, the calls to \<open>Dispatch\<close> that have read the flag and released the mutex
  but not yet reached the \<open>select\<close>, the events handed to the workers, and whether a send on the closed
  channel has panicked.
\<close>

record manager =
  mgQueue :: "event list"
  mgClosed :: bool
  mgChecked :: "event list"
  mgTaken :: "event list"
  mgPanicked :: bool

definition new_manager :: manager where
  "new_manager = \<lparr>mgQueue = [], mgClosed = False, mgChecked = [], mgTaken = [], mgPanicked = False\<rparr>"

definition dispatch_check :: "event \<Rightarrow> manager \<Rightarrow> manager" where
  "dispatch_check ev m = (if mgClosed m then m else m\<lparr>mgChecked := ev # mgChecked m\<rparr>)"

definition dispatch_send :: "event \<Rightarrow> manager \<Rightarrow> manager" where
  "dispatch_send ev m =
    (if mgClosed m then m\<lparr>mgPanicked := True\<rparr>
     else if length (mgQueue m) < defaultQueue then m\<lparr>mgQueue := mgQueue m @ [ev]\<rparr>
     else m)"

text \<open>\<open>Dispatch\<close> undisturbed: the check and the \<open>select\<close> one after the other.\<close>

definition dispatch :: "event \<Rightarrow> manager \<Rightarrow> manager" where
  "dispatch ev m = (if mgClosed m then m else dispatch_send ev m)"

definition manager_stop :: "manager \<Rightarrow> manager" where
  "manager_stop m = (if mgClosed m then m else m\<lparr>mgClosed := True\<rparr>)"

definition worker_take :: "manager \<Rightarrow> manager" where
  "worker_take m =
    (case mgQueue m of [] \<Rightarrow> m | ev # q \<Rightarrow> m\<lparr>mgQueue := q, mgTaken := mgTaken m @ [ev]\<rparr>)"

text \<open>
  The goroutines interleaved. With \<open>quiet\<close> the manager is stopped only when no call to \<open>Dispatch\<close> is
  between its check and its \<open>select\<close>; the code does not enforce it.
\<close>

inductive mgr_step :: "bool \<Rightarrow> manager \<Rightarrow> manager \<Rightarrow> bool" for quiet where
  check: "mgr_step quiet m (dispatch_check ev m)"
| send: "mgChecked m = es @ ev # fs \<Longrightarrow> mgr_step quiet m ((dispatch_send ev m)\<lparr>mgChecked := es @ fs\<rparr>)"
| stop: "quiet \<longrightarrow> mgChecked m = [] \<Longrightarrow> mgr_step quiet m (manager_stop m)"
| take: "mgr_step quiet m (worker_take m)"

inductive mgr_reach :: "bool \<Rightarrow> manager \<Rightarrow> bool" for quiet where
  start: "mgr_reach quiet new_manager"
| step: "mgr_reach quiet m \<Longrightarrow> mgr_step quiet m m' \<Longrightarrow> mgr_reach quiet m'"

inductive_cases mgr_stepE: "mgr_step quiet m m'"

lemmas mgr_write_defs = dispatch_check_def dispatch_send_def manager_stop_def worker_take_def

section \<open>Delivery\<close>

definition prefs_allow :: "notify_prefs \<Rightarrow> string \<Rightarrow> bool" where
  "prefs_allow p k =
    (if k = KindPush then npOnPush p
     else if k = KindWB then npOnWB p
     else if k = KindMail then npOnMail p
     else if k = KindReply then npOnReply p
     else False)"

datatype target_format = FormatApprise | FormatDiscord

text \<open>
  \<open>strings.ToLower\<close> as far as an ASCII prefix can tell: besides A to Z, U+0130 and U+212A are the runes
  whose lower case is an ASCII letter.
\<close>

definition lower_rune :: "string \<Rightarrow> string" where
  "lower_rune r =
    (if r = [CHR 0xC4, CHR 0xB0] then ''i''
     else if r = [CHR 0xE2, CHR 0x84, CHR 0xAA] then ''k''
     else map ascii_lower r)"

definition to_lower :: "string \<Rightarrow> string" where
  "to_lower s = concat (map lower_rune (go_runes s))"

definition discord_prefixes :: "string list" where
  "discord_prefixes = [''https://discord.com/api/webhooks/'', ''https://discordapp.com/api/webhooks/'',
     ''https://canary.discord.com/api/webhooks/'', ''https://ptb.discord.com/api/webhooks/'']"

definition detect_format :: "string \<Rightarrow> target_format" where
  "detect_format raw =
    (if list_ex (has_prefix (to_lower raw)) discord_prefixes then FormatDiscord else FormatApprise)"

definition ellipsis :: string where
  "ellipsis = [CHR 0xE2, CHR 0x80, CHR 0xA6]"

definition truncate_runes :: "string \<Rightarrow> int \<Rightarrow> string" where
  "truncate_runes s lim =
    (if lim \<le> 0 then []
     else if int (rune_count s) \<le> lim then s
     else concat (take (nat (lim - 1)) (go_runes s)) @ ellipsis)"

text \<open>The body before it is marshalled to JSON.\<close>

record discord_embed =
  deTitle :: string
  deDescription :: string
  deColor :: int

datatype payload =
    ApprisePayload string string
  | DiscordPayload string "discord_embed list"

record http_request =
  rqMethod :: string
  rqURL :: string
  rqHeaders :: "(string \<times> string) list"
  rqBody :: payload

definition discordTitleMax :: int where "discordTitleMax = 256"
definition discordDescMax :: int where "discordDescMax = 4096"
definition discordUsername :: string where "discordUsername = ''SSH-BBS''"
definition discordColor :: int where "discordColor = 0x9D6FFF"

definition new_post :: "(string \<Rightarrow> bool) \<Rightarrow> string \<Rightarrow> payload \<Rightarrow> http_request option" where
  "new_post url_ok url body =
    (if url_ok url
     then Some \<lparr>rqMethod = ''POST'', rqURL = url,
       rqHeaders = [(''Content-Type'', ''application/json''), (''User-Agent'', ''sshbbs-notify/1'')], rqBody = body\<rparr>
     else None)"

definition build_apprise_request :: "(string \<Rightarrow> bool) \<Rightarrow> notify_target \<Rightarrow> event \<Rightarrow> http_request option" where
  "build_apprise_request url_ok t ev = new_post url_ok (ntURL t) (ApprisePayload (evTitle ev) (evBody ev))"

definition build_discord_request :: "(string \<Rightarrow> bool) \<Rightarrow> notify_target \<Rightarrow> event \<Rightarrow> http_request option" where
  "build_discord_request url_ok t ev =
    (let e = \<lparr>deTitle = truncate_runes (evTitle ev) discordTitleMax,
              deDescription = truncate_runes (evBody ev) discordDescMax, deColor = discordColor\<rparr>;
         e = (if deTitle e = [] \<and> deDescription e = [] then e\<lparr>deDescription := ''(empty notification)''\<rparr> else e)
     in new_post url_ok (ntURL t) (DiscordPayload discordUsername [e]))"

definition build_request :: "(string \<Rightarrow> bool) \<Rightarrow> notify_target \<Rightarrow> event \<Rightarrow> http_request option" where
  "build_request url_ok t ev =
    (case detect_format (ntURL t) of
       FormatDiscord \<Rightarrow> build_discord_request url_ok t ev
     | FormatApprise \<Rightarrow> build_apprise_request url_ok t ev)"

text \<open>The requests that \<open>deliver\<close> sends, in order; the online checker may be nil.\<close>

definition deliver :: "(string \<Rightarrow> bool) \<Rightarrow> (int \<Rightarrow> bool) option \<Rightarrow> db \<Rightarrow> event \<Rightarrow> http_request list" where
  "deliver url_ok online d ev =
    (let p = notify_get_prefs (evToUserID ev) d
     in if \<not> prefs_allow p (evKind ev) then []
        else if npOnlyWhenOffline p \<and> (case online of None \<Rightarrow> False | Some f \<Rightarrow> f (evToUserID ev)) then []
        else List.map_filter (\<lambda>t. build_request url_ok t ev) (notify_list_enabled_targets (evToUserID ev) d))"

section \<open>Facts\<close>

lemma rune_count_ellipsis [simp]: "rune_count ellipsis = 1"
proof -
  have "rune_len ellipsis = Some 3" by (simp add: ellipsis_def is_cont_def byte_of_def)
  from go_runes_append_head [OF this, of "[]"] show ?thesis by (simp add: rune_count_def ellipsis_def)
qed

lemma truncate_runes_count:
  assumes "0 < lim"
  shows "int (rune_count (truncate_runes s lim)) = min (int (rune_count s)) lim"
proof (cases "int (rune_count s) \<le> lim")
  case True
  with assms show ?thesis by (simp add: truncate_runes_def)
next
  case False
  have "set (take (nat (lim - 1)) (go_runes s)) \<subseteq> set (go_runes s)" by (rule set_take_subset)
  from rune_count_concat [OF this, of ellipsis] False assms show ?thesis
    by (simp add: truncate_runes_def rune_count_def [of s])
qed

lemma new_post_Some: "new_post url_ok url b = Some r \<Longrightarrow> rqURL r = url \<and> rqBody r = b \<and> rqMethod r = ''POST''"
  by (auto simp: new_post_def split: if_splits)

lemma build_request_url: "build_request url_ok t ev = Some r \<Longrightarrow> rqURL r = ntURL t \<and> rqMethod r = ''POST''"
  by (auto simp: build_request_def build_discord_request_def build_apprise_request_def Let_def
      dest!: new_post_Some split: target_format.splits)

lemma build_request_ok: "url_ok (ntURL t) \<Longrightarrow> \<exists>r. build_request url_ok t ev = Some r"
  by (auto simp: build_request_def build_discord_request_def build_apprise_request_def new_post_def Let_def
      split: target_format.splits)

lemma build_request_refused: "\<not> url_ok (ntURL t) \<Longrightarrow> build_request url_ok t ev = None"
  by (auto simp: build_request_def build_discord_request_def build_apprise_request_def new_post_def Let_def
      split: target_format.splits)

lemma map_filter_urls:
  "map rqURL (List.map_filter (\<lambda>t. build_request url_ok t ev) ts) = map ntURL (filter (\<lambda>t. url_ok (ntURL t)) ts)"
proof (induction ts)
  case (Cons t ts)
  show ?case
  proof (cases "url_ok (ntURL t)")
    case True
    then obtain r where "build_request url_ok t ev = Some r" using build_request_ok [of url_ok t ev] by auto
    with Cons True build_request_url [of url_ok t ev] show ?thesis by (simp add: List.map_filter_simps)
  next
    case False
    with Cons show ?thesis by (simp add: List.map_filter_simps build_request_refused)
  qed
qed (simp add: List.map_filter_simps)

lemma dispatch_sel [simp]:
  "mgClosed (dispatch_check ev m) = mgClosed m" "mgQueue (dispatch_check ev m) = mgQueue m"
  "mgPanicked (dispatch_check ev m) = mgPanicked m" "mgClosed (dispatch_send ev m) = mgClosed m"
  "mgClosed (manager_stop m)" "mgQueue (manager_stop m) = mgQueue m"
  "mgPanicked (manager_stop m) = mgPanicked m" "mgChecked (manager_stop m) = mgChecked m"
  by (simp_all add: dispatch_check_def dispatch_send_def manager_stop_def)

lemma worker_take_sel [simp]:
  "mgClosed (worker_take m) = mgClosed m" "mgPanicked (worker_take m) = mgPanicked m"
  "mgChecked (worker_take m) = mgChecked m" "length (mgQueue (worker_take m)) \<le> length (mgQueue m)"
  by (simp_all add: worker_take_def split: list.splits)

definition mgr_inv :: "bool \<Rightarrow> manager \<Rightarrow> bool" where
  "mgr_inv quiet m \<longleftrightarrow> length (mgQueue m) \<le> defaultQueue \<and> (mgPanicked m \<longrightarrow> mgClosed m)
     \<and> (quiet \<longrightarrow> \<not> mgPanicked m \<and> (mgClosed m \<longrightarrow> mgChecked m = []))"

lemma mgr_step_inv: "mgr_step quiet m m' \<Longrightarrow> mgr_inv quiet m \<Longrightarrow> mgr_inv quiet m'"
proof (induction rule: mgr_step.induct)
  case (check m ev)
  then show ?case by (auto simp: mgr_inv_def dispatch_check_def)
next
  case (send m es ev fs)
  then show ?case by (auto simp: mgr_inv_def dispatch_send_def)
next
  case (stop m)
  then show ?case by (auto simp: mgr_inv_def)
next
  case (take m)
  then show ?case by (auto simp: mgr_inv_def intro: le_trans [OF worker_take_sel(4)])
qed

lemma mgr_reach_inv: "mgr_reach quiet m \<Longrightarrow> mgr_inv quiet m"
proof (induction rule: mgr_reach.induct)
  case start
  show ?case by (simp add: mgr_inv_def new_manager_def)
next
  case (step m m')
  then show ?case using mgr_step_inv by blast
qed

section \<open>Properties\<close>

text \<open>C35: an event is posted to exactly the enabled webhooks of its addressee whose address \<open>http.NewRequest\<close> accepts, once
  each and in the order of the table, when the preferences of the addressee (all kinds allowed, online or not, as long as
  none are stored) allow the kind of the event and the addressee is not online with \<open>OnlyWhenOffline\<close> set; otherwise
  nothing is sent, as for an unknown kind.\<close>

theorem deliver_to_enabled_targets:
  assumes "targets_ok d" and "prefs_ok d" and "online = (\<lambda>u. broker_is_online u b)"
    and "p = (case map_of (prefs d) (evToUserID ev) of
      None \<Rightarrow> \<lparr>npOnPush = True, npOnWB = True, npOnMail = True, npOnReply = True, npOnlyWhenOffline = False\<rparr> | Some p \<Rightarrow> p)"
    and "allowed \<longleftrightarrow> evKind ev = ''push'' \<and> npOnPush p \<or> evKind ev = ''wb'' \<and> npOnWB p
      \<or> evKind ev = ''mail'' \<and> npOnMail p \<or> evKind ev = ''reply'' \<and> npOnReply p"
  shows "map rqURL (deliver url_ok (Some online) d ev) =
    (if allowed \<and> \<not> (npOnlyWhenOffline p \<and> sessions_of b (evToUserID ev) \<noteq> [])
     then map ntURL (filter (\<lambda>t. ntUserID t = evToUserID ev \<and> ntEnabled t \<and> url_ok (ntURL t)) (targets d)) else [])"
proof -
  have "notify_list_enabled_targets (evToUserID ev) d = filter (\<lambda>t. ntUserID t = evToUserID ev \<and> ntEnabled t) (targets d)"
    using assms(1) unfolding notify_list_enabled_targets_def targets_ok_def by (elim conjE) (rule sort_filter_table)
  moreover have "p = notify_get_prefs (evToUserID ev) d"
    using assms(4) unfolding notify_get_prefs_def default_notify_prefs_def .
  moreover have "prefs_allow p (evKind ev) = allowed"
    using assms(5) by (auto simp: prefs_allow_def KindPush_def KindWB_def KindMail_def KindReply_def)
  ultimately show ?thesis
    using map_filter_urls [of url_ok ev "filter (\<lambda>t. ntUserID t = evToUserID ev \<and> ntEnabled t) (targets d)"] assms(3)
    by (auto simp: deliver_def Let_def broker_is_online_def conj_assoc)
qed

definition demo_event :: event where
  "demo_event = \<lparr>evKind = KindPush, evToUserID = 1, evFromUserID = ''bob'', evTitle = ''t'', evBody = ''b''\<rparr>"

lemma deliver_to_enabled_targets_witness:
  "map rqURL (deliver (\<lambda>u. True) (Some (\<lambda>u. broker_is_online u [])) demo_db demo_event) = [''https://x.io'']"
  by (subst deliver_to_enabled_targets [where b = "[]", OF demo_targets_ok(2) demo_targets_ok(1) refl refl refl])
    (simp add: demo_event_def KindPush_def demo_db_def new_target_def)

text \<open>The title and the description of a Discord embed never exceed the limits of the service,
  counted in runes, and are not both empty; a field within its limit is sent unchanged.\<close>

theorem discord_fields_bounded:
  assumes "build_discord_request url_ok t ev = Some r"
  shows "\<exists>e. rqBody r = DiscordPayload discordUsername [e]
    \<and> int (rune_count (deTitle e)) \<le> discordTitleMax \<and> int (rune_count (deDescription e)) \<le> discordDescMax
    \<and> \<not> (deTitle e = [] \<and> deDescription e = [])
    \<and> (int (rune_count (evTitle ev)) \<le> discordTitleMax \<longrightarrow> deTitle e = evTitle ev)
    \<and> (int (rune_count (evBody ev)) \<le> discordDescMax \<and> (evTitle ev, evBody ev) \<noteq> ([], []) \<longrightarrow>
        deDescription e = evBody ev)"
proof -
  have t: "int (rune_count (truncate_runes (evTitle ev) discordTitleMax)) \<le> discordTitleMax"
    "int (rune_count (truncate_runes (evBody ev) discordDescMax)) \<le> discordDescMax"
    by (simp_all add: truncate_runes_count discordTitleMax_def discordDescMax_def)
  have n: "rune_count ''(empty notification)'' \<le> 4096"
    by (rule le_trans [OF rune_count_le]) simp
  have same: "int (rune_count x) \<le> m \<Longrightarrow> 0 < m \<Longrightarrow> truncate_runes x m = x" for x m
    by (simp add: truncate_runes_def)
  have nil: "truncate_runes x m = [] \<Longrightarrow> 0 < m \<Longrightarrow> x = []" for x m
    by (auto simp: truncate_runes_def ellipsis_def split: if_splits)
  from assms new_post_Some show ?thesis
    using t n same [of "evTitle ev" discordTitleMax] same [of "evBody ev" discordDescMax]
      nil [of "evTitle ev" discordTitleMax] nil [of "evBody ev" discordDescMax]
    by (fastforce simp: build_discord_request_def Let_def discordTitleMax_def discordDescMax_def split: if_splits)
qed

lemma discord_fields_bounded_witness:
  "\<exists>r e. build_discord_request (\<lambda>u. True) (new_target 1 ''d'' ''https://discord.com/api/webhooks/1/t'' demo_now 1) demo_event = Some r
    \<and> rqBody r = DiscordPayload discordUsername [e] \<and> deTitle e = ''t''"
proof -
  obtain r where r: "build_discord_request (\<lambda>u. True) (new_target 1 ''d'' ''https://discord.com/api/webhooks/1/t'' demo_now 1) demo_event = Some r"
    by (simp add: build_discord_request_def new_post_def Let_def)
  have "rune_count ''t'' \<le> 1" by (rule le_trans [OF rune_count_le]) simp
  with discord_fields_bounded [OF r] r show ?thesis by (fastforce simp: demo_event_def discordTitleMax_def)
qed

text \<open>C29: the queue is bounded and first-in first-out: it never holds more than 256 events, whatever the goroutines do;
  what the workers have received followed by what is queued only ever grows at its end, by the event of a \<open>Dispatch\<close> that
  finds room, while an event that finds the queue full is dropped; workers receive a longer and longer beginning of that
  sequence. \<open>Dispatch\<close> after \<open>Stop\<close> is harmless when calls do not overlap; but \<open>Dispatch\<close> releases
  the mutex between reading \<open>closed\<close> and the \<open>select\<close>, and when \<open>Stop\<close> runs in between, the send on the closed channel
  panics.\<close>

theorem dispatch_queue_and_race:
  "(\<forall>quiet m. mgr_reach quiet m \<longrightarrow> length (mgQueue m) \<le> 256)
    \<and> (\<forall>quiet m m'. mgr_step quiet m m' \<longrightarrow>
        (\<exists>taken. mgTaken m' = mgTaken m @ taken)
        \<and> (mgTaken m' @ mgQueue m' = mgTaken m @ mgQueue m
           \<or> (\<exists>ev \<in> set (mgChecked m). mgTaken m' @ mgQueue m' = mgTaken m @ mgQueue m @ [ev])))
    \<and> (\<forall>ev m. \<not> mgClosed m \<longrightarrow>
        mgQueue (dispatch ev m) = (if length (mgQueue m) < 256 then mgQueue m @ [ev] else mgQueue m))
    \<and> (\<forall>ev q m. mgQueue m = ev # q \<longrightarrow> mgQueue (worker_take m) = q \<and> mgTaken (worker_take m) = mgTaken m @ [ev])
    \<and> (\<forall>m. mgr_reach True m \<longrightarrow> \<not> mgPanicked m)
    \<and> (\<exists>m. mgr_reach False m \<and> mgPanicked m)"
proof (intro conjI allI impI)
  show "mgr_reach quiet m \<Longrightarrow> length (mgQueue m) \<le> 256" for quiet m
    using mgr_reach_inv by (force simp: mgr_inv_def defaultQueue_def)
  show "\<exists>taken. mgTaken m' = mgTaken m @ taken" if "mgr_step quiet m m'" for quiet m m'
    using that by (rule mgr_stepE) (auto simp: mgr_write_defs split: list.split)
  show "mgTaken m' @ mgQueue m' = mgTaken m @ mgQueue m
      \<or> (\<exists>ev \<in> set (mgChecked m). mgTaken m' @ mgQueue m' = mgTaken m @ mgQueue m @ [ev])" if "mgr_step quiet m m'" for quiet m m'
    using that by (rule mgr_stepE) (auto simp: mgr_write_defs split: list.split)
  show "mgQueue (dispatch ev m) = (if length (mgQueue m) < 256 then mgQueue m @ [ev] else mgQueue m)"
    if "\<not> mgClosed m" for ev m using that by (simp add: dispatch_def dispatch_send_def defaultQueue_def)
  show "mgQueue (worker_take m) = q" "mgTaken (worker_take m) = mgTaken m @ [ev]" if "mgQueue m = ev # q" for ev q m
    using that by (simp_all add: worker_take_def)
  show "mgr_reach True m \<Longrightarrow> \<not> mgPanicked m" for m
    using mgr_reach_inv by (force simp: mgr_inv_def)
  let ?m = "manager_stop (dispatch_check demo_event new_manager)"
  have "mgr_reach False (dispatch_check demo_event new_manager)"
    by (rule mgr_reach.step [OF mgr_reach.start mgr_step.check])
  then have "mgr_reach False ?m" by (rule mgr_reach.step) (simp add: mgr_step.stop)
  moreover have "mgChecked ?m = [] @ demo_event # []"
    by (simp add: dispatch_check_def new_manager_def)
  ultimately have "mgr_reach False ((dispatch_send demo_event ?m)\<lparr>mgChecked := [] @ []\<rparr>)"
    by (intro mgr_reach.step [OF _ mgr_step.send])
  moreover have "mgPanicked ((dispatch_send demo_event ?m)\<lparr>mgChecked := [] @ []\<rparr>)"
    by (simp add: dispatch_send_def)
  ultimately show "\<exists>m. mgr_reach False m \<and> mgPanicked m" by blast
qed

lemma dispatch_queue_and_race_witness:
  "length (mgQueue new_manager) \<le> 256 \<and> \<not> mgPanicked new_manager"
  using dispatch_queue_and_race mgr_reach.start by blast

end
