(* ===== verification/Markdown.thy ===== *)
theory Markdown
  imports PushRepo Strconv
begin

text \<open>
  \<open>internal/markdown/markdown.go\<close>: the document form of an article. \<open>format_article\<close> and
  \<open>parse_markdown\<close> are \<open>Format\<close> and \<open>Parse\<close>; the string operations are those of the prelude and the
  times those of \<open>Strconv\<close>.
\<close>

section \<open>Formatting\<close>

definition frontmatterDelim :: string where "frontmatterDelim = ''---''"
definition PushesSentinel :: string where "PushesSentinel = ''<!-- sshbbs:pushes -->''"
definition pushesLiteralMarker :: string where "pushesLiteralMarker = ''<!-- sshbbs:literal -->''"

record format_opts =
  foIncludePushes :: bool
  foBoardName :: string

record parsed_push =
  ppKind :: push_kind
  ppAuthor :: string
  ppCreatedAt :: gotime
  ppBody :: string

record parsed =
  mdTitle :: string
  mdBoardName :: string
  mdAuthorName :: string
  mdCreatedAt :: gotime
  mdUpdatedAt :: gotime
  mdScoreHint :: int
  mdIDHint :: int
  mdPinned :: bool
  mdBody :: string
  mdPushes :: "parsed_push list"
  mdExtra :: "(string \<times> string) list"

definition empty_parsed :: parsed where
  "empty_parsed = \<lparr>mdTitle = [], mdBoardName = [], mdAuthorName = [], mdCreatedAt = zero_time,
     mdUpdatedAt = zero_time, mdScoreHint = 0, mdIDHint = 0, mdPinned = False, mdBody = [],
     mdPushes = [], mdExtra = []\<rparr>"

fun go_time :: "timestamp \<Rightarrow> gotime" where
  "go_time (TS y mo d h mi s) =
    \<lparr>gtYear = y, gtMonth = mo, gtDay = d, gtHour = h, gtMin = mi, gtSec = s, gtNanos = 0, gtOffset = 0\<rparr>"

definition sanitize_fm :: "string \<Rightarrow> string" where
  "sanitize_fm s = replace_all [NL] '' '' (replace_all [CR] '' '' s)"

definition front_line :: "string \<Rightarrow> string \<Rightarrow> string" where
  "front_line key val = key @ '': '' @ val"

definition write_frontmatter :: "string \<Rightarrow> string \<Rightarrow> string" where
  "write_frontmatter key val = front_line key val @ [NL]"

definition frontmatter :: "article \<Rightarrow> format_opts \<Rightarrow> (string \<times> string) list" where
  "frontmatter a opts =
    [(''title'', sanitize_fm (aTitle a))]
    @ (if foBoardName opts \<noteq> [] then [(''board'', sanitize_fm (foBoardName opts))] else [])
    @ (if aAuthorUserID a \<noteq> [] then [(''author'', sanitize_fm (aAuthorUserID a))] else [])
    @ (if go_time (aCreatedAt a) \<noteq> zero_time
       then [(''created_at'', format_rfc3339 (go_time (aCreatedAt a)))] else [])
    @ (case aUpdatedAt a of None \<Rightarrow> [] | Some t \<Rightarrow> [(''updated_at'', format_rfc3339 (go_time t))])
    @ [(''score'', itoa (aRecommendScore a))]
    @ (if 0 < aID a then [(''id'', itoa (aID a))] else [])
    @ (if aPinnedAt a \<noteq> None then [(''pinned'', ''true'')] else [])"

definition literal_marked :: string where
  "literal_marked = [CHR 0x00] @ ''LITERAL_MARKED'' @ [CHR 0x00]"

definition mark_sentinels :: "string \<Rightarrow> string" where
  "mark_sentinels body =
    (if str_contains body PushesSentinel then
       replace_all literal_marked (PushesSentinel @ pushesLiteralMarker)
         (replace_all PushesSentinel (PushesSentinel @ pushesLiteralMarker)
           (replace_all (PushesSentinel @ pushesLiteralMarker) literal_marked body))
     else body)"

definition push_line :: "push \<Rightarrow> string" where
  "push_line p = ''- '' @ push_glyph (pKind p) @ '' ['' @ pUserUserID p @ ''] ''
     @ format_rfc3339 (go_time (pCreatedAt p)) @ ''  '' @ replace_all [NL] '' '' (pBody p)"

definition format_article :: "article option \<Rightarrow> push list \<Rightarrow> format_opts \<Rightarrow> string option" where
  "format_article a ps opts =
    (case a of
       None \<Rightarrow> None
     | Some a \<Rightarrow>
         let body = mark_sentinels (aBody a)
         in Some (frontmatterDelim @ [NL]
              @ concat (map (\<lambda>(k, v). write_frontmatter k v) (frontmatter a opts))
              @ frontmatterDelim @ [NL, NL]
              @ body @ (if has_suffix body [NL] then [] else [NL])
              @ (if foIncludePushes opts \<and> ps \<noteq> []
                 then [NL] @ PushesSentinel @ [NL] @ concat (map (\<lambda>p. push_line p @ [NL]) ps) else [])))"

section \<open>Parsing\<close>

definition strip_literal_markers :: "string \<Rightarrow> string" where
  "strip_literal_markers s = replace_all (PushesSentinel @ pushesLiteralMarker) PushesSentinel s"

definition set_front :: "string \<Rightarrow> string \<Rightarrow> parsed \<Rightarrow> parsed" where
  "set_front key val p =
    (if key = ''title'' then p\<lparr>mdTitle := val\<rparr>
     else if key = ''board'' then p\<lparr>mdBoardName := val\<rparr>
     else if key = ''author'' then p\<lparr>mdAuthorName := val\<rparr>
     else if key = ''created_at'' then (case parse_rfc3339 val of None \<Rightarrow> p | Some t \<Rightarrow> p\<lparr>mdCreatedAt := t\<rparr>)
     else if key = ''updated_at'' then (case parse_rfc3339 val of None \<Rightarrow> p | Some t \<Rightarrow> p\<lparr>mdUpdatedAt := t\<rparr>)
     else if key = ''score'' then (case atoi val of None \<Rightarrow> p | Some n \<Rightarrow> p\<lparr>mdScoreHint := n\<rparr>)
     else if key = ''id'' then (case atoi val of None \<Rightarrow> p | Some n \<Rightarrow> p\<lparr>mdIDHint := n\<rparr>)
     else if key = ''pinned'' then p\<lparr>mdPinned := (val = ''true'' \<or> val = ''1'')\<rparr>
     else p\<lparr>mdExtra := (key, val) # filter (\<lambda>e. fst e \<noteq> key) (mdExtra p)\<rparr>)"

definition parse_front_line :: "string \<Rightarrow> parsed \<Rightarrow> parsed" where
  "parse_front_line line p =
    (let line = trim_right [CR] line
     in if trim_space line = [] then p
        else case str_index line '':'' of
            None \<Rightarrow> p
          | Some idx \<Rightarrow>
              if idx = 0 then p
              else set_front (trim_space (take idx line)) (trim_space (drop (idx + 1) line)) p)"

definition parse_frontmatter :: "string \<Rightarrow> parsed \<Rightarrow> parsed" where
  "parse_frontmatter fm p = fold parse_front_line (split_byte NL fm) p"

definition kind_of_glyph :: "string \<Rightarrow> push_kind option" where
  "kind_of_glyph g =
    (if g = push_glyph PushKindPush then Some PushKindPush
     else if g = push_glyph PushKindBoo then Some PushKindBoo
     else if g = push_glyph PushKindArrow then Some PushKindArrow
     else None)"

definition index_blank :: "string \<Rightarrow> nat option" where
  "index_blank s =
    (let n = length (takeWhile (\<lambda>c. c \<noteq> SP \<and> c \<noteq> TAB) s) in if n < length s then Some n else None)"

definition split_stamp :: "string \<Rightarrow> string \<times> string" where
  "split_stamp rest =
    (case str_index rest ''  '' of
       Some i \<Rightarrow> (take i rest, trim_left [SP, TAB] (drop i rest))
     | None \<Rightarrow>
         (case index_blank rest of
            Some i \<Rightarrow> (take i rest, trim_left [SP, TAB] (drop i rest))
          | None \<Rightarrow> (rest, [])))"

definition parse_push_line :: "string \<Rightarrow> parsed_push option" where
  "parse_push_line s =
    (let s = trim_space s
     in if s = [] then None
        else case index_blank s of
            None \<Rightarrow> None
          | Some i \<Rightarrow>
              if i = 0 then None
              else (case kind_of_glyph (take i s) of
                  None \<Rightarrow> None
                | Some kind \<Rightarrow>
                    let rest = trim_left [SP, TAB] (drop i s)
                    in if \<not> has_prefix rest ''['' then None
                       else (case str_index rest '']'' of
                           None \<Rightarrow> None
                         | Some e \<Rightarrow>
                             if e \<le> 1 then None
                             else let (ts, body) = split_stamp (trim_left [SP, TAB] (drop (e + 1) rest))
                               in Some \<lparr>ppKind = kind, ppAuthor = take (e - 1) (drop 1 rest),
                                    ppCreatedAt = (if ts = [] then zero_time
                                      else case parse_rfc3339 ts of Some t \<Rightarrow> t | None \<Rightarrow> zero_time),
                                    ppBody = body\<rparr>)))"

definition parse_pushes :: "string \<Rightarrow> parsed_push list" where
  "parse_pushes block =
    List.map_filter (\<lambda>line.
      let line = trim_space (trim_right [CR] line)
      in if \<not> has_prefix line ''- '' then None else parse_push_line (drop 2 line)) (split_byte NL block)"

text \<open>The loop that walks past the marked sentinels: where the first unmarked one is.\<close>

function find_cut :: "string \<Rightarrow> nat option" where
  "find_cut head =
    (case str_index head PushesSentinel of
       None \<Rightarrow> None
     | Some i \<Rightarrow>
         let after = i + length PushesSentinel
         in if has_prefix (drop after head) pushesLiteralMarker
            then map_option (\<lambda>j. after + length pushesLiteralMarker + j)
                   (find_cut (drop (after + length pushesLiteralMarker) head))
            else Some i)"
  by pat_completeness auto
termination
  by (relation "measure length")
     (auto simp: PushesSentinel_def dest!: str_index_Some)

declare find_cut.simps [simp del]

definition split_front :: "string \<Rightarrow> (string option \<times> string)" where
  "split_front md =
    (if \<not> has_prefix md (frontmatterDelim @ [NL]) then (None, md)
     else let rest = drop (length frontmatterDelim + 1) md
       in case str_index rest ([NL] @ frontmatterDelim @ [NL]) of
            Some i \<Rightarrow> (Some (take i rest), drop (i + length frontmatterDelim + 2) rest)
          | None \<Rightarrow>
              if has_suffix rest ([NL] @ frontmatterDelim)
              then (Some (take (length rest - (length frontmatterDelim + 1)) rest), [])
              else (None, rest))"

definition parse_markdown :: "string \<Rightarrow> parsed" where
  "parse_markdown md =
    (let (fm, rest) = split_front md;
         p = (case fm of None \<Rightarrow> empty_parsed | Some f \<Rightarrow> parse_frontmatter f empty_parsed);
         rest = trim_left [NL] rest
     in if str_contains rest PushesSentinel then
          (case find_cut rest of
             None \<Rightarrow> p\<lparr>mdBody := strip_literal_markers (trim_right [NL] rest)\<rparr>
           | Some off \<Rightarrow> p\<lparr>mdBody := strip_literal_markers (trim_right [NL] (take off rest)),
               mdPushes := parse_pushes (drop (off + length PushesSentinel) rest)\<rparr>)
        else p\<lparr>mdBody := strip_literal_markers (trim_right [NL] rest)\<rparr>)"

end
