(* ===== verification/MarkdownRT.thy ===== *)
theory MarkdownRT
  imports Markdown
begin

text \<open>
  The round trip of the document form: the marking of sentinels is undone, the front matter is found
  and read back line by line, and the push lines parse to what was printed.
\<close>

section \<open>Sentinels\<close>

abbreviation marked :: string where
  "marked \<equiv> PushesSentinel @ pushesLiteralMarker"

abbreviation mark :: "string \<Rightarrow> string" where
  "mark \<equiv> replace_all PushesSentinel marked"

lemma sentinel_simps [simp]:
  "PushesSentinel \<noteq> []" "hd PushesSentinel = CHR ''<''" "length PushesSentinel = 22"
  "length pushesLiteralMarker = 23" "pushesLiteralMarker \<noteq> []" "last pushesLiteralMarker = CHR ''>''" "NL \<notin> set PushesSentinel" "NL \<notin> set pushesLiteralMarker"
  "CHR 0x00 \<notin> set PushesSentinel" "CHR 0x00 \<notin> set pushesLiteralMarker"
  by (simp_all add: PushesSentinel_def pushesLiteralMarker_def)

lemma sentinel_Cons: "PushesSentinel = CHR ''<'' # tl PushesSentinel" "CHR ''<'' \<notin> set (tl PushesSentinel)"
  by (simp_all add: PushesSentinel_def)

lemma mark_Nil [simp]: "mark [] = []"
  by simp

lemma mark_prefix: "mark (PushesSentinel @ r) = marked @ mark r"
  by (simp add: replace_all_prefix)

lemma mark_sentinel: "mark PushesSentinel = marked"
  using mark_prefix [of "[]"] by simp

lemma mark_Cons: "\<not> has_prefix (c # r) PushesSentinel \<Longrightarrow> mark (c # r) = c # mark r"
  by (simp add: replace_all.simps(2))

lemma body_cases:
  obtains "body = []" | r where "body = PushesSentinel @ r"
  | c r where "body = c # r" "\<not> has_prefix (c # r) PushesSentinel"
  by (cases body) (auto simp: has_prefix_iff)

lemma mark_induct [case_names Nil sentinel step]:
  assumes "P []" and "\<And>r. P r \<Longrightarrow> P (PushesSentinel @ r)"
    and "\<And>c r. \<not> has_prefix (c # r) PushesSentinel \<Longrightarrow> P r \<Longrightarrow> P (c # r)"
  shows "P body"
proof (induction "length body" arbitrary: body rule: less_induct)
  case less
  show ?case
  proof (cases body rule: body_cases)
    case (2 r)
    with less [of r] assms(2) show ?thesis by simp
  next
    case (3 c r)
    with less [of r] assms(3) show ?thesis by simp
  qed (simp add: assms(1))
qed

text \<open>Marking does not create a prefix without \<open><\<close> that was not there.\<close>

lemma mark_no_new_prefix: "has_prefix (mark r) p \<Longrightarrow> CHR ''<'' \<notin> set p \<Longrightarrow> has_prefix r p"
proof (induction r arbitrary: p rule: mark_induct)
  case (sentinel r)
  then show ?case
    by (cases p) (auto simp: mark_prefix sentinel_Cons(1) [symmetric], simp add: PushesSentinel_def)
next
  case (step c r)
  then show ?case by (cases p) (auto simp: mark_Cons)
qed simp

lemma mark_step_prefix:
  assumes "\<not> has_prefix (c # r) PushesSentinel"
  shows "\<not> has_prefix (c # mark r) (PushesSentinel @ x)"
proof
  assume "has_prefix (c # mark r) (PushesSentinel @ x)"
  then have "has_prefix (c # mark r) PushesSentinel" by (auto simp: has_prefix_iff)
  then have "c = CHR ''<''" "has_prefix (mark r) (tl PushesSentinel)"
    using sentinel_Cons(1) by (metis has_prefix_Cons)+
  with mark_no_new_prefix sentinel_Cons have "has_prefix (c # r) PushesSentinel"
    by (metis has_prefix_Cons)
  with assms show False by contradiction
qed

lemma strip_mark: "strip_literal_markers (mark body) = body"
proof (induction body rule: mark_induct)
  case Nil
  show ?case by (simp add: strip_literal_markers_def)
next
  case (sentinel r)
  have "strip_literal_markers (marked @ mark r) = PushesSentinel @ strip_literal_markers (mark r)"
    using replace_all_prefix [of marked PushesSentinel "mark r"] by (simp add: strip_literal_markers_def)
  with sentinel show ?case by (simp add: mark_prefix)
next
  case (step c r)
  then show ?case
    using mark_step_prefix [OF step(1), of pushesLiteralMarker]
    by (simp add: mark_Cons strip_literal_markers_def replace_all.simps(2))
qed

lemma has_prefix_append_long:
  "has_prefix (s @ t) p \<Longrightarrow> t = [] \<or> hd t \<notin> set p \<Longrightarrow> has_prefix s p"
proof (induction s arbitrary: p)
  case Nil
  then show ?case by (cases p; cases t) auto
next
  case (Cons c s)
  then show ?case by (cases p) auto
qed

lemma find_cut_Cons:
  assumes "\<not> has_prefix (c # s) PushesSentinel"
  shows "find_cut (c # s) = map_option Suc (find_cut s)"
  using assms
  by (subst (1 2) find_cut.simps)
     (auto simp: Let_def option.map_comp comp_def drop_Cons' ac_simps intro!: option.map_cong split: option.splits)

lemma find_cut_mark:
  assumes "t = [] \<or> hd t = NL"
  shows "find_cut (mark body @ t) = map_option (\<lambda>j. length (mark body) + j) (find_cut t)"
proof (induction body rule: mark_induct)
  case Nil
  show ?case by (simp add: option.map_ident)
next
  case (sentinel r)
  have "str_index (PushesSentinel @ x) PushesSentinel = Some 0" for x
    by (rule str_index_prefix) simp
  then have "find_cut (marked @ mark r @ t) = map_option (\<lambda>j. 45 + j) (find_cut (mark r @ t))"
    by (subst find_cut.simps) (simp add: Let_def)
  with sentinel show ?case by (simp add: mark_prefix option.map_comp comp_def add.assoc)
next
  case (step c r)
  have "\<not> has_prefix ((c # mark r) @ t) PushesSentinel"
    using mark_step_prefix [OF step(1), of "[]"] has_prefix_append_long [of "c # mark r" t PushesSentinel] assms
    by auto
  with step show ?case by (simp add: mark_Cons find_cut_Cons option.map_comp comp_def)
qed

lemma set_mark: "set (mark body) \<subseteq> set body \<union> set marked"
proof (induction body rule: mark_induct)
  case (sentinel r)
  then show ?case by (auto simp: mark_prefix)
next
  case (step c r)
  then show ?case by (auto simp: mark_Cons)
qed simp

lemma mark_hd: "body \<noteq> [] \<Longrightarrow> mark body \<noteq> [] \<and> hd (mark body) = hd body"
  by (cases body rule: body_cases) (simp_all add: mark_prefix mark_Cons)

lemma mark_last: "body \<noteq> [] \<Longrightarrow> last body \<noteq> NL \<Longrightarrow> last (mark body) \<noteq> NL"
proof (induction body rule: mark_induct)
  case (sentinel r)
  then show ?case
    using mark_hd [of r]
    by (cases "r = []") (auto simp: mark_prefix mark_sentinel)
next
  case (step c r)
  then show ?case using mark_hd [of r] by (cases "r = []") (auto simp: mark_Cons)
qed simp

text \<open>
  The three replacements of \<open>Format\<close> amount to \<open>mark\<close> on a body without NUL bytes and without a
  sentinel that is already marked.
\<close>

definition body_clean :: "string \<Rightarrow> bool" where
  "body_clean body \<longleftrightarrow> CHR 0x00 \<notin> set body \<and> \<not> str_contains body marked
     \<and> body \<noteq> [] \<and> hd body \<noteq> NL \<and> last body \<noteq> NL"

lemma mark_sentinels_clean:
  assumes "body_clean body"
  shows "mark_sentinels body = mark body"
proof (cases "str_contains body PushesSentinel")
  case True
  have "replace_all marked literal_marked body = body"
    using assms by (intro replace_all_absent) (simp add: body_clean_def)
  moreover have "CHR 0x00 \<notin> set (mark body)"
    using assms set_mark [of body] by (auto simp: body_clean_def)
  then have "\<not> str_contains (mark body) literal_marked"
    by (auto simp: str_contains_iff literal_marked_def)
  then have "replace_all literal_marked marked (mark body) = mark body" by (rule replace_all_absent)
  ultimately show ?thesis using True by (simp add: mark_sentinels_def)
next
  case False
  then show ?thesis by (simp add: mark_sentinels_def replace_all_absent)
qed

section \<open>White space at the ends\<close>

lemma leading_plain:
  assumes "\<forall>w \<in> set ws. w = [] \<or> hd w \<noteq> c" and "[] \<notin> set ws"
  shows "leading ws (c # s) = 0"
  using assms by (auto simp: leading_0_iff) (metis has_prefix_Cons list.collapse)

lemma space_bytes:
  "w \<in> set spaces \<Longrightarrow> SP \<in> set w \<Longrightarrow> w = [SP]" "w \<in> set spaces \<Longrightarrow> CR \<in> set w \<Longrightarrow> w = [CR]"
  "w \<in> set spaces \<Longrightarrow> TAB \<in> set w \<Longrightarrow> w = [TAB]"
  by (auto simp: spaces_def)

definition plain :: "char \<Rightarrow> bool" where
  "plain c \<longleftrightarrow> (\<forall>w \<in> set spaces. w = [] \<or> hd w \<noteq> c) \<and> (\<forall>w \<in> set (map rev spaces). w = [] \<or> hd w \<noteq> c)"

lemma plain_ends [simp]:
  "plain (CHR ''-'')" "plain (CHR ''Z'')" "plain (CHR ''e'')" "plain (CHR ''d'')" "plain (CHR ''r'')" "plain (CHR ''t'')"
  "plain (CHR ''b'')" "plain (CHR ''a'')" "plain (CHR ''c'')" "plain (CHR ''u'')" "plain (CHR ''s'')"
  "plain (CHR ''i'')" "plain (CHR ''p'')"
  by (simp_all add: plain_def spaces_def)

lemma plain_digit: "is_digit c \<Longrightarrow> plain c"
  by (auto simp: plain_def spaces_def is_digit_def byte_of_def)

lemma no_empty_space [simp]: "[] \<notin> rev ` set spaces"
  by (auto simp: spaces_def)

lemma leading_rev_iff: "leading (map rev spaces) s = 0 \<longleftrightarrow> (\<forall>w \<in> set spaces. \<not> has_prefix s (rev w))"
  by (simp add: leading_0_iff)

lemma trimmed_iff:
  "trimmed s \<longleftrightarrow> (\<forall>w \<in> set spaces. \<not> has_prefix s w) \<and> (\<forall>w \<in> set spaces. \<not> has_prefix (rev s) (rev w))"
  by (simp add: trimmed_def leading_rev_iff leading_0_iff)

lemma trimmed_ends:
  assumes "s \<noteq> []" and "plain (hd s)" and "plain (last s)"
  shows "trimmed s"
proof -
  obtain c r where s: "s = c # r" using assms(1) by (cases s) auto
  obtain d q where q: "rev s = d # q" using assms(1) by (cases "rev s") auto
  then have "last s = d" by (metis hd_rev list.sel(1) assms(1))
  with assms s q leading_plain [of spaces c r] leading_plain [of "map rev spaces" d q] show ?thesis
    by (simp add: trimmed_def plain_def)
qed

lemma trimmed_Nil: "trimmed []"
  by (auto simp: trimmed_iff)

lemma trimmed_last: "trimmed s \<Longrightarrow> s \<noteq> [] \<Longrightarrow> last s \<notin> {CR, NL, SP, TAB}"
proof -
  assume t: "trimmed s" "s \<noteq> []"
  then have "\<forall>w \<in> set (map rev spaces). \<not> has_prefix (rev s) w"
    by (simp add: trimmed_def leading_0_iff del: set_map)
  moreover have "[CR] \<in> set (map rev spaces)" "[NL] \<in> set (map rev spaces)" "[SP] \<in> set (map rev spaces)"
    "[TAB] \<in> set (map rev spaces)" by (simp_all add: spaces_def)
  ultimately have "\<not> has_prefix (rev s) [CR]" "\<not> has_prefix (rev s) [NL]" "\<not> has_prefix (rev s) [SP]"
    "\<not> has_prefix (rev s) [TAB]" by blast+
  with t(2) show ?thesis by (cases s rule: rev_cases) auto
qed

lemma trimmed_hd: "trimmed s \<Longrightarrow> s \<noteq> [] \<Longrightarrow> hd s \<notin> {CR, NL, SP, TAB}"
proof -
  assume t: "trimmed s" "s \<noteq> []"
  then have "\<forall>w \<in> set spaces. \<not> has_prefix s w" by (simp add: trimmed_def leading_0_iff)
  moreover have "[CR] \<in> set spaces" "[NL] \<in> set spaces" "[SP] \<in> set spaces" "[TAB] \<in> set spaces"
    by (simp_all add: spaces_def)
  ultimately have "\<not> has_prefix s [CR]" "\<not> has_prefix s [NL]" "\<not> has_prefix s [SP]" "\<not> has_prefix s [TAB]"
    by blast+
  with t(2) show ?thesis by (cases s) auto
qed

text \<open>A trimmed text behind a space ends as it ends alone: no white-space rune straddles the space.\<close>

lemma trimmed_behind_space:
  assumes "trimmed t" and "t \<noteq> []" and "leading spaces (x @ [SP] @ t) = 0"
  shows "trimmed (x @ [SP] @ t)"
proof -
  have "\<not> has_prefix (rev t @ SP # rev x) w" if w: "w \<in> set (map rev spaces)" for w
  proof
    assume "has_prefix (rev t @ SP # rev x) w"
    then obtain r where r: "rev t @ SP # rev x = w @ r" by (auto simp: has_prefix_iff)
    show False
    proof (cases "length w \<le> length t")
      case True
      then have "has_prefix (rev t) w" using r by (auto simp: append_eq_append_conv2 has_prefix_iff)
      with assms(1) w show False by (auto simp: trimmed_iff)
    next
      case False
      then have "length (rev t) \<le> length w" by simp
      with r have w': "w = rev t @ take (length w - length t) (SP # rev x)"
        by (metis append_eq_conv_conj length_rev take_all_iff take_append)
      have "SP \<in> set w" by (subst w') (use False in \<open>simp add: take_Cons'\<close>)
      moreover obtain w0 where w0: "w0 \<in> set spaces" "w = rev w0" using w by auto
      ultimately have "w0 = [SP]" using space_bytes(1) [of w0] by simp
      then have "w = [SP]" using w0(2) by simp
      with False assms(2) show False by (cases t) simp_all
    qed
  qed
  with assms(3) show ?thesis by (simp add: trimmed_iff leading_0_iff)
qed

lemma leading_append:
  "s \<noteq> [] \<Longrightarrow> plain (hd s) \<Longrightarrow> leading spaces (s @ r) = 0"
  by (cases s) (auto simp: plain_def intro!: leading_plain)

lemma trim_space_left: "trim_space (SP # s) = trim_space s"
proof -
  have "leading spaces (SP # s) = 1" by (simp add: leading_def spaces_def)
  then have "strip spaces (SP # s) = strip spaces s" by (subst strip.simps) simp
  then show ?thesis by (simp add: trim_space_def)
qed

lemma trim_space_right:
  assumes "trimmed s" and "s \<noteq> []" and "plain (hd s)"
  shows "trim_space (s @ [SP, SP]) = s"
proof -
  have "leading spaces (s @ [SP, SP]) = 0" using assms(2,3) by (rule leading_append)
  then have "strip spaces (s @ [SP, SP]) = s @ [SP, SP]" by (rule strip_no_lead)
  moreover have "leading (map rev spaces) (SP # r) = 1" for r by (simp add: leading_def spaces_def)
  then have "strip (map rev spaces) (SP # SP # rev s) = strip (map rev spaces) (rev s)"
    by (subst strip.simps, subst strip.simps) simp
  ultimately show ?thesis using assms(1) by (simp add: trim_space_def trimmed_def strip_no_lead)
qed

lemma trim_space_keeps: "c \<in> set s \<Longrightarrow> \<forall>w \<in> set spaces. c \<notin> set w \<Longrightarrow> c \<in> set (trim_space s)"
proof -
  have strip: "c \<in> set (strip ws s)" if "c \<in> set s" "\<forall>w \<in> set ws. c \<notin> set w" for ws s
    using that
  proof (induction ws s rule: strip.induct)
    case (1 ws s)
    show ?case
    proof (cases "s = [] \<or> leading ws s = 0")
      case True
      with 1 show ?thesis by (subst strip.simps) simp
    next
      case False
      then obtain w where "w \<in> set ws" "has_prefix s w" "leading ws s = length w"
        by (auto simp: leading_def find_Some_iff split: option.splits) (metis nth_mem)
      then have "s = w @ drop (leading ws s) s" by (auto simp: has_prefix_iff)
      then have "c \<in> set (drop (leading ws s) s)"
        using 1(2,3) \<open>w \<in> set ws\<close> by (metis Un_iff set_append)
      with 1 False show ?thesis by (subst strip.simps) simp
    qed
  qed
  assume "c \<in> set s" "\<forall>w \<in> set spaces. c \<notin> set w"
  then show ?thesis unfolding trim_space_def by (auto intro!: strip)
qed

section \<open>Front matter\<close>

definition front_key :: "string \<Rightarrow> bool" where
  "front_key k \<longleftrightarrow> k \<in> {''title'', ''board'', ''author'', ''created_at'', ''updated_at'', ''score'', ''id'', ''pinned''}"

definition clean_value :: "string \<Rightarrow> bool" where
  "clean_value v \<longleftrightarrow> trimmed v \<and> NL \<notin> set v \<and> CR \<notin> set v"

lemma front_key_cases:
  assumes "front_key k"
  obtains "k = ''title''" | "k = ''board''" | "k = ''author''" | "k = ''created_at''" | "k = ''updated_at''"
    | "k = ''score''" | "k = ''id''" | "k = ''pinned''"
proof -
  from assms have "k = ''title'' \<or> k = ''board'' \<or> k = ''author'' \<or> k = ''created_at'' \<or> k = ''updated_at''
    \<or> k = ''score'' \<or> k = ''id'' \<or> k = ''pinned''"
    unfolding front_key_def insert_iff empty_iff by (simp only: simp_thms)
  then show thesis by (elim disjE) (erule that)+
qed

lemma front_key_facts:
  assumes "front_key k"
  shows "trimmed k" "CHR '':'' \<notin> set k" "k \<noteq> []" "NL \<notin> set k" "plain (hd k)" "hd k \<noteq> CHR ''-''"
    "\<exists>c \<in> set k. \<forall>w \<in> set spaces. c \<notin> set w"
proof -
  show "trimmed k" by (rule front_key_cases [OF assms]; simp add: trimmed_ends)
  have "CHR ''i'' \<in> set k \<or> CHR ''o'' \<in> set k \<or> CHR ''t'' \<in> set k"
    by (rule front_key_cases [OF assms]; simp)
  moreover have "\<forall>w \<in> set spaces. CHR ''i'' \<notin> set w" "\<forall>w \<in> set spaces. CHR ''o'' \<notin> set w"
    "\<forall>w \<in> set spaces. CHR ''t'' \<notin> set w"
    by (simp_all add: spaces_def)
  ultimately show "\<exists>c \<in> set k. \<forall>w \<in> set spaces. c \<notin> set w" by metis
qed (rule front_key_cases [OF assms]; simp)+

lemma str_index_skip: "p \<noteq> [] \<Longrightarrow> hd p \<notin> set u \<Longrightarrow> str_index (u @ s) p = map_option (\<lambda>i. length u + i) (str_index s p)"
proof (induction u)
  case Nil
  then show ?case by (simp add: option.map_ident)
next
  case (Cons c u)
  then have "\<not> has_prefix (c # u @ s) p" by (cases p) auto
  with Cons show ?case by (simp add: option.map_comp comp_def)
qed

lemma parse_front_line_clean:
  assumes "front_key k" and "clean_value v"
  shows "parse_front_line (front_line k v) p = set_front k v p"
proof -
  note key = front_key_facts [OF assms(1)]
  have line: "front_line k v = k @ CHR '':'' # SP # v" by (simp add: front_line_def)
  have "last (front_line k v) \<noteq> CR"
    using assms(2) trimmed_last [of v] by (cases "v = []") (auto simp: front_line_def clean_value_def)
  then have tr: "trim_right [CR] (front_line k v) = front_line k v"
    by (intro trim_right_id) auto
  have "trim_space (front_line k v) \<noteq> []"
    using key(7) trim_space_keeps [of _ "front_line k v"] by (force simp: line)
  moreover have "str_index (front_line k v) '':'' = Some (length k)"
    using str_index_skip [of "'':''" k "CHR '':'' # SP # v"] key(2) by (simp add: line)
  moreover have "trim_space k = k" using key(1) by (rule trim_space_trimmed)
  moreover have "trim_space (SP # v) = v"
    using assms(2) by (simp add: trim_space_left clean_value_def trim_space_trimmed)
  ultimately show ?thesis using key(3)
    unfolding parse_front_line_def tr by (simp add: Let_def) (simp add: line)
qed

lemma fold_front_lines:
  "\<forall>(k, v) \<in> set kvs. front_key k \<and> clean_value v \<Longrightarrow>
    fold parse_front_line (map (\<lambda>(k, v). front_line k v) kvs) p = fold (\<lambda>(k, v). set_front k v) kvs p"
  by (induction kvs arbitrary: p) (auto simp: parse_front_line_clean)

text \<open>The closing delimiter is found where it was written.\<close>

lemma front_close:
  assumes "\<forall>l \<in> set ls. NL \<notin> set l \<and> l \<noteq> [] \<and> hd l \<noteq> CHR ''-''" and "ls \<noteq> []"
  shows "str_index (concat (map (\<lambda>l. l @ [NL]) ls) @ ''---'' @ NL # t) ([NL] @ ''---'' @ [NL]) =
    Some (length (str_join [NL] ls))"
  using assms
proof (induction "[NL]" ls rule: str_join.induct)
  case (2 x)
  then show ?case by (simp add: str_index_skip)
next
  case (3 x y xs)
  then obtain c z where y: "y = c # z" "c \<noteq> CHR ''-''" by (cases y) auto
  with 3 show ?case by (simp add: str_index_skip option.map_comp comp_def)
qed simp

lemma concat_join: "ls \<noteq> [] \<Longrightarrow> concat (map (\<lambda>l. l @ [NL]) ls) = str_join [NL] ls @ [NL]"
  by (induction "[NL]" ls rule: str_join.induct) auto

lemma split_front_written:
  assumes "\<forall>l \<in> set ls. NL \<notin> set l \<and> l \<noteq> [] \<and> hd l \<noteq> CHR ''-''" and "ls \<noteq> []"
  shows "split_front (''---'' @ NL # concat (map (\<lambda>l. l @ [NL]) ls) @ ''---'' @ NL # t) =
    (Some (str_join [NL] ls), t)"
  using front_close [OF assms, of t] concat_join [OF assms(2)]
  by (simp add: split_front_def frontmatterDelim_def Let_def)

lemma parse_frontmatter_written:
  assumes "\<forall>(k, v) \<in> set kvs. front_key k \<and> clean_value v" and "kvs \<noteq> []"
  shows "parse_frontmatter (str_join [NL] (map (\<lambda>(k, v). front_line k v) kvs)) p =
    fold (\<lambda>(k, v). set_front k v) kvs p"
proof -
  have "\<forall>l \<in> set (map (\<lambda>(k, v). front_line k v) kvs). NL \<notin> set l"
    using assms(1) front_key_facts(4) by (force simp: front_line_def clean_value_def)
  from split_join_byte [OF this] fold_front_lines [OF assms(1)] assms(2) show ?thesis
    by (simp add: parse_frontmatter_def)
qed

lemma sanitize_clean: "clean_value v \<Longrightarrow> sanitize_fm v = v"
  using replace_all_absent [of v "[CR]" "'' ''"] replace_all_absent [of v "[NL]" "'' ''"]
  by (simp add: sanitize_fm_def clean_value_def str_contains_iff in_set_conv_decomp)

lemma clean_stamp: "clean_value (format_rfc3339 t)"
proof -
  have "hd (format_rfc3339 t) \<in> set (pad 4 (gtYear t))"
    by (cases "pad 4 (gtYear t)") (simp_all add: format_rfc3339_def pad_def)
  then have "plain (hd (format_rfc3339 t))"
    using pad_digits by (auto simp: list_all_iff intro: plain_digit)
  then have "trimmed (format_rfc3339 t)"
    using format_rfc3339_last [of t] by (intro trimmed_ends) simp_all
  then show ?thesis
    using format_rfc3339_chars [of NL t] format_rfc3339_chars [of CR t]
    by (auto simp: clean_value_def is_digit_def byte_of_def)
qed

lemma clean_itoa: "clean_value (itoa n)"
proof -
  have d: "c \<in> set (nat_digits m) \<Longrightarrow> is_digit c" for c m
    using nat_digits_digits [of m] by (simp add: list_all_iff)
  have "plain (hd (nat_digits m))" "plain (last (nat_digits m))" for m
    using d [of "hd (nat_digits m)" m] d [of "last (nat_digits m)" m] by (simp_all add: plain_digit)
  then have "trimmed (itoa n)" by (intro trimmed_ends) (auto simp: itoa_def)
  moreover have "NL \<notin> set (nat_digits m)" "CR \<notin> set (nat_digits m)" for m
    using d [of NL m] d [of CR m] by (auto simp: is_digit_def byte_of_def)
  ultimately show ?thesis by (auto simp: clean_value_def itoa_def)
qed

section \<open>Push lines\<close>

definition push_clean :: "push \<Rightarrow> bool" where
  "push_clean p \<longleftrightarrow> pKind p \<in> {PushKindPush, PushKindBoo, PushKindArrow}
     \<and> pUserUserID p \<noteq> [] \<and> CHR '']'' \<notin> set (pUserUserID p) \<and> NL \<notin> set (pUserUserID p)
     \<and> civil_utc (go_time (pCreatedAt p)) \<and> trimmed (replace_all [NL] '' '' (pBody p))"

definition push_read_back :: "push \<Rightarrow> parsed_push" where
  "push_read_back p = \<lparr>ppKind = pKind p, ppAuthor = pUserUserID p, ppCreatedAt = go_time (pCreatedAt p),
     ppBody = replace_all [NL] '' '' (pBody p)\<rparr>"

lemma glyph_facts:
  assumes "k \<in> {PushKindPush, PushKindBoo, PushKindArrow}"
  shows "kind_of_glyph (push_glyph k) = Some k" "SP \<notin> set (push_glyph k)" "TAB \<notin> set (push_glyph k)"
    "NL \<notin> set (push_glyph k)" "push_glyph k \<noteq> []" "leading spaces (push_glyph k @ r) = 0"
  using assms
  by (auto simp: push_glyph_def kind_of_glyph_def PushKindPush_def PushKindBoo_def PushKindArrow_def
      leading_0_iff spaces_def)

lemma index_blank_at: "SP \<notin> set u \<Longrightarrow> TAB \<notin> set u \<Longrightarrow> index_blank (u @ SP # r) = Some (length u)"
proof -
  assume "SP \<notin> set u" "TAB \<notin> set u"
  then have "takeWhile (\<lambda>c. c \<noteq> SP \<and> c \<noteq> TAB) (u @ SP # r) = u"
    by (subst takeWhile_append2) auto
  then show ?thesis by (simp add: index_blank_def)
qed

lemma index_blank_none: "SP \<notin> set u \<Longrightarrow> TAB \<notin> set u \<Longrightarrow> index_blank u = None"
proof -
  assume "SP \<notin> set u" "TAB \<notin> set u"
  then have "takeWhile (\<lambda>c. c \<noteq> SP \<and> c \<noteq> TAB) u = u" by (auto simp: takeWhile_eq_all_conv)
  then show ?thesis unfolding index_blank_def by (simp only: Let_def less_irrefl if_False)
qed

lemma stamp_facts:
  "SP \<notin> set (format_rfc3339 t)" "TAB \<notin> set (format_rfc3339 t)" "NL \<notin> set (format_rfc3339 t)"
  "format_rfc3339 t \<noteq> []" "plain (last (format_rfc3339 t))"
  using format_rfc3339_chars [of SP t] format_rfc3339_chars [of TAB t] format_rfc3339_chars [of NL t]
    format_rfc3339_last [of t]
  by (auto simp: is_digit_def byte_of_def)

lemma stamp_hd: "hd (format_rfc3339 t @ r) \<notin> {SP, TAB}"
  using stamp_facts [of t] by (cases "format_rfc3339 t") auto

lemma split_stamp_clean:
  assumes "trimmed b"
  shows "split_stamp (if b = [] then format_rfc3339 t else format_rfc3339 t @ '' '' @ '' '' @ b) = (format_rfc3339 t, b)"
proof (cases "b = []")
  case True
  have "str_index (format_rfc3339 t) ''  '' = None"
    using stamp_facts(1) [of t] by (auto simp: str_index_None)
  with True show ?thesis
    by (simp add: split_stamp_def index_blank_none stamp_facts)
next
  case False
  have "str_index (format_rfc3339 t @ SP # SP # b) ''  '' = Some (length (format_rfc3339 t))"
    using str_index_skip [of "''  ''" "format_rfc3339 t" "SP # SP # b"] stamp_facts(1) [of t] by simp
  moreover have "trim_left [SP, TAB] b = b"
    using trimmed_hd [OF assms False] by (intro trim_left_id) auto
  ultimately show ?thesis using False by (simp add: split_stamp_def)
qed

text \<open>What is left of a printed push line once the white space at its end is gone.\<close>

definition push_core :: "push \<Rightarrow> string" where
  "push_core p = push_glyph (pKind p) @ '' ['' @ pUserUserID p @ ''] ''
     @ (let st = format_rfc3339 (go_time (pCreatedAt p)); b = replace_all [NL] '' '' (pBody p)
        in if b = [] then st else st @ '' '' @ '' '' @ b)"

lemma push_line_core:
  "push_line p = ''- '' @ push_core p @ (if replace_all [NL] '' '' (pBody p) = [] then [SP, SP] else [])"
  by (simp add: push_line_def push_core_def Let_def)

lemma push_core_trimmed:
  assumes "push_clean p" and lead: "\<And>r. leading spaces (x @ push_glyph (pKind p) @ r) = 0"
  shows "trimmed (x @ push_core p)"
proof -
  define st where "st = format_rfc3339 (go_time (pCreatedAt p))"
  define b where "b = replace_all [NL] '' '' (pBody p)"
  define g where "g = x @ push_glyph (pKind p) @ '' ['' @ pUserUserID p @ ''] ''"
  have lead: "leading spaces (g @ r) = 0" for r using lead by (simp add: g_def)
  show ?thesis
  proof (cases "b = []")
    case True
    have "leading (map rev spaces) (rev (g @ st)) = 0"
    proof -
      obtain q where "rev st = last st # q"
        using stamp_facts(4) by (metis hd_rev list.collapse rev_is_Nil_conv st_def)
      then have "rev (g @ st) = last st # q @ rev g" by simp
      moreover have "leading (map rev spaces) (last st # q @ rev g) = 0"
        using stamp_facts(5) [of "go_time (pCreatedAt p)"] by (intro leading_plain) (simp_all add: plain_def st_def)
      ultimately show ?thesis by (simp only:)
    qed
    with lead True show ?thesis by (simp add: push_core_def Let_def trimmed_def g_def st_def b_def)
  next
    case False
    have "trimmed b" using assms(1) by (simp add: push_clean_def b_def)
    from trimmed_behind_space [OF this False, of "g @ st @ '' ''"] lead [of "st @ '' '' @ [SP] @ b"]
    have "trimmed ((g @ st @ '' '') @ [SP] @ b)" by simp
    with False show ?thesis by (simp add: push_core_def Let_def g_def st_def b_def)
  qed
qed

lemma parse_push_core:
  assumes "push_clean p"
  shows "parse_push_line (push_core p) = Some (push_read_back p)"
proof -
  define st where "st = format_rfc3339 (go_time (pCreatedAt p))"
  define b where "b = replace_all [NL] '' '' (pBody p)"
  define tail where "tail = (if b = [] then st else st @ '' '' @ '' '' @ b)"
  define u where "u = pUserUserID p"
  define g where "g = push_glyph (pKind p)"
  have k: "pKind p \<in> {PushKindPush, PushKindBoo, PushKindArrow}" and u: "u \<noteq> []" "CHR '']'' \<notin> set u"
    and civil: "civil_utc (go_time (pCreatedAt p))" and b: "trimmed b"
    using assms by (simp_all add: push_clean_def u_def b_def)
  note g = glyph_facts [OF k, folded g_def]
  have core: "push_core p = g @ SP # CHR ''['' # u @ CHR '']'' # SP # tail"
    by (simp add: push_core_def Let_def st_def b_def tail_def u_def g_def)
  have ts: "trim_space (push_core p) = push_core p"
    using push_core_trimmed [OF assms, of "[]"] g(6) by (simp add: trim_space_trimmed g_def)
  have ib: "index_blank (push_core p) = Some (length g)"
    unfolding core using g by (intro index_blank_at) auto
  have "str_index (CHR ''['' # u @ CHR '']'' # SP # tail) '']'' = Some (Suc (length u))"
    using str_index_skip [of "'']''" "CHR ''['' # u" "CHR '']'' # SP # tail"] u(2) by simp
  moreover have "trim_left [SP, TAB] (SP # tail) = tail"
  proof -
    have "hd tail \<notin> {SP, TAB}"
      using stamp_hd [of "go_time (pCreatedAt p)"] stamp_hd [of "go_time (pCreatedAt p)" "[]"]
      by (auto simp: tail_def st_def)
    then show ?thesis using trim_left_id [of tail "[SP, TAB]"] by auto
  qed
  moreover have "split_stamp tail = (st, b)"
    unfolding tail_def st_def by (rule split_stamp_clean [OF b])
  moreover have "st \<noteq> []" by (simp add: st_def stamp_facts)
  moreover have "parse_rfc3339 st = Some (go_time (pCreatedAt p))"
    using civil by (simp add: st_def parse_format_rfc3339)
  ultimately show ?thesis
    using g(1,5) u(1) ib ts
    by (simp add: parse_push_line_def Let_def core trim_left_id push_read_back_def b_def u_def)
qed

lemma parse_pushes_written:
  assumes "\<forall>p \<in> set ps. push_clean p"
  shows "parse_pushes (NL # concat (map (\<lambda>p. push_line p @ [NL]) ps)) = map push_read_back ps"
proof -
  define f where "f = (\<lambda>line. let line = trim_space (trim_right [CR] line)
      in if \<not> has_prefix line ''- '' then None else parse_push_line (drop 2 line))"
  have nil: "f [] = None"
    by (simp add: f_def trim_right_id trim_space_trimmed trimmed_Nil)
  have line: "f (push_line p) = Some (push_read_back p)" if p: "push_clean p" for p
  proof -
    have tr: "trimmed (''- '' @ push_core p)"
      using p by (intro push_core_trimmed) (auto intro: leading_append [of "''- ''" for r, simplified])
    have ends: "trim_space (push_line p) = ''- '' @ push_core p" 
      using tr trim_space_right [of "''- '' @ push_core p"]
      by (simp add: push_line_core trim_space_trimmed)
    have "last (push_line p) \<noteq> CR"
      using trimmed_last [OF tr] by (auto simp: push_line_core split: if_splits)
    then have "trim_right [CR] (push_line p) = push_line p" by (intro trim_right_id) simp
    with ends show ?thesis using parse_push_core [OF p] by (simp add: f_def)
  qed
  have "\<forall>l \<in> set ([] # map push_line ps @ [[]]). NL \<notin> set l"
    using assms glyph_facts(4) stamp_facts(3)
    by (fastforce simp: push_line_def push_clean_def replace_all_byte)
  then have "split_byte NL (str_join [NL] ([] # map push_line ps @ [[]])) = [] # map push_line ps @ [[]]"
    by (rule split_join_byte) simp
  moreover have "str_join [NL] (ls @ [[]]) = concat (map (\<lambda>l. l @ [NL]) ls)" for ls
    by (induction "[NL]" ls rule: str_join.induct) auto
  then have "str_join [NL] ([] # map push_line ps @ [[]]) = NL # concat (map (\<lambda>p. push_line p @ [NL]) ps)"
    by (metis (no_types, lifting) append_Cons append_Nil concat.simps(2) list.simps(9) map_map map_eq_conv comp_apply)
  ultimately have "parse_pushes (NL # concat (map (\<lambda>p. push_line p @ [NL]) ps)) =
      List.map_filter f ([] # map push_line ps @ [[]])"
    by (simp add: parse_pushes_def f_def)
  also have "\<dots> = map push_read_back ps"
    using assms by (induction ps) (simp_all add: map_filter_simps nil line)
  finally show ?thesis .
qed

section \<open>The round trip\<close>

definition article_clean :: "article \<Rightarrow> format_opts \<Rightarrow> bool" where
  "article_clean a opts \<longleftrightarrow> clean_value (aTitle a) \<and> clean_value (foBoardName opts) \<and> clean_value (aAuthorUserID a)
     \<and> civil_utc (go_time (aCreatedAt a)) \<and> (\<forall>t. aUpdatedAt a = Some t \<longrightarrow> civil_utc (go_time t))
     \<and> int64 (aRecommendScore a) \<and> int64 (aID a) \<and> body_clean (aBody a)"

definition read_back :: "article \<Rightarrow> push list \<Rightarrow> format_opts \<Rightarrow> parsed" where
  "read_back a ps opts = \<lparr>mdTitle = aTitle a, mdBoardName = foBoardName opts, mdAuthorName = aAuthorUserID a,
     mdCreatedAt = go_time (aCreatedAt a),
     mdUpdatedAt = (case aUpdatedAt a of None \<Rightarrow> zero_time | Some t \<Rightarrow> go_time t),
     mdScoreHint = aRecommendScore a, mdIDHint = (if 0 < aID a then aID a else 0),
     mdPinned = (aPinnedAt a \<noteq> None), mdBody = aBody a,
     mdPushes = (if foIncludePushes opts then map push_read_back ps else []), mdExtra = []\<rparr>"

lemma clean_true: "clean_value ''true''"
  by (simp add: clean_value_def trimmed_ends)

lemma frontmatter_clean:
  assumes "article_clean a opts"
  shows "\<forall>(k, v) \<in> set (frontmatter a opts). front_key k \<and> clean_value v"
  using assms
  by (auto simp: frontmatter_def article_clean_def sanitize_clean clean_stamp clean_itoa clean_true
      front_key_def split: option.splits if_splits)

lemma frontmatter_ne: "frontmatter a opts \<noteq> []"
  by (simp add: frontmatter_def)

lemma set_front_simps:
  "set_front ''title'' v p = p\<lparr>mdTitle := v\<rparr>" "set_front ''board'' v p = p\<lparr>mdBoardName := v\<rparr>"
  "set_front ''author'' v p = p\<lparr>mdAuthorName := v\<rparr>"
  "civil_utc t \<Longrightarrow> set_front ''created_at'' (format_rfc3339 t) p = p\<lparr>mdCreatedAt := t\<rparr>"
  "civil_utc t \<Longrightarrow> set_front ''updated_at'' (format_rfc3339 t) p = p\<lparr>mdUpdatedAt := t\<rparr>"
  "int64 n \<Longrightarrow> set_front ''score'' (itoa n) p = p\<lparr>mdScoreHint := n\<rparr>"
  "int64 n \<Longrightarrow> set_front ''id'' (itoa n) p = p\<lparr>mdIDHint := n\<rparr>"
  "set_front ''pinned'' ''true'' p = p\<lparr>mdPinned := True\<rparr>"
  by (simp_all add: set_front_def parse_format_rfc3339 atoi_itoa)

lemma fold_frontmatter:
  assumes "article_clean a opts"
  shows "fold (\<lambda>(k, v). set_front k v) (frontmatter a opts) empty_parsed =
    (read_back a [] opts)\<lparr>mdBody := [], mdPushes := []\<rparr>"
  using assms
  by (simp add: frontmatter_def article_clean_def sanitize_clean set_front_simps empty_parsed_def read_back_def
      split: option.splits)

lemma front_lines_ok:
  assumes "article_clean a opts"
  shows "\<forall>l \<in> set (map (\<lambda>(k, v). front_line k v) (frontmatter a opts)). NL \<notin> set l \<and> l \<noteq> [] \<and> hd l \<noteq> CHR ''-''"
proof -
  have "NL \<notin> set (front_line k v) \<and> front_line k v \<noteq> [] \<and> hd (front_line k v) \<noteq> CHR ''-''"
    if "front_key k" "clean_value v" for k v
    using front_key_facts(3,4,6) [OF that(1)] that(2) by (cases k) (auto simp: front_line_def clean_value_def)
  with frontmatter_clean [OF assms] show ?thesis by auto
qed

lemma split_front_formatted:
  assumes "article_clean a opts"
  shows "split_front (''---'' @ NL # concat (map (\<lambda>(k, v). write_frontmatter k v) (frontmatter a opts)) @ ''---'' @ NL # t) =
    (Some (str_join [NL] (map (\<lambda>(k, v). front_line k v) (frontmatter a opts))), t)"
proof -
  have "concat (map (\<lambda>(k, v). write_frontmatter k v) kvs) =
      concat (map (\<lambda>l. l @ [NL]) (map (\<lambda>(k, v). front_line k v) kvs))" for kvs
    by (induction kvs) (auto simp: write_frontmatter_def)
  with split_front_written [OF front_lines_ok [OF assms], of t] frontmatter_ne show ?thesis
    by (simp only:) simp
qed

lemma body_read_back:
  assumes "body_clean body" and "ns = [NL] \<or> ns = [NL, NL]"
  shows "strip_literal_markers (trim_right [NL] (mark body @ ns)) = body"
proof -
  have "trim_right [NL] (mark body) = mark body"
    using assms(1) mark_last by (intro trim_right_id) (auto simp: body_clean_def)
  moreover have "trim_right [NL] (s @ [NL, NL]) = trim_right [NL] (s @ [NL])" for s
    using trim_right_snoc [of NL "[NL]" "s @ [NL]"] by simp
  ultimately have "trim_right [NL] (mark body @ ns) = mark body" using assms(2) by auto
  then show ?thesis by (simp add: strip_mark)
qed

lemma find_cut_end: "find_cut [NL] = None"
  by (subst find_cut.simps) (simp add: PushesSentinel_def)

lemma find_cut_real: "find_cut (NL # NL # PushesSentinel @ NL # r) = Some 2"
proof -
  have "str_index (NL # NL # PushesSentinel @ NL # r) PushesSentinel = Some 2"
    using str_index_skip [of PushesSentinel "[NL, NL]"] str_index_prefix [of "PushesSentinel @ NL # r" PushesSentinel]
    by simp
  then show ?thesis by (subst find_cut.simps) (simp add: Let_def pushesLiteralMarker_def)
qed

lemma parse_after_front:
  assumes "split_front md = (Some fm, NL # mark body @ [NL] @ t)" and "body_clean body"
    and "t = [] \<or> t = NL # PushesSentinel @ NL # r"
  shows "parse_markdown md = (parse_frontmatter fm empty_parsed)\<lparr>mdBody := body,
    mdPushes := (if t = [] then mdPushes (parse_frontmatter fm empty_parsed) else parse_pushes (NL # r))\<rparr>"
proof -
  let ?p = "parse_frontmatter fm empty_parsed"
  have ne: "mark body \<noteq> []" "hd (mark body) \<noteq> NL"
    using assms(2) mark_hd [of body] by (simp_all add: body_clean_def)
  then have tl: "trim_left [NL] (NL # mark body @ x) = mark body @ x" for x
    by (simp add: trim_left_id)
  show ?thesis
  proof (cases "t = []")
    case True
    have "find_cut (mark body @ [NL]) = None" by (simp add: find_cut_mark find_cut_end)
    moreover have "?p = ?p\<lparr>mdPushes := mdPushes ?p\<rparr>" by simp
    ultimately show ?thesis
      using assms(1) True tl [of "[NL]"] body_read_back [OF assms(2), of "[NL]"]
      by (simp add: parse_markdown_def Let_def)
  next
    case False
    with assms(3) have t: "[NL] @ t = NL # NL # PushesSentinel @ NL # r" by simp
    have "find_cut (mark body @ NL # NL # PushesSentinel @ NL # r) = Some (length (mark body) + 2)"
      by (simp add: find_cut_mark find_cut_real)
    moreover have "str_contains (mark body @ NL # NL # PushesSentinel @ NL # r) PushesSentinel"
      unfolding str_contains_iff by (rule exI [of _ "mark body @ [NL, NL]"]) simp
    ultimately show ?thesis
      using assms(1) False t tl [of "[NL] @ t"] body_read_back [OF assms(2), of "[NL, NL]"]
      by (simp add: parse_markdown_def Let_def)
  qed
qed

lemma format_some:
  assumes "body_clean (aBody a)"
  shows "format_article (Some a) ps opts = Some (''---'' @ NL #
    concat (map (\<lambda>(k, v). write_frontmatter k v) (frontmatter a opts)) @ ''---'' @ NL # NL # mark (aBody a) @ [NL]
    @ (if foIncludePushes opts \<and> ps \<noteq> [] then NL # PushesSentinel @ NL # concat (map (\<lambda>p. push_line p @ [NL]) ps) else []))"
proof -
  have "\<not> has_suffix (mark (aBody a)) [NL]"
    using mark_last [of "aBody a"] assms by (auto simp: has_suffix_iff body_clean_def)
  then show ?thesis
    by (simp add: format_article_def mark_sentinels_clean [OF assms] Let_def frontmatterDelim_def)
qed

text \<open>C12: an article whose one-line fields carry no line breaks or outer white space, whose times and
  numbers are in range and whose body has neither outer line breaks, NUL bytes nor an already marked
  sentinel is read back from its own export exactly: every front-matter field, the body (also when it
  contains the sentinel of the push section) and, when exported, every push with its kind, author, time
  and text, the line breaks of the text turned to spaces.\<close>
theorem export_parses_back:
  assumes "article_clean a opts" and "\<forall>p \<in> set ps. push_clean p"
  shows "map_option parse_markdown (format_article (Some a) ps opts) = Some (read_back a ps opts)"
proof -
  have body: "body_clean (aBody a)" using assms(1) by (simp add: article_clean_def)
  let ?r = "concat (map (\<lambda>p. push_line p @ [NL]) ps)"
  let ?t = "if foIncludePushes opts \<and> ps \<noteq> [] then NL # PushesSentinel @ NL # ?r else []"
  have "parse_frontmatter (str_join [NL] (map (\<lambda>(k, v). front_line k v) (frontmatter a opts))) empty_parsed =
      (read_back a [] opts)\<lparr>mdBody := [], mdPushes := []\<rparr>"
    using parse_frontmatter_written [OF frontmatter_clean [OF assms(1)] frontmatter_ne] fold_frontmatter [OF assms(1)]
    by simp
  with parse_after_front [OF split_front_formatted [OF assms(1)] body, of ?t ?r] parse_pushes_written [OF assms(2)]
  show ?thesis by (auto simp: format_some [OF body] read_back_def split: if_splits)
qed

definition sample_article :: article where
  "sample_article = \<lparr>aID = 7, aBoardID = 1, aAuthorID = 2, aAuthorUserID = ''alice'', aTitle = ''Hello: world'',
     aBody = ''one'' @ [NL] @ PushesSentinel @ [NL] @ ''two'', aRecommendScore = - 3, aFilemode = 0,
     aCreatedAt = TS 2026 4 29 8 31 57, aUpdatedAt = Some (TS 2026 5 1 0 0 0), aPinnedAt = None,
     aCommentsMode = CommentsModeOpen\<rparr>"

definition sample_push :: push where
  "sample_push = \<lparr>pID = 1, pArticleID = 7, pUserID = 3, pUserUserID = ''bob'', pKind = PushKindBoo,
     pBody = ''no [x]'' @ [NL] @ ''really'', pCreatedAt = TS 2026 4 29 9 0 0\<rparr>"

definition sample_opts :: format_opts where
  "sample_opts = \<lparr>foIncludePushes = True, foBoardName = ''Test''\<rparr>"

lemma sample_clean: "article_clean sample_article sample_opts" "push_clean sample_push"
proof -
  have "clean_value ''Hello: world''" "clean_value ''alice''" "clean_value ''Test''"
    by code_simp+
  moreover have "body_clean (''one'' @ [NL] @ PushesSentinel @ [NL] @ ''two'')" by code_simp
  ultimately show "article_clean sample_article sample_opts"
    by (simp add: article_clean_def sample_article_def sample_opts_def civil_utc_def days_in_def is_leap_def int64_def)
  show "push_clean sample_push" by code_simp
qed

lemma export_parses_back_witness:
  "map_option parse_markdown (format_article (Some sample_article) [sample_push] sample_opts) =
    Some (read_back sample_article [sample_push] sample_opts)"
  using sample_clean by (intro export_parses_back) simp_all

end
