(* ===== verification/Tui.thy ===== *)
theory Tui
  imports Auth Dispatch Strconv
begin

text \<open>
  The common ground of \<open>internal/tui\<close>: the messages of \<open>messages.go\<close>, the commands a screen returns, the
  state an update works on, the locale of a session (\<open>i18n.go\<close>) and the notifications of
  \<open>notify_helpers.go\<close>. A screen is a record with an update function from a message, the screen and the
  session to the new screen, a command and the new session; the views are in the theories from \<open>Render\<close> on.
\<close>

section \<open>Screens and messages\<close>

datatype screen =
    ScreenMainMenu
  | ScreenBoardList
  | ScreenBoardView
  | ScreenArticleView
  | ScreenPostCompose
  | ScreenWBInbox
  | ScreenWBCompose
  | ScreenWBThread
  | ScreenOnline
  | ScreenMailInbox
  | ScreenMailThread
  | ScreenMailCompose
  | ScreenPasswordChange
  | ScreenAdminUsers
  | ScreenArticleEdit
  | ScreenArticleExport
  | ScreenBoardSplash
  | ScreenBoardBannerEdit
  | ScreenUserSettings
  | ScreenBioEdit
  | ScreenNotifySettings
  | ScreenLocaleSettings

record navigate_msg =
  nvTo :: screen
  nvBoardID :: int
  nvArticleID :: int
  nvRecipient :: string
  nvMailID :: int
  nvMailThreadID :: int
  nvCounterpartyUserID :: int

definition nav :: "screen \<Rightarrow> navigate_msg" where
  "nav s = \<lparr>nvTo = s, nvBoardID = 0, nvArticleID = 0, nvRecipient = [], nvMailID = 0, nvMailThreadID = 0,
     nvCounterpartyUserID = 0\<rparr>"

text \<open>
  What a screen shows as an error: nothing, a text of its own, or the text of an error value. The
  field \<open>err\<close> of the screens is \<open>Error()\<close> of that value, which is never empty.
\<close>

datatype err_note = NoErr | ErrText string | ErrStore db_error | ErrAuth auth_error

datatype tui_msg =
    WindowSizeMsg int int
  | KeyMsg string
  | NavigateMsg navigate_msg
  | ErrorMsg err_note
  | WBIncomingMsg int string string
  | PushAddedMsg int string string string
  | MailIncomingMsg int int string string
  | ArticleAddedMsg int int string string
  | ArticleUpdatedMsg int
  | ArticlePinChangedMsg int int bool
  | ArticleCommentsModeChangedMsg int int string
  | NotifyTestResultMsg int "string option"
  | WidgetMsg

text \<open>
  A command: nothing, a function that yields a message, quitting, the cursor blink of a text widget, the
  test delivery of a webhook target, or several at once. \<open>Crash\<close> is no command:
  it stands for an update that panics on a nil pointer and takes the program down.
\<close>

datatype cmd =
    NoCmd
  | Yield tui_msg
  | Quit
  | Blink
  | SendTestCmd notify_target event
  | Crash
  | Batch "cmd list"

section \<open>The session\<close>

text \<open>
  What \<open>Deps\<close> points to. Screens copy \<open>Deps\<close> but share what it points to, and no code assigns to its
  other fields, so one copy per session is kept: the database, the broker with the messages it has
  delivered, the events handed to \<open>Notify.Dispatch\<close>, the user object of the session, the files written
  and the bytes sent to the standard output of the process, and the flags.
  \<open>seNow\<close> is the clock and \<open>seDefault\<close> the package variable \<open>i18n.Default\<close>.
\<close>

record session_state =
  seDB :: db
  seBroker :: broker
  seSent :: "(nat \<times> tui_msg) list"
  seEvents :: "event list"
  seUser :: "user option"
  seIsRegister :: bool
  seMustChange :: bool
  seHasBroker :: bool
  seHasNotify :: bool
  seFiles :: "(string \<times> string) list"
  seStdout :: string
  seNow :: timestamp
  seDefault :: locale_tag

type_synonym 'm updated = "('m \<times> cmd) \<times> session_state"

definition stay :: "'m \<Rightarrow> session_state \<Rightarrow> 'm updated" where
  "stay m w = ((m, NoCmd), w)"

definition goto :: "navigate_msg \<Rightarrow> 'm \<Rightarrow> session_state \<Rightarrow> 'm updated" where
  "goto n m w = ((m, Yield (NavigateMsg n)), w)"

definition crash :: "'m \<Rightarrow> session_state \<Rightarrow> 'm updated" where
  "crash m w = ((m, Crash), w)"

lemma stay_simps [simp]: "fst (fst (stay m w)) = m" "snd (fst (stay m w)) = NoCmd" "snd (stay m w) = w"
  by (simp_all add: stay_def)

lemma goto_simps [simp]:
  "fst (fst (goto n m w)) = m" "snd (fst (goto n m w)) = Yield (NavigateMsg n)" "snd (goto n m w) = w"
  by (simp_all add: goto_def)

text \<open>Running a repository operation of the session.\<close>

definition on_db :: "(db \<Rightarrow> 'r \<times> db) \<Rightarrow> session_state \<Rightarrow> 'r \<times> session_state" where
  "on_db f w = (case f (seDB w) of (r, d) \<Rightarrow> (r, w\<lparr>seDB := d\<rparr>))"

lemma on_db_fields [simp]:
  "seDB (snd (on_db f w)) = snd (f (seDB w))" "fst (on_db f w) = fst (f (seDB w))"
  "seUser (snd (on_db f w)) = seUser w" "seBroker (snd (on_db f w)) = seBroker w"
  "seSent (snd (on_db f w)) = seSent w" "seEvents (snd (on_db f w)) = seEvents w"
  "seNow (snd (on_db f w)) = seNow w" "seDefault (snd (on_db f w)) = seDefault w"
  by (simp_all add: on_db_def split: prod.splits)

definition send_to_all :: "int \<Rightarrow> tui_msg \<Rightarrow> session_state \<Rightarrow> session_state" where
  "send_to_all exclude msg w =
    (if seHasBroker w then w\<lparr>seSent := seSent w @ broker_send_to_all exclude msg (seBroker w)\<rparr> else w)"

definition send_to :: "int \<Rightarrow> tui_msg \<Rightarrow> session_state \<Rightarrow> session_state" where
  "send_to uid msg w =
    (if seHasBroker w then w\<lparr>seSent := seSent w @ snd (broker_send uid msg (seBroker w))\<rparr> else w)"

definition notify_dispatch :: "event \<Rightarrow> session_state \<Rightarrow> session_state" where
  "notify_dispatch ev w = (if seHasNotify w then w\<lparr>seEvents := seEvents w @ [ev]\<rparr> else w)"

lemma effects_fields [simp]:
  "seDB (send_to_all x msg w) = seDB w" "seDB (send_to x msg w) = seDB w" "seDB (notify_dispatch ev w) = seDB w"
  "seUser (send_to_all x msg w) = seUser w" "seUser (send_to x msg w) = seUser w"
  "seUser (notify_dispatch ev w) = seUser w"
  "seBroker (send_to_all x msg w) = seBroker w" "seBroker (send_to x msg w) = seBroker w"
  "seBroker (notify_dispatch ev w) = seBroker w"
  "seEvents (send_to_all x msg w) = seEvents w" "seEvents (send_to x msg w) = seEvents w"
  "seSent (notify_dispatch ev w) = seSent w"
  "seDefault (send_to_all x msg w) = seDefault w" "seDefault (send_to x msg w) = seDefault w"
  "seHasNotify (send_to_all x msg w) = seHasNotify w" "seHasNotify (send_to x msg w) = seHasNotify w"
  by (simp_all add: send_to_all_def send_to_def notify_dispatch_def)

section \<open>Libraries of the terminal\<close>

text \<open>
  The text widgets of bubbles (a widget of type \<open>'i\<close> is a \<open>textinput.Model\<close> or a \<open>textarea.Model\<close>), the
  Markdown renderer glamour and the width measures of go-runewidth are parameters, and so is the Unicode
  case table behind \<open>strings.ToLower\<close>. The file system answers with an error text or not at all.
\<close>

record 'i lib =
  tiZero :: "'i"
  tiNew :: "int \<Rightarrow> 'i"
  taNew :: "int \<Rightarrow> 'i"
  tiValue :: "'i \<Rightarrow> string"
  tiSetValue :: "string \<Rightarrow> 'i \<Rightarrow> 'i"
  tiFocus :: "'i \<Rightarrow> 'i"
  tiBlur :: "'i \<Rightarrow> 'i"
  tiUpdate :: "tui_msg \<Rightarrow> 'i \<Rightarrow> 'i"
  toLower :: "string \<Rightarrow> string"
  osMkdirAll :: "string \<Rightarrow> string option"
  osWriteFile :: "string \<Rightarrow> string \<Rightarrow> string option"
  glamourRender :: "int \<Rightarrow> string \<Rightarrow> string option"
  stringWidth :: "string \<Rightarrow> int"
  runeWidth :: "string \<Rightarrow> int"
  widthTruncate :: "string \<Rightarrow> int \<Rightarrow> string \<Rightarrow> string"

text \<open>A small instance for concrete runs: a widget is its value and a key appends its own name.\<close>

definition demo_lib :: "string lib" where
  "demo_lib = \<lparr>tiZero = [], tiNew = (\<lambda>_. []), taNew = (\<lambda>_. []), tiValue = (\<lambda>i. i), tiSetValue = (\<lambda>s _. s),
     tiFocus = (\<lambda>i. i), tiBlur = (\<lambda>i. i),
     tiUpdate = (\<lambda>msg i. case msg of KeyMsg k \<Rightarrow> i @ k | _ \<Rightarrow> i), toLower = map ascii_lower, osMkdirAll = (\<lambda>_. None), osWriteFile = (\<lambda>_ _. None),
     glamourRender = (\<lambda>_ s. Some s),
     stringWidth = (\<lambda>s. int (rune_count s)), runeWidth = (\<lambda>_. 1), widthTruncate = (\<lambda>s w t. take (nat w) s)\<rparr>"

section \<open>Texts\<close>

text \<open>
  \<open>fmt.Sprintf\<close> for the verbs the message tables use, with what it prints for a verb without an argument,
  a verb of another type and arguments left over.
\<close>

datatype fmt_arg = FString string | FInt int | FInt64 int

definition fmt_typed :: "fmt_arg \<Rightarrow> string" where
  "fmt_typed a = (case a of FString s \<Rightarrow> ''string='' @ s | FInt n \<Rightarrow> ''int='' @ itoa n | FInt64 n \<Rightarrow> ''int64='' @ itoa n)"

definition fmt_verb :: "char \<Rightarrow> fmt_arg \<Rightarrow> string" where
  "fmt_verb v a =
    (case a of
       FString s \<Rightarrow> if v = CHR ''s'' then s else ''%!'' @ [v] @ ''('' @ fmt_typed a @ '')''
     | FInt n \<Rightarrow> if v = CHR ''d'' then itoa n else ''%!'' @ [v] @ ''('' @ fmt_typed a @ '')''
     | FInt64 n \<Rightarrow> if v = CHR ''d'' then itoa n else ''%!'' @ [v] @ ''('' @ fmt_typed a @ '')'')"

fun sprintf :: "string \<Rightarrow> fmt_arg list \<Rightarrow> string" where
  "sprintf [] [] = []"
| "sprintf [] (a # as) = ''%!(EXTRA '' @ str_join '', '' (map fmt_typed (a # as)) @ '')''"
| "sprintf [c] as = (if c = CHR ''%'' then ''%!(NOVERB)'' @ sprintf [] as else c # sprintf [] as)"
| "sprintf (c # v # s) as =
    (if c \<noteq> CHR ''%'' then c # sprintf (v # s) as
     else if v = CHR ''%'' then CHR ''%'' # sprintf s as
     else case as of
         [] \<Rightarrow> ''%!'' @ [v] @ ''(MISSING)'' @ sprintf s []
       | a # as' \<Rightarrow> fmt_verb v a @ sprintf s as')"

definition translate_f :: "locale_tag \<Rightarrow> locale_tag \<Rightarrow> string \<Rightarrow> fmt_arg list \<Rightarrow> string" where
  "translate_f dflt loc key args = sprintf (translate dflt loc key) args"

definition locale_of :: "session_state \<Rightarrow> locale_tag" where
  "locale_of w = (case seUser w of None \<Rightarrow> seDefault w | Some u \<Rightarrow> normalize (seDefault w) (uLocale u))"

definition recipient_locale :: "session_state \<Rightarrow> int \<Rightarrow> locale_tag" where
  "recipient_locale w uid =
    (case users_get_by_id uid (seDB w) of
       Inl _ \<Rightarrow> seDefault w
     | Inr u \<Rightarrow> normalize (seDefault w) (uLocale u))"

definition tr :: "session_state \<Rightarrow> string \<Rightarrow> string" where
  "tr w key = translate (seDefault w) (locale_of w) key"

definition tr_for :: "session_state \<Rightarrow> int \<Rightarrow> string \<Rightarrow> fmt_arg list \<Rightarrow> string" where
  "tr_for w uid key args = translate_f (seDefault w) (recipient_locale w uid) key args"

text \<open>\<open>renderMarkdown\<close>: the renderer of the library, the text itself when it fails.\<close>

definition glamourFallbackWidth :: int where "glamourFallbackWidth = 80"

definition render_markdown :: "'i lib \<Rightarrow> string \<Rightarrow> int \<Rightarrow> string" where
  "render_markdown L body width =
    (case glamourRender L (if width < 40 then glamourFallbackWidth else width) body of
       None \<Rightarrow> body
     | Some out \<Rightarrow> trim_right [NL] (trim_left [NL] out))"

definition truncate_width :: "'i lib \<Rightarrow> string \<Rightarrow> int \<Rightarrow> string" where
  "truncate_width L s n =
    (if stringWidth L s \<le> n then s
     else if n \<le> 1 then widthTruncate L s n [] else widthTruncate L s n ellipsis)"

section \<open>Notifications\<close>

definition notify_wb :: "int \<Rightarrow> string \<Rightarrow> string \<Rightarrow> session_state \<Rightarrow> session_state" where
  "notify_wb to_uid from_id body w =
    notify_dispatch \<lparr>evKind = KindWB, evToUserID = to_uid, evFromUserID = from_id,
      evTitle = tr_for w to_uid ''notify.wb.title'' [FString from_id], evBody = body\<rparr> w"

definition mail_excerpt :: "string \<Rightarrow> string" where
  "mail_excerpt body = (if 280 < length body then take 280 body @ ellipsis else body)"

definition notify_mail :: "int \<Rightarrow> string \<Rightarrow> string \<Rightarrow> string \<Rightarrow> session_state \<Rightarrow> session_state" where
  "notify_mail to_uid from_id subject body w =
    notify_dispatch \<lparr>evKind = KindMail, evToUserID = to_uid, evFromUserID = from_id,
      evTitle = tr_for w to_uid ''notify.mail.title'' [FString from_id, FString subject],
      evBody = mail_excerpt body\<rparr> w"

lemma notify_fields [simp]:
  "seDB (notify_wb t f b w) = seDB w" "seDB (notify_mail t f s b w) = seDB w"
  "seUser (notify_wb t f b w) = seUser w" "seUser (notify_mail t f s b w) = seUser w"
  "seSent (notify_wb t f b w) = seSent w" "seSent (notify_mail t f s b w) = seSent w"
  by (simp_all add: notify_wb_def notify_mail_def)

text \<open>The role of the session's user, and the right of moderators and administrators.\<close>

definition user_is :: "(user \<Rightarrow> bool) \<Rightarrow> session_state \<Rightarrow> bool" where
  "user_is P w \<longleftrightarrow> (case seUser w of None \<Rightarrow> False | Some u \<Rightarrow> P u)"

text \<open>
  The id of the session's user. Screens that read it without a check are only built in sessions with a
  user: a registration session never navigates.
\<close>

definition session_uid :: "session_state \<Rightarrow> int" where
  "session_uid w = (case seUser w of None \<Rightarrow> 0 | Some u \<Rightarrow> uID u)"

definition is_mod :: "session_state \<Rightarrow> bool" where
  "is_mod w \<longleftrightarrow> user_is (\<lambda>u. role_at_least (uRole u) RoleMod) w"

end
