(* ===== verification/ArticleView.thy ===== *)
theory ArticleView
  imports Tui
begin

text \<open>
  \<open>internal/tui/screen_article_view.go\<close>: reading an article, pushing, deleting, and the comments mode.
\<close>

record 'i article_view =
  avArticle :: "article option"
  avPushes :: "push list"
  avWidth :: int
  avHeight :: int
  avScroll :: int
  avLoadErr :: err_note
  avRendered :: string
  avRenderedWidth :: int
  avPushing :: bool
  avPushKind :: push_kind
  avPushIn :: 'i
  avErr :: err_note
  avPendingDelete :: bool
  avPushCursor :: int
  avPickingCommentsMode :: bool

definition render_body :: "'i lib \<Rightarrow> 'i article_view \<Rightarrow> 'i article_view" where
  "render_body L m =
    (case avArticle m of
       None \<Rightarrow> m\<lparr>avRendered := [], avRenderedWidth := 0\<rparr>
     | Some a \<Rightarrow>
         let width = (if avWidth m - 4 < 40 then glamourFallbackWidth else avWidth m - 4)
         in m\<lparr>avRendered := render_markdown L (aBody a) width, avRenderedWidth := width\<rparr>)"

definition new_article_view :: "'i lib \<Rightarrow> int \<Rightarrow> session_state \<Rightarrow> 'i article_view" where
  "new_article_view L article_id w =
    (let m = \<lparr>avArticle = None, avPushes = [], avWidth = 0, avHeight = 0, avScroll = 0, avLoadErr = NoErr,
           avRendered = [], avRenderedWidth = 0, avPushing = False, avPushKind = [], avPushIn = tiZero L,
           avErr = NoErr, avPendingDelete = False, avPushCursor = 0, avPickingCommentsMode = False\<rparr>
     in case articles_get_by_id article_id (seDB w) of
          Inl e \<Rightarrow> m\<lparr>avLoadErr := ErrStore e\<rparr>
        | Inr a \<Rightarrow> render_body L (m\<lparr>avArticle := Some a, avPushes := pushes_list_by_article article_id (seDB w),
                      avPushIn := tiNew L 80, avPushCursor := - 1\<rparr>))"

section \<open>Rights\<close>

definition can_delete_article :: "'i article_view \<Rightarrow> session_state \<Rightarrow> bool" where
  "can_delete_article m w \<longleftrightarrow>
    (case (seUser w, avArticle m) of
       (Some u, Some a) \<Rightarrow> uID u = aAuthorID a \<or> role_at_least (uRole u) RoleMod
     | _ \<Rightarrow> False)"

definition can_delete_push :: "int \<Rightarrow> 'i article_view \<Rightarrow> session_state \<Rightarrow> bool" where
  "can_delete_push idx m w \<longleftrightarrow>
    (case seUser w of
       None \<Rightarrow> False
     | Some u \<Rightarrow>
         if idx < 0 \<or> int (length (avPushes m)) \<le> idx then False
         else uID u = pUserID (avPushes m ! nat idx) \<or> role_at_least (uRole u) RoleMod)"

definition can_push :: "session_state \<Rightarrow> bool" where
  "can_push w \<longleftrightarrow> user_is (\<lambda>u. uRole u \<noteq> RoleGuest) w"

definition can_edit_article :: "'i article_view \<Rightarrow> session_state \<Rightarrow> bool" where
  "can_edit_article m w \<longleftrightarrow>
    (case (seUser w, avArticle m) of
       (Some u, Some a) \<Rightarrow> uID u = aAuthorID a \<or> role_at_least (uRole u) RoleMod
     | _ \<Rightarrow> False)"

definition can_set_comments_mode :: "session_state \<Rightarrow> bool" where
  "can_set_comments_mode w \<longleftrightarrow> user_is (\<lambda>u. role_at_least (uRole u) RoleMod) w"

section \<open>Loading\<close>

definition refetch_article :: "session_state \<Rightarrow> 'i article_view \<Rightarrow> 'i article_view" where
  "refetch_article w m =
    (case avArticle m of
       None \<Rightarrow> m
     | Some a \<Rightarrow> (case articles_get_by_id (aID a) (seDB w) of Inl _ \<Rightarrow> m | Inr b \<Rightarrow> m\<lparr>avArticle := Some b\<rparr>))"

definition refetch_pushes :: "session_state \<Rightarrow> 'i article_view \<Rightarrow> 'i article_view" where
  "refetch_pushes w m =
    (case avArticle m of
       None \<Rightarrow> m
     | Some a \<Rightarrow> m\<lparr>avPushes := pushes_list_by_article (aID a) (seDB w)\<rparr>)"

definition body_line_count :: "'i article_view \<Rightarrow> int" where
  "body_line_count m =
    (if avRendered m \<noteq> [] then int (length (split_byte NL (avRendered m)))
     else case avArticle m of None \<Rightarrow> 0 | Some a \<Rightarrow> int (length (split_byte NL (aBody a))))"

definition viewport_lines :: "'i article_view \<Rightarrow> int" where
  "viewport_lines m = max (avHeight m - 16) 5"

section \<open>Pushing\<close>

definition open_push :: "'i lib \<Rightarrow> push_kind \<Rightarrow> 'i article_view \<Rightarrow> session_state \<Rightarrow> 'i article_view" where
  "open_push L k m w =
    (let ready = m\<lparr>avPushing := True, avPushKind := k,
                   avPushIn := tiFocus L (tiSetValue L [] (avPushIn m)), avErr := NoErr\<rparr>
     in case avArticle m of
          None \<Rightarrow> ready
        | Some a \<Rightarrow>
            if aCommentsMode a = CommentsModeLocked
            then m\<lparr>avErr := ErrText (tr w ''error.comments_locked'')\<rparr>
            else if aCommentsMode a = CommentsModeArrowsOnly \<and> k \<noteq> PushKindArrow
            then m\<lparr>avErr := ErrText (tr w ''error.comments_arrows_only'')\<rparr>
            else ready)"

definition close_push :: "'i lib \<Rightarrow> 'i article_view \<Rightarrow> 'i article_view" where
  "close_push L m = m\<lparr>avPushing := False, avPushIn := tiBlur L (avPushIn m)\<rparr>"

text \<open>The broadcast and the notification of the author once a push is stored.\<close>

definition announce_push ::
  "'i lib \<Rightarrow> user \<Rightarrow> article \<Rightarrow> push_kind \<Rightarrow> string \<Rightarrow> session_state \<Rightarrow> session_state" where
  "announce_push L u a k body w =
    (let w = send_to_all (uID u) (PushAddedMsg (aID a) (uUserID u) k body) w
     in if aAuthorID a \<noteq> uID u then
          notify_dispatch \<lparr>evKind = KindPush, evToUserID = aAuthorID a, evFromUserID = uUserID u,
            evTitle = tr_for w (aAuthorID a) ''notify.push.title''
              [FString (uUserID u), FString (push_verb (recipient_locale w (aAuthorID a)) k)],
            evBody = truncate_width L (aTitle a) 60 @ [NL, NL] @ body\<rparr> w
        else w)"

definition submit_push :: "'i lib \<Rightarrow> 'i article_view \<Rightarrow> session_state \<Rightarrow> ('i article_view) updated" where
  "submit_push L m w =
    (let body = trim_space (tiValue L (avPushIn m)) in
     if body = [] \<and> avPushKind m \<noteq> PushKindArrow
     then stay (m\<lparr>avErr := ErrText (tr w ''screen.article_view.err_push_body_empty'')\<rparr>) w
     else case avArticle m of
       None \<Rightarrow> crash m w
     | Some a \<Rightarrow>
         if aCommentsMode a = CommentsModeLocked
         then stay (close_push L (m\<lparr>avErr := ErrText (tr w ''error.comments_locked'')\<rparr>)) w
         else if aCommentsMode a = CommentsModeArrowsOnly \<and> avPushKind m \<noteq> PushKindArrow
         then stay (close_push L (m\<lparr>avErr := ErrText (tr w ''error.comments_arrows_only'')\<rparr>)) w
         else case seUser w of
           None \<Rightarrow> crash m w
         | Some u \<Rightarrow>
             (case on_db (pushes_create (aID a) (uID u) (uUserID u) (avPushKind m) body (seNow w)) w of
                (Inl e, w1) \<Rightarrow> stay (m\<lparr>avErr := ErrStore e\<rparr>) w1
              | (Inr p, w1) \<Rightarrow>
                  let m1 = close_push L (refetch_article w1 (m\<lparr>avPushes := avPushes m @ [p]\<rparr>))
                  in stay m1 (announce_push L u (the (avArticle m1)) (avPushKind m) body w1)))"

definition update_push_input ::
  "'i lib \<Rightarrow> string \<Rightarrow> 'i article_view \<Rightarrow> session_state \<Rightarrow> ('i article_view) updated" where
  "update_push_input L key m w =
    (if key = ''esc'' then stay (close_push L m) w
     else if key = ''enter'' then submit_push L m w
     else ((m\<lparr>avPushIn := tiUpdate L (KeyMsg key) (avPushIn m)\<rparr>, Blink), w))"

section \<open>Deleting\<close>

definition delete_cursor_push ::
  "push \<Rightarrow> user \<Rightarrow> 'i article_view \<Rightarrow> session_state \<Rightarrow> ('i article_view) updated" where
  "delete_cursor_push p u m w =
    (case on_db (pushes_delete (pID p) (uID u) (uRole u)) w of
       (Inl e, w1) \<Rightarrow> stay (m\<lparr>avErr := ErrStore e, avPendingDelete := False\<rparr>) w1
     | (Inr _, w1) \<Rightarrow>
         let m1 = refetch_article w1 (refetch_pushes w1 m)
         in stay (m1\<lparr>avPushCursor := (if int (length (avPushes m1)) \<le> avPushCursor m1 then - 1 else avPushCursor m1),
                     avPendingDelete := False\<rparr>) w1)"

definition confirm_delete :: "'i article_view \<Rightarrow> session_state \<Rightarrow> ('i article_view) updated" where
  "confirm_delete m w =
    (case (avArticle m, seUser w) of
       (Some a, Some u) \<Rightarrow>
         if 0 \<le> avPushCursor m \<and> avPushCursor m < int (length (avPushes m))
         then delete_cursor_push (avPushes m ! nat (avPushCursor m)) u m w
         else (case on_db (articles_delete (aID a) (uID u) (uRole u)) w of
             (Inl e, w1) \<Rightarrow> stay (m\<lparr>avErr := ErrStore e, avPendingDelete := False\<rparr>) w1
           | (Inr _, w1) \<Rightarrow> goto ((nav ScreenBoardView)\<lparr>nvBoardID := aBoardID a\<rparr>) m w1)
     | _ \<Rightarrow> stay (m\<lparr>avPendingDelete := False\<rparr>) w)"

definition update_delete_confirm ::
  "string \<Rightarrow> 'i article_view \<Rightarrow> session_state \<Rightarrow> ('i article_view) updated" where
  "update_delete_confirm key m w =
    (if key \<in> {''y'', ''Y''} then confirm_delete m w
     else if key \<in> {''n'', ''N'', ''esc''} then stay (m\<lparr>avPendingDelete := False\<rparr>) w
     else stay m w)"

section \<open>The comments mode\<close>

definition picked_mode :: "string \<Rightarrow> comments_mode option" where
  "picked_mode key =
    (if key = ''1'' then Some CommentsModeOpen
     else if key = ''2'' then Some CommentsModeArrowsOnly
     else if key = ''3'' then Some CommentsModeLocked
     else None)"

definition update_comments_mode_picker ::
  "string \<Rightarrow> 'i article_view \<Rightarrow> session_state \<Rightarrow> ('i article_view) updated" where
  "update_comments_mode_picker key m w =
    (case (avArticle m, seUser w) of
       (Some a, Some u) \<Rightarrow>
         (case picked_mode key of
            None \<Rightarrow>
              if key \<in> {''esc'', ''n'', ''N''} then stay (m\<lparr>avPickingCommentsMode := False\<rparr>) w else stay m w
          | Some mode \<Rightarrow>
              (case on_db (articles_set_comments_mode (aID a) (uID u) (uRole u) mode) w of
                 (Inl e, w1) \<Rightarrow> stay (m\<lparr>avErr := ErrStore e, avPickingCommentsMode := False\<rparr>) w1
               | (Inr _, w1) \<Rightarrow>
                   let m1 = refetch_article w1 m;
                       b = the (avArticle m1)
                   in stay (m1\<lparr>avPickingCommentsMode := False\<rparr>)
                        (send_to_all (uID u) (ArticleCommentsModeChangedMsg (aBoardID b) (aID b) mode) w1)))
     | _ \<Rightarrow> stay (m\<lparr>avPickingCommentsMode := False\<rparr>) w)"

section \<open>Keys and messages\<close>

definition goto_neighbour ::
  "(int \<times> int \<Rightarrow> int) \<Rightarrow> 'i article_view \<Rightarrow> session_state \<Rightarrow> ('i article_view) updated" where
  "goto_neighbour side m w =
    (case avArticle m of
       None \<Rightarrow> stay m w
     | Some a \<Rightarrow>
         let i = side (articles_neighbours_of (aBoardID a) (aID a) (seDB w))
         in if i = 0 then stay m w
            else goto ((nav ScreenArticleView)\<lparr>nvArticleID := i, nvBoardID := aBoardID a\<rparr>) m w)"

definition goto_on_article ::
  "screen \<Rightarrow> 'i article_view \<Rightarrow> session_state \<Rightarrow> ('i article_view) updated" where
  "goto_on_article s m w =
    (case avArticle m of
       None \<Rightarrow> stay m w
     | Some a \<Rightarrow> goto ((nav s)\<lparr>nvArticleID := aID a, nvBoardID := aBoardID a\<rparr>) m w)"

definition next_cursor :: "'i article_view \<Rightarrow> int" where
  "next_cursor m =
    (if int (length (avPushes m)) \<le> avPushCursor m + 1 then - 1 else avPushCursor m + 1)"

definition previous_cursor :: "'i article_view \<Rightarrow> int" where
  "previous_cursor m =
    (if avPushCursor m < 0 then int (length (avPushes m)) - 1 else avPushCursor m - 1)"

definition denied :: "session_state \<Rightarrow> string \<Rightarrow> err_note" where
  "denied w why = ErrText (tr w ''error.permission_denied'' @ why)"

definition ask_delete :: "'i article_view \<Rightarrow> session_state \<Rightarrow> 'i article_view" where
  "ask_delete m w =
    (if 0 \<le> avPushCursor m \<and> \<not> can_delete_push (avPushCursor m) m w
     then m\<lparr>avErr := denied w '' (only the push author or a mod can delete it)''\<rparr>
     else if avPushCursor m < 0 \<and> \<not> can_delete_article m w
     then m\<lparr>avErr := denied w '' (only the author or a mod can delete)''\<rparr>
     else m\<lparr>avPendingDelete := True, avErr := NoErr\<rparr>)"

definition article_view_key ::
  "'i lib \<Rightarrow> string \<Rightarrow> 'i article_view \<Rightarrow> session_state \<Rightarrow> ('i article_view) updated" where
  "article_view_key L key m w =
    (if key \<in> {''esc'', ''backspace'', ''left'', ''h''}
     then goto ((nav ScreenBoardView)\<lparr>nvBoardID := (case avArticle m of None \<Rightarrow> 0 | Some a \<Rightarrow> aBoardID a)\<rparr>) m w
     else if key = ''Q'' then goto (nav ScreenMainMenu) m w
     else if key \<in> {''up'', ''k''} then stay (if 0 < avScroll m then m\<lparr>avScroll := avScroll m - 1\<rparr> else m) w
     else if key \<in> {''down'', ''j''} then stay (m\<lparr>avScroll := avScroll m + 1\<rparr>) w
     else if key \<in> {''pgup'', ''b''} then stay (m\<lparr>avScroll := max 0 (avScroll m - 10)\<rparr>) w
     else if key \<in> {''pgdown'', '' ''} then stay (m\<lparr>avScroll := avScroll m + 10\<rparr>) w
     else if key = ''g'' then stay (m\<lparr>avScroll := 0\<rparr>) w
     else if key = ''G'' then stay (m\<lparr>avScroll := max 0 (body_line_count m - viewport_lines m)\<rparr>) w
     else if key = ''['' then goto_neighbour fst m w
     else if key = '']'' then goto_neighbour snd m w
     else if key = ''+'' then stay (if can_push w then open_push L PushKindPush m w else m) w
     else if key = ''-'' then stay (if can_push w then open_push L PushKindBoo m w else m) w
     else if key = ''='' then stay (if can_push w then open_push L PushKindArrow m w else m) w
     else if key = ''p'' then stay (if avPushes m = [] then m else m\<lparr>avPushCursor := next_cursor m, avErr := NoErr\<rparr>) w
     else if key = ''P'' then stay (if avPushes m = [] then m else m\<lparr>avPushCursor := previous_cursor m, avErr := NoErr\<rparr>) w
     else if key = ''D'' then stay (ask_delete m w) w
     else if key = ''E'' then
       (if avArticle m \<noteq> None \<and> \<not> can_edit_article m w
        then stay (m\<lparr>avErr := denied w '' (only the author or a mod can edit)''\<rparr>) w
        else goto_on_article ScreenArticleEdit m w)
     else if key = ''y'' then goto_on_article ScreenArticleExport m w
     else if key = ''r'' then goto_on_article ScreenPostCompose m w
     else if key = ''M'' then
       stay (if avArticle m = None \<or> \<not> can_set_comments_mode w then m
             else m\<lparr>avPickingCommentsMode := True, avErr := NoErr\<rparr>) w
     else stay m w)"

definition shows_article :: "int \<Rightarrow> 'i article_view \<Rightarrow> bool" where
  "shows_article i m \<longleftrightarrow> (case avArticle m of None \<Rightarrow> False | Some a \<Rightarrow> aID a = i)"

definition article_view_update ::
  "'i lib \<Rightarrow> tui_msg \<Rightarrow> 'i article_view \<Rightarrow> session_state \<Rightarrow> ('i article_view) updated" where
  "article_view_update L msg m w =
    (case msg of
       WindowSizeMsg width height \<Rightarrow>
         let m1 = m\<lparr>avWidth := width, avHeight := height\<rparr>
         in stay (if max (width - 4) 40 \<noteq> avRenderedWidth m then render_body L m1 else m1) w
     | PushAddedMsg i _ _ _ \<Rightarrow>
         stay (if shows_article i m then refetch_article w (refetch_pushes w m) else m) w
     | ArticleUpdatedMsg i \<Rightarrow>
         stay (if shows_article i m then
                 (case articles_get_by_id i (seDB w) of
                    Inl _ \<Rightarrow> m
                  | Inr a \<Rightarrow>
                      let m1 = render_body L (m\<lparr>avArticle := Some a\<rparr>)
                      in m1\<lparr>avScroll := (if body_line_count m1 < avScroll m1 then 0 else avScroll m1)\<rparr>)
               else m) w
     | ArticleCommentsModeChangedMsg _ i _ \<Rightarrow>
         stay (if shows_article i m then refetch_article w m else m) w
     | KeyMsg key \<Rightarrow>
         if avPushing m then update_push_input L key m w
         else if avPendingDelete m then update_delete_confirm key m w
         else if avPickingCommentsMode m then update_comments_mode_picker key m w
         else article_view_key L key m w
     | _ \<Rightarrow> stay m w)"

end
