(* ===== verification/MenuScreens.thy ===== *)
theory MenuScreens
  imports Tui
begin

text \<open>
  The menu-like screens: \<open>screen_main_menu.go\<close>, \<open>screen_user_settings.go\<close>, \<open>screen_locale_settings.go\<close>,
  \<open>screen_online.go\<close> and \<open>screen_board_splash.go\<close>.
\<close>

section \<open>Cursors\<close>

definition cursor_up :: "int \<Rightarrow> int" where
  "cursor_up c = (if 0 < c then c - 1 else c)"

definition cursor_down :: "'a list \<Rightarrow> int \<Rightarrow> int" where
  "cursor_down xs c = (if c < int (length xs) - 1 then c + 1 else c)"

text \<open>The row a digit key names.\<close>

definition digit_row :: "string \<Rightarrow> string list \<Rightarrow> nat option" where
  "digit_row key keys = (if key \<in> set keys then Some (byte_of (hd key) - 49) else None)"

section \<open>Main menu\<close>

text \<open>A row leads to a screen, or (\<open>to: -1\<close>) quits.\<close>

record menu_item =
  miLabel :: string
  miHint :: string
  miTo :: "screen option"

record main_menu =
  mmItems :: "menu_item list"
  mmCursor :: int

definition menu_item_at :: "session_state \<Rightarrow> string \<Rightarrow> string \<Rightarrow> screen option \<Rightarrow> menu_item" where
  "menu_item_at w label hint to = \<lparr>miLabel = tr w label, miHint = tr w hint, miTo = to\<rparr>"

definition new_main_menu :: "session_state \<Rightarrow> main_menu" where
  "new_main_menu w =
    \<lparr>mmItems =
       [menu_item_at w ''screen.main_menu.item.boards'' ''screen.main_menu.hint.boards'' (Some ScreenBoardList),
        menu_item_at w ''screen.main_menu.item.wb'' ''screen.main_menu.hint.wb'' (Some ScreenWBInbox),
        menu_item_at w ''screen.main_menu.item.online'' ''screen.main_menu.hint.online'' (Some ScreenOnline),
        menu_item_at w ''screen.main_menu.item.mail'' ''screen.main_menu.hint.mail'' (Some ScreenMailInbox),
        menu_item_at w ''screen.main_menu.item.settings'' ''screen.main_menu.hint.settings'' (Some ScreenUserSettings)]
       @ (if user_is (\<lambda>u. uRole u = RoleAdmin) w then
            [menu_item_at w ''screen.main_menu.item.admin'' ''screen.main_menu.hint.admin'' (Some ScreenAdminUsers)]
          else [])
       @ [menu_item_at w ''screen.main_menu.item.quit'' ''screen.main_menu.hint.quit'' None],
     mmCursor = 0\<rparr>"

definition choose_item :: "menu_item \<Rightarrow> 'm \<Rightarrow> session_state \<Rightarrow> 'm updated" where
  "choose_item it m w =
    (case miTo it of None \<Rightarrow> ((m, Quit), w) | Some s \<Rightarrow> goto (nav s) m w)"

definition main_menu_update :: "tui_msg \<Rightarrow> main_menu \<Rightarrow> session_state \<Rightarrow> main_menu updated" where
  "main_menu_update msg m w =
    (case msg of
       KeyMsg key \<Rightarrow>
         if key \<in> {''q'', ''esc''} then ((m, Quit), w)
         else if key \<in> {''up'', ''k''} then stay (m\<lparr>mmCursor := cursor_up (mmCursor m)\<rparr>) w
         else if key \<in> {''down'', ''j''} then stay (m\<lparr>mmCursor := cursor_down (mmItems m) (mmCursor m)\<rparr>) w
         else if key \<in> {''enter'', '' '', ''right'', ''l''} then choose_item (mmItems m ! nat (mmCursor m)) m w
         else (case digit_row key [''1'', ''2'', ''3'', ''4'', ''5'', ''6'', ''7''] of
             None \<Rightarrow> stay m w
           | Some i \<Rightarrow> if i < length (mmItems m) then choose_item (mmItems m ! i) m w else stay m w)
     | _ \<Rightarrow> stay m w)"

section \<open>User settings\<close>

record user_settings =
  usItems :: "menu_item list"
  usCursor :: int

definition new_user_settings :: "session_state \<Rightarrow> user_settings" where
  "new_user_settings w =
    \<lparr>usItems =
       [menu_item_at w ''screen.user_settings.item.password'' ''screen.user_settings.hint.password'' (Some ScreenPasswordChange),
        menu_item_at w ''screen.user_settings.item.bio'' ''screen.user_settings.hint.bio'' (Some ScreenBioEdit),
        menu_item_at w ''screen.user_settings.locale'' ''screen.user_settings.locale_hint'' (Some ScreenLocaleSettings),
        menu_item_at w ''screen.user_settings.item.notify'' ''screen.user_settings.hint.notify'' (Some ScreenNotifySettings),
        menu_item_at w ''screen.user_settings.item.back'' ''screen.user_settings.hint.back'' (Some ScreenMainMenu)],
     usCursor = 0\<rparr>"

definition user_settings_update :: "tui_msg \<Rightarrow> user_settings \<Rightarrow> session_state \<Rightarrow> user_settings updated" where
  "user_settings_update msg m w =
    (case msg of
       KeyMsg key \<Rightarrow>
         if key \<in> {''esc'', ''q'', ''left'', ''h'', ''backspace'', ''Q''} then goto (nav ScreenMainMenu) m w
         else if key \<in> {''up'', ''k''} then stay (m\<lparr>usCursor := cursor_up (usCursor m)\<rparr>) w
         else if key \<in> {''down'', ''j''} then stay (m\<lparr>usCursor := cursor_down (usItems m) (usCursor m)\<rparr>) w
         else if key \<in> {''enter'', '' '', ''right'', ''l''} then choose_item (usItems m ! nat (usCursor m)) m w
         else (case digit_row key [''1'', ''2'', ''3'', ''4'', ''5''] of
             None \<Rightarrow> stay m w
           | Some i \<Rightarrow> if i < length (usItems m) then choose_item (usItems m ! i) m w else stay m w)
     | _ \<Rightarrow> stay m w)"

section \<open>Locale settings\<close>

record locale_settings =
  lsOptions :: "locale_tag list"
  lsCursor :: int
  lsCurrent :: locale_tag
  lsSelected :: locale_tag
  lsFlash :: string
  lsErr :: err_note

definition new_locale_settings :: "session_state \<Rightarrow> locale_settings" where
  "new_locale_settings w =
    (let current = locale_of w; options = [LocaleZHTW, LocaleEN];
         n = length (takeWhile (\<lambda>l. l \<noteq> current) options)
     in \<lparr>lsOptions = options, lsCursor = (if n < length options then int n else 0), lsCurrent = current,
         lsSelected = current, lsFlash = [], lsErr = NoErr\<rparr>)"

text \<open>Reading the row of the session's user back into the object all screens share.\<close>

definition refresh_user :: "session_state \<Rightarrow> session_state" where
  "refresh_user w =
    (case seUser w of
       None \<Rightarrow> w
     | Some u \<Rightarrow> (case users_get_by_id (uID u) (seDB w) of Inl _ \<Rightarrow> w | Inr v \<Rightarrow> w\<lparr>seUser := Some v\<rparr>))"

definition locale_save :: "locale_settings \<Rightarrow> session_state \<Rightarrow> locale_settings updated" where
  "locale_save m w =
    (case seUser w of
       None \<Rightarrow> stay (m\<lparr>lsErr := ErrText ''internal error: no user''\<rparr>) w
     | Some u \<Rightarrow>
         if \<not> locale_valid (lsSelected m)
         then stay (m\<lparr>lsErr := ErrText (''invalid locale '' @ [CHR 0x22] @ lsSelected m @ [CHR 0x22])\<rparr>) w
         else if lsSelected m = lsCurrent m
         then stay (m\<lparr>lsFlash := tr w ''screen.locale_settings.flash_saved''\<rparr>) w
         else (case on_db (users_set_locale (uID u) (lsSelected m)) w of
             (Inl e, w1) \<Rightarrow> stay (m\<lparr>lsErr := ErrStore e\<rparr>) w1
           | (Inr _, w1) \<Rightarrow>
               let w2 = refresh_user w1
               in stay (m\<lparr>lsCurrent := lsSelected m, lsFlash := tr w2 ''screen.locale_settings.flash_saved'',
                          lsErr := NoErr\<rparr>) w2))"

definition locale_settings_update :: "tui_msg \<Rightarrow> locale_settings \<Rightarrow> session_state \<Rightarrow> locale_settings updated" where
  "locale_settings_update msg m w =
    (case msg of
       KeyMsg key \<Rightarrow>
         if key \<in> {''esc'', ''q'', ''left'', ''h'', ''backspace''} then goto (nav ScreenUserSettings) m w
         else if key = ''Q'' then goto (nav ScreenMainMenu) m w
         else if key \<in> {''up'', ''k''} then stay (m\<lparr>lsCursor := cursor_up (lsCursor m)\<rparr>) w
         else if key \<in> {''down'', ''j''} then stay (m\<lparr>lsCursor := cursor_down (lsOptions m) (lsCursor m)\<rparr>) w
         else if key \<in> {''enter'', '' '', ''right'', ''l''}
         then stay (m\<lparr>lsSelected := lsOptions m ! nat (lsCursor m), lsFlash := [], lsErr := NoErr\<rparr>) w
         else if key = ''ctrl+s'' then locale_save m w
         else (case digit_row key [''1'', ''2''] of
             None \<Rightarrow> stay m w
           | Some i \<Rightarrow>
               stay (if i < length (lsOptions m)
                     then m\<lparr>lsCursor := int i, lsSelected := lsOptions m ! i, lsFlash := [], lsErr := NoErr\<rparr>
                     else m) w)
     | _ \<Rightarrow> stay m w)"

section \<open>Who is online\<close>

record online_screen =
  onUsers :: "online_user list"
  onCursor :: int
  onWidth :: int
  onHeight :: int

definition new_online :: "session_state \<Rightarrow> online_screen" where
  "new_online w =
    \<lparr>onUsers = (if seHasBroker w then sort_by (by_asc ouUserID any_order) (broker_online_list (seBroker w)) else []),
     onCursor = 0, onWidth = 0, onHeight = 0\<rparr>"

definition online_update :: "tui_msg \<Rightarrow> online_screen \<Rightarrow> session_state \<Rightarrow> online_screen updated" where
  "online_update msg m w =
    (case msg of
       WindowSizeMsg width height \<Rightarrow> stay (m\<lparr>onWidth := width, onHeight := height\<rparr>) w
     | KeyMsg key \<Rightarrow>
         if key \<in> {''esc'', ''backspace'', ''left'', ''h'', ''Q''} then goto (nav ScreenMainMenu) m w
         else if key \<in> {''up'', ''k'', ''[''} then stay (m\<lparr>onCursor := cursor_up (onCursor m)\<rparr>) w
         else if key \<in> {''down'', ''j'', '']''} then stay (m\<lparr>onCursor := cursor_down (onUsers m) (onCursor m)\<rparr>) w
         else if key \<in> {''home'', ''g''} then stay (m\<lparr>onCursor := 0\<rparr>) w
         else if key \<in> {''end'', ''G''}
         then stay (if onUsers m = [] then m else m\<lparr>onCursor := int (length (onUsers m)) - 1\<rparr>) w
         else if key \<in> {''enter'', '' '', ''right'', ''l''} then
           (if onUsers m = [] then stay m w
            else goto ((nav ScreenWBCompose)\<lparr>nvRecipient := ouUserIDStr (onUsers m ! nat (onCursor m))\<rparr>) m w)
         else if key = ''t'' then
           (if onUsers m = [] then stay m w
            else goto ((nav ScreenWBThread)\<lparr>nvCounterpartyUserID := ouUserID (onUsers m ! nat (onCursor m))\<rparr>) m w)
         else stay m w
     | _ \<Rightarrow> stay m w)"

section \<open>The banner of a board\<close>

record board_splash =
  bsBoard :: "board option"
  bsBoardID :: int
  bsWidth :: int
  bsHeight :: int
  bsLoadErr :: err_note

definition new_board_splash :: "int \<Rightarrow> session_state \<Rightarrow> board_splash" where
  "new_board_splash board_id w =
    (case boards_get_by_id board_id (seDB w) of
       Inl e \<Rightarrow> \<lparr>bsBoard = None, bsBoardID = board_id, bsWidth = 0, bsHeight = 0, bsLoadErr = ErrStore e\<rparr>
     | Inr b \<Rightarrow> \<lparr>bsBoard = Some b, bsBoardID = board_id, bsWidth = 0, bsHeight = 0, bsLoadErr = NoErr\<rparr>)"

definition board_splash_update :: "tui_msg \<Rightarrow> board_splash \<Rightarrow> session_state \<Rightarrow> board_splash updated" where
  "board_splash_update msg m w =
    (case msg of
       WindowSizeMsg width height \<Rightarrow> stay (m\<lparr>bsWidth := width, bsHeight := height\<rparr>) w
     | KeyMsg _ \<Rightarrow> goto ((nav ScreenBoardView)\<lparr>nvBoardID := bsBoardID m\<rparr>) m w
     | _ \<Rightarrow> stay m w)"

end
