(* ===== verification/BoardScreens.thy ===== *)
theory BoardScreens
  imports MenuScreens
begin

text \<open>
  \<open>screen_board_list.go\<close>, \<open>screen_board_view.go\<close> and \<open>screen_board_banner_edit.go\<close>. The sizes of text
  widgets, which only affect their rendering, are left out.
\<close>

section \<open>Board list\<close>

record 'i board_list =
  blBoards :: "board list"
  blFiltered :: "board list"
  blCursor :: int
  blWidth :: int
  blHeight :: int
  blSearch :: 'i
  blSearchActive :: bool
  blFilter :: string

definition board_matches :: "'i lib \<Rightarrow> string \<Rightarrow> board \<Rightarrow> bool" where
  "board_matches L q b \<longleftrightarrow>
    str_contains (toLower L (bName b)) (toLower L q) \<or> str_contains (toLower L (bTitle b)) (toLower L q)
    \<or> str_contains (toLower L (bDescription b)) (toLower L q)"

definition recompute_filter :: "'i lib \<Rightarrow> 'i board_list \<Rightarrow> 'i board_list" where
  "recompute_filter L m =
    (let fs = (if blFilter m = [] then blBoards m else filter (board_matches L (blFilter m)) (blBoards m))
     in m\<lparr>blFiltered := fs,
          blCursor := (if int (length fs) \<le> blCursor m then max 0 (int (length fs) - 1) else blCursor m)\<rparr>)"

definition new_board_list :: "'i lib \<Rightarrow> session_state \<Rightarrow> 'i board_list" where
  "new_board_list L w =
    recompute_filter L \<lparr>blBoards = boards_list (seDB w), blFiltered = [], blCursor = 0, blWidth = 0, blHeight = 0,
      blSearch = tiNew L 32, blSearchActive = False, blFilter = []\<rparr>"

definition board_list_clear :: "'i lib \<Rightarrow> 'i board_list \<Rightarrow> 'i board_list" where
  "board_list_clear L m =
    recompute_filter L (m\<lparr>blSearch := tiSetValue L [] (blSearch m), blFilter := [], blCursor := 0\<rparr>)"

definition board_list_search_key ::
  "'i lib \<Rightarrow> string \<Rightarrow> 'i board_list \<Rightarrow> session_state \<Rightarrow> ('i board_list) updated" where
  "board_list_search_key L key m w =
    (if key = ''enter''
     then stay (recompute_filter L (m\<lparr>blFilter := trim_space (tiValue L (blSearch m)), blSearchActive := False,
                  blSearch := tiBlur L (blSearch m), blCursor := 0\<rparr>)) w
     else if key = ''esc''
     then let m1 = board_list_clear L m
          in stay (m1\<lparr>blSearchActive := False, blSearch := tiBlur L (blSearch m1)\<rparr>) w
     else ((m\<lparr>blSearch := tiUpdate L (KeyMsg key) (blSearch m)\<rparr>, Blink), w))"

definition board_list_key ::
  "'i lib \<Rightarrow> string \<Rightarrow> 'i board_list \<Rightarrow> session_state \<Rightarrow> ('i board_list) updated" where
  "board_list_key L key m w =
    (if key = ''/''
     then ((m\<lparr>blSearchActive := True, blSearch := tiFocus L (tiSetValue L (blFilter m) (blSearch m))\<rparr>, Blink), w)
     else if key = ''esc'' then
       (if blFilter m \<noteq> [] then stay (board_list_clear L m) w else goto (nav ScreenMainMenu) m w)
     else if key \<in> {''backspace'', ''left'', ''h'', ''Q''} then goto (nav ScreenMainMenu) m w
     else if key \<in> {''up'', ''k'', ''[''} then stay (m\<lparr>blCursor := cursor_up (blCursor m)\<rparr>) w
     else if key \<in> {''down'', ''j'', '']''} then stay (m\<lparr>blCursor := cursor_down (blFiltered m) (blCursor m)\<rparr>) w
     else if key \<in> {''home'', ''g''} then stay (m\<lparr>blCursor := 0\<rparr>) w
     else if key \<in> {''end'', ''G''}
     then stay (if blFiltered m = [] then m else m\<lparr>blCursor := int (length (blFiltered m)) - 1\<rparr>) w
     else if key \<in> {''enter'', '' '', ''right'', ''l''} then
       (if blFiltered m = [] then stay m w
        else goto ((nav ScreenBoardView)\<lparr>nvBoardID := bID (blFiltered m ! nat (blCursor m))\<rparr>) m w)
     else stay m w)"

definition board_list_update ::
  "'i lib \<Rightarrow> tui_msg \<Rightarrow> 'i board_list \<Rightarrow> session_state \<Rightarrow> ('i board_list) updated" where
  "board_list_update L msg m w =
    (case msg of
       WindowSizeMsg width height \<Rightarrow> stay (m\<lparr>blWidth := width, blHeight := height\<rparr>) w
     | KeyMsg key \<Rightarrow> if blSearchActive m then board_list_search_key L key m w else board_list_key L key m w
     | _ \<Rightarrow> stay m w)"

section \<open>Board view\<close>

record 'i board_view =
  bvBoard :: "board option"
  bvArticles :: "article list"
  bvCursor :: int
  bvWidth :: int
  bvHeight :: int
  bvLoadErr :: err_note
  bvSearch :: 'i
  bvSearchActive :: bool
  bvFilter :: string
  bvSort :: article_sort

definition find_cursor_by_id :: "article list \<Rightarrow> int \<Rightarrow> int" where
  "find_cursor_by_id arts i =
    (let n = length (takeWhile (\<lambda>a. aID a \<noteq> i) arts) in if n < length arts then int n else 0)"

definition board_view_reload :: "int \<Rightarrow> session_state \<Rightarrow> 'i board_view \<Rightarrow> 'i board_view" where
  "board_view_reload anchor w m =
    (case bvBoard m of
       None \<Rightarrow> m
     | Some b \<Rightarrow>
         let arts = articles_list_by_board_opts (bID b)
               \<lparr>loLimit = 100, loTitleSearch = bvFilter m, loSort = bvSort m\<rparr> (seDB w);
             c = (if 0 < anchor then find_cursor_by_id arts anchor else bvCursor m)
         in m\<lparr>bvArticles := arts,
              bvCursor := (if int (length arts) \<le> c then max 0 (int (length arts) - 1) else c)\<rparr>)"

definition new_board_view :: "'i lib \<Rightarrow> int \<Rightarrow> session_state \<Rightarrow> 'i board_view" where
  "new_board_view L board_id w =
    (let m = \<lparr>bvBoard = None, bvArticles = [], bvCursor = 0, bvWidth = 0, bvHeight = 0, bvLoadErr = NoErr,
           bvSearch = tiZero L, bvSearchActive = False, bvFilter = [], bvSort = SortNewestFirst\<rparr>
     in case boards_get_by_id board_id (seDB w) of
          Inl e \<Rightarrow> m\<lparr>bvLoadErr := ErrStore e\<rparr>
        | Inr b \<Rightarrow> board_view_reload 0 w (m\<lparr>bvBoard := Some b, bvSearch := tiNew L 64\<rparr>))"

definition current_anchor_id :: "'i board_view \<Rightarrow> int" where
  "current_anchor_id m =
    (if bvCursor m < int (length (bvArticles m)) then aID (bvArticles m ! nat (bvCursor m)) else 0)"

definition can_edit_banner :: "session_state \<Rightarrow> bool" where
  "can_edit_banner w \<longleftrightarrow> is_mod w"

definition can_pin :: "session_state \<Rightarrow> bool" where
  "can_pin w \<longleftrightarrow> is_mod w"

fun next_sort :: "article_sort \<Rightarrow> article_sort" where
  "next_sort SortNewestFirst = SortByScoreDesc"
| "next_sort SortByScoreDesc = SortNewestFirst"

definition toggle_pin :: "'i board_view \<Rightarrow> session_state \<Rightarrow> ('i board_view) updated" where
  "toggle_pin m w =
    (case (bvBoard m, seUser w) of
       (Some b, Some u) \<Rightarrow>
         if \<not> can_pin w \<or> bvArticles m = [] then stay m w
         else let a = bvArticles m ! nat (bvCursor m); pinned = (aPinnedAt a = None)
           in (case on_db (articles_set_pinned (aID a) (uID u) (uRole u) pinned (seNow w)) w of
                (Inl _, w1) \<Rightarrow> stay m w1
              | (Inr _, w1) \<Rightarrow>
                  stay (board_view_reload (aID a) w1 m)
                    (send_to_all (uID u) (ArticlePinChangedMsg (bID b) (aID a) pinned) w1))
     | _ \<Rightarrow> stay m w)"

definition board_view_search_key ::
  "'i lib \<Rightarrow> string \<Rightarrow> 'i board_view \<Rightarrow> session_state \<Rightarrow> ('i board_view) updated" where
  "board_view_search_key L key m w =
    (if key = ''enter''
     then stay (board_view_reload 0 w (m\<lparr>bvFilter := trim_space (tiValue L (bvSearch m)), bvSearchActive := False,
                  bvSearch := tiBlur L (bvSearch m), bvCursor := 0\<rparr>)) w
     else if key = ''esc''
     then stay (board_view_reload 0 w (m\<lparr>bvSearch := tiBlur L (tiSetValue L [] (bvSearch m)), bvFilter := [],
                  bvSearchActive := False, bvCursor := 0\<rparr>)) w
     else ((m\<lparr>bvSearch := tiUpdate L (KeyMsg key) (bvSearch m)\<rparr>, Blink), w))"

definition board_view_key ::
  "'i lib \<Rightarrow> string \<Rightarrow> 'i board_view \<Rightarrow> session_state \<Rightarrow> ('i board_view) updated" where
  "board_view_key L key m w =
    (let on_board = (\<lambda>s. case bvBoard m of None \<Rightarrow> stay m w | Some b \<Rightarrow> goto ((nav s)\<lparr>nvBoardID := bID b\<rparr>) m w) in
     if key = ''/''
     then ((m\<lparr>bvSearchActive := True, bvSearch := tiFocus L (tiSetValue L (bvFilter m) (bvSearch m))\<rparr>, Blink), w)
     else if key = ''esc'' then
       (if bvFilter m \<noteq> []
        then stay (board_view_reload 0 w (m\<lparr>bvFilter := [], bvSearch := tiSetValue L [] (bvSearch m), bvCursor := 0\<rparr>)) w
        else goto (nav ScreenBoardList) m w)
     else if key \<in> {''backspace'', ''left'', ''h''} then goto (nav ScreenBoardList) m w
     else if key = ''Q'' then goto (nav ScreenMainMenu) m w
     else if key = ''s''
     then (let m1 = m\<lparr>bvSort := next_sort (bvSort m)\<rparr> in stay (board_view_reload (current_anchor_id m1) w m1) w)
     else if key \<in> {''up'', ''k'', ''[''} then stay (m\<lparr>bvCursor := cursor_up (bvCursor m)\<rparr>) w
     else if key \<in> {''down'', ''j'', '']''} then stay (m\<lparr>bvCursor := cursor_down (bvArticles m) (bvCursor m)\<rparr>) w
     else if key \<in> {''home'', ''g''} then stay (m\<lparr>bvCursor := 0\<rparr>) w
     else if key \<in> {''end'', ''G''}
     then stay (if bvArticles m = [] then m else m\<lparr>bvCursor := int (length (bvArticles m)) - 1\<rparr>) w
     else if key \<in> {''enter'', '' '', ''right'', ''l''} then
       (if bvArticles m = [] then stay m w
        else let a = bvArticles m ! nat (bvCursor m)
          in goto ((nav ScreenArticleView)\<lparr>nvArticleID := aID a, nvBoardID := aBoardID a\<rparr>) m w)
     else if key = ''p'' then on_board ScreenPostCompose
     else if key = ''b'' then
       (case bvBoard m of None \<Rightarrow> stay m w | Some b \<Rightarrow> if bBanner b = [] then stay m w else on_board ScreenBoardSplash)
     else if key = ''B'' then (if can_edit_banner w then on_board ScreenBoardBannerEdit else stay m w)
     else if key = ''M'' then toggle_pin m w
     else stay m w)"

definition shows_board :: "int \<Rightarrow> 'i board_view \<Rightarrow> bool" where
  "shows_board i m \<longleftrightarrow> (case bvBoard m of None \<Rightarrow> False | Some b \<Rightarrow> bID b = i)"

definition board_view_update ::
  "'i lib \<Rightarrow> tui_msg \<Rightarrow> 'i board_view \<Rightarrow> session_state \<Rightarrow> ('i board_view) updated" where
  "board_view_update L msg m w =
    (case msg of
       WindowSizeMsg width height \<Rightarrow> stay (m\<lparr>bvWidth := width, bvHeight := height\<rparr>) w
     | ArticleAddedMsg b _ _ _ \<Rightarrow> stay (if shows_board b m then board_view_reload 0 w m else m) w
     | ArticlePinChangedMsg b _ _ \<Rightarrow>
         stay (if shows_board b m then board_view_reload (current_anchor_id m) w m else m) w
     | ArticleCommentsModeChangedMsg b _ _ \<Rightarrow>
         stay (if shows_board b m then board_view_reload (current_anchor_id m) w m else m) w
     | KeyMsg key \<Rightarrow> if bvSearchActive m then board_view_search_key L key m w else board_view_key L key m w
     | _ \<Rightarrow> stay m w)"

section \<open>Banner editor\<close>

record 'i banner_edit =
  beBoardID :: int
  beBody :: 'i
  beWidth :: int
  beHeight :: int
  beErr :: err_note
  beLoadErr :: err_note

definition new_banner_edit :: "'i lib \<Rightarrow> int \<Rightarrow> session_state \<Rightarrow> 'i banner_edit" where
  "new_banner_edit L board_id w =
    (let m = \<lparr>beBoardID = board_id, beBody = taNew L 16000, beWidth = 0, beHeight = 0, beErr = NoErr, beLoadErr = NoErr\<rparr>
     in case seUser w of
          None \<Rightarrow> m\<lparr>beLoadErr := ErrText ''not logged in''\<rparr>
        | Some u \<Rightarrow>
            if \<not> role_at_least (uRole u) RoleMod then m\<lparr>beLoadErr := ErrStore ErrPermissionDenied\<rparr>
            else (case boards_get_by_id board_id (seDB w) of
                Inl e \<Rightarrow> m\<lparr>beLoadErr := ErrStore e\<rparr>
              | Inr b \<Rightarrow> m\<lparr>beBody := tiFocus L (tiSetValue L (bBanner b) (beBody m))\<rparr>))"

definition banner_edit_leave :: "'i banner_edit \<Rightarrow> navigate_msg" where
  "banner_edit_leave m =
    (if beBoardID m = 0 then nav ScreenBoardList else (nav ScreenBoardView)\<lparr>nvBoardID := beBoardID m\<rparr>)"

definition banner_edit_submit :: "'i lib \<Rightarrow> 'i banner_edit \<Rightarrow> session_state \<Rightarrow> ('i banner_edit) updated" where
  "banner_edit_submit L m w =
    (case seUser w of
       None \<Rightarrow> crash m w
     | Some u \<Rightarrow>
         (case on_db (boards_update_banner (beBoardID m) (uID u) (uRole u) (trim_right [NL] (tiValue L (beBody m)))) w of
            (Inl e, w1) \<Rightarrow> stay (m\<lparr>beErr := ErrStore e\<rparr>) w1
          | (Inr _, w1) \<Rightarrow> goto ((nav ScreenBoardView)\<lparr>nvBoardID := beBoardID m\<rparr>) m w1))"

definition banner_edit_update ::
  "'i lib \<Rightarrow> tui_msg \<Rightarrow> 'i banner_edit \<Rightarrow> session_state \<Rightarrow> ('i banner_edit) updated" where
  "banner_edit_update L msg m w =
    (let type_in = (if beLoadErr m \<noteq> NoErr then stay m w
           else ((m\<lparr>beBody := tiUpdate L msg (beBody m)\<rparr>, Blink), w))
     in case msg of
          WindowSizeMsg width height \<Rightarrow> stay (m\<lparr>beWidth := width, beHeight := height\<rparr>) w
        | KeyMsg key \<Rightarrow>
            if beLoadErr m \<noteq> NoErr then goto (banner_edit_leave m) m w
            else if key = ''esc'' then goto (banner_edit_leave m) m w
            else if key = ''ctrl+s'' then banner_edit_submit L m w
            else type_in
        | _ \<Rightarrow> type_in)"

end
