(* ===== verification/WBScreens.thy ===== *)
theory WBScreens
  imports MenuScreens
begin

text \<open>
  \<open>screen_wb.go\<close>: the water-balloon inbox, the compose form and the one-to-one thread. The sizes of text
  widgets are left out.
\<close>

section \<open>Inbox\<close>

record wb_inbox =
  wiItems :: "wb_counterparty list"
  wiCursor :: int
  wiWidth :: int
  wiHeight :: int

definition new_wb_inbox :: "session_state \<Rightarrow> wb_inbox" where
  "new_wb_inbox w = \<lparr>wiItems = wbs_list_counterparties_for (session_uid w) 100 (seDB w), wiCursor = 0,
     wiWidth = 0, wiHeight = 0\<rparr>"

definition wb_inbox_update :: "tui_msg \<Rightarrow> wb_inbox \<Rightarrow> session_state \<Rightarrow> wb_inbox updated" where
  "wb_inbox_update msg m w =
    (case msg of
       WindowSizeMsg width height \<Rightarrow> stay (m\<lparr>wiWidth := width, wiHeight := height\<rparr>) w
     | KeyMsg key \<Rightarrow>
         if key \<in> {''esc'', ''backspace'', ''left'', ''h''} then goto (nav ScreenMainMenu) m w
         else if key \<in> {''up'', ''k''} then stay (m\<lparr>wiCursor := cursor_up (wiCursor m)\<rparr>) w
         else if key \<in> {''down'', ''j''} then stay (m\<lparr>wiCursor := cursor_down (wiItems m) (wiCursor m)\<rparr>) w
         else if key = ''c'' then goto (nav ScreenWBCompose) m w
         else if key \<in> {''r'', ''enter'', '' '', ''right'', ''l''} then
           (if wiItems m = [] then stay m w
            else goto ((nav ScreenWBThread)\<lparr>nvCounterpartyUserID := cpUserID (wiItems m ! nat (wiCursor m))\<rparr>) m w)
         else stay m w
     | _ \<Rightarrow> stay m w)"

section \<open>Sending\<close>

text \<open>
  What both forms do with the text once it is non-empty: store it; for oneself mark it read at once,
  otherwise hand it to the recipient's sessions, mark it read when there is one, and notify.
\<close>

definition send_wb :: "user \<Rightarrow> int \<Rightarrow> string \<Rightarrow> session_state \<Rightarrow> water_balloon res \<times> session_state" where
  "send_wb from to_id body w =
    (case on_db (wbs_insert (uID from) (uUserID from) to_id body False (seNow w)) w of
       (Inl e, w1) \<Rightarrow> (Inl e, w1)
     | (Inr wb, w1) \<Rightarrow>
         (Inr wb,
          if to_id = uID from then snd (on_db (wbs_mark_read (wID wb) (seNow w1)) w1)
          else if seHasBroker w1 then
            (let w2 = send_to to_id (WBIncomingMsg (wID wb) (uUserID from) body) w1;
                 w3 = (if fst (broker_send to_id (WBIncomingMsg (wID wb) (uUserID from) body) (seBroker w1))
                       then snd (on_db (wbs_mark_read (wID wb) (seNow w2)) w2) else w2)
             in notify_wb to_id (uUserID from) body w3)
          else w1))"

section \<open>Compose form\<close>

datatype wb_focus = WBFocusTo | WBFocusBody

record 'i wb_compose =
  wcTo :: 'i
  wcBody :: 'i
  wcFocus :: wb_focus
  wcWidth :: int
  wcHeight :: int
  wcErr :: err_note
  wcSent :: string

definition new_wb_compose :: "'i lib \<Rightarrow> string \<Rightarrow> session_state \<Rightarrow> 'i wb_compose" where
  "new_wb_compose L recipient w =
    (let to = tiSetValue L recipient (tiNew L 12); body = taNew L 240;
         m = \<lparr>wcTo = to, wcBody = body, wcFocus = WBFocusTo, wcWidth = 0, wcHeight = 0, wcErr = NoErr, wcSent = []\<rparr>
     in if recipient = [] then m\<lparr>wcFocus := WBFocusTo, wcTo := tiFocus L to\<rparr>
        else m\<lparr>wcFocus := WBFocusBody, wcBody := tiFocus L body\<rparr>)"

definition wb_toggle_focus :: "'i lib \<Rightarrow> 'i wb_compose \<Rightarrow> 'i wb_compose" where
  "wb_toggle_focus L m =
    (if wcFocus m = WBFocusTo
     then m\<lparr>wcFocus := WBFocusBody, wcTo := tiBlur L (wcTo m), wcBody := tiFocus L (wcBody m)\<rparr>
     else m\<lparr>wcFocus := WBFocusTo, wcBody := tiBlur L (wcBody m), wcTo := tiFocus L (wcTo m)\<rparr>)"

definition wb_compose_submit :: "'i lib \<Rightarrow> 'i wb_compose \<Rightarrow> session_state \<Rightarrow> ('i wb_compose) updated" where
  "wb_compose_submit L m w =
    (let to = trim_space (tiValue L (wcTo m)); body = trim_space (tiValue L (wcBody m)) in
     if to = [] then stay (m\<lparr>wcErr := ErrText ''recipient required''\<rparr>) w
     else if body = [] then stay (m\<lparr>wcErr := ErrText ''body required''\<rparr>) w
     else case users_get_by_user_id to (seDB w) of
       Inl e \<Rightarrow>
         stay (m\<lparr>wcErr := (if e = ErrUserNotFound then ErrText (''no such user: '' @ to) else ErrStore e)\<rparr>) w
     | Inr target \<Rightarrow>
         (case seUser w of
            None \<Rightarrow> crash m w
          | Some from \<Rightarrow>
              (case send_wb from (uID target) body w of
                 (Inl e, w1) \<Rightarrow> stay (m\<lparr>wcErr := ErrStore e\<rparr>) w1
               | (Inr _, w1) \<Rightarrow> stay (m\<lparr>wcSent := uUserID target\<rparr>) w1)))"

definition wb_compose_update ::
  "'i lib \<Rightarrow> tui_msg \<Rightarrow> 'i wb_compose \<Rightarrow> session_state \<Rightarrow> ('i wb_compose) updated" where
  "wb_compose_update L msg m w =
    (case msg of
       WindowSizeMsg width height \<Rightarrow> stay (m\<lparr>wcWidth := width, wcHeight := height\<rparr>) w
     | KeyMsg key \<Rightarrow>
         if wcSent m \<noteq> [] then goto (nav ScreenWBInbox) m w
         else if key = ''esc'' then goto (nav ScreenWBInbox) m w
         else if key = ''tab'' then stay (wb_toggle_focus L m) w
         else if key = ''ctrl+s'' then wb_compose_submit L m w
         else if wcFocus m = WBFocusTo then
           (if key = ''enter'' then stay (wb_toggle_focus L m) w
            else ((m\<lparr>wcTo := tiUpdate L msg (wcTo m)\<rparr>, Blink), w))
         else ((m\<lparr>wcBody := tiUpdate L msg (wcBody m)\<rparr>, Blink), w)
     | _ \<Rightarrow> stay m w)"

section \<open>Thread\<close>

record 'i wb_thread =
  wtCpID :: int
  wtCpUserID :: string
  wtItems :: "water_balloon list"
  wtScroll :: int
  wtWidth :: int
  wtHeight :: int
  wtLoadErr :: err_note
  wtInput :: 'i
  wtFocusInput :: bool
  wtErr :: err_note

definition scroll_end :: int where "scroll_end = 2 ^ 30"

definition new_wb_thread ::
  "'i lib \<Rightarrow> int \<Rightarrow> session_state \<Rightarrow> 'i wb_thread \<times> session_state" where
  "new_wb_thread L cp w =
    (let m = \<lparr>wtCpID = cp, wtCpUserID = [], wtItems = [], wtScroll = 0, wtWidth = 0, wtHeight = 0, wtLoadErr = NoErr,
           wtInput = tiZero L, wtFocusInput = False, wtErr = NoErr\<rparr>;
         me = session_uid w
     in case users_get_by_id cp (seDB w) of
          Inl e \<Rightarrow> (m\<lparr>wtLoadErr := ErrStore e\<rparr>, w)
        | Inr u \<Rightarrow>
            let items = wbs_list_conversation me cp 200 (seDB w);
                w1 = snd (on_db (wbs_mark_conversation_read me cp (seNow w)) w);
                seen = map (\<lambda>b. if wToUserID b = me \<and> wReadAt b = None then mark_wb (seNow w) b else b) items
            in (m\<lparr>wtCpUserID := uUserID u, wtItems := seen, wtInput := tiFocus L (tiNew L 240), wtFocusInput := True,
                  wtScroll := scroll_end\<rparr>, w1))"

definition matches_counterparty :: "string \<Rightarrow> 'i wb_thread \<Rightarrow> bool" where
  "matches_counterparty handle m \<longleftrightarrow> fold_ascii_eq handle (wtCpUserID m)"

definition wb_thread_submit :: "'i lib \<Rightarrow> 'i wb_thread \<Rightarrow> session_state \<Rightarrow> ('i wb_thread) updated" where
  "wb_thread_submit L m w =
    (let body = trim_space (tiValue L (wtInput m)) in
     if body = [] then stay m w
     else case seUser w of
       None \<Rightarrow> crash m w
     | Some from \<Rightarrow>
         (case send_wb from (wtCpID m) body w of
            (Inl e, w1) \<Rightarrow> stay (m\<lparr>wtErr := ErrStore e\<rparr>) w1
          | (Inr wb, w1) \<Rightarrow>
              stay (m\<lparr>wtItems := wtItems m @ [wb], wtInput := tiSetValue L [] (wtInput m), wtScroll := scroll_end\<rparr>) w1))"

definition wb_thread_input_key ::
  "'i lib \<Rightarrow> string \<Rightarrow> 'i wb_thread \<Rightarrow> session_state \<Rightarrow> ('i wb_thread) updated" where
  "wb_thread_input_key L key m w =
    (if key = ''esc'' then goto (nav ScreenWBInbox) m w
     else if key = ''tab'' then stay (m\<lparr>wtFocusInput := False, wtInput := tiBlur L (wtInput m)\<rparr>) w
     else if key \<in> {''up'', ''pgup''} then stay (m\<lparr>wtScroll := cursor_up (wtScroll m)\<rparr>) w
     else if key \<in> {''down'', ''pgdown''} then stay (m\<lparr>wtScroll := wtScroll m + 1\<rparr>) w
     else if key = ''enter'' then wb_thread_submit L m w
     else ((m\<lparr>wtInput := tiUpdate L (KeyMsg key) (wtInput m)\<rparr>, Blink), w))"

definition wb_thread_scroll_key ::
  "'i lib \<Rightarrow> string \<Rightarrow> 'i wb_thread \<Rightarrow> session_state \<Rightarrow> ('i wb_thread) updated" where
  "wb_thread_scroll_key L key m w =
    (if key \<in> {''esc'', ''backspace'', ''left'', ''h''} then goto (nav ScreenWBInbox) m w
     else if key = ''Q'' then goto (nav ScreenMainMenu) m w
     else if key = ''tab'' then ((m\<lparr>wtFocusInput := True, wtInput := tiFocus L (wtInput m)\<rparr>, Blink), w)
     else if key \<in> {''up'', ''k'', ''pgup''} then stay (m\<lparr>wtScroll := cursor_up (wtScroll m)\<rparr>) w
     else if key \<in> {''down'', ''j'', ''pgdown''} then stay (m\<lparr>wtScroll := wtScroll m + 1\<rparr>) w
     else if key \<in> {''g'', ''home''} then stay (m\<lparr>wtScroll := 0\<rparr>) w
     else if key \<in> {''G'', ''end''} then stay (m\<lparr>wtScroll := scroll_end\<rparr>) w
     else stay m w)"

definition wb_thread_update ::
  "'i lib \<Rightarrow> tui_msg \<Rightarrow> 'i wb_thread \<Rightarrow> session_state \<Rightarrow> ('i wb_thread) updated" where
  "wb_thread_update L msg m w =
    (case msg of
       WindowSizeMsg width height \<Rightarrow> stay (m\<lparr>wtWidth := width, wtHeight := height\<rparr>) w
     | WBIncomingMsg i from _ \<Rightarrow>
         if \<not> matches_counterparty from m then stay m w
         else let m1 = (case wbs_get_by_id i (seDB w) of
                          Inl _ \<Rightarrow> m
                        | Inr b \<Rightarrow> m\<lparr>wtItems := wtItems m @ [b], wtScroll := scroll_end\<rparr>)
           in stay m1 (snd (on_db (wbs_mark_read i (seNow w)) w))
     | KeyMsg key \<Rightarrow>
         let m1 = m\<lparr>wtErr := NoErr\<rparr>
         in if wtFocusInput m1 then wb_thread_input_key L key m1 w else wb_thread_scroll_key L key m1 w
     | _ \<Rightarrow> stay m w)"

end
