(* ===== verification/ComposeScreens.thy ===== *)
theory ComposeScreens
  imports MenuScreens Markdown
begin

text \<open>
  Writing and exporting articles: \<open>screen_post_compose.go\<close>, \<open>screen_article_edit.go\<close>,
  \<open>screen_article_export.go\<close> and the clipboard escape of \<open>osc52.go\<close>. The sizes of text widgets are left out.
\<close>

section \<open>Quoting\<close>

definition format_minute :: "timestamp \<Rightarrow> string" where
  "format_minute t =
    (case t of TS y mo d h mi s \<Rightarrow>
       pad 4 y @ ''-'' @ pad 2 mo @ ''-'' @ pad 2 d @ '' '' @ pad 2 h @ '':'' @ pad 2 mi)"

text \<open>The loop of \<open>rePrefix\<close> that drops the replies' prefixes.\<close>

lemma length_strip: "length (strip ws s) \<le> length s"
  using strip_suffix [of s ws] by (metis length_append le_add2)

lemma length_trim_space: "length (trim_space s) \<le> length s"
  unfolding trim_space_def using length_strip [of "map rev spaces" "rev (strip spaces s)"] length_strip [of spaces s] by simp

function strip_re :: "string \<Rightarrow> string" where
  "strip_re t =
    (if 3 \<le> length t \<and> has_prefix (to_lower t) ''re:'' then strip_re (trim_space (drop 3 t)) else t)"
  by pat_completeness auto
termination
proof (relation "measure length")
  fix t :: string
  assume "3 \<le> length t \<and> has_prefix (to_lower t) ''re:''"
  then show "(trim_space (drop 3 t), t) \<in> measure length"
    using length_trim_space [of "drop 3 t"] by (cases t) auto
qed simp

declare strip_re.simps [simp del]

definition re_prefix :: "string \<Rightarrow> string" where
  "re_prefix title = ''Re: '' @ strip_re (trim_space title)"

definition middle_dot :: string where
  "middle_dot = [CHR 0xC2, CHR 0xB7]"

definition quote_lines :: "string \<Rightarrow> string" where
  "quote_lines body = concat (map (\<lambda>l. ''> '' @ l @ [NL]) (split_byte NL body))"

definition quote_article_for_reply :: "article \<Rightarrow> session_state \<Rightarrow> string" where
  "quote_article_for_reply a w =
    ''> '' @ aAuthorUserID a @ '' '' @ middle_dot @ '' '' @ format_minute (aCreatedAt a) @ '' ''
    @ tr w ''screen.post_compose.wrote_suffix'' @ '':'' @ [NL] @ ''>'' @ [NL]
    @ quote_lines (aBody a) @ [NL]"

section \<open>Writing\<close>

datatype compose_focus = ComposeFocusTitle | ComposeFocusBody

record 'i post_compose =
  pcBoardID :: int
  pcParentID :: int
  pcParent :: "article option"
  pcTitle :: 'i
  pcBody :: 'i
  pcFocus :: compose_focus
  pcWidth :: int
  pcHeight :: int
  pcErr :: err_note

definition new_post_compose :: "'i lib \<Rightarrow> int \<Rightarrow> int \<Rightarrow> session_state \<Rightarrow> 'i post_compose" where
  "new_post_compose L board_id parent_id w =
    (let m = \<lparr>pcBoardID = board_id, pcParentID = parent_id, pcParent = None, pcTitle = tiFocus L (tiNew L 64),
           pcBody = taNew L 8000, pcFocus = ComposeFocusTitle, pcWidth = 0, pcHeight = 0, pcErr = NoErr\<rparr>
     in if parent_id = 0 then m
        else case articles_get_by_id parent_id (seDB w) of
            Inl _ \<Rightarrow> m
          | Inr a \<Rightarrow>
              m\<lparr>pcParent := Some a, pcBoardID := (if board_id = 0 then aBoardID a else board_id),
                pcTitle := tiBlur L (tiSetValue L (re_prefix (aTitle a)) (pcTitle m)),
                pcBody := tiFocus L (tiSetValue L (quote_article_for_reply a w) (pcBody m)),
                pcFocus := ComposeFocusBody\<rparr>)"

definition post_toggle_focus :: "'i lib \<Rightarrow> 'i post_compose \<Rightarrow> 'i post_compose" where
  "post_toggle_focus L m =
    (if pcFocus m = ComposeFocusTitle
     then m\<lparr>pcFocus := ComposeFocusBody, pcTitle := tiBlur L (pcTitle m), pcBody := tiFocus L (pcBody m)\<rparr>
     else m\<lparr>pcFocus := ComposeFocusTitle, pcBody := tiBlur L (pcBody m), pcTitle := tiFocus L (pcTitle m)\<rparr>)"

definition import_from_body :: "'i lib \<Rightarrow> 'i post_compose \<Rightarrow> session_state \<Rightarrow> 'i post_compose" where
  "import_from_body L m w =
    (let raw = tiValue L (pcBody m); p = parse_markdown raw in
     if trim_space raw = [] then m\<lparr>pcErr := ErrText (tr w ''screen.post_compose.fm_hint_paste'')\<rparr>
     else if mdTitle p = [] \<and> mdBody p = trim_right [NL] raw
     then m\<lparr>pcErr := ErrText (tr w ''screen.post_compose.fm_hint_missing'')\<rparr>
     else m\<lparr>pcTitle := (if mdTitle p \<noteq> [] then tiSetValue L (mdTitle p) (pcTitle m) else pcTitle m),
            pcBody := tiSetValue L (mdBody p) (pcBody m), pcErr := NoErr\<rparr>)"

text \<open>The broadcast and the notification of the parent's author once an article is stored.\<close>

definition announce_article ::
  "'i lib \<Rightarrow> user \<Rightarrow> int \<Rightarrow> article \<Rightarrow> string \<Rightarrow> article option \<Rightarrow> session_state \<Rightarrow> session_state" where
  "announce_article L u board_id art title parent w =
    (let w = send_to_all (uID u) (ArticleAddedMsg board_id (aID art) (uUserID u) (aTitle art)) w
     in case parent of
          None \<Rightarrow> w
        | Some p \<Rightarrow>
            if aAuthorID p = uID u then w
            else notify_dispatch \<lparr>evKind = KindReply, evToUserID = aAuthorID p, evFromUserID = uUserID u,
                   evTitle = tr_for w (aAuthorID p) ''notify.reply.title'' [FString (uUserID u)],
                   evBody = tr_for w (aAuthorID p) ''notify.reply.body''
                     [FString title, FString (truncate_width L (aTitle p) 60)]\<rparr> w)"

definition post_submit :: "'i lib \<Rightarrow> 'i post_compose \<Rightarrow> session_state \<Rightarrow> ('i post_compose) updated" where
  "post_submit L m w =
    (let title = trim_space (tiValue L (pcTitle m)); body = tiValue L (pcBody m) in
     if title = [] then stay (m\<lparr>pcErr := ErrText ''title is required''\<rparr>) w
     else if trim_space body = [] then stay (m\<lparr>pcErr := ErrText ''body is required''\<rparr>) w
     else case seUser w of
       None \<Rightarrow> crash m w
     | Some u \<Rightarrow>
         (case on_db (articles_create (pcBoardID m) (uID u) (uUserID u) title body (seNow w)) w of
            (Inl e, w1) \<Rightarrow> stay (m\<lparr>pcErr := ErrStore e\<rparr>) w1
          | (Inr art, w1) \<Rightarrow>
              (case on_db (users_increment_posts (uID u)) w1 of
                 (Inl e, w2) \<Rightarrow> stay (m\<lparr>pcErr := ErrStore e\<rparr>) w2
               | (Inr _, w2) \<Rightarrow>
                   goto ((nav ScreenBoardView)\<lparr>nvBoardID := pcBoardID m\<rparr>) m
                     (announce_article L u (pcBoardID m) art title (pcParent m) w2))))"

definition post_type_in :: "'i lib \<Rightarrow> tui_msg \<Rightarrow> 'i post_compose \<Rightarrow> session_state \<Rightarrow> ('i post_compose) updated" where
  "post_type_in L msg m w =
    (if pcFocus m = ComposeFocusTitle then
       (if msg = KeyMsg ''enter'' then stay (post_toggle_focus L m) w
        else ((m\<lparr>pcTitle := tiUpdate L msg (pcTitle m)\<rparr>, Blink), w))
     else ((m\<lparr>pcBody := tiUpdate L msg (pcBody m)\<rparr>, Blink), w))"

definition post_compose_update ::
  "'i lib \<Rightarrow> tui_msg \<Rightarrow> 'i post_compose \<Rightarrow> session_state \<Rightarrow> ('i post_compose) updated" where
  "post_compose_update L msg m w =
    (case msg of
       WindowSizeMsg width height \<Rightarrow> stay (m\<lparr>pcWidth := width, pcHeight := height\<rparr>) w
     | KeyMsg key \<Rightarrow>
         if key = ''esc'' then goto ((nav ScreenBoardView)\<lparr>nvBoardID := pcBoardID m\<rparr>) m w
         else if key = ''tab'' then stay (post_toggle_focus L m) w
         else if key = ''ctrl+s'' then post_submit L m w
         else if key = ''ctrl+i'' then stay (import_from_body L m w) w
         else post_type_in L msg m w
     | _ \<Rightarrow> post_type_in L msg m w)"

section \<open>Editing\<close>

record 'i article_edit =
  aeArticleID :: int
  aeBoardID :: int
  aeTitle :: 'i
  aeBody :: 'i
  aeFocus :: compose_focus
  aeWidth :: int
  aeHeight :: int
  aeErr :: err_note
  aeLoadErr :: err_note

definition new_article_edit :: "'i lib \<Rightarrow> int \<Rightarrow> session_state \<Rightarrow> 'i article_edit" where
  "new_article_edit L article_id w =
    (let m = \<lparr>aeArticleID = article_id, aeBoardID = 0, aeTitle = tiNew L 64, aeBody = taNew L 8000,
           aeFocus = ComposeFocusTitle, aeWidth = 0, aeHeight = 0, aeErr = NoErr, aeLoadErr = NoErr\<rparr>
     in case seUser w of
          None \<Rightarrow> m\<lparr>aeLoadErr := ErrText ''not logged in''\<rparr>
        | Some u \<Rightarrow>
            (case articles_get_by_id article_id (seDB w) of
               Inl e \<Rightarrow> m\<lparr>aeLoadErr := ErrStore e\<rparr>
             | Inr a \<Rightarrow>
                 if aAuthorID a \<noteq> uID u \<and> \<not> role_at_least (uRole u) RoleMod
                 then m\<lparr>aeLoadErr := ErrStore ErrPermissionDenied\<rparr>
                 else m\<lparr>aeBoardID := aBoardID a, aeTitle := tiFocus L (tiSetValue L (aTitle a) (aeTitle m)),
                        aeBody := tiSetValue L (aBody a) (aeBody m)\<rparr>))"

definition edit_toggle_focus :: "'i lib \<Rightarrow> 'i article_edit \<Rightarrow> 'i article_edit" where
  "edit_toggle_focus L m =
    (if aeFocus m = ComposeFocusTitle
     then m\<lparr>aeFocus := ComposeFocusBody, aeTitle := tiBlur L (aeTitle m), aeBody := tiFocus L (aeBody m)\<rparr>
     else m\<lparr>aeFocus := ComposeFocusTitle, aeBody := tiBlur L (aeBody m), aeTitle := tiFocus L (aeTitle m)\<rparr>)"

definition edit_cancel :: "'i article_edit \<Rightarrow> navigate_msg" where
  "edit_cancel m =
    (if aeBoardID m = 0 then nav ScreenBoardList
     else (nav ScreenArticleView)\<lparr>nvArticleID := aeArticleID m, nvBoardID := aeBoardID m\<rparr>)"

definition edit_submit :: "'i lib \<Rightarrow> 'i article_edit \<Rightarrow> session_state \<Rightarrow> ('i article_edit) updated" where
  "edit_submit L m w =
    (let title = trim_space (tiValue L (aeTitle m)); body = tiValue L (aeBody m) in
     if title = [] then stay (m\<lparr>aeErr := ErrText ''title is required''\<rparr>) w
     else if trim_space body = [] then stay (m\<lparr>aeErr := ErrText ''body is required''\<rparr>) w
     else case seUser w of
       None \<Rightarrow> crash m w
     | Some u \<Rightarrow>
         (case on_db (article_repo_update (aeArticleID m) (uID u) (uRole u) title body (seNow w)) w of
            (Inl e, w1) \<Rightarrow> stay (m\<lparr>aeErr := ErrStore e\<rparr>) w1
          | (Inr _, w1) \<Rightarrow>
              goto ((nav ScreenArticleView)\<lparr>nvArticleID := aeArticleID m, nvBoardID := aeBoardID m\<rparr>) m
                (send_to_all (uID u) (ArticleUpdatedMsg (aeArticleID m)) w1)))"

definition edit_type_in :: "'i lib \<Rightarrow> tui_msg \<Rightarrow> 'i article_edit \<Rightarrow> session_state \<Rightarrow> ('i article_edit) updated" where
  "edit_type_in L msg m w =
    (if aeLoadErr m \<noteq> NoErr then stay m w
     else if aeFocus m = ComposeFocusTitle then
       (if msg = KeyMsg ''enter'' then stay (edit_toggle_focus L m) w
        else ((m\<lparr>aeTitle := tiUpdate L msg (aeTitle m)\<rparr>, Blink), w))
     else ((m\<lparr>aeBody := tiUpdate L msg (aeBody m)\<rparr>, Blink), w))"

definition article_edit_update ::
  "'i lib \<Rightarrow> tui_msg \<Rightarrow> 'i article_edit \<Rightarrow> session_state \<Rightarrow> ('i article_edit) updated" where
  "article_edit_update L msg m w =
    (case msg of
       WindowSizeMsg width height \<Rightarrow> stay (m\<lparr>aeWidth := width, aeHeight := height\<rparr>) w
     | KeyMsg key \<Rightarrow>
         if aeLoadErr m \<noteq> NoErr then goto (edit_cancel m) m w
         else if key = ''esc'' then goto (edit_cancel m) m w
         else if key = ''tab'' then stay (edit_toggle_focus L m) w
         else if key = ''ctrl+s'' then edit_submit L m w
         else edit_type_in L msg m w
     | _ \<Rightarrow> edit_type_in L msg m w)"

section \<open>The clipboard escape\<close>

definition base64_char :: "nat \<Rightarrow> char" where
  "base64_char n = ''ABCDEFGHIJKLMNOPQRSTUVWXYZabcdefghijklmnopqrstuvwxyz0123456789+/'' ! n"

fun base64_encode :: "string \<Rightarrow> string" where
  "base64_encode [] = []"
| "base64_encode [a] =
    [base64_char (byte_of a div 4), base64_char (byte_of a mod 4 * 16), CHR ''='', CHR ''='']"
| "base64_encode [a, b] =
    [base64_char (byte_of a div 4), base64_char (byte_of a mod 4 * 16 + byte_of b div 16),
     base64_char (byte_of b mod 16 * 4), CHR ''='']"
| "base64_encode (a # b # c # s) =
    [base64_char (byte_of a div 4), base64_char (byte_of a mod 4 * 16 + byte_of b div 16),
     base64_char (byte_of b mod 16 * 4 + byte_of c div 64), base64_char (byte_of c mod 64)] @ base64_encode s"

definition osc52Limit :: nat where "osc52Limit = 32 * 1024"

definition osc52_sequence :: "string \<Rightarrow> string" where
  "osc52_sequence payload = [CHR 0x1B] @ '']52;c;'' @ base64_encode payload @ [CHR 0x1B, CHR 0x5C]"

text \<open>The escape goes to the standard output of the process.\<close>

definition emit_clipboard_osc52 :: "string \<Rightarrow> session_state \<Rightarrow> session_state" where
  "emit_clipboard_osc52 payload w = w\<lparr>seStdout := seStdout w @ osc52_sequence payload\<rparr>"

section \<open>Exporting\<close>

record article_export =
  axArticleID :: int
  axArticle :: "article option"
  axPushes :: "push list"
  axBoard :: "board option"
  axIncludePushes :: bool
  axWidth :: int
  axHeight :: int
  axScroll :: int
  axRendered :: string
  axLoadErr :: err_note
  axStatusLine :: string

definition export_rerender :: "article_export \<Rightarrow> article_export" where
  "export_rerender m =
    (if axArticle m = None then m
     else case format_article (axArticle m) (axPushes m)
            \<lparr>foIncludePushes = axIncludePushes m,
             foBoardName = (case axBoard m of None \<Rightarrow> [] | Some b \<Rightarrow> bName b)\<rparr> of
         None \<Rightarrow> m\<lparr>axRendered := ''(format error: markdown.Format: article is nil)''\<rparr>
       | Some out \<Rightarrow> m\<lparr>axRendered := out\<rparr>)"

definition new_article_export :: "int \<Rightarrow> session_state \<Rightarrow> article_export" where
  "new_article_export article_id w =
    (let m = \<lparr>axArticleID = article_id, axArticle = None, axPushes = [], axBoard = None, axIncludePushes = False,
           axWidth = 0, axHeight = 0, axScroll = 0, axRendered = [], axLoadErr = NoErr, axStatusLine = []\<rparr>
     in case articles_get_by_id article_id (seDB w) of
          Inl e \<Rightarrow> m\<lparr>axLoadErr := ErrStore e\<rparr>
        | Inr a \<Rightarrow>
            export_rerender (m\<lparr>axArticle := Some a, axPushes := pushes_list_by_article article_id (seDB w),
              axBoard := (case boards_get_by_id (aBoardID a) (seDB w) of Inl _ \<Rightarrow> None | Inr b \<Rightarrow> Some b)\<rparr>))"

definition export_back :: "article_export \<Rightarrow> navigate_msg" where
  "export_back m = (nav ScreenArticleView)\<lparr>nvArticleID := axArticleID m,
     nvBoardID := (case axArticle m of None \<Rightarrow> 0 | Some a \<Rightarrow> aBoardID a)\<rparr>"

definition export_line_count :: "article_export \<Rightarrow> int" where
  "export_line_count m = int (length (split_byte NL (axRendered m)))"

definition export_viewport_lines :: "article_export \<Rightarrow> int" where
  "export_viewport_lines m = max (axHeight m - 10) 5"

text \<open>
  Seconds since 1970 of a UTC time. User ids contain no separators, so \<open>filepath.Join\<close> is plain
  concatenation here.
\<close>

definition unix_time :: "timestamp \<Rightarrow> int" where
  "unix_time t =
    (case t of TS y mo d h mi s \<Rightarrow>
       let y' = int y - (if mo \<le> 2 then 1 else 0);
           doy = (153 * (int ((mo + 9) mod 12)) + 2) div 5 + int d - 1;
           days = 365 * y' + y' div 4 - y' div 100 + y' div 400 + doy - 719468
       in 86400 * days + 3600 * int h + 60 * int mi + int s)"

definition export_path :: "user \<Rightarrow> int \<Rightarrow> timestamp \<Rightarrow> string" where
  "export_path u article_id now =
    ''data/exports/'' @ uUserID u @ ''/'' @ itoa article_id @ ''-'' @ itoa (unix_time now) @ ''.md''"

definition export_write_to_disk :: "'i lib \<Rightarrow> article_export \<Rightarrow> session_state \<Rightarrow> article_export updated" where
  "export_write_to_disk L m w =
    (case seUser w of
       None \<Rightarrow> stay (m\<lparr>axStatusLine := tr w ''screen.article_export.guest_no_write''\<rparr>) w
     | Some u \<Rightarrow>
         if uRole u = RoleGuest then stay (m\<lparr>axStatusLine := tr w ''screen.article_export.guest_no_write''\<rparr>) w
         else case osMkdirAll L (''data/exports/'' @ uUserID u) of
             Some e \<Rightarrow> stay (m\<lparr>axStatusLine := ''mkdir: '' @ e\<rparr>) w
           | None \<Rightarrow>
               let path = export_path u (axArticleID m) (seNow w)
               in case osWriteFile L path (axRendered m) of
                    Some e \<Rightarrow> stay (m\<lparr>axStatusLine := ''write: '' @ e\<rparr>) w
                  | None \<Rightarrow>
                      stay (m\<lparr>axStatusLine := translate_f (seDefault w) (locale_of w)
                                 ''screen.article_export.wrote_file'' [FString path]\<rparr>)
                        (w\<lparr>seFiles := seFiles w @ [(path, axRendered m)]\<rparr>))"

definition export_copy :: "article_export \<Rightarrow> session_state \<Rightarrow> article_export updated" where
  "export_copy m w =
    stay (m\<lparr>axStatusLine :=
            (if osc52Limit < length (axRendered m)
             then translate_f (seDefault w) (locale_of w) ''screen.article_export.osc52_truncated''
                    [FInt (int (length (axRendered m)))]
             else tr w ''screen.article_export.osc52_copied'')\<rparr>)
      (emit_clipboard_osc52 (axRendered m) w)"

definition export_key :: "'i lib \<Rightarrow> string \<Rightarrow> article_export \<Rightarrow> session_state \<Rightarrow> article_export updated" where
  "export_key L key m w =
    (if key \<in> {''esc'', ''backspace'', ''left'', ''h''} then goto (export_back m) m w
     else if key = ''1''
     then stay ((export_rerender (m\<lparr>axIncludePushes := False\<rparr>))\<lparr>axScroll := 0, axStatusLine := []\<rparr>) w
     else if key = ''2''
     then stay ((export_rerender (m\<lparr>axIncludePushes := True\<rparr>))\<lparr>axScroll := 0, axStatusLine := []\<rparr>) w
     else if key = ''3'' then export_write_to_disk L m w
     else if key \<in> {''c'', ''C''} then export_copy m w
     else if key \<in> {''j'', ''down''} then stay (m\<lparr>axScroll := axScroll m + 1\<rparr>) w
     else if key \<in> {''k'', ''up''} then stay (if 0 < axScroll m then m\<lparr>axScroll := axScroll m - 1\<rparr> else m) w
     else if key = ''g'' then stay (m\<lparr>axScroll := 0\<rparr>) w
     else if key = ''G'' then stay (m\<lparr>axScroll := max 0 (export_line_count m - export_viewport_lines m)\<rparr>) w
     else if key \<in> {'' '', ''pgdown''} then stay (m\<lparr>axScroll := axScroll m + 10\<rparr>) w
     else if key \<in> {''b'', ''pgup''} then stay (m\<lparr>axScroll := max 0 (axScroll m - 10)\<rparr>) w
     else stay m w)"

definition article_export_update ::
  "'i lib \<Rightarrow> tui_msg \<Rightarrow> article_export \<Rightarrow> session_state \<Rightarrow> article_export updated" where
  "article_export_update L msg m w =
    (case msg of
       WindowSizeMsg width height \<Rightarrow> stay (m\<lparr>axWidth := width, axHeight := height\<rparr>) w
     | KeyMsg key \<Rightarrow> if axLoadErr m \<noteq> NoErr then goto (export_back m) m w else export_key L key m w
     | _ \<Rightarrow> stay m w)"

end
