(* ===== verification/MailScreens.thy ===== *)
theory MailScreens
  imports MenuScreens ComposeScreens
begin

text \<open>
  \<open>screen_mail.go\<close>: the mail inbox, a thread and the compose form. The sizes of text widgets are left out.
\<close>

section \<open>Inbox\<close>

record mail_inbox =
  miItems :: "mail list"
  miCursor :: int
  miWidth :: int
  miHeight :: int
  miLoadErr :: err_note

definition new_mail_inbox :: "session_state \<Rightarrow> mail_inbox" where
  "new_mail_inbox w =
    (case mails_list_inbox_for (session_uid w) 100 (seDB w) of
       Inl e \<Rightarrow> \<lparr>miItems = [], miCursor = 0, miWidth = 0, miHeight = 0, miLoadErr = ErrStore e\<rparr>
     | Inr ms \<Rightarrow> \<lparr>miItems = ms, miCursor = 0, miWidth = 0, miHeight = 0, miLoadErr = NoErr\<rparr>)"

definition mail_inbox_update :: "tui_msg \<Rightarrow> mail_inbox \<Rightarrow> session_state \<Rightarrow> mail_inbox updated" where
  "mail_inbox_update msg m w =
    (case msg of
       WindowSizeMsg width height \<Rightarrow> stay (m\<lparr>miWidth := width, miHeight := height\<rparr>) w
     | KeyMsg key \<Rightarrow>
         if key \<in> {''esc'', ''backspace'', ''left'', ''h'', ''Q''} then goto (nav ScreenMainMenu) m w
         else if key \<in> {''up'', ''k'', ''[''} then stay (m\<lparr>miCursor := cursor_up (miCursor m)\<rparr>) w
         else if key \<in> {''down'', ''j'', '']''} then stay (m\<lparr>miCursor := cursor_down (miItems m) (miCursor m)\<rparr>) w
         else if key = ''c'' then goto (nav ScreenMailCompose) m w
         else if key = ''r'' then
           (if miItems m = [] then stay m w
            else let it = miItems m ! nat (miCursor m)
              in goto ((nav ScreenMailCompose)\<lparr>nvRecipient := mFromUserIDStr it, nvMailID := mID it\<rparr>) m w)
         else if key \<in> {''enter'', '' '', ''right'', ''l''} then
           (if miItems m = [] then stay m w
            else goto ((nav ScreenMailThread)\<lparr>nvMailThreadID := the (mThreadCol (miItems m ! nat (miCursor m)))\<rparr>) m w)
         else stay m w
     | _ \<Rightarrow> stay m w)"

section \<open>Thread\<close>

record mail_thread =
  mtThreadID :: int
  mtItems :: "mail list"
  mtScroll :: int
  mtWidth :: int
  mtHeight :: int
  mtLoadErr :: err_note
  mtRendered :: "string list"
  mtRenderedWidth :: int

definition mail_width :: "mail_thread \<Rightarrow> int" where
  "mail_width m = (if mtWidth m - 4 < 40 then glamourFallbackWidth else mtWidth m - 4)"

definition render_bodies :: "'i lib \<Rightarrow> mail_thread \<Rightarrow> mail_thread" where
  "render_bodies L m =
    m\<lparr>mtRendered := map (\<lambda>it. render_markdown L (mBody it) (mail_width m)) (mtItems m),
      mtRenderedWidth := mail_width m\<rparr>"

definition mark_addressed :: "int \<Rightarrow> mail list \<Rightarrow> session_state \<Rightarrow> session_state" where
  "mark_addressed me items w =
    fold (\<lambda>it w. if mToUserID it = me \<and> mReadAt it = None
                  then snd (on_db (mails_mark_read (mID it) (seNow w)) w) else w) items w"

definition new_mail_thread :: "'i lib \<Rightarrow> int \<Rightarrow> session_state \<Rightarrow> mail_thread \<times> session_state" where
  "new_mail_thread L thread_id w =
    (let m = \<lparr>mtThreadID = thread_id, mtItems = [], mtScroll = 0, mtWidth = 0, mtHeight = 0, mtLoadErr = NoErr,
           mtRendered = [], mtRenderedWidth = 0\<rparr>
     in case mails_list_thread thread_id (seDB w) of
          Inl e \<Rightarrow> (render_bodies L (m\<lparr>mtLoadErr := ErrStore e\<rparr>), w)
        | Inr items \<Rightarrow> (render_bodies L (m\<lparr>mtItems := items\<rparr>), mark_addressed (session_uid w) items w))"

definition reply_recipient :: "mail \<Rightarrow> session_state \<Rightarrow> string" where
  "reply_recipient l w =
    (if mFromUserID l = session_uid w then
       (case mParentID l of
          None \<Rightarrow> mFromUserIDStr l
        | Some p \<Rightarrow> (case mails_get_by_id p (seDB w) of Inl _ \<Rightarrow> mFromUserIDStr l | Inr par \<Rightarrow> mFromUserIDStr par))
     else mFromUserIDStr l)"

definition mail_thread_update ::
  "'i lib \<Rightarrow> tui_msg \<Rightarrow> mail_thread \<Rightarrow> session_state \<Rightarrow> mail_thread updated" where
  "mail_thread_update L msg m w =
    (case msg of
       WindowSizeMsg width height \<Rightarrow>
         let m1 = m\<lparr>mtWidth := width, mtHeight := height\<rparr>
         in stay (if mail_width m1 \<noteq> mtRenderedWidth m1 then render_bodies L m1 else m1) w
     | KeyMsg key \<Rightarrow>
         if key \<in> {''esc'', ''backspace'', ''left'', ''h''} then goto (nav ScreenMailInbox) m w
         else if key = ''Q'' then goto (nav ScreenMainMenu) m w
         else if key \<in> {''up'', ''k''} then stay (m\<lparr>mtScroll := cursor_up (mtScroll m)\<rparr>) w
         else if key \<in> {''down'', ''j''} then stay (m\<lparr>mtScroll := mtScroll m + 1\<rparr>) w
         else if key = ''g'' then stay (m\<lparr>mtScroll := 0\<rparr>) w
         else if key = ''r'' then
           (if mtItems m = [] then stay m w
            else let l = List.last (mtItems m)
              in goto ((nav ScreenMailCompose)\<lparr>nvRecipient := reply_recipient l w, nvMailID := mID l\<rparr>) m w)
         else stay m w
     | _ \<Rightarrow> stay m w)"

section \<open>Compose form\<close>

datatype mail_focus = MailFocusTo | MailFocusSubject | MailFocusBody

record 'i mail_compose =
  mcParentID :: int
  mcTo :: 'i
  mcSubject :: 'i
  mcBody :: 'i
  mcFocus :: mail_focus
  mcWidth :: int
  mcHeight :: int
  mcErr :: err_note
  mcSent :: string

definition quote_for_reply :: "mail \<Rightarrow> session_state \<Rightarrow> string" where
  "quote_for_reply l w =
    ''> '' @ mFromUserIDStr l @ '' '' @ middle_dot @ '' '' @ format_minute (mCreatedAt l) @ '' ''
    @ tr w ''screen.mail.wrote_suffix'' @ '':'' @ [NL] @ ''>'' @ [NL]
    @ quote_lines (mBody l) @ [NL]"

definition reply_subject :: "string \<Rightarrow> string" where
  "reply_subject s = (if has_prefix (to_lower s) ''re:'' then s else ''Re: '' @ s)"

definition new_mail_compose :: "'i lib \<Rightarrow> string \<Rightarrow> int \<Rightarrow> session_state \<Rightarrow> 'i mail_compose" where
  "new_mail_compose L recipient parent_id w =
    (let to = tiSetValue L recipient (tiNew L 12);
         parent = (if parent_id = 0 then None
                   else case mails_get_by_id parent_id (seDB w) of Inl _ \<Rightarrow> None | Inr p \<Rightarrow> Some p);
         subj = (case parent of None \<Rightarrow> tiNew L 64 | Some p \<Rightarrow> tiSetValue L (reply_subject (mSubject p)) (tiNew L 64));
         body = (case parent of None \<Rightarrow> taNew L 4000 | Some p \<Rightarrow> tiSetValue L (quote_for_reply p w) (taNew L 4000));
         m = \<lparr>mcParentID = parent_id, mcTo = to, mcSubject = subj, mcBody = body, mcFocus = MailFocusTo,
              mcWidth = 0, mcHeight = 0, mcErr = NoErr, mcSent = []\<rparr>
     in if recipient = [] then m\<lparr>mcFocus := MailFocusTo, mcTo := tiFocus L to\<rparr>
        else if tiValue L subj = [] then m\<lparr>mcFocus := MailFocusSubject, mcSubject := tiFocus L subj\<rparr>
        else m\<lparr>mcFocus := MailFocusBody, mcBody := tiFocus L body\<rparr>)"

definition mail_cycle_focus :: "'i lib \<Rightarrow> 'i mail_compose \<Rightarrow> 'i mail_compose" where
  "mail_cycle_focus L m =
    (let m1 = m\<lparr>mcTo := tiBlur L (mcTo m), mcSubject := tiBlur L (mcSubject m), mcBody := tiBlur L (mcBody m)\<rparr>
     in case mcFocus m of
          MailFocusTo \<Rightarrow> m1\<lparr>mcFocus := MailFocusSubject, mcSubject := tiFocus L (mcSubject m1)\<rparr>
        | MailFocusSubject \<Rightarrow> m1\<lparr>mcFocus := MailFocusBody, mcBody := tiFocus L (mcBody m1)\<rparr>
        | MailFocusBody \<Rightarrow> m1\<lparr>mcFocus := MailFocusTo, mcTo := tiFocus L (mcTo m1)\<rparr>)"

text \<open>The effects of a stored mail: read at once when it is a memo, otherwise handed over and notified.\<close>

definition announce_mail :: "user \<Rightarrow> user \<Rightarrow> mail \<Rightarrow> string \<Rightarrow> string \<Rightarrow> session_state \<Rightarrow> session_state" where
  "announce_mail from target l subj body w =
    (if uID target = uID from then snd (on_db (mails_mark_read (mID l) (seNow w)) w)
     else if seHasBroker w then
       notify_mail (uID target) (uUserID from) subj body
         (send_to (uID target) (MailIncomingMsg (mID l) (the (mThreadCol l)) (uUserID from) subj) w)
     else w)"

definition mail_submit :: "'i lib \<Rightarrow> 'i mail_compose \<Rightarrow> session_state \<Rightarrow> ('i mail_compose) updated" where
  "mail_submit L m w =
    (let to = trim_space (tiValue L (mcTo m)); subj = trim_space (tiValue L (mcSubject m));
         body = trim_space (tiValue L (mcBody m)) in
     if to = [] then stay (m\<lparr>mcErr := ErrText ''recipient required''\<rparr>) w
     else if subj = [] then stay (m\<lparr>mcErr := ErrText ''subject required''\<rparr>) w
     else if body = [] then stay (m\<lparr>mcErr := ErrText ''body required''\<rparr>) w
     else case users_get_by_user_id to (seDB w) of
       Inl e \<Rightarrow>
         stay (m\<lparr>mcErr := (if e = ErrUserNotFound then ErrText (''no such user: '' @ to) else ErrStore e)\<rparr>) w
     | Inr target \<Rightarrow>
         (case seUser w of
            None \<Rightarrow> crash m w
          | Some from \<Rightarrow>
              (case on_db (mails_insert (uID from) (uUserID from) (uID target) subj body
                             (if mcParentID m = 0 then None else Some (mcParentID m)) (seNow w)) w of
                 (Inl e, w1) \<Rightarrow> stay (m\<lparr>mcErr := ErrStore e\<rparr>) w1
               | (Inr l, w1) \<Rightarrow>
                   stay (m\<lparr>mcSent := uUserID target\<rparr>) (announce_mail from target l subj body w1))))"

definition mail_compose_update ::
  "'i lib \<Rightarrow> tui_msg \<Rightarrow> 'i mail_compose \<Rightarrow> session_state \<Rightarrow> ('i mail_compose) updated" where
  "mail_compose_update L msg m w =
    (case msg of
       WindowSizeMsg width height \<Rightarrow> stay (m\<lparr>mcWidth := width, mcHeight := height\<rparr>) w
     | KeyMsg key \<Rightarrow>
         if mcSent m \<noteq> [] then goto (nav ScreenMailInbox) m w
         else if key = ''esc'' then goto (nav ScreenMailInbox) m w
         else if key = ''tab'' then stay (mail_cycle_focus L m) w
         else if key = ''ctrl+s'' then mail_submit L m w
         else if mcFocus m \<noteq> MailFocusBody \<and> key = ''enter'' then stay (mail_cycle_focus L m) w
         else (case mcFocus m of
             MailFocusTo \<Rightarrow> ((m\<lparr>mcTo := tiUpdate L msg (mcTo m)\<rparr>, Blink), w)
           | MailFocusSubject \<Rightarrow> ((m\<lparr>mcSubject := tiUpdate L msg (mcSubject m)\<rparr>, Blink), w)
           | MailFocusBody \<Rightarrow> ((m\<lparr>mcBody := tiUpdate L msg (mcBody m)\<rparr>, Blink), w))
     | _ \<Rightarrow> stay m w)"

end
