(* ===== verification/AccountScreens.thy ===== *)
theory AccountScreens
  imports MenuScreens
begin

text \<open>
  \<open>screen_register.go\<close>, \<open>screen_password_change.go\<close>, \<open>screen_bio_edit.go\<close> and \<open>screen_admin_users.go\<close>.
  The fields of a form are a list of text widgets; \<open>gen\<close> and \<open>cmp\<close> are the two bcrypt functions.
\<close>

section \<open>Forms\<close>

definition form_advance :: "'i lib \<Rightarrow> int \<Rightarrow> nat \<Rightarrow> 'i list \<Rightarrow> nat \<times> 'i list" where
  "form_advance L delta focus inputs =
    (let n = int (length inputs); f = nat ((int focus + delta + n) mod n)
     in (f, map (\<lambda>(i, x). if i = f then tiFocus L x else tiBlur L x) (enumerate 0 inputs)))"

definition form_type_in :: "'i lib \<Rightarrow> tui_msg \<Rightarrow> nat \<Rightarrow> 'i list \<Rightarrow> 'i list" where
  "form_type_in L msg focus inputs = inputs[focus := tiUpdate L msg (inputs ! focus)]"

section \<open>Registration\<close>

record 'i register_form =
  rgInputs :: "'i list"
  rgFocus :: nat
  rgErr :: err_note
  rgSuccess :: bool
  rgDone :: string

definition new_register :: "'i lib \<Rightarrow> 'i register_form" where
  "new_register L = \<lparr>rgInputs = [tiFocus L (tiNew L 12), tiNew L 128, tiNew L 64, tiNew L 128], rgFocus = 0,
     rgErr = NoErr, rgSuccess = False, rgDone = []\<rparr>"

definition register_advance :: "'i lib \<Rightarrow> int \<Rightarrow> 'i register_form \<Rightarrow> 'i register_form" where
  "register_advance L delta m =
    (case form_advance L delta (rgFocus m) (rgInputs m) of (f, xs) \<Rightarrow> m\<lparr>rgFocus := f, rgInputs := xs\<rparr>)"

definition register_submit ::
  "(string \<Rightarrow> string option) \<Rightarrow> 'i lib \<Rightarrow> 'i register_form \<Rightarrow> session_state \<Rightarrow> ('i register_form) updated" where
  "register_submit gen L m w =
    (let v = (\<lambda>i. tiValue L (rgInputs m ! i))
     in case on_db (register gen (seDefault w) (v 0) (v 1) (v 2) (v 3) (seNow w)) w of
          (Inl e, w1) \<Rightarrow> stay (m\<lparr>rgErr := ErrAuth e\<rparr>) w1
        | (Inr u, w1) \<Rightarrow> stay (m\<lparr>rgSuccess := True, rgDone := uUserID u\<rparr>) w1)"

definition register_update ::
  "(string \<Rightarrow> string option) \<Rightarrow> 'i lib \<Rightarrow> tui_msg \<Rightarrow> 'i register_form \<Rightarrow> session_state \<Rightarrow>
    ('i register_form) updated" where
  "register_update gen L msg m w =
    (let type_in = ((m\<lparr>rgInputs := form_type_in L msg (rgFocus m) (rgInputs m)\<rparr>, Blink), w)
     in case msg of
          WindowSizeMsg _ _ \<Rightarrow> stay m w
        | KeyMsg key \<Rightarrow>
            if rgSuccess m then ((m, Quit), w)
            else if key = ''esc'' then ((m, Quit), w)
            else if key \<in> {''tab'', ''down''} then stay (register_advance L 1 m) w
            else if key \<in> {''shift+tab'', ''up''} then stay (register_advance L (- 1) m) w
            else if key = ''enter'' then
              (if rgFocus m < length (rgInputs m) - 1 then stay (register_advance L 1 m) w
               else register_submit gen L m w)
            else type_in
        | _ \<Rightarrow> type_in)"

section \<open>Password change\<close>

record 'i password_change =
  pwInputs :: "'i list"
  pwFocus :: nat
  pwErr :: err_note
  pwSuccess :: bool

definition new_password_change :: "'i lib \<Rightarrow> 'i password_change" where
  "new_password_change L = \<lparr>pwInputs = [tiFocus L (tiNew L 128), tiNew L 128, tiNew L 128], pwFocus = 0,
     pwErr = NoErr, pwSuccess = False\<rparr>"

definition password_advance :: "'i lib \<Rightarrow> int \<Rightarrow> 'i password_change \<Rightarrow> 'i password_change" where
  "password_advance L delta m =
    (case form_advance L delta (pwFocus m) (pwInputs m) of (f, xs) \<Rightarrow> m\<lparr>pwFocus := f, pwInputs := xs\<rparr>)"

definition password_leave :: "session_state \<Rightarrow> navigate_msg" where
  "password_leave w = nav (if seMustChange w then ScreenMainMenu else ScreenUserSettings)"

text \<open>The checks, in order: the first that fails is shown.\<close>

definition password_problem ::
  "(string \<Rightarrow> string \<Rightarrow> bool) \<Rightarrow> user \<Rightarrow> string \<Rightarrow> string \<Rightarrow> string \<Rightarrow> session_state \<Rightarrow> err_note" where
  "password_problem cmp u current new confirm w =
    (if \<not> verify_password_hash cmp (uPasswordHash u) current then ErrText (tr w ''screen.password_change.err_wrong'')
     else case validate_password new of
       Some e \<Rightarrow> ErrAuth e
     | None \<Rightarrow>
         if new \<noteq> confirm then ErrText (tr w ''screen.password_change.err_mismatch'')
         else if new = current then ErrText (tr w ''screen.password_change.err_same'')
         else NoErr)"

definition password_submit ::
  "(string \<Rightarrow> string option) \<Rightarrow> (string \<Rightarrow> string \<Rightarrow> bool) \<Rightarrow> 'i lib \<Rightarrow> 'i password_change \<Rightarrow> session_state \<Rightarrow>
    ('i password_change) updated" where
  "password_submit gen cmp L m w =
    (let v = (\<lambda>i. tiValue L (pwInputs m ! i)) in
     case seUser w of
       None \<Rightarrow> stay (m\<lparr>pwErr := ErrText ''internal error: no user''\<rparr>) w
     | Some u \<Rightarrow>
         if password_problem cmp u (v 0) (v 1) (v 2) w \<noteq> NoErr
         then stay (m\<lparr>pwErr := password_problem cmp u (v 0) (v 1) (v 2) w\<rparr>) w
         else case hash_password gen (v 1) of
           Inl e \<Rightarrow> stay (m\<lparr>pwErr := ErrAuth e\<rparr>) w
         | Inr h \<Rightarrow>
             (case on_db (users_set_password (uID u) h) w of
                (Inl e, w1) \<Rightarrow> stay (m\<lparr>pwErr := ErrStore e\<rparr>) w1
              | (Inr _, w1) \<Rightarrow> goto (password_leave w1) (m\<lparr>pwSuccess := True\<rparr>) (refresh_user w1)))"

definition password_change_update ::
  "(string \<Rightarrow> string option) \<Rightarrow> (string \<Rightarrow> string \<Rightarrow> bool) \<Rightarrow> 'i lib \<Rightarrow> tui_msg \<Rightarrow> 'i password_change \<Rightarrow>
    session_state \<Rightarrow> ('i password_change) updated" where
  "password_change_update gen cmp L msg m w =
    (let type_in = ((m\<lparr>pwInputs := form_type_in L msg (pwFocus m) (pwInputs m)\<rparr>, Blink), w)
     in case msg of
          WindowSizeMsg _ _ \<Rightarrow> stay m w
        | KeyMsg key \<Rightarrow>
            if pwSuccess m then goto (password_leave w) m w
            else if key = ''esc'' then (if seMustChange w then ((m, Quit), w) else goto (nav ScreenUserSettings) m w)
            else if key \<in> {''tab'', ''down''} then stay (password_advance L 1 m) w
            else if key \<in> {''shift+tab'', ''up''} then stay (password_advance L (- 1) m) w
            else if key = ''enter'' then
              (if pwFocus m < length (pwInputs m) - 1 then stay (password_advance L 1 m) w
               else password_submit gen cmp L m w)
            else type_in
        | _ \<Rightarrow> type_in)"

section \<open>Bio\<close>

record 'i bio_edit =
  biBody :: 'i
  biWidth :: int
  biHeight :: int
  biErr :: err_note
  biSuccess :: bool

definition new_bio_edit :: "'i lib \<Rightarrow> session_state \<Rightarrow> 'i bio_edit" where
  "new_bio_edit L w =
    (let ta = taNew L 4096;
         ta = (case seUser w of None \<Rightarrow> ta | Some u \<Rightarrow> if uBio u \<noteq> [] then tiSetValue L (uBio u) ta else ta)
     in \<lparr>biBody = tiFocus L ta, biWidth = 0, biHeight = 0, biErr = NoErr, biSuccess = False\<rparr>)"

definition bio_submit :: "'i lib \<Rightarrow> 'i bio_edit \<Rightarrow> session_state \<Rightarrow> ('i bio_edit) updated" where
  "bio_submit L m w =
    (let bio = trim_right [NL] (tiValue L (biBody m)) in
     case validate_bio bio of
       Some e \<Rightarrow> stay (m\<lparr>biErr := ErrAuth e\<rparr>) w
     | None \<Rightarrow>
         (case seUser w of
            None \<Rightarrow> stay (m\<lparr>biErr := ErrText ''internal error: no user''\<rparr>) w
          | Some u \<Rightarrow>
              (case on_db (users_set_bio (uID u) bio) w of
                 (Inl e, w1) \<Rightarrow> stay (m\<lparr>biErr := ErrStore e\<rparr>) w1
               | (Inr _, w1) \<Rightarrow> goto (nav ScreenUserSettings) (m\<lparr>biSuccess := True\<rparr>) (refresh_user w1))))"

definition bio_edit_update :: "'i lib \<Rightarrow> tui_msg \<Rightarrow> 'i bio_edit \<Rightarrow> session_state \<Rightarrow> ('i bio_edit) updated" where
  "bio_edit_update L msg m w =
    (let type_in = ((m\<lparr>biBody := tiUpdate L msg (biBody m)\<rparr>, Blink), w)
     in case msg of
          WindowSizeMsg width height \<Rightarrow> stay (m\<lparr>biWidth := width, biHeight := height\<rparr>) w
        | KeyMsg key \<Rightarrow>
            if biSuccess m then goto (nav ScreenUserSettings) m w
            else if key = ''esc'' then goto (nav ScreenUserSettings) m w
            else if key = ''ctrl+s'' then bio_submit L m w
            else type_in
        | _ \<Rightarrow> type_in)"

section \<open>User administration\<close>

definition adminUsersPageSize :: int where "adminUsersPageSize = 20"

record admin_users =
  auUsers :: "user list"
  auCursor :: int
  auPage :: int
  auToast :: err_note
  auWidth :: int
  auHeight :: int

definition admin_reload :: "session_state \<Rightarrow> admin_users \<Rightarrow> admin_users" where
  "admin_reload w m =
    (let us = users_list_all adminUsersPageSize (auPage m * adminUsersPageSize) (seDB w)
     in m\<lparr>auUsers := us,
          auCursor := (if int (length us) \<le> auCursor m then max 0 (int (length us) - 1) else auCursor m)\<rparr>)"

definition new_admin_users :: "session_state \<Rightarrow> admin_users" where
  "new_admin_users w =
    admin_reload w \<lparr>auUsers = [], auCursor = 0, auPage = 0, auToast = NoErr, auWidth = 0, auHeight = 0\<rparr>"

definition arrow_text :: string where
  "arrow_text = '' '' @ [CHR 0xE2, CHR 0x86, CHR 0x92] @ '' ''"

definition apply_role :: "role \<Rightarrow> admin_users \<Rightarrow> session_state \<Rightarrow> admin_users updated" where
  "apply_role target m w =
    (if auUsers m = [] \<or> auCursor m < 0 \<or> int (length (auUsers m)) \<le> auCursor m then stay m w
     else let u = auUsers m ! nat (auCursor m) in
       if uRole u = target
       then stay (m\<lparr>auToast := ErrText (translate_f (seDefault w) (locale_of w) ''screen.admin_users.toast_already''
                     [FString (uUserID u), FString target])\<rparr>) w
       else if uRole u = RoleAdmin \<and> target \<noteq> RoleAdmin \<and> users_count_by_role RoleAdmin (seDB w) \<le> 1
       then stay (m\<lparr>auToast := ErrText (tr w ''screen.admin_users.toast_no_last_admin'')\<rparr>) w
       else (case on_db (users_set_role (uID u) target) w of
           (Inl e, w1) \<Rightarrow>
             stay (m\<lparr>auToast := (if e = ErrInvalidRole then ErrText ''invalid role'' else ErrStore e)\<rparr>) w1
         | (Inr _, w1) \<Rightarrow>
             stay (admin_reload w1 (m\<lparr>auToast := ErrText (uUserID u @ arrow_text @ target)\<rparr>)) w1))"

definition next_page :: "session_state \<Rightarrow> admin_users \<Rightarrow> admin_users" where
  "next_page w m =
    (let m1 = admin_reload w (m\<lparr>auPage := auPage m + 1, auCursor := 0\<rparr>)
     in if auUsers m1 = [] \<and> 0 < auPage m1 then admin_reload w (m1\<lparr>auPage := auPage m1 - 1\<rparr>) else m1)"

definition admin_users_update :: "tui_msg \<Rightarrow> admin_users \<Rightarrow> session_state \<Rightarrow> admin_users updated" where
  "admin_users_update msg m w =
    (case msg of
       WindowSizeMsg width height \<Rightarrow> stay (m\<lparr>auWidth := width, auHeight := height\<rparr>) w
     | KeyMsg key \<Rightarrow>
         if key \<in> {''esc'', ''backspace'', ''left'', ''h'', ''Q''} then goto (nav ScreenMainMenu) m w
         else if key \<in> {''up'', ''k''} then stay (m\<lparr>auCursor := cursor_up (auCursor m)\<rparr>) w
         else if key \<in> {''down'', ''j''} then stay (m\<lparr>auCursor := cursor_down (auUsers m) (auCursor m)\<rparr>) w
         else if key = ''[''
         then stay (if 0 < auPage m then admin_reload w (m\<lparr>auPage := auPage m - 1, auCursor := 0\<rparr>) else m) w
         else if key = '']'' then stay (next_page w m) w
         else if key = ''g'' then apply_role RoleGuest m w
         else if key = ''u'' then apply_role RoleUser m w
         else if key = ''M'' then apply_role RoleMod m w
         else if key = ''a'' then apply_role RoleAdmin m w
         else stay m w
     | _ \<Rightarrow> stay m w)"

end
