(* ===== verification/NotifyScreen.thy ===== *)
theory NotifyScreen
  imports MenuScreens
begin

text \<open>
  \<open>screen_notify_settings.go\<close>: the preference toggles, the webhook targets and the inline form. The
  delivery of a test runs in a command outside the update.
\<close>

datatype edit_mode = ModeList | ModeEdit

record 'i notify_settings =
  nsPrefs :: notify_prefs
  nsTargets :: "notify_target list"
  nsCursor :: int
  nsPrefsDirty :: bool
  nsMode :: edit_mode
  nsEditLabel :: 'i
  nsEditURL :: 'i
  nsEditFocus :: nat
  nsEditingID :: int
  nsWidth :: int
  nsHeight :: int
  nsErr :: err_note
  nsFlash :: string

definition notifPrefCount :: int where "notifPrefCount = 5"

definition no_prefs :: notify_prefs where
  "no_prefs = \<lparr>npOnPush = False, npOnWB = False, npOnMail = False, npOnReply = False, npOnlyWhenOffline = False\<rparr>"

definition new_notify_settings :: "'i lib \<Rightarrow> session_state \<Rightarrow> 'i notify_settings" where
  "new_notify_settings L w =
    (let m = \<lparr>nsPrefs = no_prefs, nsTargets = [], nsCursor = 0, nsPrefsDirty = False, nsMode = ModeList,
           nsEditLabel = tiNew L 64, nsEditURL = tiNew L 512, nsEditFocus = 0, nsEditingID = 0,
           nsWidth = 0, nsHeight = 0, nsErr = NoErr, nsFlash = []\<rparr>
     in case seUser w of
          None \<Rightarrow> m
        | Some u \<Rightarrow> m\<lparr>nsPrefs := notify_get_prefs (uID u) (seDB w), nsTargets := notify_list_targets (uID u) (seDB w)\<rparr>)"

definition row_count :: "'i notify_settings \<Rightarrow> int" where
  "row_count m = notifPrefCount + int (length (nsTargets m)) + 1"

definition add_row_index :: "'i notify_settings \<Rightarrow> int" where
  "add_row_index m = notifPrefCount + int (length (nsTargets m))"

definition target_index :: "'i notify_settings \<Rightarrow> nat option" where
  "target_index m =
    (let i = nsCursor m - notifPrefCount
     in if i < 0 \<or> int (length (nsTargets m)) \<le> i then None else Some (nat i))"

definition flip_pref :: "int \<Rightarrow> 'i notify_settings \<Rightarrow> 'i notify_settings" where
  "flip_pref i m =
    (let p = nsPrefs m in m\<lparr>nsPrefs :=
       (if i = 0 then p\<lparr>npOnPush := \<not> npOnPush p\<rparr>
        else if i = 1 then p\<lparr>npOnWB := \<not> npOnWB p\<rparr>
        else if i = 2 then p\<lparr>npOnMail := \<not> npOnMail p\<rparr>
        else if i = 3 then p\<lparr>npOnReply := \<not> npOnReply p\<rparr>
        else if i = 4 then p\<lparr>npOnlyWhenOffline := \<not> npOnlyWhenOffline p\<rparr>
        else p)\<rparr>)"

definition save_prefs :: "'i notify_settings \<Rightarrow> session_state \<Rightarrow> ('i notify_settings) updated" where
  "save_prefs m w =
    (case seUser w of
       None \<Rightarrow> stay (m\<lparr>nsErr := ErrText ''internal error: no user''\<rparr>) w
     | Some u \<Rightarrow>
         if \<not> nsPrefsDirty m then stay (m\<lparr>nsFlash := ''(no changes)''\<rparr>) w
         else (case on_db (notify_set_prefs (uID u) (nsPrefs m)) w of
             (Inl e, w1) \<Rightarrow> stay (m\<lparr>nsErr := ErrStore e\<rparr>) w1
           | (Inr _, w1) \<Rightarrow>
               stay (m\<lparr>nsPrefsDirty := False, nsFlash := tr w1 ''screen.notify_settings.flash_prefs_saved'',
                      nsErr := NoErr\<rparr>) w1))"

definition open_form :: "'i lib \<Rightarrow> int \<Rightarrow> string \<Rightarrow> string \<Rightarrow> 'i notify_settings \<Rightarrow> 'i notify_settings" where
  "open_form L i label url m =
    m\<lparr>nsMode := ModeEdit, nsEditingID := i, nsEditLabel := tiFocus L (tiSetValue L label (nsEditLabel m)),
      nsEditURL := tiBlur L (tiSetValue L url (nsEditURL m)), nsEditFocus := 0, nsErr := NoErr\<rparr>"

definition start_add :: "'i lib \<Rightarrow> 'i notify_settings \<Rightarrow> 'i notify_settings" where
  "start_add L m = open_form L 0 [] [] m"

definition start_edit :: "'i lib \<Rightarrow> 'i notify_settings \<Rightarrow> 'i notify_settings" where
  "start_edit L m =
    (case target_index m of
       None \<Rightarrow> m
     | Some i \<Rightarrow> (let t = nsTargets m ! i in open_form L (ntID t) (ntLabel t) (ntURL t) m))"

definition toggle_target :: "'i notify_settings \<Rightarrow> session_state \<Rightarrow> ('i notify_settings) updated" where
  "toggle_target m w =
    (case target_index m of
       None \<Rightarrow> stay m w
     | Some i \<Rightarrow>
         let t = nsTargets m ! i; want = (\<not> ntEnabled t)
         in case on_db (notify_set_target_enabled (ntID t) (session_uid w) want) w of
              (Inl e, w1) \<Rightarrow> stay (m\<lparr>nsErr := ErrStore e\<rparr>) w1
            | (Inr _, w1) \<Rightarrow>
                stay (m\<lparr>nsTargets := (nsTargets m)[i := t\<lparr>ntEnabled := want\<rparr>],
                   nsFlash := translate_f (seDefault w1) (locale_of w1)
                     (if want then ''screen.notify_settings.flash_enabled'' else ''screen.notify_settings.flash_disabled'')
                     [FInt64 (ntID t)],
                   nsErr := NoErr\<rparr>) w1)"

definition delete_target :: "'i notify_settings \<Rightarrow> session_state \<Rightarrow> ('i notify_settings) updated" where
  "delete_target m w =
    (case target_index m of
       None \<Rightarrow> stay m w
     | Some i \<Rightarrow>
         (case on_db (notify_delete_target (ntID (nsTargets m ! i)) (session_uid w)) w of
            (Inl e, w1) \<Rightarrow> stay (m\<lparr>nsErr := ErrStore e\<rparr>) w1
          | (Inr _, w1) \<Rightarrow>
              let m1 = m\<lparr>nsTargets := take i (nsTargets m) @ drop (i + 1) (nsTargets m)\<rparr>
              in stay (m1\<lparr>nsCursor := (if row_count m1 \<le> nsCursor m1 then row_count m1 - 1 else nsCursor m1),
                          nsFlash := tr w1 ''screen.notify_settings.flash_deleted'', nsErr := NoErr\<rparr>) w1))"

definition format_second :: "timestamp \<Rightarrow> string" where
  "format_second t =
    (case t of TS y mo d h mi s \<Rightarrow>
       pad 4 y @ ''-'' @ pad 2 mo @ ''-'' @ pad 2 d @ '' '' @ pad 2 h @ '':'' @ pad 2 mi @ '':'' @ pad 2 s)"

definition test_event :: "notify_target \<Rightarrow> string \<Rightarrow> timestamp \<Rightarrow> event" where
  "test_event t user now = \<lparr>evKind = KindPush, evToUserID = ntUserID t, evFromUserID = user,
     evTitle = ''[BBS-test] notification target verified'',
     evBody = ''User: '' @ user @ [NL] @ ''Target: #'' @ itoa (ntID t) @ '' ('' @ ntLabel t @ '')'' @ [NL]
       @ ''Time: '' @ format_second now @ [NL, NL]
       @ ''If you can read this, the webhook URL is wired up correctly.''\<rparr>"

definition start_test :: "'i notify_settings \<Rightarrow> session_state \<Rightarrow> ('i notify_settings) updated" where
  "start_test m w =
    (case target_index m of
       None \<Rightarrow> stay m w
     | Some i \<Rightarrow>
         let t = nsTargets m ! i;
             user = (case seUser w of None \<Rightarrow> [] | Some u \<Rightarrow> uUserID u)
         in if \<not> seHasNotify w then stay (m\<lparr>nsErr := ErrText ''notify dispatcher not initialised''\<rparr>) w
            else ((m\<lparr>nsFlash := [CHR 0xF0, CHR 0x9F, CHR 0x94, CHR 0x94] @ '' testing target #'' @ itoa (ntID t) @ ellipsis,
                     nsErr := NoErr\<rparr>,
                   SendTestCmd t (test_event t user (seNow w))), w))"

definition notify_list_key ::
  "'i lib \<Rightarrow> string \<Rightarrow> 'i notify_settings \<Rightarrow> session_state \<Rightarrow> ('i notify_settings) updated" where
  "notify_list_key L key m w =
    (let flip = (flip_pref (nsCursor m) m)\<lparr>nsPrefsDirty := True\<rparr>;
         on_target = (notifPrefCount \<le> nsCursor m \<and> nsCursor m < add_row_index m) in
     if key \<in> {''esc'', ''left'', ''h'', ''backspace''} then goto (nav ScreenUserSettings) m w
     else if key = ''Q'' then goto (nav ScreenMainMenu) m w
     else if key \<in> {''up'', ''k''} then stay (m\<lparr>nsCursor := cursor_up (nsCursor m), nsErr := NoErr\<rparr>) w
     else if key \<in> {''down'', ''j''}
     then stay (m\<lparr>nsCursor := (if nsCursor m < row_count m - 1 then nsCursor m + 1 else nsCursor m), nsErr := NoErr\<rparr>) w
     else if key = '' '' then
       (if nsCursor m < notifPrefCount then stay (flip\<lparr>nsErr := NoErr\<rparr>) w
        else if nsCursor m = add_row_index m then stay (start_add L m) w
        else toggle_target m w)
     else if key = ''ctrl+s'' then save_prefs m w
     else if key = ''a'' then stay (start_add L m) w
     else if key = ''t'' then (if on_target then toggle_target m w else stay m w)
     else if key = ''e'' then stay (if on_target then start_edit L m else m) w
     else if key = ''d'' then (if on_target then delete_target m w else stay m w)
     else if key = ''T'' then (if on_target then start_test m w else stay m w)
     else if key \<in> {''enter'', ''right'', ''l''} then
       stay (if nsCursor m = add_row_index m then start_add L m
             else if nsCursor m < notifPrefCount then flip
             else start_edit L m) w
     else stay m w)"

definition cycle_edit_focus :: "'i lib \<Rightarrow> 'i notify_settings \<Rightarrow> 'i notify_settings" where
  "cycle_edit_focus L m =
    (if nsEditFocus m = 0
     then m\<lparr>nsEditFocus := 1, nsEditLabel := tiBlur L (nsEditLabel m), nsEditURL := tiFocus L (nsEditURL m)\<rparr>
     else m\<lparr>nsEditFocus := 0, nsEditURL := tiBlur L (nsEditURL m), nsEditLabel := tiFocus L (nsEditLabel m)\<rparr>)"

text \<open>Storing the form: a new target, or the edited one with its enabled state kept.\<close>

definition store_target ::
  "int \<Rightarrow> string \<Rightarrow> string \<Rightarrow> notify_target list \<Rightarrow> int \<Rightarrow> timestamp \<Rightarrow> db \<Rightarrow> int res \<times> db" where
  "store_target uid label url ts i now d =
    (if i = 0 then notify_add_target uid label url now d
     else let enabled = (case find (\<lambda>t. ntID t = i) ts of None \<Rightarrow> True | Some t \<Rightarrow> ntEnabled t)
       in case notify_update_target i uid label url enabled d of
            (Inl e, d1) \<Rightarrow> (Inl e, d1)
          | (Inr _, d1) \<Rightarrow> (Inr i, d1))"

definition submit_edit :: "'i lib \<Rightarrow> 'i notify_settings \<Rightarrow> session_state \<Rightarrow> ('i notify_settings) updated" where
  "submit_edit L m w =
    (case seUser w of
       None \<Rightarrow> stay (m\<lparr>nsErr := ErrText ''internal error: no user''\<rparr>) w
     | Some u \<Rightarrow>
         let label = trim_space (tiValue L (nsEditLabel m)); url = trim_space (tiValue L (nsEditURL m))
         in case validate_notify_url url of
              Inl e \<Rightarrow> stay (m\<lparr>nsErr := ErrStore e\<rparr>) w
            | Inr _ \<Rightarrow>
                (case on_db (store_target (uID u) label url (nsTargets m) (nsEditingID m) (seNow w)) w of
                   (Inl e, w1) \<Rightarrow> stay (m\<lparr>nsErr := ErrStore e\<rparr>) w1
                 | (Inr i, w1) \<Rightarrow>
                     stay (m\<lparr>nsTargets := notify_list_targets (uID u) (seDB w1),
                        nsFlash := translate_f (seDefault w1) (locale_of w1)
                          (if nsEditingID m = 0 then ''screen.notify_settings.flash_added''
                           else ''screen.notify_settings.flash_updated'') [FInt64 i],
                        nsMode := ModeList, nsEditingID := 0, nsErr := NoErr\<rparr>) w1))"

definition notify_edit_key ::
  "'i lib \<Rightarrow> string \<Rightarrow> 'i notify_settings \<Rightarrow> session_state \<Rightarrow> ('i notify_settings) updated" where
  "notify_edit_key L key m w =
    (if key = ''esc'' then stay (m\<lparr>nsMode := ModeList, nsErr := NoErr\<rparr>) w
     else if key \<in> {''tab'', ''down'', ''shift+tab'', ''up''} then stay (cycle_edit_focus L m) w
     else if key \<in> {''enter'', ''ctrl+s''} then submit_edit L m w
     else if nsEditFocus m = 0 then ((m\<lparr>nsEditLabel := tiUpdate L (KeyMsg key) (nsEditLabel m)\<rparr>, Blink), w)
     else ((m\<lparr>nsEditURL := tiUpdate L (KeyMsg key) (nsEditURL m)\<rparr>, Blink), w))"

definition test_result :: "int \<Rightarrow> string option \<Rightarrow> 'i notify_settings \<Rightarrow> 'i notify_settings" where
  "test_result i err m =
    (case err of
       Some e \<Rightarrow> m\<lparr>nsErr := ErrText (''target #'' @ itoa i @ '' test failed: '' @ e), nsFlash := []\<rparr>
     | None \<Rightarrow> m\<lparr>nsFlash := [CHR 0xE2, CHR 0x9C, CHR 0x93] @ '' target #'' @ itoa i @ '' test delivered ''
                  @ [CHR 0xE2, CHR 0x80, CHR 0x94] @ '' check your receiver'', nsErr := NoErr\<rparr>)"

definition notify_settings_update ::
  "'i lib \<Rightarrow> tui_msg \<Rightarrow> 'i notify_settings \<Rightarrow> session_state \<Rightarrow> ('i notify_settings) updated" where
  "notify_settings_update L msg m w =
    (case msg of
       WindowSizeMsg width height \<Rightarrow> stay (m\<lparr>nsWidth := width, nsHeight := height\<rparr>) w
     | KeyMsg key \<Rightarrow> if nsMode m = ModeEdit then notify_edit_key L key m w else notify_list_key L key m w
     | NotifyTestResultMsg i err \<Rightarrow> stay (test_result i err m) w
     | _ \<Rightarrow> stay m w)"

end
