(* ===== verification/Root.thy ===== *)
theory Root
  imports ArticleView BoardScreens WBScreens MailScreens AccountScreens NotifyScreen
begin

text \<open>
  \<open>internal/tui/root.go\<close>: the model that owns the active screen, with its global keys, its guards and the
  navigation, and \<open>helpAvailable\<close> of \<open>help.go\<close>. The sub-model is a sum over all screens.
\<close>

section \<open>The active screen\<close>

datatype 'i sub =
    SubRegister "'i register_form"
  | SubMainMenu main_menu
  | SubBoardList "'i board_list"
  | SubBoardView "'i board_view"
  | SubArticleView "'i article_view"
  | SubPostCompose "'i post_compose"
  | SubWBInbox wb_inbox
  | SubWBCompose "'i wb_compose"
  | SubWBThread "'i wb_thread"
  | SubOnline online_screen
  | SubMailInbox mail_inbox
  | SubMailThread mail_thread
  | SubMailCompose "'i mail_compose"
  | SubPasswordChange "'i password_change"
  | SubAdminUsers admin_users
  | SubArticleEdit "'i article_edit"
  | SubArticleExport article_export
  | SubBoardSplash board_splash
  | SubBannerEdit "'i banner_edit"
  | SubUserSettings user_settings
  | SubBioEdit "'i bio_edit"
  | SubNotifySettings "'i notify_settings"
  | SubLocaleSettings locale_settings

text \<open>The libraries a session runs on: bcrypt and the terminal.\<close>

record 'i env =
  enGen :: "string \<Rightarrow> string option"
  enCmp :: "string \<Rightarrow> string \<Rightarrow> bool"
  enLib :: "'i lib"

definition lift_sub :: "('m \<Rightarrow> 'i sub) \<Rightarrow> 'm updated \<Rightarrow> ('i sub) updated" where
  "lift_sub C r = (case r of ((m, c), w) \<Rightarrow> ((C m, c), w))"

definition sub_update :: "'i env \<Rightarrow> tui_msg \<Rightarrow> 'i sub \<Rightarrow> session_state \<Rightarrow> ('i sub) updated" where
  "sub_update E msg s w =
    (let L = enLib E in
     case s of
       SubRegister m \<Rightarrow> lift_sub SubRegister (register_update (enGen E) L msg m w)
     | SubMainMenu m \<Rightarrow> lift_sub SubMainMenu (main_menu_update msg m w)
     | SubBoardList m \<Rightarrow> lift_sub SubBoardList (board_list_update L msg m w)
     | SubBoardView m \<Rightarrow> lift_sub SubBoardView (board_view_update L msg m w)
     | SubArticleView m \<Rightarrow> lift_sub SubArticleView (article_view_update L msg m w)
     | SubPostCompose m \<Rightarrow> lift_sub SubPostCompose (post_compose_update L msg m w)
     | SubWBInbox m \<Rightarrow> lift_sub SubWBInbox (wb_inbox_update msg m w)
     | SubWBCompose m \<Rightarrow> lift_sub SubWBCompose (wb_compose_update L msg m w)
     | SubWBThread m \<Rightarrow> lift_sub SubWBThread (wb_thread_update L msg m w)
     | SubOnline m \<Rightarrow> lift_sub SubOnline (online_update msg m w)
     | SubMailInbox m \<Rightarrow> lift_sub SubMailInbox (mail_inbox_update msg m w)
     | SubMailThread m \<Rightarrow> lift_sub SubMailThread (mail_thread_update L msg m w)
     | SubMailCompose m \<Rightarrow> lift_sub SubMailCompose (mail_compose_update L msg m w)
     | SubPasswordChange m \<Rightarrow> lift_sub SubPasswordChange (password_change_update (enGen E) (enCmp E) L msg m w)
     | SubAdminUsers m \<Rightarrow> lift_sub SubAdminUsers (admin_users_update msg m w)
     | SubArticleEdit m \<Rightarrow> lift_sub SubArticleEdit (article_edit_update L msg m w)
     | SubArticleExport m \<Rightarrow> lift_sub SubArticleExport (article_export_update L msg m w)
     | SubBoardSplash m \<Rightarrow> lift_sub SubBoardSplash (board_splash_update msg m w)
     | SubBannerEdit m \<Rightarrow> lift_sub SubBannerEdit (banner_edit_update L msg m w)
     | SubUserSettings m \<Rightarrow> lift_sub SubUserSettings (user_settings_update msg m w)
     | SubBioEdit m \<Rightarrow> lift_sub SubBioEdit (bio_edit_update L msg m w)
     | SubNotifySettings m \<Rightarrow> lift_sub SubNotifySettings (notify_settings_update L msg m w)
     | SubLocaleSettings m \<Rightarrow> lift_sub SubLocaleSettings (locale_settings_update msg m w))"

text \<open>\<open>Init\<close>: the forms start the cursor blink, the other screens do nothing.\<close>

fun sub_init :: "'i sub \<Rightarrow> cmd" where
  "sub_init (SubRegister _) = Blink"
| "sub_init (SubPostCompose _) = Blink"
| "sub_init (SubWBCompose _) = Blink"
| "sub_init (SubWBThread _) = Blink"
| "sub_init (SubMailCompose _) = Blink"
| "sub_init (SubPasswordChange _) = Blink"
| "sub_init (SubArticleEdit _) = Blink"
| "sub_init (SubBannerEdit _) = Blink"
| "sub_init (SubBioEdit _) = Blink"
| "sub_init (SubNotifySettings _) = Blink"
| "sub_init _ = NoCmd"

section \<open>Navigation\<close>

datatype toast = NoToast | ErrToast err_note | WBToast string string

record 'i root =
  rtSub :: "'i sub"
  rtWidth :: int
  rtHeight :: int
  rtToast :: toast
  rtToastUntil :: int
  rtActiveScreen :: screen
  rtHelpVisible :: bool

definition toastDuration :: int where "toastDuration = 3"

definition new_root :: "'i env \<Rightarrow> session_state \<Rightarrow> 'i root" where
  "new_root E w =
    (let r = (\<lambda>s scr. \<lparr>rtSub = s, rtWidth = 0, rtHeight = 0, rtToast = NoToast, rtToastUntil = 0,
           rtActiveScreen = scr, rtHelpVisible = False\<rparr>)
     in if seIsRegister w then r (SubRegister (new_register (enLib E))) ScreenMainMenu
        else if seMustChange w then r (SubPasswordChange (new_password_change (enLib E))) ScreenPasswordChange
        else r (SubMainMenu (new_main_menu w)) ScreenMainMenu)"

definition set_toast :: "toast \<Rightarrow> session_state \<Rightarrow> 'i root \<Rightarrow> 'i root" where
  "set_toast t w r = r\<lparr>rtToast := t, rtToastUntil := unix_time (seNow w) + toastDuration\<rparr>"

definition guest_write_blocked :: "screen \<Rightarrow> session_state \<Rightarrow> cmd option" where
  "guest_write_blocked to w =
    (if \<not> user_is (\<lambda>u. uRole u = RoleGuest) w then None
     else if to \<in> {ScreenPostCompose, ScreenWBCompose, ScreenMailCompose, ScreenAdminUsers, ScreenArticleEdit}
     then Some (Yield (ErrorMsg (ErrText (tr w ''error.guest_read_only''))))
     else None)"

definition navigate_non_admin_blocked :: "screen \<Rightarrow> session_state \<Rightarrow> cmd option" where
  "navigate_non_admin_blocked to w =
    (if to \<noteq> ScreenAdminUsers then None
     else if user_is (\<lambda>u. uRole u = RoleAdmin) w then None
     else Some (Yield (ErrorMsg (ErrText (tr w ''error.admin_only'')))))"

definition new_sub :: "'i env \<Rightarrow> navigate_msg \<Rightarrow> session_state \<Rightarrow> 'i sub \<times> session_state" where
  "new_sub E n w =
    (let L = enLib E in
     case nvTo n of
       ScreenMainMenu \<Rightarrow> (SubMainMenu (new_main_menu w), w)
     | ScreenBoardList \<Rightarrow> (SubBoardList (new_board_list L w), w)
     | ScreenBoardView \<Rightarrow> (SubBoardView (new_board_view L (nvBoardID n) w), w)
     | ScreenArticleView \<Rightarrow> (SubArticleView (new_article_view L (nvArticleID n) w), w)
     | ScreenPostCompose \<Rightarrow> (SubPostCompose (new_post_compose L (nvBoardID n) (nvArticleID n) w), w)
     | ScreenWBInbox \<Rightarrow> (SubWBInbox (new_wb_inbox w), w)
     | ScreenWBCompose \<Rightarrow> (SubWBCompose (new_wb_compose L (nvRecipient n) w), w)
     | ScreenWBThread \<Rightarrow> (case new_wb_thread L (nvCounterpartyUserID n) w of (m, w1) \<Rightarrow> (SubWBThread m, w1))
     | ScreenOnline \<Rightarrow> (SubOnline (new_online w), w)
     | ScreenMailInbox \<Rightarrow> (SubMailInbox (new_mail_inbox w), w)
     | ScreenMailThread \<Rightarrow> (case new_mail_thread L (nvMailThreadID n) w of (m, w1) \<Rightarrow> (SubMailThread m, w1))
     | ScreenMailCompose \<Rightarrow> (SubMailCompose (new_mail_compose L (nvRecipient n) (nvMailID n) w), w)
     | ScreenPasswordChange \<Rightarrow> (SubPasswordChange (new_password_change L), w)
     | ScreenAdminUsers \<Rightarrow> (SubAdminUsers (new_admin_users w), w)
     | ScreenArticleEdit \<Rightarrow> (SubArticleEdit (new_article_edit L (nvArticleID n) w), w)
     | ScreenArticleExport \<Rightarrow> (SubArticleExport (new_article_export (nvArticleID n) w), w)
     | ScreenBoardSplash \<Rightarrow> (SubBoardSplash (new_board_splash (nvBoardID n) w), w)
     | ScreenBoardBannerEdit \<Rightarrow> (SubBannerEdit (new_banner_edit L (nvBoardID n) w), w)
     | ScreenUserSettings \<Rightarrow> (SubUserSettings (new_user_settings w), w)
     | ScreenBioEdit \<Rightarrow> (SubBioEdit (new_bio_edit L w), w)
     | ScreenNotifySettings \<Rightarrow> (SubNotifySettings (new_notify_settings L w), w)
     | ScreenLocaleSettings \<Rightarrow> (SubLocaleSettings (new_locale_settings w), w))"

definition navigate :: "'i env \<Rightarrow> navigate_msg \<Rightarrow> 'i root \<Rightarrow> session_state \<Rightarrow> ('i root) updated" where
  "navigate E n r w =
    (case guest_write_blocked (nvTo n) w of
       Some c \<Rightarrow> ((r, c), w)
     | None \<Rightarrow>
         (case navigate_non_admin_blocked (nvTo n) w of
            Some c \<Rightarrow> ((r, c), w)
          | None \<Rightarrow>
              (case new_sub E n w of (s, w1) \<Rightarrow>
                 if 0 < rtWidth r then
                   (case sub_update E (WindowSizeMsg (rtWidth r) (rtHeight r)) s w1 of
                      ((s2, c2), w2) \<Rightarrow>
                        ((r\<lparr>rtSub := s2, rtActiveScreen := nvTo n\<rparr>,
                          if c2 \<noteq> NoCmd then Batch [sub_init s, c2] else sub_init s), w2))
                 else ((r\<lparr>rtSub := s, rtActiveScreen := nvTo n\<rparr>, sub_init s), w1))))"

section \<open>Global keys\<close>

definition is_form_screen :: "screen \<Rightarrow> bool" where
  "is_form_screen s \<longleftrightarrow> s \<in> {ScreenPostCompose, ScreenWBCompose, ScreenMailCompose, ScreenArticleEdit,
     ScreenBoardBannerEdit, ScreenPasswordChange, ScreenBioEdit}"

definition help_available :: "session_state \<Rightarrow> screen \<Rightarrow> bool" where
  "help_available w s \<longleftrightarrow> (if seIsRegister w \<or> seMustChange w then False else \<not> is_form_screen s)"

definition to_sub :: "'i env \<Rightarrow> tui_msg \<Rightarrow> 'i root \<Rightarrow> session_state \<Rightarrow> ('i root) updated" where
  "to_sub E msg r w = (case sub_update E msg (rtSub r) w of ((s, c), w1) \<Rightarrow> ((r\<lparr>rtSub := s\<rparr>, c), w1))"

text \<open>
  An incoming water balloon is shown as a toast unless its thread is open, and marked read by a goroutine
  that races with nothing but other marks of the same row; here it runs first.
\<close>

definition wb_toast :: "string \<Rightarrow> string \<Rightarrow> session_state \<Rightarrow> 'i root \<Rightarrow> 'i root" where
  "wb_toast from body w r =
    (let shown = (case rtSub r of
           SubWBThread m \<Rightarrow> \<not> (rtActiveScreen r = ScreenWBThread \<and> matches_counterparty from m)
         | _ \<Rightarrow> True)
     in if shown then set_toast (WBToast from body) w r else r)"

definition root_update :: "'i env \<Rightarrow> tui_msg \<Rightarrow> 'i root \<Rightarrow> session_state \<Rightarrow> ('i root) updated" where
  "root_update E msg r w =
    (case msg of
       WindowSizeMsg width height \<Rightarrow> to_sub E msg (r\<lparr>rtWidth := width, rtHeight := height\<rparr>) w
     | KeyMsg key \<Rightarrow>
         if key = ''ctrl+c'' then ((r, Quit), w)
         else if rtHelpVisible r then ((r\<lparr>rtHelpVisible := False\<rparr>, NoCmd), w)
         else if key = ''?'' \<and> help_available w (rtActiveScreen r) then ((r\<lparr>rtHelpVisible := True\<rparr>, NoCmd), w)
         else if key = ''ctrl+u'' \<and> \<not> seIsRegister w then navigate E (nav ScreenWBInbox) r w
         else to_sub E msg r w
     | NavigateMsg n \<Rightarrow> navigate E n r w
     | ErrorMsg e \<Rightarrow> ((if e \<noteq> NoErr then set_toast (ErrToast e) w r else r, NoCmd), w)
     | WBIncomingMsg i from body \<Rightarrow>
         to_sub E msg (wb_toast from body w r)
           (if i \<noteq> 0 then snd (on_db (wbs_mark_read i (seNow w)) w) else w)
     | _ \<Rightarrow> to_sub E msg r w)"

end
