(* ===== verification/Server.thy ===== *)
theory Server
  imports Root
begin

text \<open>
  \<open>internal/server\<close>: the authentication callbacks of \<open>auth_middleware.go\<close> and \<open>server.go\<close> and the start of a
  session. The SSH library decides which callback it calls; a connection is the ssh user name, the
  remote address and the values the callbacks store in its context. \<open>cmp\<close> is the bcrypt comparison.
\<close>

section \<open>Authentication\<close>

record ssh_ctx =
  cxUserID :: "int option"
  cxRegister :: bool
  cxRemoteHost :: "string option"

definition new_ctx :: ssh_ctx where
  "new_ctx = \<lparr>cxUserID = None, cxRegister = False, cxRemoteHost = None\<rparr>"

definition password_auth ::
  "(string \<Rightarrow> string \<Rightarrow> bool) \<Rightarrow> string \<Rightarrow> string option \<Rightarrow> string \<Rightarrow> timestamp \<Rightarrow> ssh_ctx \<Rightarrow> db \<Rightarrow>
    (bool \<times> ssh_ctx) \<times> db" where
  "password_auth cmp user addr password now cx d =
    (let host = (case addr of None \<Rightarrow> [] | Some a \<Rightarrow> a);
         cx = cx\<lparr>cxRemoteHost := Some host\<rparr>
     in if user = ReservedUsernameNew then ((True, cx\<lparr>cxRegister := True\<rparr>), d)
        else if user = ReservedUsernameGuest then
          (case users_get_by_user_id ReservedUsernameGuest d of
             Inl _ \<Rightarrow> ((False, cx), d)
           | Inr u \<Rightarrow>
               if uRole u \<noteq> RoleGuest then ((False, cx), d)
               else ((True, cx\<lparr>cxUserID := Some (uID u)\<rparr>), d))
        else (case verify_login cmp user password host now d of
            (Inl _, d1) \<Rightarrow> ((False, cx), d1)
          | (Inr u, d1) \<Rightarrow>
              if must_change_password_remote_blocked (Some u) host then ((False, cx), d1)
              else ((True, cx\<lparr>cxUserID := Some (uID u)\<rparr>), d1)))"

definition reserved_none_auth :: "string \<Rightarrow> bool" where
  "reserved_none_auth user \<longleftrightarrow> user = ReservedUsernameGuest \<or> user = ReservedUsernameNew"

section \<open>Starting a session\<close>

text \<open>
  What \<open>makeProgramHandler\<close> sets up: no program, a registration program, or the program of a user,
  registered in the broker unless the user is a guest. The session state starts from the shared
  database and broker.
\<close>

datatype program_start = Rejected | RegisterProgram | UserProgram user

definition program_handler :: "string \<Rightarrow> ssh_ctx \<Rightarrow> db \<Rightarrow> program_start" where
  "program_handler user cx d =
    (if cxRegister cx \<or> user = ReservedUsernameNew then RegisterProgram
     else let uid = (case cxUserID cx of None \<Rightarrow> 0 | Some i \<Rightarrow> i);
              uid = (if uid = 0 \<and> user = ReservedUsernameGuest then
                       (case users_get_by_user_id ReservedUsernameGuest d of
                          Inl _ \<Rightarrow> 0
                        | Inr g \<Rightarrow> if uRole g = RoleGuest then uID g else 0)
                     else uid)
       in if uid = 0 then Rejected
          else (case users_get_by_id uid d of Inl _ \<Rightarrow> Rejected | Inr u \<Rightarrow> UserProgram u))"

text \<open>The \<open>Deps\<close> of the program and its place in the broker; \<open>p\<close> identifies the \<open>tea.Program\<close>.\<close>

definition start_session ::
  "nat \<Rightarrow> program_start \<Rightarrow> session_state \<Rightarrow> session_state option" where
  "start_session p st w =
    (case st of
       Rejected \<Rightarrow> None
     | RegisterProgram \<Rightarrow> Some (w\<lparr>seUser := None, seIsRegister := True, seMustChange := False\<rparr>)
     | UserProgram u \<Rightarrow>
         Some (w\<lparr>seUser := Some u, seIsRegister := False, seMustChange := uMustChangePassword u,
                 seBroker := (if uRole u = RoleGuest then seBroker w
                   else broker_register \<lparr>sUserID = uID u, sUserIDStr = uUserID u, sProgram = p\<rparr> (seBroker w))\<rparr>))"

text \<open>
  The goroutine that replays what was missed: it reads the unread water balloons once, then for each, in
  order, hands it to the program and marks it read.
\<close>

definition drain_message :: "water_balloon \<Rightarrow> tui_msg" where
  "drain_message b = WBIncomingMsg (wID b) (wFromUserIDStr b) (wBody b)"

definition drain_unread :: "int \<Rightarrow> timestamp \<Rightarrow> db \<Rightarrow> tui_msg list \<times> db" where
  "drain_unread uid now d =
    (let ws = wbs_list_unread_for uid d
     in (map drain_message ws, fold (\<lambda>b d. snd (wbs_mark_read (wID b) now d)) ws d))"

text \<open>A connection: authentication without and with a password, and the session when one succeeds.\<close>

datatype credential = NoCredential | Password string

definition ssh_connect ::
  "(string \<Rightarrow> string \<Rightarrow> bool) \<Rightarrow> string \<Rightarrow> string option \<Rightarrow> credential \<Rightarrow> timestamp \<Rightarrow> db \<Rightarrow> program_start \<times> db" where
  "ssh_connect cmp user addr c now d =
    (case c of
       NoCredential \<Rightarrow> (if reserved_none_auth user then program_handler user new_ctx d else Rejected, d)
     | Password p \<Rightarrow>
         (case password_auth cmp user addr p now new_ctx d of
            ((ok, cx), d1) \<Rightarrow> (if ok then program_handler user cx d1 else Rejected, d1)))"

section \<open>Who gets a session\<close>

lemma verify_login_Inr:
  assumes "users_ok d" and "verify_login cmp x p host now d = (Inr v, d1)"
  shows "\<exists>u. users_get_by_user_id (trim_space x) d = Inr u \<and> cmp (uPasswordHash u) p \<and> uID v = uID u
    \<and> users_get_by_id (uID v) d1 = Inr v \<and> uRole v = uRole u \<and> uMustChangePassword v = uMustChangePassword u
    \<and> uUserID v = uUserID u"
proof (cases "users_get_by_user_id (trim_space x) d")
  case (Inl e)
  with assms(2) show ?thesis by (simp add: verify_login_def split: if_splits)
next
  case (Inr u)
  then have mem: "u \<in> set (users d)" "nocase (uUserID u) = nocase (trim_space x)"
    using get_by_user_id_iff [OF assms(1)] by auto
  have get: "users_get_by_id (uID u) d = Inr u"
    using mem(1) assms(1) by (simp add: get_by_id_iff)
  have "cmp (uPasswordHash u) p"
    using assms(2) Inr by (simp add: verify_login_def split: if_splits)
  moreover have "v = u \<and> d1 = d \<or>
      v = u\<lparr>uLastLoginAt := Some now, uLastHost := Some host, uNumLogins := uNumLogins u + 1\<rparr>
      \<and> users_get_by_id (uID u) d1 = Inr v"
    using assms(2) Inr get
    by (auto simp: verify_login_def users_note_login_def get_by_id_update split: if_splits)
  ultimately show ?thesis using Inr get by auto
qed

lemma guest_row_by_id:
  assumes "users_ok d" and "users_get_by_user_id ReservedUsernameGuest d = Inr g"
  shows "users_get_by_id (uID g) d = Inr g"
  using assms get_by_user_id_iff [OF assms(1)] get_by_id_iff [OF assms(1)] by simp

text \<open>C7: a connection gets the program of a user only in two ways: under the ssh name guest, for an
  account whose stored role is guest, or with a password that matches the account of that name, when
  the account is not an administrator with an unrotated password coming from outside the loopback
  network. The program then runs on that account's row as it is stored.\<close>

theorem session_authenticated:
  assumes "users_ok d" and "ssh_connect cmp user addr c now d = (UserProgram v, d1)"
  shows "users_get_by_id (uID v) d1 = Inr v
    \<and> (user = ReservedUsernameGuest \<and> uRole v = RoleGuest
       \<or> (\<exists>p u. c = Password p \<and> users_get_by_user_id (trim_space user) d = Inr u \<and> uID u = uID v
            \<and> cmp (uPasswordHash u) p
            \<and> \<not> must_change_password_remote_blocked (Some v) (case addr of None \<Rightarrow> [] | Some a \<Rightarrow> a)))"
proof (cases c)
  case NoCredential
  then have "program_handler user new_ctx d = UserProgram v" "d1 = d" "reserved_none_auth user"
    using assms(2) by (auto simp: ssh_connect_def split: if_splits)
  then obtain g where "user = ReservedUsernameGuest" "users_get_by_user_id ReservedUsernameGuest d = Inr g"
    "uRole g = RoleGuest" "users_get_by_id (uID g) d = Inr v"
    by (auto simp: program_handler_def new_ctx_def Let_def split: if_splits sum.splits)
  with \<open>d1 = d\<close> guest_row_by_id [OF assms(1)] show ?thesis by auto
next
  case (Password p)
  let ?host = "case addr of None \<Rightarrow> [] | Some a \<Rightarrow> a"
  obtain cx where cx: "password_auth cmp user addr p now new_ctx d = ((True, cx), d1)"
    "program_handler user cx d1 = UserProgram v"
    using assms(2) Password by (auto simp: ssh_connect_def split: prod.splits if_splits)
  then have notnew: "user \<noteq> ReservedUsernameNew" by (auto simp: program_handler_def)
  show ?thesis
  proof (cases "user = ReservedUsernameGuest")
    case True
    then obtain g where g: "users_get_by_user_id ReservedUsernameGuest d = Inr g" "uRole g = RoleGuest" "d1 = d"
      "cxUserID cx = Some (uID g)"
      using cx(1) notnew by (auto simp: password_auth_def Let_def split: sum.splits if_splits)
    then have "users_get_by_id (uID g) d = Inr v"
      using cx(2) by (auto simp: program_handler_def Let_def split: if_splits sum.splits)
    with g True guest_row_by_id [OF assms(1)] show ?thesis by auto
  next
    case False
    then obtain u where u: "verify_login cmp user p ?host now d = (Inr u, d1)" "cxUserID cx = Some (uID u)"
      "\<not> must_change_password_remote_blocked (Some u) ?host"
      using cx(1) notnew by (auto simp: password_auth_def Let_def split: sum.splits if_splits prod.splits)
    then have "users_get_by_id (uID u) d1 = Inr v"
      using cx(2) False by (auto simp: program_handler_def Let_def split: if_splits sum.splits)
    moreover obtain u0 where "users_get_by_user_id (trim_space user) d = Inr u0" "cmp (uPasswordHash u0) p"
      "uID u = uID u0" "users_get_by_id (uID u) d1 = Inr u"
      using verify_login_Inr [OF assms(1) u(1)] by blast
    ultimately show ?thesis using u(3) Password by auto
  qed
qed

definition demo_guest_db :: db where
  "demo_guest_db = demo_db\<lparr>users := users demo_db @ [guest_row demo_now demo_db], seq_users := seq_users demo_db + 1\<rparr>"

lemma demo_guest_users: "users_ok demo_guest_db"
  unfolding demo_guest_db_def
  using demo_users_ok by (intro users_ok_appended)
    (auto simp: user_name_taken_def demo_user_def new_user_def reserved_defs guest_row_def role_defs role_valid_def role_rank_def)

lemma demo_guest_found: "users_get_by_user_id ''guest'' demo_guest_db = Inr (guest_row demo_now demo_db)"
  using demo_guest_users by (simp add: get_by_user_id_iff demo_guest_db_def) (simp add: guest_row_def new_user_def reserved_defs)

lemma session_authenticated_witness:
  "\<exists>v. ssh_connect demo_cmp ''guest'' None NoCredential demo_now demo_guest_db = (UserProgram v, demo_guest_db)
    \<and> uRole v = RoleGuest"
proof -
  have id: "uID (guest_row demo_now demo_db) = 3" by (simp add: guest_row_def new_user_def)
  have "users_get_by_id 3 demo_guest_db = Inr (guest_row demo_now demo_db)"
    using guest_row_by_id [OF demo_guest_users] demo_guest_found id by (simp add: reserved_defs)
  then have v: "ssh_connect demo_cmp ''guest'' None NoCredential demo_now demo_guest_db =
      (UserProgram (guest_row demo_now demo_db), demo_guest_db)"
    using demo_guest_found id
    by (simp add: ssh_connect_def program_handler_def reserved_none_auth_def reserved_defs new_ctx_def)
  with session_authenticated [OF demo_guest_users v] show ?thesis by auto
qed

section \<open>The replay\<close>

lemma fold_mark_read:
  "fold (\<lambda>b d. snd (wbs_mark_read (wID b) now d)) ws d =
    d\<lparr>wbs := update_rows (\<lambda>w. wID w \<in> wID ` set ws \<and> wb_unread w) (mark_wb now) (wbs d)\<rparr>"
proof (induction ws arbitrary: d)
  case Nil
  then show ?case by (simp add: update_rows_def)
next
  case (Cons b ws)
  have "update_rows (\<lambda>w. wID w \<in> wID ` set ws \<and> wb_unread w) (mark_wb now)
      (update_rows (\<lambda>w. wID w = wID b \<and> wb_unread w) (mark_wb now) xs) =
    update_rows (\<lambda>w. wID w \<in> wID ` set (b # ws) \<and> wb_unread w) (mark_wb now) xs" for xs
    by (induction xs) (auto simp: update_rows_def mark_wb_def wb_unread_def)
  with Cons show ?case by (simp add: wbs_mark_read_def)
qed

text \<open>The replay at the start of a session hands over exactly the unread water balloons of the user,
  in the order they were sent, and leaves none unread; those of other users stay unread, and a second
  replay hands over nothing.\<close>

theorem drain_unread_once:
  assumes "wbs_ok d" and "drain_unread uid now d = (msgs, d')"
  shows "msgs = map drain_message (filter (\<lambda>w. wToUserID w = uid \<and> wb_unread w) (wbs d))
    \<and> wbs_list_unread_for uid d' = []
    \<and> (v \<noteq> uid \<longrightarrow> wbs_list_unread_for v d' = wbs_list_unread_for v d)
    \<and> drain_unread uid later d' = ([], d')"
proof -
  let ?ws = "filter (\<lambda>w. wToUserID w = uid \<and> wb_unread w) (wbs d)"
  let ?P = "\<lambda>w. wID w \<in> wID ` set ?ws \<and> wb_unread w"
  have "wbs_list_unread_for uid d = ?ws" using assms(1) by (rule list_unread_table)
  then have msgs: "msgs = map drain_message ?ws"
    and d': "d' = d\<lparr>wbs := update_rows ?P (mark_wb now) (wbs d)\<rparr>"
    using assms(2) by (simp_all add: drain_unread_def Let_def fold_mark_read)
  have ok: "wbs_ok d'" unfolding d' using assms(1) by (intro wbs_ok_update) (auto simp: mark_wb_def)
  have ids: "distinct (map wID (wbs d))" using assms(1) by (auto simp: wbs_ok_def intro: table_ok_distinct)
  have same: "?P w \<longleftrightarrow> wToUserID w = uid \<and> wb_unread w" if "w \<in> set (wbs d)" for w
    using that ids by (auto simp: distinct_map inj_on_def)
  have none: "wbs_list_unread_for uid d' = []"
    unfolding list_unread_table [OF ok] using same by (simp add: d' filter_unread_mark filter_empty_conv)
  have "wbs_list_unread_for v d' = wbs_list_unread_for v d" if "v \<noteq> uid"
    unfolding list_unread_table [OF ok] list_unread_table [OF assms(1)]
    using same that by (simp add: d' filter_unread_mark) (rule filter_cong, auto)
  moreover have "drain_unread uid later d' = ([], d')" using none by (simp add: drain_unread_def)
  ultimately show ?thesis using msgs none by blast
qed

lemma drain_unread_once_witness:
  "\<exists>m. fst (drain_unread 2 demo_now demo_db) = [m] \<and> fst (drain_unread 2 demo_now (snd (drain_unread 2 demo_now demo_db))) = []"
proof -
  obtain ms d' where d: "drain_unread 2 demo_now demo_db = (ms, d')" by fastforce
  have "wbs_ok demo_db" using demo_db_inv by (simp add: db_inv_def)
  from drain_unread_once [OF this d, of 0 demo_now] have
    "ms = map drain_message (filter (\<lambda>w. wToUserID w = 2 \<and> wb_unread w) (wbs demo_db))"
    "fst (drain_unread 2 demo_now d') = []" by simp_all
  then show ?thesis by (simp add: d) (simp add: demo_db_def wb_unread_def)
qed

text \<open>
  A refused login of an unrotated administrator is recorded all the same: the counter, the time and the
  host are written before the address is checked.
\<close>

lemma verify_login_recorded:
  assumes "users_ok d" and "verify_login cmp x p host now d = (Inr u, d1)" and "uRole u \<noteq> RoleGuest"
  shows "uLastHost u = Some host"
proof -
  obtain u0 where u0: "users_get_by_user_id (trim_space x) d = Inr u0" "uRole u = uRole u0" "cmp (uPasswordHash u0) p"
    using verify_login_Inr [OF assms(1,2)] by blast
  then have "u0 \<in> set (users d)" using get_by_user_id_iff [OF assms(1)] by blast
  then have "users_get_by_id (uID u0) d = Inr u0" using get_by_id_iff [OF assms(1)] by blast
  with u0 assms(2,3) show ?thesis
    by (auto simp: verify_login_def users_note_login_def get_by_id_update)
qed

lemma refused_login_recorded:
  assumes "users_ok d" and "verify_login cmp user p host now d = (Inr u, d1)"
    and "must_change_password_remote_blocked (Some u) host" and "user \<noteq> ReservedUsernameNew"
    and "user \<noteq> ReservedUsernameGuest"
  shows "ssh_connect cmp user (Some host) (Password p) now d = (Rejected, d1) \<and> uLastHost u = Some host"
proof -
  have "uRole u = RoleAdmin" using assms(3) by (simp add: must_change_password_remote_blocked_def split: if_splits)
  then have "uRole u \<noteq> RoleGuest" by (simp add: role_defs)
  with verify_login_recorded [OF assms(1,2)] assms(2-5) show ?thesis by (simp add: ssh_connect_def password_auth_def)
qed

end
