(* ===== verification/ComposeProps.thy ===== *)
theory ComposeProps
  imports ComposeScreens MarkdownRT
begin

text \<open>
  Replying: the loop of \<open>rePrefix\<close> ends, and a reply to a reply carries the prefix once.
\<close>

text \<open>The loop with a bound on its turns; None when the bound is used up.\<close>

fun re_loop :: "nat \<Rightarrow> string \<Rightarrow> string option" where
  "re_loop 0 t = None"
| "re_loop (Suc n) t =
    (if 3 \<le> length t \<and> has_prefix (to_lower t) ''re:'' then re_loop n (trim_space (drop 3 t)) else Some t)"

text \<open>Only an ASCII letter lowers to an ASCII letter other than i and k.\<close>

lemma lower_rune_high:
  assumes "\<not> byte_of d < 128"
  shows "\<exists>e r'. lower_rune (d # r) = e # r' \<and> (\<not> byte_of e < 128 \<or> e = CHR ''i'' \<or> e = CHR ''k'')"
  using assms by (auto simp: lower_rune_def ascii_lower_def is_upper_def byte_of_def)

lemma to_lower_head:
  assumes "has_prefix (to_lower t) (c # p)" and "byte_of c < 128" and "c \<noteq> CHR ''i''" and "c \<noteq> CHR ''k''"
  shows "\<exists>d s. t = d # s \<and> has_prefix (to_lower s) p"
proof (cases t)
  case (Cons d s)
  show ?thesis
  proof (cases "byte_of d < 128")
    case True
    with assms(1) Cons have "has_prefix (ascii_lower d # to_lower s) (c # p)"
      by (auto simp: to_lower_def go_runes_ascii lower_rune_def)
    then show ?thesis using Cons by (simp add: has_prefix_iff)
  next
    case False
    have "\<exists>d' r rs. go_runes t = (d' # r) # rs \<and> \<not> byte_of d' < 128"
    proof (cases "rune_len t")
      case None
      with Cons show ?thesis by (subst go_runes.simps) (simp add: rune_error_def byte_of_def)
    next
      case (Some n)
      with rune_len_bounds [OF this] obtain m where "n = Suc m" by (cases n) auto
      with Some Cons False show ?thesis by (subst go_runes.simps) simp
    qed
    then obtain d' r rs where g: "go_runes t = (d' # r) # rs" "\<not> byte_of d' < 128" by blast
    from lower_rune_high [OF g(2), of r] obtain e r' where
      e: "lower_rune (d' # r) = e # r'" "\<not> byte_of e < 128 \<or> e = CHR ''i'' \<or> e = CHR ''k''" by blast
    from g(1) e(1) have "to_lower t = e # r' @ concat (map lower_rune rs)" by (simp add: to_lower_def)
    with assms e(2) show ?thesis by (simp add: has_prefix_iff)
  qed
qed (use assms in \<open>simp add: to_lower_def has_prefix_iff\<close>)

lemma re_length: "has_prefix (to_lower t) ''re:'' \<Longrightarrow> 3 \<le> length t"
  by (drule to_lower_head; (simp add: byte_of_def)?; elim exE conjE)+ simp

abbreviation prefixed :: "string \<Rightarrow> bool" where
  "prefixed t \<equiv> has_prefix (to_lower t) ''re:''"

lemma strip_re_step: "prefixed t \<Longrightarrow> strip_re t = strip_re (trim_space (drop 3 t))"
  by (subst strip_re.simps) (simp add: re_length)

lemma strip_re_id: "\<not> prefixed t \<Longrightarrow> strip_re t = t"
  by (subst strip_re.simps) simp

lemma re_loop_strip: "length t < 3 * n \<Longrightarrow> re_loop n t = Some (strip_re t)"
proof (induction n arbitrary: t)
  case (Suc n)
  show ?case
  proof (cases "prefixed t")
    case True
    then have "3 \<le> length t" by (rule re_length)
    with Suc.prems length_trim_space [of "drop 3 t"] have "length (trim_space (drop 3 t)) < 3 * n" by simp
    with Suc.IH True re_length [OF True] show ?thesis by (simp add: strip_re_step)
  qed (simp add: strip_re_id)
qed simp

lemma strip_re_result: "trimmed t \<Longrightarrow> trimmed (strip_re t) \<and> \<not> prefixed (strip_re t)"
proof (induction t rule: strip_re.induct)
  case (1 t)
  show ?case
  proof (cases "prefixed t")
    case True
    with 1 show ?thesis by (simp add: strip_re_step re_length trimmed_trim_space)
  qed (use 1 in \<open>simp add: strip_re_id\<close>)
qed

lemma prefixed_re: "prefixed (''Re:'' @ x)"
  by (simp add: to_lower_def go_runes_ascii byte_of_def lower_rune_def)

lemma re_prefix_again:
  assumes "trimmed x" and "\<not> prefixed x"
  shows "strip_re (trim_space (''Re: '' @ x)) = x"
proof (cases "x = []")
  case True
  have "trimmed ''Re:''" by (simp add: trimmed_def leading_def spaces_def)
  moreover have "trim_space ''Re: '' = trim_space ''Re:''" by code_simp
  ultimately have "strip_re (trim_space (''Re: '' @ x)) = strip_re (trim_space [])"
    using True strip_re_step [of "''Re:''"] prefixed_re [of "[]"] by (simp add: trim_space_trimmed)
  then show ?thesis using assms True by (simp add: trim_space_trimmed strip_re_id)
next
  case False
  have "leading spaces (''Re:'' @ [SP] @ x) = 0"
    by (rule leading_append) (simp_all add: plain_def spaces_def)
  with trimmed_behind_space [OF assms(1) False, of "''Re:''"] have "trim_space (''Re: '' @ x) = ''Re: '' @ x"
    by (simp add: trim_space_trimmed)
  moreover have "strip_re (''Re: '' @ x) = strip_re (trim_space (SP # x))"
    using strip_re_step [OF prefixed_re [of "SP # x"]] by simp
  ultimately show ?thesis using assms by (simp add: trim_space_left trim_space_trimmed strip_re_id)
qed

text \<open>The loop that drops the prefixes of a title ends after at most a third of its length in turns,
  whatever the title; what it leaves carries no prefix in any letter case, and prefixing a title that has
  already been prefixed changes nothing, so a long thread keeps a single Re.\<close>

theorem re_prefix_once:
  "re_loop (length t div 3 + 1) t = Some (strip_re t)
   \<and> (\<exists>x. re_prefix t = ''Re: '' @ x \<and> \<not> has_prefix (to_lower x) ''re:'')
   \<and> re_prefix (re_prefix t) = re_prefix t"
proof -
  let ?x = "strip_re (trim_space t)"
  have x: "trimmed ?x" "\<not> prefixed ?x"
    using strip_re_result [OF trimmed_trim_space] by blast+
  have "length t < 3 * (length t div 3 + 1)" by presburger
  with x re_prefix_again [OF x] re_loop_strip [of t "length t div 3 + 1"] show ?thesis
    by (simp add: re_prefix_def)
qed

end
