(* ===== verification/ScreenInv.thy ===== *)
theory ScreenInv
  imports Root
begin

text \<open>
  Invariants of the screens, one lemma per screen: every cursor, focus and scroll offset an update indexes
  with stays in range, no update panics but the one of an article that failed to load, and the session's
  user stays the same except where a settings screen reads it back.
\<close>

section \<open>Safe results\<close>

text \<open>
  The screen returned satisfies \<open>P\<close>, the session's user \<open>U\<close>, and the update panics only under \<open>K\<close>.
\<close>

definition safe :: "bool \<Rightarrow> ('m \<Rightarrow> bool) \<Rightarrow> (user option \<Rightarrow> bool) \<Rightarrow> 'm updated \<Rightarrow> bool" where
  "safe K P U r \<longleftrightarrow> P (fst (fst r)) \<and> (snd (fst r) = Crash \<longrightarrow> K) \<and> U (seUser (snd r))"

lemma safe_pair [simp]: "safe K P U ((m, c), w) \<longleftrightarrow> P m \<and> (c = Crash \<longrightarrow> K) \<and> U (seUser w)"
  by (simp add: safe_def)

lemma safe_simps [simp]:
  "safe K P U (stay m w) \<longleftrightarrow> P m \<and> U (seUser w)"
  "safe K P U (goto n m w) \<longleftrightarrow> P m \<and> U (seUser w)"
  "safe K P U (crash m w) \<longleftrightarrow> P m \<and> K \<and> U (seUser w)"
  by (simp_all add: safe_def crash_def)

lemma safe_lift: "safe K P U (lift_sub C r) = safe K (\<lambda>m. P (C m)) U r"
  by (simp add: safe_def lift_sub_def split: prod.splits)

lemma safe_if: "(b \<Longrightarrow> safe K P U r) \<Longrightarrow> (\<not> b \<Longrightarrow> safe K P U r') \<Longrightarrow> safe K P U (if b then r else r')"
  by simp

lemma safe_option:
  "(x = None \<Longrightarrow> safe K P U r) \<Longrightarrow> (\<And>y. x = Some y \<Longrightarrow> safe K P U (f y)) \<Longrightarrow>
    safe K P U (case x of None \<Rightarrow> r | Some y \<Rightarrow> f y)"
  by (cases x) auto

lemma safe_sum:
  "(\<And>e. x = Inl e \<Longrightarrow> safe K P U (f e)) \<Longrightarrow> (\<And>y. x = Inr y \<Longrightarrow> safe K P U (g y)) \<Longrightarrow>
    safe K P U (case x of Inl e \<Rightarrow> f e | Inr y \<Rightarrow> g y)"
  by (cases x) auto

lemma on_db_user: "on_db f w = (y, w1) \<Longrightarrow> seUser w1 = seUser w"
  by (auto simp: on_db_def split: prod.splits)

lemma safe_on_db:
  assumes "\<And>e w1. seUser w1 = seUser w \<Longrightarrow> safe K P U (f e w1)"
    and "\<And>v w1. seUser w1 = seUser w \<Longrightarrow> safe K P U (g v w1)"
  shows "safe K P U (case on_db h w of (Inl e, w1) \<Rightarrow> f e w1 | (Inr v, w1) \<Rightarrow> g v w1)"
  using assms on_db_user [of h w] by (auto split: prod.split sum.split)

lemmas safe_rules = safe_if safe_on_db safe_option safe_sum

definition signed_in :: "user option \<Rightarrow> bool" where
  "signed_in u \<longleftrightarrow> u \<noteq> None"

lemma signed_in_Some [simp]: "signed_in (Some u)" "\<not> signed_in None"
  by (simp_all add: signed_in_def)

lemma refresh_user_signed_in [simp]: "signed_in (seUser (refresh_user w)) = signed_in (seUser w)"
  by (simp add: refresh_user_def split: option.split sum.split)

section \<open>Rows\<close>

definition on_row :: "int \<Rightarrow> nat \<Rightarrow> bool" where
  "on_row c n \<longleftrightarrow> 0 \<le> c \<and> (c < int n \<or> c = 0 \<and> n = 0)"

lemma on_row_moves [simp]:
  "on_row 0 n" "on_row c n \<Longrightarrow> on_row (cursor_up c) n" "on_row c (length xs) \<Longrightarrow> on_row (cursor_down xs c) (length xs)"
  "xs \<noteq> [] \<Longrightarrow> on_row (int (length xs) - 1) (length xs)"
  by (cases xs; auto simp: on_row_def cursor_up_def cursor_down_def)+

lemma on_row_clamp [simp]: "0 \<le> c \<Longrightarrow> on_row (if int n \<le> c then max 0 (int n - 1) else c) n"
  by (auto simp: on_row_def)

lemma on_row_int [simp]: "i < n \<Longrightarrow> on_row (int i) n"
  by (simp add: on_row_def)

lemma cursor_up_ge [simp]: "0 \<le> c \<Longrightarrow> 0 \<le> cursor_up c"
  by (simp add: cursor_up_def)

section \<open>Menus\<close>

lemma choose_item_safe [simp]: "safe K P U (choose_item it m w) \<longleftrightarrow> P m \<and> U (seUser w)"
  by (simp add: choose_item_def split: option.split)

definition main_menu_ok :: "main_menu \<Rightarrow> bool" where
  "main_menu_ok m \<longleftrightarrow> on_row (mmCursor m) (length (mmItems m)) \<and> mmItems m \<noteq> []"

lemma new_main_menu_ok: "main_menu_ok (new_main_menu w)"
  by (simp add: main_menu_ok_def new_main_menu_def)

lemma main_menu_inv: "main_menu_ok m \<Longrightarrow> U (seUser w) \<Longrightarrow> safe False main_menu_ok U (main_menu_update msg m w)"
  unfolding main_menu_update_def by (cases msg; simp split del: if_split; (intro safe_rules)?) (simp_all add: main_menu_ok_def)

definition user_settings_ok :: "user_settings \<Rightarrow> bool" where
  "user_settings_ok m \<longleftrightarrow> on_row (usCursor m) (length (usItems m)) \<and> usItems m \<noteq> []"

lemma new_user_settings_ok: "user_settings_ok (new_user_settings w)"
  by (simp add: user_settings_ok_def new_user_settings_def)

lemma user_settings_inv:
  "user_settings_ok m \<Longrightarrow> U (seUser w) \<Longrightarrow> safe False user_settings_ok U (user_settings_update msg m w)"
  unfolding user_settings_update_def
  by (cases msg; simp split del: if_split; (intro safe_rules)?) (simp_all add: user_settings_ok_def)

definition online_ok :: "online_screen \<Rightarrow> bool" where
  "online_ok m \<longleftrightarrow> on_row (onCursor m) (length (onUsers m))"

lemma new_online_ok: "online_ok (new_online w)"
  by (simp add: online_ok_def new_online_def)

lemma online_inv: "online_ok m \<Longrightarrow> U (seUser w) \<Longrightarrow> safe False online_ok U (online_update msg m w)"
  unfolding online_update_def
  by (cases msg; simp split del: if_split; (intro safe_rules)?) (simp_all add: online_ok_def, clarsimp)

lemma board_splash_inv: "U (seUser w) \<Longrightarrow> safe False (\<lambda>_. True) U (board_splash_update msg m w)"
  unfolding board_splash_update_def by (cases msg) simp_all

definition locale_settings_ok :: "locale_settings \<Rightarrow> bool" where
  "locale_settings_ok m \<longleftrightarrow> on_row (lsCursor m) (length (lsOptions m)) \<and> lsOptions m \<noteq> []"

lemma new_locale_settings_ok: "locale_settings_ok (new_locale_settings w)"
  by (simp add: locale_settings_ok_def new_locale_settings_def on_row_def Let_def)

lemma locale_save_inv:
  "locale_settings_ok m \<Longrightarrow> signed_in (seUser w) \<Longrightarrow> safe False locale_settings_ok signed_in (locale_save m w)"
  unfolding locale_save_def Let_def by (intro safe_rules) (simp_all add: locale_settings_ok_def)

lemma locale_settings_inv:
  "locale_settings_ok m \<Longrightarrow> signed_in (seUser w) \<Longrightarrow>
    safe False locale_settings_ok signed_in (locale_settings_update msg m w)"
  unfolding locale_settings_update_def
  by (cases msg; simp split del: if_split; (intro safe_rules)?; (rule locale_save_inv)?) (simp_all add: locale_settings_ok_def)

section \<open>Boards\<close>

definition board_list_ok :: "'i board_list \<Rightarrow> bool" where
  "board_list_ok m \<longleftrightarrow> on_row (blCursor m) (length (blFiltered m))"

lemma recompute_filter_ok [simp]: "0 \<le> blCursor m \<Longrightarrow> board_list_ok (recompute_filter L m)"
  by (simp add: board_list_ok_def recompute_filter_def Let_def)

lemma board_list_fields [simp]:
  "board_list_ok (m\<lparr>blSearch := x\<rparr>) = board_list_ok m" "board_list_ok (m\<lparr>blSearchActive := y\<rparr>) = board_list_ok m"
  "board_list_ok (m\<lparr>blWidth := a\<rparr>) = board_list_ok m" "board_list_ok (m\<lparr>blHeight := a\<rparr>) = board_list_ok m"
  by (simp_all add: board_list_ok_def)

lemma board_list_clear_ok [simp]: "board_list_ok (board_list_clear L m)"
  by (simp add: board_list_clear_def)

lemma new_board_list_ok: "board_list_ok (new_board_list L w)"
  by (simp add: new_board_list_def)

lemma board_list_key_inv:
  "board_list_ok m \<Longrightarrow> U (seUser w) \<Longrightarrow> safe False board_list_ok U (board_list_key L key m w)"
  unfolding board_list_key_def by (intro safe_rules) (simp_all, simp_all add: board_list_ok_def)

lemma board_list_search_inv:
  "board_list_ok m \<Longrightarrow> U (seUser w) \<Longrightarrow> safe False board_list_ok U (board_list_search_key L key m w)"
  unfolding board_list_search_key_def Let_def by (intro safe_rules) simp_all

lemma board_list_inv: "board_list_ok m \<Longrightarrow> U (seUser w) \<Longrightarrow> safe False board_list_ok U (board_list_update L msg m w)"
  unfolding board_list_update_def
  by (cases msg; simp split del: if_split; (intro safe_if board_list_key_inv board_list_search_inv)?) simp_all

definition board_view_ok :: "'i board_view \<Rightarrow> bool" where
  "board_view_ok m \<longleftrightarrow> on_row (bvCursor m) (length (bvArticles m)) \<and> (bvBoard m = None \<longrightarrow> bvArticles m = [])"

lemma board_view_fields [simp]:
  "board_view_ok (m\<lparr>bvSearch := x\<rparr>) = board_view_ok m" "board_view_ok (m\<lparr>bvSearchActive := y\<rparr>) = board_view_ok m"
  "board_view_ok (m\<lparr>bvWidth := a\<rparr>) = board_view_ok m" "board_view_ok (m\<lparr>bvHeight := a\<rparr>) = board_view_ok m"
  "board_view_ok (m\<lparr>bvFilter := f\<rparr>) = board_view_ok m" "board_view_ok (m\<lparr>bvSort := s\<rparr>) = board_view_ok m"
  "board_view_ok m \<Longrightarrow> board_view_ok (m\<lparr>bvCursor := 0\<rparr>)"
  by (auto simp: board_view_ok_def)

lemma board_view_reload_ok [simp]: "board_view_ok m \<Longrightarrow> board_view_ok (board_view_reload a w m)"
  by (auto simp: board_view_ok_def board_view_reload_def Let_def find_cursor_by_id_def on_row_def split: option.split)

lemma new_board_view_ok: "board_view_ok (new_board_view L i w)"
proof -
  have "board_view_ok \<lparr>bvBoard = b, bvArticles = [], bvCursor = 0, bvWidth = 0, bvHeight = 0, bvLoadErr = e,
      bvSearch = x, bvSearchActive = False, bvFilter = [], bvSort = s\<rparr>" for b :: "board option" and e and x :: 'a and s
    by (simp add: board_view_ok_def)
  then show ?thesis by (simp add: new_board_view_def Let_def split: sum.split)
qed

lemma toggle_pin_inv: "board_view_ok m \<Longrightarrow> U (seUser w) \<Longrightarrow> safe False board_view_ok U (toggle_pin m w)"
  unfolding toggle_pin_def Let_def prod.case by (intro safe_rules) simp_all

lemma board_view_key_inv:
  "board_view_ok m \<Longrightarrow> U (seUser w) \<Longrightarrow> safe False board_view_ok U (board_view_key L key m w)"
  unfolding board_view_key_def Let_def
  by (intro safe_rules toggle_pin_inv) (simp_all, simp_all add: board_view_ok_def)

lemma board_view_search_inv:
  "board_view_ok m \<Longrightarrow> U (seUser w) \<Longrightarrow> safe False board_view_ok U (board_view_search_key L key m w)"
  unfolding board_view_search_key_def by (intro safe_rules) simp_all

lemma board_view_inv: "board_view_ok m \<Longrightarrow> U (seUser w) \<Longrightarrow> safe False board_view_ok U (board_view_update L msg m w)"
  unfolding board_view_update_def
  by (cases msg; simp split del: if_split; (intro safe_if board_view_key_inv board_view_search_inv)?) simp_all


abbreviation always :: "'m \<Rightarrow> bool" where
  "always \<equiv> \<lambda>_. True"

lemma banner_edit_inv:
  "signed_in (seUser w) \<Longrightarrow> U (seUser w) \<Longrightarrow> safe False always U (banner_edit_update L msg m w)"
  unfolding banner_edit_update_def banner_edit_submit_def Let_def
  by (cases msg; simp split del: if_split; (intro safe_rules)?) simp_all

section \<open>Inboxes\<close>

definition wb_inbox_ok :: "wb_inbox \<Rightarrow> bool" where
  "wb_inbox_ok m \<longleftrightarrow> on_row (wiCursor m) (length (wiItems m))"

lemma new_wb_inbox_ok: "wb_inbox_ok (new_wb_inbox w)"
  by (simp add: wb_inbox_ok_def new_wb_inbox_def)

lemma wb_inbox_inv: "wb_inbox_ok m \<Longrightarrow> U (seUser w) \<Longrightarrow> safe False wb_inbox_ok U (wb_inbox_update msg m w)"
  unfolding wb_inbox_update_def by (cases msg; simp split del: if_split; (intro safe_rules)?) (simp_all add: wb_inbox_ok_def)

definition mail_inbox_ok :: "mail_inbox \<Rightarrow> bool" where
  "mail_inbox_ok m \<longleftrightarrow> on_row (miCursor m) (length (miItems m))"

lemma new_mail_inbox_ok: "mail_inbox_ok (new_mail_inbox w)"
  by (simp add: mail_inbox_ok_def new_mail_inbox_def split: sum.split)

lemma mail_inbox_inv: "mail_inbox_ok m \<Longrightarrow> U (seUser w) \<Longrightarrow> safe False mail_inbox_ok U (mail_inbox_update msg m w)"
  unfolding mail_inbox_update_def Let_def
  by (cases msg; simp split del: if_split; (intro safe_rules)?) (simp_all add: mail_inbox_ok_def)

section \<open>Water balloons and mail\<close>

lemma notify_user [simp]:
  "seUser (notify_wb t f b w) = seUser w" "seUser (notify_mail t f s b w) = seUser w"
  by (simp_all add: notify_wb_def notify_mail_def)

lemma send_wb_user: "send_wb from i body w = (y, w1) \<Longrightarrow> seUser w1 = seUser w"
  by (auto simp: send_wb_def Let_def on_db_user split: prod.splits sum.splits if_splits)

lemma safe_send_wb:
  assumes "\<And>e w1. seUser w1 = seUser w \<Longrightarrow> safe K P U (f e w1)"
    and "\<And>v w1. seUser w1 = seUser w \<Longrightarrow> safe K P U (g v w1)"
  shows "safe K P U (case send_wb from i body w of (Inl e, w1) \<Rightarrow> f e w1 | (Inr v, w1) \<Rightarrow> g v w1)"
  using assms send_wb_user [of "from" i body w] by (auto split: prod.split sum.split)

lemma wb_compose_inv: "signed_in (seUser w) \<Longrightarrow> U (seUser w) \<Longrightarrow> safe False always U (wb_compose_update L msg m w)"
  unfolding wb_compose_update_def wb_compose_submit_def Let_def
  by (cases msg; simp split del: if_split; (intro safe_rules safe_send_wb)?) simp_all

definition wb_thread_ok :: "'i wb_thread \<Rightarrow> bool" where
  "wb_thread_ok m \<longleftrightarrow> 0 \<le> wtScroll m"

lemma wb_thread_fields [simp]:
  "wb_thread_ok (m\<lparr>wtErr := e\<rparr>) = wb_thread_ok m" "wb_thread_ok (m\<lparr>wtInput := x\<rparr>) = wb_thread_ok m"
  "wb_thread_ok (m\<lparr>wtItems := x1\<rparr>) = wb_thread_ok m" "wb_thread_ok (m\<lparr>wtFocusInput := b\<rparr>) = wb_thread_ok m"
  "wb_thread_ok (m\<lparr>wtWidth := i\<rparr>) = wb_thread_ok m" "wb_thread_ok (m\<lparr>wtHeight := i\<rparr>) = wb_thread_ok m"
  "wb_thread_ok (m\<lparr>wtScroll := c\<rparr>) \<longleftrightarrow> 0 \<le> c" "0 \<le> scroll_end"
  by (simp_all add: wb_thread_ok_def scroll_end_def)

lemma wb_thread_ge: "wb_thread_ok m \<Longrightarrow> 0 \<le> wtScroll m"
  by (simp add: wb_thread_ok_def)

lemma new_wb_thread_ok: "wb_thread_ok (fst (new_wb_thread L i w))" "seUser (snd (new_wb_thread L i w)) = seUser w"
  by (simp_all add: new_wb_thread_def Let_def split: sum.split) (simp_all add: wb_thread_ok_def)

lemma wb_thread_submit_inv:
  "wb_thread_ok m \<Longrightarrow> signed_in (seUser w) \<Longrightarrow> U (seUser w) \<Longrightarrow> safe False wb_thread_ok U (wb_thread_submit L m w)"
  unfolding wb_thread_submit_def Let_def by (intro safe_rules safe_send_wb) simp_all

lemma wb_thread_input_inv:
  "wb_thread_ok m \<Longrightarrow> signed_in (seUser w) \<Longrightarrow> U (seUser w) \<Longrightarrow> safe False wb_thread_ok U (wb_thread_input_key L key m w)"
  unfolding wb_thread_input_key_def by (intro safe_if wb_thread_submit_inv) (simp_all add: wb_thread_ge)

lemma wb_thread_scroll_inv:
  "wb_thread_ok m \<Longrightarrow> U (seUser w) \<Longrightarrow> safe False wb_thread_ok U (wb_thread_scroll_key L key m w)"
  unfolding wb_thread_scroll_key_def by (intro safe_if) (simp_all add: wb_thread_ge)

lemma wb_thread_inv:
  "wb_thread_ok m \<Longrightarrow> signed_in (seUser w) \<Longrightarrow> U (seUser w) \<Longrightarrow> safe False wb_thread_ok U (wb_thread_update L msg m w)"
  unfolding wb_thread_update_def Let_def
  by (cases msg; simp split del: if_split; (intro safe_if wb_thread_input_inv wb_thread_scroll_inv)?)
    (simp_all split: sum.split)

definition mail_thread_ok :: "mail_thread \<Rightarrow> bool" where
  "mail_thread_ok m \<longleftrightarrow> 0 \<le> mtScroll m \<and> length (mtRendered m) = length (mtItems m)"

lemma render_bodies_ok [simp]: "0 \<le> mtScroll m \<Longrightarrow> mail_thread_ok (render_bodies L m)"
  by (simp add: mail_thread_ok_def render_bodies_def)

lemma mark_addressed_user: "seUser (mark_addressed me items w) = seUser w"
  unfolding mark_addressed_def by (induction items arbitrary: w) auto

lemma new_mail_thread_ok: "mail_thread_ok (fst (new_mail_thread L i w))" "seUser (snd (new_mail_thread L i w)) = seUser w"
  by (simp_all add: new_mail_thread_def Let_def mark_addressed_user split: sum.split)

lemma mail_thread_inv: "mail_thread_ok m \<Longrightarrow> U (seUser w) \<Longrightarrow> safe False mail_thread_ok U (mail_thread_update L msg m w)"
  unfolding mail_thread_update_def Let_def
  by (cases msg; simp split del: if_split; (intro safe_rules)?) (simp_all, simp_all add: mail_thread_ok_def render_bodies_def)

lemma announce_mail_user [simp]: "seUser (announce_mail a b l s body w) = seUser w"
  by (simp add: announce_mail_def)

lemma mail_submit_inv: "signed_in (seUser w) \<Longrightarrow> U (seUser w) \<Longrightarrow> safe False always U (mail_submit L m w)"
  unfolding mail_submit_def Let_def by (intro safe_rules) simp_all

lemma mail_compose_inv: "signed_in (seUser w) \<Longrightarrow> U (seUser w) \<Longrightarrow> safe False always U (mail_compose_update L msg m w)"
  unfolding mail_compose_update_def Let_def
  by (cases msg; simp split del: if_split; (intro safe_if mail_submit_inv)?) (simp_all split: mail_focus.split)


section \<open>Accounts\<close>

definition register_ok :: "'i register_form \<Rightarrow> bool" where
  "register_ok m \<longleftrightarrow> length (rgInputs m) = 4 \<and> rgFocus m < 4"

lemma form_advance_ok:
  "length (snd (form_advance L d f xs)) = length xs" "0 < length xs \<Longrightarrow> fst (form_advance L d f xs) < length xs"
  by (simp_all add: form_advance_def Let_def nat_less_iff)

lemma form_type_in_ok [simp]: "length (form_type_in L msg f xs) = length xs"
  by (simp add: form_type_in_def)

lemma register_advance_ok [simp]: "register_ok m \<Longrightarrow> register_ok (register_advance L d m)"
  using form_advance_ok(1) [of L d "rgFocus m" "rgInputs m"] form_advance_ok(2) [of "rgInputs m" L d "rgFocus m"]
  by (auto simp: register_ok_def register_advance_def split: prod.split)

definition password_change_ok :: "'i password_change \<Rightarrow> bool" where
  "password_change_ok m \<longleftrightarrow> length (pwInputs m) = 3 \<and> pwFocus m < 3"

lemma new_password_change_ok: "password_change_ok (new_password_change L)"
  by (simp add: password_change_ok_def new_password_change_def)

lemma password_advance_ok [simp]: "password_change_ok m \<Longrightarrow> password_change_ok (password_advance L d m)"
  using form_advance_ok(1) [of L d "pwFocus m" "pwInputs m"] form_advance_ok(2) [of "pwInputs m" L d "pwFocus m"]
  by (auto simp: password_change_ok_def password_advance_def split: prod.split)

lemma password_submit_inv:
  "password_change_ok m \<Longrightarrow> signed_in (seUser w) \<Longrightarrow>
    safe False password_change_ok signed_in (password_submit gen cmp L m w)"
  unfolding password_submit_def Let_def by (intro safe_rules) (simp_all add: password_change_ok_def)

lemma password_change_inv:
  "password_change_ok m \<Longrightarrow> signed_in (seUser w) \<Longrightarrow>
    safe False password_change_ok signed_in (password_change_update gen cmp L msg m w)"
  unfolding password_change_update_def Let_def
  by (cases msg; simp split del: if_split; (intro safe_if password_submit_inv)?)
    (simp_all, simp_all add: password_change_ok_def)

lemma bio_edit_inv: "signed_in (seUser w) \<Longrightarrow> safe False always signed_in (bio_edit_update L msg m w)"
  unfolding bio_edit_update_def bio_submit_def Let_def
  by (cases msg; simp split del: if_split; (intro safe_rules)?) simp_all

definition admin_users_ok :: "admin_users \<Rightarrow> bool" where
  "admin_users_ok m \<longleftrightarrow> on_row (auCursor m) (length (auUsers m)) \<and> 0 \<le> auPage m"

lemma admin_users_fields [simp]:
  "admin_users_ok (m\<lparr>auToast := t\<rparr>) = admin_users_ok m"
  "admin_users_ok (m\<lparr>auWidth := i\<rparr>) = admin_users_ok m" "admin_users_ok (m\<lparr>auHeight := i\<rparr>) = admin_users_ok m"
  by (simp_all add: admin_users_ok_def)

lemma admin_reload_ok [simp]: "0 \<le> auCursor m \<Longrightarrow> 0 \<le> auPage m \<Longrightarrow> admin_users_ok (admin_reload w m)"
  by (simp add: admin_users_ok_def admin_reload_def Let_def)

lemma admin_users_ge: "admin_users_ok m \<Longrightarrow> 0 \<le> auCursor m \<and> 0 \<le> auPage m"
  by (simp add: admin_users_ok_def on_row_def)

lemma next_page_ok [simp]: "admin_users_ok m \<Longrightarrow> admin_users_ok (next_page w m)"
proof -
  assume ok: "admin_users_ok m"
  let ?m = "admin_reload w (m\<lparr>auPage := auPage m + 1, auCursor := 0\<rparr>)"
  have "admin_users_ok ?m" using admin_users_ge [OF ok] by simp
  with admin_users_ge [OF this] show ?thesis by (simp add: next_page_def Let_def)
qed

lemma new_admin_users_ok: "admin_users_ok (new_admin_users w)"
  by (simp add: new_admin_users_def)

lemma apply_role_inv: "admin_users_ok m \<Longrightarrow> U (seUser w) \<Longrightarrow> safe False admin_users_ok U (apply_role t m w)"
  unfolding apply_role_def Let_def by (intro safe_rules) (simp_all add: admin_users_ge)

lemma admin_users_inv: "admin_users_ok m \<Longrightarrow> U (seUser w) \<Longrightarrow> safe False admin_users_ok U (admin_users_update msg m w)"
  unfolding admin_users_update_def
  by (cases msg; simp split del: if_split; (intro safe_if apply_role_inv)?)
    (simp_all, simp_all add: admin_users_ok_def)

section \<open>Notification settings\<close>

text \<open>
  Storing the form puts back a list of targets that another session may have shortened, and the cursor is
  not clamped to it; the updates check it against the list before they use it, so only its sign matters.
\<close>

definition notify_settings_ok :: "'i notify_settings \<Rightarrow> bool" where
  "notify_settings_ok m \<longleftrightarrow> 0 \<le> nsCursor m"

lemma notify_settings_fields [simp]:
  "notify_settings_ok (m\<lparr>nsErr := e\<rparr>) = notify_settings_ok m" "notify_settings_ok (m\<lparr>nsFlash := s\<rparr>) = notify_settings_ok m"
  "notify_settings_ok (m\<lparr>nsPrefsDirty := b\<rparr>) = notify_settings_ok m" "notify_settings_ok (m\<lparr>nsMode := x\<rparr>) = notify_settings_ok m"
  "notify_settings_ok (m\<lparr>nsEditingID := i\<rparr>) = notify_settings_ok m" "notify_settings_ok (m\<lparr>nsEditURL := u\<rparr>) = notify_settings_ok m"
  "notify_settings_ok (m\<lparr>nsEditLabel := u\<rparr>) = notify_settings_ok m" "notify_settings_ok (m\<lparr>nsWidth := i\<rparr>) = notify_settings_ok m"
  "notify_settings_ok (m\<lparr>nsHeight := i\<rparr>) = notify_settings_ok m" "notify_settings_ok (m\<lparr>nsEditFocus := n\<rparr>) = notify_settings_ok m"
  "notify_settings_ok (flip_pref i m) = notify_settings_ok m" "notify_settings_ok (start_add L m) = notify_settings_ok m"
  "notify_settings_ok (start_edit L m) = notify_settings_ok m" "notify_settings_ok (cycle_edit_focus L m) = notify_settings_ok m"
  "notify_settings_ok (test_result i er m) = notify_settings_ok m"
  by (simp_all add: notify_settings_ok_def row_count_def flip_pref_def start_add_def start_edit_def open_form_def
      cycle_edit_focus_def test_result_def Let_def split: option.split)

lemma new_notify_settings_ok: "notify_settings_ok (new_notify_settings L w)"
  by (simp add: notify_settings_ok_def new_notify_settings_def row_count_def notifPrefCount_def Let_def split: option.split)

lemma toggle_target_inv:
  "notify_settings_ok m \<Longrightarrow> U (seUser w) \<Longrightarrow> safe False notify_settings_ok U (toggle_target m w)"
  unfolding toggle_target_def Let_def by (intro safe_rules) (simp_all, simp_all add: notify_settings_ok_def row_count_def)

lemma delete_target_inv:
  "notify_settings_ok m \<Longrightarrow> U (seUser w) \<Longrightarrow> safe False notify_settings_ok U (delete_target m w)"
  unfolding delete_target_def Let_def
  by (intro safe_rules) (auto simp: notify_settings_ok_def row_count_def notifPrefCount_def)

lemma start_test_inv:
  "notify_settings_ok m \<Longrightarrow> U (seUser w) \<Longrightarrow> safe False notify_settings_ok U (start_test m w)"
  unfolding start_test_def Let_def by (intro safe_rules) simp_all

lemma save_prefs_inv:
  "notify_settings_ok m \<Longrightarrow> U (seUser w) \<Longrightarrow> safe False notify_settings_ok U (save_prefs m w)"
  unfolding save_prefs_def by (intro safe_rules) simp_all

lemma notify_list_inv:
  "notify_settings_ok m \<Longrightarrow> U (seUser w) \<Longrightarrow> safe False notify_settings_ok U (notify_list_key L key m w)"
  unfolding notify_list_key_def Let_def
  by (intro safe_if toggle_target_inv delete_target_inv start_test_inv save_prefs_inv)
    (simp_all, simp_all add: notify_settings_ok_def row_count_def notifPrefCount_def)

lemma submit_edit_inv:
  "notify_settings_ok m \<Longrightarrow> U (seUser w) \<Longrightarrow> safe False notify_settings_ok U (submit_edit L m w)"
  unfolding submit_edit_def Let_def by (intro safe_rules) (simp_all, simp_all add: notify_settings_ok_def)

lemma notify_edit_inv:
  "notify_settings_ok m \<Longrightarrow> U (seUser w) \<Longrightarrow> safe False notify_settings_ok U (notify_edit_key L key m w)"
  unfolding notify_edit_key_def by (intro safe_if submit_edit_inv) simp_all

lemma notify_settings_inv:
  "notify_settings_ok m \<Longrightarrow> U (seUser w) \<Longrightarrow> safe False notify_settings_ok U (notify_settings_update L msg m w)"
  unfolding notify_settings_update_def
  by (cases msg; simp split del: if_split; (intro safe_if notify_list_inv notify_edit_inv)?) simp_all

section \<open>Articles\<close>

lemma announce_user [simp]:
  "seUser (announce_article L u i a t p w) = seUser w" "seUser (announce_push L u b k body w) = seUser w"
  by (simp_all add: announce_article_def announce_push_def Let_def split: option.split)

lemma safe_pair_res:
  "(\<And>e. fst x = Inl e \<Longrightarrow> safe K P U (f e (snd x))) \<Longrightarrow> (\<And>v. fst x = Inr v \<Longrightarrow> safe K P U (g v (snd x))) \<Longrightarrow>
    safe K P U (case x of (Inl e, w1) \<Rightarrow> f e w1 | (Inr v, w1) \<Rightarrow> g v w1)"
  by (cases x) (auto split: sum.split)

lemma post_submit_inv: "signed_in (seUser w) \<Longrightarrow> U (seUser w) \<Longrightarrow> safe False always U (post_submit L m w)"
  unfolding post_submit_def Let_def by (intro safe_if safe_option safe_pair_res) simp_all

lemma post_compose_inv: "signed_in (seUser w) \<Longrightarrow> U (seUser w) \<Longrightarrow> safe False always U (post_compose_update L msg m w)"
  unfolding post_compose_update_def post_type_in_def
  by (cases msg; simp split del: if_split; (intro safe_if post_submit_inv)?) simp_all

lemma edit_submit_inv: "signed_in (seUser w) \<Longrightarrow> U (seUser w) \<Longrightarrow> safe False always U (edit_submit L m w)"
  unfolding edit_submit_def Let_def by (intro safe_rules) simp_all

lemma article_edit_inv: "signed_in (seUser w) \<Longrightarrow> U (seUser w) \<Longrightarrow> safe False always U (article_edit_update L msg m w)"
  unfolding article_edit_update_def edit_type_in_def
  by (cases msg; simp split del: if_split; (intro safe_if edit_submit_inv)?) simp_all

definition article_export_ok :: "article_export \<Rightarrow> bool" where
  "article_export_ok m \<longleftrightarrow> 0 \<le> axScroll m"

lemma export_rerender_ok [simp]: "axScroll (export_rerender m) = axScroll m"
  by (simp add: export_rerender_def split: option.split)

lemma new_article_export_ok: "article_export_ok (new_article_export i w)"
  by (simp add: article_export_ok_def new_article_export_def Let_def split: sum.split)

lemma export_key_inv:
  "article_export_ok m \<Longrightarrow> U (seUser w) \<Longrightarrow> safe False article_export_ok U (export_key L key m w)"
  unfolding export_key_def export_write_to_disk_def export_copy_def Let_def emit_clipboard_osc52_def
  by (intro safe_rules) (simp_all add: article_export_ok_def)

lemma article_export_inv:
  "article_export_ok m \<Longrightarrow> U (seUser w) \<Longrightarrow> safe False article_export_ok U (article_export_update L msg m w)"
  unfolding article_export_update_def
  by (cases msg; simp split del: if_split; (intro safe_if export_key_inv)?) (simp_all add: article_export_ok_def)

definition article_view_ok :: "'i article_view \<Rightarrow> bool" where
  "article_view_ok m \<longleftrightarrow> 0 \<le> avScroll m \<and> - 1 \<le> avPushCursor m"

lemma article_view_fields [simp]:
  "article_view_ok (m\<lparr>avErr := e\<rparr>) = article_view_ok m" "article_view_ok (m\<lparr>avPendingDelete := b\<rparr>) = article_view_ok m"
  "article_view_ok (m\<lparr>avPushing := b\<rparr>) = article_view_ok m" "article_view_ok (m\<lparr>avPushIn := x\<rparr>) = article_view_ok m"
  "article_view_ok (m\<lparr>avPushKind := k\<rparr>) = article_view_ok m" "article_view_ok (m\<lparr>avPushes := ps\<rparr>) = article_view_ok m"
  "article_view_ok (m\<lparr>avPickingCommentsMode := b\<rparr>) = article_view_ok m" "article_view_ok (m\<lparr>avArticle := a\<rparr>) = article_view_ok m"
  "article_view_ok (m\<lparr>avWidth := i\<rparr>) = article_view_ok m" "article_view_ok (m\<lparr>avHeight := i\<rparr>) = article_view_ok m"
  "article_view_ok m \<Longrightarrow> article_view_ok (m\<lparr>avScroll := c\<rparr>) \<longleftrightarrow> 0 \<le> c"
  "article_view_ok m \<Longrightarrow> article_view_ok (m\<lparr>avPushCursor := c\<rparr>) \<longleftrightarrow> - 1 \<le> c"
  by (simp_all add: article_view_ok_def)

lemma article_view_ge: "article_view_ok m \<Longrightarrow> 0 \<le> avScroll m" "article_view_ok m \<Longrightarrow> - 1 \<le> avPushCursor m"
  by (simp_all add: article_view_ok_def)

lemma article_view_steps [simp]:
  "article_view_ok (refetch_article w m) = article_view_ok m" "article_view_ok (refetch_pushes w m) = article_view_ok m"
  "article_view_ok (render_body L m) = article_view_ok m" "article_view_ok (close_push L m) = article_view_ok m"
  "article_view_ok (open_push L k m w) = article_view_ok m" "article_view_ok (ask_delete m w) = article_view_ok m"
proof -
  show "article_view_ok (refetch_article w m) = article_view_ok m" "article_view_ok (refetch_pushes w m) = article_view_ok m"
    by (simp_all add: refetch_article_def refetch_pushes_def split: option.split sum.split)
  show "article_view_ok (render_body L m) = article_view_ok m"
    by (simp add: article_view_ok_def render_body_def Let_def split: option.split)
  show "article_view_ok (close_push L m) = article_view_ok m" by (simp add: close_push_def)
  show "article_view_ok (open_push L k m w) = article_view_ok m"
    by (simp add: open_push_def Let_def split: option.split)
  show "article_view_ok (ask_delete m w) = article_view_ok m" by (simp add: ask_delete_def)
qed

lemma cursors_ok [simp]: "article_view_ok m \<Longrightarrow> - 1 \<le> next_cursor m" "article_view_ok m \<Longrightarrow> - 1 \<le> previous_cursor m"
  by (simp_all add: article_view_ok_def next_cursor_def previous_cursor_def)

lemma new_article_view_ok: "article_view_ok (new_article_view L i w)"
  by (simp add: new_article_view_def Let_def split: sum.split) (simp add: article_view_ok_def)

lemma submit_push_inv:
  "article_view_ok m \<Longrightarrow> signed_in (seUser w) \<Longrightarrow> U (seUser w) \<Longrightarrow>
    safe (avArticle m = None) article_view_ok U (submit_push L m w)"
  unfolding submit_push_def Let_def by (intro safe_rules) simp_all

lemma push_input_inv:
  "article_view_ok m \<Longrightarrow> signed_in (seUser w) \<Longrightarrow> U (seUser w) \<Longrightarrow>
    safe (avArticle m = None) article_view_ok U (update_push_input L key m w)"
  unfolding update_push_input_def by (intro safe_if submit_push_inv) simp_all

lemma delete_confirm_inv:
  "article_view_ok m \<Longrightarrow> U (seUser w) \<Longrightarrow> safe K article_view_ok U (update_delete_confirm key m w)"
  unfolding update_delete_confirm_def confirm_delete_def delete_cursor_push_def Let_def prod.case
  by (intro safe_rules) (simp_all add: article_view_ge)

lemma picker_inv:
  "article_view_ok m \<Longrightarrow> U (seUser w) \<Longrightarrow> safe K article_view_ok U (update_comments_mode_picker key m w)"
  unfolding update_comments_mode_picker_def Let_def prod.case by (intro safe_rules) simp_all

lemma article_view_key_inv:
  "article_view_ok m \<Longrightarrow> U (seUser w) \<Longrightarrow> safe K article_view_ok U (article_view_key L key m w)"
  unfolding article_view_key_def goto_neighbour_def goto_on_article_def Let_def
  by (intro safe_rules) (simp_all add: article_view_ge)

lemma article_view_inv:
  "article_view_ok m \<Longrightarrow> signed_in (seUser w) \<Longrightarrow> U (seUser w) \<Longrightarrow>
    safe (avArticle m = None \<and> avPushing m) article_view_ok U (article_view_update L msg m w)"
  unfolding article_view_update_def Let_def
  by (cases msg; simp split del: if_split; (intro safe_if delete_confirm_inv picker_inv article_view_key_inv)?)
    (simp_all add: push_input_inv article_view_ge split: sum.split)

end
