(* ===== verification/RootInv.thy ===== *)
theory RootInv
  imports ScreenInv
begin

text \<open>
  Runs of a signed-in session: the root model receives any message at any time, and other sessions change
  the database, the broker and the clock in between. The invariants of the screens carry over to the
  active screen of every reachable root.
\<close>

section \<open>Runs\<close>

text \<open>
  A step delivers a message whose update does not panic, or something outside the session happens: all
  but the session's user and flags may change.
\<close>

inductive session_step :: "'i env \<Rightarrow> 'i root \<times> session_state \<Rightarrow> 'i root \<times> session_state \<Rightarrow> bool"
  for E where
  deliver: "root_update E msg r w = ((r', c), w') \<Longrightarrow> c \<noteq> Crash \<Longrightarrow> session_step E (r, w) (r', w')"
| elsewhere: "seUser w' = seUser w \<Longrightarrow> seIsRegister w' = seIsRegister w \<Longrightarrow> seMustChange w' = seMustChange w \<Longrightarrow>
    session_step E (r, w) (r, w')"

inductive session_run :: "'i env \<Rightarrow> 'i root \<times> session_state \<Rightarrow> 'i root \<times> session_state \<Rightarrow> bool"
  for E where
  here: "session_run E x x"
| further: "session_run E x y \<Longrightarrow> session_step E y z \<Longrightarrow> session_run E x z"

inductive_cases session_stepE: "session_step E (r, w) z"

text \<open>The messages of a list one after the other, with the command of the last.\<close>

fun root_run :: "'i env \<Rightarrow> tui_msg list \<Rightarrow> 'i root \<Rightarrow> session_state \<Rightarrow> ('i root) updated" where
  "root_run E [] r w = ((r, NoCmd), w)"
| "root_run E [msg] r w = root_update E msg r w"
| "root_run E (msg # msgs) r w = (case root_update E msg r w of ((r1, _), w1) \<Rightarrow> root_run E msgs r1 w1)"

section \<open>The active screen\<close>

fun screen_of :: "'i sub \<Rightarrow> screen" where
  "screen_of (SubRegister _) = ScreenMainMenu"
| "screen_of (SubMainMenu _) = ScreenMainMenu"
| "screen_of (SubBoardList _) = ScreenBoardList"
| "screen_of (SubBoardView _) = ScreenBoardView"
| "screen_of (SubArticleView _) = ScreenArticleView"
| "screen_of (SubPostCompose _) = ScreenPostCompose"
| "screen_of (SubWBInbox _) = ScreenWBInbox"
| "screen_of (SubWBCompose _) = ScreenWBCompose"
| "screen_of (SubWBThread _) = ScreenWBThread"
| "screen_of (SubOnline _) = ScreenOnline"
| "screen_of (SubMailInbox _) = ScreenMailInbox"
| "screen_of (SubMailThread _) = ScreenMailThread"
| "screen_of (SubMailCompose _) = ScreenMailCompose"
| "screen_of (SubPasswordChange _) = ScreenPasswordChange"
| "screen_of (SubAdminUsers _) = ScreenAdminUsers"
| "screen_of (SubArticleEdit _) = ScreenArticleEdit"
| "screen_of (SubArticleExport _) = ScreenArticleExport"
| "screen_of (SubBoardSplash _) = ScreenBoardSplash"
| "screen_of (SubBannerEdit _) = ScreenBoardBannerEdit"
| "screen_of (SubUserSettings _) = ScreenUserSettings"
| "screen_of (SubBioEdit _) = ScreenBioEdit"
| "screen_of (SubNotifySettings _) = ScreenNotifySettings"
| "screen_of (SubLocaleSettings _) = ScreenLocaleSettings"

text \<open>The screen of a signed-in session is in range; the registration form is not one of its screens.\<close>

fun sub_ok :: "'i sub \<Rightarrow> bool" where
  "sub_ok (SubRegister _) = False"
| "sub_ok (SubMainMenu m) = main_menu_ok m"
| "sub_ok (SubBoardList m) = board_list_ok m"
| "sub_ok (SubBoardView m) = board_view_ok m"
| "sub_ok (SubArticleView m) = article_view_ok m"
| "sub_ok (SubWBInbox m) = wb_inbox_ok m"
| "sub_ok (SubWBThread m) = wb_thread_ok m"
| "sub_ok (SubOnline m) = online_ok m"
| "sub_ok (SubMailInbox m) = mail_inbox_ok m"
| "sub_ok (SubMailThread m) = mail_thread_ok m"
| "sub_ok (SubPasswordChange m) = password_change_ok m"
| "sub_ok (SubAdminUsers m) = admin_users_ok m"
| "sub_ok (SubArticleExport m) = article_export_ok m"
| "sub_ok (SubUserSettings m) = user_settings_ok m"
| "sub_ok (SubNotifySettings m) = notify_settings_ok m"
| "sub_ok (SubLocaleSettings m) = locale_settings_ok m"
| "sub_ok _ = True"

text \<open>The one screen whose update can panic: an article that failed to load, with the push input open.\<close>

fun failed_push :: "'i sub \<Rightarrow> bool" where
  "failed_push (SubArticleView m) = (avArticle m = None \<and> avPushing m)"
| "failed_push _ = False"

text \<open>The screens that read the session's user back from the database.\<close>

definition settings_screens :: "screen set" where
  "settings_screens = {ScreenPasswordChange, ScreenBioEdit, ScreenLocaleSettings}"

definition user_kept :: "'i sub \<Rightarrow> session_state \<Rightarrow> user option \<Rightarrow> bool" where
  "user_kept s w u \<longleftrightarrow> signed_in u \<and> (screen_of s \<in> settings_screens \<or> u = seUser w)"

lemma user_kept_simps [simp]:
  "user_kept (SubPasswordChange a) w = signed_in" "user_kept (SubBioEdit b) w = signed_in"
  "user_kept (SubLocaleSettings c) w = signed_in" "signed_in (seUser w) \<Longrightarrow> user_kept s w (seUser w)"
  by (auto simp: user_kept_def settings_screens_def)

lemmas screen_invs =
  main_menu_inv user_settings_inv online_inv board_splash_inv locale_settings_inv board_list_inv
  board_view_inv banner_edit_inv wb_inbox_inv wb_compose_inv wb_thread_inv mail_inbox_inv mail_thread_inv
  mail_compose_inv password_change_inv bio_edit_inv admin_users_inv notify_settings_inv post_compose_inv
  article_edit_inv article_export_inv article_view_inv

lemma sub_update_safe:
  assumes "sub_ok s" and "signed_in (seUser w)"
  shows "safe (failed_push s) (\<lambda>s'. sub_ok s' \<and> screen_of s' = screen_of s) (user_kept s w) (sub_update E msg s w)"
  using assms by (cases s) (simp_all add: sub_update_def safe_lift screen_invs)

section \<open>The root\<close>

text \<open>
  A guest never sees a form that writes articles, water balloons or mails, and only an administrator sees
  the user administration.
\<close>

definition write_screens :: "screen set" where
  "write_screens = {ScreenPostCompose, ScreenWBCompose, ScreenMailCompose, ScreenAdminUsers, ScreenArticleEdit}"

definition guarded :: "screen \<Rightarrow> session_state \<Rightarrow> bool" where
  "guarded s w \<longleftrightarrow> (user_is (\<lambda>u. uRole u = RoleGuest) w \<longrightarrow> s \<notin> write_screens)
     \<and> (s = ScreenAdminUsers \<longrightarrow> user_is (\<lambda>u. uRole u = RoleAdmin) w)"

definition root_ok :: "'i root \<Rightarrow> session_state \<Rightarrow> bool" where
  "root_ok r w \<longleftrightarrow> sub_ok (rtSub r) \<and> rtActiveScreen r = screen_of (rtSub r) \<and> signed_in (seUser w)
     \<and> guarded (rtActiveScreen r) w"

lemma guarded_kept:
  assumes "guarded (screen_of s) w" and "user_kept s w (seUser w')"
  shows "guarded (screen_of s) w'"
  using assms
  by (auto simp: guarded_def user_kept_def settings_screens_def write_screens_def user_is_def split: option.splits)

lemma new_sub_ok:
  assumes "new_sub E n w = (s, w1)"
  shows "sub_ok s \<and> screen_of s = nvTo n \<and> seUser w1 = seUser w"
  using assms new_wb_thread_ok [of "enLib E" "nvCounterpartyUserID n" w] new_mail_thread_ok [of "enLib E" "nvMailThreadID n" w]
  by (auto simp: new_sub_def Let_def new_main_menu_ok new_board_list_ok new_board_view_ok new_article_view_ok new_wb_inbox_ok
      new_online_ok new_mail_inbox_ok new_password_change_ok new_admin_users_ok new_article_export_ok new_user_settings_ok
      new_notify_settings_ok new_locale_settings_ok split: screen.splits prod.splits)

lemma guards_pass:
  "guest_write_blocked s w = None \<Longrightarrow> navigate_non_admin_blocked s w = None \<Longrightarrow> guarded s w"
  by (auto simp: guest_write_blocked_def navigate_non_admin_blocked_def guarded_def write_screens_def split: if_splits)

lemma guard_commands: "guest_write_blocked s w = Some c \<or> navigate_non_admin_blocked s w = Some c \<Longrightarrow> c \<noteq> Crash"
  by (auto simp: guest_write_blocked_def navigate_non_admin_blocked_def split: if_splits)

lemma sub_init_not_crash: "sub_init s \<noteq> Crash"
  by (cases s) simp_all

text \<open>What an update of the root keeps, with the command it returns.\<close>

definition root_safe :: "bool \<Rightarrow> ('i root) updated \<Rightarrow> bool" where
  "root_safe K r \<longleftrightarrow> root_ok (fst (fst r)) (snd r) \<and> (snd (fst r) = Crash \<longrightarrow> K)"

lemma root_safe_simp [simp]: "root_safe K ((r, c), w) \<longleftrightarrow> root_ok r w \<and> (c = Crash \<longrightarrow> K)"
  by (simp add: root_safe_def)

lemma to_sub_safe:
  assumes "root_ok r w"
  shows "root_safe (failed_push (rtSub r)) (to_sub E msg r w)"
proof -
  obtain s c w1 where upd: "sub_update E msg (rtSub r) w = ((s, c), w1)" by (metis surj_pair)
  have "safe (failed_push (rtSub r)) (\<lambda>s'. sub_ok s' \<and> screen_of s' = screen_of (rtSub r)) (user_kept (rtSub r) w)
      (sub_update E msg (rtSub r) w)"
    using assms by (intro sub_update_safe) (simp_all add: root_ok_def)
  with upd have "sub_ok s" "screen_of s = screen_of (rtSub r)" "c = Crash \<longrightarrow> failed_push (rtSub r)"
    "user_kept (rtSub r) w (seUser w1)" by simp_all
  with assms guarded_kept [of "rtSub r" w w1] upd show ?thesis
    by (auto simp: to_sub_def root_ok_def user_kept_def)
qed

lemma navigate_safe:
  assumes "root_ok r w"
  shows "root_safe False (navigate E n r w)"
proof (cases "guest_write_blocked (nvTo n) w \<noteq> None \<or> navigate_non_admin_blocked (nvTo n) w \<noteq> None")
  case True
  with assms guard_commands [of "nvTo n" w] show ?thesis by (auto simp: navigate_def split: option.split)
next
  case False
  then have pass: "guarded (nvTo n) w" by (intro guards_pass) auto
  obtain s w1 where new: "new_sub E n w = (s, w1)" by fastforce
  from new_sub_ok [OF new] have s: "sub_ok s" "screen_of s = nvTo n" "seUser w1 = seUser w" by auto
  with assms pass have w1: "signed_in (seUser w1)" "guarded (nvTo n) w1"
    by (auto simp: root_ok_def guarded_def user_is_def)
  obtain s2 c2 w2 where upd: "sub_update E (WindowSizeMsg (rtWidth r) (rtHeight r)) s w1 = ((s2, c2), w2)" by (metis surj_pair)
  from sub_update_safe [OF s(1) w1(1), of E "WindowSizeMsg (rtWidth r) (rtHeight r)"] upd
  have s2: "sub_ok s2" "screen_of s2 = nvTo n" "user_kept s w1 (seUser w2)" using s(2) by simp_all
  then have "guarded (nvTo n) w2" "signed_in (seUser w2)" using guarded_kept [of s w1 w2] w1 s(2) by (auto simp: user_kept_def)
  with False new upd s s2 w1 show ?thesis
    by (auto simp: navigate_def root_ok_def sub_init_not_crash)
qed

lemma root_ok_fields [simp]:
  "root_ok (r\<lparr>rtWidth := a\<rparr>) w = root_ok r w" "root_ok (r\<lparr>rtHeight := a\<rparr>) w = root_ok r w"
  "root_ok (r\<lparr>rtHelpVisible := b\<rparr>) w = root_ok r w" "root_ok (set_toast t v r) w = root_ok r w"
  "rtSub (set_toast t v r) = rtSub r"
  by (simp_all add: root_ok_def set_toast_def)

lemma wb_toast_if: "\<exists>b. wb_toast f body v r = (if b then set_toast (WBToast f body) v r else r)"
  unfolding wb_toast_def Let_def by (rule exI, rule refl)

lemma wb_toast_fields [simp]:
  "root_ok (wb_toast f body v r) w = root_ok r w" "rtSub (wb_toast f body v r) = rtSub r"
  using wb_toast_if [of f body v r] by (auto split: if_splits)

lemma root_ok_db [simp]: "root_ok r (snd (on_db f w)) = root_ok r w"
  by (simp add: root_ok_def guarded_def user_is_def)

lemma root_update_safe:
  assumes "root_ok r w"
  shows "root_safe (failed_push (rtSub r)) (root_update E msg r w)"
proof -
  have nav: "root_safe K (navigate E n r w)" for K n
    using navigate_safe [OF assms, of E n] by (simp add: root_safe_def)
  have sub: "root_ok r' w' \<Longrightarrow> rtSub r' = rtSub r \<Longrightarrow> root_safe (failed_push (rtSub r)) (to_sub E m r' w')" for m r' w'
    using to_sub_safe [of r' w' E m] by simp
  show ?thesis
    using assms by (cases msg) (simp_all add: root_update_def sub nav)
qed


lemma new_root_ok:
  assumes "signed_in (seUser w)" and "\<not> seIsRegister w"
  shows "root_ok (new_root E w) w"
  using assms by (simp add: new_root_def root_ok_def guarded_def write_screens_def new_main_menu_ok new_password_change_ok)

lemma root_ok_user: "seUser w' = seUser w \<Longrightarrow> root_ok r w' = root_ok r w"
  by (simp add: root_ok_def guarded_def user_is_def)

lemma root_ok_step:
  assumes "session_step E (r, w) (r', w')" and "root_ok r w"
  shows "root_ok r' w'"
  using assms(1)
proof (rule session_stepE)
  fix msg r1 c w1
  assume "(r', w') = (r1, w1)" and "root_update E msg r w = ((r1, c), w1)"
  with root_update_safe [OF assms(2), of E msg] show ?thesis by simp
next
  fix w1
  assume "(r', w') = (r, w1)" and "seUser w1 = seUser w"
  with root_ok_user [of w1 w r] assms(2) show ?thesis by simp
qed

lemma root_ok_run:
  assumes "session_run E x y" and "root_ok (fst x) (snd x)"
  shows "root_ok (fst y) (snd y)"
  using assms
proof (induction rule: session_run.induct)
  case (further x y z)
  then show ?case using root_ok_step [of E "fst y" "snd y" "fst z" "snd z"] by simp
qed simp

lemma reachable_root_ok:
  assumes "session_run E (new_root E w, w) (r', w')" and "signed_in (seUser w)" and "\<not> seIsRegister w"
  shows "root_ok r' w'"
  using root_ok_run [OF assms(1)] new_root_ok [OF assms(2,3), of E] by simp

end
