(* ===== verification/RootProps.thy ===== *)
theory RootProps
  imports RootInv
begin

text \<open>
  Properties of the root model: what every reachable state of a session satisfies, and three runs of keys
  that the guards do not stop.
\<close>

section \<open>A session for concrete runs\<close>

definition demo_env :: "string env" where
  "demo_env = \<lparr>enGen = demo_gen, enCmp = demo_cmp, enLib = demo_lib\<rparr>"

definition demo_state :: session_state where
  "demo_state = \<lparr>seDB = demo_db, seBroker = new_broker, seSent = [], seEvents = [], seUser = Some (demo_user 1 ''alice''),
     seIsRegister = False, seMustChange = False, seHasBroker = True, seHasNotify = True, seFiles = [], seStdout = [],
     seNow = demo_now, seDefault = LocaleZHTW\<rparr>"

lemma demo_state_sel [simp]:
  "seUser demo_state = Some (demo_user 1 ''alice'')" "\<not> seIsRegister demo_state" "seDB demo_state = demo_db"
  "\<not> seMustChange demo_state"
  by (simp_all add: demo_state_def)

lemma run_message:
  "session_run E x (r, w) \<Longrightarrow> root_update E msg r w = ((r', c), w') \<Longrightarrow> c \<noteq> Crash \<Longrightarrow> session_run E x (r', w')"
  by (meson session_run.further session_step.deliver)

lemma demo_run: "session_run demo_env (new_root demo_env demo_state, demo_state)
    ((new_root demo_env demo_state)\<lparr>rtHelpVisible := True\<rparr>, demo_state)"
  by (rule run_message [OF session_run.here, where msg = "KeyMsg ''?''" and c = NoCmd])
    (simp_all add: root_update_def new_root_def help_available_def is_form_screen_def)

section \<open>Reachable states\<close>



lemma navigate_screen:
  assumes "root_ok r w" and "nvTo n \<notin> write_screens"
  shows "screen_of (rtSub (fst (fst (navigate E n r w)))) = nvTo n"
proof -
  have pass: "guest_write_blocked (nvTo n) w = None" "navigate_non_admin_blocked (nvTo n) w = None"
    using assms(2) by (auto simp: guest_write_blocked_def navigate_non_admin_blocked_def write_screens_def)
  obtain s w1 where new: "new_sub E n w = (s, w1)" by fastforce
  with new_sub_ok [OF new] assms(1) have s: "sub_ok s" "screen_of s = nvTo n" "signed_in (seUser w1)" by (auto simp: root_ok_def)
  obtain s2 c2 w2 where upd: "sub_update E (WindowSizeMsg (rtWidth r) (rtHeight r)) s w1 = ((s2, c2), w2)" by (metis surj_pair)
  with sub_update_safe [OF s(1,3), of E "WindowSizeMsg (rtWidth r) (rtHeight r)"] s(2) have "screen_of s2 = nvTo n" by simp
  with pass new s upd show ?thesis by (simp add: navigate_def)
qed

text \<open>C5: no reachable state of a session shows a guest the form for a new article, for an edit, for a water balloon or for a mail,
  or shows the user administration to anyone but an administrator, not even after the
  session has read its user back from the database. Every other screen opens for everyone who navigates to it, guests included, and
  the thread of water balloons, which has an input line of its own, is one of them.\<close>

theorem write_screens_guarded:
  assumes "session_run E (new_root E w, w) (r', w')" and "seUser w = Some u" and "\<not> seIsRegister w"
  shows "(user_is (\<lambda>u. uRole u = RoleGuest) w' \<longrightarrow>
      screen_of (rtSub r') \<notin> {ScreenPostCompose, ScreenWBCompose, ScreenMailCompose, ScreenAdminUsers, ScreenArticleEdit})
    \<and> (screen_of (rtSub r') = ScreenAdminUsers \<longrightarrow> user_is (\<lambda>u. uRole u = RoleAdmin) w')
    \<and> (nvTo n \<notin> {ScreenPostCompose, ScreenWBCompose, ScreenMailCompose, ScreenAdminUsers, ScreenArticleEdit} \<longrightarrow>
      screen_of (rtSub (fst (fst (root_update E (NavigateMsg n) r' w')))) = nvTo n)"
proof -
  have ok: "root_ok r' w'" using assms by (intro reachable_root_ok [OF assms(1)]) simp_all
  then have "guarded (screen_of (rtSub r')) w'" unfolding root_ok_def by metis
  with navigate_screen [OF ok, of n E] show ?thesis by (simp add: guarded_def write_screens_def root_update_def)
qed

lemma write_screens_guarded_witness:
  "screen_of (rtSub ((new_root demo_env demo_state)\<lparr>rtHelpVisible := True\<rparr>)) \<noteq> ScreenAdminUsers
    \<and> screen_of (rtSub (fst (fst (root_update demo_env (NavigateMsg (nav ScreenWBThread))
        ((new_root demo_env demo_state)\<lparr>rtHelpVisible := True\<rparr>) demo_state)))) = ScreenWBThread"
proof -
  have "\<not> user_is (\<lambda>u. uRole u = RoleAdmin) demo_state" by (simp add: user_is_def demo_user_def new_user_def role_defs)
  with write_screens_guarded [OF demo_run, of "demo_user 1 ''alice''" "nav ScreenWBThread"] show ?thesis by (simp add: nav_def)
qed

text \<open>The screen number the root keeps for the help overlay and the toasts is always the one of the
  model it holds, so the two never drift apart.\<close>

theorem active_screen_matches:
  assumes "session_run E (new_root E w, w) (r', w')" and "seUser w = Some u" and "\<not> seIsRegister w"
  shows "rtActiveScreen r' = screen_of (rtSub r')"
proof -
  have "root_ok r' w'" using assms by (intro reachable_root_ok [OF assms(1)]) simp_all
  then show ?thesis by (simp add: root_ok_def)
qed

lemma active_screen_matches_witness:
  "rtActiveScreen ((new_root demo_env demo_state)\<lparr>rtHelpVisible := True\<rparr>) = ScreenMainMenu"
  using active_screen_matches [OF demo_run] by (simp add: new_root_def)

section \<open>Runs the guards do not stop\<close>

text \<open>Opening an article that has just been deleted and pressing = and Enter panics: the
  push input opens although no article is loaded, and submitting it dereferences the missing article,
  whatever was typed.\<close>

theorem failed_load_panics:
  assumes "articles_get_by_id i (seDB w) = Inl e" and "seUser w = Some u" and "uRole u \<noteq> RoleGuest"
    and "\<not> rtHelpVisible r"
  shows "snd (fst (root_run E [NavigateMsg ((nav ScreenArticleView)\<lparr>nvArticleID := i\<rparr>), KeyMsg ''='', KeyMsg ''enter''] r w)) = Crash"
proof -
  let ?L = "enLib E"
  let ?m = "new_article_view ?L i w"
  let ?n = "(nav ScreenArticleView)\<lparr>nvArticleID := i\<rparr>"
  have m: "avArticle ?m = None" "\<not> avPushing ?m" "\<not> avPendingDelete ?m" "\<not> avPickingCommentsMode ?m"
    using assms(1) by (simp_all add: new_article_view_def)
  have "\<exists>m1. sub_update E (WindowSizeMsg a b) (SubArticleView ?m) w = ((SubArticleView m1, NoCmd), w)
      \<and> avArticle m1 = None \<and> \<not> avPushing m1 \<and> \<not> avPendingDelete m1 \<and> \<not> avPickingCommentsMode m1" for a b
    using m by (simp add: sub_update_def lift_sub_def article_view_update_def stay_def Let_def render_body_def)
  then obtain m1 where m1: "avArticle m1 = None" "\<not> avPushing m1" "\<not> avPendingDelete m1" "\<not> avPickingCommentsMode m1"
    and size: "0 < rtWidth r \<Longrightarrow>
      sub_update E (WindowSizeMsg (rtWidth r) (rtHeight r)) (SubArticleView ?m) w = ((SubArticleView m1, NoCmd), w)"
    and none: "\<not> 0 < rtWidth r \<Longrightarrow> m1 = ?m"
    using m by (cases "0 < rtWidth r") auto
  let ?r1 = "r\<lparr>rtSub := SubArticleView m1, rtActiveScreen := ScreenArticleView\<rparr>"
  have r1: "root_update E (NavigateMsg ?n) r w = ((?r1, NoCmd), w)"
    using assms(2,3) size none
    by (cases "0 < rtWidth r") (simp_all add: root_update_def navigate_def nav_def guest_write_blocked_def
        navigate_non_admin_blocked_def user_is_def new_sub_def)
  let ?m2 = "open_push ?L PushKindArrow m1 w"
  have push: "sub_update E (KeyMsg ''='') (SubArticleView m1) w = ((SubArticleView ?m2, NoCmd), w)"
    using m1 assms(2,3) by (simp add: sub_update_def lift_sub_def article_view_update_def article_view_key_def stay_def can_push_def user_is_def)
  have r2: "root_update E (KeyMsg ''='') ?r1 w = ((?r1\<lparr>rtSub := SubArticleView ?m2\<rparr>, NoCmd), w)"
    using assms(4) push by (simp add: root_update_def to_sub_def)
  have m2: "avArticle ?m2 = None" "avPushing ?m2" "avPushKind ?m2 = PushKindArrow"
    using m1 by (simp_all add: open_push_def Let_def)
  then have "snd (fst (sub_update E (KeyMsg ''enter'') (SubArticleView ?m2) w)) = Crash"
    by (simp add: sub_update_def lift_sub_def article_view_update_def update_push_input_def submit_push_def crash_def Let_def)
  then have "snd (fst (root_update E (KeyMsg ''enter'') (?r1\<lparr>rtSub := SubArticleView ?m2\<rparr>) w)) = Crash"
    using assms(4) by (auto simp: root_update_def to_sub_def split: prod.split)
  with r1 r2 show ?thesis by simp
qed

lemma failed_load_panics_witness:
  "snd (fst (root_run demo_env [NavigateMsg ((nav ScreenArticleView)\<lparr>nvArticleID := 99\<rparr>), KeyMsg ''='', KeyMsg ''enter'']
     (new_root demo_env demo_state) demo_state)) = Crash"
proof -
  have "articles_get_by_id 99 demo_db = Inl ErrArticleNotFound"
    by (simp add: articles_get_by_id_def demo_db_def find_row_def new_article_def)
  then show ?thesis
    by (intro failed_load_panics [where e = ErrArticleNotFound and u = "demo_user 1 ''alice''"])
      (simp_all add: demo_user_def new_user_def role_defs new_root_def)
qed

text \<open>C38: a session that must rotate its password starts on the password form, where Esc ends it; but
  Ctrl+U followed by Esc leads to the main menu with the password unchanged.\<close>

theorem forced_rotation_escape:
  assumes "seMustChange w" and "\<not> seIsRegister w" and "seUser w = Some u" and "uRole u \<noteq> RoleGuest"
  shows "screen_of (rtSub (new_root E w)) = ScreenPasswordChange
    \<and> snd (fst (root_run E [KeyMsg ''esc''] (new_root E w) w)) = Quit
    \<and> snd (fst (root_run E [KeyMsg ''ctrl+u'', KeyMsg ''esc''] (new_root E w) w)) = Yield (NavigateMsg (nav ScreenMainMenu))
    \<and> rtSub (fst (fst (root_run E [KeyMsg ''ctrl+u'', KeyMsg ''esc'', NavigateMsg (nav ScreenMainMenu)] (new_root E w) w)))
        = SubMainMenu (new_main_menu w)
    \<and> snd (root_run E [KeyMsg ''ctrl+u'', KeyMsg ''esc'', NavigateMsg (nav ScreenMainMenu)] (new_root E w) w) = w"
  using assms
  by (simp add: new_root_def root_update_def navigate_def nav_def guest_write_blocked_def navigate_non_admin_blocked_def
      user_is_def new_sub_def to_sub_def sub_update_def lift_sub_def help_available_def wb_inbox_update_def goto_def
      password_change_update_def new_password_change_def Let_def)

lemma forced_rotation_escape_witness:
  "rtSub (fst (fst (root_run demo_env [KeyMsg ''ctrl+u'', KeyMsg ''esc'', NavigateMsg (nav ScreenMainMenu)]
      (new_root demo_env (demo_state\<lparr>seMustChange := True\<rparr>)) (demo_state\<lparr>seMustChange := True\<rparr>))))
    = SubMainMenu (new_main_menu (demo_state\<lparr>seMustChange := True\<rparr>))"
  using forced_rotation_escape [of "demo_state\<lparr>seMustChange := True\<rparr>" "demo_user 1 ''alice''" demo_env]
  by (simp add: demo_user_def new_user_def role_defs)

end
