(* ===== verification/ScreenProps.thy ===== *)
theory ScreenProps
  imports RootProps
begin

text \<open>
  What three submissions do beyond their screen: the password form, the user administration and the
  sending of a water balloon.
\<close>

section \<open>Rotating a password\<close>

lemma get_by_id_set_password:
  assumes "users_get_by_id i d = Inr s"
  shows "users_get_by_id j (snd (users_set_password i h d)) =
    (if j = i then Inr (s\<lparr>uPasswordHash := h, uMustChangePassword := False\<rparr>) else users_get_by_id j d)"
  using assms by (auto simp: users_set_password_def get_by_id_update split: sum.splits dest: get_by_id_Inr)

lemma hash_password_cases:
  "bcrypt_laws gen cmp \<Longrightarrow>
    (if length p \<le> 72 then \<exists>h. hash_password gen p = Inr h \<and> cmp h p else hash_password gen p = Inl HashError)"
  by (auto simp: bcrypt_laws_def hash_password_def split: option.splits)

text \<open>C26: submitting the password form either passes every check, with a new password of at most 72 bytes,
  and then stores a hash of it that bcrypt accepts and clears the must-change flag of the stored account, which lifts the
  remote ban on the bootstrap administrator; it leaves the rest of the account and every other account alone, reads the
  user back and moves on. Or it changes nothing but the message of the form. The session keeps its own flag of a
  forced rotation in either case. The user the session remembers may differ from the stored row.\<close>

theorem password_rotation:
  assumes "bcrypt_laws gen cmp" and "seUser w = Some u" and "users_get_by_id (uID u) (seDB w) = Inr s"
    and "new = tiValue L (pwInputs m ! 1)"
    and "problem = password_problem cmp u (tiValue L (pwInputs m ! 0)) new (tiValue L (pwInputs m ! 2)) w"
    and "password_submit gen cmp L m w = ((m', c), w')"
  shows "seMustChange w' = seMustChange w
    \<and> (if problem = NoErr \<and> length new \<le> 72
    then (\<exists>h. seUser w' = Some (s\<lparr>uPasswordHash := h, uMustChangePassword := False\<rparr>)
            \<and> users_get_by_id (uID u) (seDB w') = Inr (s\<lparr>uPasswordHash := h, uMustChangePassword := False\<rparr>)
            \<and> cmp h new \<and> \<not> must_change_password_remote_blocked (seUser w') host)
       \<and> (\<forall>j. j \<noteq> uID u \<longrightarrow> users_get_by_id j (seDB w') = users_get_by_id j (seDB w))
       \<and> c = Yield (NavigateMsg (password_leave w))
    else w' = w \<and> c = NoCmd \<and> m' = m\<lparr>pwErr := (if problem = NoErr then ErrAuth HashError else problem)\<rparr>)"
proof (cases "problem = NoErr \<and> length new \<le> 72")
  case True
  with hash_password_cases [OF assms(1), of new] obtain h where h: "hash_password gen new = Inr h" "cmp h new" by auto
  let ?v = "s\<lparr>uPasswordHash := h, uMustChangePassword := False\<rparr>"
  let ?w = "w\<lparr>seDB := snd (users_set_password (uID u) h (seDB w))\<rparr>"
  note get = get_by_id_set_password [OF assms(3), of _ h]
  have w: "on_db (users_set_password (uID u) h) w = (Inr (), ?w)"
    by (simp add: on_db_def users_set_password_def)
  have "refresh_user ?w = ?w\<lparr>seUser := Some ?v\<rparr>"
    using assms(2) get [of "uID u"] by (simp add: refresh_user_def)
  with assms(2,4-6) True h w have "c = Yield (NavigateMsg (password_leave w)) \<and> w' = ?w\<lparr>seUser := Some ?v\<rparr>"
    by (auto simp: password_submit_def goto_def password_leave_def)
  with True h(2) get show ?thesis by (auto simp: must_change_password_remote_blocked_def)
next
  case False
  with assms(2,4-6) hash_password_cases [OF assms(1), of new] show ?thesis
    by (auto simp: password_submit_def stay_def)
qed

definition rotating_user :: user where
  "rotating_user = (demo_user 1 ''admin'')\<lparr>uRole := RoleAdmin, uMustChangePassword := True,
     uPasswordHash := replicate 59 (CHR ''$'') @ ''secret''\<rparr>"

definition rotating_state :: session_state where
  "rotating_state = demo_state\<lparr>seDB := demo_db\<lparr>users := [rotating_user]\<rparr>, seUser := Some rotating_user, seMustChange := True\<rparr>"

definition filled_form :: "string password_change" where
  "filled_form = (new_password_change demo_lib)\<lparr>pwInputs := [''secret'', ''better'', ''better'']\<rparr>"

lemma password_rotation_witness:
  "\<exists>v. users_get_by_id 1 (seDB (snd (password_submit demo_gen demo_cmp demo_lib filled_form rotating_state))) = Inr v
    \<and> demo_cmp (uPasswordHash v) ''better'' \<and> \<not> uMustChangePassword v"
proof -
  have u: "seUser rotating_state = Some rotating_user" "uID rotating_user = 1"
    by (simp_all add: rotating_state_def rotating_user_def demo_user_def)
  have row: "users_get_by_id (uID rotating_user) (seDB rotating_state) = Inr rotating_user"
    by (simp add: users_get_by_id_def find_row_def rotating_state_def)
  have "password_problem demo_cmp rotating_user ''secret'' ''better'' ''better'' rotating_state = NoErr"
    by (simp add: password_problem_def verify_password_hash_def rotating_user_def demo_cmp_def validate_password_def limit_defs)
  moreover obtain m' c w' where "password_submit demo_gen demo_cmp demo_lib filled_form rotating_state = ((m', c), w')"
    by (metis surj_pair)
  ultimately show ?thesis
    using password_rotation [OF demo_bcrypt u(1) row, of "''better''" demo_lib filled_form _ m' c w' "''8.8.8.8''"] u(2)
    by (auto simp: filled_form_def demo_lib_def)
qed

section \<open>The last administrator\<close>

definition has_admin :: "db \<Rightarrow> bool" where
  "has_admin d \<longleftrightarrow> (\<exists>u \<in> set (users d). uRole u = RoleAdmin)"

lemma another_admin:
  assumes "1 < users_count_by_role RoleAdmin d" and "users_ok d"
  shows "\<exists>x \<in> set (users d). uRole x = RoleAdmin \<and> uID x \<noteq> i"
proof (rule ccontr)
  assume "\<not> ?thesis"
  then have "set (map uID (filter (\<lambda>x. uRole x = RoleAdmin) (users d))) \<subseteq> {i}" by auto
  moreover have "distinct (map uID (filter (\<lambda>x. uRole x = RoleAdmin) (users d)))"
    using assms(2) by (auto simp: users_ok_def intro: distinct_map_filter table_ok_distinct)
  ultimately have "length (map uID (filter (\<lambda>x. uRole x = RoleAdmin) (users d))) \<le> card {i}"
    by (metis distinct_card card_mono finite.emptyI finite.insertI)
  with assms(1) show False by (simp add: users_count_by_role_def)
qed

lemma has_admin_set_role:
  "role_valid r \<Longrightarrow> has_admin (snd (users_set_role i r d)) \<longleftrightarrow>
    (\<exists>u \<in> set (users d). if uID u = i then r = RoleAdmin else uRole u = RoleAdmin)"
  by (simp add: has_admin_def users_set_role_def set_update_rows bex_Un) blast

text \<open>What a role change does to the database: nothing when it is refused on the listed role, else one write.\<close>

definition role_stops :: "user \<Rightarrow> role \<Rightarrow> db \<Rightarrow> bool" where
  "role_stops u target d \<longleftrightarrow>
     uRole u = target \<or> uRole u = RoleAdmin \<and> target \<noteq> RoleAdmin \<and> users_count_by_role RoleAdmin d \<le> 1"

lemma apply_role_db:
  assumes "0 \<le> auCursor m" and "auCursor m < int (length (auUsers m))" and "u = auUsers m ! nat (auCursor m)" and "role_valid target"
  shows "seDB (snd (apply_role target m w)) =
    (if role_stops u target (seDB w) then seDB w else snd (users_set_role (uID u) target (seDB w)))"
  using assms by (auto simp: apply_role_def role_stops_def on_db_def users_set_role_def Let_def)

text \<open>C28: changing roles from a page that shows the selected account as it is in the database never
  removes the last administrator; from a page on which that account is still listed with an older
  role below administrator, the guard is not consulted and the last administrator is lost.\<close>

theorem last_admin_guard:
  assumes "users_ok (seDB w)" and "0 \<le> auCursor m" and "auCursor m < int (length (auUsers m))"
    and "u = auUsers m ! nat (auCursor m)" and "users_get_by_id (uID u) (seDB w) = Inr v" and "role_valid target"
    and "w' = snd (apply_role target m w)"
  shows "(uRole u = uRole v \<longrightarrow> has_admin (seDB w) \<longrightarrow> has_admin (seDB w'))
    \<and> (uRole u \<noteq> RoleAdmin \<and> uRole u \<noteq> target \<and> target \<noteq> RoleAdmin
       \<and> (\<forall>x \<in> set (users (seDB w)). uRole x = RoleAdmin \<longrightarrow> x = v) \<longrightarrow> \<not> has_admin (seDB w'))"
proof -
  have v: "v \<in> set (users (seDB w))" "uID v = uID u" using get_by_id_Inr [OF assms(5)] by simp_all
  have ids: "x \<in> set (users (seDB w)) \<Longrightarrow> uID x = uID u \<Longrightarrow> x = v" for x
    using v assms(1) by (auto simp: users_ok_def intro: distinct_key_eq [OF table_ok_distinct])
  let ?stop = "role_stops u target (seDB w)"
  have db: "seDB w' = (if ?stop then seDB w else snd (users_set_role (uID u) target (seDB w)))"
    using apply_role_db [OF assms(2-4,6)] assms(7) by simp
  show ?thesis
  proof (cases ?stop)
    case True
    then show ?thesis using db by (auto simp: role_stops_def)
  next
    case False
    then have d: "has_admin (seDB w') \<longleftrightarrow>
        (\<exists>x \<in> set (users (seDB w)). if uID x = uID u then target = RoleAdmin else uRole x = RoleAdmin)"
      using db has_admin_set_role [OF assms(6)] by (simp only: if_False)
    have "uRole u = RoleAdmin \<Longrightarrow> target \<noteq> RoleAdmin \<Longrightarrow> has_admin (seDB w')"
      using False another_admin [of "seDB w" "uID u"] assms(1) d by (force simp: role_stops_def)
    moreover have "uRole v \<noteq> RoleAdmin \<Longrightarrow> has_admin (seDB w) \<Longrightarrow> has_admin (seDB w')"
      unfolding d using ids by (auto simp: has_admin_def)
    moreover have "target = RoleAdmin \<Longrightarrow> has_admin (seDB w')" using v by (auto simp: d)
    moreover have "\<forall>x \<in> set (users (seDB w)). uRole x = RoleAdmin \<longrightarrow> x = v \<Longrightarrow> target \<noteq> RoleAdmin \<Longrightarrow> \<not> has_admin (seDB w')"
      unfolding d using v(2) by auto
    ultimately show ?thesis by metis
  qed
qed

definition stale_state :: session_state where
  "stale_state = demo_state\<lparr>seDB := demo_db\<lparr>users := [demo_user 1 ''alice'', (demo_user 2 ''bob'')\<lparr>uRole := RoleAdmin\<rparr>]\<rparr>\<rparr>"

lemma last_admin_guard_witness:
  "\<not> has_admin (seDB (snd (apply_role RoleMod
      \<lparr>auUsers = [demo_user 2 ''bob''], auCursor = 0, auPage = 0, auToast = NoErr, auWidth = 80, auHeight = 24\<rparr> stale_state)))"
proof -
  have u: "users (seDB stale_state) = [demo_user 1 ''alice'', (demo_user 2 ''bob'')\<lparr>uRole := RoleAdmin\<rparr>]"
    by (simp add: stale_state_def)
  have "users_ok (seDB stale_state)"
    by (simp add: users_ok_def stale_state_def demo_user_def table_ok_def)
  moreover have "users_get_by_id 2 (seDB stale_state) = Inr ((demo_user 2 ''bob'')\<lparr>uRole := RoleAdmin\<rparr>)"
    by (simp add: users_get_by_id_def find_row_def u demo_user_def)
  ultimately show ?thesis
    using last_admin_guard [of stale_state _ "demo_user 2 ''bob''" "(demo_user 2 ''bob'')\<lparr>uRole := RoleAdmin\<rparr>" RoleMod]
    by (simp add: u) (simp add: demo_user_def role_defs)
qed

section \<open>Sending a water balloon\<close>

text \<open>C17: sending a water balloon between two accounts appends one row; nobody's sessions get anything when
  it goes to oneself, otherwise every session of the recipient gets it exactly once, in order, and one
  notification is dispatched. The row is marked read at once iff somebody has seen it: the sender, or a
  session of the recipient. A missing account is an error that changes nothing.\<close>

theorem send_wb_effects:
  assumes "wbs_ok (seDB w)" and "send_wb u to_id body w = (r, w')"
  shows "if uID u \<in> user_ids (seDB w) \<and> to_id \<in> user_ids (seDB w)
    then (\<exists>wb. r = Inr wb \<and> wb_unread wb \<and> wBody wb = body \<and> between (uID u) to_id wb
        \<and> wbs (seDB w') = wbs (seDB w)
            @ [if to_id = uID u \<or> seHasBroker w \<and> broker_is_online to_id (seBroker w) then mark_wb (seNow w) wb else wb]
        \<and> seSent w' = seSent w @ (if to_id = uID u \<or> \<not> seHasBroker w then []
            else map (\<lambda>s. (sProgram s, WBIncomingMsg (wID wb) (uUserID u) body)) (sessions_of (seBroker w) to_id))
        \<and> length (seEvents w') = length (seEvents w) + (if to_id \<noteq> uID u \<and> seHasBroker w \<and> seHasNotify w then 1 else 0))
    else (\<exists>e. r = Inl e) \<and> w' = w"
proof (cases "uID u \<in> user_ids (seDB w) \<and> to_id \<in> user_ids (seDB w)")
  case True
  define wb where "wb = new_wb (uID u) (uUserID u) to_id body False (seNow w) (seq_wbs (seDB w) + 1)"
  define d where "d = (seDB w)\<lparr>wbs := wbs (seDB w) @ [wb], seq_wbs := seq_wbs (seDB w) + 1\<rparr>"
  have ins: "on_db (wbs_insert (uID u) (uUserID u) to_id body False (seNow w)) w = (Inr wb, w\<lparr>seDB := d\<rparr>)"
    using wbs_insert_spec [OF assms(1)] True by (simp add: on_db_def d_def wb_def)
  have "update_rows (\<lambda>b. wID b = wID wb \<and> wb_unread b) (mark_wb (seNow w)) (wbs (seDB w)) = wbs (seDB w)"
    using assms(1) by (intro update_rows_none) (auto simp: wbs_ok_def table_ok_def wb_def new_wb_def)
  then have mark: "on_db (wbs_mark_read (wID wb) (seNow w)) x
      = (Inr (), x\<lparr>seDB := d\<lparr>wbs := wbs (seDB w) @ [mark_wb (seNow w) wb]\<rparr>\<rparr>)" if "seDB x = d" for x
    using that by (simp add: on_db_def wbs_mark_read_def update_rows_def d_def) (simp add: wb_def new_wb_def wb_unread_def)
  have wb: "wb_unread wb" "wBody wb = body" "between (uID u) to_id wb" and d: "wbs d = wbs (seDB w) @ [wb]"
    by (simp_all add: wb_def new_wb_def wb_unread_def between_def d_def)
  define self where "self \<longleftrightarrow> to_id = uID u"
  have "send_wb u to_id body w = (Inr wb,
      if self then snd (on_db (wbs_mark_read (wID wb) (seNow w)) (w\<lparr>seDB := d\<rparr>))
      else if seHasBroker w then
        (let w2 = send_to to_id (WBIncomingMsg (wID wb) (uUserID u) body) (w\<lparr>seDB := d\<rparr>)
         in notify_wb to_id (uUserID u) body
           (if broker_is_online to_id (seBroker w) then snd (on_db (wbs_mark_read (wID wb) (seNow w2)) w2) else w2))
      else w\<lparr>seDB := d\<rparr>)"
    by (simp add: send_wb_def ins self_def broker_send_def broker_is_online_def Let_def cong: if_cong)
  with assms(2) have "r = Inr wb
    \<and> wbs (seDB w') = wbs (seDB w)
        @ [if self \<or> seHasBroker w \<and> broker_is_online to_id (seBroker w) then mark_wb (seNow w) wb else wb]
    \<and> seSent w' = seSent w @ (if self \<or> \<not> seHasBroker w then []
        else map (\<lambda>s. (sProgram s, WBIncomingMsg (wID wb) (uUserID u) body)) (sessions_of (seBroker w) to_id))
    \<and> length (seEvents w') = length (seEvents w) + (if \<not> self \<and> seHasBroker w \<and> seHasNotify w then 1 else 0)"
    by (auto simp: mark d send_to_def notify_wb_def notify_dispatch_def broker_send_def broker_is_online_def Let_def)
  with True wb show ?thesis unfolding self_def by auto
next
  case False
  then show ?thesis using assms(2) wbs_insert_fk by (auto simp: send_wb_def on_db_def)
qed

lemma send_wb_effects_witness:
  "\<exists>wb. fst (send_wb (demo_user 1 ''alice'') 2 ''hello'' demo_state) = Inr wb
    \<and> wbs (seDB (snd (send_wb (demo_user 1 ''alice'') 2 ''hello'' demo_state))) = wbs demo_db @ [wb]"
proof -
  have ok: "wbs_ok (seDB demo_state)" by (simp add: demo_wbs_ok)
  have "uID (demo_user 1 ''alice'') \<in> user_ids (seDB demo_state) \<and> 2 \<in> user_ids (seDB demo_state)"
    "\<not> broker_is_online 2 (seBroker demo_state)" "2 \<noteq> uID (demo_user 1 ''alice'')"
    by (simp_all add: user_ids_def demo_user_def demo_state_def broker_is_online_def sessions_of_def new_broker_def)
  with send_wb_effects [OF ok prod.collapse [symmetric], of "demo_user 1 ''alice''" 2 "''hello''"]
  show ?thesis by (auto simp only: demo_state_sel if_True if_False simp_thms)
qed

end
