(* ===== verification/Hub.thy ===== *)
theory Hub
  imports Broker
begin

text \<open>
  The broker among running programs (\<open>chat/broker.go\<close>). A program handles one message at a time; it takes
  the next one from an unbuffered channel, so \<open>Program.Send\<close> waits until the receiving program is between
  two updates. \<open>Send\<close> and \<open>SendToAll\<close> hand their messages over while they hold the read lock, and a
  pending \<open>Register\<close> or \<open>Unregister\<close> keeps new readers out, as \<open>sync.RWMutex\<close> does. Programs
  that end are left out: a program that ends releases those who wait for it.
\<close>

section \<open>Programs, requests and steps\<close>

datatype request = ToUser int | ToOthers int | ReadOnly

definition recipients :: "request \<Rightarrow> broker \<Rightarrow> nat list" where
  "recipients rq b =
    (case rq of
       ToUser uid \<Rightarrow> map fst (snd (broker_send uid () b))
     | ToOthers uid \<Rightarrow> map fst (broker_send_to_all uid () b)
     | ReadOnly \<Rightarrow> [])"

text \<open>
  A program is between two updates, or in an update that waits for the read lock, or in one that holds the
  read lock and has still to hand a message to the listed programs.
\<close>

datatype phase = Idle | Blocked request | Sending "nat list"

type_synonym writer = "session + int \<times> nat"

definition run_writer :: "writer \<Rightarrow> broker \<Rightarrow> broker" where
  "run_writer x b = (case x of Inl s \<Rightarrow> broker_register s b | Inr (u, p) \<Rightarrow> broker_unregister u p b)"

record hub =
  hbBroker :: broker
  hbPhase :: "nat \<Rightarrow> phase"
  hbWriter :: "writer option"

definition set_phase :: "nat \<Rightarrow> phase \<Rightarrow> hub \<Rightarrow> hub" where
  "set_phase p x h = h\<lparr>hbPhase := (hbPhase h)(p := x)\<rparr>"

text \<open>The steps inside a \<open>Send\<close> that has the lock: handing over one message, and returning.\<close>

inductive drain_step :: "hub \<Rightarrow> hub \<Rightarrow> bool" where
  hand_over: "hbPhase h p = Sending (q # ts) \<Longrightarrow> hbPhase h q = Idle \<Longrightarrow> drain_step h (set_phase p (Sending ts) h)"
| return: "hbPhase h p = Sending [] \<Longrightarrow> drain_step h (set_phase p Idle h)"

definition grant :: "broker \<Rightarrow> phase \<Rightarrow> phase" where
  "grant b x = (case x of Blocked rq \<Rightarrow> Sending (recipients rq b) | _ \<Rightarrow> x)"

inductive hub_step :: "hub \<Rightarrow> hub \<Rightarrow> bool" where
  drain: "drain_step h h' \<Longrightarrow> hub_step h h'"
| read: "hbPhase h p = Idle \<Longrightarrow> hbWriter h = None \<Longrightarrow> hub_step h (set_phase p (Sending (recipients rq (hbBroker h))) h)"
| wait: "hbPhase h p = Idle \<Longrightarrow> hbWriter h = Some x \<Longrightarrow> hub_step h (set_phase p (Blocked rq) h)"
| announce: "hbWriter h = None \<Longrightarrow> hub_step h (h\<lparr>hbWriter := Some x\<rparr>)"
| enter: "hbWriter h = Some x \<Longrightarrow> \<forall>p ts. hbPhase h p \<noteq> Sending ts \<Longrightarrow>
    hub_step h (h\<lparr>hbBroker := run_writer x (hbBroker h), hbWriter := None,
      hbPhase := grant (run_writer x (hbBroker h)) \<circ> hbPhase h\<rparr>)"

inductive hub_run :: "hub \<Rightarrow> hub \<Rightarrow> bool" where
  here: "hub_run h h"
| further: "hub_run h h' \<Longrightarrow> hub_step h' h'' \<Longrightarrow> hub_run h h''"

inductive_cases drain_stepE: "drain_step h h'"
inductive_cases hub_stepE: "hub_step h h'"

lemma set_phase_sel [simp]:
  "hbPhase (set_phase p x h) = (hbPhase h)(p := x)" "hbBroker (set_phase p x h) = hbBroker h"
  "hbWriter (set_phase p x h) = hbWriter h"
  by (simp_all add: set_phase_def)

section \<open>Sends that complete\<close>

definition waits :: "hub \<Rightarrow> (nat \<times> nat) set" where
  "waits h = {(p, q). \<exists>ts. hbPhase h p = Sending ts \<and> q \<in> set ts}"

definition senders :: "hub \<Rightarrow> nat set" where
  "senders h = {p. \<exists>ts. hbPhase h p = Sending ts}"

definition phase_work :: "phase \<Rightarrow> nat" where
  "phase_work x = (case x of Sending ts \<Rightarrow> Suc (length ts) | _ \<Rightarrow> 0)"

definition work :: "hub \<Rightarrow> nat" where
  "work h = (\<Sum>p \<in> senders h. phase_work (hbPhase h p))"

text \<open>Nobody waits for itself, not even through others, and no recipient waits for the lock.\<close>

definition flowing :: "hub \<Rightarrow> bool" where
  "flowing h \<longleftrightarrow> finite (senders h) \<and> acyclic (waits h)
    \<and> (\<forall>p q. (p, q) \<in> waits h \<longrightarrow> (\<forall>rq. hbPhase h q \<noteq> Blocked rq))"

lemma work_set_phase:
  assumes "finite (senders h)" and "p \<in> senders h"
  shows "work (set_phase p x h) + phase_work (hbPhase h p) = work h + phase_work x"
proof -
  have other: "(\<Sum>q \<in> senders h - {p}. phase_work (hbPhase (set_phase p x h) q)) = (\<Sum>q \<in> senders h - {p}. phase_work (hbPhase h q))"
    by (rule sum.cong) auto
  have h: "work h = phase_work (hbPhase h p) + (\<Sum>q \<in> senders h - {p}. phase_work (hbPhase h q))"
    using assms by (simp add: work_def sum.remove)
  have "senders (set_phase p x h) = (if \<exists>ts. x = Sending ts then senders h else senders h - {p})"
    using assms(2) by (auto simp: senders_def)
  then have "work (set_phase p x h) = phase_work x + (\<Sum>q \<in> senders h - {p}. phase_work (hbPhase h q))"
    using assms other by (auto simp: work_def sum.remove phase_work_def split: phase.splits)
  with h show ?thesis by simp
qed

lemma drain_work: "drain_step h h' \<Longrightarrow> finite (senders h) \<Longrightarrow> work h = Suc (work h')"
proof (erule drain_stepE)
  show "work h = Suc (work h')" if "finite (senders h)" "h' = set_phase p (Sending ts) h" "hbPhase h p = Sending (q # ts)" for p q ts
    using that work_set_phase [of h p "Sending ts"] by (simp add: senders_def phase_work_def)
  show "work h = Suc (work h')" if "finite (senders h)" "h' = set_phase p Idle h" "hbPhase h p = Sending []" for p
    using that work_set_phase [of h p Idle] by (simp add: senders_def phase_work_def)
qed

lemma drain_flowing: "drain_step h h' \<Longrightarrow> flowing h \<Longrightarrow> flowing h'"
proof (erule drain_stepE)
  show "flowing h'" if "flowing h" "h' = set_phase p (Sending ts) h" "hbPhase h p = Sending (q # ts)" "hbPhase h q = Idle" for p q ts
  proof -
    have "waits h' \<subseteq> waits h" "senders h' = senders h" using that by (auto simp: waits_def senders_def split: if_splits)
    moreover have "hbPhase h' r = Blocked rq \<Longrightarrow> hbPhase h r = Blocked rq" for r rq using that by (auto split: if_splits)
    ultimately show ?thesis using that(1) unfolding flowing_def by (metis acyclic_subset subsetD)
  qed
  show "flowing h'" if "flowing h" "h' = set_phase p Idle h" "hbPhase h p = Sending []" for p
  proof -
    have "waits h' \<subseteq> waits h" "senders h' \<subseteq> senders h" using that by (auto simp: waits_def senders_def split: if_splits)
    moreover have "hbPhase h' r = Blocked rq \<Longrightarrow> hbPhase h r = Blocked rq" for r rq using that by (auto split: if_splits)
    ultimately show ?thesis using that(1) unfolding flowing_def by (metis acyclic_subset finite_subset subsetD)
  qed
qed

text \<open>Among senders that wait in no circle one waits for no sender, and that one can go on.\<close>

lemma drain_progress:
  assumes "flowing h" and "senders h \<noteq> {}"
  shows "\<exists>h'. drain_step h h'"
proof -
  have "waits h \<inter> senders h \<times> senders h \<subseteq> waits h" by blast
  with assms(1) have "acyclic (waits h \<inter> senders h \<times> senders h)" unfolding flowing_def by (metis acyclic_subset)
  moreover have "finite (waits h \<inter> senders h \<times> senders h)" using assms(1) by (simp add: flowing_def)
  ultimately have "wf ((waits h \<inter> senders h \<times> senders h)\<inverse>)" by (intro finite_acyclic_wf_converse)
  with assms(2) obtain p where "p \<in> senders h" "\<And>q. (q, p) \<in> (waits h \<inter> senders h \<times> senders h)\<inverse> \<Longrightarrow> q \<notin> senders h"
    by (metis ex_in_conv wfE_min)
  then have p: "p \<in> senders h" "\<And>q. (p, q) \<in> waits h \<Longrightarrow> q \<notin> senders h" by blast+
  then obtain ts where ts: "hbPhase h p = Sending ts" by (auto simp: senders_def)
  show ?thesis
  proof (cases ts)
    case Nil
    with ts show ?thesis by (blast intro: drain_step.return)
  next
    case (Cons q us)
    with ts have "(p, q) \<in> waits h" by (simp add: waits_def)
    with p(2) assms(1) have "hbPhase h q = Idle" by (cases "hbPhase h q") (auto simp: flowing_def senders_def)
    with ts Cons show ?thesis by (blast intro: drain_step.hand_over)
  qed
qed

lemma work_zero: "finite (senders h) \<Longrightarrow> work h = 0 \<longleftrightarrow> senders h = {}"
  by (auto simp: work_def sum_eq_0_iff senders_def phase_work_def)

text \<open>C15: when the programs that hold the read lock wait for each other in no circle and for none that
  itself waits for the lock, the sends under way complete, whatever the order of the hand-overs, as long as no program
  starts another update that uses the broker: each hand-over or return is one
  of a fixed number of steps, as long as steps are left some program can make one, and when they are used
  up nobody is sending any more. Updates that begin in between can lead to the deadlocks below.\<close>

theorem sends_complete:
  assumes "flowing h" and "(drain_step ^^ n) h h'"
  shows "work h = n + work h' \<and> (if n < work h then \<exists>h''. drain_step h' h'' else senders h' = {})"
proof -
  from assms(2) have run: "flowing h' \<and> work h = n + work h'"
  proof (induction n arbitrary: h')
    case (Suc n)
    then obtain g where g: "(drain_step ^^ n) h g" "drain_step g h'" by auto
    then have "flowing g" "work h = n + work g" using Suc.IH by auto
    with g(2) show ?case using drain_flowing drain_work unfolding flowing_def by fastforce
  qed (use assms(1) in simp)
  then have "finite (senders h')" by (simp add: flowing_def)
  with run drain_progress [of h'] work_zero [of h'] show ?thesis by auto
qed

definition demo_hub :: hub where
  "demo_hub = \<lparr>hbBroker = [(1, [\<lparr>sUserID = 1, sUserIDStr = ''alice'', sProgram = 11\<rparr>]), (2, [\<lparr>sUserID = 2, sUserIDStr = ''bob'', sProgram = 22\<rparr>])],
     hbPhase = (\<lambda>_. Idle), hbWriter = None\<rparr>"

lemma demo_hub_sel [simp]:
  "hbPhase demo_hub = (\<lambda>_. Idle)" "hbWriter demo_hub = None"
  "sessions_of (hbBroker demo_hub) 1 = [\<lparr>sUserID = 1, sUserIDStr = ''alice'', sProgram = 11\<rparr>]"
  "sessions_of (hbBroker demo_hub) 2 = [\<lparr>sUserID = 2, sUserIDStr = ''bob'', sProgram = 22\<rparr>]"
  by (simp_all add: demo_hub_def sessions_of_def)

lemma sends_complete_witness:
  "work (set_phase 11 (Sending [22]) demo_hub) = 2 \<and> (\<exists>h. drain_step (set_phase 11 (Sending [22]) demo_hub) h)"
proof -
  let ?h = "set_phase 11 (Sending [22]) demo_hub"
  have s: "senders ?h = {11}" and w: "waits ?h = {(11, 22)}"
    by (auto simp: senders_def waits_def split: if_splits)
  then have "flowing ?h" by (simp add: flowing_def acyclic_def trancl_insert)
  moreover have "work ?h = 2" using s by (simp add: work_def phase_work_def)
  ultimately show ?thesis using sends_complete [of ?h 0 ?h] by simp
qed

section \<open>Sends that never return\<close>

text \<open>A set of programs each of which waits for one of them, or for a writer that one of them keeps out.\<close>

definition held :: "nat set \<Rightarrow> bool \<Rightarrow> phase \<Rightarrow> bool" where
  "held P pending x =
    (case x of Idle \<Rightarrow> False | Blocked _ \<Rightarrow> pending | Sending ts \<Rightarrow> ts \<noteq> [] \<and> hd ts \<in> P)"

definition stuck :: "nat set \<Rightarrow> hub \<Rightarrow> bool" where
  "stuck P h \<longleftrightarrow> (\<forall>p \<in> P. held P (hbWriter h \<noteq> None) (hbPhase h p)) \<and> (\<exists>p \<in> P. \<exists>ts. hbPhase h p = Sending ts)"

definition same_on :: "nat set \<Rightarrow> hub \<Rightarrow> hub \<Rightarrow> bool" where
  "same_on P h h' \<longleftrightarrow> (\<forall>p \<in> P. hbPhase h' p = hbPhase h p) \<and> hbBroker h' = hbBroker h"

lemma stuck_held: "stuck P h \<Longrightarrow> p \<in> P \<Longrightarrow> held P (hbWriter h \<noteq> None) (hbPhase h p)"
  by (simp add: stuck_def)

lemma held_simps [simp]:
  "\<not> held P b Idle" "held P b (Blocked rq) = b" "\<not> held P b (Sending [])" "held P b (Sending (q # ts)) \<longleftrightarrow> q \<in> P"
  by (simp_all add: held_def)

lemma held_pending: "held P b x \<Longrightarrow> b \<longrightarrow> b' \<Longrightarrow> held P b' x"
  by (cases x) (auto simp: held_def)

lemma stuck_same:
  assumes "stuck P h" and "same_on P h h'" and "hbWriter h \<noteq> None \<longrightarrow> hbWriter h' \<noteq> None"
  shows "stuck P h'"
proof -
  have "held P (hbWriter h' \<noteq> None) (hbPhase h' p)" if "p \<in> P" for p
    using held_pending [OF stuck_held [OF assms(1) that] assms(3)] assms(2) that by (simp add: same_on_def)
  moreover obtain p ts where "p \<in> P" "hbPhase h p = Sending ts" using assms(1) unfolding stuck_def by blast
  moreover from this(1) have "hbPhase h' p = hbPhase h p" using assms(2) by (simp add: same_on_def)
  ultimately show ?thesis unfolding stuck_def by metis
qed

lemma stuck_elsewhere:
  assumes "stuck P h" and "p \<notin> P"
  shows "stuck P (set_phase p x h) \<and> same_on P h (set_phase p x h)"
proof -
  have "same_on P h (set_phase p x h)" using assms(2) by (auto simp: same_on_def)
  with stuck_same [OF assms(1) this] show ?thesis by simp
qed

lemma stuck_step: "hub_step h h' \<Longrightarrow> stuck P h \<Longrightarrow> stuck P h' \<and> same_on P h h'"
proof (erule hub_stepE)
  assume st: "stuck P h"
  show "stuck P h' \<and> same_on P h h'" if "drain_step h h'"
    using that
  proof (rule drain_stepE)
    fix p q ts assume a: "h' = set_phase p (Sending ts) h" "hbPhase h p = Sending (q # ts)" "hbPhase h q = Idle"
    then have "p \<notin> P" using stuck_held [OF st, of q] stuck_held [OF st, of p] by auto
    with a(1) st stuck_elsewhere show ?thesis by simp
  next
    fix p assume a: "h' = set_phase p Idle h" "hbPhase h p = Sending []"
    then have "p \<notin> P" using stuck_held [OF st, of p] by auto
    with a(1) st stuck_elsewhere show ?thesis by simp
  qed
  have idle: "stuck P h' \<and> same_on P h h'" if "h' = set_phase p x h" "hbPhase h p = Idle" for p x
    using that stuck_held [OF st, of p] stuck_elsewhere [OF st, of p] by auto
  show "stuck P h' \<and> same_on P h h'" if "h' = set_phase p (Sending (recipients rq (hbBroker h))) h" "hbPhase h p = Idle" for p rq
    using that by (rule idle)
  show "stuck P h' \<and> same_on P h h'" if "h' = set_phase p (Blocked rq) h" "hbPhase h p = Idle" for p rq
    using that by (rule idle)
  show "stuck P h' \<and> same_on P h h'" if "h' = h\<lparr>hbWriter := Some x\<rparr>" for x
    using st stuck_same [OF st, of h'] that by (simp add: same_on_def)
  show "stuck P h' \<and> same_on P h h'" if "\<forall>p ts. hbPhase h p \<noteq> Sending ts"
    using st that by (auto simp: stuck_def)
qed

lemma stuck_run: "hub_run h h' \<Longrightarrow> stuck P h \<Longrightarrow> stuck P h' \<and> same_on P h h'"
  by (induction rule: hub_run.induct) (auto simp: same_on_def dest!: stuck_step)

lemma run_two: "hub_step h h1 \<Longrightarrow> hub_step h1 h2 \<Longrightarrow> hub_run h h2"
  by (blast intro: hub_run.intros)

text \<open>C16: two sessions that send to each other at the same time never leave their updates again; and neither
  do a sender and its recipient when a third session announces itself while the message is on its way and
  the recipient asks the broker for anything at all. From then on nobody can join or leave.\<close>

theorem broker_deadlock:
  assumes "hbPhase h = (\<lambda>_. Idle)" and "hbWriter h = None"
    and "sessions_of (hbBroker h) a = [s]" and "sessions_of (hbBroker h) b = [t]" and "sProgram s \<noteq> sProgram t"
  shows "(\<exists>h1. hub_run h h1 \<and> (\<forall>h2. hub_run h1 h2 \<longrightarrow> hbPhase h2 (sProgram s) = Sending [sProgram t]
          \<and> hbPhase h2 (sProgram t) = Sending [sProgram s] \<and> hbBroker h2 = hbBroker h))
    \<and> (\<exists>h1. hub_run h h1 \<and> (\<forall>h2. hub_run h1 h2 \<longrightarrow> hbPhase h2 (sProgram s) = Sending [sProgram t]
          \<and> hbPhase h2 (sProgram t) = Blocked rq \<and> hbBroker h2 = hbBroker h))"
proof -
  let ?p = "sProgram s" and ?q = "sProgram t"
  let ?h1 = "set_phase ?p (Sending [?q]) h"
  have to: "recipients (ToUser b) (hbBroker h) = [?q]" "recipients (ToUser a) (hbBroker h) = [?p]"
    using assms(3,4) by (simp_all add: recipients_def broker_send_def)
  have h1: "hub_step h ?h1" using hub_step.read [of h ?p "ToUser b"] assms(1,2) to by simp
  let ?h2 = "set_phase ?q (Sending [?p]) ?h1"
  have "hub_step ?h1 ?h2" using hub_step.read [of ?h1 ?q "ToUser a"] assms(1,2,5) to by simp
  with h1 have run2: "hub_run h ?h2" by (rule run_two)
  have stuck2: "stuck {?p, ?q} ?h2" using assms(5) by (simp add: stuck_def)
  let ?h4 = "\<lambda>x. set_phase ?q (Blocked rq) (?h1\<lparr>hbWriter := Some x\<rparr>)"
  fix x :: writer
  have "hub_run h (?h1\<lparr>hbWriter := Some x\<rparr>)" using run_two [OF h1 hub_step.announce [of ?h1 x]] assms(2) by simp
  moreover have "hub_step (?h1\<lparr>hbWriter := Some x\<rparr>) (?h4 x)"
    using hub_step.wait [of "?h1\<lparr>hbWriter := Some x\<rparr>" ?q x rq] assms(1,5) by simp
  ultimately have run4: "hub_run h (?h4 x)" by (rule hub_run.further)
  have stuck4: "stuck {?p, ?q} (?h4 x)" using assms(5) by (simp add: stuck_def)
  show ?thesis
    using run2 stuck_run [OF _ stuck2] run4 stuck_run [OF _ stuck4] assms(5)
    by (intro conjI exI [of _ ?h2] exI [of _ "?h4 x"] allI impI) (auto simp: same_on_def)
qed

lemma broker_deadlock_witness:
  "\<exists>h1. hub_run demo_hub h1 \<and> (\<forall>h2. hub_run h1 h2 \<longrightarrow> hbPhase h2 11 = Sending [22])"
  using broker_deadlock [of demo_hub 1 _ 2] by fastforce

end
