(* ===== verification/HalfMail.thy ===== *)
theory HalfMail
  imports StoreProps
begin

text \<open>
  \<open>Insert\<close> of \<open>mail.go\<close> is the only write of \<open>internal/store\<close> that changes the database twice: the row of a root mail is
  inserted without a thread, and a second statement fills it in. The other writes change the database once, in one statement or in
  a transaction (\<open>pushes.go\<close>, \<open>migrate.go\<close>). Here the process may be killed, or the second statement fail, between the two.
\<close>

section \<open>Simulations\<close>

text \<open>Every step of one system is matched by steps of another on the abstraction of its states.\<close>

locale simulation =
  fixes concrete :: "'s \<Rightarrow> 's \<Rightarrow> bool" and abstract :: "'a \<Rightarrow> 'a \<Rightarrow> bool" and view :: "'s \<Rightarrow> 'a"
  assumes matched: "concrete s t \<Longrightarrow> abstract\<^sup>*\<^sup>* (view s) (view t)"
begin

lemma run_matched: "concrete\<^sup>*\<^sup>* s t \<Longrightarrow> abstract\<^sup>*\<^sup>* (view s) (view t)"
  by (induction rule: rtranclp_induct) (auto dest: matched)

lemma kept_along:
  assumes "concrete\<^sup>*\<^sup>* s t" and "P (view s)" and "\<And>a b. abstract a b \<Longrightarrow> P a \<Longrightarrow> P b"
  shows "P (view t)"
  using run_matched [OF assms(1)] by (induction rule: rtranclp_induct) (auto intro: assms)

end

section \<open>The other tables do not depend on mail\<close>

definition without_mail :: "db \<Rightarrow> db" where
  "without_mail d = d\<lparr>mails := [], seq_mails := 0\<rparr>"

lemma without_mail_sel [simp]:
  "users (without_mail d) = users d" "seq_users (without_mail d) = seq_users d" "boards (without_mail d) = boards d"
  "seq_boards (without_mail d) = seq_boards d" "articles (without_mail d) = articles d" "seq_articles (without_mail d) = seq_articles d"
  "pushes (without_mail d) = pushes d" "seq_pushes (without_mail d) = seq_pushes d" "wbs (without_mail d) = wbs d"
  "seq_wbs (without_mail d) = seq_wbs d" "prefs (without_mail d) = prefs d" "targets (without_mail d) = targets d"
  "seq_targets (without_mail d) = seq_targets d" "mails (without_mail d) = []" "seq_mails (without_mail d) = 0"
  "user_ids (without_mail d) = user_ids d" "board_ids (without_mail d) = board_ids d" "article_ids (without_mail d) = article_ids d"
  by (simp_all add: without_mail_def id_set_defs)

lemma db_inv_without_mail: "db_inv d \<Longrightarrow> db_inv (without_mail d)"
  by (rule db_inv_mails [of d]) (simp_all add: without_mail_def mails_ok_def)

lemma without_mail_users:
  "snd (users_create name hash nick email now (without_mail d)) = without_mail (snd (users_create name hash nick email now d))"
  "snd (users_insert_system_account name hash r must now (without_mail d)) =
     without_mail (snd (users_insert_system_account name hash r must now d))"
  "snd (users_note_login i host now (without_mail d)) = without_mail (snd (users_note_login i host now d))"
  "snd (users_increment_posts i (without_mail d)) = without_mail (snd (users_increment_posts i d))"
  "snd (users_set_password i hash (without_mail d)) = without_mail (snd (users_set_password i hash d))"
  "snd (users_set_locale i loc (without_mail d)) = without_mail (snd (users_set_locale i loc d))"
  "snd (users_set_bio i bio (without_mail d)) = without_mail (snd (users_set_bio i bio d))"
  "snd (users_set_role i r (without_mail d)) = without_mail (snd (users_set_role i r d))"
  by (simp_all add: user_insert_defs user_write_defs user_name_taken_def ins_user_def Let_def without_mail_def)

lemma without_mail_boards:
  "snd (boards_seed_defaults now (without_mail d)) = without_mail (snd (boards_seed_defaults now d))"
  "snd (boards_update_banner i req r banner (without_mail d)) = without_mail (snd (boards_update_banner i req r banner d))"
proof -
  have one: "insert_or_ignore_board now row (without_mail d) = without_mail (insert_or_ignore_board now row d)" for row d
    by (cases row) (simp add: insert_or_ignore_board_def board_name_taken_def ins_board_def Let_def without_mail_def)
  have "fold (insert_or_ignore_board now) rows (without_mail d) = without_mail (fold (insert_or_ignore_board now) rows d)" for rows
    by (induction rows arbitrary: d) (simp_all add: one)
  then show "snd (boards_seed_defaults now (without_mail d)) = without_mail (snd (boards_seed_defaults now d))"
    by (simp add: boards_seed_defaults_def)
  show "snd (boards_update_banner i req r banner (without_mail d)) = without_mail (snd (boards_update_banner i req r banner d))"
    by (simp add: boards_update_banner_def without_mail_def split: option.split)
qed

lemma without_mail_articles:
  "snd (articles_create b u n t s now (without_mail d)) = without_mail (snd (articles_create b u n t s now d))"
  "snd (articles_delete i u r (without_mail d)) = without_mail (snd (articles_delete i u r d))"
  "snd (article_repo_update i u r t s now (without_mail d)) = without_mail (snd (article_repo_update i u r t s now d))"
  "snd (articles_set_pinned i u r pin now (without_mail d)) = without_mail (snd (articles_set_pinned i u r pin now d))"
  "snd (articles_set_comments_mode i u r m (without_mail d)) = without_mail (snd (articles_set_comments_mode i u r m d))"
  by (simp_all add: articles_create_def articles_delete_def article_repo_update_def articles_set_pinned_def
      articles_set_comments_mode_def ins_article_def Let_def without_mail_def id_set_defs split: option.split)

lemma without_mail_pushes:
  "snd (pushes_create a u n k s now (without_mail d)) = without_mail (snd (pushes_create a u n k s now d))"
  "snd (pushes_delete i u r (without_mail d)) = without_mail (snd (pushes_delete i u r d))"
  by (simp_all add: pushes_create_def pushes_delete_def ins_push_def add_score_def Let_def without_mail_def id_set_defs
      split: option.split sum.split)

lemma without_mail_wbs:
  "snd (wbs_insert f n t s l now (without_mail d)) = without_mail (snd (wbs_insert f n t s l now d))"
  "snd (wbs_mark_read i now (without_mail d)) = without_mail (snd (wbs_mark_read i now d))"
  "snd (wbs_mark_all_read_for t now (without_mail d)) = without_mail (snd (wbs_mark_all_read_for t now d))"
  "snd (wbs_mark_conversation_read v c now (without_mail d)) = without_mail (snd (wbs_mark_conversation_read v c now d))"
  by (simp_all add: wbs_insert_def wb_mark_defs ins_wb_def Let_def without_mail_def id_set_defs)

lemma without_mail_notify:
  "snd (notify_set_prefs i p (without_mail d)) = without_mail (snd (notify_set_prefs i p d))"
  "snd (notify_add_target i l url now (without_mail d)) = without_mail (snd (notify_add_target i l url now d))"
  "snd (notify_update_target i r l url e (without_mail d)) = without_mail (snd (notify_update_target i r l url e d))"
  "snd (notify_set_target_enabled i r e (without_mail d)) = without_mail (snd (notify_set_target_enabled i r e d))"
  "snd (notify_delete_target i r (without_mail d)) = without_mail (snd (notify_delete_target i r d))"
  by (simp_all add: notify_set_prefs_def notify_add_target_def target_write_defs ins_target_def Let_def without_mail_def id_set_defs
      split: sum.split)

lemma without_mail_mails:
  "without_mail (snd (mails_insert f n t subj s parent now d)) = without_mail d"
  "without_mail (snd (mails_mark_read i now d)) = without_mail d"
  "without_mail (snd (mails_mark_all_read_for t now d)) = without_mail d"
  by (simp_all add: mails_insert_def mail_insert_row_def ins_mail_def mail_backfill_def mails_mark_read_def mails_mark_all_read_for_def
      Let_def without_mail_def split: sum.split)

lemmas without_mail_writes = without_mail_users without_mail_boards without_mail_articles without_mail_pushes without_mail_wbs
  without_mail_notify

interpretation apart: simulation db_step db_step without_mail
proof
  show "db_step\<^sup>*\<^sup>* (without_mail d) (without_mail d')" if "db_step d d'" for d d'
    using that by cases (simp_all add: without_mail_mails without_mail_writes [symmetric] db_step.intros r_into_rtranclp)
qed

section \<open>What a write does to mail\<close>

lemma seed_boards_mails [simp]:
  "mails (snd (boards_seed_defaults now d)) = mails d \<and> seq_mails (snd (boards_seed_defaults now d)) = seq_mails d
    \<and> users (snd (boards_seed_defaults now d)) = users d"
  using fold_boards_shape [of now default_boards d] by (auto simp: boards_seed_defaults_def)

text \<open>What a write to another table leaves alone.\<close>

definition mail_frame :: "db \<Rightarrow> db \<Rightarrow> bool" where
  "mail_frame d d' \<longleftrightarrow> mails d' = mails d \<and> seq_mails d' = seq_mails d \<and> user_ids d \<subseteq> user_ids d'"

lemma mail_frame_self [simp]: "mail_frame d d"
  by (simp add: mail_frame_def)

lemma mail_frame_writes [frame_simps]:
  "mail_frame d (snd (users_create name hash nick email now d))" "mail_frame d (snd (users_insert_system_account name hash r must now d))"
  "mail_frame d (snd (users_note_login i host now d))" "mail_frame d (snd (users_increment_posts i d))"
  "mail_frame d (snd (users_set_password i hash d))" "mail_frame d (snd (users_set_locale i loc d))"
  "mail_frame d (snd (users_set_bio i bio d))" "mail_frame d (snd (users_set_role i r d))"
  "mail_frame d (snd (boards_seed_defaults now d))" "mail_frame d (snd (boards_update_banner i req r banner d))"
  "mail_frame d (snd (articles_create b u n t s now d))" "mail_frame d (snd (articles_delete i u r d))"
  "mail_frame d (snd (article_repo_update i u r t s now d))" "mail_frame d (snd (articles_set_pinned i u r pin now d))"
  "mail_frame d (snd (articles_set_comments_mode i u r m d))"
  by (auto simp: user_insert_defs user_write_defs boards_update_banner_def articles_create_def articles_delete_def article_repo_update_def
      articles_set_pinned_def articles_set_comments_mode_def ins_user_def ins_article_def Let_def mail_frame_def user_ids_def
      image_rid_update split: option.split)

lemma mail_frame_messages [frame_simps]:
  "mail_frame d (snd (pushes_create a u n k s now d))" "mail_frame d (snd (pushes_delete i u r d))"
  "mail_frame d (snd (wbs_insert f n t s l now d))" "mail_frame d (snd (wbs_mark_read i now d))"
  "mail_frame d (snd (wbs_mark_all_read_for t now d))" "mail_frame d (snd (wbs_mark_conversation_read v c now d))"
  "mail_frame d (snd (notify_set_prefs i p d))" "mail_frame d (snd (notify_add_target i label url now d))"
  "mail_frame d (snd (notify_update_target i req label url e d))" "mail_frame d (snd (notify_set_target_enabled i req e d))"
  "mail_frame d (snd (notify_delete_target i req d))"
  by (auto simp: pushes_create_def pushes_delete_def add_score_def ins_push_def wbs_insert_def wb_mark_defs ins_wb_def notify_set_prefs_def
      notify_add_target_def target_write_defs ins_target_def mail_frame_def user_ids_def split: option.split sum.split)

text \<open>A write leaves the mails alone, or sends one, or sets read marks.\<close>

definition mark_mails :: "(mail \<Rightarrow> bool) \<Rightarrow> timestamp \<Rightarrow> db \<Rightarrow> db" where
  "mark_mails P now d = d\<lparr>mails := update_rows P (\<lambda>m. m\<lparr>mReadAt := Some now\<rparr>) (mails d)\<rparr>"

lemma db_step_mails:
  assumes "db_step d d'"
  obtains (other) "mail_frame d d'"
  | (insert) f n t subj s parent now where "d' = snd (mails_insert f n t subj s parent now d)"
  | (mark) P now where "d' = mark_mails P now d"
  using assms
proof cases
  case (mail_insert f n t subj s parent now)
  then show thesis by (rule insert)
next
  case (mail_mark i now)
  then show thesis by (intro mark) (simp add: mails_mark_read_def mark_mails_def)
next
  case (mail_mark_all t now)
  then show thesis by (intro mark) (simp add: mails_mark_all_read_for_def mark_mails_def)
qed (rule other; simp add: frame_simps)+

section \<open>Half a mail\<close>

text \<open>Before, between and after the two statements of \<open>Insert\<close>, for a new thread or a reply to a mail that has none. At the second
  database the process can be killed, or the update can fail.\<close>

inductive half_insert :: "int \<Rightarrow> db \<Rightarrow> db \<Rightarrow> db \<Rightarrow> bool" where
  row_only: "mail_parent_thread parent d = Inr None \<Longrightarrow> mail_insert_row f n t subj s None parent now d = Inr (i, d1) \<Longrightarrow>
    half_insert i d d1 (mail_backfill i d1)"

inductive killed_step :: "db \<Rightarrow> db \<Rightarrow> bool" where
  whole: "db_step d d' \<Longrightarrow> killed_step d d'"
| half: "half_insert i d d1 d2 \<Longrightarrow> killed_step d d1"

definition db_killed :: "db \<Rightarrow> bool" where
  "db_killed d \<longleftrightarrow> killed_step\<^sup>*\<^sup>* empty_db d"

inductive_cases half_insertE: "half_insert i d d1 d2"
inductive_cases killed_stepE: "killed_step d d'"

text \<open>What is left of the thread invariant: a mail may be without a thread, or start one although it answers a mail.\<close>

definition mail_placed :: "mail list \<Rightarrow> mail \<Rightarrow> bool" where
  "mail_placed ms m \<longleftrightarrow>
    (mParentID m \<noteq> None \<longrightarrow> (\<exists>pm \<in> set ms. Some (mID pm) = mParentID m \<and> mID pm < mID m))
    \<and> (\<forall>th. mThreadCol m = Some th \<longrightarrow> th = mID m \<or> (\<exists>pm \<in> set ms. mID pm < mID m \<and> mThreadCol pm = Some th))"

definition mails_sound :: "db \<Rightarrow> bool" where
  "mails_sound d \<longleftrightarrow> table_ok mID (seq_mails d) (mails d)
     \<and> (\<forall>m \<in> set (mails d). mFromUserID m \<in> user_ids d \<and> mToUserID m \<in> user_ids d \<and> mail_placed (mails d) m)"

lemma mails_soundD: "mails_sound d \<Longrightarrow> table_ok mID (seq_mails d) (mails d)"
  by (simp add: mails_sound_def)

lemma mails_ok_sound: "mails_ok d \<Longrightarrow> mails_sound d"
  by (fastforce simp: mails_ok_def mails_sound_def mail_linked_def mail_placed_def split: option.splits)

lemma mails_sound_frame: "mail_frame d d' \<Longrightarrow> mails_sound d \<Longrightarrow> mails_sound d'"
  by (auto simp: mail_frame_def mails_sound_def)

lemma mails_sound_mark: "mails_sound d \<Longrightarrow> mails_sound (mark_mails P now d)"
proof -
  assume d: "mails_sound d"
  define g where "g = (\<lambda>m. if P m then m\<lparr>mReadAt := Some now\<rparr> else m)"
  have g: "mID (g m) = mID m" "mThreadCol (g m) = mThreadCol m" "mParentID (g m) = mParentID m"
    "mFromUserID (g m) = mFromUserID m" "mToUserID (g m) = mToUserID m" for m by (simp_all add: g_def)
  have ms: "mails (mark_mails P now d) = map g (mails d)" by (simp add: mark_mails_def update_rows_def g_def)
  have "table_ok mID (seq_mails d) (map g (mails d))"
    using d table_ok_update [of mID "seq_mails d" "mails d" "\<lambda>m. m\<lparr>mReadAt := Some now\<rparr>" P]
    by (simp add: mails_sound_def update_rows_def g_def)
  moreover have "mail_placed (map g (mails d)) (g m)" if "mail_placed (mails d) m" for m
    using that by (auto simp: mail_placed_def g)
  ultimately show ?thesis
    using d by (auto simp: mails_sound_def ms g) (auto simp: mark_mails_def user_ids_def)
qed

lemma mail_placed_mono: "mail_placed ms m \<Longrightarrow> set ms \<subseteq> set ms' \<Longrightarrow> mail_placed ms' m"
  by (fastforce simp: mail_placed_def)

lemma mails_sound_append:
  assumes "mails_sound d" and "mID m = seq_mails d + 1" and "mail_placed (mails d @ [m]) m"
    and "mFromUserID m \<in> user_ids d" and "mToUserID m \<in> user_ids d"
  shows "mails_sound (d\<lparr>mails := mails d @ [m], seq_mails := seq_mails d + 1\<rparr>)"
  using assms table_ok_append [of mID "seq_mails d" "mails d" m]
  by (auto simp: mails_sound_def user_ids_def intro: mail_placed_mono)

lemma parent_thread_found:
  assumes "mails_sound d" and "mail_parent_thread (Some p) d = Inr thread"
  obtains pm where "pm \<in> set (mails d)" "mID pm = p" "mID pm < seq_mails d + 1" "mThreadCol pm = thread"
proof -
  obtain pm where pm: "find_row mID p (mails d) = Some pm" "mThreadCol pm = thread"
    using assms(2) by (auto simp: mail_parent_thread_def split: option.splits)
  with find_row_Some [OF pm(1)] mails_soundD [OF assms(1)] that show thesis by (force simp: table_ok_def)
qed

lemma new_mail_placed:
  assumes "mails_sound d" and "mail_parent_thread parent d = Inr thread"
    and "mID m = seq_mails d + 1" and "mParentID m = parent" and "thread \<noteq> None \<longrightarrow> mThreadCol m = thread"
    and "thread = None \<longrightarrow> mThreadCol m \<in> {None, Some (mID m)}"
  shows "mail_placed (mails d @ [m]) m"
proof (cases parent)
  case None
  with assms show ?thesis by (auto simp: mail_placed_def mail_parent_thread_def)
next
  case (Some p)
  obtain pm where "pm \<in> set (mails d)" "mID pm = p" "mID pm < seq_mails d + 1" "mThreadCol pm = thread"
    using parent_thread_found [OF assms(1) assms(2) [unfolded Some]] .
  with Some assms show ?thesis by (cases thread) (auto simp: mail_placed_def)
qed

lemma mails_sound_insert: "mails_sound d \<Longrightarrow> mails_sound (snd (mails_insert f n t subj s parent now d))"
proof (cases rule: mails_insert_cases [of f n t subj s parent now d])
  case (ok thread)
  assume d: "mails_sound d"
  let ?m = "mail_row f n t subj s thread parent now d"
  have "mail_placed (mails d @ [?m]) ?m"
    using new_mail_placed [OF d ok(1), of ?m] by (simp add: mail_row_def Let_def split: option.split)
  with d ok show ?thesis
    by (simp add: mails_insert_table mails_soundD) (rule mails_sound_append; simp add: mail_row_def Let_def)
qed simp

lemma half_insert_row:
  assumes "half_insert i d d1 d2"
  obtains f n t subj s parent now where "i = seq_mails d + 1" "f \<in> user_ids d" "t \<in> user_ids d" "mail_parent_thread parent d = Inr None"
    "d1 = d\<lparr>mails := mails d @ [new_mail f n t subj s None parent now i], seq_mails := i\<rparr>"
    "d2 = snd (mails_insert f n t subj s parent now d)"
  using assms
proof (rule half_insertE)
  fix parent f n t subj s now
  assume *: "d2 = mail_backfill i d1" "mail_parent_thread parent d = Inr None"
    "mail_insert_row f n t subj s None parent now d = Inr (i, d1)"
  then have "d2 = snd (mails_insert f n t subj s parent now d)" by (simp add: mails_insert_def Let_def)
  with * show thesis
    by (intro that [of f t parent n subj s now]) (auto simp: mail_insert_row_def ins_mail_def Let_def split: if_splits)
qed

lemma half_insert_completes: "half_insert i d d1 d2 \<Longrightarrow> db_step d d2"
  by (elim half_insert_row) (simp add: db_step.mail_insert)

lemma half_insert_sound: "half_insert i d d1 d2 \<Longrightarrow> mails_sound d \<Longrightarrow> mails_sound d1"
  by (elim half_insert_row) (auto intro!: mails_sound_append new_mail_placed)

lemma half_insert_apart: "half_insert i d d1 d2 \<Longrightarrow> without_mail d1 = without_mail d"
  by (elim half_insert_row) (simp add: without_mail_def)

lemma db_step_sound: "db_step d d' \<Longrightarrow> mails_sound d \<Longrightarrow> mails_sound d'"
  by (elim db_step_mails) (auto intro: mails_sound_frame mails_sound_insert mails_sound_mark)

lemma killed_step_sound: "killed_step d d' \<Longrightarrow> mails_sound d \<Longrightarrow> mails_sound d'"
  by (elim killed_stepE) (auto intro: db_step_sound half_insert_sound)

interpretation torn: simulation killed_step db_step without_mail
  by unfold_locales (auto elim!: killed_stepE intro: apart.matched simp: half_insert_apart)

lemma killed_run_sound: "killed_step\<^sup>*\<^sup>* d d' \<Longrightarrow> mails_sound d \<Longrightarrow> mails_sound d'"
  by (induction rule: rtranclp_induct) (auto intro: killed_step_sound)

lemma db_killed_empty: "db_killed empty_db"
  by (simp add: db_killed_def)

lemma db_killed_step: "db_killed d \<Longrightarrow> killed_step d d' \<Longrightarrow> db_killed d'"
  by (auto simp: db_killed_def)

lemma db_killed_run: "db_killed d \<Longrightarrow> killed_step\<^sup>*\<^sup>* d d' \<Longrightarrow> db_killed d'"
  by (auto simp: db_killed_def)

lemma db_killed_reachable: "db_reachable d \<Longrightarrow> db_killed d"
  by (induction rule: db_reachable.induct) (auto intro: db_killed_empty db_killed_step killed_step.whole)

text \<open>After any number of kills the other tables are those of a database without any, and the mails are sound.\<close>

lemma db_killed_inv:
  assumes "db_killed d"
  shows "db_reachable (without_mail d)" "db_inv (without_mail d)" "mails_sound d"
proof -
  have run: "killed_step\<^sup>*\<^sup>* empty_db d" using assms by (simp add: db_killed_def)
  have "without_mail empty_db = empty_db" by (simp add: without_mail_def empty_db_def)
  then show "db_reachable (without_mail d)"
    using torn.kept_along [OF run, of db_reachable] by (simp add: db_reachable.start db_reachable.step)
  then show "db_inv (without_mail d)" by (rule db_reachable_inv)
  show "mails_sound d" using killed_run_sound [OF run] db_invD(7) [OF db_inv_empty] mails_ok_sound by blast
qed

section \<open>Half a mail stays\<close>

definition half_row :: "int \<Rightarrow> int \<Rightarrow> db \<Rightarrow> bool" where
  "half_row i t d \<longleftrightarrow> (\<exists>m \<in> set (mails d). mID m = i \<and> mToUserID m = t \<and> mThreadCol m = None)"

lemma half_row_grows: "half_row i t d \<Longrightarrow> set (mails d) \<subseteq> set (mails d') \<Longrightarrow> half_row i t d'"
  by (auto simp: half_row_def)

lemma half_row_insert: "mails_sound d \<Longrightarrow> half_row i t d \<Longrightarrow> half_row i t (snd (mails_insert f n u subj s parent now d))"
  by (cases rule: mails_insert_cases [of f n u subj s parent now d])
     (auto simp: mails_insert_table mails_soundD elim: half_row_grows)

lemma half_row_mark: "half_row i t d \<Longrightarrow> half_row i t (mark_mails P now d)"
proof -
  assume "half_row i t d"
  then obtain m where "m \<in> set (mails d)" "mID m = i" "mToUserID m = t" "mThreadCol m = None" by (auto simp: half_row_def)
  then show ?thesis
    unfolding half_row_def mark_mails_def
    by (intro bexI [of _ "if P m then m\<lparr>mReadAt := Some now\<rparr> else m"]) (auto simp: update_rows_def)
qed

lemma half_row_step:
  assumes "killed_step d d'" and "mails_sound d" and "half_row i t d"
  shows "half_row i t d'"
  using assms(1)
proof (rule killed_stepE)
  assume "db_step d d'"
  then show ?thesis
    using assms(3) by (elim db_step_mails) (auto intro: half_row_insert [OF assms(2)] half_row_mark elim: half_row_grows simp: mail_frame_def)
next
  fix j d2
  assume "half_insert j d d' d2"
  then show ?thesis using assms(3) by (elim half_insert_row) (auto elim: half_row_grows)
qed

lemma half_row_run: "killed_step\<^sup>*\<^sup>* d d' \<Longrightarrow> mails_sound d \<Longrightarrow> half_row i t d \<Longrightarrow> half_row i t d' \<and> mails_sound d'"
  by (induction rule: rtranclp_induct) (auto intro: half_row_step killed_step_sound)

text \<open>Reading such a mail, and every list it is on, fails.\<close>

lemma half_row_unreadable:
  assumes "mails_sound d" and "half_row i t d"
  shows "mails_get_by_id i d = Inl ScanNull"
proof -
  obtain m where m: "m \<in> set (mails d)" "mID m = i" "mThreadCol m = None" using assms(2) by (auto simp: half_row_def)
  have "distinct (map mID (mails d))" using mails_soundD [OF assms(1)] by (rule table_ok_distinct)
  then have "find_row mID i (mails d) = Some m" using m by (simp add: find_row_distinct)
  with m show ?thesis by (simp add: mails_get_by_id_def scan_mail_def)
qed

lemma half_row_blocks:
  assumes "half_row i t d" and "length (filter (\<lambda>m. mToUserID m = t) (mails d)) \<le> nat (if limit \<le> 0 then 50 else limit)"
  shows "mails_list_inbox_for t limit d = Inl ScanNull"
proof -
  let ?inbox = "sort_by mail_inbox_order (filter (\<lambda>m. mToUserID m = t) (mails d))"
  have "\<exists>m \<in> set ?inbox. mThreadCol m = None" using assms(1) by (auto simp: half_row_def)
  moreover have "take (nat (if limit \<le> 0 then 50 else limit)) ?inbox = ?inbox" using assms(2) by simp
  ultimately show ?thesis by (simp add: mails_list_inbox_for_def Let_def scan_mails_def)
qed

lemma whole_inbox_lists:
  "\<forall>m \<in> set (mails d). mToUserID m = u \<longrightarrow> mThreadCol m \<noteq> None \<Longrightarrow> ok_res (mails_list_inbox_for u limit d)"
  by (auto simp: mails_list_inbox_for_def Let_def scan_mails_def dest: in_set_takeD)

lemma thread_without_halves: "\<exists>ms. mails_list_thread th d = Inr ms \<and> (\<forall>m \<in> set ms. mThreadCol m = Some th)"
  by (auto simp: mails_list_thread_def scan_mails_def)

text \<open>C21: a mail is sent in two statements outside a transaction; when the process is killed between them, or the second fails, the row
  stays without a thread for ever: no later call of any repository, and no later kill, repairs it. The mail can never be read, it is in
  no thread, and as long as the recipient has no more mails than a listing takes, their inbox cannot be listed at all; the inbox of a
  user without such a mail lists as before, and every other table is that of a database that was never killed. The call
  itself, run to its end, is an ordinary write.\<close>

theorem half_mail_stays:
  assumes "db_killed d" and "half_insert i d d1 d2" and "killed_step\<^sup>*\<^sup>* d1 d'"
  shows "db_step d d2
    \<and> (\<exists>m \<in> set (mails d'). mID m = i \<and> mThreadCol m = None \<and> mails_get_by_id i d' = Inl ScanNull
        \<and> (\<forall>th. \<exists>ms. mails_list_thread th d' = Inr ms \<and> m \<notin> set ms)
        \<and> (length (filter (\<lambda>x. mToUserID x = mToUserID m) (mails d')) \<le> nat (if limit \<le> 0 then 50 else limit) \<longrightarrow>
             mails_list_inbox_for (mToUserID m) limit d' = Inl ScanNull))
    \<and> ((\<forall>m \<in> set (mails d'). mToUserID m = u \<longrightarrow> mThreadCol m \<noteq> None) \<longrightarrow> ok_res (mails_list_inbox_for u limit d'))
    \<and> db_reachable (without_mail d') \<and> db_inv (without_mail d')"
proof -
  have d1: "db_killed d1" using assms(1,2) by (auto intro: db_killed_step killed_step.half)
  obtain t where "half_row i t d1" using assms(2) by (elim half_insert_row) (auto simp: half_row_def)
  then have half: "half_row i t d'" "mails_sound d'" using half_row_run [OF assms(3) db_killed_inv(3) [OF d1]] by simp_all
  then obtain m where m: "m \<in> set (mails d')" "mID m = i" "mToUserID m = t" "mThreadCol m = None" by (auto simp: half_row_def)
  have "\<exists>ms. mails_list_thread th d' = Inr ms \<and> m \<notin> set ms" for th using thread_without_halves [of th d'] m(4) by force
  with m half_row_unreadable [OF half(2,1)] half_row_blocks [OF half(1), of limit] half_insert_completes [OF assms(2)]
    whole_inbox_lists [of d' u limit] db_killed_inv [OF db_killed_run [OF d1 assms(3)]]
  show ?thesis by blast
qed

text \<open>Alice writes to herself and the process is killed in between; after the next start she marks everything as read.\<close>

definition one_user :: db where
  "one_user = snd (users_create ''alice'' ''h'' [] [] demo_now empty_db)"

lemma one_user_reachable: "db_reachable one_user"
  unfolding one_user_def by (rule db_reachable.step [OF db_reachable.start db_step.user_create])

lemma half_mail_stays_witness:
  "\<exists>d1 d2. half_insert 1 one_user d1 d2
    \<and> mails_get_by_id 1 (snd (mails_mark_all_read_for 1 demo_now d1)) = Inl ScanNull
    \<and> mails_list_inbox_for 1 50 (snd (mails_mark_all_read_for 1 demo_now d1)) = Inl ScanNull"
proof -
  have alice: "1 \<in> user_ids one_user" and none: "mails one_user = []" "seq_mails one_user = 0"
    by (simp_all add: one_user_def users_create_def user_name_taken_def ins_user_def empty_db_def user_ids_def new_user_def)
  let ?m = "new_mail 1 ''alice'' 1 ''note'' ''x'' None None demo_now 1"
  let ?d1 = "one_user\<lparr>mails := [?m], seq_mails := 1\<rparr>"
  have half: "half_insert 1 one_user ?d1 (mail_backfill 1 ?d1)"
    by (rule half_insert.row_only [of None _ 1 "''alice''" 1 "''note''" "''x''" demo_now])
      (simp_all add: mail_parent_thread_def mail_insert_row_def alice none ins_mail_def)
  have run: "killed_step\<^sup>*\<^sup>* ?d1 (snd (mails_mark_all_read_for 1 demo_now ?d1))"
    by (rule r_into_rtranclp) (rule killed_step.whole [OF db_step.mail_mark_all])
  have "mails (snd (mails_mark_all_read_for 1 demo_now ?d1)) = [?m\<lparr>mReadAt := Some demo_now\<rparr>]"
    by (simp add: mails_mark_all_read_for_def update_rows_def mail_unread_def)
  with half_mail_stays [OF db_killed_reachable [OF one_user_reachable] half run, of 50 1] have
    "mails_get_by_id 1 (snd (mails_mark_all_read_for 1 demo_now ?d1)) = Inl ScanNull"
    "mails_list_inbox_for 1 50 (snd (mails_mark_all_read_for 1 demo_now ?d1)) = Inl ScanNull" by simp_all
  with half show ?thesis by blast
qed

end
