(* ===== verification/Seed.thy ===== *)
theory Seed
  imports AuthProps MarkdownRT HalfMail
begin

text \<open>
  Filling a fresh database at start-up and from the command line: \<open>internal/seed\<close>, the start-up part of
  \<open>cmd/sshbbs/main.go\<close> and \<open>cmd_import.go\<close>. The embedded file systems are lists of names and contents;
  logging is left out.
\<close>

section \<open>Articles\<close>

text \<open>
  One file, with the boards sampled so far. A file without board or title, or for an unknown board, is
  skipped; a board is sampled when the first file for it comes up.
\<close>

definition sample_board :: "int \<Rightarrow> (int \<rightharpoonup> bool) \<Rightarrow> db \<Rightarrow> bool" where
  "sample_board i seen d = (case seen i of Some e \<Rightarrow> e | None \<Rightarrow> articles_list_by_board i 1 d = [])"

definition seed_insert :: "user \<Rightarrow> timestamp \<Rightarrow> board \<Rightarrow> parsed \<Rightarrow> db \<Rightarrow> db" where
  "seed_insert admin now b p d =
    (case articles_create (bID b) (uID admin) (uUserID admin) (mdTitle p) (mdBody p) now d of
       (Inl _, d1) \<Rightarrow> d1
     | (Inr a, d1) \<Rightarrow>
         if mdPinned p then snd (articles_set_pinned (aID a) (uID admin) (uRole admin) True now d1) else d1)"

definition seed_file :: "user \<Rightarrow> timestamp \<Rightarrow> string \<Rightarrow> (int \<rightharpoonup> bool) \<times> db \<Rightarrow> (int \<rightharpoonup> bool) \<times> db" where
  "seed_file admin now body st =
    (let p = parse_markdown body; (seen, d) = st in
     if mdBoardName p = [] then (seen, d)
     else if mdTitle p = [] then (seen, d)
     else case boards_get_by_name (mdBoardName p) d of
       Inl _ \<Rightarrow> (seen, d)
     | Inr b \<Rightarrow>
         let empty = sample_board (bID b) seen d; seen1 = seen(bID b \<mapsto> empty)
         in if \<not> empty then (seen1, d) else (seen1, seed_insert admin now b p d))"

definition seed_entries :: "(string \<times> string) list \<Rightarrow> string list" where
  "seed_entries files =
    map snd (filter (\<lambda>(name, _). has_suffix name ''.md'') (sort_by (by_asc fst any_order) files))"

definition seed_articles :: "(string \<times> string) list \<Rightarrow> string \<Rightarrow> timestamp \<Rightarrow> db \<Rightarrow> unit res \<times> db" where
  "seed_articles files admin_user_id now d =
    (case users_get_by_user_id admin_user_id d of
       Inl e \<Rightarrow> (Inl e, d)
     | Inr admin \<Rightarrow> (Inr (), snd (fold (seed_file admin now) (seed_entries files) (Map.empty, d))))"

section \<open>Banners\<close>

definition defaultBannerFilename :: string where "defaultBannerFilename = ''default.txt''"

definition seed_banner :: "(string \<rightharpoonup> string) \<Rightarrow> user \<Rightarrow> board \<Rightarrow> db \<Rightarrow> db" where
  "seed_banner files admin b d =
    (if bBanner b \<noteq> [] then d
     else case (case files (bName b @ ''.txt'') of Some body \<Rightarrow> Some body | None \<Rightarrow> files defaultBannerFilename) of
       None \<Rightarrow> d
     | Some body \<Rightarrow> snd (boards_update_banner (bID b) (uID admin) RoleAdmin body d))"

definition seed_banners :: "(string \<rightharpoonup> string) \<Rightarrow> string \<Rightarrow> db \<Rightarrow> unit res \<times> db" where
  "seed_banners files admin_user_id d =
    (case users_get_by_user_id admin_user_id d of
       Inl e \<Rightarrow> (Inl e, d)
     | Inr admin \<Rightarrow> (Inr (), fold (seed_banner files admin) (boards_list d) d))"

section \<open>Start-up\<close>

definition start_up ::
  "(string \<Rightarrow> string option) \<Rightarrow> string \<Rightarrow> (string \<times> string) list \<Rightarrow> (string \<rightharpoonup> string) \<Rightarrow> timestamp \<Rightarrow> db \<Rightarrow>
    (auth_error + unit) \<times> db" where
  "start_up gen admin_password files banners now d =
    (case boards_seed_defaults now d of
       (Inl e, d1) \<Rightarrow> (Inl (StoreError e), d1)
     | (Inr _, d1) \<Rightarrow>
         (case seed_system_accounts gen admin_password now d1 of
            (Inl e, d2) \<Rightarrow> (Inl e, d2)
          | (Inr _, d2) \<Rightarrow>
              (case seed_articles files ReservedUsernameAdmin now d2 of
                 (Inl e, d3) \<Rightarrow> (Inl (StoreError e), d3)
               | (Inr _, d3) \<Rightarrow>
                   (case seed_banners banners ReservedUsernameAdmin d3 of
                      (Inl e, d4) \<Rightarrow> (Inl (StoreError e), d4)
                    | (Inr _, d4) \<Rightarrow> (Inr (), d4)))))"

section \<open>Importing an article\<close>

record import_flags =
  ifFile :: string
  ifBoard :: string
  ifAuthor :: string
  ifDB :: string

text \<open>The path that is read: standard input, or the file, from the working directory when it is relative.\<close>

definition import_path :: "string \<Rightarrow> string" where
  "import_path path =
    (if path = ''-'' then path
     else if \<not> has_prefix path ''/'' \<and> \<not> has_prefix path ''./'' \<and> \<not> has_prefix path ''../'' then ''./'' @ path
     else path)"

text \<open>The exit code, with \<open>read\<close> for the file system.\<close>

definition run_import ::
  "(string \<Rightarrow> string option) \<Rightarrow> import_flags \<Rightarrow> timestamp \<Rightarrow> db \<Rightarrow> int \<times> db" where
  "run_import read f now d =
    (if ifFile f = [] then (2, d)
     else case read (import_path (ifFile f)) of
       None \<Rightarrow> (1, d)
     | Some body \<Rightarrow>
         let p = parse_markdown body; target = (if ifBoard f = [] then mdBoardName p else ifBoard f)
         in if mdTitle p = [] then (1, d)
         else if target = [] then (1, d)
         else case users_get_by_user_id (ifAuthor f) d of
           Inl _ \<Rightarrow> (1, d)
         | Inr u \<Rightarrow>
             (case boards_get_by_name target d of
                Inl _ \<Rightarrow> (1, d)
              | Inr b \<Rightarrow>
                  (case articles_create (bID b) (uID u) (uUserID u) (mdTitle p) (mdBody p) now d of
                     (Inl _, d1) \<Rightarrow> (1, d1)
                   | (Inr _, d1) \<Rightarrow> (0, d1))))"

section \<open>What seeding leaves alone\<close>

definition board_articles :: "int \<Rightarrow> db \<Rightarrow> article list" where
  "board_articles i d = filter (\<lambda>a. aBoardID a = i) (articles d)"

lemma no_title_search [simp]: "title_matches [] a"
  by (simp add: title_matches_def trim_space_trimmed trimmed_def leading_def spaces_def)

lemma sample_fresh: "articles_list_by_board i 1 d = [] \<longleftrightarrow> board_articles i d = []"
proof -
  have "length (articles_list_by_board i 1 d) = min (length (board_articles i d)) 1"
    by (simp add: articles_list_by_board_def list_by_board_length board_matches_def board_articles_def)
  then show ?thesis by (metis length_0_conv min_0L min.commute zero_neq_one min_def)
qed

lemma seed_insert_frame:
  "users (seed_insert admin now b p d) = users d \<and> boards (seed_insert admin now b p d) = boards d
    \<and> seq_users (seed_insert admin now b p d) = seq_users d \<and> seq_boards (seed_insert admin now b p d) = seq_boards d"
  by (auto simp: seed_insert_def articles_create_def articles_set_pinned_def ins_article_def Let_def
      split: sum.splits prod.splits option.splits)

lemma seed_insert_articles:
  assumes "articles_ok d" and "b \<in> set (boards d)" and "admin \<in> set (users d)"
  shows "articles_ok (seed_insert admin now b p d)
    \<and> (\<exists>a. articles (seed_insert admin now b p d) = articles d @ [a] \<and> aBoardID a = bID b)"
proof -
  let ?a = "new_article (bID b) (uID admin) (uUserID admin) (mdTitle p) (mdBody p) now (seq_articles d + 1)"
  let ?d1 = "d\<lparr>articles := articles d @ [?a], seq_articles := seq_articles d + 1\<rparr>"
  have c: "articles_create (bID b) (uID admin) (uUserID admin) (mdTitle p) (mdBody p) now d = (Inr ?a, ?d1)"
    using assms by (intro articles_create_spec) (auto simp: board_ids_def user_ids_def)
  then have ok: "articles_ok ?d1"
    using articles_create_ok [OF assms(1), of "bID b" "uID admin" "uUserID admin" "mdTitle p" "mdBody p" now] by simp
  have "update_rows (\<lambda>x. aID x = aID ?a) f (articles d) = articles d" for f
    using assms(1) by (intro update_rows_none) (auto simp: articles_ok_def table_ok_def)
  then have "\<exists>a. articles (snd (articles_set_pinned (aID ?a) (uID admin) (uRole admin) True now ?d1)) = articles d @ [a] \<and> aBoardID a = bID b"
    by (auto simp: articles_set_pinned_def update_rows_def split: option.splits)
  moreover have "articles_ok (snd (articles_set_pinned (aID ?a) (uID admin) (uRole admin) True now ?d1))"
    using article_mod_ok(2) [OF ok] .
  ultimately show ?thesis using c ok by (simp add: seed_insert_def)
qed

text \<open>What holds after some of the files: the sampled boards are no longer empty, the others are as before.\<close>

definition seeding :: "db \<Rightarrow> (int \<rightharpoonup> bool) \<times> db \<Rightarrow> bool" where
  "seeding d0 st \<longleftrightarrow>
    (case st of (seen, d) \<Rightarrow> articles_ok d \<and> users d = users d0 \<and> boards d = boards d0
       \<and> seq_users d = seq_users d0 \<and> seq_boards d = seq_boards d0
       \<and> (\<forall>i. board_articles i d0 \<noteq> [] \<longrightarrow> board_articles i d = board_articles i d0)
       \<and> (\<forall>i. seen i = None \<longrightarrow> board_articles i d = board_articles i d0)
       \<and> (\<forall>i e. seen i = Some e \<longrightarrow> e = (board_articles i d0 = []) \<and> board_articles i d \<noteq> []))"

definition seed_target :: "string \<Rightarrow> db \<Rightarrow> int option" where
  "seed_target body d =
    (let p = parse_markdown body in
     if mdBoardName p = [] \<or> mdTitle p = [] then None
     else case boards_get_by_name (mdBoardName p) d of Inl _ \<Rightarrow> None | Inr b \<Rightarrow> Some (bID b))"

lemma seed_target_boards: "boards d = boards d' \<Longrightarrow> seed_target body d = seed_target body d'"
  by (simp add: seed_target_def boards_get_by_name_def Let_def)

lemma seed_file_step:
  assumes "seeding d0 (seen, d)" and "admin \<in> set (users d0)"
  shows "seeding d0 (seed_file admin now body (seen, d))
    \<and> (\<forall>i. seen i \<noteq> None \<or> seed_target body d0 = Some i \<longrightarrow> fst (seed_file admin now body (seen, d)) i \<noteq> None)"
proof (cases "seed_target body d")
  case None
  then have "seed_file admin now body (seen, d) = (seen, d)"
    by (auto simp: seed_target_def seed_file_def Let_def split: if_splits sum.splits)
  then show ?thesis using assms None seed_target_boards [of d d0 body] by (auto simp: seeding_def)
next
  case (Some i)
  let ?p = "parse_markdown body"
  from Some obtain b where b: "boards_get_by_name (mdBoardName ?p) d = Inr b" "bID b = i" "mdBoardName ?p \<noteq> []" "mdTitle ?p \<noteq> []"
    by (auto simp: seed_target_def Let_def split: if_splits sum.splits)
  let ?e = "sample_board i seen d"
  have step: "seed_file admin now body (seen, d) = (if ?e then (seen(i \<mapsto> ?e), seed_insert admin now b ?p d) else (seen(i \<mapsto> ?e), d))"
    using b by (simp add: seed_file_def Let_def)
  have e: "?e \<longleftrightarrow> board_articles i d0 = []"
    using assms(1) by (auto simp: sample_board_def seeding_def sample_fresh split: option.splits)
  have target: "seed_target body d0 = Some i" using assms(1) Some seed_target_boards [of d d0 body] by (simp add: seeding_def)
  show ?thesis
  proof (cases ?e)
    case True
    have "b \<in> set (boards d)" "admin \<in> set (users d)" "articles_ok d"
      using boards_get_by_name_Inr [OF b(1)] assms by (simp_all add: seeding_def)
    then obtain a where "articles_ok (seed_insert admin now b ?p d)"
      "articles (seed_insert admin now b ?p d) = articles d @ [a]" "aBoardID a = i"
      using seed_insert_articles [of d b admin now ?p] b(2) by auto
    then show ?thesis using assms(1) e True step target seed_insert_frame [of admin now b ?p d]
      by (auto simp: seeding_def board_articles_def)
  next
    case False
    then show ?thesis using assms(1) e step target by (auto simp: seeding_def)
  qed
qed

lemma seed_fold:
  assumes "seeding d0 st" and "admin \<in> set (users d0)"
  shows "seeding d0 (fold (seed_file admin now) bodies st)
    \<and> (\<forall>i. fst st i \<noteq> None \<or> (\<exists>body \<in> set bodies. seed_target body d0 = Some i) \<longrightarrow>
        fst (fold (seed_file admin now) bodies st) i \<noteq> None)"
  using assms(1)
proof (induction bodies arbitrary: st)
  case (Cons body bodies)
  obtain seen d where st: "st = (seen, d)" by (cases st)
  from seed_file_step [OF Cons.prems [unfolded st] assms(2), of now body] Cons.IH [of "seed_file admin now body st"]
  show ?case unfolding st by (simp only: fold_simps set_simps) auto
qed simp

text \<open>Where every board a file names has articles, seeding changes nothing.\<close>

lemma seed_fold_full:
  assumes "\<forall>body \<in> set bodies. \<forall>i. seed_target body d = Some i \<longrightarrow> board_articles i d \<noteq> []"
    and "\<forall>i. seen i \<noteq> Some True"
  shows "snd (fold (seed_file admin now) bodies (seen, d)) = d"
  using assms
proof (induction bodies arbitrary: seen)
  case (Cons body bodies)
  have "\<exists>seen'. seed_file admin now body (seen, d) = (seen', d) \<and> (\<forall>i. seen' i \<noteq> Some True)"
  proof (cases "seed_target body d")
    case None
    then have "seed_file admin now body (seen, d) = (seen, d)"
      by (auto simp: seed_target_def seed_file_def Let_def split: if_splits sum.splits)
    with Cons.prems(2) show ?thesis by simp
  next
    case (Some i)
    with Cons.prems(1) have "board_articles i d \<noteq> []" by simp
    with Cons.prems(2) have "\<not> sample_board i seen d" by (auto simp: sample_board_def sample_fresh split: option.splits)
    with Some have "seed_file admin now body (seen, d) = (seen(i \<mapsto> False), d)"
      by (auto simp: seed_target_def seed_file_def Let_def split: if_splits sum.splits)
    with Cons.prems(2) show ?thesis by simp
  qed
  then obtain seen' where "seed_file admin now body (seen, d) = (seen', d)" "\<forall>i. seen' i \<noteq> Some True" by blast
  with Cons.IH [of seen'] Cons.prems(1) show ?case by simp
qed simp

section \<open>Banners once\<close>

definition banner_file :: "(string \<rightharpoonup> string) \<Rightarrow> string \<Rightarrow> string option" where
  "banner_file files name = (case files (name @ ''.txt'') of Some body \<Rightarrow> Some body | None \<Rightarrow> files defaultBannerFilename)"

definition with_banner :: "(string \<rightharpoonup> string) \<Rightarrow> board \<Rightarrow> board" where
  "with_banner files b =
    (if bBanner b \<noteq> [] then b
     else case banner_file files (bName b) of None \<Rightarrow> b | Some body \<Rightarrow> b\<lparr>bBannerCol := Some body\<rparr>)"

lemma with_banner_sel [simp]: "bID (with_banner files b) = bID b" "bName (with_banner files b) = bName b"
  by (simp_all add: with_banner_def split: option.splits)

lemma with_banner_idem: "with_banner files (with_banner files b) = with_banner files b"
  by (cases "banner_file files (bName b)") (simp_all add: with_banner_def bBanner_def)

lemma seed_banner_row:
  assumes "\<forall>x \<in> set (boards d). bID x = bID b \<longrightarrow> x = b"
  shows "seed_banner files admin b d =
    d\<lparr>boards := map (\<lambda>x. if bID x = bID b then with_banner files x else x) (boards d)\<rparr>"
proof -
  have keep: "map (\<lambda>x. if bID x = bID b then f x else x) (boards d) = boards d" if "f b = b" for f
    using that assms by (intro map_idI) auto
  show ?thesis
  proof (cases "bBanner b \<noteq> [] \<or> banner_file files (bName b) = None")
    case True
    then have "seed_banner files admin b d = d" by (auto simp: seed_banner_def banner_file_def split: option.splits)
    moreover have "with_banner files b = b" using True by (auto simp: with_banner_def)
    ultimately show ?thesis by (simp add: keep)
  next
    case False
    then obtain body where body: "banner_file files (bName b) = Some body" "bBanner b = []" by auto
    have w: "x \<in> set (boards d) \<Longrightarrow> bID x = bID b \<Longrightarrow> with_banner files x = x\<lparr>bBannerCol := Some body\<rparr>" for x
      using assms body by (auto simp: with_banner_def)
    have "seed_banner files admin b d = snd (boards_update_banner (bID b) (uID admin) RoleAdmin body d)"
      using body by (simp add: seed_banner_def banner_file_def split: option.splits)
    also have "\<dots> = d\<lparr>boards := update_rows (\<lambda>x. bID x = bID b) (\<lambda>x. x\<lparr>bBannerCol := Some body\<rparr>) (boards d)\<rparr>"
    proof (cases "find_row bID (bID b) (boards d)")
      case None
      then have "update_rows (\<lambda>x. bID x = bID b) (\<lambda>x. x\<lparr>bBannerCol := Some body\<rparr>) (boards d) = boards d"
        by (intro update_rows_none) (metis find_row_None imageI)
      with None show ?thesis by (simp add: boards_update_banner_def)
    qed (simp add: boards_update_banner_def role_at_least_def role_rank_def role_defs)
    also have "update_rows (\<lambda>x. bID x = bID b) (\<lambda>x. x\<lparr>bBannerCol := Some body\<rparr>) (boards d) =
        map (\<lambda>x. if bID x = bID b then with_banner files x else x) (boards d)"
      using w by (simp add: update_rows_def)
    finally show ?thesis .
  qed
qed

lemma seed_banner_fold:
  assumes "\<forall>b \<in> set bs. \<forall>x \<in> set (boards d). bID x = bID b \<longrightarrow> x = b" and "distinct (map bID bs)"
  shows "fold (seed_banner files admin) bs d =
    d\<lparr>boards := map (\<lambda>x. if bID x \<in> bID ` set bs then with_banner files x else x) (boards d)\<rparr>"
  using assms
proof (induction bs arbitrary: d)
  case (Cons b bs)
  let ?d = "d\<lparr>boards := map (\<lambda>x. if bID x = bID b then with_banner files x else x) (boards d)\<rparr>"
  have "seed_banner files admin b d = ?d" using Cons.prems by (intro seed_banner_row) simp
  moreover have "fold (seed_banner files admin) bs ?d =
      ?d\<lparr>boards := map (\<lambda>x. if bID x \<in> bID ` set bs then with_banner files x else x) (boards ?d)\<rparr>"
    using Cons.prems by (intro Cons.IH) (auto split: if_splits)
  moreover have "map (\<lambda>x. if bID x \<in> bID ` set bs then with_banner files x else x) (boards ?d) =
      map (\<lambda>x. if bID x \<in> bID ` set (b # bs) then with_banner files x else x) (boards d)"
    using Cons.prems(2) by auto
  ultimately show ?case by simp
qed simp

lemma seed_banners_all:
  assumes "boards_ok d" and "users_get_by_user_id name d = Inr admin"
  shows "seed_banners files name d = (Inr (), d\<lparr>boards := map (with_banner files) (boards d)\<rparr>)"
proof -
  have dist: "distinct (map bID (boards d))" using assms(1) by (auto simp: boards_ok_def dest: table_ok_distinct)
  have perm: "mset (boards_list d) = mset (boards d)" by (simp add: boards_list_def)
  then have sets: "set (boards_list d) = set (boards d)" by (rule mset_eq_setD)
  have "distinct (map bID (boards_list d))"
    using dist perm by (metis mset_eq_imp_distinct_iff mset_map)
  moreover have "\<forall>b \<in> set (boards_list d). \<forall>x \<in> set (boards d). bID x = bID b \<longrightarrow> x = b"
    using dist by (auto simp: sets intro: distinct_key_eq)
  ultimately show ?thesis using assms(2) by (simp add: seed_banners_def seed_banner_fold sets cong: map_cong)
qed

section \<open>Starting twice\<close>

lemma board_taken_ids: "map bName (boards d) = map bName (boards d') \<Longrightarrow> board_name_taken n d = board_name_taken n d'"
proof -
  assume m: "map bName (boards d) = map bName (boards d')"
  have "board_name_taken n d \<longleftrightarrow> nocase n \<in> set (map nocase (map bName (boards d)))" for d
    by (force simp: board_name_taken_def)
  then show ?thesis by (simp only: m)
qed

lemma fold_insert_frame:
  "users (fold (insert_or_ignore_board now) rows d) = users d \<and> articles (fold (insert_or_ignore_board now) rows d) = articles d
    \<and> set (boards d) \<subseteq> set (boards (fold (insert_or_ignore_board now) rows d))"
proof (induction rows arbitrary: d)
  case (Cons row rows)
  have "users (insert_or_ignore_board now row d) = users d \<and> articles (insert_or_ignore_board now row d) = articles d
      \<and> set (boards d) \<subseteq> set (boards (insert_or_ignore_board now row d))"
    by (auto simp: insert_or_ignore_board_def ins_board_def Let_def split: prod.splits)
  with Cons.IH [of "insert_or_ignore_board now row d"] show ?case by auto
qed simp

lemma seeded_accounts:
  assumes "users_ok d" and "seed_system_accounts gen pw now d = (Inr (), d')"
  shows "set (users d) \<subseteq> set (users d') \<and> boards d' = boards d \<and> seq_boards d' = seq_boards d
    \<and> articles d' = articles d \<and> seq_articles d' = seq_articles d \<and> users_ok d'"
proof -
  obtain d1 where d1: "seed_admin gen pw now d = (Inr (), d1)" "seed_guest now d1 = (Inr (), d')" "users_ok d1"
    using seed_split [OF assms] .
  moreover have "users_ok d'" using seed_guest_ok [OF d1(3), of now] d1(2) by simp
  ultimately show ?thesis
    using seed_admin_spec [OF assms(1) d1(1)] seed_guest_spec [OF d1(3,2)] by fastforce
qed

lemma start_up_split:
  assumes "start_up gen pw files banners now d = (Inr (), d4)"
  obtains d1 d2 d3 where "boards_seed_defaults now d = (Inr (), d1)" "seed_system_accounts gen pw now d1 = (Inr (), d2)"
    "seed_articles files ReservedUsernameAdmin now d2 = (Inr (), d3)"
    "seed_banners banners ReservedUsernameAdmin d3 = (Inr (), d4)"
  using assms by (auto simp: start_up_def split: prod.splits sum.splits)

lemma seed_articles_spec:
  assumes "articles_ok d" and "seed_articles files name now d = (Inr (), d')"
  obtains admin where "users_get_by_user_id name d = Inr admin" "users d' = users d" "boards d' = boards d"
    "seq_users d' = seq_users d" "seq_boards d' = seq_boards d"
    "\<And>i. board_articles i d \<noteq> [] \<Longrightarrow> board_articles i d' = board_articles i d"
    "\<And>body i. body \<in> set (seed_entries files) \<Longrightarrow> seed_target body d = Some i \<Longrightarrow> board_articles i d' \<noteq> []"
proof -
  obtain admin where a: "users_get_by_user_id name d = Inr admin"
    and d': "d' = snd (fold (seed_file admin now) (seed_entries files) (Map.empty, d))"
    using assms(2) by (auto simp: seed_articles_def split: sum.splits)
  obtain seen where st: "fold (seed_file admin now) (seed_entries files) (Map.empty, d) = (seen, d')"
    using d' by (metis surjective_pairing)
  have start: "seeding d (Map.empty, d)" using assms(1) by (simp add: seeding_def)
  have "admin \<in> set (users d)" using get_by_user_id_Inr [OF a] by simp
  from seed_fold [OF start this, of now "seed_entries files"]
  have inv: "seeding d (seen, d')" and
    all: "\<And>body i. body \<in> set (seed_entries files) \<Longrightarrow> seed_target body d = Some i \<Longrightarrow> seen i \<noteq> None"
    unfolding st by auto
  show thesis
  proof (rule that [OF a])
    show "board_articles i d' \<noteq> []" if "body \<in> set (seed_entries files)" "seed_target body d = Some i" for body i
      using all [OF that] inv by (auto simp: seeding_def)
  qed (use inv in \<open>auto simp: seeding_def\<close>)
qed

lemma same_boards_articles: "articles d = articles d' \<Longrightarrow> board_articles i d = board_articles i d'"
  by (simp add: board_articles_def)

lemma seed_target_names: 
  "map bName (boards d) = map bName (boards d') \<Longrightarrow> map bID (boards d) = map bID (boards d') \<Longrightarrow>
    seed_target body d = seed_target body d'"
proof -
  assume m: "map bName (boards d) = map bName (boards d')" "map bID (boards d) = map bID (boards d')"
  have "map_option bID (find (\<lambda>b. nocase (bName b) = n) xs) = map_option bID (find (\<lambda>b. nocase (bName b) = n) ys)"
    if "map bName xs = map bName ys" "map bID xs = map bID ys" for n and xs ys :: "board list"
    using that
  proof (induction xs arbitrary: ys)
    case (Cons x xs)
    then show ?case by (cases ys) auto
  qed simp
  from this [OF m] show ?thesis
    by (auto simp: seed_target_def boards_get_by_name_def Let_def split: option.splits)
       (metis option.map_disc_iff option.distinct(1) option.inject option.map(2))+
qed

lemma seed_admin_runs:
  assumes "users_ok d" and "gen (if pw = [] then DefaultAdminPassword else pw) = Some h"
  shows "\<exists>d1. seed_admin gen pw now d = (Inr (), d1)"
proof (cases "users_get_by_user_id ReservedUsernameAdmin d")
  case (Inl e)
  then have "e = ErrUserNotFound" "\<not> user_name_taken ReservedUsernameAdmin d" by (simp_all add: not_found_free)
  with Inl assms(2) insert_system_spec [OF assms(1), of RoleAdmin ReservedUsernameAdmin h True now] show ?thesis
    by (simp add: seed_admin_def Let_def)
qed (simp add: seed_admin_found)

lemma seed_guest_runs: "users_ok d \<Longrightarrow> \<exists>d1. seed_guest now d = (Inr (), d1)"
proof (cases "users_get_by_user_id ReservedUsernameGuest d")
  case (Inl e)
  assume "users_ok d"
  moreover have "e = ErrUserNotFound" "\<not> user_name_taken ReservedUsernameGuest d" using Inl by (simp_all add: not_found_free)
  ultimately show ?thesis
    using Inl insert_system_spec [of d RoleGuest ReservedUsernameGuest GuestPasswordSentinel False now]
    by (simp add: seed_guest_def Let_def)
qed (simp add: seed_guest_found)

lemma seed_accounts_run:
  assumes "users_ok d" and "gen (if pw = [] then DefaultAdminPassword else pw) = Some h"
  shows "\<exists>d'. seed_system_accounts gen pw now d = (Inr (), d')"
proof -
  obtain d1 where d1: "seed_admin gen pw now d = (Inr (), d1)" using seed_admin_runs [where gen = gen, OF assms] by blast
  then have "users_ok d1" using seed_admin_ok [OF assms(1), of gen pw now] by simp
  from seed_guest_runs [OF this, of now] d1 show ?thesis by (auto simp: seed_system_accounts_def)
qed

lemma start_up_runs:
  assumes "db_inv (without_mail d)" and "gen (if pw = [] then DefaultAdminPassword else pw) = Some h"
  shows "\<exists>d'. start_up gen pw files banners now d = (Inr (), d')"
proof -
  obtain d1 where d1: "boards_seed_defaults now d = (Inr (), d1)" by (simp add: boards_seed_defaults_def)
  have "db_inv (without_mail d1)" using boards_step_inv(1) [OF assms(1), of now] d1 without_mail_boards(1) [of now d] by simp
  from db_invD(1,3) [OF this] have i1: "users_ok d1" "articles_ok d1" by (simp_all add: users_ok_def articles_ok_def)
  obtain d2 where d2: "seed_system_accounts gen pw now d1 = (Inr (), d2)"
    using seed_accounts_run [where gen = gen, OF i1(1) assms(2)] by blast
  obtain admin where a: "users_get_by_user_id ReservedUsernameAdmin d2 = Inr admin"
    using seed_finds(1) [OF i1(1) d2] by blast
  then obtain d3 where d3: "seed_articles files ReservedUsernameAdmin now d2 = (Inr (), d3)" by (simp add: seed_articles_def)
  have "articles_ok d2" using i1(2) seeded_accounts [OF i1(1) d2] by (auto simp: articles_ok_def board_ids_def user_ids_def)
  then have "users d3 = users d2" using seed_articles_spec [OF _ d3] by blast
  with a have "users_get_by_user_id ReservedUsernameAdmin d3 = Inr admin" by (simp add: users_get_by_user_id_def)
  with d1 d2 d3 show ?thesis by (simp add: start_up_def seed_banners_def)
qed

text \<open>What a successful start-up leaves: the system accounts, the default boards, banners that are filled in, articles in
  every board a file names, and whatever there was before.\<close>

lemma start_up_outcome:
  assumes "db_inv d" and "start_up gen pw files banners now d = (Inr (), d')"
  obtains admin guest where "users_get_by_user_id ReservedUsernameAdmin d' = Inr admin" "users_get_by_user_id ReservedUsernameGuest d' = Inr guest"
    "boards_ok d'" "\<forall>row \<in> set default_boards. board_name_taken (fst row) d'" "map (with_banner banners) (boards d') = boards d'"
    "\<forall>body \<in> set (seed_entries files). \<forall>i. seed_target body d' = Some i \<longrightarrow> board_articles i d' \<noteq> []"
    "set (users d) \<subseteq> set (users d')" "{b \<in> set (boards d). bBanner b \<noteq> []} \<subseteq> set (boards d')"
    "\<forall>i. board_articles i d \<noteq> [] \<longrightarrow> board_articles i d' = board_articles i d"
proof -
  obtain d1 d2 d3 where d1: "boards_seed_defaults now d = (Inr (), d1)"
    and d2: "seed_system_accounts gen pw now d1 = (Inr (), d2)"
    and d3: "seed_articles files ReservedUsernameAdmin now d2 = (Inr (), d3)"
    and d4: "seed_banners banners ReservedUsernameAdmin d3 = (Inr (), d')"
    using start_up_split [OF assms(2)] .
  have i1: "db_inv d1" using boards_step_inv(1) [OF assms(1), of now] d1 by simp
  have f1: "users d1 = users d" "articles d1 = articles d" "set (boards d) \<subseteq> set (boards d1)"
    using fold_insert_frame [of now default_boards d] d1 by (auto simp: boards_seed_defaults_def)
  note f2 = seeded_accounts [OF db_invD(1) [OF i1] d2]
  have "articles_ok d2" using db_invD(3) [OF i1] f2 by (auto simp: articles_ok_def board_ids_def user_ids_def)
  then obtain admin where a: "users_get_by_user_id ReservedUsernameAdmin d2 = Inr admin"
    and f3: "users d3 = users d2" "boards d3 = boards d2" "seq_users d3 = seq_users d2" "seq_boards d3 = seq_boards d2"
    "\<And>i. board_articles i d2 \<noteq> [] \<Longrightarrow> board_articles i d3 = board_articles i d2"
    "\<And>body i. body \<in> set (seed_entries files) \<Longrightarrow> seed_target body d2 = Some i \<Longrightarrow> board_articles i d3 \<noteq> []"
    using seed_articles_spec [OF _ d3] by blast
  have b3: "boards_ok d3" using db_invD(2) [OF i1] f2 f3 by (simp add: boards_ok_def)
  have a3: "users_get_by_user_id ReservedUsernameAdmin d3 = Inr admin" using a f3 by (simp add: users_get_by_user_id_def)
  have d': "d' = d3\<lparr>boards := map (with_banner banners) (boards d3)\<rparr>" using seed_banners_all [OF b3 a3] d4 by simp
  have names: "map bName (boards d') = map bName (boards d1)" "map bID (boards d') = map bID (boards d2)"
    "map bName (boards d') = map bName (boards d2)" using d' f2 f3 by simp_all
  have arts: "board_articles i d' = board_articles i d3" for i using d' by (intro same_boards_articles) simp
  obtain g where g: "users_get_by_user_id ReservedUsernameGuest d2 = Inr g" using seed_finds(2) [OF db_invD(1) [OF i1] d2] by blast
  show thesis
  proof (rule that)
    show "users_get_by_user_id ReservedUsernameAdmin d' = Inr admin" "users_get_by_user_id ReservedUsernameGuest d' = Inr g"
      using a3 g f3 d' by (simp_all add: users_get_by_user_id_def)
    show "boards_ok d'" using b3 d' by (simp add: boards_ok_def table_ok_def comp_def)
    show "\<forall>row \<in> set default_boards. board_name_taken (fst row) d'"
      using d1 fold_insert_takes [of _ default_boards now d] board_taken_ids [OF names(1)] by (auto simp: boards_seed_defaults_def)
    show "map (with_banner banners) (boards d') = boards d'" using d' by (simp add: with_banner_idem comp_def)
    show "\<forall>body \<in> set (seed_entries files). \<forall>i. seed_target body d' = Some i \<longrightarrow> board_articles i d' \<noteq> []"
      using f3(6) seed_target_names [OF names(3,2)] by (auto simp: arts)
    show "set (users d) \<subseteq> set (users d')" using f1 f2 f3 d' by simp
    show "{b \<in> set (boards d). bBanner b \<noteq> []} \<subseteq> set (boards d')"
      using f1 f2 f3 d' by (force simp: with_banner_def image_iff)
    show "\<forall>i. board_articles i d \<noteq> [] \<longrightarrow> board_articles i d' = board_articles i d"
      using f1 f2 f3(5) arts by (auto simp: board_articles_def)
  qed
qed

text \<open>C19: a start-up that succeeds leaves everything it finds: accounts, boards with a banner and the articles
  of boards that have any, so edits by administrators survive; and starting again with the same embedded
  files, whatever the password flag, changes nothing but the counter of board ids, which the three ignored rows of the
  board seed advance.\<close>

theorem start_up_once:
  assumes "db_inv d" and "start_up gen pw files banners now d = (Inr (), d')"
  shows "start_up gen' pw' files banners now' d' = (Inr (), d'\<lparr>seq_boards := seq_boards d' + 3\<rparr>)
    \<and> set (users d) \<subseteq> set (users d')
    \<and> {b \<in> set (boards d). bBanner b \<noteq> []} \<subseteq> set (boards d')
    \<and> (\<forall>i. board_articles i d \<noteq> [] \<longrightarrow> board_articles i d' = board_articles i d)"
proof -
  let ?e = "d'\<lparr>seq_boards := seq_boards d' + 3\<rparr>"
  obtain admin guest where "users_get_by_user_id ReservedUsernameAdmin d' = Inr admin" "users_get_by_user_id ReservedUsernameGuest d' = Inr guest"
    and o: "boards_ok d'" "\<forall>row \<in> set default_boards. board_name_taken (fst row) d'" "map (with_banner banners) (boards d') = boards d'"
    "\<forall>body \<in> set (seed_entries files). \<forall>i. seed_target body d' = Some i \<longrightarrow> board_articles i d' \<noteq> []"
    and kept: "set (users d) \<subseteq> set (users d')" "{b \<in> set (boards d). bBanner b \<noteq> []} \<subseteq> set (boards d')"
    "\<forall>i. board_articles i d \<noteq> [] \<longrightarrow> board_articles i d' = board_articles i d"
    using start_up_outcome [OF assms] .
  then have a: "users_get_by_user_id ReservedUsernameAdmin ?e = Inr admin" "users_get_by_user_id ReservedUsernameGuest ?e = Inr guest"
    by (simp_all add: users_get_by_user_id_def)
  have same: "seed_target body ?e = seed_target body d'" "board_articles i ?e = board_articles i d'" for body i
    by (rule seed_target_boards, simp) (simp add: board_articles_def)
  have "boards_seed_defaults now' d' = (Inr (), ?e)"
    using fold_insert_noop [OF o(2), of now'] by (simp add: boards_seed_defaults_def default_boards_def)
  moreover have "seed_system_accounts gen' pw' now' ?e = (Inr (), ?e)"
    using a by (simp add: seed_system_accounts_def seed_admin_found seed_guest_found)
  moreover have "seed_articles files ReservedUsernameAdmin now' ?e = (Inr (), ?e)"
    using seed_fold_full [of "seed_entries files" ?e Map.empty admin now'] o(4) a by (simp add: seed_articles_def same)
  moreover have "boards_ok ?e" using o(1) by (force simp: boards_ok_def table_ok_def)
  then have "seed_banners banners ReservedUsernameAdmin ?e = (Inr (), ?e)" using seed_banners_all [OF _ a(1)] o(3) by simp
  ultimately show ?thesis using kept by (simp add: start_up_def)
qed

lemma start_up_once_witness:
  "\<exists>d'. start_up demo_gen [] [] Map.empty demo_now empty_db = (Inr (), d')
    \<and> start_up demo_gen ''other'' [] Map.empty demo_now d' = (Inr (), d'\<lparr>seq_boards := seq_boards d' + 3\<rparr>)"
proof -
  have "\<exists>d'. start_up demo_gen [] [] Map.empty demo_now empty_db = (Inr (), d')"
    by (rule start_up_runs [OF db_inv_without_mail [OF db_inv_empty]]) (simp add: demo_gen_def DefaultAdminPassword_def)
  then show ?thesis using start_up_once [OF db_inv_empty] by blast
qed

end
