(* ===== verification/Banner.thy ===== *)
theory Banner
  imports Tui
begin

text \<open>
  \<open>runewidth.go\<close>: padding and cutting texts to a number of terminal cells. The widths themselves are those
  of go-runewidth (record \<open>lib\<close>). Banners carry colour codes, which take no cell.
\<close>

section \<open>Tables\<close>

definition pad_right :: "'i lib \<Rightarrow> string \<Rightarrow> int \<Rightarrow> string" where
  "pad_right L s w =
    (if w \<le> 0 then []
     else let cw = stringWidth L s in
       if cw = w then s
       else if w < cw then widthTruncate L s w []
       else s @ replicate (nat (w - cw)) SP)"

definition pad_left :: "'i lib \<Rightarrow> string \<Rightarrow> int \<Rightarrow> string" where
  "pad_left L s w =
    (if w \<le> 0 then []
     else let cw = stringWidth L s in
       if cw = w then s
       else if w < cw then widthTruncate L s w []
       else replicate (nat (w - cw)) SP @ s)"

section \<open>Control sequences\<close>

definition ESC :: char where "ESC = CHR 0x1B"

definition csi_param :: "char \<Rightarrow> bool" where
  "csi_param c \<longleftrightarrow> is_digit c \<or> c = CHR '';'' \<or> c = CHR ''?''"

text \<open>
  The length of the control sequence at the head of a text, 0 when there is none. The classes of parameters
  and of final letters are disjoint, so the expression matches in one way only.
\<close>

fun csi_len :: "string \<Rightarrow> nat" where
  "csi_len (a # b # u) =
    (if a = ESC \<and> b = CHR ''['' then
       (case drop (length (takeWhile csi_param u)) u of
          [] \<Rightarrow> 0
        | c # _ \<Rightarrow> if is_letter c then length (takeWhile csi_param u) + 3 else 0)
     else 0)"
| "csi_len _ = 0"

lemma csi_len_le: "csi_len s \<le> length s"
proof (cases s rule: csi_len.cases)
  case (1 a b u)
  have "length (takeWhile csi_param u) < length u" if "drop (length (takeWhile csi_param u)) u = c # r" for c r
    using that by (metis drop_all list.distinct(1) not_le)
  then show ?thesis using 1 by (auto split: list.split)
qed auto

function strip_csi :: "string \<Rightarrow> string" where
  "strip_csi s =
    (if s = [] then []
     else if 0 < csi_len s then strip_csi (drop (csi_len s) s)
     else hd s # strip_csi (tl s))"
  by pat_completeness auto
termination
proof (relation "measure length")
  fix s :: string
  assume "s \<noteq> []" and "0 < csi_len s"
  then show "(drop (csi_len s) s, s) \<in> measure length" by simp
qed auto

declare strip_csi.simps [simp del]

text \<open>The first sequence with what stands before and after it; and all of them.\<close>

fun csi_find :: "string \<Rightarrow> (string \<times> string \<times> string) option" where
  "csi_find [] = None"
| "csi_find (c # s) =
    (if 0 < csi_len (c # s) then Some ([], take (csi_len (c # s)) (c # s), drop (csi_len (c # s)) (c # s))
     else map_option (\<lambda>(body, q, r). (c # body, q, r)) (csi_find s))"

lemma csi_find_Some:
  "csi_find s = Some (body, q, r) \<Longrightarrow> s = body @ q @ r \<and> 0 < length q \<and> csi_len (q @ r) = length q"
proof (induction s arbitrary: body)
  case (Cons c s)
  show ?case
  proof (cases "0 < csi_len (c # s)")
    case True
    with Cons.prems csi_len_le [of "c # s"] show ?thesis by (auto simp del: csi_len.simps)
  next
    case False
    with Cons show ?thesis by (auto simp del: csi_len.simps)
  qed
qed simp

function csi_split :: "string \<Rightarrow> (string \<times> string) list \<times> string" where
  "csi_split s =
    (case csi_find s of
       None \<Rightarrow> ([], s)
     | Some (body, q, r) \<Rightarrow> (case csi_split r of (ps, rest) \<Rightarrow> ((body, q) # ps, rest)))"
  by pat_completeness auto
termination
  by (relation "measure length") (auto dest!: csi_find_Some)

declare csi_split.simps [simp del]

definition banner_visual_width :: "'i lib \<Rightarrow> string \<Rightarrow> int" where
  "banner_visual_width L s = stringWidth L (strip_csi s)"

section \<open>Cutting a banner line\<close>

definition ansi_reset :: string where "ansi_reset = [ESC] @ ''[0m''"

definition ensure_ansi_reset :: "string \<Rightarrow> string" where
  "ensure_ansi_reset s =
    (if str_contains s ([ESC] @ ''['') \<and> \<not> has_suffix s ansi_reset then s @ ansi_reset else s)"

text \<open>Writing runes until the budget is used up; the result says whether all of them fitted.\<close>

fun write_runes :: "'i lib \<Rightarrow> int \<Rightarrow> string list \<Rightarrow> string \<times> int \<Rightarrow> (string \<times> int) \<times> bool" where
  "write_runes L budget [] st = (st, True)"
| "write_runes L budget (r # rs) (out, visible) =
    (if budget < visible + runeWidth L r then ((out, visible), False)
     else write_runes L budget rs (out @ r, visible + runeWidth L r))"

definition write_body_up_to_budget :: "'i lib \<Rightarrow> int \<Rightarrow> string \<Rightarrow> string \<times> int \<Rightarrow> (string \<times> int) \<times> bool" where
  "write_body_up_to_budget L budget body st = write_runes L budget (go_runes body) st"

fun banner_clip :: "'i lib \<Rightarrow> int \<Rightarrow> (string \<times> string) list \<Rightarrow> string \<Rightarrow> string \<times> int \<Rightarrow> string" where
  "banner_clip L budget [] rest st = fst (fst (write_body_up_to_budget L budget rest st)) @ ellipsis"
| "banner_clip L budget ((body, q) # ps) rest st =
    (case write_body_up_to_budget L budget body st of
       ((out, visible), ok) \<Rightarrow> if \<not> ok then out @ ellipsis else banner_clip L budget ps rest (out @ q, visible))"

definition banner_truncate :: "'i lib \<Rightarrow> string \<Rightarrow> int \<Rightarrow> string" where
  "banner_truncate L s w =
    (if w \<le> 0 then []
     else if banner_visual_width L s \<le> w then ensure_ansi_reset s
     else case csi_split s of (ps, rest) \<Rightarrow> ensure_ansi_reset (banner_clip L (w - 1) ps rest ([], 0)))"

text \<open>\<open>boardViewModel.renderBanner\<close>: the first lines of the banner above the article list. \<open>dim\<close> is the style.\<close>

definition maxInlineBannerLines :: nat where "maxInlineBannerLines = 8"

definition em_dash :: string where "em_dash = [CHR 0xE2, CHR 0x80, CHR 0x94]"

definition render_banner :: "'i lib \<Rightarrow> (string \<Rightarrow> string) \<Rightarrow> int \<Rightarrow> board option \<Rightarrow> string" where
  "render_banner L dim screen_width b =
    (case b of
       None \<Rightarrow> []
     | Some b \<Rightarrow>
         if bBanner b = [] then []
         else let width = (if screen_width - 2 < 20 then 78 else screen_width - 2);
                  ls = split_byte NL (trim_right [NL] (bBanner b))
           in concat (map (\<lambda>l. ''  '' @ banner_truncate L l width @ [NL]) (take maxInlineBannerLines ls))
              @ (if maxInlineBannerLines < length ls
                 then ''  '' @ dim (ellipsis @ ''(banner truncated '' @ em_dash @ '' press b for full view)'') @ [NL] else [])
              @ [NL])"

section \<open>Sequences in longer texts\<close>

text \<open>A text that cannot continue a sequence begun before it.\<close>

definition breaks :: "string \<Rightarrow> bool" where
  "breaks t \<longleftrightarrow> t = [] \<or> \<not> (csi_param (hd t) \<or> is_letter (hd t) \<or> hd t = CHR ''['')"

lemma csi_len_append:
  assumes "s \<noteq> []" and "breaks t"
  shows "csi_len (s @ t) = csi_len s"
proof (cases s rule: csi_len.cases [case_names two nothing one])
  case (two a b u)
  show ?thesis
  proof (cases "\<forall>c \<in> set u. csi_param c")
    case True
    then have u: "takeWhile csi_param (u @ t) = u @ takeWhile csi_param t" "takeWhile csi_param u = u" by simp_all
    have "takeWhile csi_param t = []" using assms(2) by (cases t) (auto simp: breaks_def)
    with u(1) have ut: "takeWhile csi_param (u @ t) = u" by simp
    have "csi_len (s @ t) = (if a = ESC \<and> b = CHR ''['' then case t of [] \<Rightarrow> 0 | c # _ \<Rightarrow> if is_letter c then length u + 3 else 0 else 0)"
      unfolding two append_Cons csi_len.simps ut by simp
    moreover have "csi_len s = 0" using two by (simp add: u del: takeWhile_eq_all_conv)
    ultimately show ?thesis using assms(2) by (cases t) (simp_all add: breaks_def)
  next
    case False
    then have "takeWhile csi_param (u @ t) = takeWhile csi_param u" by (metis takeWhile_append1)
    moreover have "drop (length (takeWhile csi_param u)) u \<noteq> []" using False
      by (metis dropWhile_eq_drop dropWhile_eq_Nil_conv)
    moreover have "length (takeWhile csi_param u) \<le> length u" by (rule length_takeWhile_le)
    ultimately show ?thesis using two by (cases "drop (length (takeWhile csi_param u)) u") auto
  qed
next
  case (one a)
  with assms(2) show ?thesis by (cases t) (auto simp: breaks_def)
qed (use assms(1) in simp)

lemma strip_csi_append: "breaks t \<Longrightarrow> strip_csi (s @ t) = strip_csi s @ strip_csi t"
proof (induction s rule: strip_csi.induct)
  case (1 s)
  show ?case
  proof (cases "s = []")
    case True
    then show ?thesis by (simp add: strip_csi.simps [of "[]"])
  next
    case False
    note len = csi_len_append [OF False 1(3)]
    show ?thesis
    proof (cases "0 < csi_len s")
      case True
      with 1(1) [OF False True 1(3)] False len csi_len_le [of s] show ?thesis
        by (simp add: strip_csi.simps [of s] strip_csi.simps [of "s @ t"])
    next
      case no: False
      with 1(2) [OF False no 1(3)] False len show ?thesis
        by (simp add: strip_csi.simps [of s] strip_csi.simps [of "s @ t"])
    qed
  qed
qed

lemma strip_csi_seq: "csi_len (q @ r) = length q \<Longrightarrow> q \<noteq> [] \<Longrightarrow> strip_csi (q @ r) = strip_csi r"
  by (subst strip_csi.simps) simp

lemma csi_len_head: "0 < csi_len s \<Longrightarrow> hd s = ESC"
  by (cases s rule: csi_len.cases) (auto split: if_splits)

lemma breaks_ESC: "hd t = ESC \<Longrightarrow> breaks t"
  by (simp add: breaks_def ESC_def csi_param_def is_digit_def is_letter_def is_upper_def is_lower_def byte_of_def)

text \<open>A text in which no sequence begins.\<close>

definition csi_free :: "string \<Rightarrow> bool" where
  "csi_free s \<longleftrightarrow> (\<forall>i. csi_len (drop i s) = 0)"

lemma csi_free_Cons: "csi_free (c # s) \<longleftrightarrow> csi_len (c # s) = 0 \<and> csi_free s"
  unfolding csi_free_def by (metis drop0 drop_Suc_Cons not0_implies_Suc)

lemma csi_free_Nil [simp]: "csi_free []"
  by (simp add: csi_free_def)

lemma strip_csi_free: "csi_free s \<Longrightarrow> strip_csi s = s"
proof (induction s)
  case (Cons c s)
  then show ?case by (subst strip_csi.simps) (simp add: csi_free_Cons del: csi_len.simps)
qed (simp add: strip_csi.simps)

lemma csi_find_free: "csi_find s = None \<Longrightarrow> csi_free s"
  by (induction s) (auto simp: csi_free_Cons simp del: csi_len.simps split: if_splits)

lemma csi_find_body_free: "csi_find s = Some (body, q, r) \<Longrightarrow> csi_free body"
proof (induction s arbitrary: body)
  case (Cons c s)
  show ?case
  proof (cases "0 < csi_len (c # s)")
    case True
    with Cons.prems show ?thesis by (auto simp del: csi_len.simps)
  next
    case False
    then obtain body' where b: "body = c # body'" "csi_find s = Some (body', q, r)"
      using Cons.prems by (auto simp del: csi_len.simps)
    have s: "s = body' @ q @ r" "0 < length q" "csi_len (q @ r) = length q" using csi_find_Some [OF b(2)] by auto
    then have "breaks (q @ r)" using csi_len_head [of "q @ r"] by (intro breaks_ESC) simp
    then have "csi_len (c # body') = csi_len (c # s)" using csi_len_append [of "c # body'" "q @ r"] s(1) by simp
    with False Cons.IH [OF b(2)] b(1) show ?thesis by (simp add: csi_free_Cons del: csi_len.simps)
  qed
qed simp

text \<open>Re-encoding a part of such a text starts no sequence either: sequences are plain ASCII.\<close>

lemma rune_ascii_head:
  assumes "concat (take k (go_runes s)) = c # y" and "byte_of c < 128"
  shows "\<exists>s'. s = c # s' \<and> y = concat (take (k - 1) (go_runes s'))"
proof (cases s)
  case Nil
  with assms show ?thesis by simp
next
  case (Cons d s')
  with assms obtain k' where k: "k = Suc k'" by (cases k) auto
  show ?thesis
  proof (cases "byte_of d < 128")
    case True
    with assms Cons k show ?thesis by (simp add: go_runes_ascii)
  next
    case False
    have "\<exists>e u rs. go_runes s = (e # u) # rs \<and> \<not> byte_of e < 128"
    proof (cases "rune_len s")
      case None
      with Cons show ?thesis by (subst go_runes.simps) (simp add: rune_error_def byte_of_def)
    next
      case (Some n)
      with rune_len_bounds [OF this] obtain m where "n = Suc m" by (cases n) auto
      with Some Cons False show ?thesis by (subst go_runes.simps) simp
    qed
    with assms k show ?thesis by auto
  qed
qed

lemma rune_ascii_prefix:
  "concat (take k (go_runes s)) = q @ y \<Longrightarrow> \<forall>c \<in> set q. byte_of c < 128 \<Longrightarrow> \<exists>z. s = q @ z"
proof (induction q arbitrary: k s)
  case (Cons c q)
  from rune_ascii_head [of k s c "q @ y"] Cons.prems obtain s' where
    "s = c # s'" "q @ y = concat (take (k - 1) (go_runes s'))" by auto
  with Cons.IH [of "k - 1" s'] Cons.prems(2) show ?case by auto
qed simp

lemma csi_match:
  assumes "0 < csi_len s"
  shows "csi_len (take (csi_len s) s @ z) = csi_len s \<and> (\<forall>c \<in> set (take (csi_len s) s). byte_of c < 128)"
proof (cases s rule: csi_len.cases)
  case (1 a b u)
  define p where "p = takeWhile csi_param u"
  from assms 1 obtain c r where c: "drop (length p) u = c # r" "is_letter c" "a = ESC" "b = CHR ''[''"
    by (auto simp: p_def split: if_splits list.splits)
  have "u = p @ drop (length p) u" unfolding p_def by (metis takeWhile_eq_take append_take_drop_id)
  with c(1) have u: "u = p @ c # r" by simp
  have len: "csi_len s = Suc (Suc (Suc (length p)))" using 1 c by (simp add: p_def [symmetric])
  have np: "\<not> csi_param c" using c(2) by (auto simp: csi_param_def is_letter_def is_digit_def is_upper_def is_lower_def byte_of_def)
  have params: "\<forall>x \<in> set p. csi_param x" unfolding p_def by (auto dest: set_takeWhileD)
  have q: "take (csi_len s) s = a # b # p @ [c]" unfolding len by (simp add: 1(1) u)
  have tw: "takeWhile csi_param (p @ c # z) = p" using np params by simp
  have "csi_len ((a # b # p @ [c]) @ z) = csi_len s"
    unfolding append_Cons append_assoc append_Nil csi_len.simps tw len using c by simp
  moreover have "byte_of x < 128" if "x \<in> set p" for x
    using params that by (auto simp: csi_param_def is_digit_def byte_of_def)
  moreover have "byte_of c < 128" using c(2) by (auto simp: is_letter_def is_upper_def is_lower_def)
  ultimately show ?thesis unfolding q using len c by (auto simp: ESC_def byte_of_def)
qed (use assms in simp_all)

lemma csi_len_other: "c \<noteq> ESC \<Longrightarrow> csi_len (c # s) = 0"
  using csi_len_head [of "c # s"] by auto

lemma csi_free_prefix: "\<forall>c \<in> set r. c \<noteq> ESC \<Longrightarrow> csi_free x \<Longrightarrow> csi_free (r @ x)"
  by (induction r) (auto simp: csi_free_Cons csi_len_other simp del: csi_len.simps)

lemma csi_free_drop: "csi_free s \<Longrightarrow> csi_free (drop n s)"
  by (simp add: csi_free_def)

lemma wide_rune: "rune_len (d # s) = Some n \<Longrightarrow> \<not> byte_of d < 128 \<Longrightarrow> c \<in> set (take n (d # s)) \<Longrightarrow> \<not> byte_of c < 128"
  by (auto simp: Let_def is_cont_def split: if_splits list.splits)

lemma csi_free_runes: "csi_free s \<Longrightarrow> csi_free (concat (take k (go_runes s)))"
proof (induction s arbitrary: k rule: go_runes.induct)
  case (1 s)
  have esc: "byte_of ESC < 128" by (simp add: ESC_def byte_of_def)
  show ?case
  proof (cases "s = [] \<or> k = 0")
    case False
    then obtain d s' k' where s: "s = d # s'" "k = Suc k'" by (metis neq_Nil_conv not0_implies_Suc)
    show ?thesis
    proof (cases "rune_len s")
      case None
      have "csi_free (tl s)" using "1.prems" csi_free_drop [of s 1] by (simp add: drop_Suc)
      with "1.IH"(1) [OF _ None, of k'] s have "csi_free (concat (take k' (go_runes (tl s))))" by simp
      moreover have "go_runes s = rune_error # go_runes (tl s)" using None s by (subst go_runes.simps) simp
      ultimately show ?thesis using s(2) csi_free_prefix [of rune_error] by (simp add: rune_error_def ESC_def)
    next
      case (Some n)
      have g: "go_runes s = take n s # go_runes (drop n s)" using Some s by (subst go_runes.simps) simp
      have rest: "csi_free (concat (take k' (go_runes (drop n s))))"
        using "1.IH"(2) [OF _ Some, of k'] s csi_free_drop [OF "1.prems"] by simp
      show ?thesis
      proof (cases "byte_of d < 128")
        case True
        with Some s have "n = 1" by (simp add: ascii_rune_len del: rune_len.simps)
        have "csi_len (d # concat (take k' (go_runes (drop n s)))) = 0"
        proof (rule ccontr)
          let ?x = "concat (take k (go_runes s))"
          assume "\<not> ?thesis"
          then have pos: "0 < csi_len ?x" using g s \<open>n = 1\<close> by simp
          then obtain z where "s = take (csi_len ?x) ?x @ z"
            using rune_ascii_prefix [of k s "take (csi_len ?x) ?x" "drop (csi_len ?x) ?x"] csi_match [OF pos] by auto
          then have "0 < csi_len s" using csi_match [OF pos, of z] pos by simp
          with "1.prems" show False unfolding csi_free_def by (metis drop0 less_numeral_extra(3))
        qed
        with rest g s \<open>n = 1\<close> show ?thesis by (simp add: csi_free_Cons del: csi_len.simps)
      next
        case False
        then have "\<forall>c \<in> set (take n s). c \<noteq> ESC" using wide_rune [of d s' n] Some s esc by blast
        with rest g s show ?thesis by (simp add: csi_free_prefix)
      qed
    qed
  qed auto
qed

section \<open>The budget is kept\<close>

text \<open>The runes a budget admits, from the first on.\<close>

fun fitting :: "'i lib \<Rightarrow> int \<Rightarrow> string list \<Rightarrow> string list" where
  "fitting L b [] = []"
| "fitting L b (r # rs) = (if b < runeWidth L r then [] else r # fitting L (b - runeWidth L r) rs)"

abbreviation runes_width :: "'i lib \<Rightarrow> string list \<Rightarrow> int" where
  "runes_width L rs \<equiv> sum_list (map (runeWidth L) rs)"

lemma write_runes_fitting:
  "write_runes L budget rs (out, v) =
    ((out @ concat (fitting L (budget - v) rs), v + runes_width L (fitting L (budget - v) rs)), fitting L (budget - v) rs = rs)"
  by (induction rs arbitrary: out v) (auto simp: algebra_simps)

lemma fitting_append:
  "fitting L b (xs @ ys) = (if fitting L b xs = xs then xs @ fitting L (b - runes_width L xs) ys else fitting L b xs)"
  by (induction xs arbitrary: b) (auto simp: algebra_simps)

lemma fitting_set: "set (fitting L b rs) \<subseteq> set rs"
  by (induction rs arbitrary: b) auto

lemma fitting_width: "0 \<le> b \<Longrightarrow> runes_width L (fitting L b rs) \<le> b"
proof (induction rs arbitrary: b)
  case (Cons r rs)
  have "runes_width L (fitting L (b - runeWidth L r) rs) \<le> b - runeWidth L r" if "\<not> b < runeWidth L r"
    using that by (intro Cons.IH) simp
  with Cons.prems show ?case by (simp add: le_diff_eq add.commute)
qed simp

lemma fitting_longest:
  assumes "0 \<le> b"
  obtains k where "fitting L b rs = take k rs" and "k \<le> length rs" and "\<forall>j \<le> k. runes_width L (take j rs) \<le> b"
    and "k < length rs \<longrightarrow> b < runes_width L (take (Suc k) rs)"
proof -
  have "\<exists>k. fitting L b rs = take k rs \<and> k \<le> length rs \<and> (\<forall>j \<le> k. runes_width L (take j rs) \<le> b)
      \<and> (k < length rs \<longrightarrow> b < runes_width L (take (Suc k) rs))"
    using assms
  proof (induction rs arbitrary: b)
    case (Cons r rs)
    show ?case
    proof (cases "b < runeWidth L r")
      case True
      with Cons.prems show ?thesis by (intro exI [of _ 0]) simp
    next
      case False
      with Cons.IH [of "b - runeWidth L r"] obtain k where k: "fitting L (b - runeWidth L r) rs = take k rs" "k \<le> length rs"
        "\<forall>j \<le> k. runes_width L (take j rs) \<le> b - runeWidth L r" "k < length rs \<longrightarrow> b - runeWidth L r < runes_width L (take (Suc k) rs)"
        by auto
      have "runes_width L (take j (r # rs)) \<le> b" if "j \<le> Suc k" for j
        using k(3) that Cons.prems by (cases j) (simp_all add: le_diff_eq add.commute)
      with False k show ?thesis by (intro exI [of _ "Suc k"]) (simp add: less_diff_eq diff_less_eq add.commute)
    qed
  qed simp
  then show thesis using that by blast
qed

definition sealed :: "string \<Rightarrow> bool" where
  "sealed out \<longleftrightarrow> (\<forall>t. strip_csi (out @ t) = strip_csi out @ strip_csi t)"

definition clip_inv :: "'i lib \<Rightarrow> int \<Rightarrow> string list \<Rightarrow> string \<times> int \<Rightarrow> bool" where
  "clip_inv L budget rs st \<longleftrightarrow>
    (case st of (out, v) \<Rightarrow> sealed out \<and> v \<le> budget \<and> (\<forall>t. go_runes (concat rs @ t) = rs @ go_runes t)
       \<and> strip_csi out = concat rs \<and> v = runes_width L rs)"

lemma write_body_inv:
  assumes "clip_inv L budget rs (out, v)" and "csi_free body"
    and "write_body_up_to_budget L budget body (out, v) = ((out', v'), ok)" and "ws = fitting L (budget - v) (go_runes body)"
  shows "v' \<le> budget" "out' = out @ concat ws" "csi_free (concat ws)" "go_runes (concat (rs @ ws) @ t) = (rs @ ws) @ go_runes t"
    "strip_csi out' = concat (rs @ ws)" "v' = runes_width L (rs @ ws)" "ok \<longleftrightarrow> ws = go_runes body"
proof -
  have k: "out' = out @ concat ws" "v' = v + runes_width L ws" "ok \<longleftrightarrow> ws = go_runes body"
    using assms(3,4) by (auto simp: write_body_up_to_budget_def write_runes_fitting)
  have rs: "\<And>t. go_runes (concat rs @ t) = rs @ go_runes t" "strip_csi out = concat rs" "v = runes_width L rs" "sealed out" "v \<le> budget"
    using assms(1) by (auto simp: clip_inv_def)
  obtain n where "ws = take n (go_runes body)" using fitting_longest [of "budget - v" L "go_runes body"] rs(5) assms(4) by auto
  then show free: "csi_free (concat ws)" using csi_free_runes [OF assms(2)] by simp
  show "out' = out @ concat ws" "ok \<longleftrightarrow> ws = go_runes body" "v' = runes_width L (rs @ ws)" using k rs(3) by simp_all
  show "v' \<le> budget" using fitting_width [of "budget - v" L "go_runes body"] rs(5) k(2) assms(4) by simp
  show "strip_csi out' = concat (rs @ ws)" using k(1) rs(2,4) strip_csi_free [OF free] by (simp add: sealed_def)
  show "go_runes (concat (rs @ ws) @ t) = (rs @ ws) @ go_runes t"
    using rs(1) go_runes_concat [of ws body t] fitting_set [of L "budget - v" "go_runes body"] assms(4) by simp
qed

lemma sealed_next:
  assumes "sealed out" and "csi_free b" and "q \<noteq> []" and "\<And>z. csi_len (q @ z) = length q"
  shows "sealed (out @ b @ q) \<and> strip_csi (out @ b @ q) = strip_csi (out @ b)"
proof -
  have br: "breaks (q @ t)" for t
    using assms(3,4) csi_len_head [of "q @ t"] by (intro breaks_ESC) simp
  have q: "strip_csi (q @ t) = strip_csi t" for t using assms(3,4) by (simp add: strip_csi_seq)
  have "strip_csi (out @ b @ q @ t) = strip_csi out @ b @ strip_csi t" for t
    using assms(1) strip_csi_append [OF br, of b t] strip_csi_free [OF assms(2)] q by (simp add: sealed_def)
  from this this [of "[]"] show ?thesis
    using assms(1) strip_csi_free [OF assms(2)] by (simp add: sealed_def strip_csi.simps [of "[]"])
qed

lemma go_runes_ellipsis: "go_runes ellipsis = [ellipsis]"
proof -
  have "rune_len ellipsis = Some 3" by (simp add: ellipsis_def is_cont_def byte_of_def)
  from go_runes_append_head [OF this, of "[]"] show ?thesis by (simp add: ellipsis_def)
qed

lemma breaks_ellipsis: "breaks ellipsis"
  by (simp add: breaks_def ellipsis_def csi_param_def is_digit_def is_letter_def is_upper_def is_lower_def byte_of_def)

lemma strip_ellipsis: "strip_csi (s @ ellipsis) = strip_csi s @ ellipsis"
proof -
  have "csi_free ellipsis" by (auto simp: ellipsis_def csi_free_Cons csi_len_other ESC_def)
  with strip_csi_append [OF breaks_ellipsis, of s] strip_csi_free show ?thesis by simp
qed

lemma strip_reset: "strip_csi (ensure_ansi_reset s) = strip_csi s"
proof -
  have "breaks ansi_reset" by (intro breaks_ESC) (simp add: ansi_reset_def)
  moreover have "csi_len (ansi_reset @ []) = length ansi_reset" 
    by (simp add: ansi_reset_def csi_param_def is_digit_def is_letter_def is_upper_def is_lower_def byte_of_def)
  ultimately show ?thesis using strip_csi_append [of ansi_reset s] strip_csi_seq [of ansi_reset "[]"]
    by (simp add: ensure_ansi_reset_def strip_csi.simps [of "[]"]) (simp add: ansi_reset_def)
qed

definition pieces_ok :: "(string \<times> string) list \<Rightarrow> string \<Rightarrow> bool" where
  "pieces_ok ps rest \<longleftrightarrow> csi_free rest \<and>
    (\<forall>(b, q) \<in> set ps. csi_free b \<and> q \<noteq> [] \<and> (\<forall>z. csi_len (q @ z) = length q))"

lemma csi_split_ok: "csi_split s = (ps, rest) \<Longrightarrow> pieces_ok ps rest"
proof (induction s arbitrary: ps rest rule: csi_split.induct)
  case (1 s)
  show ?case
  proof (cases "csi_find s")
    case None
    with 1(2) csi_find_free show ?thesis by (subst (asm) csi_split.simps) (auto simp: pieces_ok_def)
  next
    case (Some x)
    obtain body q r where x: "csi_find s = Some (body, q, r)" using Some by (cases x) auto
    obtain ps' rest' where r: "csi_split r = (ps', rest')" by (metis surj_pair)
    have "ps = (body, q) # ps'" "rest = rest'" using 1(2) x r by (auto simp: csi_split.simps [of s])
    moreover have "pieces_ok ps' rest'" using 1(1) [OF x] r by blast
    moreover have "csi_len (q @ z) = length q \<and> q \<noteq> []" for z
      using csi_find_Some [OF x] csi_match [of "q @ r" z] by auto
    ultimately show ?thesis using csi_find_body_free [OF x] by (auto simp: pieces_ok_def)
  qed
qed

text \<open>The runes of what is between the sequences. In valid UTF-8 they are the runes of the text without the sequences.\<close>

definition piece_runes :: "(string \<times> string) list \<Rightarrow> string \<Rightarrow> string list" where
  "piece_runes ps rest = concat (map (go_runes \<circ> fst) ps) @ go_runes rest"

lemma piece_runes_simps [simp]:
  "piece_runes [] rest = go_runes rest" "piece_runes ((b, q) # ps) rest = go_runes b @ piece_runes ps rest"
  by (simp_all add: piece_runes_def)

definition visible_runes :: "string \<Rightarrow> string list" where
  "visible_runes s = (case csi_split s of (ps, rest) \<Rightarrow> piece_runes ps rest)"

lemma go_runes_valid_append: "valid_utf8 b \<Longrightarrow> go_runes (b @ t) = go_runes b @ go_runes t"
  using go_runes_concat [of "go_runes b" b t] by (simp add: concat_go_runes)

lemma rune_len_before_ascii:
  assumes "rune_len (b @ t) = Some n" and "b \<noteq> []" and "t = [] \<or> byte_of (hd t) < 128"
  shows "rune_len b = Some n"
  using assms by (cases t; cases b; auto simp: Let_def is_cont_def split: if_splits list.splits)

lemma valid_utf8_before_ascii:
  "valid_utf8 (b @ t) \<Longrightarrow> t = [] \<or> byte_of (hd t) < 128 \<Longrightarrow> valid_utf8 b \<and> valid_utf8 t"
proof (induction b rule: valid_utf8.induct)
  case (1 b)
  show ?case
  proof (cases "b = []")
    case False
    with "1.prems"(1) obtain n where n: "rune_len (b @ t) = Some n" "valid_utf8 (drop n (b @ t))"
      by (subst (asm) valid_utf8.simps) (auto split: option.splits)
    have b: "rune_len b = Some n" using rune_len_before_ascii [OF n(1) False "1.prems"(2)] .
    with rune_len_bounds [OF b] n(2) have "valid_utf8 (drop n b @ t)" by simp
    from "1.IH" [OF False b this "1.prems"(2)] False b show ?thesis by (subst valid_utf8.simps) simp
  qed (use "1.prems" in simp)
qed

lemma valid_utf8_after_ascii: "valid_utf8 (q @ r) \<Longrightarrow> \<forall>c \<in> set q. byte_of c < 128 \<Longrightarrow> valid_utf8 r"
  by (induction q) (auto simp: valid_utf8.simps [of "_ # _"] ascii_rune_len simp del: rune_len.simps)

lemma visible_runes_valid: "valid_utf8 s \<Longrightarrow> visible_runes s = go_runes (strip_csi s)"
proof (induction s rule: csi_split.induct)
  case (1 s)
  show ?case
  proof (cases "csi_find s")
    case None
    with csi_find_free [OF None] show ?thesis by (simp add: visible_runes_def csi_split.simps [of s] strip_csi_free)
  next
    case (Some x)
    obtain body q r where x: "csi_find s = Some (body, q, r)" using Some by (cases x) auto
    have s: "s = body @ q @ r" "0 < length q" "csi_len (q @ r) = length q" using csi_find_Some [OF x] by auto
    then have q: "\<forall>c \<in> set q. byte_of c < 128" using csi_match [of "q @ r" "[]"] by simp
    moreover have "byte_of (hd (q @ r)) < 128" using q s(2) by (cases q) simp_all
    ultimately have v: "valid_utf8 body" "valid_utf8 r"
      using valid_utf8_before_ascii [of body "q @ r"] valid_utf8_after_ascii [of q r] "1.prems" s(1) by auto
    have "breaks (q @ r)" using s csi_len_head [of "q @ r"] by (intro breaks_ESC) simp
    then have "strip_csi s = body @ strip_csi r"
      using strip_csi_append strip_csi_free [OF csi_find_body_free [OF x]] strip_csi_seq [OF s(3)] s(1,2) by simp
    moreover have "visible_runes s = go_runes body @ visible_runes r"
      using x by (simp add: visible_runes_def csi_split.simps [of s] split: prod.split)
    ultimately show ?thesis using "1.IH" [OF x] v by (simp add: go_runes_valid_append)
  qed
qed

text \<open>What the loop builds: the runes that fit, then the ellipsis.\<close>

lemma banner_clip_width:
  assumes "pieces_ok ps rest" and "clip_inv L budget rs (out, v)"
    and "us = rs @ fitting L (budget - v) (piece_runes ps rest)"
  shows "strip_csi (banner_clip L budget ps rest (out, v)) = concat us @ ellipsis \<and> go_runes (concat us @ ellipsis) = us @ [ellipsis]"
  using assms
proof (induction L budget ps rest "(out, v)" arbitrary: rs out v rule: banner_clip.induct)
  case (1 L budget rest out v)
  obtain out' v' ok where w: "write_body_up_to_budget L budget rest (out, v) = ((out', v'), ok)" by (metis surj_pair)
  have "csi_free rest" using 1 by (simp add: pieces_ok_def)
  note b = write_body_inv(4,5) [OF 1(2) this w refl]
  have "strip_csi (out' @ ellipsis) = concat us @ ellipsis" using 1(3) by (simp add: strip_ellipsis b(2))
  moreover have "go_runes (concat us @ ellipsis) = us @ [ellipsis]" using 1(3) b(1) [of ellipsis] by (simp add: go_runes_ellipsis)
  ultimately show ?case using w by simp
next
  case (2 L budget body q ps rest out v)
  obtain out' v' ok where w: "write_body_up_to_budget L budget body (out, v) = ((out', v'), ok)" by (metis surj_pair)
  have free: "csi_free body" using 2(2) by (simp add: pieces_ok_def)
  let ?ws = "fitting L (budget - v) (go_runes body)"
  note b = write_body_inv [OF 2(3) free w refl]
  show ?case
  proof (cases ok)
    case True
    then have ws: "?ws = go_runes body" using b(7) by simp
    have "sealed out" using 2(3) by (simp add: clip_inv_def)
    then have "sealed (out' @ q) \<and> strip_csi (out' @ q) = strip_csi out'"
      using sealed_next [OF _ b(3), of out q] 2(2) b(2) by (auto simp: pieces_ok_def)
    with b have inv: "clip_inv L budget (rs @ ?ws) (out' @ q, v')" by (auto simp: clip_inv_def)
    have ok: "pieces_ok ps rest" using 2(2) by (simp add: pieces_ok_def)
    have v: "v = runes_width L rs" using 2(3) by (simp add: clip_inv_def)
    have "us = (rs @ ?ws) @ fitting L (budget - v') (piece_runes ps rest)"
      using 2(4) ws b(6) v by (simp add: fitting_append algebra_simps)
    with 2(1) [OF w [symmetric] refl _ ok inv] w True show ?thesis by simp
  next
    case False
    then have "us = rs @ ?ws" using 2(4) b(7) by (simp add: fitting_append)
    then have "strip_csi (out' @ ellipsis) = concat us @ ellipsis" "go_runes (concat us @ ellipsis) = us @ [ellipsis]"
      using b(5) b(4) [of ellipsis] by (simp_all add: strip_ellipsis go_runes_ellipsis)
    with False w show ?thesis by simp
  qed
qed

text \<open>The width of a text is at most the sum of the widths of its runes; combining ones make it smaller.\<close>

definition width_law :: "'i lib \<Rightarrow> bool" where
  "width_law L \<longleftrightarrow> (\<forall>s. stringWidth L s \<le> sum_list (map (runeWidth L) (go_runes s)))"

text \<open>C33: a banner line that fits is shown whole; of a longer one is shown, without its colour codes, the longest beginning that
  takes at most one cell less than the width, and then the ellipsis, so it stays within the width exactly when the
  terminal's width table gives the ellipsis one cell. Colour codes are not counted, and a line that
  has any ends with a reset, so its colours never leak.\<close>

theorem banner_keeps_width:
  assumes "width_law L" and "0 < w"
  shows "(if banner_visual_width L s \<le> w then strip_csi (banner_truncate L s w) = strip_csi s
      else banner_visual_width L (banner_truncate L s w) \<le> w - 1 + runeWidth L ellipsis
        \<and> (\<exists>k \<le> length (visible_runes s). strip_csi (banner_truncate L s w) = concat (take k (visible_runes s)) @ ellipsis
            \<and> (\<forall>j \<le> k. runes_width L (take j (visible_runes s)) \<le> w - 1)
            \<and> (k < length (visible_runes s) \<longrightarrow> w - 1 < runes_width L (take (Suc k) (visible_runes s)))))
    \<and> (valid_utf8 s \<longrightarrow> visible_runes s = go_runes (strip_csi s))
    \<and> (str_contains (banner_truncate L s w) ([ESC] @ ''['') \<longrightarrow> has_suffix (banner_truncate L s w) ansi_reset)"
proof -
  have reset: "str_contains (ensure_ansi_reset x) ([ESC] @ ''['') \<longrightarrow> has_suffix (ensure_ansi_reset x) ansi_reset" for x
    by (auto simp: ensure_ansi_reset_def has_suffix_iff)
  obtain ps rest where ps: "csi_split s = (ps, rest)" by (metis surj_pair)
  obtain k where k: "fitting L (w - 1) (visible_runes s) = take k (visible_runes s)" "k \<le> length (visible_runes s)"
    "\<forall>j \<le> k. runes_width L (take j (visible_runes s)) \<le> w - 1"
    "k < length (visible_runes s) \<longrightarrow> w - 1 < runes_width L (take (Suc k) (visible_runes s))"
    using fitting_longest [of "w - 1" L "visible_runes s"] assms(2) by auto
  let ?us = "take k (visible_runes s)"
  have "clip_inv L (w - 1) [] ([], 0)" using assms(2) by (simp add: clip_inv_def sealed_def strip_csi.simps [of "[]"])
  moreover have "?us = [] @ fitting L (w - 1 - 0) (piece_runes ps rest)" using k(1) ps by (simp add: visible_runes_def)
  ultimately have strip: "strip_csi (banner_clip L (w - 1) ps rest ([], 0)) = concat ?us @ ellipsis"
    "go_runes (concat ?us @ ellipsis) = ?us @ [ellipsis]"
    using banner_clip_width [OF csi_split_ok [OF ps]] by blast+
  have "stringWidth L (concat ?us @ ellipsis) \<le> runes_width L (?us @ [ellipsis])"
    using assms(1) strip(2) unfolding width_law_def by metis
  moreover have "runes_width L ?us \<le> w - 1" using k(3) by blast
  ultimately have width: "stringWidth L (concat ?us @ ellipsis) \<le> w - 1 + runeWidth L ellipsis" by simp
  show ?thesis
  proof (cases "banner_visual_width L s \<le> w")
    case True
    then have "banner_truncate L s w = ensure_ansi_reset s" using assms(2) by (simp add: banner_truncate_def)
    with True reset [of s] show ?thesis by (simp add: strip_reset visible_runes_valid)
  next
    case False
    then have t: "banner_truncate L s w = ensure_ansi_reset (banner_clip L (w - 1) ps rest ([], 0))"
      using assms(2) ps by (simp add: banner_truncate_def)
    have "strip_csi (banner_truncate L s w) = concat ?us @ ellipsis" unfolding t strip_reset by (rule strip(1))
    with False width reset k visible_runes_valid show ?thesis unfolding t banner_visual_width_def [of L "ensure_ansi_reset _"] by auto
  qed
qed

lemma banner_keeps_width_witness:
  "banner_visual_width demo_lib (banner_truncate demo_lib ''hello'' 3) \<le> 3"
proof -
  have ones: "sum_list (map (\<lambda>_. 1 :: int) rs) = int (length rs)" for rs :: "string list" by (induction rs) simp_all
  have "width_law demo_lib" by (simp add: width_law_def demo_lib_def rune_count_def ones)
  from banner_keeps_width [OF this, of 3 "''hello''"] show ?thesis
    by (cases "banner_visual_width demo_lib ''hello'' \<le> 3") (simp_all add: demo_lib_def banner_visual_width_def)
qed

end
