(* ===== verification/SessionDB.thy ===== *)
theory SessionDB
  imports RootInv
begin

text \<open>
  The screens change the database through the repositories only. Whatever every write of the repositories
  keeps, every update of every screen keeps, and so does a whole session. The writes of a session name its
  user, so a property need only survive those of one user.
\<close>

section \<open>Updates that keep a property of the database\<close>

definition kept :: "(db \<Rightarrow> bool) \<Rightarrow> 'm \<times> session_state \<Rightarrow> bool" where
  "kept Q r \<longleftrightarrow> Q (seDB (snd r))"

lemma kept_simps [simp]:
  "kept Q (x, w) \<longleftrightarrow> Q (seDB w)" "kept Q (stay m w) \<longleftrightarrow> Q (seDB w)" "kept Q (goto n m w) \<longleftrightarrow> Q (seDB w)"
  "kept Q (crash m w) \<longleftrightarrow> Q (seDB w)" "kept Q (lift_sub C r) = kept Q r"
  by (simp_all add: kept_def stay_def goto_def crash_def lift_sub_def split: prod.splits)

lemma kept_if: "(b \<Longrightarrow> kept Q r) \<Longrightarrow> (\<not> b \<Longrightarrow> kept Q r') \<Longrightarrow> kept Q (if b then r else r')"
  by simp

lemma kept_option:
  "(x = None \<Longrightarrow> kept Q r) \<Longrightarrow> (\<And>y. x = Some y \<Longrightarrow> kept Q (f y)) \<Longrightarrow> kept Q (case x of None \<Rightarrow> r | Some y \<Rightarrow> f y)"
  by (cases x) auto

lemma kept_sum:
  "(\<And>e. x = Inl e \<Longrightarrow> kept Q (f e)) \<Longrightarrow> (\<And>y. x = Inr y \<Longrightarrow> kept Q (g y)) \<Longrightarrow>
    kept Q (case x of Inl e \<Rightarrow> f e | Inr y \<Rightarrow> g y)"
  by (cases x) auto

lemma kept_on_db:
  assumes "\<And>d. Q d \<Longrightarrow> Q (snd (h d))" and "seUser w = U" and "Q (seDB w)"
    and "\<And>e w1. seUser w1 = U \<Longrightarrow> Q (seDB w1) \<Longrightarrow> kept Q (f e w1)"
    and "\<And>v w1. seUser w1 = U \<Longrightarrow> Q (seDB w1) \<Longrightarrow> kept Q (g v w1)"
  shows "kept Q (case on_db h w of (Inl e, w1) \<Rightarrow> f e w1 | (Inr v, w1) \<Rightarrow> g v w1)"
proof -
  obtain x w1 where x: "on_db h w = (x, w1)" by (metis surj_pair)
  then have "seDB w1 = snd (h (seDB w))" "seUser w1 = seUser w" using on_db_fields(1,3) [of h w] by simp_all
  with assms(1-3) have "seUser w1 = U" "Q (seDB w1)" by simp_all
  with assms(4,5) x show ?thesis by (cases x) auto
qed

lemma refresh_user_db [simp]: "seDB (refresh_user w) = seDB w"
  by (simp add: refresh_user_def split: option.split sum.split)

lemma announce_db [simp]:
  "seDB (announce_push L u a k body w) = seDB w" "seDB (announce_article L u b art t p w) = seDB w"
  by (simp_all add: announce_push_def announce_article_def Let_def split: option.split)

lemma choose_item_db [simp]: "kept Q (choose_item it m w) \<longleftrightarrow> Q (seDB w)"
  by (simp add: choose_item_def split: option.split)

section \<open>The writes of a session\<close>

text \<open>
  Every write a session makes names the session's user as its author, sender, owner or requester, with the
  role the session last read from the database. Only the mark of a water balloon or a mail as read names nobody. Two
  writes take a licence: the registration form creates accounts, the user administration sets roles.
\<close>

datatype licence = Registers | Administers

definition acting_id :: "user option \<Rightarrow> int" where
  "acting_id U = (case U of None \<Rightarrow> 0 | Some u \<Rightarrow> uID u)"

lemma acting_id_Some [simp]: "acting_id (Some u) = uID u"
  by (simp add: acting_id_def)

lemma session_uid_acting: "session_uid w = acting_id (seUser w)"
  by (simp add: session_uid_def acting_id_def)

inductive acts :: "licence set \<Rightarrow> user option \<Rightarrow> db \<Rightarrow> db \<Rightarrow> bool" for L U where
  registers: "Registers \<in> L \<Longrightarrow> acts L U d (snd (register gen dflt x p nick email now d))"
| sets_role: "Administers \<in> L \<Longrightarrow> acts L U d (snd (users_set_role i r d))"
| counts_post: "U = Some u \<Longrightarrow> acts L U d (snd (users_increment_posts (uID u) d))"
| sets_password: "U = Some u \<Longrightarrow> acts L U d (snd (users_set_password (uID u) hash d))"
| sets_locale: "U = Some u \<Longrightarrow> acts L U d (snd (users_set_locale (uID u) loc d))"
| sets_bio: "U = Some u \<Longrightarrow> acts L U d (snd (users_set_bio (uID u) bio d))"
| edits_banner: "U = Some u \<Longrightarrow> acts L U d (snd (boards_update_banner i (uID u) (uRole u) banner d))"
| posts: "U = Some u \<Longrightarrow> acts L U d (snd (articles_create b (uID u) (uUserID u) t s now d))"
| deletes: "U = Some u \<Longrightarrow> acts L U d (snd (articles_delete i (uID u) (uRole u) d))"
| edits: "U = Some u \<Longrightarrow> acts L U d (snd (article_repo_update i (uID u) (uRole u) t s now d))"
| pins: "U = Some u \<Longrightarrow> acts L U d (snd (articles_set_pinned i (uID u) (uRole u) pin now d))"
| sets_mode: "U = Some u \<Longrightarrow> acts L U d (snd (articles_set_comments_mode i (uID u) (uRole u) m d))"
| pushes_on: "U = Some u \<Longrightarrow> acts L U d (snd (pushes_create a (uID u) (uUserID u) k s now d))"
| takes_back: "U = Some u \<Longrightarrow> acts L U d (snd (pushes_delete i (uID u) (uRole u) d))"
| sends_wb: "U = Some u \<Longrightarrow> acts L U d (snd (wbs_insert (uID u) (uUserID u) t s l now d))"
| reads_wb: "acts L U d (snd (wbs_mark_read i now d))"
| reads_conversation: "acts L U d (snd (wbs_mark_conversation_read (acting_id U) c now d))"
| sends_mail: "U = Some u \<Longrightarrow> acts L U d (snd (mails_insert (uID u) (uUserID u) t subj s parent now d))"
| reads_mail: "acts L U d (snd (mails_mark_read i now d))"
| sets_prefs: "U = Some u \<Longrightarrow> acts L U d (snd (notify_set_prefs (uID u) p d))"
| stores_target: "U = Some u \<Longrightarrow> acts L U d (snd (store_target (uID u) label url ts i now d))"
| enables_target: "acts L U d (snd (notify_set_target_enabled t (acting_id U) e d))"
| deletes_target: "acts L U d (snd (notify_delete_target t (acting_id U) d))"

text \<open>
  A property that every write of a session of user \<open>U\<close> keeps: the screens of such a session keep it. The
  screens of the two licences have lemmas of their own.
\<close>

locale session_kept =
  fixes Q :: "db \<Rightarrow> bool" and G :: "licence set" and U :: "user option"
  assumes act: "acts G U d d' \<Longrightarrow> Q d \<Longrightarrow> Q d'"
begin

lemmas acted = acts.intros [THEN act]

lemmas rules = kept_if kept_on_db kept_option kept_sum

lemma send_wb_kept: "seUser w = U \<Longrightarrow> U = Some u \<Longrightarrow> Q (seDB w) \<Longrightarrow> kept Q (send_wb u to_id body w)"
  unfolding send_wb_def by (intro rules) (simp_all add: acted session_uid_acting Let_def)

lemma main_menu_kept: "seUser w = U \<Longrightarrow> Q (seDB w) \<Longrightarrow> kept Q (main_menu_update msg m w)"
  unfolding main_menu_update_def by (cases msg; simp split del: if_split; (intro rules)?) simp_all

lemma user_settings_kept: "seUser w = U \<Longrightarrow> Q (seDB w) \<Longrightarrow> kept Q (user_settings_update msg m w)"
  unfolding user_settings_update_def by (cases msg; simp split del: if_split; (intro rules)?) (simp_all)

lemma online_kept: "seUser w = U \<Longrightarrow> Q (seDB w) \<Longrightarrow> kept Q (online_update msg m w)"
  unfolding online_update_def by (cases msg; simp split del: if_split; (intro rules)?) (simp_all)

lemma board_splash_kept: "seUser w = U \<Longrightarrow> Q (seDB w) \<Longrightarrow> kept Q (board_splash_update msg m w)"
  unfolding board_splash_update_def by (cases msg) simp_all

lemma locale_save_kept: "seUser w = U \<Longrightarrow> Q (seDB w) \<Longrightarrow> kept Q (locale_save m w)"
  unfolding locale_save_def Let_def by (intro rules) (simp_all add: acted session_uid_acting)

lemma locale_settings_kept: "seUser w = U \<Longrightarrow> Q (seDB w) \<Longrightarrow> kept Q (locale_settings_update msg m w)"
  unfolding locale_settings_update_def by (cases msg; simp split del: if_split; (intro rules locale_save_kept)?) (simp_all)

lemma board_list_key_kept: "seUser w = U \<Longrightarrow> Q (seDB w) \<Longrightarrow> kept Q (board_list_key L key m w)"
  unfolding board_list_key_def by (intro rules) (simp_all)

lemma board_list_search_kept: "seUser w = U \<Longrightarrow> Q (seDB w) \<Longrightarrow> kept Q (board_list_search_key L key m w)"
  unfolding board_list_search_key_def Let_def by (intro rules) (simp_all)

lemma board_list_kept: "seUser w = U \<Longrightarrow> Q (seDB w) \<Longrightarrow> kept Q (board_list_update L msg m w)"
  unfolding board_list_update_def by (cases msg; simp split del: if_split; (intro rules board_list_key_kept board_list_search_kept)?) (simp_all)

lemma toggle_pin_kept: "seUser w = U \<Longrightarrow> Q (seDB w) \<Longrightarrow> kept Q (toggle_pin m w)"
  unfolding toggle_pin_def Let_def prod.case by (intro rules) (simp_all add: acted session_uid_acting)

lemma board_view_key_kept: "seUser w = U \<Longrightarrow> Q (seDB w) \<Longrightarrow> kept Q (board_view_key L key m w)"
  unfolding board_view_key_def Let_def by (intro rules toggle_pin_kept) (simp_all)

lemma board_view_search_kept: "seUser w = U \<Longrightarrow> Q (seDB w) \<Longrightarrow> kept Q (board_view_search_key L key m w)"
  unfolding board_view_search_key_def by (intro rules) (simp_all)

lemma board_view_kept: "seUser w = U \<Longrightarrow> Q (seDB w) \<Longrightarrow> kept Q (board_view_update L msg m w)"
  unfolding board_view_update_def by (cases msg; simp split del: if_split; (intro rules board_view_key_kept board_view_search_kept)?) (simp_all)

lemma banner_edit_submit_kept: "seUser w = U \<Longrightarrow> Q (seDB w) \<Longrightarrow> kept Q (banner_edit_submit L m w)"
  unfolding banner_edit_submit_def by (intro rules) (simp_all add: acted session_uid_acting)

lemma banner_edit_kept: "seUser w = U \<Longrightarrow> Q (seDB w) \<Longrightarrow> kept Q (banner_edit_update L msg m w)"
  unfolding banner_edit_update_def Let_def by (cases msg; simp split del: if_split; (intro rules banner_edit_submit_kept)?) (simp_all)

lemma wb_inbox_kept: "seUser w = U \<Longrightarrow> Q (seDB w) \<Longrightarrow> kept Q (wb_inbox_update msg m w)"
  unfolding wb_inbox_update_def by (cases msg; simp split del: if_split; (intro rules)?) (simp_all)

lemma mail_inbox_kept: "seUser w = U \<Longrightarrow> Q (seDB w) \<Longrightarrow> kept Q (mail_inbox_update msg m w)"
  unfolding mail_inbox_update_def Let_def
  by (cases msg; simp split del: if_split; (intro rules)?) (simp_all)

lemma kept_send_wb:
  assumes "seUser w = U" and "U = Some u" and "Q (seDB w)"
    and "\<And>e w1. Q (seDB w1) \<Longrightarrow> kept Q (f e w1)" and "\<And>v w1. Q (seDB w1) \<Longrightarrow> kept Q (g v w1)"
  shows "kept Q (case send_wb u i body w of (Inl e, w1) \<Rightarrow> f e w1 | (Inr v, w1) \<Rightarrow> g v w1)"
  using assms send_wb_kept [OF assms(1-3), of i body] by (auto simp: kept_def split: prod.split sum.split)

lemma wb_compose_kept: "seUser w = U \<Longrightarrow> Q (seDB w) \<Longrightarrow> kept Q (wb_compose_update L msg m w)"
  unfolding wb_compose_update_def wb_compose_submit_def Let_def
  by (cases msg; simp split del: if_split; (intro rules kept_send_wb)?) (simp_all)

lemma wb_thread_submit_kept: "seUser w = U \<Longrightarrow> Q (seDB w) \<Longrightarrow> kept Q (wb_thread_submit L m w)"
  unfolding wb_thread_submit_def Let_def by (intro rules kept_send_wb) (simp_all add: acted session_uid_acting)

lemma wb_thread_input_kept: "seUser w = U \<Longrightarrow> Q (seDB w) \<Longrightarrow> kept Q (wb_thread_input_key L key m w)"
  unfolding wb_thread_input_key_def by (intro rules wb_thread_submit_kept) (simp_all add: acted session_uid_acting)

lemma wb_thread_scroll_kept: "seUser w = U \<Longrightarrow> Q (seDB w) \<Longrightarrow> kept Q (wb_thread_scroll_key L key m w)"
  unfolding wb_thread_scroll_key_def by (intro rules) (simp_all add: acted session_uid_acting)

lemma wb_thread_kept: "seUser w = U \<Longrightarrow> Q (seDB w) \<Longrightarrow> kept Q (wb_thread_update L msg m w)"
  unfolding wb_thread_update_def Let_def
  by (cases msg; simp split del: if_split; (intro rules wb_thread_input_kept wb_thread_scroll_kept)?) (simp_all add: acted session_uid_acting split: sum.split)

lemma mail_thread_kept: "seUser w = U \<Longrightarrow> Q (seDB w) \<Longrightarrow> kept Q (mail_thread_update L msg m w)"
  unfolding mail_thread_update_def Let_def
  by (cases msg; simp split del: if_split; (intro rules)?) (simp_all)

lemma announce_mail_step: "Q (seDB w) \<Longrightarrow> Q (seDB (announce_mail a b l subj body w))"
  by (simp add: announce_mail_def acted)

lemma mail_submit_kept: "seUser w = U \<Longrightarrow> Q (seDB w) \<Longrightarrow> kept Q (mail_submit L m w)"
  unfolding mail_submit_def Let_def by (intro rules) (simp_all add: acted session_uid_acting announce_mail_step)

lemma mail_compose_kept: "seUser w = U \<Longrightarrow> Q (seDB w) \<Longrightarrow> kept Q (mail_compose_update L msg m w)"
  unfolding mail_compose_update_def Let_def
  by (cases msg; simp split del: if_split; (intro rules mail_submit_kept)?) (simp_all split: mail_focus.split)

lemma register_screen_kept: "Registers \<in> G \<Longrightarrow> seUser w = U \<Longrightarrow> Q (seDB w) \<Longrightarrow> kept Q (register_update gen L msg m w)"
  unfolding register_update_def register_submit_def Let_def
  by (cases msg; simp split del: if_split; (intro rules)?) (simp_all add: acted session_uid_acting)

lemma password_submit_kept: "seUser w = U \<Longrightarrow> Q (seDB w) \<Longrightarrow> kept Q (password_submit gen cmp L m w)"
  unfolding password_submit_def Let_def by (intro rules) (simp_all add: acted session_uid_acting)

lemma password_change_kept: "seUser w = U \<Longrightarrow> Q (seDB w) \<Longrightarrow> kept Q (password_change_update gen cmp L msg m w)"
  unfolding password_change_update_def Let_def
  by (cases msg; simp split del: if_split; (intro rules password_submit_kept)?) (simp_all)

lemma bio_edit_kept: "seUser w = U \<Longrightarrow> Q (seDB w) \<Longrightarrow> kept Q (bio_edit_update L msg m w)"
  unfolding bio_edit_update_def bio_submit_def Let_def
  by (cases msg; simp split del: if_split; (intro rules)?) (simp_all add: acted session_uid_acting)

lemma apply_role_kept: "Administers \<in> G \<Longrightarrow> seUser w = U \<Longrightarrow> Q (seDB w) \<Longrightarrow> kept Q (apply_role t m w)"
  unfolding apply_role_def Let_def by (intro rules) (simp_all add: acted session_uid_acting)

lemma admin_users_kept: "Administers \<in> G \<Longrightarrow> seUser w = U \<Longrightarrow> Q (seDB w) \<Longrightarrow> kept Q (admin_users_update msg m w)"
  unfolding admin_users_update_def Let_def
  by (cases msg; simp split del: if_split; (intro rules apply_role_kept)?) (simp_all)

lemma toggle_target_kept: "seUser w = U \<Longrightarrow> Q (seDB w) \<Longrightarrow> kept Q (toggle_target m w)"
  unfolding toggle_target_def Let_def by (intro rules) (simp_all add: acted session_uid_acting)

lemma delete_target_kept: "seUser w = U \<Longrightarrow> Q (seDB w) \<Longrightarrow> kept Q (delete_target m w)"
  unfolding delete_target_def Let_def by (intro rules) (simp_all add: acted session_uid_acting)

lemma start_test_kept: "seUser w = U \<Longrightarrow> Q (seDB w) \<Longrightarrow> kept Q (start_test m w)"
  unfolding start_test_def Let_def by (intro rules) (simp_all add: acted session_uid_acting)

lemma save_prefs_kept: "seUser w = U \<Longrightarrow> Q (seDB w) \<Longrightarrow> kept Q (save_prefs m w)"
  unfolding save_prefs_def by (intro rules) (simp_all add: acted session_uid_acting)

lemma notify_list_kept: "seUser w = U \<Longrightarrow> Q (seDB w) \<Longrightarrow> kept Q (notify_list_key L key m w)"
  unfolding notify_list_key_def Let_def by (intro rules toggle_target_kept delete_target_kept start_test_kept save_prefs_kept) (simp_all add: acted session_uid_acting)

lemma submit_edit_kept: "seUser w = U \<Longrightarrow> Q (seDB w) \<Longrightarrow> kept Q (submit_edit L m w)"
  unfolding submit_edit_def Let_def by (intro rules) (simp_all add: acted session_uid_acting)

lemma notify_edit_kept: "seUser w = U \<Longrightarrow> Q (seDB w) \<Longrightarrow> kept Q (notify_edit_key L key m w)"
  unfolding notify_edit_key_def by (intro rules submit_edit_kept) (simp_all add: acted session_uid_acting)

lemma notify_settings_kept: "seUser w = U \<Longrightarrow> Q (seDB w) \<Longrightarrow> kept Q (notify_settings_update L msg m w)"
  unfolding notify_settings_update_def
  by (cases msg; simp split del: if_split; (intro rules notify_list_kept notify_edit_kept)?) (simp_all)

lemma post_submit_kept: "seUser w = U \<Longrightarrow> Q (seDB w) \<Longrightarrow> kept Q (post_submit L m w)"
  unfolding post_submit_def Let_def by (intro rules) (simp_all add: acted session_uid_acting)

lemma post_compose_kept: "seUser w = U \<Longrightarrow> Q (seDB w) \<Longrightarrow> kept Q (post_compose_update L msg m w)"
  unfolding post_compose_update_def post_type_in_def
  by (cases msg; simp split del: if_split; (intro rules post_submit_kept)?) (simp_all)

lemma edit_submit_article_kept: "seUser w = U \<Longrightarrow> Q (seDB w) \<Longrightarrow> kept Q (edit_submit L m w)"
  unfolding edit_submit_def Let_def by (intro rules) (simp_all add: acted session_uid_acting)

lemma article_edit_kept: "seUser w = U \<Longrightarrow> Q (seDB w) \<Longrightarrow> kept Q (article_edit_update L msg m w)"
  unfolding article_edit_update_def edit_type_in_def
  by (cases msg; simp split del: if_split; (intro rules edit_submit_article_kept)?) (simp_all)

lemma export_key_kept: "seUser w = U \<Longrightarrow> Q (seDB w) \<Longrightarrow> kept Q (export_key L key m w)"
  unfolding export_key_def export_write_to_disk_def export_copy_def Let_def emit_clipboard_osc52_def by (intro rules) (simp_all add: acted session_uid_acting)

lemma article_export_kept: "seUser w = U \<Longrightarrow> Q (seDB w) \<Longrightarrow> kept Q (article_export_update L msg m w)"
  unfolding article_export_update_def
  by (cases msg; simp split del: if_split; (intro rules export_key_kept)?) (simp_all)

lemma submit_push_kept: "seUser w = U \<Longrightarrow> Q (seDB w) \<Longrightarrow> kept Q (submit_push L m w)"
  unfolding submit_push_def Let_def by (intro rules) (simp_all add: acted session_uid_acting)

lemma push_input_kept: "seUser w = U \<Longrightarrow> Q (seDB w) \<Longrightarrow> kept Q (update_push_input L key m w)"
  unfolding update_push_input_def by (intro rules submit_push_kept) (simp_all add: acted session_uid_acting)

lemma delete_confirm_kept: "seUser w = U \<Longrightarrow> Q (seDB w) \<Longrightarrow> kept Q (update_delete_confirm key m w)"
  unfolding update_delete_confirm_def confirm_delete_def delete_cursor_push_def Let_def prod.case by (intro rules) (simp_all add: acted session_uid_acting)

lemma picker_kept: "seUser w = U \<Longrightarrow> Q (seDB w) \<Longrightarrow> kept Q (update_comments_mode_picker key m w)"
  unfolding update_comments_mode_picker_def Let_def prod.case by (intro rules) (simp_all add: acted session_uid_acting)

lemma article_view_key_kept: "seUser w = U \<Longrightarrow> Q (seDB w) \<Longrightarrow> kept Q (article_view_key L key m w)"
  unfolding article_view_key_def goto_neighbour_def goto_on_article_def Let_def by (intro rules) (simp_all add: acted session_uid_acting)

lemma article_view_kept: "seUser w = U \<Longrightarrow> Q (seDB w) \<Longrightarrow> kept Q (article_view_update L msg m w)"
  unfolding article_view_update_def Let_def
  by (cases msg; simp split del: if_split; (intro rules delete_confirm_kept picker_kept article_view_key_kept push_input_kept)?) (simp_all)

end

section \<open>Writers of the database\<close>

text \<open>A property that every write of the repositories keeps is kept by every session, whoever it belongs to.\<close>

locale db_kept =
  fixes Q :: "db \<Rightarrow> bool"
  assumes step: "db_step d d' \<Longrightarrow> Q d \<Longrightarrow> Q d'"
begin

lemmas steps = db_step.intros [THEN step]

lemma register_step: "Q d \<Longrightarrow> Q (snd (register gen dflt x p nick email now d))"
proof -
  assume d: "Q d"
  show ?thesis
  proof (cases "hash_password gen p")
    case (Inl e)
    with d show ?thesis by (simp add: register_def Let_def split: option.split)
  next
    case (Inr h)
    obtain r d1 where c: "users_create (trim_space x) h (trim_space nick) (trim_space email) now d = (r, d1)" by (metis surj_pair)
    then have "Q d1" using steps(1) [OF d, of "trim_space x" h "trim_space nick" "trim_space email" now] by simp
    then have "Q (snd (users_set_locale i dflt d1))" for i by (rule steps(6))
    with d \<open>Q d1\<close> c Inr show ?thesis
      by (simp add: register_def Let_def users_set_locale_def split: option.split sum.split db_error.split)
  qed
qed

lemma store_target_step: "Q d \<Longrightarrow> Q (snd (store_target uid label url ts i now d))"
  by (simp add: store_target_def Let_def steps split: prod.split sum.split) (metis snd_conv steps)

lemma acts_step: "acts L U d d' \<Longrightarrow> Q d \<Longrightarrow> Q d'"
  by (induction rule: acts.induct) (simp_all add: steps register_step store_target_step)

end

sublocale db_kept \<subseteq> session_kept Q UNIV U for U
  by unfold_locales (rule acts_step)

end
