(* ===== verification/Serving.thy ===== *)
theory Serving
  imports SessionDB Seed Server RootProps
begin

text \<open>
  Everything the server runs on the database: start-up, imports, logins, replays and the updates of the root
  model, by any number of sessions in any order. Each is a sequence of writes of the repositories, so the
  integrity of the store carries over to the whole server.
\<close>

section \<open>Navigation and the root\<close>

lemma fold_kept: "(\<And>x d. Q d \<Longrightarrow> Q (g x d)) \<Longrightarrow> Q d \<Longrightarrow> Q (fold g xs d)"
  by (induction xs arbitrary: d) auto

text \<open>The licences a screen needs.\<close>

fun licensed :: "licence set \<Rightarrow> 'i sub \<Rightarrow> bool" where
  "licensed G (SubRegister _) = (Registers \<in> G)"
| "licensed G (SubAdminUsers _) = (Administers \<in> G)"
| "licensed G _ = True"

lemma licensed_all [simp]: "licensed UNIV s"
  by (cases s) simp_all

definition writes :: "(db \<Rightarrow> bool) \<Rightarrow> 'a \<times> db \<Rightarrow> bool" where
  "writes Q r \<longleftrightarrow> Q (snd r)"

lemma writes_pair [simp]: "writes Q (x, d) \<longleftrightarrow> Q d"
  by (simp add: writes_def)

lemma writes_if: "(b \<Longrightarrow> writes Q r) \<Longrightarrow> (\<not> b \<Longrightarrow> writes Q r') \<Longrightarrow> writes Q (if b then r else r')"
  by simp

lemma writes_option: "writes Q r \<Longrightarrow> (\<And>y. writes Q (f y)) \<Longrightarrow> writes Q (case x of None \<Rightarrow> r | Some y \<Rightarrow> f y)"
  by (cases x) auto

lemma writes_sum: "(\<And>e. writes Q (f e)) \<Longrightarrow> (\<And>y. writes Q (g y)) \<Longrightarrow> writes Q (case x of Inl e \<Rightarrow> f e | Inr y \<Rightarrow> g y)"
  by (cases x) auto

lemma writes_case:
  assumes "writes Q r" and "\<And>e d. Q d \<Longrightarrow> writes Q (f e d)" and "\<And>v d. Q d \<Longrightarrow> writes Q (g v d)"
  shows "writes Q (case r of (Inl e, d) \<Rightarrow> f e d | (Inr v, d) \<Rightarrow> g v d)"
  using assms by (cases r; cases "fst r") (auto simp: writes_def)

lemmas writes_rules = writes_case writes_if writes_option writes_sum

context session_kept
begin

lemmas screens_kept =
  main_menu_kept user_settings_kept online_kept board_splash_kept locale_settings_kept
  board_list_kept board_view_kept banner_edit_kept wb_inbox_kept wb_compose_kept wb_thread_kept mail_inbox_kept
  mail_thread_kept mail_compose_kept password_change_kept bio_edit_kept notify_settings_kept
  post_compose_kept article_edit_kept article_export_kept article_view_kept

lemma sub_update_kept:
  assumes "licensed G s" and "seUser w = U" and "Q (seDB w)"
  shows "kept Q (sub_update E msg s w)"
  using assms by (cases s) (simp_all add: sub_update_def screens_kept register_screen_kept admin_users_kept)

text \<open>A fresh screen is told the size of the terminal, which takes no licence.\<close>

lemma sub_resize_kept: "seUser w = U \<Longrightarrow> Q (seDB w) \<Longrightarrow> kept Q (sub_update E (WindowSizeMsg a b) s w)"
  by (cases "licensed G s"; cases s) (simp_all add: sub_update_kept, simp_all add: sub_update_def admin_users_update_def register_update_def)

lemma mark_addressed_kept: "Q (seDB w) \<Longrightarrow> Q (seDB (mark_addressed me items w))"
  unfolding mark_addressed_def by (rule fold_kept [where Q = "\<lambda>w. Q (seDB w)"]) (simp_all add: acted)

lemma new_sub_kept: "seUser w = U \<Longrightarrow> Q (seDB w) \<Longrightarrow> Q (seDB (snd (new_sub E n w)))"
  by (simp add: new_sub_def Let_def new_wb_thread_def new_mail_thread_def mark_addressed_kept acted session_uid_acting
      split: screen.split sum.split)

lemma to_sub_kept:
  assumes "licensed G (rtSub r)" and "seUser w = U" and "Q (seDB w)"
  shows "kept Q (to_sub E msg r w)"
  using sub_update_kept [OF assms, of E msg] by (auto simp: to_sub_def kept_def split: prod.split)

lemma navigate_kept: "seUser w = U \<Longrightarrow> Q (seDB w) \<Longrightarrow> kept Q (navigate E n r w)"
proof -
  assume u: "seUser w = U" and q: "Q (seDB w)"
  obtain s w1 where new: "new_sub E n w = (s, w1)" by fastforce
  with new_sub_kept [OF u q, of E n] new_sub_ok [OF new] u have "Q (seDB w1)" "seUser w1 = U" by simp_all
  with sub_resize_kept [of w1 E "rtWidth r" "rtHeight r" s] q new show ?thesis
    by (auto simp: navigate_def kept_def split: option.split prod.split)
qed

lemma root_update_kept:
  assumes "licensed G (rtSub r)" and "seUser w = U" and "Q (seDB w)"
  shows "kept Q (root_update E msg r w)"
  using assms by (cases msg) (simp_all add: root_update_def navigate_kept to_sub_kept acted)

end

context db_kept
begin

section \<open>Logins and replays\<close>

lemma writes_steps:
  "Q d \<Longrightarrow> writes Q (users_note_login i host now d)"
  "Q d \<Longrightarrow> writes Q (articles_create b u n t s now d)"
  "Q d \<Longrightarrow> writes Q (users_insert_system_account n hash r must now d)"
  "Q d \<Longrightarrow> writes Q (boards_seed_defaults now d)"
  by (simp_all add: writes_def steps)

lemma verify_login_step: "Q d \<Longrightarrow> writes Q (verify_login cmp x p host now d)"
  unfolding verify_login_def by (intro writes_rules writes_steps) simp_all

lemma password_auth_step: "Q d \<Longrightarrow> writes Q (password_auth cmp user addr p now cx d)"
  unfolding password_auth_def Let_def by (intro writes_rules verify_login_step) simp_all

lemma ssh_connect_step: "Q d \<Longrightarrow> Q (snd (ssh_connect cmp user addr c now d))"
proof (cases c)
  case (Password p)
  assume "Q d"
  then have "writes Q (password_auth cmp user addr p now new_ctx d)" by (rule password_auth_step)
  with Password show ?thesis by (auto simp: ssh_connect_def split: prod.split)
qed (simp add: ssh_connect_def)

lemma drain_step: "Q d \<Longrightarrow> Q (snd (drain_unread uid now d))"
  unfolding drain_unread_def Let_def snd_conv by (rule fold_kept) (simp_all add: steps)

section \<open>Start-up\<close>

lemma seed_insert_step: "Q d \<Longrightarrow> Q (seed_insert admin now b p d)"
proof -
  assume "Q d"
  then have "writes Q (articles_create (bID b) (uID admin) (uUserID admin) (mdTitle p) (mdBody p) now d)"
    by (rule writes_steps)
  then show ?thesis by (auto simp: seed_insert_def steps split: sum.split prod.split)
qed

lemma seed_file_kept: "Q (snd st) \<Longrightarrow> Q (snd (seed_file admin now body st))"
  by (cases st) (simp add: seed_file_def Let_def seed_insert_step split: sum.split)

lemma seed_articles_step: "Q d \<Longrightarrow> writes Q (seed_articles files a now d)"
  by (simp add: seed_articles_def split: sum.split)
    (intro allI impI fold_kept [where Q = "\<lambda>st. Q (snd st)"] seed_file_kept, simp_all)

lemma seed_banner_step: "Q d \<Longrightarrow> Q (seed_banner files admin b d)"
  by (simp add: seed_banner_def steps split: option.split)

lemma seed_banners_step: "Q d \<Longrightarrow> writes Q (seed_banners files a d)"
  by (simp add: seed_banners_def split: sum.split) (intro allI impI fold_kept [where Q = Q] seed_banner_step)

lemma seed_admin_step: "Q d \<Longrightarrow> writes Q (seed_admin gen pw now d)"
  unfolding seed_admin_def Let_def by (intro writes_rules writes_steps) simp_all

lemma seed_guest_step: "Q d \<Longrightarrow> writes Q (seed_guest now d)"
  unfolding seed_guest_def by (intro writes_rules writes_steps) simp_all

lemma seed_accounts_step: "Q d \<Longrightarrow> writes Q (seed_system_accounts gen pw now d)"
  unfolding seed_system_accounts_def by (intro writes_rules seed_admin_step seed_guest_step) simp_all

lemma start_up_step: "Q d \<Longrightarrow> writes Q (start_up gen pw files banners now d)"
  unfolding start_up_def
  by (intro writes_rules writes_steps seed_accounts_step seed_articles_step seed_banners_step) simp_all

lemma run_import_step: "Q d \<Longrightarrow> writes Q (run_import read f now d)"
  unfolding run_import_def Let_def by (intro writes_rules writes_steps) simp_all

end

section \<open>The server on its database\<close>

text \<open>
  One transition of the database: the process starts or imports an article, somebody connects, a replay
  runs, or the root model of some session, in whatever state, handles a message.
\<close>

inductive served :: "'i env \<Rightarrow> db \<Rightarrow> db \<Rightarrow> bool" for E where
  starts: "served E d (snd (start_up (enGen E) pw files banners now d))"
| imports_file: "served E d (snd (run_import read f now d))"
| connects: "served E d (snd (ssh_connect (enCmp E) user addr c now d))"
| replays: "served E d (snd (drain_unread uid now d))"
| handles: "root_update E msg r w = (x, w') \<Longrightarrow> served E (seDB w) (seDB w')"

interpretation run: db_kept "\<lambda>d'. db_step\<^sup>*\<^sup>* d d'" for d
  by unfold_locales (rule rtranclp.rtrancl_into_rtrancl)

lemma served_steps: "served E d d' \<Longrightarrow> db_step\<^sup>*\<^sup>* d d'"
proof (induction rule: served.induct)
  case (handles msg r w x w')
  with run.root_update_kept [of r w "seUser w" "seDB w" E msg] show ?case by (simp add: kept_def)
qed (simp_all add: run.start_up_step [unfolded writes_def] run.run_import_step [unfolded writes_def]
    run.ssh_connect_step run.drain_step)

lemma served_reachable: "db_step\<^sup>*\<^sup>* d d' \<Longrightarrow> db_reachable d \<Longrightarrow> db_reachable d'"
  by (induction rule: rtranclp_induct) (auto intro: db_reachable.step)

text \<open>C2: whatever the server does to its database, at start-up, on imports, logins and replays and in the updates of
  any number of sessions in any order, is a sequence of the writes of the repositories: no screen goes
  around them. Started on an empty database it therefore never leaves the databases whose rows are well
  formed, whose references hold and whose scores are the sums of their pushes.\<close>

theorem server_runs_repositories:
  assumes "(served E)\<^sup>*\<^sup>* d d'"
  shows "db_step\<^sup>*\<^sup>* d d' \<and> (d = empty_db \<longrightarrow> db_reachable d' \<and> db_inv d')"
proof -
  have run: "db_step\<^sup>*\<^sup>* d d'" using assms by (induction rule: rtranclp_induct) (auto dest: served_steps)
  with served_reachable [OF run] db_reachable.start db_reachable_inv [of d'] show ?thesis by auto
qed

definition demo_started :: db where
  "demo_started = snd (start_up demo_gen [] [] (\<lambda>_. None) demo_now empty_db)"

lemma server_runs_repositories_witness:
  "db_inv (snd (drain_unread 1 demo_now demo_started)) \<and> db_step\<^sup>*\<^sup>* empty_db demo_started"
proof -
  have start: "served demo_env empty_db demo_started"
    using served.starts [of demo_env empty_db "[]" "[]" "\<lambda>_. None" demo_now] by (simp add: demo_env_def demo_started_def)
  with served.replays [of demo_env demo_started 1 demo_now]
  have "(served demo_env)\<^sup>*\<^sup>* empty_db (snd (drain_unread 1 demo_now demo_started))" by auto
  from server_runs_repositories [OF this] server_runs_repositories [of demo_env empty_db demo_started] start
  show ?thesis by auto
qed

end
