(* ===== verification/Render.thy ===== *)
theory Render
  imports Banner ComposeScreens
begin

text \<open>
  The common ground of the \<open>View\<close> methods: styles, glyphs, dates and slices. A view is a byte string; what
  lipgloss makes of a text in a style, what a text widget draws and the text of an error value
  are parameters (record \<open>skin\<close>). A view that indexes or slices answers with \<open>None\<close> where Go panics.
  Reading a list from the database does not fail in the model, so the screens whose only load error is of that
  kind have no line for it.
\<close>

section \<open>Styles\<close>

text \<open>What a lipgloss style sets: colours are names of the terminal palette, padding is vertical and horizontal.\<close>

record lip_style =
  stBold :: bool
  stForeground :: "string option"
  stBackground :: "string option"
  stPadding :: "nat \<times> nat"
  stBorder :: "string option"

definition new_style :: lip_style where
  "new_style = \<lparr>stBold = False, stForeground = None, stBackground = None, stPadding = (0, 0), stBorder = None\<rparr>"

definition StyleHeader :: lip_style where
  "StyleHeader = new_style\<lparr>stBold := True, stForeground := Some ''231'', stBackground := Some ''63'', stPadding := (0, 1)\<rparr>"

definition StyleFooter :: lip_style where
  "StyleFooter = new_style\<lparr>stForeground := Some ''250'', stBackground := Some ''236'', stPadding := (0, 1)\<rparr>"

definition StyleHelp :: lip_style where
  "StyleHelp = new_style\<lparr>stForeground := Some ''241''\<rparr>"

definition StyleError :: lip_style where
  "StyleError = new_style\<lparr>stForeground := Some ''196'', stBold := True\<rparr>"

definition StyleSuccess :: lip_style where
  "StyleSuccess = new_style\<lparr>stForeground := Some ''46'', stBold := True\<rparr>"

definition StyleHighlight :: lip_style where
  "StyleHighlight = new_style\<lparr>stForeground := Some ''231'', stBackground := Some ''60''\<rparr>"

definition StyleDim :: lip_style where
  "StyleDim = new_style\<lparr>stForeground := Some ''245''\<rparr>"

definition StylePushKind :: lip_style where
  "StylePushKind = new_style\<lparr>stForeground := Some ''46'', stBold := True\<rparr>"

definition StyleBooKind :: lip_style where
  "StyleBooKind = new_style\<lparr>stForeground := Some ''196'', stBold := True\<rparr>"

definition StyleArrowKind :: lip_style where
  "StyleArrowKind = new_style\<lparr>stForeground := Some ''214'', stBold := True\<rparr>"

definition StyleToast :: lip_style where
  "StyleToast = new_style\<lparr>stForeground := Some ''231'', stBackground := Some ''33'', stPadding := (0, 1), stBold := True\<rparr>"

text \<open>The frame of the help page has rounded corners; \<open>stBorder\<close> is its colour.\<close>

definition helpBox :: lip_style where
  "helpBox = new_style\<lparr>stBorder := Some ''63'', stPadding := (1, 2)\<rparr>"

record 'i skin =
  skStyle :: "lip_style \<Rightarrow> string \<Rightarrow> string"
  skWidget :: "'i \<Rightarrow> string"
  skErrText :: "err_note \<Rightarrow> string"

text \<open>A skin for concrete runs: no colours, a widget shows its value, an error value its kind.\<close>

definition demo_skin :: "string skin" where
  "demo_skin = \<lparr>skStyle = (\<lambda>_ s. s), skWidget = (\<lambda>i. i), skErrText = (\<lambda>_. ''error'')\<rparr>"

abbreviation dim :: "'i skin \<Rightarrow> string \<Rightarrow> string" where
  "dim K \<equiv> skStyle K StyleDim"

abbreviation help_style :: "'i skin \<Rightarrow> string \<Rightarrow> string" where
  "help_style K \<equiv> skStyle K StyleHelp"

abbreviation header_style :: "'i skin \<Rightarrow> string \<Rightarrow> string" where
  "header_style K \<equiv> skStyle K StyleHeader"

text \<open>The text of an error.\<close>

definition err_text :: "'i skin \<Rightarrow> err_note \<Rightarrow> string" where
  "err_text K e = (case e of NoErr \<Rightarrow> [] | ErrText s \<Rightarrow> s | _ \<Rightarrow> skErrText K e)"

section \<open>Glyphs\<close>

definition g_cursor :: string where "g_cursor = [CHR 0xE2, CHR 0x96, CHR 0xB8]"
definition g_warn :: string where "g_warn = [CHR 0xE2, CHR 0x9A, CHR 0xA0]"
definition g_up :: string where "g_up = [CHR 0xE2, CHR 0x86, CHR 0x91]"
definition g_down :: string where "g_down = [CHR 0xE2, CHR 0x86, CHR 0x93]"
definition g_left :: string where "g_left = [CHR 0xE2, CHR 0x86, CHR 0x90]"
definition g_right :: string where "g_right = [CHR 0xE2, CHR 0x86, CHR 0x92]"
definition g_swap :: string where "g_swap = [CHR 0xE2, CHR 0x86, CHR 0x94]"
definition g_check :: string where "g_check = [CHR 0xE2, CHR 0x9C, CHR 0x93]"
definition g_cross :: string where "g_cross = [CHR 0xC3, CHR 0x97]"
definition g_bullet :: string where "g_bullet = [CHR 0xE2, CHR 0x80, CHR 0xA2]"
definition g_le :: string where "g_le = [CHR 0xE2, CHR 0x89, CHR 0xA4]"
definition g_bar :: string where "g_bar = [CHR 0xE2, CHR 0x94, CHR 0x80]"
definition g_memo :: string where "g_memo = [CHR 0xF0, CHR 0x9F, CHR 0x93, CHR 0x9D]"
definition g_drop :: string where "g_drop = [CHR 0xF0, CHR 0x9F, CHR 0x92, CHR 0xA7]"

section \<open>Texts\<close>

definition tr_f :: "session_state \<Rightarrow> string \<Rightarrow> fmt_arg list \<Rightarrow> string" where
  "tr_f w key args = translate_f (seDefault w) (locale_of w) key args"

text \<open>\<open>%-ns\<close> pads to the right, counting runes.\<close>

definition fmt_left :: "nat \<Rightarrow> string \<Rightarrow> string" where
  "fmt_left n s = s @ replicate (n - rune_count s) SP"

fun fmt_clock :: "timestamp \<Rightarrow> string" where
  "fmt_clock (TS y mo d h mi s) = pad 2 h @ '':'' @ pad 2 mi"

definition fmt_second :: "timestamp \<Rightarrow> string" where
  "fmt_second t = format_minute t @ '':'' @ pad 2 (ts_sec t)"

definition fmt_short :: "timestamp \<Rightarrow> string" where
  "fmt_short t = pad 2 (ts_month t) @ ''/'' @ pad 2 (ts_day t) @ '' '' @ fmt_clock t"

definition indent :: "string \<Rightarrow> string \<Rightarrow> string" where
  "indent s prefix =
    (case split_byte NL s of [] \<Rightarrow> [] | l # ls \<Rightarrow> str_join [NL] (l # map (\<lambda>x. prefix @ x) ls))"

text \<open>\<open>xs[i:j]\<close> and \<open>xs[i]\<close>.\<close>

definition go_slice :: "'a list \<Rightarrow> int \<Rightarrow> int \<Rightarrow> 'a list option" where
  "go_slice xs i j = (if 0 \<le> i \<and> i \<le> j \<and> j \<le> int (length xs) then Some (take (nat (j - i)) (drop (nat i) xs)) else None)"

definition go_index :: "'a list \<Rightarrow> nat \<Rightarrow> 'a option" where
  "go_index xs i = (if i < length xs then Some (xs ! i) else None)"

section \<open>Pieces the screens share\<close>

definition view_title :: "'i skin \<Rightarrow> string \<Rightarrow> string" where
  "view_title K s = [NL] @ header_style K s @ [NL, NL]"

definition warning :: "'i skin \<Rightarrow> err_note \<Rightarrow> string" where
  "warning K e = skStyle K StyleError (g_warn @ '' '' @ err_text K e)"

definition load_error_line :: "'i skin \<Rightarrow> err_note \<Rightarrow> string" where
  "load_error_line K e = ''  '' @ warning K e @ [NL]"

definition any_key_back :: "'i skin \<Rightarrow> string" where
  "any_key_back K = [NL] @ ''  '' @ help_style K ''press any key to go back'' @ [NL]"

text \<open>A row of a table: the one under the cursor loses its first byte to the marker.\<close>

definition table_row :: "'i skin \<Rightarrow> int \<Rightarrow> nat \<times> string \<Rightarrow> string" where
  "table_row K cursor ir =
    (case ir of (i, row) \<Rightarrow>
       if int i = cursor then skStyle K StyleHighlight (g_cursor @ drop 1 row) @ [NL] else [SP] @ row @ [NL])"

definition table_rows :: "'i skin \<Rightarrow> int \<Rightarrow> string list \<Rightarrow> string" where
  "table_rows K cursor rows = concat (map (table_row K cursor) (enumerate 0 rows))"

definition cells :: "string list \<Rightarrow> string" where
  "cells cs = str_join ''  '' cs"

section \<open>Windows\<close>

lemma go_slice_Some: "0 \<le> i \<Longrightarrow> i \<le> j \<Longrightarrow> j \<le> int (length xs) \<Longrightarrow> go_slice xs i j = Some (take (nat (j - i)) (drop (nat i) xs))"
  by (simp add: go_slice_def)

text \<open>
  The part of a long text that a window of \<open>room\<close> lines shows from line \<open>scroll\<close> on, and the line that says
  which.
\<close>

definition text_window :: "string list \<Rightarrow> int \<Rightarrow> int \<Rightarrow> (string list \<times> int \<times> int) option" where
  "text_window lines scroll room =
    (let start = min scroll (int (length lines)); stop = min (start + room) (int (length lines))
     in map_option (\<lambda>shown. (shown, start, stop)) (go_slice lines start stop))"

definition window_note :: "string list \<Rightarrow> int \<Rightarrow> int \<Rightarrow> string" where
  "window_note lines start stop = ''[lines '' @ itoa (start + 1) @ ''-'' @ itoa stop @ '' / '' @ itoa (int (length lines)) @ '']''"

lemma text_window_shows:
  assumes "0 \<le> scroll" and "0 \<le> room"
  shows "\<exists>a b. text_window lines scroll room = Some (take (nat room) (drop (nat scroll) lines), a, b)"
proof -
  let ?n = "int (length lines)"
  let ?start = "min scroll ?n"
  let ?stop = "min (?start + room) ?n"
  have "go_slice lines ?start ?stop = Some (take (nat (?stop - ?start)) (drop (nat ?start) lines))"
    using assms by (intro go_slice_Some) auto
  moreover have "take (nat (?stop - ?start)) (drop (nat ?start) lines) = take (nat room) (drop (nat scroll) lines)"
  proof (cases "scroll \<le> ?n")
    case True
    then show ?thesis using assms by (cases "scroll + room \<le> ?n") auto
  next
    case False
    then show ?thesis using assms by auto
  qed
  ultimately show ?thesis by (auto simp: text_window_def Let_def)
qed

end
