(* ===== verification/MenuViews.thy ===== *)
theory MenuViews
  imports Render BoardScreens
begin

text \<open>The views of the menus, the settings of the locale, the list of online users and the board screens.\<close>

section \<open>Menus\<close>

text \<open>The row under the cursor is highlighted and padded to \<open>width\<close>.\<close>

definition menu_row :: "'i skin \<Rightarrow> nat \<Rightarrow> int \<Rightarrow> nat \<times> menu_item \<Rightarrow> string" where
  "menu_row K width cursor r =
    (case r of (i, it) \<Rightarrow>
       (if int i = cursor
        then g_cursor @ '' '' @ skStyle K StyleHighlight ('' '' @ itoa (int i + 1) @ ''. '' @ fmt_left width (miLabel it) @ '' '')
        else ''    '' @ itoa (int i + 1) @ ''. '' @ miLabel it)
       @ (if miHint it \<noteq> [] then ''  '' @ dim K (miHint it) else []) @ [NL])"

definition main_menu_view :: "'i skin \<Rightarrow> main_menu \<Rightarrow> session_state \<Rightarrow> string option" where
  "main_menu_view K m w =
    (case seUser w of
       None \<Rightarrow> None
     | Some u \<Rightarrow>
         let nick = (if uNickname u = [] then uUserID u else uNickname u)
         in Some (view_title K (tr_f w ''screen.main_menu.title'' [FString nick, FString (uUserID u)])
              @ (case uLastLoginAt u of
                   None \<Rightarrow> []
                 | Some t \<Rightarrow> ''  '' @ dim K (tr_f w ''screen.main_menu.last_login_line''
                     [FString (format_minute t), FInt64 (uNumLogins u), FInt64 (uNumPosts u)]) @ [NL, NL])
              @ ''  '' @ header_style K (tr w ''screen.main_menu.mid_header'') @ [NL, NL]
              @ concat (map (menu_row K 32 (mmCursor m)) (enumerate 0 (mmItems m)))
              @ [NL] @ ''  '' @ help_style K (tr_f w ''screen.main_menu.help_line'' [FInt (int (length (mmItems m)))]) @ [NL]))"

definition account_lines :: "'i lib \<Rightarrow> 'i skin \<Rightarrow> session_state \<Rightarrow> string" where
  "account_lines L K w =
    (case seUser w of
       None \<Rightarrow> []
     | Some u \<Rightarrow>
         let bio = trim_space (uBio u)
         in ''  '' @ dim K (tr_f w ''screen.user_settings.account_line'' [FString (uUserID u), FString (uRole u)]) @ [NL]
            @ (if bio = [] then ''  '' @ dim K (tr w ''screen.user_settings.no_bio'')
               else ''  '' @ dim K ''Bio: '' @ truncate_width L (takeWhile (\<lambda>c. c \<noteq> NL) bio) 60)
            @ [NL, NL])"

definition user_settings_view :: "'i lib \<Rightarrow> 'i skin \<Rightarrow> user_settings \<Rightarrow> session_state \<Rightarrow> string" where
  "user_settings_view L K m w =
    view_title K (tr w ''screen.user_settings.title'')
    @ account_lines L K w
    @ concat (map (menu_row K 40 (usCursor m)) (enumerate 0 (usItems m)))
    @ [NL] @ ''  '' @ help_style K (tr w ''screen.user_settings.help_line'') @ [NL]"

section \<open>Locale settings\<close>

definition locale_label :: "session_state \<Rightarrow> locale_tag \<Rightarrow> string" where
  "locale_label w l =
    (if l = LocaleZHTW then tr w ''screen.locale_settings.option_zh_label''
     else if l = LocaleEN then tr w ''screen.locale_settings.option_en_label''
     else l)"

definition locale_row :: "'i skin \<Rightarrow> locale_settings \<Rightarrow> session_state \<Rightarrow> nat \<times> locale_tag \<Rightarrow> string" where
  "locale_row K m w r =
    (case r of (i, l) \<Rightarrow>
       let dot = (if l = lsSelected m then (''['' @ g_bullet @ '']'') else ''[ ]'')
       in (if int i = lsCursor m
           then g_cursor @ '' '' @ skStyle K StyleHighlight
             ('' '' @ itoa (int i + 1) @ ''. '' @ dot @ '' '' @ fmt_left 32 (locale_label w l) @ '' '')
           else ''    '' @ itoa (int i + 1) @ ''. '' @ dot @ '' '' @ locale_label w l)
          @ [NL])"

definition locale_settings_view :: "'i skin \<Rightarrow> locale_settings \<Rightarrow> session_state \<Rightarrow> string" where
  "locale_settings_view K m w =
    view_title K (tr w ''screen.locale_settings.title'')
    @ ''  '' @ dim K (tr w ''screen.locale_settings.intro'') @ [NL, NL]
    @ concat (map (locale_row K m w) (enumerate 0 (lsOptions m)))
    @ (if lsSelected m \<noteq> lsCurrent m then [NL] @ ''  '' @ dim K (tr w ''screen.locale_settings.dirty_marker'') else [])
    @ [NL, NL] @ ''  '' @ dim K (tr w ''screen.locale_settings.note_glyphs'')
    @ (if lsErr m \<noteq> NoErr then [NL, NL] @ ''  '' @ warning K (lsErr m) else [])
    @ (if lsFlash m \<noteq> [] then [NL, NL] @ ''  '' @ skStyle K StyleSuccess (lsFlash m) else [])
    @ [NL, NL] @ ''  '' @ help_style K (tr w ''screen.locale_settings.help_line'') @ [NL]"

section \<open>Online users\<close>

definition online_row :: "'i lib \<Rightarrow> online_user \<Rightarrow> string" where
  "online_row L u = ''  '' @ cells [pad_right L (ouUserIDStr u) 14, pad_right L (itoa (int (ouSessions u))) 10]"

definition online_view :: "'i lib \<Rightarrow> 'i skin \<Rightarrow> online_screen \<Rightarrow> session_state \<Rightarrow> string" where
  "online_view L K m w =
    view_title K (tr_f w ''screen.online.title'' [FInt (int (length (onUsers m)))])
    @ (if onUsers m = [] then
         ''  '' @ dim K (tr w ''screen.online.empty'') @ [NL]
         @ [NL] @ ''  '' @ help_style K (tr w ''screen.online.empty_help_line'')
       else
         dim K (''  '' @ cells [pad_right L ''UserID'' 14, pad_right L ''Sessions'' 10]) @ [NL]
         @ table_rows K (onCursor m) (map (online_row L) (onUsers m))
         @ [NL] @ ''  '' @ help_style K (tr w ''screen.online.help_line'') @ [NL])"

section \<open>Boards\<close>

definition board_splash_view :: "'i lib \<Rightarrow> 'i skin \<Rightarrow> board_splash \<Rightarrow> session_state \<Rightarrow> string" where
  "board_splash_view L K m w =
    (let width = (if bsWidth m - 2 < 20 then 78 else bsWidth m - 2)
     in view_title K (case bsBoard m of
            Some b \<Rightarrow> tr_f w ''screen.board_splash.title_named'' [FString (bName b)]
          | None \<Rightarrow> tr w ''screen.board_splash.title_bare'')
        @ (if bsLoadErr m \<noteq> NoErr then
             load_error_line K (bsLoadErr m) @ [NL] @ ''  '' @ help_style K ''press any key to return''
           else case bsBoard m of
             None \<Rightarrow> ''  '' @ dim K ''(this board has no banner yet)'' @ [NL]
               @ [NL] @ ''  '' @ help_style K ''press any key to return''
           | Some b \<Rightarrow>
               if bBanner b = [] then
                 ''  '' @ dim K ''(this board has no banner yet)'' @ [NL]
                 @ [NL] @ ''  '' @ help_style K ''press any key to return''
               else
                 concat (map (\<lambda>l. ''  '' @ banner_truncate L l width @ [NL]) (split_byte NL (trim_right [NL] (bBanner b))))
                 @ [NL] @ ''  '' @ help_style K (''press any key to return '' @ middle_dot @ '' Esc/Enter/q also work'') @ [NL]))"

definition board_list_row :: "'i lib \<Rightarrow> int \<Rightarrow> board \<Rightarrow> string" where
  "board_list_row L width b =
    ''  '' @ cells [pad_right L (bName b) 14, pad_right L (bTitle b) 32,
      truncate_width L (bDescription b) (max 20 (width - 14 - 32 - 8))]"

definition board_list_view :: "'i lib \<Rightarrow> 'i skin \<Rightarrow> 'i board_list \<Rightarrow> session_state \<Rightarrow> string" where
  "board_list_view L K m w =
    view_title K (tr w ''screen.board_list.title'')
    @ (if blSearchActive m then
         ''  '' @ dim K (tr w ''screen.board_list.search_prompt'') @ skWidget K (blSearch m) @ [NL]
         @ ''  '' @ dim K (tr_f w ''screen.board_list.search_in_progress'' [FInt (int (length (blFiltered m)))]) @ [NL, NL]
       else if blFilter m \<noteq> [] then
         ''  '' @ dim K (tr_f w ''screen.board_list.search_active'' [FString (blFilter m), FInt (int (length (blFiltered m)))])
         @ [NL, NL]
       else [])
    @ (if blFiltered m = [] then
         ''  '' @ dim K (tr w (if blFilter m \<noteq> [] then ''screen.board_list.no_match'' else ''screen.board_list.no_boards'')) @ [NL]
         @ [NL] @ ''  '' @ help_style K (tr w ''screen.board_list.help_line'') @ [NL]
       else
         dim K (''  '' @ cells [pad_right L ''Name'' 14, pad_right L ''Title'' 32, ''Description'']) @ [NL]
         @ table_rows K (blCursor m) (map (board_list_row L (blWidth m)) (blFiltered m))
         @ [NL] @ ''  '' @ help_style K (tr w ''screen.board_list.help_line'') @ [NL])"

section \<open>Articles of a board\<close>

definition score_text :: "locale_tag \<Rightarrow> int \<Rightarrow> string" where
  "score_text loc s =
    (if 100 \<le> s then score_exploded loc
     else if 0 < s then itoa s
     else if s < 0 then ''X'' @ itoa (- s)
     else [])"

definition listed_title :: "locale_tag \<Rightarrow> article \<Rightarrow> string" where
  "listed_title loc a =
    (let prefix = (if aPinnedAt a \<noteq> None then ''[M]'' else []) @ comments_mode_badge loc (aCommentsMode a)
     in if prefix \<noteq> [] then prefix @ '' '' @ aTitle a else aTitle a)"

definition board_title_width :: "int \<Rightarrow> int" where
  "board_title_width width = max 20 (width - 2 - 4 - 1 - 11 - 1 - 4 - 1 - 14 - 2)"

definition board_view_row :: "'i lib \<Rightarrow> locale_tag \<Rightarrow> int \<Rightarrow> nat \<times> article \<Rightarrow> string" where
  "board_view_row L loc width r =
    (case r of (i, a) \<Rightarrow>
       '' '' @ cells [pad_right L (itoa (int i + 1)) 4, pad_right L (fmt_short (aCreatedAt a)) 11,
         pad_right L (score_text loc (aRecommendScore a)) 4, pad_right L (aAuthorUserID a) 14,
         truncate_width L (listed_title loc a) (board_title_width width)])"

definition append_banner_help :: "'i board_view \<Rightarrow> session_state \<Rightarrow> string \<Rightarrow> string" where
  "append_banner_help m w help =
    help
    @ (case bvBoard m of None \<Rightarrow> [] | Some b \<Rightarrow> if bBanner b \<noteq> [] then ('' '' @ middle_dot @ '' b banner'') else [])
    @ (if can_edit_banner w then ('' '' @ middle_dot @ '' B edit'') else [])
    @ (if can_pin w then ('' '' @ middle_dot @ '' M pin/unpin'') else [])"

definition viewer_is_guest :: "session_state \<Rightarrow> bool" where
  "viewer_is_guest w \<longleftrightarrow> user_is (\<lambda>u. uRole u = RoleGuest) w"

definition no_articles :: "'i skin \<Rightarrow> 'i board_view \<Rightarrow> session_state \<Rightarrow> string" where
  "no_articles K m w =
    (let hint = (if viewer_is_guest w then ''(no articles yet)''
                 else if bvFilter m \<noteq> [] then tr w ''screen.board_view.no_articles''
                 else (''(no articles yet '' @ em_dash @ '' press p to write one)''));
         help = (if viewer_is_guest w then (''/ search '' @ middle_dot @ '' ? help '' @ middle_dot @ '' Esc/'' @ g_left @ ''/h back '' @ middle_dot @ '' Ctrl+C disconnect'')
                 else (''p post '' @ middle_dot @ '' / search '' @ middle_dot @ '' ? help '' @ middle_dot @ '' Esc/'' @ g_left @ ''/h back '' @ middle_dot @ '' Ctrl+C disconnect''))
     in ''  '' @ dim K hint @ [NL] @ [NL] @ ''  '' @ help_style K (append_banner_help m w help))"

definition board_view_table :: "'i lib \<Rightarrow> 'i skin \<Rightarrow> 'i board_view \<Rightarrow> session_state \<Rightarrow> string" where
  "board_view_table L K m w =
    dim K ('' '' @ cells [pad_right L ''#'' 4, pad_right L ''Date'' 11, pad_right L ''Sc.'' 4, pad_right L ''Author'' 14,
      pad_right L ''Title'' (board_title_width (bvWidth m))])
    @ (if bvSort m = SortByScoreDesc then ''  '' @ dim K (tr w ''screen.board_view.sort_by_score'') else []) @ [NL]
    @ table_rows K (bvCursor m) (map (board_view_row L (locale_of w) (bvWidth m)) (enumerate 0 (bvArticles m)))
    @ [NL] @ ''  '' @ help_style K (append_banner_help m w
        (if viewer_is_guest w
         then g_up @ ''/'' @ g_down @ '' j/k move '' @ middle_dot @ '' Enter/'' @ g_right @ ''/l open '' @ middle_dot @ '' / search '' @ middle_dot @ '' s sort '' @ middle_dot @ '' ? help '' @ middle_dot @ '' Esc/'' @ g_left @ ''/h back '' @ middle_dot @ '' Ctrl+C disconnect''
         else tr w ''screen.board_view.help_line'')) @ [NL]"

definition board_view_view :: "'i lib \<Rightarrow> 'i skin \<Rightarrow> 'i board_view \<Rightarrow> session_state \<Rightarrow> string" where
  "board_view_view L K m w =
    view_title K (case bvBoard m of
        Some b \<Rightarrow> tr_f w ''screen.board_view.title_named'' [FString (bName b), FString (bTitle b)]
      | None \<Rightarrow> tr w ''screen.board_view.title_bare'')
    @ render_banner L (dim K) (bvWidth m) (bvBoard m)
    @ (if bvLoadErr m \<noteq> NoErr then load_error_line K (bvLoadErr m)
       else
         (if bvSearchActive m then
            ''  '' @ dim K (tr w ''screen.board_view.search_prompt'') @ skWidget K (bvSearch m) @ [NL]
            @ ''  '' @ dim K (tr w ''screen.board_view.search_in_progress'') @ [NL, NL]
          else if bvFilter m \<noteq> [] then
            ''  '' @ dim K (tr_f w ''screen.board_view.search_active'' [FString (bvFilter m), FInt (int (length (bvArticles m)))])
            @ [NL, NL]
          else [])
         @ (if bvArticles m = [] then no_articles K m w else board_view_table L K m w))"

definition banner_edit_view :: "'i skin \<Rightarrow> 'i banner_edit \<Rightarrow> session_state \<Rightarrow> string" where
  "banner_edit_view K m w =
    view_title K (tr w ''screen.board_banner_edit.title'')
    @ (if beLoadErr m \<noteq> NoErr then load_error_line K (beLoadErr m) @ any_key_back K
       else
         ''  '' @ dim K ''Banner (ANSI / ASCII art):'' @ [NL]
         @ ''  '' @ indent (skWidget K (beBody m)) ''  '' @ [NL]
         @ (if beErr m \<noteq> NoErr then [NL] @ ''  '' @ warning K (beErr m) @ [NL] else [])
         @ [NL] @ ''  '' @ help_style K (tr w ''screen.board_banner_edit.help_line'') @ [NL])"

end
