(* ===== verification/FormViews.thy ===== *)
theory FormViews
  imports Render WBScreens MailScreens AccountScreens NotifyScreen
begin

text \<open>The views of the account screens, of water balloons and mail, and of the notification settings.\<close>

section \<open>Accounts\<close>

text \<open>The fields of a form, each under its label; a label without a field is a panic.\<close>

fun form_fields :: "'i skin \<Rightarrow> string list \<Rightarrow> 'i list \<Rightarrow> string option" where
  "form_fields K [] fs = Some []"
| "form_fields K (l # ls) [] = None"
| "form_fields K (l # ls) (f # fs) =
    map_option (\<lambda>rest. ''  '' @ dim K l @ [NL] @ ''  '' @ skWidget K f @ [NL, NL] @ rest) (form_fields K ls fs)"

lemma form_fields_Some: "length ls \<le> length fs \<Longrightarrow> \<exists>s. form_fields K ls fs = Some s"
  by (induction K ls fs rule: form_fields.induct) auto

definition register_view :: "'i skin \<Rightarrow> 'i register_form \<Rightarrow> session_state \<Rightarrow> string option" where
  "register_view K m w =
    (if rgSuccess m then
       Some (skStyle K StyleSuccess (tr w ''screen.register.success'') @ tr w ''screen.register.retry_hint''
         @ skStyle K StyleHighlight (''ssh '' @ rgDone m @ ''@<host> -p <port>'') @ tr w ''screen.register.done_hint'')
     else
       map_option (\<lambda>fields.
           view_title K (tr w ''screen.register.title'') @ fields
           @ (if rgErr m \<noteq> NoErr then ''  '' @ warning K (rgErr m) @ [NL, NL] else [])
           @ ''  '' @ help_style K (''Tab/'' @ g_down @ '' next '' @ middle_dot @ '' Shift+Tab/'' @ g_up @ '' prev '' @ middle_dot @ '' Enter submit '' @ middle_dot @ '' Esc/Ctrl+C cancel'') @ [NL])
         (form_fields K [tr w ''screen.register.field_user_id'', tr w ''screen.register.field_password'',
            tr w ''screen.register.field_nickname'', ''Email (optional)''] (rgInputs m)))"

definition password_change_view :: "'i skin \<Rightarrow> 'i password_change \<Rightarrow> session_state \<Rightarrow> string option" where
  "password_change_view K m w =
    map_option (\<lambda>fields.
        view_title K (tr w (if seMustChange w then ''screen.password_change.title_must'' else ''screen.password_change.title''))
        @ fields
        @ (if pwErr m \<noteq> NoErr then ''  '' @ warning K (pwErr m) @ [NL, NL] else [])
        @ (if pwSuccess m then
             ''  '' @ skStyle K StyleSuccess
               (tr w (if seMustChange w then ''screen.password_change.ok_to_menu'' else ''screen.password_change.ok'')) @ [NL, NL]
           else [])
        @ ''  '' @ help_style K ((''Tab/'' @ g_down @ '' next '' @ middle_dot @ '' Shift+Tab/'' @ g_up @ '' prev '' @ middle_dot @ '' Enter submit '' @ middle_dot @ '' '')
            @ (if seMustChange w then ''Esc disconnect'' else ''Esc back'')) @ [NL])
      (form_fields K [tr w ''screen.password_change.label_current'', tr w ''screen.password_change.label_new'',
         tr w ''screen.password_change.label_confirm''] (pwInputs m))"

definition bio_edit_view :: "'i skin \<Rightarrow> 'i bio_edit \<Rightarrow> session_state \<Rightarrow> string" where
  "bio_edit_view K m w =
    view_title K (tr w ''screen.bio_edit.title'')
    @ ''  '' @ dim K (''Bio (free-form, '' @ g_le @ '' 1024 chars; newlines OK):'') @ [NL]
    @ ''  '' @ indent (skWidget K (biBody m)) ''  '' @ [NL]
    @ (if biErr m \<noteq> NoErr then [NL] @ ''  '' @ warning K (biErr m) else [])
    @ (if biSuccess m then [NL] @ ''  '' @ skStyle K StyleSuccess (g_check @ '' saved'') else [])
    @ [NL] @ ''  '' @ help_style K (''Ctrl+S save '' @ middle_dot @ '' Esc cancel'') @ [NL]"

definition admin_users_row :: "'i lib \<Rightarrow> user \<Rightarrow> string" where
  "admin_users_row L u =
    '' '' @ cells [pad_right L (itoa (uID u)) 5, pad_right L (uUserID u) 14, pad_right L (uRole u) 6,
      pad_right L (if uMustChangePassword u then ''yes'' else []) 12,
      pad_right L (truncate_width L (uNickname u) 16) 16]"

definition admin_users_view :: "'i lib \<Rightarrow> 'i skin \<Rightarrow> admin_users \<Rightarrow> session_state \<Rightarrow> string" where
  "admin_users_view L K m w =
    view_title K (tr w ''screen.admin_users.title'')
    @ (if auUsers m = [] then
         ''  '' @ dim K ''(no users on this page)'' @ [NL]
         @ [NL] @ ''  '' @ help_style K (''[ prev page '' @ middle_dot @ '' Esc back'')
       else
         dim K ('' '' @ cells [pad_right L ''id'' 5, pad_right L ''user_id'' 14, pad_right L ''role'' 6,
           pad_right L ''must_chg_pw'' 12, pad_right L ''nickname'' 16]) @ [NL]
         @ table_rows K (auCursor m) (map (admin_users_row L) (auUsers m))
         @ [NL] @ ''  '' @ dim K (''page '' @ itoa (auPage m + 1)) @ [NL]
         @ (if auToast m \<noteq> NoErr then ''  '' @ skStyle K StyleHighlight (err_text K (auToast m)) @ [NL] else [])
         @ [NL] @ ''  '' @ help_style K (''j/k move '' @ middle_dot @ '' g/u/M/a set role (guest/user/Mod/admin) '' @ middle_dot @ '' [/] page '' @ middle_dot @ '' Q/Esc back'') @ [NL])"

section \<open>Water balloons\<close>

definition preview_width :: "int \<Rightarrow> int" where
  "preview_width width = max 20 (width - 2 - 16 - 1 - 14 - 1 - 5 - 3)"

definition wb_inbox_row :: "'i lib \<Rightarrow> int \<Rightarrow> int \<Rightarrow> wb_counterparty \<Rightarrow> string" where
  "wb_inbox_row L viewer width it =
    (let status = (if 0 < cpUnreadCount it then itoa (int (cpUnreadCount it)) else middle_dot);
         name = (if cpUserID it = viewer then (g_memo @ '' yourself'') else cpUserIDStr it);
         preview = (if cpUserID it \<noteq> viewer \<and> cpLastFromMe it then ''you: '' @ cpLastBody it else cpLastBody it)
     in '' '' @ cells [pad_right L (format_minute (cpLastAt it)) 16, pad_right L name 14, pad_right L status 5,
          truncate_width L preview (preview_width width)])"

definition wb_inbox_view :: "'i lib \<Rightarrow> 'i skin \<Rightarrow> wb_inbox \<Rightarrow> session_state \<Rightarrow> string" where
  "wb_inbox_view L K m w =
    view_title K (tr w ''screen.wb.inbox_title'')
    @ (if wiItems m = [] then
         ''  '' @ dim K (''(no messages '' @ em_dash @ '' press c to compose)'') @ [NL]
         @ [NL] @ ''  '' @ help_style K (''c compose '' @ middle_dot @ '' Esc/'' @ g_left @ ''/h back'')
       else
         dim K ('' '' @ cells [pad_right L ''Last'' 16, pad_right L ''With'' 14, pad_right L ''New'' 5,
           pad_right L ''Preview'' (preview_width (wiWidth m))]) @ [NL]
         @ table_rows K (wiCursor m) (map (wb_inbox_row L (session_uid w) (wiWidth m)) (wiItems m))
         @ [NL] @ ''  '' @ help_style K (g_up @ ''/'' @ g_down @ '' j/k move '' @ middle_dot @ '' Enter/'' @ g_right @ ''/l/r open '' @ middle_dot @ '' c compose '' @ middle_dot @ '' Esc/'' @ g_left @ ''/h back'') @ [NL])"

text \<open>The two compose forms show the same once a message is sent.\<close>

definition sent_note :: "'i skin \<Rightarrow> string \<Rightarrow> string" where
  "sent_note K sent =
    ''  '' @ skStyle K StyleSuccess ((g_check @ '' sent to '') @ sent) @ [NL, NL] @ ''  '' @ help_style K ''any key returns to inbox''"

definition wb_compose_view :: "'i skin \<Rightarrow> 'i wb_compose \<Rightarrow> session_state \<Rightarrow> string" where
  "wb_compose_view K m w =
    view_title K (tr w ''screen.wb.compose_title'')
    @ (if wcSent m \<noteq> [] then sent_note K (wcSent m)
       else
         ''  '' @ dim K ''To (userid):'' @ [NL] @ ''  '' @ skWidget K (wcTo m) @ [NL, NL]
         @ ''  '' @ dim K ''Body:'' @ [NL] @ ''  '' @ indent (skWidget K (wcBody m)) ''  '' @ [NL]
         @ (if wcErr m \<noteq> NoErr then [NL] @ ''  '' @ warning K (wcErr m) @ [NL] else [])
         @ [NL] @ ''  '' @ help_style K (''Tab switch field '' @ middle_dot @ '' Enter (in To) '' @ g_right @ '' body '' @ middle_dot @ '' Ctrl+S send '' @ middle_dot @ '' Esc cancel''))"

definition wb_thread_lines :: "'i skin \<Rightarrow> 'i wb_thread \<Rightarrow> session_state \<Rightarrow> string list" where
  "wb_thread_lines K m w =
    concat (map (\<lambda>b.
        [''  '' @ (if wFromUserID b = session_uid w then dim K ''you'' else skStyle K StyleHighlight (wtCpUserID m))
           @ ''  '' @ dim K (format_minute (wCreatedAt b)),
         ''    '' @ wBody b, []]) (wtItems m))"

text \<open>The lines shown: the scroll offset is cut back to the last full window.\<close>

definition wb_thread_window :: "string list \<Rightarrow> int \<Rightarrow> int \<Rightarrow> string list option" where
  "wb_thread_window ls scroll height =
    (let visible = (if height - 7 < 1 then int (length ls) else height - 7);
         top = max 0 (int (length ls) - visible);
         start = (if top < scroll then top else scroll)
     in if ls = [] then Some [] else go_slice ls start (min (start + visible) (int (length ls))))"

lemma wb_thread_window_Some: "0 \<le> scroll \<Longrightarrow> \<exists>shown. wb_thread_window ls scroll height = Some shown"
  by (auto simp: wb_thread_window_def Let_def go_slice_def)

definition wb_thread_view :: "'i skin \<Rightarrow> 'i wb_thread \<Rightarrow> session_state \<Rightarrow> string option" where
  "wb_thread_view K m w =
    (let label = (if user_is (\<lambda>u. uID u = wtCpID m) w then (g_memo @ '' yourself (memo)'') else wtCpUserID m);
         head = view_title K (tr_f w ''screen.wb.thread_title'' [FString label]);
         ls = wb_thread_lines K m w
     in if wtLoadErr m \<noteq> NoErr then Some (head @ load_error_line K (wtLoadErr m))
        else map_option (\<lambda>shown.
            head
            @ (if ls = [] then ''  '' @ dim K (''(empty thread '' @ em_dash @ '' type below to start)'') @ [NL]
               else concat (map (\<lambda>l. l @ [NL]) shown))
            @ [NL]
            @ (if wtErr m \<noteq> NoErr then ''  '' @ warning K (wtErr m) @ [NL] else [])
            @ (if wtFocusInput m then (g_cursor @ '' '') else ''  '') @ skWidget K (wtInput m) @ [NL]
            @ [NL] @ ''  '' @ help_style K (if wtFocusInput m then (''Tab focus scrollback '' @ middle_dot @ '' Enter send '' @ middle_dot @ '' Esc back'')
                else g_up @ ''/'' @ g_down @ '' j/k scroll '' @ middle_dot @ '' g/G top/end '' @ middle_dot @ '' Tab focus input '' @ middle_dot @ '' Esc/'' @ g_left @ ''/h back '' @ middle_dot @ '' Q quit''))
          (wb_thread_window ls (wtScroll m) (wtHeight m)))"

section \<open>Mail\<close>

definition mail_inbox_row :: "'i lib \<Rightarrow> int \<Rightarrow> mail \<Rightarrow> string" where
  "mail_inbox_row L width it =
    '' '' @ cells [pad_right L (format_minute (mCreatedAt it)) 16, pad_right L (mFromUserIDStr it) 14,
      pad_right L (if mReadAt it = None then ''NEW'' else middle_dot) 5, truncate_width L (mSubject it) (preview_width width)]"

definition mail_inbox_view :: "'i lib \<Rightarrow> 'i skin \<Rightarrow> mail_inbox \<Rightarrow> session_state \<Rightarrow> string" where
  "mail_inbox_view L K m w =
    view_title K (tr w ''screen.mail.inbox_title'')
    @ (if miLoadErr m \<noteq> NoErr then load_error_line K (miLoadErr m)
       else if miItems m = [] then
         ''  '' @ dim K (''(no mail '' @ em_dash @ '' press c to compose)'') @ [NL]
         @ [NL] @ ''  '' @ help_style K (''c compose '' @ middle_dot @ '' Esc/'' @ g_left @ ''/h back '' @ middle_dot @ '' Q quit'')
       else
         dim K ('' '' @ cells [pad_right L ''Date'' 16, pad_right L ''From'' 14, pad_right L g_bullet 5,
           pad_right L ''Subject'' (preview_width (miWidth m))]) @ [NL]
         @ table_rows K (miCursor m) (map (mail_inbox_row L (miWidth m)) (miItems m))
         @ [NL] @ ''  '' @ help_style K (g_up @ ''/'' @ g_down @ '' j/k move '' @ middle_dot @ '' Enter/'' @ g_right @ ''/l open '' @ middle_dot @ '' r reply '' @ middle_dot @ '' c compose '' @ middle_dot @ '' Esc/'' @ g_left @ ''/h back '' @ middle_dot @ '' Q quit'') @ [NL])"

definition recipient_name :: "session_state \<Rightarrow> int \<Rightarrow> string" where
  "recipient_name w uid =
    (case users_get_by_id uid (seDB w) of Inl _ \<Rightarrow> ''uid='' @ itoa uid | Inr u \<Rightarrow> uUserID u)"

definition mail_thread_item :: "'i skin \<Rightarrow> mail_thread \<Rightarrow> session_state \<Rightarrow> nat \<times> mail \<Rightarrow> string" where
  "mail_thread_item K m w r =
    (case r of (i, it) \<Rightarrow>
       let body = (if i < length (mtRendered m) \<and> mtRendered m ! i \<noteq> [] then mtRendered m ! i else mBody it)
       in ''  '' @ dim K (g_bar @ g_bar @ '' #'' @ itoa (int i + 1) @ ''  '' @ mFromUserIDStr it @ '' '' @ g_right @ '' '' @ recipient_name w (mToUserID it)
            @ ''  '' @ format_minute (mCreatedAt it) @ '' '' @ g_bar @ g_bar) @ [NL]
          @ ''  '' @ dim K ''Subject: '' @ mSubject it @ [NL]
          @ body @ [NL, NL])"

definition mail_thread_view :: "'i skin \<Rightarrow> mail_thread \<Rightarrow> session_state \<Rightarrow> string" where
  "mail_thread_view K m w =
    view_title K (tr_f w ''screen.mail.thread_title'' [FInt64 (mtThreadID m)])
    @ (if mtLoadErr m \<noteq> NoErr then load_error_line K (mtLoadErr m)
       else if mtItems m = [] then ''  '' @ dim K ''(empty thread)'' @ [NL]
       else concat (map (mail_thread_item K m w) (enumerate 0 (mtItems m)))
         @ ''  '' @ help_style K (''r reply '' @ middle_dot @ '' Esc/'' @ g_left @ ''/h back '' @ middle_dot @ '' Q quit'') @ [NL])"

definition mail_compose_view :: "'i skin \<Rightarrow> 'i mail_compose \<Rightarrow> session_state \<Rightarrow> string" where
  "mail_compose_view K m w =
    view_title K (tr w (if mcParentID m = 0 then ''screen.mail.compose_title_new'' else ''screen.mail.compose_title_reply''))
    @ (if mcSent m \<noteq> [] then sent_note K (mcSent m)
       else
         ''  '' @ dim K ''To (userid):'' @ [NL] @ ''  '' @ skWidget K (mcTo m) @ [NL, NL]
         @ ''  '' @ dim K ''Subject:'' @ [NL] @ ''  '' @ skWidget K (mcSubject m) @ [NL, NL]
         @ ''  '' @ dim K ''Body:'' @ [NL] @ ''  '' @ indent (skWidget K (mcBody m)) ''  '' @ [NL]
         @ (if mcErr m \<noteq> NoErr then [NL] @ ''  '' @ warning K (mcErr m) @ [NL] else [])
         @ [NL] @ ''  '' @ help_style K (''Tab cycle field '' @ middle_dot @ '' Enter (in To/Subject) '' @ g_right @ '' next '' @ middle_dot @ '' Ctrl+S send '' @ middle_dot @ '' Esc cancel''))"

section \<open>Notification settings\<close>

definition pref_rows :: "notify_prefs \<Rightarrow> session_state \<Rightarrow> (string \<times> bool \<times> string) list" where
  "pref_rows p w =
    [(tr w ''screen.notify_settings.label.on_push'', npOnPush p, tr w ''screen.notify_settings.hint.on_push''),
     (tr w ''screen.notify_settings.label.on_wb'', npOnWB p, tr w ''screen.notify_settings.hint.on_wb''),
     (tr w ''screen.notify_settings.label.on_mail'', npOnMail p, tr w ''screen.notify_settings.hint.on_mail''),
     (tr w ''screen.notify_settings.label.on_reply'', npOnReply p, tr w ''screen.notify_settings.hint.on_reply''),
     (tr w ''screen.notify_settings.label.only_when_offline'', npOnlyWhenOffline p, tr w ''screen.notify_settings.hint.offline'')]"

definition pref_row :: "'i skin \<Rightarrow> 'i notify_settings \<Rightarrow> nat \<times> string \<times> bool \<times> string \<Rightarrow> string" where
  "pref_row K m r =
    (case r of (i, label, on, note) \<Rightarrow>
       let check = (if on then ''[x]'' else ''[ ]''); row = ''  '' @ check @ ''  '' @ itoa (int i + 1) @ ''. ''
       in (if int i = nsCursor m \<and> nsMode m = ModeList
           then g_cursor @ '' '' @ skStyle K StyleHighlight (row @ fmt_left 44 label)
           else ''  '' @ row @ label)
          @ ''  '' @ dim K note @ [NL])"

definition target_row :: "'i lib \<Rightarrow> 'i skin \<Rightarrow> 'i notify_settings \<Rightarrow> nat \<times> notify_target \<Rightarrow> string" where
  "target_row L K m r =
    (case r of (i, t) \<Rightarrow>
       let check = (if ntEnabled t then (''['' @ g_check @ '']'') else (''['' @ g_cross @ '']''));
           label = (if ntLabel t = [] then ''(no label)'' else ntLabel t);
           row = ''  '' @ check @ '' #'' @ itoa (ntID t) @ '' '' @ pad_right L (truncate_width L label 24) 24
             @ ''  '' @ truncate_width L (ntURL t) 60
       in (if notifPrefCount + int i = nsCursor m \<and> nsMode m = ModeList
           then g_cursor @ '' '' @ skStyle K StyleHighlight row else ''  '' @ row) @ [NL])"

definition notify_form :: "'i skin \<Rightarrow> 'i notify_settings \<Rightarrow> string" where
  "notify_form K m =
    [NL] @ ''  '' @ header_style K '' Webhook target '' @ [NL, NL]
    @ ''  '' @ dim K ''Label:'' @ [NL] @ ''  '' @ skWidget K (nsEditLabel m) @ [NL, NL]
    @ ''  '' @ dim K ''URL (http:// or https://):'' @ [NL] @ ''  '' @ skWidget K (nsEditURL m) @ [NL]
    @ (if nsErr m \<noteq> NoErr then [NL] @ ''  '' @ warning K (nsErr m) else [])
    @ [NL] @ ''  '' @ help_style K (''Tab cycle field '' @ middle_dot @ '' Enter/Ctrl+S save '' @ middle_dot @ '' Esc cancel'') @ [NL]"

definition notify_settings_view :: "'i lib \<Rightarrow> 'i skin \<Rightarrow> 'i notify_settings \<Rightarrow> session_state \<Rightarrow> string" where
  "notify_settings_view L K m w =
    view_title K (tr w ''screen.notify_settings.title'')
    @ ''  '' @ dim K (tr w ''screen.notify_settings.events_header'') @ [NL]
    @ concat (map (pref_row K m) (enumerate 0 (pref_rows (nsPrefs m) w)))
    @ (if nsPrefsDirty m then [NL] @ ''  '' @ dim K (''(prefs unsaved '' @ em_dash @ '' Ctrl+S to persist)'') @ [NL] else [])
    @ [NL] @ ''  '' @ dim K (tr w ''screen.notify_settings.targets_header'') @ [NL]
    @ (if nsTargets m = [] then ''  '' @ dim K (tr w ''screen.notify_settings.no_targets'') @ [NL]
       else concat (map (target_row L K m) (enumerate 0 (nsTargets m))))
    @ (if add_row_index m = nsCursor m \<and> nsMode m = ModeList
       then g_cursor @ '' '' @ skStyle K StyleHighlight (tr w ''screen.notify_settings.add_target'') @ [NL]
       else ''  '' @ tr w ''screen.notify_settings.add_target'' @ [NL])
    @ (if nsMode m = ModeEdit then notify_form K m
       else
         (if nsErr m \<noteq> NoErr then [NL] @ ''  '' @ warning K (nsErr m) else [])
         @ (if nsFlash m \<noteq> [] then [NL] @ ''  '' @ skStyle K StyleSuccess (nsFlash m) else [])
         @ [NL] @ ''  '' @ help_style K (tr w ''screen.notify_settings.help_line'') @ [NL])"

end
