(* ===== verification/ArticleViews.thy ===== *)
theory ArticleViews
  imports Render ComposeScreens ArticleView
begin

text \<open>The views of the article forms, of one article and of the export screen.\<close>

section \<open>Forms\<close>

definition title_and_body :: "'i skin \<Rightarrow> 'i \<Rightarrow> 'i \<Rightarrow> err_note \<Rightarrow> string" where
  "title_and_body K t b e =
    ''  '' @ dim K ''Title:'' @ [NL] @ ''  '' @ skWidget K t @ [NL, NL]
    @ ''  '' @ dim K ''Body:'' @ [NL] @ ''  '' @ indent (skWidget K b) ''  '' @ [NL]
    @ (if e \<noteq> NoErr then [NL] @ ''  '' @ warning K e @ [NL] else [])"

definition post_compose_view :: "'i skin \<Rightarrow> 'i post_compose \<Rightarrow> session_state \<Rightarrow> string" where
  "post_compose_view K m w =
    [NL]
    @ (case pcParent m of
         Some a \<Rightarrow> header_style K (tr w ''screen.post_compose.title_reply'')
           @ [NL] @ ''  '' @ dim K (tr_f w ''screen.post_compose.reply_prefix''
               [FInt64 (aID a), FString (aAuthorUserID a), FString (aTitle a)])
       | None \<Rightarrow> header_style K (tr w ''screen.post_compose.title_new''))
    @ [NL, NL]
    @ title_and_body K (pcTitle m) (pcBody m) (pcErr m)
    @ [NL] @ ''  '' @ help_style K
        (''Tab switch field '' @ middle_dot @ '' Enter (in title) '' @ g_right @ '' body '' @ middle_dot @ '' Ctrl+S send '' @ middle_dot @ '' Ctrl+I import markdown '' @ middle_dot @ '' Esc cancel'') @ [NL]"

definition article_edit_view :: "'i skin \<Rightarrow> 'i article_edit \<Rightarrow> session_state \<Rightarrow> string" where
  "article_edit_view K m w =
    view_title K (tr w ''screen.article_edit.title'')
    @ (if aeLoadErr m \<noteq> NoErr then load_error_line K (aeLoadErr m) @ any_key_back K
       else
         title_and_body K (aeTitle m) (aeBody m) (aeErr m)
         @ [NL] @ ''  '' @ help_style K (''Tab switch field '' @ middle_dot @ '' Enter (in title) '' @ g_right @ '' body '' @ middle_dot @ '' Ctrl+S save '' @ middle_dot @ '' Esc cancel'') @ [NL])"

section \<open>One article\<close>

definition render_push_kind :: "'i skin \<Rightarrow> locale_tag \<Rightarrow> push_kind \<Rightarrow> string" where
  "render_push_kind K loc k =
    (if k = PushKindPush then skStyle K StylePushKind (glyph_push loc k)
     else if k = PushKindBoo then skStyle K StyleBooKind (glyph_push loc k)
     else if k = PushKindArrow then skStyle K StyleArrowKind (glyph_push loc k)
     else ''?'')"

definition article_head :: "'i skin \<Rightarrow> article \<Rightarrow> session_state \<Rightarrow> string" where
  "article_head K a w =
    view_title K (tr_f w ''screen.article_view.title'' [FInt64 (aID a), FString (aAuthorUserID a)])
    @ ''  '' @ dim K ''Title: '' @ aTitle a @ [NL]
    @ ''  '' @ dim K ''Date:  '' @ fmt_second (aCreatedAt a) @ [NL]
    @ ''  '' @ dim K ''Score: '' @ itoa (aRecommendScore a) @ [NL]
    @ (if aCommentsMode a = CommentsModeArrowsOnly then
         ''  '' @ dim K (tr w ''screen.article_view.comments_prefix'')
         @ skStyle K StyleError (tr w ''screen.article_view.comments_arrows_only'') @ [NL]
       else if aCommentsMode a = CommentsModeLocked then
         ''  '' @ dim K (tr w ''screen.article_view.comments_prefix'')
         @ skStyle K StyleError (tr w ''screen.article_view.comments_locked'') @ [NL]
       else [])
    @ [NL]"

definition article_body :: "'i article_view \<Rightarrow> article \<Rightarrow> string list" where
  "article_body m a = split_byte NL (if avRendered m = [] then aBody a else avRendered m)"

definition push_row :: "'i lib \<Rightarrow> 'i skin \<Rightarrow> 'i article_view \<Rightarrow> session_state \<Rightarrow> nat \<times> push \<Rightarrow> string" where
  "push_row L K m w r =
    (case r of (i, p) \<Rightarrow>
       let here = (int i = avPushCursor m);
           line = (if here then (g_cursor @ '' '') else ''  '') @ render_push_kind K (locale_of w) (pKind p) @ '' ''
             @ pad_right L (pUserUserID p) 14 @ '' '' @ pBody p @ ''  '' @ dim K (fmt_short (pCreatedAt p))
       in (if here then skStyle K StyleHighlight line else line) @ [NL])"

definition push_section :: "'i lib \<Rightarrow> 'i skin \<Rightarrow> 'i article_view \<Rightarrow> session_state \<Rightarrow> string" where
  "push_section L K m w =
    (if avPushes m = [] then []
     else [NL] @ ''  '' @ dim K (tr_f w ''screen.article_view.pushes_header'' [FInt (int (length (avPushes m)))]) @ [NL]
       @ concat (map (push_row L K m w) (enumerate 0 (avPushes m))))"

definition article_help :: "'i article_view \<Rightarrow> session_state \<Rightarrow> string" where
  "article_help m w =
    tr w ''screen.article_view.help_base''
    @ (if can_push w then tr w ''screen.article_view.help_push_kinds'' else [])
    @ (if avPushes m \<noteq> [] then tr w ''screen.article_view.help_select_push'' else [])
    @ (if can_edit_article m w then tr w ''screen.article_view.help_edit'' else [])
    @ (if can_set_comments_mode w then tr w ''screen.article_view.help_mode_toggle'' else [])
    @ (if 0 \<le> avPushCursor m \<and> can_delete_push (avPushCursor m) m w then tr w ''screen.article_view.help_delete_push''
       else if can_delete_article m w then tr w ''screen.article_view.help_delete_article''
       else [])
    @ ('' '' @ middle_dot @ '' ? help '' @ middle_dot @ '' Esc/'' @ g_left @ '' back '' @ middle_dot @ '' Ctrl+C disconnect'')"

definition article_foot :: "'i skin \<Rightarrow> 'i article_view \<Rightarrow> session_state \<Rightarrow> string" where
  "article_foot K m w =
    (if avPushing m then
       [NL] @ ''  '' @ render_push_kind K (locale_of w) (avPushKind m) @ '' '' @ skWidget K (avPushIn m) @ [NL]
       @ (if avErr m \<noteq> NoErr then ''  '' @ warning K (avErr m) @ [NL] else [])
       @ ''  '' @ help_style K (''Enter send '' @ middle_dot @ '' Esc cancel'')
     else if avPendingDelete m then
       [NL] @ ''  '' @ skStyle K StyleError ((g_warn @ '' '') @
         (if 0 \<le> avPushCursor m \<and> avPushCursor m < int (length (avPushes m))
          then tr_f w ''screen.article_view.confirm_delete_push'' [FInt (avPushCursor m + 1)]
          else tr w ''screen.article_view.confirm_delete_article''))
     else if avPickingCommentsMode m then
       [NL] @ ''  '' @ header_style K (tr w ''screen.article_view.mode_banner'')
       @ [NL] @ ''  '' @ help_style K (tr w ''screen.article_view.mode_options'')
     else
       (if avErr m \<noteq> NoErr then [NL] @ ''  '' @ warning K (avErr m) else [])
       @ [NL] @ ''  '' @ help_style K (article_help m w))
    @ [NL]"

definition article_view_view :: "'i lib \<Rightarrow> 'i skin \<Rightarrow> 'i article_view \<Rightarrow> session_state \<Rightarrow> string option" where
  "article_view_view L K m w =
    (if avLoadErr m \<noteq> NoErr then Some ([NL] @ ''  '' @ warning K (avLoadErr m) @ [NL])
     else case avArticle m of
       None \<Rightarrow> Some ([NL] @ ''  '' @ dim K ''(no article)'' @ [NL])
     | Some a \<Rightarrow>
         map_option (\<lambda>(shown, start, stop).
             article_head K a w
             @ concat (map (\<lambda>l. l @ [NL]) shown)
             @ (if 0 < start \<or> stop < int (length (article_body m a))
                then ''  '' @ dim K (window_note (article_body m a) start stop) @ [NL] else [])
             @ push_section L K m w
             @ article_foot K m w)
           (text_window (article_body m a) (avScroll m) (max (avHeight m - 16) 5)))"

section \<open>Export\<close>

definition article_export_view :: "'i skin \<Rightarrow> article_export \<Rightarrow> session_state \<Rightarrow> string option" where
  "article_export_view K m w =
    (let head = view_title K (tr w ''screen.article_export.title''); ls = split_byte NL (axRendered m)
     in if axLoadErr m \<noteq> NoErr then Some (head @ load_error_line K (axLoadErr m) @ any_key_back K)
        else map_option (\<lambda>(shown, start, stop).
            head
            @ concat (map (\<lambda>l. l @ [NL]) shown)
            @ (if 0 < start \<or> stop < int (length ls)
               then [NL] @ ''  '' @ dim K (window_note ls start stop) @ [NL] else [])
            @ [NL] @ ''  '' @ help_style K (tr w ''screen.article_export.help_line'')
            @ (if axStatusLine m \<noteq> [] then [NL] @ ''  '' @ skStyle K StyleSuccess (axStatusLine m) else [])
            @ [NL])
          (text_window ls (axScroll m) (export_viewport_lines m)))"

end
