(* ===== verification/HelpPages.thy ===== *)
theory HelpPages
  imports Render Root
begin

text \<open>
  \<open>help.go\<close>: the key tables of the help overlay, screen by screen, and the page. The screens on which the
  overlay opens are in \<open>Root\<close>.
\<close>

section \<open>Tables\<close>

record help_row =
  heKeys :: string
  heDesc :: string

record help_part =
  hsHeading :: string
  hsEntries :: "help_row list"

definition help_entry :: "string \<Rightarrow> string \<Rightarrow> help_row" where
  "help_entry k d = \<lparr>heKeys = k, heDesc = d\<rparr>"

definition help_section :: "string \<Rightarrow> help_row list \<Rightarrow> help_part" where
  "help_section h es = \<lparr>hsHeading = h, hsEntries = es\<rparr>"

text \<open>The words that differ between the two languages.\<close>

record help_words =
  hwWB :: string
  hwMailbox :: string
  hwMailThread :: string
  hwChat :: string
  hwPushAmount :: string
  hwWhisper :: string

definition help_words_for :: "locale_tag \<Rightarrow> help_words" where
  "help_words_for loc =
    (if loc = LocaleEN then
       \<lparr>hwWB = ''Water Balloon'', hwMailbox = ''Mail'', hwMailThread = ''Mail'', hwChat = ''chat'', hwPushAmount = ''score'',
        hwWhisper = ''whisper''\<rparr>
     else
       \<lparr>hwWB = [CHR 0xE6, CHR 0xB0, CHR 0xB4, CHR 0xE7, CHR 0x90, CHR 0x83],
        hwMailbox = [CHR 0xE4, CHR 0xBF, CHR 0xA1, CHR 0xE7, CHR 0xAE, CHR 0xB1],
        hwMailThread = [CHR 0xE4, CHR 0xBF, CHR 0xA1, CHR 0xE4, CHR 0xBB, CHR 0xB6],
        hwChat = [CHR 0xE5, CHR 0xB0, CHR 0x8D, CHR 0xE8, CHR 0xA9, CHR 0xB1],
        hwPushAmount = [CHR 0xE6, CHR 0x8E, CHR 0xA8, CHR 0xE6, CHR 0x96, CHR 0x87, CHR 0xE9, CHR 0x87, CHR 0x8F],
        hwWhisper = [CHR 0xE4, CHR 0xB8, CHR 0x9F, CHR 0xE6, CHR 0xB0, CHR 0xB4, CHR 0xE7, CHR 0x90, CHR 0x83]\<rparr>)"

text \<open>The settings, the administration, the export and the splash.\<close>

definition settings_help :: "screen \<Rightarrow> help_part list" where
  "settings_help s =
     (case s of
        ScreenUserSettings \<Rightarrow>
        [help_section (''User settings'')
         [help_entry (g_up @ ''/'' @ g_down @ '' j/k'') (''move cursor''),
          help_entry (''Enter/'' @ g_right @ ''/l'') (''open sub-screen''),
          help_entry (''1-5'') (''jump to numbered slot''),
          help_entry (''Esc/'' @ g_left @ ''/h q'') (''back to main menu'')]]
      | ScreenLocaleSettings \<Rightarrow>
        [help_section (''Locale settings'')
         [help_entry (g_up @ ''/'' @ g_down @ '' j/k'') (''move cursor''),
          help_entry (''Enter/Space/'' @ g_right @ ''/l'') (''select highlighted locale''),
          help_entry (''1-2'') (''jump to numbered locale''),
          help_entry (''Ctrl+S'') (''save''),
          help_entry (''Esc/'' @ g_left @ ''/h'') (''back to user settings (discard unsaved)''),
          help_entry (''Q'') (''back to main menu'')]]
      | ScreenNotifySettings \<Rightarrow>
        [help_section (''Notification settings'')
         [help_entry (g_up @ ''/'' @ g_down @ '' j/k'') (''move cursor (toggles + targets + add)''),
          help_entry (''Space'') (''flip pref / toggle target enabled''),
          help_entry (''Ctrl+S'') (''save event toggles''),
          help_entry (''a'') (''add new webhook target''),
          help_entry (''e'') (''edit cursored target''),
          help_entry (''t'') (''toggle cursored target enabled''),
          help_entry (''T'') (''send test notification to cursored target''),
          help_entry (''d'') (''delete cursored target''),
          help_entry (''Esc/'' @ g_left @ ''/h'') (''back to user settings''),
          help_entry (''Q'') (''back to main menu'')]]
      | ScreenAdminUsers \<Rightarrow>
        [help_section (''Admin: users'')
         [help_entry (g_up @ ''/'' @ g_down @ '' j/k'') (''move cursor''),
          help_entry (''[ / ]'') (''prev / next page''),
          help_entry (''a / m / u / g'') (''promote to admin / mod / user / guest''),
          help_entry (''R'') (''reset password (forces change on next login)''),
          help_entry (''Esc/'' @ g_left @ ''/h'') (''back to main menu'')]]
      | ScreenArticleExport \<Rightarrow>
        [help_section (''Export article'')
         [help_entry (''1'') (''plain body''),
          help_entry (''2'') (''body + pushes''),
          help_entry (''3'') (''save to data/exports/<userid>/''),
          help_entry (''c'') (''OSC52 copy to clipboard''),
          help_entry (''Esc/'' @ g_left @ ''/h/q'') (''back'')]]
      | ScreenBoardSplash \<Rightarrow>
        [help_section (''Board banner splash'')
         [help_entry (''any key'') (''return to board view'')]]
      | _ \<Rightarrow> [])"

definition screen_help_for :: "locale_tag \<Rightarrow> screen \<Rightarrow> help_part list" where
  "screen_help_for loc s =
    (let t = help_words_for loc in
     (case s of
        ScreenMainMenu \<Rightarrow>
        [help_section (''Main menu'')
         [help_entry (g_up @ ''/'' @ g_down @ '' j/k'') (''move cursor''),
          help_entry (''Enter/'' @ g_right @ ''/l'') (''select''),
          help_entry (''1-9'') (''jump to numbered slot''),
          help_entry (''q'') (''quit'')]]
      | ScreenBoardList \<Rightarrow>
        [help_section (''Board list'')
         [help_entry (g_up @ ''/'' @ g_down @ '' j/k [/]'') (''move cursor''),
          help_entry (''Enter/'' @ g_right @ ''/l'') (''open board''),
          help_entry (''/'') (''search boards (Enter applies, Esc cancels)''),
          help_entry (''Esc (filtered)'') (''clear active filter''),
          help_entry (''Esc/'' @ g_left @ ''/h'') (''back'')]]
      | ScreenBoardView \<Rightarrow>
        [help_section (''Board view (article list)'')
         [help_entry (g_up @ ''/'' @ g_down @ '' j/k [/]'') (''move cursor''),
          help_entry (''Enter/'' @ g_right @ ''/l'') (''open article''),
          help_entry (''/'') (''search articles by title''),
          help_entry (''s'') (''toggle sort (Newest '' @ g_swap @ '' '' @ hwPushAmount t @ '')''),
          help_entry (''Esc (filtered)'') (''clear active filter''),
          help_entry (''p'') (''post new article (non-guest)''),
          help_entry (''b'') (''board banner splash (if banner set)''),
          help_entry (''B'') (''edit banner (mod+)''),
          help_entry (''M'') (''pin / unpin (mod+)''),
          help_entry (''Esc/'' @ g_left @ ''/h'') (''back to board list''),
          help_entry (''Q'') (''back to main menu'')]]
      | ScreenArticleView \<Rightarrow>
        [help_section (''Article view'')
         [help_entry (''j/k'') (''scroll''),
          help_entry (''g/G'') (''top / bottom''),
          help_entry (''PgUp/PgDn'') (''page scroll (b/space aliases)''),
          help_entry (''+ / - / ='') (glyph_push loc PushKindPush @ '' / '' @ glyph_push loc PushKindBoo @ '' / '' @ glyph_push loc PushKindArrow @ '' (non-guest)''),
          help_entry (''r'') (''reply (Re:) '' @ em_dash @ '' opens compose with parent quoted''),
          help_entry (''p / P'') (''select push for delete''),
          help_entry (''D'') (''delete cursored article or push (owner / mod+)''),
          help_entry (''E'') (''edit article (author / mod+)''),
          help_entry (''y'') (''export article markdown''),
          help_entry (''[ / ]'') (''previous / next article on this board''),
          help_entry (''Esc/'' @ g_left @ ''/h'') (''back to board''),
          help_entry (''Q'') (''back to main menu'')]]
      | ScreenWBInbox \<Rightarrow>
        [help_section (hwWB t @ '' inbox (per-counterparty roll-up)'')
         [help_entry (g_up @ ''/'' @ g_down @ '' j/k'') (''move cursor''),
          help_entry (''Enter/'' @ g_right @ ''/l/r'') (''open thread with cursored user''),
          help_entry (''c'') (''compose new water balloon''),
          help_entry (''Esc/'' @ g_left @ ''/h'') (''back to main menu'')]]
      | ScreenWBThread \<Rightarrow>
        [help_section (hwWB t @ '' '' @ hwChat t @ '' '' @ em_dash @ '' input focused (default)'')
         [help_entry (''Enter'') (''send the typed message''),
          help_entry (''Tab'') (''switch focus to scrollback''),
          help_entry (g_up @ ''/'' @ g_down @ '' PgUp/PgDn'') (''scroll history while typing''),
          help_entry (''Esc'') (''back to inbox''),
          help_entry (''(any other key)'') (''typed into the input'')],
         help_section (''Scrollback focused (after Tab)'')
         [help_entry (g_up @ ''/'' @ g_down @ '' j/k PgUp/PgDn'') (''scroll''),
          help_entry (''g / G / Home / End'') (''top / end''),
          help_entry (''Tab'') (''back to input''),
          help_entry (''Esc/'' @ g_left @ ''/h'') (''back to inbox''),
          help_entry (''Q'') (''back to main menu'')]]
      | ScreenOnline \<Rightarrow>
        [help_section (''Online users'')
         [help_entry (g_up @ ''/'' @ g_down @ '' j/k [/]'') (''move cursor''),
          help_entry (''Enter/'' @ g_right @ ''/l'') (hwWhisper t @ '' (compose)''),
          help_entry (''t'') (hwChat t @ '' thread (chat-style)''),
          help_entry (''g / G / Home / End'') (''top / bottom''),
          help_entry (''Esc/'' @ g_left @ ''/h'') (''back to main menu''),
          help_entry (''Q'') (''back to main menu'')]]
      | ScreenMailInbox \<Rightarrow>
        [help_section (hwMailbox t @ '' (mail inbox)'')
         [help_entry (g_up @ ''/'' @ g_down @ '' j/k [/]'') (''move cursor''),
          help_entry (''Enter/'' @ g_right @ ''/l'') (''open thread''),
          help_entry (''r'') (''reply to cursored mail''),
          help_entry (''c'') (''compose new mail''),
          help_entry (''Esc/'' @ g_left @ ''/h'') (''back to main menu''),
          help_entry (''Q'') (''back to main menu'')]]
      | ScreenMailThread \<Rightarrow>
        [help_section (hwMailThread t @ '' thread'')
         [help_entry (g_up @ ''/'' @ g_down @ '' j/k'') (''scroll''),
          help_entry (''g'') (''top''),
          help_entry (''r'') (''reply''),
          help_entry (''Esc/'' @ g_left @ ''/h'') (''back to inbox''),
          help_entry (''Q'') (''back to main menu'')]]
      | _ \<Rightarrow> settings_help s))"

definition global_help :: "session_state \<Rightarrow> help_row list" where
  "global_help w =
    [help_entry ''?'' ''show this help (any key dismisses)'',
     help_entry ''Ctrl+U'' (tr w ''help.global.wb_inbox''),
     help_entry ''Ctrl+C'' ''disconnect'']"

section \<open>The page\<close>

definition format_help_row :: "'i lib \<Rightarrow> help_row \<Rightarrow> string" where
  "format_help_row L e = ''    '' @ cells [pad_right L (heKeys e) 22, heDesc e]"

definition render_help_part :: "'i lib \<Rightarrow> 'i skin \<Rightarrow> nat \<times> help_part \<Rightarrow> string" where
  "render_help_part L K r =
    (case r of (i, p) \<Rightarrow>
       (if 0 < i then [NL] else [])
       @ (if hsHeading p \<noteq> [] then dim K (''  '' @ hsHeading p) @ [NL] else [])
       @ concat (map (\<lambda>e. format_help_row L e @ [NL]) (hsEntries p)))"

definition render_help :: "'i lib \<Rightarrow> 'i skin \<Rightarrow> session_state \<Rightarrow> screen \<Rightarrow> string" where
  "render_help L K w s =
    skStyle K helpBox
      (header_style K (tr w ''help.overlay.title'') @ [NL, NL]
       @ (case screen_help_for (locale_of w) s of
            [] \<Rightarrow> ''  '' @ dim K ''(no per-screen keymap registered for this screen)'' @ [NL, NL]
          | ps \<Rightarrow> concat (map (render_help_part L K) (enumerate 0 ps)) @ [NL])
       @ dim K ''  Global'' @ [NL]
       @ concat (map (\<lambda>e. format_help_row L e @ [NL]) (global_help w))
       @ [NL] @ ''  '' @ help_style K ''press any key to dismiss'')"

section \<open>Which screens have a page\<close>

lemma help_pages: "screen_help_for loc s = [] \<longleftrightarrow> is_form_screen s"
  by (cases s) (simp_all add: screen_help_for_def settings_help_def is_form_screen_def Let_def)

end
