(* ===== verification/RootView.thy ===== *)
theory RootView
  imports MenuViews FormViews ArticleViews HelpPages RootProps
begin

text \<open>
  The view of the root model over the views of all screens, and what every reachable session shows.
\<close>

section \<open>The root\<close>

definition sub_view :: "'i lib \<Rightarrow> 'i skin \<Rightarrow> 'i sub \<Rightarrow> session_state \<Rightarrow> string option" where
  "sub_view L K s w =
    (case s of
       SubRegister m \<Rightarrow> register_view K m w
     | SubMainMenu m \<Rightarrow> main_menu_view K m w
     | SubBoardList m \<Rightarrow> Some (board_list_view L K m w)
     | SubBoardView m \<Rightarrow> Some (board_view_view L K m w)
     | SubArticleView m \<Rightarrow> article_view_view L K m w
     | SubPostCompose m \<Rightarrow> Some (post_compose_view K m w)
     | SubWBInbox m \<Rightarrow> Some (wb_inbox_view L K m w)
     | SubWBCompose m \<Rightarrow> Some (wb_compose_view K m w)
     | SubWBThread m \<Rightarrow> wb_thread_view K m w
     | SubOnline m \<Rightarrow> Some (online_view L K m w)
     | SubMailInbox m \<Rightarrow> Some (mail_inbox_view L K m w)
     | SubMailThread m \<Rightarrow> Some (mail_thread_view K m w)
     | SubMailCompose m \<Rightarrow> Some (mail_compose_view K m w)
     | SubPasswordChange m \<Rightarrow> password_change_view K m w
     | SubAdminUsers m \<Rightarrow> Some (admin_users_view L K m w)
     | SubArticleEdit m \<Rightarrow> Some (article_edit_view K m w)
     | SubArticleExport m \<Rightarrow> article_export_view K m w
     | SubBoardSplash m \<Rightarrow> Some (board_splash_view L K m w)
     | SubBannerEdit m \<Rightarrow> Some (banner_edit_view K m w)
     | SubUserSettings m \<Rightarrow> Some (user_settings_view L K m w)
     | SubBioEdit m \<Rightarrow> Some (bio_edit_view K m w)
     | SubNotifySettings m \<Rightarrow> Some (notify_settings_view L K m w)
     | SubLocaleSettings m \<Rightarrow> Some (locale_settings_view K m w))"

definition toast_text :: "'i skin \<Rightarrow> toast \<Rightarrow> string" where
  "toast_text K t =
    (case t of
       NoToast \<Rightarrow> []
     | ErrToast e \<Rightarrow> g_warn @ '' '' @ err_text K e
     | WBToast from body \<Rightarrow> g_drop @ '' '' @ from @ '': '' @ body)"

definition root_view :: "'i lib \<Rightarrow> 'i skin \<Rightarrow> 'i root \<Rightarrow> session_state \<Rightarrow> string option" where
  "root_view L K r w =
    (if rtHelpVisible r then Some (render_help L K w (rtActiveScreen r))
     else map_option (\<lambda>v.
         v @ (if toast_text K (rtToast r) \<noteq> [] \<and> unix_time (seNow w) < rtToastUntil r
              then [NL] @ skStyle K StyleToast (toast_text K (rtToast r)) else []))
       (sub_view L K (rtSub r) w))"

section \<open>Views do not panic\<close>

lemma article_view_renders: "article_view_ok m \<Longrightarrow> \<exists>v. article_view_view L K m w = Some v"
  using text_window_shows [of "avScroll m" "max (avHeight m - 16) 5" "article_body m a" for a]
  by (fastforce simp: article_view_view_def article_view_ge split: option.split)

lemma article_export_renders: "article_export_ok m \<Longrightarrow> \<exists>v. article_export_view K m w = Some v"
  using text_window_shows [of "axScroll m" "export_viewport_lines m" "split_byte NL (axRendered m)"]
  by (fastforce simp: article_export_view_def article_export_ok_def export_viewport_lines_def Let_def)

lemma wb_thread_renders: "wb_thread_ok m \<Longrightarrow> \<exists>v. wb_thread_view K m w = Some v"
  using wb_thread_window_Some [of "wtScroll m" "wb_thread_lines K m w" "wtHeight m"]
  by (auto simp: wb_thread_view_def wb_thread_ge Let_def)

lemma password_change_renders: "password_change_ok m \<Longrightarrow> \<exists>v. password_change_view K m w = Some v"
  using form_fields_Some [of "[a, b, c]" "pwInputs m" K for a b c]
  by (fastforce simp: password_change_view_def password_change_ok_def)

lemma main_menu_renders: "signed_in (seUser w) \<Longrightarrow> \<exists>v. main_menu_view K m w = Some v"
  by (cases "seUser w") (simp_all add: signed_in_def main_menu_view_def Let_def)

lemma sub_view_renders: "sub_ok s \<Longrightarrow> signed_in (seUser w) \<Longrightarrow> \<exists>v. sub_view L K s w = Some v"
  by (cases s) (simp_all add: sub_view_def article_view_renders article_export_renders wb_thread_renders
      password_change_renders main_menu_renders)

text \<open>C4: every reachable state of a signed-in session can be drawn: no view dereferences a missing user, indexes a
  missing field or slices out of range, whatever the size of the terminal. The help overlay shows the keys of
  the screen behind it.\<close>

theorem every_state_renders:
  assumes "session_run E (new_root E w, w) (r', w')" and "seUser w = Some u" and "\<not> seIsRegister w"
  shows "\<exists>v. root_view (enLib E) K r' w' = Some v
    \<and> (rtHelpVisible r' \<longrightarrow> v = render_help (enLib E) K w' (screen_of (rtSub r')))"
proof -
  have ok: "root_ok r' w'" using assms by (intro reachable_root_ok [OF assms(1)]) simp_all
  then obtain v where "sub_view (enLib E) K (rtSub r') w' = Some v"
    using sub_view_renders by (metis root_ok_def)
  with ok show ?thesis by (auto simp: root_view_def root_ok_def)
qed

lemma every_state_renders_witness:
  "root_view demo_lib demo_skin ((new_root demo_env demo_state)\<lparr>rtHelpVisible := True\<rparr>) demo_state
    = Some (render_help demo_lib demo_skin demo_state ScreenMainMenu)"
  using every_state_renders [OF demo_run, of _ demo_skin] by (auto simp: new_root_def demo_env_def)

section \<open>Scrolling\<close>

text \<open>The view of a mail thread does not read the scroll offset its keys change.\<close>

lemma mail_thread_ignores_scroll: "mail_thread_view K (m\<lparr>mtScroll := n\<rparr>) w = mail_thread_view K m w"
proof -
  have "mail_thread_item K (m\<lparr>mtScroll := n\<rparr>) w = mail_thread_item K m w"
    by (rule ext) (simp add: mail_thread_item_def Let_def cong: if_cong split: prod.split)
  then show ?thesis by (simp add: mail_thread_view_def)
qed

text \<open>An article scrolled past its end shows no line; the keys that scroll down have no bound.\<close>

lemma article_scrolled_past_end:
  assumes "avArticle m = Some a" and "int (length (article_body m a)) \<le> avScroll m"
  shows "\<exists>i j. text_window (article_body m a) (avScroll m) (max (avHeight m - 16) 5) = Some ([], i, j)"
  using text_window_shows [of "avScroll m" "max (avHeight m - 16) 5" "article_body m a"] assms(2) by auto

end
