(* ===== verification/Webhook.thy ===== *)
theory Webhook
  imports Dispatch Auth Strconv
begin

text \<open>
  The HTTP side of \<open>internal/notify\<close>: the JSON bodies, the redaction of webhook URLs in messages, with the part of
  \<open>net/url\<close> it reads, and the test delivery. The HTTP client is a parameter; so is \<open>ip_literal\<close>, what
  \<open>net/url\<close> makes of a host with a bracket.
\<close>

section \<open>JSON bodies\<close>

text \<open>\<open>encoding/json\<close> with its default escaping of HTML characters and of invalid UTF-8.\<close>

definition hex_char :: "nat \<Rightarrow> char" where
  "hex_char n = (if n < 10 then char_of (48 + n) else char_of (87 + n))"

definition json_u :: "nat \<Rightarrow> nat \<Rightarrow> string" where
  "json_u hi lo = [CHR 0x5C] @ ''u'' @ [hex_char (hi div 16), hex_char (hi mod 16), hex_char (lo div 16), hex_char (lo mod 16)]"

definition json_rune :: "string \<Rightarrow> string" where
  "json_rune r =
    (if r = [CHR 0x22] then [CHR 0x5C, CHR 0x22]
     else if r = [CHR 0x5C] then [CHR 0x5C, CHR 0x5C]
     else if r = [CHR 0x08] then [CHR 0x5C] @ ''b''
     else if r = [CHR 0x0C] then [CHR 0x5C] @ ''f''
     else if r = [NL] then [CHR 0x5C] @ ''n''
     else if r = [CHR 0x0D] then [CHR 0x5C] @ ''r''
     else if r = [TAB] then [CHR 0x5C] @ ''t''
     else if length r = 1 \<and> (byte_of (hd r) < 32 \<or> r \<in> {''<'', ''>'', ''&''}) then json_u 0 (byte_of (hd r))
     else if r = [CHR 0xE2, CHR 0x80, CHR 0xA8] then json_u 32 40
     else if r = [CHR 0xE2, CHR 0x80, CHR 0xA9] then json_u 32 41
     else r)"

text \<open>A byte that is no UTF-8 becomes the escape of U+FFFD; U+FFFD itself is written as it is.\<close>

function json_runes :: "string \<Rightarrow> string" where
  "json_runes s =
    (if s = [] then []
     else case rune_len s of
       None \<Rightarrow> json_u 255 253 @ json_runes (drop 1 s)
     | Some n \<Rightarrow> json_rune (take n s) @ json_runes (drop n s))"
  by pat_completeness auto
termination
proof (relation "measure length")
  fix s :: string and n
  assume "s \<noteq> []" and "rune_len s = Some n"
  with rune_len_bounds show "(drop n s, s) \<in> measure length" by fastforce
qed auto

declare json_runes.simps [simp del]

definition json_string :: "string \<Rightarrow> string" where
  "json_string s = [CHR 0x22] @ json_runes s @ [CHR 0x22]"

definition json_field :: "string \<Rightarrow> string \<Rightarrow> string" where
  "json_field name v = json_string name @ '':'' @ v"

definition json_object :: "string list \<Rightarrow> string" where
  "json_object fs = ''{'' @ str_join '','' fs @ ''}''"

text \<open>Fields marked \<open>omitempty\<close> are left out when they are empty.\<close>

definition embed_json :: "discord_embed \<Rightarrow> string" where
  "embed_json e =
    json_object
      ((if deTitle e \<noteq> [] then [json_field ''title'' (json_string (deTitle e))] else [])
       @ (if deDescription e \<noteq> [] then [json_field ''description'' (json_string (deDescription e))] else [])
       @ (if deColor e \<noteq> 0 then [json_field ''color'' (itoa (deColor e))] else []))"

definition payload_json :: "payload \<Rightarrow> string" where
  "payload_json p =
    (case p of
       ApprisePayload t b \<Rightarrow> json_object [json_field ''title'' (json_string t), json_field ''body'' (json_string b)]
     | DiscordPayload u es \<Rightarrow>
         json_object
           ((if u \<noteq> [] then [json_field ''username'' (json_string u)] else [])
            @ (if es \<noteq> [] then [json_field ''embeds'' (''['' @ str_join '','' (map embed_json es) @ '']'')] else [])))"

section \<open>URLs\<close>

definition is_ctl :: "char \<Rightarrow> bool" where
  "is_ctl c \<longleftrightarrow> byte_of c < 32 \<or> byte_of c = 127"

definition alnum :: "char \<Rightarrow> bool" where
  "alnum c \<longleftrightarrow> is_letter c \<or> is_digit c"

text \<open>\<open>getScheme\<close>: the scheme and what follows its colon.\<close>

definition scheme_char :: "char \<Rightarrow> bool" where
  "scheme_char c \<longleftrightarrow> alnum c \<or> c \<in> set ''+-.''"

definition url_scheme :: "string \<Rightarrow> (string \<times> string) option" where
  "url_scheme raw =
    (if raw = [] then Some ([], raw)
     else if \<not> is_letter (hd raw) then (if hd raw = CHR '':'' then None else Some ([], raw))
     else let s = takeWhile scheme_char raw; r = dropWhile scheme_char raw
       in if r \<noteq> [] \<and> hd r = CHR '':'' then Some (s, tl r) else Some ([], raw))"

text \<open>\<open>unescape\<close>: the values a percent sequence may have and the bytes that may stand for themselves.\<close>

fun unescape :: "(nat \<Rightarrow> bool) \<Rightarrow> (char \<Rightarrow> bool) \<Rightarrow> string \<Rightarrow> string option" where
  "unescape okv okc [] = Some []"
| "unescape okv okc (c # s) =
    (if c = CHR ''%'' then
       (case s of
          a # b # r \<Rightarrow>
            (case (hex_digit a, hex_digit b) of
               (Some x, Some y) \<Rightarrow>
                 if okv (16 * x + y) then map_option (\<lambda>u. char_of (16 * x + y) # u) (unescape okv okc r) else None
             | _ \<Rightarrow> None)
        | _ \<Rightarrow> None)
     else if okc c then map_option (\<lambda>u. c # u) (unescape okv okc s)
     else None)"

definition unescape_any :: "string \<Rightarrow> string option" where
  "unescape_any s = unescape (\<lambda>_. True) (\<lambda>_. True) s"

definition host_char :: "char \<Rightarrow> bool" where
  "host_char c \<longleftrightarrow> alnum c \<or> c \<in> set ''!$&()*+,;=:[]<>-_.~'' \<or> c = CHR 0x27 \<or> c = CHR 0x22"

definition unescape_host :: "string \<Rightarrow> string option" where
  "unescape_host s = unescape (\<lambda>v. 128 \<le> v \<or> v = 37) (\<lambda>c. 128 \<le> byte_of c \<or> host_char c) s"

definition valid_optional_port :: "string \<Rightarrow> bool" where
  "valid_optional_port p \<longleftrightarrow> p = [] \<or> hd p = CHR '':'' \<and> list_all is_digit (tl p)"

definition url_host :: "(string \<Rightarrow> string option) \<Rightarrow> string \<Rightarrow> string option" where
  "url_host ip_literal host =
    (if CHR ''['' \<in> set host then ip_literal host
     else case last_index host (CHR '':'') of
       None \<Rightarrow> unescape_host host
     | Some i \<Rightarrow> if valid_optional_port (drop i host) then unescape_host host else None)"

definition userinfo_char :: "char \<Rightarrow> bool" where
  "userinfo_char c \<longleftrightarrow> alnum c \<or> c \<in> set ''-._:~!$&()*+,;=%@'' \<or> c = CHR 0x27"

definition userinfo_ok :: "string \<Rightarrow> bool" where
  "userinfo_ok u \<longleftrightarrow> list_all userinfo_char u \<and> unescape_any (takeWhile (\<lambda>c. c \<noteq> CHR '':'') u) \<noteq> None
     \<and> unescape_any (drop 1 (dropWhile (\<lambda>c. c \<noteq> CHR '':'') u)) \<noteq> None"

definition url_authority :: "(string \<Rightarrow> string option) \<Rightarrow> string \<Rightarrow> string option" where
  "url_authority ip_literal a =
    (case last_index a (CHR ''@'') of
       None \<Rightarrow> url_host ip_literal a
     | Some i \<Rightarrow> if userinfo_ok (take i a) then url_host ip_literal (drop (i + 1) a) else None)"

record url_parts =
  upScheme :: string
  upHost :: string
  upPath :: string

text \<open>\<open>url.Parse\<close> as far as scheme, host and path go.\<close>

definition url_hierarchy :: "(string \<Rightarrow> string option) \<Rightarrow> string \<Rightarrow> string \<Rightarrow> url_parts option" where
  "url_hierarchy ip_literal sch rest =
    (if \<not> has_prefix rest ''/'' \<and> sch \<noteq> [] then Some \<lparr>upScheme = sch, upHost = [], upPath = []\<rparr>
     else if \<not> has_prefix rest ''/'' \<and> CHR '':'' \<in> set (takeWhile (\<lambda>c. c \<noteq> CHR ''/'') rest) then None
     else let auth = ((sch \<noteq> [] \<or> \<not> has_prefix rest ''///'') \<and> has_prefix rest ''//'');
              host = (if auth then url_authority ip_literal (takeWhile (\<lambda>c. c \<noteq> CHR ''/'') (drop 2 rest)) else Some []);
              path = (if auth then dropWhile (\<lambda>c. c \<noteq> CHR ''/'') (drop 2 rest) else rest)
       in case (host, unescape_any path) of
            (Some h, Some p) \<Rightarrow> Some \<lparr>upScheme = sch, upHost = h, upPath = p\<rparr>
          | _ \<Rightarrow> None)"

definition url_parse :: "(string \<Rightarrow> string option) \<Rightarrow> string \<Rightarrow> url_parts option" where
  "url_parse ip_literal raw =
    (let u = takeWhile (\<lambda>c. c \<noteq> CHR ''#'') raw; frag = drop 1 (dropWhile (\<lambda>c. c \<noteq> CHR ''#'') raw)
     in if list_ex is_ctl u \<or> unescape_any frag = None then None
        else if u = ''*'' then Some \<lparr>upScheme = [], upHost = [], upPath = u\<rparr>
        else case url_scheme u of
          None \<Rightarrow> None
        | Some (sch, rest) \<Rightarrow> url_hierarchy ip_literal (map ascii_lower sch) (takeWhile (\<lambda>c. c \<noteq> CHR ''?'') rest))"

section \<open>Redaction\<close>

definition redacted :: string where "redacted = ''<redacted>''"

definition redact_url :: "(string \<Rightarrow> string option) \<Rightarrow> string \<Rightarrow> string" where
  "redact_url ip_literal raw =
    (case url_parse ip_literal raw of
       None \<Rightarrow> raw
     | Some u \<Rightarrow>
         if upScheme u = [] \<or> upHost u = [] then raw
         else if upPath u = [] \<or> upPath u = ''/'' then raw
         else let segments = split_byte (CHR ''/'') (trim_right ''/'' (trim_left ''/'' (upPath u)))
           in upScheme u @ ''://'' @ upHost u @ ''/'' @ str_join ''/'' (butlast segments @ [redacted]))"

definition scrub_url :: "(string \<Rightarrow> string option) \<Rightarrow> string \<Rightarrow> string \<Rightarrow> string" where
  "scrub_url ip_literal s raw = (if raw = [] then s else replace_all raw (redact_url ip_literal raw) s)"

section \<open>The test delivery\<close>

text \<open>
  The client: why \<open>http.NewRequest\<close> rejects a URL, and the answer to a request, a failure with its text or
  a status with a body.
\<close>

datatype http_answer = HttpFailed string | HttpAnswer int string

record http_client =
  hcReject :: "string \<Rightarrow> string option"
  hcDo :: "http_request \<Rightarrow> http_answer"

definition send_test :: "(string \<Rightarrow> string option) \<Rightarrow> http_client \<Rightarrow> notify_target \<Rightarrow> event \<Rightarrow> string option" where
  "send_test ip_literal C t ev =
    (case build_request (\<lambda>u. hcReject C u = None) t ev of
       None \<Rightarrow> Some (''build request: '' @ (case hcReject C (ntURL t) of None \<Rightarrow> [] | Some e \<Rightarrow> e))
     | Some r \<Rightarrow>
         (case hcDo C r of
            HttpFailed e \<Rightarrow> Some (scrub_url ip_literal e (ntURL t))
          | HttpAnswer status body \<Rightarrow>
              if 400 \<le> status then Some (''HTTP '' @ itoa status @ '': '' @ trim_space (take 256 body)) else None))"

section \<open>A delivery and its log\<close>

text \<open>What \<open>post\<close> logs, without the time it took: the target, the URL as it is shown, and the outcome.\<close>

datatype post_log =
    LogBuildRequest int string
  | LogPostFailed int string string string
  | LogTargetRejected int string int string
  | LogDelivered int string string int string int

definition post :: "(string \<Rightarrow> string option) \<Rightarrow> http_client \<Rightarrow> notify_target \<Rightarrow> event \<Rightarrow> http_request option \<times> post_log" where
  "post ip_literal C t ev =
    (case build_request (\<lambda>u. hcReject C u = None) t ev of
       None \<Rightarrow> (None, LogBuildRequest (ntID t) (case hcReject C (ntURL t) of None \<Rightarrow> [] | Some e \<Rightarrow> e))
     | Some r \<Rightarrow>
         (Some r,
          case hcDo C r of
            HttpFailed e \<Rightarrow> LogPostFailed (ntID t) (redact_url ip_literal (ntURL t)) (evKind ev) (scrub_url ip_literal e (ntURL t))
          | HttpAnswer status body \<Rightarrow>
              if 400 \<le> status then LogTargetRejected (ntID t) (redact_url ip_literal (ntURL t)) status (evKind ev)
              else LogDelivered (ntID t) (redact_url ip_literal (ntURL t)) (evKind ev) (evToUserID ev) (evFromUserID ev) status))"

text \<open>The requests of a delivery are those its posts send.\<close>

lemma deliver_posts:
  "deliver (\<lambda>u. hcReject C u = None) online d ev =
    (if \<not> prefs_allow (notify_get_prefs (evToUserID ev) d) (evKind ev)
        \<or> npOnlyWhenOffline (notify_get_prefs (evToUserID ev) d) \<and> (case online of None \<Rightarrow> False | Some f \<Rightarrow> f (evToUserID ev)) then []
     else List.map_filter (\<lambda>t. fst (post ip_literal C t ev)) (notify_list_enabled_targets (evToUserID ev) d))"
proof -
  have "fst (post ip_literal C t ev) = build_request (\<lambda>u. hcReject C u = None) t ev" for t
    by (simp add: post_def split: option.split)
  then show ?thesis by (auto simp: deliver_def Let_def)
qed

section \<open>What stays visible\<close>

lemma unescape_plain: "list_all (\<lambda>c. c \<noteq> CHR ''%'' \<and> okc c) s \<Longrightarrow> unescape okv okc s = Some s"
  by (induction s) auto

definition plain_segment :: "string \<Rightarrow> bool" where
  "plain_segment s \<longleftrightarrow> s \<noteq> [] \<and> list_all (\<lambda>c. \<not> is_ctl c \<and> c \<notin> set ''/?#%'') s"

definition plain_host :: "string \<Rightarrow> bool" where
  "plain_host h \<longleftrightarrow> h \<noteq> [] \<and> list_all (\<lambda>c. alnum c \<or> c \<in> set ''-.'') h"

lemma plain_segment_chars:
  "plain_segment s \<Longrightarrow> c \<in> set s \<Longrightarrow> \<not> is_ctl c \<and> c \<noteq> CHR ''/'' \<and> c \<noteq> CHR ''?'' \<and> c \<noteq> CHR ''#'' \<and> c \<noteq> CHR ''%''"
  by (auto simp: plain_segment_def list_all_iff)

lemma join_chars: "c \<in> set (str_join ''/'' ss) \<Longrightarrow> c = CHR ''/'' \<or> (\<exists>s \<in> set ss. c \<in> set s)"
  by (induction "''/''" ss rule: str_join.induct) auto

text \<open>The authority of a plain host with an optional port.\<close>

definition plain_authority :: "string \<Rightarrow> bool" where
  "plain_authority a \<longleftrightarrow> (\<exists>h p. a = h @ p \<and> plain_host h \<and> valid_optional_port p)"

definition authority_char :: "char \<Rightarrow> bool" where
  "authority_char c \<longleftrightarrow> alnum c \<or> c \<in> set ''-.:''"

lemma authority_char_not:
  "authority_char c \<Longrightarrow> \<not> is_ctl c \<and> c \<noteq> CHR ''/'' \<and> c \<noteq> CHR ''?'' \<and> c \<noteq> CHR ''#'' \<and> c \<noteq> CHR ''%'' \<and> c \<noteq> CHR ''@'' \<and> c \<noteq> CHR ''['' \<and> host_char c"
  by (auto simp: authority_char_def alnum_def is_letter_def is_digit_def is_upper_def is_lower_def is_ctl_def host_char_def byte_of_def)

lemma plain_authority_chars: "plain_authority a \<Longrightarrow> list_all authority_char a"
proof -
  assume "plain_authority a"
  then obtain h p where a: "a = h @ p" "plain_host h" "valid_optional_port p" by (auto simp: plain_authority_def)
  then have "list_all authority_char h" by (auto simp: plain_host_def authority_char_def list_all_iff)
  moreover have "list_all authority_char p"
    using a(3) by (cases p) (auto simp: valid_optional_port_def authority_char_def alnum_def list_all_iff)
  ultimately show ?thesis by (simp add: a(1))
qed

lemma last_index_absent: "c \<notin> set s \<Longrightarrow> last_index s c = None"
  by (auto simp: last_index_def str_index_None split: option.split) (metis in_set_conv_decomp set_rev append_Cons append_Nil)

lemma url_authority_plain:
  assumes "plain_authority a"
  shows "url_authority ip_literal a = Some a"
proof -
  obtain h p where a: "a = h @ p" "plain_host h" "valid_optional_port p" using assms by (auto simp: plain_authority_def)
  have chars: "list_all authority_char a" using assms by (rule plain_authority_chars)
  then have no: "CHR ''@'' \<notin> set a" "CHR ''['' \<notin> set a" by (auto simp: list_all_iff dest: authority_char_not)
  have un: "unescape_host a = Some a"
    unfolding unescape_host_def using chars by (intro unescape_plain) (auto simp: list_all_iff dest: authority_char_not)
  have "CHR '':'' \<notin> set h" using a(2) by (auto simp: plain_host_def list_all_iff alnum_def is_letter_def is_digit_def is_upper_def is_lower_def byte_of_def)
  moreover have "p = [] \<or> (\<exists>d. p = CHR '':'' # d \<and> CHR '':'' \<notin> set d)"
    using a(3) by (cases p) (auto simp: valid_optional_port_def list_all_iff is_digit_def byte_of_def)
  ultimately have "case last_index a (CHR '':'') of None \<Rightarrow> True | Some i \<Rightarrow> valid_optional_port (drop i a)"
    using a(1,3) by (auto simp: last_index_absent last_index_last)
  with no un show ?thesis by (auto simp: url_authority_def url_host_def last_index_absent split: option.splits)
qed

lemma url_scheme_http:
  "url_scheme (''http'' @ CHR '':'' # r) = Some (''http'', r)" "url_scheme (''https'' @ CHR '':'' # r) = Some (''https'', r)"
  by (simp_all add: url_scheme_def scheme_char_def alnum_def is_letter_def is_upper_def is_lower_def is_digit_def byte_of_def)

text \<open>A query that holds no fragment.\<close>

definition plain_query :: "string \<Rightarrow> bool" where
  "plain_query q \<longleftrightarrow> q = [] \<or> hd q = CHR ''?'' \<and> list_all (\<lambda>c. \<not> is_ctl c \<and> c \<noteq> CHR ''#'') q"

definition plain_path :: "string \<Rightarrow> bool" where
  "plain_path p \<longleftrightarrow> (p = [] \<or> hd p = CHR ''/'') \<and> list_all (\<lambda>c. \<not> is_ctl c \<and> c \<notin> set ''?#%'') p"

lemma takeWhile_until: "list_all P xs \<Longrightarrow> ys = [] \<or> \<not> P (hd ys) \<Longrightarrow> takeWhile P (xs @ ys) = xs \<and> dropWhile P (xs @ ys) = ys"
  by (induction xs) (cases ys, auto)

lemma url_parse_clean:
  assumes "list_all (\<lambda>c. \<not> is_ctl c \<and> c \<noteq> CHR ''#'') u" and "u \<noteq> ''*''"
  shows "url_parse ip_literal u =
    (case url_scheme u of
       None \<Rightarrow> None
     | Some (sch, rest) \<Rightarrow> url_hierarchy ip_literal (map ascii_lower sch) (takeWhile (\<lambda>c. c \<noteq> CHR ''?'') rest))"
proof -
  have cut: "takeWhile (\<lambda>c. c \<noteq> CHR ''#'') u = u" "dropWhile (\<lambda>c. c \<noteq> CHR ''#'') u = []"
    using assms(1) takeWhile_until [of "\<lambda>c. c \<noteq> CHR ''#''" u "[]"] by (auto simp: list_all_iff)
  have "\<not> list_ex is_ctl u" using assms(1) by (auto simp: list_all_iff list_ex_iff)
  then show ?thesis unfolding url_parse_def Let_def cut using assms(2) by (simp add: unescape_any_def)
qed

lemma url_parse_plain:
  assumes "sch \<in> {''http'', ''https''}" and "plain_authority a" and "plain_path p" and "plain_query q"
  shows "url_parse ip_literal (sch @ ''://'' @ a @ p @ q) = Some \<lparr>upScheme = sch, upHost = a, upPath = p\<rparr>"
proof -
  let ?rest = "''//'' @ a @ p" and ?raw = "sch @ ''://'' @ a @ p @ q"
  have ac: "list_all authority_char a" using assms(2) by (rule plain_authority_chars)
  have a: "list_all (\<lambda>c. \<not> is_ctl c \<and> c \<notin> set ''/?#'') a"
    using ac by (rule list.pred_mono_strong) (use authority_char_not in auto)
  then have "list_all (\<lambda>c. \<not> is_ctl c \<and> c \<noteq> CHR ''#'') a" by (rule list.pred_mono_strong) auto
  moreover have p: "list_all (\<lambda>c. \<not> is_ctl c \<and> c \<notin> set ''?#%'') p" using assms(3) by (simp add: plain_path_def)
  then have "list_all (\<lambda>c. \<not> is_ctl c \<and> c \<noteq> CHR ''#'') p" by (rule list.pred_mono_strong) auto
  moreover have "list_all (\<lambda>c. \<not> is_ctl c \<and> c \<noteq> CHR ''#'') q" using assms(4) by (auto simp: plain_query_def)
  moreover have "list_all (\<lambda>c. \<not> is_ctl c \<and> c \<noteq> CHR ''#'') (sch @ ''://'')"
    using assms(1) by (auto simp: is_ctl_def byte_of_def)
  ultimately have clean: "list_all (\<lambda>c. \<not> is_ctl c \<and> c \<noteq> CHR ''#'') ?raw" by simp
  have "list_all (\<lambda>c. c \<noteq> CHR ''?'') a" using a by (rule list.pred_mono_strong) auto
  moreover have "list_all (\<lambda>c. c \<noteq> CHR ''?'') p" using p by (rule list.pred_mono_strong) auto
  ultimately have q: "takeWhile (\<lambda>c. c \<noteq> CHR ''?'') (?rest @ q) = ?rest"
    using assms(4) by (intro takeWhile_until [THEN conjunct1]) (auto simp: plain_query_def)
  have "list_all (\<lambda>c. c \<noteq> CHR ''/'') a" using a by (rule list.pred_mono_strong) auto
  then have path: "takeWhile (\<lambda>c. c \<noteq> CHR ''/'') (a @ p) = a" "dropWhile (\<lambda>c. c \<noteq> CHR ''/'') (a @ p) = p"
    using assms(3) takeWhile_until [of "\<lambda>c. c \<noteq> CHR ''/''" a p] by (auto simp: plain_path_def)
  have un: "unescape_any p = Some p"
    unfolding unescape_any_def using assms(3) by (intro unescape_plain) (auto simp: plain_path_def list_all_iff)
  have "url_hierarchy ip_literal sch ?rest = Some \<lparr>upScheme = sch, upHost = a, upPath = p\<rparr>"
    using assms(1) path un url_authority_plain [OF assms(2)] by (auto simp: url_hierarchy_def Let_def)
  moreover have "url_scheme ?raw = Some (sch, ?rest @ q)" "map ascii_lower sch = sch" "?raw \<noteq> ''*''"
    using assms(1) url_scheme_http [of "?rest @ q"] by (auto simp: ascii_lower_def is_upper_def byte_of_def)
  ultimately show ?thesis
    using q by (simp add: url_parse_clean [OF clean] del: append.simps append_assoc)
qed

lemma plain_path_join:
  assumes "\<forall>s \<in> set ss. plain_segment s"
  shows "plain_path (''/'' @ str_join ''/'' ss)"
  using join_chars [of _ ss] assms plain_segment_chars
  by (fastforce simp: plain_path_def list_all_iff is_ctl_def byte_of_def)

lemma join_ends:
  assumes "\<forall>s \<in> set ss. plain_segment s" and "ss \<noteq> []"
  shows "str_join ''/'' ss \<noteq> [] \<and> hd (str_join ''/'' ss) \<noteq> CHR ''/'' \<and> last (str_join ''/'' ss) \<noteq> CHR ''/''"
  using assms
proof (induction "''/''" ss rule: str_join.induct)
  case (2 x)
  then show ?case using plain_segment_chars [of x "hd x"] plain_segment_chars [of x "last x"] by (auto simp: plain_segment_def)
next
  case (3 x y xs)
  then show ?case using plain_segment_chars [of x "hd x"] by (auto simp: plain_segment_def hd_append)
qed simp

text \<open>The text of a failed exchange: the method, the quoted URL and the reason.\<close>

definition failure_text :: "string \<Rightarrow> string \<Rightarrow> string" where
  "failure_text url reason = ''Post '' @ [CHR 0x22] @ url @ [CHR 0x22] @ '': '' @ reason"

lemma replace_all_skip: "old \<noteq> [] \<Longrightarrow> hd old \<notin> set u \<Longrightarrow> replace_all old new (u @ s) = u @ replace_all old new s"
proof (induction u)
  case (Cons c u)
  then have "\<not> has_prefix (c # u @ s) old" by (cases old) auto
  with Cons show ?case by (simp add: replace_all.simps(2))
qed simp

lemma build_request_rejected: "\<not> url_ok (ntURL t) \<Longrightarrow> build_request url_ok t ev = None"
  by (simp add: build_request_def build_discord_request_def build_apprise_request_def new_post_def Let_def
      split: target_format.split)

text \<open>C34: of a plain URL \<open>RedactURL\<close> replaces the last path segment, which is the credential of every service
  supported, by a placeholder together with a query behind it; when a delivery fails with an error text that quotes the URL
  literally, the message of a test and the log show the redacted URL in place of the real one, and so does the log of a
  delivery that is answered. A URL whose credential stands in the query of an empty path is shown as it is, and an error text that does not quote
  the URL literally, or that tells why the URL was rejected, is passed on as it is.\<close>

theorem webhook_secret_redacted:
  assumes "sch \<in> {''http'', ''https''}" and "plain_authority a"
    and "\<forall>s \<in> set (segs @ [secret]). plain_segment s" and "plain_query q"
    and "url = sch @ ''://'' @ a @ ''/'' @ str_join ''/'' (segs @ [secret]) @ q"
    and "shown = sch @ ''://'' @ a @ ''/'' @ str_join ''/'' (segs @ [''<redacted>''])"
  shows "redact_url ip_literal url = shown
    \<and> (ntURL t = url \<and> hcReject C url = None \<and> (\<forall>r. hcDo C r = HttpFailed (failure_text url reason))
         \<and> \<not> str_contains ([CHR 0x22] @ '': '' @ reason) url
       \<longrightarrow> send_test ip_literal C t ev = Some (failure_text shown reason)
         \<and> snd (post ip_literal C t ev) = LogPostFailed (ntID t) shown (evKind ev) (failure_text shown reason))
    \<and> (ntURL t = url \<and> hcReject C url = None \<and> (\<forall>r. hcDo C r = HttpAnswer status answer) \<longrightarrow>
         snd (post ip_literal C t ev) =
           (if 400 \<le> status then LogTargetRejected (ntID t) shown status (evKind ev)
            else LogDelivered (ntID t) shown (evKind ev) (evToUserID ev) (evFromUserID ev) status))
    \<and> redact_url ip_literal (sch @ ''://'' @ a @ q) = sch @ ''://'' @ a @ q
    \<and> (\<not> str_contains e url \<longrightarrow> scrub_url ip_literal e url = e)
    \<and> (hcReject C (ntURL t) = Some e \<longrightarrow> snd (post ip_literal C t ev) = LogBuildRequest (ntID t) e
         \<and> send_test ip_literal C t ev = Some (''build request: '' @ e))"
proof (intro conjI impI)
  let ?ss = "segs @ [secret]"
  let ?p = "''/'' @ str_join ''/'' ?ss"
  have parse: "url_parse ip_literal url = Some \<lparr>upScheme = sch, upHost = a, upPath = ?p\<rparr>"
    using url_parse_plain [OF assms(1,2) plain_path_join [OF assms(3)] assms(4)] assms(5) by simp
  have ends: "str_join ''/'' ?ss \<noteq> []" "hd (str_join ''/'' ?ss) \<noteq> CHR ''/''" "last (str_join ''/'' ?ss) \<noteq> CHR ''/''"
    using join_ends [OF assms(3)] by simp_all
  then have "trim_right ''/'' (trim_left ''/'' ?p) = str_join ''/'' ?ss"
    by (simp add: trim_left_id trim_right_id)
  moreover have "split_byte (CHR ''/'') (str_join ''/'' ?ss) = ?ss"
    using assms(3) plain_segment_chars by (intro split_join_byte) auto
  moreover have "a \<noteq> []" using assms(2) by (auto simp: plain_authority_def plain_host_def)
  ultimately show red: "redact_url ip_literal url = shown"
    using parse ends assms(1,6) by (auto simp: redact_url_def redacted_def)
  have "url_parse ip_literal (sch @ ''://'' @ a @ [] @ q) = Some \<lparr>upScheme = sch, upHost = a, upPath = []\<rparr>"
    by (rule url_parse_plain [OF assms(1,2) _ assms(4)]) (simp add: plain_path_def)
  then show "redact_url ip_literal (sch @ ''://'' @ a @ q) = sch @ ''://'' @ a @ q" by (simp add: redact_url_def)
  have url: "url \<noteq> []" "hd url = CHR ''h''" using assms(1,5) by auto
  show "scrub_url ip_literal e url = e" if "\<not> str_contains e url"
    using url that by (simp add: scrub_url_def replace_all_absent)
  have built: "\<exists>r. build_request (\<lambda>u. hcReject C u = None) t ev = Some r" if "hcReject C (ntURL t) = None"
    using that build_request_ok [of "\<lambda>u. hcReject C u = None" t ev] by auto
  show "snd (post ip_literal C t ev) =
      (if 400 \<le> status then LogTargetRejected (ntID t) shown status (evKind ev)
       else LogDelivered (ntID t) shown (evKind ev) (evToUserID ev) (evFromUserID ev) status)"
    if "ntURL t = url \<and> hcReject C url = None \<and> (\<forall>r. hcDo C r = HttpAnswer status answer)"
    using built that red by (auto simp: post_def)
  show "snd (post ip_literal C t ev) = LogBuildRequest (ntID t) e" "send_test ip_literal C t ev = Some (''build request: '' @ e)"
    if "hcReject C (ntURL t) = Some e"
    using that build_request_rejected [of "\<lambda>u. hcReject C u = None" t ev] by (simp_all add: post_def send_test_def)
  assume f: "ntURL t = url \<and> hcReject C url = None \<and> (\<forall>r. hcDo C r = HttpFailed (failure_text url reason))
    \<and> \<not> str_contains ([CHR 0x22] @ '': '' @ reason) url"
  have "scrub_url ip_literal (failure_text url reason) url = failure_text shown reason"
    using f url red replace_all_skip [of url "''Post '' @ [CHR 0x22]" shown "url @ [CHR 0x22] @ '': '' @ reason"]
      replace_all_prefix [of url shown "[CHR 0x22] @ '': '' @ reason"] replace_all_absent [of "[CHR 0x22] @ '': '' @ reason" url shown]
    by (simp add: scrub_url_def failure_text_def)
  then show "send_test ip_literal C t ev = Some (failure_text shown reason)"
    "snd (post ip_literal C t ev) = LogPostFailed (ntID t) shown (evKind ev) (failure_text shown reason)"
    using f built red by (auto simp: send_test_def post_def)
qed

lemma webhook_secret_redacted_witness:
  "redact_url (\<lambda>_. None) ''https://discord.com/api/webhooks/1/tok'' = ''https://discord.com/api/webhooks/1/<redacted>''
    \<and> redact_url (\<lambda>_. None) ''https://discord.com?key=tok'' = ''https://discord.com?key=tok''"
proof -
  have auth: "plain_authority ''discord.com''"
    unfolding plain_authority_def by (intro exI [of _ "''discord.com''"] exI [of _ "[]"])
      (simp add: plain_host_def valid_optional_port_def alnum_def is_letter_def is_lower_def byte_of_def)
  have segs: "\<forall>s \<in> set ([''api'', ''webhooks'', ''1''] @ [''tok'']). plain_segment s"
    by (simp add: plain_segment_def is_ctl_def byte_of_def)
  have q: "plain_query ''?key=tok''" "plain_query []" by (simp_all add: plain_query_def is_ctl_def byte_of_def)
  from webhook_secret_redacted [OF _ auth segs q(1) refl refl, of "''https''"]
    webhook_secret_redacted [OF _ auth segs q(2) refl refl, of "''https''"] show ?thesis by simp
qed

end
