(* ===== verification/Drain.thy ===== *)
theory Drain
  imports Dispatch I18n "HOL-Library.Multiset"
begin

text \<open>
  The workers of the dispatcher between \<open>Start\<close> and the end of \<open>Stop\<close>, and the end of \<open>cmd/sshbbs/main.go\<close>:
  what is still delivered when the process is told to stop.
\<close>

section \<open>The worker pool\<close>

definition defaultWorkers :: nat where "defaultWorkers = 4"

text \<open>
  A worker waits in its \<open>select\<close> (\<open>plIdle\<close> counts them), delivers an event or has returned. \<open>plAccepted\<close> logs the events
  the queue took, \<open>plDelivered\<close> those whose \<open>deliver\<close> was not cut short by a cancelled context.
\<close>

record pool =
  plMgr :: manager
  plIdle :: nat
  plBusy :: "event list"
  plCancelled :: bool
  plAccepted :: "event list"
  plDelivered :: "event list"

definition started :: pool where
  "started = \<lparr>plMgr = new_manager, plIdle = defaultWorkers, plBusy = [], plCancelled = False, plAccepted = [], plDelivered = []\<rparr>"

definition pool_dispatch :: "event \<Rightarrow> pool \<Rightarrow> pool" where
  "pool_dispatch ev p =
    (let m = dispatch ev (plMgr p)
     in p\<lparr>plMgr := m, plAccepted := plAccepted p @ drop (length (mgQueue (plMgr p))) (mgQueue m)\<rparr>)"

definition pool_take :: "pool \<Rightarrow> pool" where
  "pool_take p =
    (case mgQueue (plMgr p) of
       [] \<Rightarrow> p
     | ev # q \<Rightarrow> p\<lparr>plMgr := worker_take (plMgr p), plIdle := plIdle p - 1, plBusy := plBusy p @ [ev]\<rparr>)"

text \<open>
  What a worker does: a \<open>select\<close> with several ready cases takes any of them, so a cancelled worker may still receive. A delivery
  ends well unless the context is cancelled before; then a post that is already answered may still end well, and
  everything else fails.
\<close>

inductive worker_step :: "pool \<Rightarrow> pool \<Rightarrow> bool" where
  received: "0 < plIdle p \<Longrightarrow> mgQueue (plMgr p) \<noteq> [] \<Longrightarrow> worker_step p (pool_take p)"
| finished: "plBusy p = es @ ev # fs \<Longrightarrow> ends_well \<or> plCancelled p \<Longrightarrow>
    worker_step p (p\<lparr>plIdle := plIdle p + 1, plBusy := es @ fs,
      plDelivered := (if ends_well then plDelivered p @ [ev] else plDelivered p)\<rparr>)"
| left_cancelled: "0 < plIdle p \<Longrightarrow> plCancelled p \<Longrightarrow> worker_step p (p\<lparr>plIdle := plIdle p - 1\<rparr>)"
| left_closed: "0 < plIdle p \<Longrightarrow> mgClosed (plMgr p) \<Longrightarrow> mgQueue (plMgr p) = [] \<Longrightarrow> worker_step p (p\<lparr>plIdle := plIdle p - 1\<rparr>)"

text \<open>The workers among everything else: events are dispatched, the context is cancelled, \<open>Stop\<close> closes the queue.\<close>

inductive pool_step :: "pool \<Rightarrow> pool \<Rightarrow> bool" where
  works: "worker_step p p' \<Longrightarrow> pool_step p p'"
| dispatched: "pool_step p (pool_dispatch ev p)"
| cancelled: "pool_step p (p\<lparr>plCancelled := True\<rparr>)"
| stopped: "pool_step p (p\<lparr>plMgr := manager_stop (plMgr p)\<rparr>)"

inductive_cases worker_stepE: "worker_step p p'"

inductive_cases pool_stepE: "pool_step p p'"

text \<open>\<open>Stop\<close> returns when the queue is closed and every worker has returned.\<close>

definition stop_returned :: "pool \<Rightarrow> bool" where
  "stop_returned p \<longleftrightarrow> mgClosed (plMgr p) \<and> plIdle p = 0 \<and> plBusy p = []"

section \<open>The end of the process\<close>

text \<open>
  \<open>main\<close>: a first argument that is no flag is a subcommand; the locale of the flag or the environment must be one of
  the two.
\<close>

datatype main_mode = RunServer | RunImport "string list" | UnknownSubcommand string

fun main_command :: "string list \<Rightarrow> main_mode" where
  "main_command (prog # arg # args) =
    (if \<not> has_prefix arg ''-'' then if arg = ''import'' then RunImport args else UnknownSubcommand arg else RunServer)"
| "main_command args = RunServer"

definition main_locale :: "string \<Rightarrow> locale_tag \<Rightarrow> locale_tag option" where
  "main_locale flag dflt =
    (if flag = [] then Some dflt else if \<not> locale_valid flag then None else Some (set_default flag dflt))"

text \<open>
  \<open>shutdown\<close> sends a quit message to the program of every live session and then polls the broker until no
  session is left or the timer has fired. A poll is the broker the loop finds, whether the timer
  is chosen, and the broker counted for the log.
\<close>

datatype drain_end = AllDrained | DrainTimeout nat

fun drain_poll :: "(broker \<times> bool \<times> broker) list \<Rightarrow> drain_end option" where
  "drain_poll [] = None"
| "drain_poll ((b, fired, c) # polls) =
    (if broker_sessions_snapshot b = [] then Some AllDrained
     else if fired then Some (DrainTimeout (length (broker_sessions_snapshot c)))
     else drain_poll polls)"

definition shutdown :: "broker \<Rightarrow> (broker \<times> bool \<times> broker) list \<Rightarrow> nat list \<times> drain_end option" where
  "shutdown b polls =
    (let sessions = broker_sessions_snapshot b
     in if sessions = [] then ([], Some AllDrained) else (map sProgram sessions, drain_poll polls))"

text \<open>The loop is over by the first poll at which the timer is chosen, and it ends well only when the broker is empty.\<close>

lemma drain_poll_ends: "\<exists>(b, fired, c) \<in> set polls. fired \<Longrightarrow> drain_poll polls \<noteq> None"
  by (induction polls rule: drain_poll.induct) auto

lemma drain_poll_drained: "drain_poll polls = Some AllDrained \<Longrightarrow> \<exists>(b, fired, c) \<in> set polls. broker_sessions_snapshot b = []"
  by (induction polls rule: drain_poll.induct) (auto split: if_splits)

section \<open>Draining\<close>

definition pool_inv :: "pool \<Rightarrow> bool" where
  "pool_inv p \<longleftrightarrow>
     mset (mgQueue (plMgr p)) + mset (plBusy p) + mset (plDelivered p) \<subseteq># mset (plAccepted p)
     \<and> (\<not> plCancelled p \<longrightarrow>
        mset (plAccepted p) = mset (mgQueue (plMgr p)) + mset (plBusy p) + mset (plDelivered p)
        \<and> (plIdle p = 0 \<and> plBusy p = [] \<longrightarrow> mgQueue (plMgr p) = [] \<and> mgClosed (plMgr p)))"

lemma dispatch_queue: "\<exists>new. mgQueue (dispatch ev m) = mgQueue m @ new \<and> (mgClosed m \<longrightarrow> new = [])"
  by (auto simp: dispatch_def dispatch_send_def)

lemma dispatch_closed: "mgClosed (dispatch ev m) = mgClosed m"
  by (simp add: dispatch_def)

lemma worker_step_inv: "worker_step p p' \<Longrightarrow> pool_inv p \<Longrightarrow> pool_inv p'"
proof (induction rule: worker_step.induct)
  case (received p)
  then show ?case by (cases "mgQueue (plMgr p)") (auto simp: pool_inv_def pool_take_def worker_take_def)
next
  case (finished p es ev fs ends_well)
  let ?q = "mset (mgQueue (plMgr p)) + mset (es @ fs) + mset (plDelivered p)"
  have all: "?q + {#ev#} \<subseteq># mset (plAccepted p)" using finished by (simp add: pool_inv_def)
  moreover have "?q \<subseteq># ?q + {#ev#}" by simp
  ultimately have "?q \<subseteq># mset (plAccepted p)" by (rule subset_mset.order_trans [rotated])
  with all finished show ?case by (cases ends_well) (auto simp: pool_inv_def)
qed (auto simp: pool_inv_def)

lemma pool_step_inv: "pool_step p p' \<Longrightarrow> pool_inv p \<Longrightarrow> pool_inv p'"
proof (induction rule: pool_step.induct)
  case (works p p')
  then show ?case by (rule worker_step_inv)
next
  case (dispatched p ev)
  obtain new where "mgQueue (dispatch ev (plMgr p)) = mgQueue (plMgr p) @ new" "mgClosed (plMgr p) \<longrightarrow> new = []"
    using dispatch_queue by blast
  with dispatched show ?case
    by (auto simp: pool_inv_def pool_dispatch_def Let_def dispatch_closed) (simp_all add: ac_simps)
qed (auto simp: pool_inv_def)

lemma pool_run_inv: "pool_step\<^sup>*\<^sup>* p p' \<Longrightarrow> pool_inv p \<Longrightarrow> pool_inv p'"
  by (induction rule: rtranclp_induct) (auto intro: pool_step_inv)

lemma started_inv: "pool_inv started"
  by (simp add: pool_inv_def started_def new_manager_def defaultWorkers_def)

text \<open>What is left to do before \<open>Stop\<close> can return. Every step of a worker takes work away, and once the queue is closed no other step adds any.\<close>

definition pool_work :: "pool \<Rightarrow> nat" where
  "pool_work p = 3 * length (mgQueue (plMgr p)) + 2 * length (plBusy p) + plIdle p"

lemma worker_step_work: "worker_step p p' \<Longrightarrow> pool_work p' < pool_work p \<and> mgClosed (plMgr p') = mgClosed (plMgr p)"
proof (induction rule: worker_step.induct)
  case (received p)
  then show ?case by (cases "mgQueue (plMgr p)") (auto simp: pool_work_def pool_take_def worker_take_def)
qed (auto simp: pool_work_def)

lemma closed_step: "pool_step p p' \<Longrightarrow> mgClosed (plMgr p) \<Longrightarrow> pool_work p' \<le> pool_work p \<and> mgClosed (plMgr p')"
proof (induction rule: pool_step.induct)
  case (works p p')
  then show ?case using worker_step_work [of p p'] by simp
next
  case (dispatched p ev)
  then show ?case by (simp add: pool_work_def pool_dispatch_def Let_def dispatch_def)
qed (auto simp: pool_work_def)

lemma closed_progress:
  assumes "mgClosed (plMgr p)" and "\<not> stop_returned p"
  shows "\<exists>p'. worker_step p p'"
proof (cases "plBusy p")
  case (Cons ev fs)
  with worker_step.finished [of p "[]" ev fs True] show ?thesis by auto
next
  case Nil
  with assms have idle: "0 < plIdle p" by (simp add: stop_returned_def)
  then show ?thesis
    using worker_step.received [of p] worker_step.left_closed [of p] assms(1) by (cases "mgQueue (plMgr p)") auto
qed

text \<open>A schedule in which the workers are not passed over for ever.\<close>

definition fair_run :: "(nat \<Rightarrow> pool) \<Rightarrow> bool" where
  "fair_run f \<longleftrightarrow> (\<forall>i. pool_step (f i) (f (Suc i)))
     \<and> (\<forall>i. (\<exists>q. worker_step (f i) q) \<longrightarrow> (\<exists>j \<ge> i. worker_step (f j) (f (Suc j))))"

lemma closed_run:
  assumes "fair_run f" and "mgClosed (plMgr (f i))" and "i \<le> j"
  shows "pool_work (f j) \<le> pool_work (f i) \<and> mgClosed (plMgr (f j))"
  using assms(3)
proof (induction rule: dec_induct)
  case (step n)
  then show ?case using assms(1) closed_step [of "f n" "f (Suc n)"] by (auto simp: fair_run_def)
qed (simp add: assms(2))

lemma fair_run_stops:
  assumes "fair_run f"
  shows "mgClosed (plMgr (f i)) \<Longrightarrow> \<exists>k \<ge> i. stop_returned (f k)"
proof (induction "pool_work (f i)" arbitrary: i rule: less_induct)
  case less
  show ?case
  proof (cases "stop_returned (f i)")
    case False
    with less.prems obtain j where j: "i \<le> j" "worker_step (f j) (f (Suc j))"
      using closed_progress assms by (metis fair_run_def)
    with closed_run [OF assms less.prems j(1)] worker_step_work [OF j(2)]
    have "pool_work (f (Suc j)) < pool_work (f i)" "mgClosed (plMgr (f (Suc j)))" by auto
    from less.hyps [OF this] j(1) show ?thesis by (meson Suc_leD le_trans)
  qed blast
qed

text \<open>A cancelled pool may abandon everything.\<close>

lemma abandon_busy:
  "plCancelled p \<Longrightarrow> pool_step\<^sup>*\<^sup>* p (p\<lparr>plIdle := plIdle p + length (plBusy p), plBusy := []\<rparr>)"
proof (induction "plBusy p" arbitrary: p)
  case (Cons ev fs)
  let ?q = "p\<lparr>plIdle := plIdle p + 1, plBusy := fs\<rparr>"
  have "worker_step p ?q" using worker_step.finished [of p "[]" ev fs False] Cons.hyps(2) [symmetric] Cons.prems by simp
  then have "pool_step p ?q" by (rule pool_step.works)
  moreover have "pool_step\<^sup>*\<^sup>* ?q (?q\<lparr>plIdle := plIdle ?q + length (plBusy ?q), plBusy := []\<rparr>)"
    using Cons.hyps(1) [of ?q] Cons.prems by simp
  ultimately show ?case using Cons.hyps(2) [symmetric] by (simp add: converse_rtranclp_into_rtranclp)
next
  case Nil
  then have "p = p\<lparr>plIdle := plIdle p + length (plBusy p), plBusy := []\<rparr>" by simp
  then show ?case by (metis rtranclp.rtrancl_refl)
qed

lemma leave_idle: "plCancelled p \<Longrightarrow> plIdle p = n \<Longrightarrow> pool_step\<^sup>*\<^sup>* p (p\<lparr>plIdle := 0\<rparr>)"
proof (induction n arbitrary: p)
  case (Suc n)
  have "worker_step p (p\<lparr>plIdle := n\<rparr>)" using worker_step.left_cancelled [of p] Suc.prems by simp
  then have "pool_step p (p\<lparr>plIdle := n\<rparr>)" by (rule pool_step.works)
  moreover have "pool_step\<^sup>*\<^sup>* (p\<lparr>plIdle := n\<rparr>) (p\<lparr>plIdle := 0\<rparr>)" using Suc.IH [of "p\<lparr>plIdle := n\<rparr>"] Suc.prems by simp
  ultimately show ?case by (rule converse_rtranclp_into_rtranclp)
next
  case 0
  then have "p\<lparr>plIdle := 0\<rparr> = p" by simp
  then show ?case by simp
qed

lemma cancelled_loses:
  assumes "plCancelled p"
  shows "\<exists>q. pool_step\<^sup>*\<^sup>* p q \<and> stop_returned q \<and> mgQueue (plMgr q) = mgQueue (plMgr p) \<and> plDelivered q = plDelivered p"
proof -
  let ?a = "p\<lparr>plIdle := plIdle p + length (plBusy p), plBusy := []\<rparr>"
  let ?b = "?a\<lparr>plIdle := 0\<rparr>"
  let ?c = "?b\<lparr>plMgr := manager_stop (plMgr ?b)\<rparr>"
  have "pool_step\<^sup>*\<^sup>* p ?a" using assms by (rule abandon_busy)
  also have "pool_step\<^sup>*\<^sup>* ?a ?b" using leave_idle [of ?a] assms by simp
  also have "pool_step ?b ?c" by (rule pool_step.stopped)
  finally have "pool_step\<^sup>*\<^sup>* p ?c" .
  then show ?thesis by (intro exI [of _ ?c]) (simp add: stop_returned_def)
qed

text \<open>C30: once the queue is closed, \<open>Stop\<close> returns in every schedule that does not pass over the workers for ever. When it
  has returned and the context of the workers was not cancelled, every event the queue ever took has been delivered,
  once. But from the moment the context is cancelled, at whatever point, \<open>Stop\<close> may return with all that was queued or
  on its way undelivered. Nothing is ever delivered twice or delivered without having been queued.\<close>

theorem stop_drains_unless_cancelled:
  assumes "pool_step\<^sup>*\<^sup>* started p"
  shows "(fair_run f \<and> f 0 = p \<and> mgClosed (plMgr p) \<longrightarrow> (\<exists>k. stop_returned (f k)))
    \<and> (stop_returned p \<and> \<not> plCancelled p \<longrightarrow> mgQueue (plMgr p) = [] \<and> mset (plDelivered p) = mset (plAccepted p))
    \<and> (\<exists>q. pool_step\<^sup>*\<^sup>* (p\<lparr>plCancelled := True\<rparr>) q \<and> stop_returned q
         \<and> mgQueue (plMgr q) = mgQueue (plMgr p) \<and> plDelivered q = plDelivered p)
    \<and> mset (plDelivered p) \<subseteq># mset (plAccepted p)"
proof (intro conjI impI)
  have inv: "pool_inv p" using assms started_inv by (rule pool_run_inv)
  show "\<exists>k. stop_returned (f k)" if "fair_run f \<and> f 0 = p \<and> mgClosed (plMgr p)"
    using fair_run_stops [of f 0] that by auto
  show "mgQueue (plMgr p) = []" "mset (plDelivered p) = mset (plAccepted p)" if "stop_returned p \<and> \<not> plCancelled p"
    using inv that by (simp_all add: pool_inv_def stop_returned_def)
  show "\<exists>q. pool_step\<^sup>*\<^sup>* (p\<lparr>plCancelled := True\<rparr>) q \<and> stop_returned q
      \<and> mgQueue (plMgr q) = mgQueue (plMgr p) \<and> plDelivered q = plDelivered p"
    using cancelled_loses [of "p\<lparr>plCancelled := True\<rparr>"] by simp
  have "mset (plDelivered p) \<subseteq># mset (mgQueue (plMgr p)) + mset (plBusy p) + mset (plDelivered p)" by simp
  with inv show "mset (plDelivered p) \<subseteq># mset (plAccepted p)" unfolding pool_inv_def by (meson subset_mset.order_trans)
qed

text \<open>One event, and a cancellation that leaves it in the queue.\<close>

lemma stop_drains_unless_cancelled_witness:
  "\<exists>q. pool_step\<^sup>*\<^sup>* ((pool_dispatch demo_event started)\<lparr>plCancelled := True\<rparr>) q \<and> stop_returned q
    \<and> mgQueue (plMgr q) = [demo_event] \<and> plDelivered q = []"
proof -
  have run: "pool_step\<^sup>*\<^sup>* started (pool_dispatch demo_event started)" by (rule r_into_rtranclp) (rule pool_step.dispatched)
  have "mgQueue (plMgr (pool_dispatch demo_event started)) = [demo_event]" "plDelivered (pool_dispatch demo_event started) = []"
    by (simp_all add: started_def pool_dispatch_def Let_def dispatch_def dispatch_send_def new_manager_def defaultQueue_def)
  with stop_drains_unless_cancelled [OF run] show ?thesis by auto
qed

end
