(* ===== verification/Json.thy ===== *)
theory Json
  imports Webhook
begin

text \<open>
  What a receiver of a webhook gets: a reader for JSON texts without white space and fractions, written after
  RFC 8259, and the bodies that \<open>internal/notify\<close> posts, read back with it.
\<close>

section \<open>A reader\<close>

datatype json =
    JString string
  | JInt int
  | JArray "json list"
  | JObject "(string \<times> json) list"

text \<open>The UTF-8 encoding of a code unit; half of a surrogate pair stands for no rune.\<close>

definition code_unit :: "nat \<Rightarrow> string" where
  "code_unit n =
    (if n < 128 then [char_of n]
     else if n < 2048 then [char_of (192 + n div 64), char_of (128 + n mod 64)]
     else if 55296 \<le> n \<and> n < 57344 then rune_error
     else [char_of (224 + n div 4096), char_of (128 + n div 64 mod 64), char_of (128 + n mod 64)])"

definition hex4 :: "char \<Rightarrow> char \<Rightarrow> char \<Rightarrow> char \<Rightarrow> nat option" where
  "hex4 a b c d =
    (case (hex_digit a, hex_digit b, hex_digit c, hex_digit d) of
       (Some w, Some x, Some y, Some z) \<Rightarrow> Some (((w * 16 + x) * 16 + y) * 16 + z)
     | _ \<Rightarrow> None)"

definition json_escape :: "char \<Rightarrow> char option" where
  "json_escape c =
    map_of [(CHR 0x22, CHR 0x22), (CHR 0x5C, CHR 0x5C), (CHR ''/'', CHR ''/''), (CHR ''b'', CHR 0x08), (CHR ''f'', CHR 0x0C),
      (CHR ''n'', NL), (CHR ''r'', CHR 0x0D), (CHR ''t'', TAB)] c"

definition in_front :: "string \<Rightarrow> (string \<times> string) option \<Rightarrow> (string \<times> string) option" where
  "in_front u = map_option (\<lambda>(t, r). (u @ t, r))"

text \<open>A string after its opening quote, with the text behind the closing one.\<close>

fun json_read :: "string \<Rightarrow> (string \<times> string) option" where
  "json_read [] = None"
| "json_read (c # s) =
    (if c = CHR 0x22 then Some ([], s)
     else if c = CHR 0x5C then
       (case s of
          [] \<Rightarrow> None
        | e # s1 \<Rightarrow>
            if e = CHR ''u'' then
              (case s1 of
                 a # b # c # d # s2 \<Rightarrow>
                   (case hex4 a b c d of None \<Rightarrow> None | Some n \<Rightarrow> in_front (code_unit n) (json_read s2))
               | _ \<Rightarrow> None)
            else (case json_escape e of None \<Rightarrow> None | Some x \<Rightarrow> in_front [x] (json_read s1)))
     else if byte_of c < 32 then None
     else in_front [c] (json_read s))"

definition json_int :: "string \<Rightarrow> (json \<times> string) option" where
  "json_int s =
    (let neg = has_prefix s ''-''; ds = takeWhile is_digit (if neg then tl s else s)
     in if ds = [] then None
        else Some (JInt (if neg then - digits_value ds else digits_value ds), dropWhile is_digit (if neg then tl s else s)))"

text \<open>The first argument bounds the nesting and the number of elements; \<open>json_parse\<close> takes more than there are bytes.\<close>

fun json_value :: "nat \<Rightarrow> string \<Rightarrow> (json \<times> string) option"
  and json_items :: "nat \<Rightarrow> string \<Rightarrow> (json list \<times> string) option"
  and json_members :: "nat \<Rightarrow> string \<Rightarrow> ((string \<times> json) list \<times> string) option" where
  "json_value 0 s = None"
| "json_value (Suc n) s =
    (case s of
       [] \<Rightarrow> None
     | c # r \<Rightarrow>
         if c = CHR 0x22 then map_option (\<lambda>(t, u). (JString t, u)) (json_read r)
         else if c = CHR ''['' then
           (if has_prefix r '']'' then Some (JArray [], tl r) else map_option (\<lambda>(vs, u). (JArray vs, u)) (json_items n r))
         else if c = CHR ''{'' then
           (if has_prefix r ''}'' then Some (JObject [], tl r) else map_option (\<lambda>(fs, u). (JObject fs, u)) (json_members n r))
         else json_int s)"
| "json_items 0 s = None"
| "json_items (Suc n) s =
    (case json_value n s of
       Some (v, c # r) \<Rightarrow>
         if c = CHR '']'' then Some ([v], r)
         else if c = CHR '','' then map_option (\<lambda>(vs, u). (v # vs, u)) (json_items n r)
         else None
     | _ \<Rightarrow> None)"
| "json_members 0 s = None"
| "json_members (Suc n) s =
    (case s of
       [] \<Rightarrow> None
     | q # r \<Rightarrow>
         if q \<noteq> CHR 0x22 then None
         else case json_read r of
           Some (k, c # r1) \<Rightarrow>
             if c \<noteq> CHR '':'' then None
             else (case json_value n r1 of
                Some (v, d # r2) \<Rightarrow>
                  if d = CHR ''}'' then Some ([(k, v)], r2)
                  else if d = CHR '','' then map_option (\<lambda>(fs, u). ((k, v) # fs, u)) (json_members n r2)
                  else None
              | _ \<Rightarrow> None)
         | _ \<Rightarrow> None)"

definition json_parse :: "string \<Rightarrow> json option" where
  "json_parse s = (case json_value (Suc (length s)) s of Some (v, []) \<Rightarrow> Some v | _ \<Rightarrow> None)"

section \<open>The writer as a function of values\<close>

fun json_text :: "json \<Rightarrow> string" where
  "json_text (JString s) = json_string s"
| "json_text (JInt n) = itoa n"
| "json_text (JArray vs) = ''['' @ str_join '','' (map json_text vs) @ '']''"
| "json_text (JObject fs) = json_object (map (\<lambda>(k, v). json_field k (json_text v)) fs)"

definition embed_value :: "discord_embed \<Rightarrow> json" where
  "embed_value e =
    JObject
      ((if deTitle e \<noteq> [] then [(''title'', JString (deTitle e))] else [])
       @ (if deDescription e \<noteq> [] then [(''description'', JString (deDescription e))] else [])
       @ (if deColor e \<noteq> 0 then [(''color'', JInt (deColor e))] else []))"

definition payload_value :: "payload \<Rightarrow> json" where
  "payload_value p =
    (case p of
       ApprisePayload t b \<Rightarrow> JObject [(''title'', JString t), (''body'', JString b)]
     | DiscordPayload u es \<Rightarrow>
         JObject ((if u \<noteq> [] then [(''username'', JString u)] else [])
           @ (if es \<noteq> [] then [(''embeds'', JArray (map embed_value es))] else [])))"

lemma embed_json_text: "embed_json e = json_text (embed_value e)"
  by (simp add: embed_json_def embed_value_def)

lemma payload_json_text: "payload_json p = json_text (payload_value p)"
  by (cases p) (simp_all add: payload_json_def payload_value_def embed_json_text [symmetric] comp_def)

text \<open>What survives of a value: every byte that is no UTF-8 is replaced.\<close>

definition to_valid :: "string \<Rightarrow> string" where
  "to_valid s = concat (go_runes s)"

fun json_clean :: "json \<Rightarrow> json" where
  "json_clean (JString s) = JString (to_valid s)"
| "json_clean (JInt n) = JInt n"
| "json_clean (JArray vs) = JArray (map json_clean vs)"
| "json_clean (JObject fs) = JObject (map (\<lambda>(k, v). (to_valid k, json_clean v)) fs)"

section \<open>Strings\<close>

lemma in_front_append [simp]: "in_front u (in_front v x) = in_front (u @ v) x"
  by (cases x) (auto simp: in_front_def)

lemma in_front_Some [simp]: "in_front u (Some (t, r)) = Some (u @ t, r)"
  by (simp add: in_front_def)

lemma in_front_Nil [simp]: "in_front [] x = x"
  by (cases x) (auto simp: in_front_def)

lemma hex_digit_char: "n < 16 \<Longrightarrow> hex_digit (hex_char n) = Some n"
  by (auto simp: hex_char_def hex_digit_def is_digit_def byte_of_def)

lemma json_read_u:
  assumes "hi < 256" and "lo < 256"
  shows "json_read (json_u hi lo @ s) = in_front (code_unit (hi * 256 + lo)) (json_read s)"
proof -
  have "hi div 16 < 16" "lo div 16 < 16" using assms by simp_all
  then have "hex4 (hex_char (hi div 16)) (hex_char (hi mod 16)) (hex_char (lo div 16)) (hex_char (lo mod 16)) = Some (hi * 256 + lo)"
    using div_mult_mod_eq [of hi 16] div_mult_mod_eq [of lo 16] by (simp add: hex4_def hex_digit_char)
  then show ?thesis by (simp add: json_u_def)
qed

lemma json_read_plain:
  "list_all (\<lambda>c. c \<noteq> CHR 0x22 \<and> c \<noteq> CHR 0x5C \<and> 32 \<le> byte_of c) u \<Longrightarrow> json_read (u @ s) = in_front u (json_read s)"
  by (induction u) auto

lemma rune_bytes:
  "rune_len s = Some n \<Longrightarrow> (\<exists>c. take n s = [c] \<and> byte_of c < 128) \<or> list_all (\<lambda>c. 128 \<le> byte_of c) (take n s)"
  by (cases s) (auto simp: Let_def is_cont_def numeral_2_eq_2 numeral_3_eq_3 eval_nat_numeral split: if_splits list.splits)

lemma code_units: "code_unit 8232 = [CHR 0xE2, CHR 0x80, CHR 0xA8]" "code_unit 8233 = [CHR 0xE2, CHR 0x80, CHR 0xA9]"
  "code_unit 65533 = rune_error"
  by (simp_all add: code_unit_def rune_error_def char_of_eq_iff)

lemma json_rune_special:
  "c \<in> {CHR 0x22, CHR 0x5C, CHR 0x08, CHR 0x0C, NL, CHR 0x0D, TAB} \<Longrightarrow>
    \<exists>e. json_rune [c] = [CHR 0x5C, e] \<and> json_escape e = Some c \<and> e \<noteq> CHR ''u''"
  by (auto simp: json_rune_def json_escape_def)

lemma json_rune_other:
  "c \<notin> {CHR 0x22, CHR 0x5C, CHR 0x08, CHR 0x0C, NL, CHR 0x0D, TAB} \<Longrightarrow> byte_of c < 128 \<Longrightarrow>
    json_rune [c] = (if byte_of c < 32 \<or> c \<in> {CHR ''<'', CHR ''>'', CHR ''&''} then json_u 0 (byte_of c) else [c])"
  by (simp add: json_rune_def)

lemma json_read_ascii:
  assumes "byte_of c < 128"
  shows "json_read (json_rune [c] @ s) = in_front [c] (json_read s)"
proof (cases "c \<in> {CHR 0x22, CHR 0x5C, CHR 0x08, CHR 0x0C, NL, CHR 0x0D, TAB}")
  case True
  from json_rune_special [OF this] show ?thesis by auto
next
  case False
  have "code_unit (byte_of c) = [c]" using assms by (simp add: code_unit_def byte_of_def)
  then have "json_read (json_u 0 (byte_of c) @ s) = in_front [c] (json_read s)"
    using json_read_u [of 0 "byte_of c" s] assms by simp
  moreover have "json_read ([c] @ s) = in_front [c] (json_read s)" if "32 \<le> byte_of c"
    using False that by (intro json_read_plain) simp
  ultimately show ?thesis unfolding json_rune_other [OF False assms] by auto
qed

lemma json_rune_separators:
  "json_rune [CHR 0xE2, CHR 0x80, CHR 0xA8] = json_u 32 40" "json_rune [CHR 0xE2, CHR 0x80, CHR 0xA9] = json_u 32 41"
  by (simp_all add: json_rune_def)

lemma json_rune_high:
  "list_all (\<lambda>c. 128 \<le> byte_of c) u \<Longrightarrow> u \<notin> {[CHR 0xE2, CHR 0x80, CHR 0xA8], [CHR 0xE2, CHR 0x80, CHR 0xA9]} \<Longrightarrow> json_rune u = u"
proof -
  assume high: "list_all (\<lambda>c. 128 \<le> byte_of c) u" and sep: "u \<notin> {[CHR 0xE2, CHR 0x80, CHR 0xA8], [CHR 0xE2, CHR 0x80, CHR 0xA9]}"
  have no: "u \<noteq> [c]" if "byte_of c < 128" for c using high that by auto
  have "\<not> (length u = 1 \<and> byte_of (hd u) < 32)" using high by (cases u) auto
  then show ?thesis
    using sep no [of "CHR 0x22"] no [of "CHR 0x5C"] no [of "CHR 0x08"] no [of "CHR 0x0C"] no [of NL] no [of "CHR 0x0D"] no [of TAB]
      no [of "CHR ''<''"] no [of "CHR ''>''"] no [of "CHR ''&''"]
    by (simp add: json_rune_def byte_of_def cong: conj_cong)
qed

lemma json_read_rune:
  assumes "rune_len s = Some n"
  shows "json_read (json_rune (take n s) @ t) = in_front (take n s) (json_read t)"
proof -
  from rune_bytes [OF assms] consider c where "take n s = [c]" "byte_of c < 128"
    | "list_all (\<lambda>c. 128 \<le> byte_of c) (take n s)" by blast
  then show ?thesis
  proof cases
    case 1
    then show ?thesis by (simp add: json_read_ascii)
  next
    case 2
    then have "list_all (\<lambda>c. c \<noteq> CHR 0x22 \<and> c \<noteq> CHR 0x5C \<and> 32 \<le> byte_of c) (take n s)"
      by (rule list.pred_mono_strong) (auto simp: byte_of_def)
    then have plain: "json_read (take n s @ t) = in_front (take n s) (json_read t)" by (rule json_read_plain)
    show ?thesis
    proof (cases "take n s \<in> {[CHR 0xE2, CHR 0x80, CHR 0xA8], [CHR 0xE2, CHR 0x80, CHR 0xA9]}")
      case True
      then show ?thesis
        using json_read_u [of 32 40 t] json_read_u [of 32 41 t] by (auto simp: code_units json_rune_separators)
    next
      case False
      with 2 plain show ?thesis by (simp add: json_rune_high)
    qed
  qed
qed

lemma to_valid_simps [simp]: "to_valid [] = []"
  by (simp add: to_valid_def)

lemma json_read_runes: "json_read (json_runes s @ CHR 0x22 # r) = Some (to_valid s, r)"
proof (induction s rule: json_runes.induct)
  case (1 s)
  show ?case
  proof (cases "s = []")
    case True
    then show ?thesis by (subst json_runes.simps) simp
  next
    case False
    show ?thesis
    proof (cases "rune_len s")
      case None
      with False have "to_valid s = rune_error @ to_valid (drop 1 s)"
        unfolding to_valid_def by (subst go_runes.simps) (simp add: drop_Suc)
      moreover have "json_runes s = json_u 255 253 @ json_runes (drop 1 s)"
        using False None by (subst json_runes.simps) simp
      ultimately show ?thesis using "1.IH"(1) [OF False None] json_read_u [of 255 253] by (simp add: code_units)
    next
      case (Some n)
      with False have "to_valid s = take n s @ to_valid (drop n s)"
        unfolding to_valid_def by (subst go_runes.simps) simp
      moreover have "json_runes s = json_rune (take n s) @ json_runes (drop n s)"
        using False Some by (subst json_runes.simps) simp
      ultimately show ?thesis using "1.IH"(2) [OF False Some] json_read_rune [OF Some] by simp
    qed
  qed
qed

section \<open>Values\<close>

lemma json_int_itoa:
  assumes "r = [] \<or> \<not> is_digit (hd r)"
  shows "json_int (itoa n @ r) = Some (JInt n, r)"
proof -
  have cut: "takeWhile is_digit (nat_digits k @ r) = nat_digits k \<and> dropWhile is_digit (nat_digits k @ r) = r" for k
    using assms nat_digits_digits by (intro takeWhile_until)
  have "\<not> has_prefix (nat_digits k @ r) ''-''" for k
    using nat_digits_no_sign(1) [of k] nat_digits_ne [of k] by (cases "nat_digits k") (auto simp: has_prefix_def)
  then show ?thesis by (auto simp: json_int_def itoa_def cut digits_value_nat Let_def has_prefix_def)
qed

lemma itoa_head: "itoa n \<noteq> [] \<and> (hd (itoa n) = CHR ''-'' \<or> is_digit (hd (itoa n)))"
proof -
  have "is_digit (hd (nat_digits k))" for k
    using nat_digits_digits [of k] nat_digits_ne [of k] by (cases "nat_digits k") auto
  then show ?thesis by (simp add: itoa_def)
qed

lemma json_text_head: "\<exists>c t. json_text v = c # t \<and> c \<noteq> CHR '']'' \<and> c \<noteq> CHR ''}''"
proof (cases v)
  case (JInt n)
  with itoa_head [of n] show ?thesis by (cases "itoa n") (auto simp: is_digit_def byte_of_def)
qed (auto simp: json_string_def json_object_def)

definition reads_back :: "json \<Rightarrow> bool" where
  "reads_back v \<longleftrightarrow> (\<forall>n r. length (json_text v) < n \<and> (r = [] \<or> \<not> is_digit (hd r)) \<longrightarrow>
     json_value n (json_text v @ r) = Some (json_clean v, r))"

lemma reads_backD:
  "reads_back v \<Longrightarrow> length (json_text v) < n \<Longrightarrow> r = [] \<or> \<not> is_digit (hd r) \<Longrightarrow> json_value n (json_text v @ r) = Some (json_clean v, r)"
  by (simp add: reads_back_def)

lemma json_items_text:
  assumes "\<forall>v \<in> set vs. reads_back v" and "vs \<noteq> []" and "length (str_join '','' (map json_text vs)) + 1 < n"
  shows "json_items n (str_join '','' (map json_text vs) @ CHR '']'' # r) = Some (map json_clean vs, r)"
  using assms
proof (induction vs arbitrary: n)
  case (Cons v vs)
  obtain c t where ct: "json_text v = c # t" using json_text_head [of v] by blast
  from Cons.prems(3) obtain m where n: "n = Suc m" by (cases n) auto
  show ?case
  proof (cases vs)
    case Nil
    with Cons.prems n reads_backD [of v m "CHR '']'' # r"] show ?thesis by (simp add: is_digit_def byte_of_def)
  next
    case (Cons w ws)
    let ?rest = "str_join '','' (map json_text vs)"
    have "json_value m (json_text v @ CHR '','' # ?rest @ CHR '']'' # r) = Some (json_clean v, CHR '','' # ?rest @ CHR '']'' # r)"
      using Cons Cons.prems n by (intro reads_backD) (auto simp: is_digit_def byte_of_def)
    moreover have "json_items m (?rest @ CHR '']'' # r) = Some (map json_clean vs, r)"
      using Cons Cons.prems n ct by (intro Cons.IH) auto
    ultimately show ?thesis using Cons n by simp
  qed
qed simp

lemma json_members_text:
  assumes "\<forall>(k, v) \<in> set fs. reads_back v" and "fs \<noteq> []"
    and "length (str_join '','' (map (\<lambda>(k, v). json_field k (json_text v)) fs)) + 1 < n"
  shows "json_members n (str_join '','' (map (\<lambda>(k, v). json_field k (json_text v)) fs) @ CHR ''}'' # r) =
    Some (map (\<lambda>(k, v). (to_valid k, json_clean v)) fs, r)"
  using assms
proof (induction fs arbitrary: n)
  case (Cons f fs)
  obtain k v where f: "f = (k, v)" by fastforce
  from Cons.prems(3) obtain m where n: "n = Suc m" by (cases n) auto
  have len: "length (json_field k (json_text v)) = length (json_string k) + 1 + length (json_text v)" "2 \<le> length (json_string k)"
    by (simp_all add: json_field_def json_string_def)
  have key: "json_read (json_runes k @ CHR 0x22 # s) = Some (to_valid k, s)" for s by (rule json_read_runes)
  show ?case
  proof (cases fs)
    case Nil
    with Cons.prems n f len reads_backD [of v m "CHR ''}'' # r"] show ?thesis
      by (simp add: json_field_def json_string_def key is_digit_def byte_of_def)
  next
    case (Cons g gs)
    let ?rest = "str_join '','' (map (\<lambda>(k, v). json_field k (json_text v)) fs)"
    have "json_value m (json_text v @ CHR '','' # ?rest @ CHR ''}'' # r) = Some (json_clean v, CHR '','' # ?rest @ CHR ''}'' # r)"
      using Cons Cons.prems n f len by (intro reads_backD) (auto simp: is_digit_def byte_of_def)
    moreover have "json_members m (?rest @ CHR ''}'' # r) = Some (map (\<lambda>(k, v). (to_valid k, json_clean v)) fs, r)"
      using Cons Cons.prems n f len by (intro Cons.IH) auto
    moreover have "str_join '','' (map (\<lambda>(k, v). json_field k (json_text v)) (f # fs)) =
        CHR 0x22 # json_runes k @ CHR 0x22 # CHR '':'' # json_text v @ CHR '','' # ?rest"
      using Cons f by (simp add: json_field_def json_string_def)
    ultimately show ?thesis using n f by (simp add: key)
  qed
qed simp

lemma json_reads_back: "reads_back v"
proof (induction v)
  case (JString s)
  show ?case unfolding reads_back_def
  proof (intro allI impI, elim conjE)
    fix n r assume "length (json_text (JString s)) < n"
    then obtain m where "n = Suc m" by (cases n) auto
    then show "json_value n (json_text (JString s) @ r) = Some (json_clean (JString s), r)"
      by (simp add: json_string_def json_read_runes)
  qed
next
  case (JInt k)
  show ?case unfolding reads_back_def
  proof (intro allI impI, elim conjE)
    fix n r assume n: "length (json_text (JInt k)) < n" and r: "r = [] \<or> \<not> is_digit (hd r)"
    from n obtain m where m: "n = Suc m" by (cases n) auto
    obtain c t where ct: "itoa k = c # t" "c = CHR ''-'' \<or> is_digit c"
      using itoa_head [of k] by (cases "itoa k") auto
    then have "c \<noteq> CHR 0x22" "c \<noteq> CHR ''[''" "c \<noteq> CHR ''{''" by (auto simp: is_digit_def byte_of_def)
    with json_int_itoa [OF r, of k] m ct show "json_value n (json_text (JInt k) @ r) = Some (json_clean (JInt k), r)" by simp
  qed
next
  case (JArray vs)
  show ?case unfolding reads_back_def
  proof (intro allI impI, elim conjE)
    fix n r assume n: "length (json_text (JArray vs)) < n"
    then obtain m where m: "n = Suc m" by (cases n) auto
    show "json_value n (json_text (JArray vs) @ r) = Some (json_clean (JArray vs), r)"
    proof (cases vs)
      case Nil
      with m show ?thesis by (simp add: has_prefix_def)
    next
      case (Cons w ws)
      obtain c t where ct: "json_text w = c # t" "c \<noteq> CHR '']''" using json_text_head [of w] by blast
      with Cons have "\<not> has_prefix (str_join '','' (map json_text vs) @ CHR '']'' # r) '']''"
        by (cases ws) (auto simp: has_prefix_def)
      moreover have "json_items m (str_join '','' (map json_text vs) @ CHR '']'' # r) = Some (map json_clean vs, r)"
        using JArray Cons n m by (intro json_items_text) auto
      ultimately show ?thesis using m by simp
    qed
  qed
next
  case (JObject fs)
  then have all: "\<forall>(k, v) \<in> set fs. reads_back v" by fastforce
  show ?case unfolding reads_back_def
  proof (intro allI impI, elim conjE)
    fix n r assume n: "length (json_text (JObject fs)) < n"
    then obtain m where m: "n = Suc m" by (cases n) auto
    show "json_value n (json_text (JObject fs) @ r) = Some (json_clean (JObject fs), r)"
    proof (cases fs)
      case Nil
      with m show ?thesis by (simp add: has_prefix_def json_object_def)
    next
      case (Cons g gs)
      then have "\<not> has_prefix (str_join '','' (map (\<lambda>(k, v). json_field k (json_text v)) fs) @ CHR ''}'' # r) ''}''"
        by (cases gs) (auto simp: has_prefix_def json_field_def json_string_def split: prod.splits)
      moreover have "json_members m (str_join '','' (map (\<lambda>(k, v). json_field k (json_text v)) fs) @ CHR ''}'' # r) =
          Some (map (\<lambda>(k, v). (to_valid k, json_clean v)) fs, r)"
        using all Cons n m by (intro json_members_text) (auto simp: json_object_def)
      ultimately show ?thesis using m by (simp add: json_object_def)
    qed
  qed
qed

lemma json_parse_text: "json_parse (json_text v) = Some (json_clean v)"
  using reads_backD [OF json_reads_back, of v "Suc (length (json_text v))" "[]"] by (simp add: json_parse_def)

section \<open>What the receiver reads\<close>

lemma to_valid_ascii: "\<forall>c \<in> set s. byte_of c < 128 \<Longrightarrow> to_valid s = s"
  by (induction s) (simp_all add: to_valid_def go_runes_ascii)

lemma go_runes_to_valid: "go_runes (to_valid s) = go_runes s"
  using go_runes_concat [of "go_runes s" s "[]"] by (simp add: to_valid_def)

lemma to_valid_truncate: "to_valid (truncate_runes s lim) = truncate_runes (to_valid s) lim"
proof -
  have "go_runes (concat (take k (go_runes s)) @ ellipsis) = take k (go_runes s) @ [ellipsis]" for k
  proof -
    have "rune_len ellipsis = Some 3" by (simp add: ellipsis_def is_cont_def byte_of_def)
    from go_runes_append_head [OF this, of "[]"] have "go_runes ellipsis = [ellipsis]" by (simp add: ellipsis_def)
    then show ?thesis using go_runes_concat [of "take k (go_runes s)" s ellipsis] by (simp add: set_take_subset)
  qed
  then show ?thesis
    by (simp add: truncate_runes_def rune_count_def go_runes_to_valid) (simp add: to_valid_def)
qed

lemma truncate_Nil_iff: "0 < lim \<Longrightarrow> truncate_runes s lim = [] \<longleftrightarrow> s = []"
  by (auto simp: truncate_runes_def ellipsis_def rune_count_def)

lemma truncate_Nil: "truncate_runes [] lim = []"
  by (simp add: truncate_runes_def rune_count_def)

lemma to_valid_Nil_iff [simp]: "to_valid s = [] \<longleftrightarrow> s = []"
proof
  assume "to_valid s = []"
  then have "go_runes s = []" using go_runes_to_valid [of s] by simp
  then show "s = []" by (subst (asm) go_runes.simps) (auto split: if_splits option.splits)
qed simp

lemma request_body_decodes:
  assumes "build_request url_ok t ev = Some r"
  shows "json_parse (payload_json (rqBody r)) =
    (let title = to_valid (evTitle ev); body = to_valid (evBody ev)
     in case detect_format (ntURL t) of
          FormatApprise \<Rightarrow> Some (JObject [(''title'', JString title), (''body'', JString body)])
        | FormatDiscord \<Rightarrow>
            let shown = (if title = [] \<and> body = [] then ''(empty notification)'' else truncate_runes body 4096)
            in Some (JObject [(''username'', JString ''SSH-BBS''), (''embeds'', JArray [JObject
                 ((if title \<noteq> [] then [(''title'', JString (truncate_runes title 256))] else [])
                  @ (if shown \<noteq> [] then [(''description'', JString shown)] else []) @ [(''color'', JInt 10317823)])])]))"
proof -
  have keys: "to_valid ''title'' = ''title''" "to_valid ''body'' = ''body''" "to_valid ''username'' = ''username''" "to_valid ''embeds'' = ''embeds''"
    "to_valid ''description'' = ''description''" "to_valid ''color'' = ''color''" "to_valid ''SSH-BBS'' = ''SSH-BBS''"
    "to_valid ''(empty notification)'' = ''(empty notification)''"
    by (simp_all add: to_valid_ascii byte_of_def)
  have body: "json_parse (payload_json (rqBody r)) = Some (json_clean (payload_value (rqBody r)))"
    by (simp add: payload_json_text json_parse_text)
  show ?thesis
  proof (cases "detect_format (ntURL t)")
    case FormatApprise
    with assms have "rqBody r = ApprisePayload (evTitle ev) (evBody ev)"
      by (auto simp: build_request_def build_apprise_request_def dest: new_post_Some)
    with FormatApprise show ?thesis unfolding body by (simp add: payload_value_def keys)
  next
    case FormatDiscord
    let ?e = "\<lparr>deTitle = truncate_runes (evTitle ev) 256, deDescription =
      if evTitle ev = [] \<and> evBody ev = [] then ''(empty notification)'' else truncate_runes (evBody ev) 4096, deColor = 10317823\<rparr>"
    have "build_discord_request url_ok t ev = new_post url_ok (ntURL t) (DiscordPayload discordUsername [?e])"
      by (simp add: build_discord_request_def Let_def discordTitleMax_def discordDescMax_def discordColor_def truncate_Nil_iff truncate_Nil)
    with assms FormatDiscord have "rqBody r = DiscordPayload discordUsername [?e]"
      by (auto simp: build_request_def dest: new_post_Some)
    with FormatDiscord show ?thesis unfolding body
      by (simp add: payload_value_def embed_value_def keys to_valid_truncate truncate_Nil_iff Let_def discordUsername_def)
  qed
qed

text \<open>C14: whatever the texts of an event are, the body that is posted is a JSON text, and the receiver reads from it
  the title and the body of the event and nothing else: as the two fields of an object, or, at Discord, as the title and the
  description of the single embed of the user \<open>SSH-BBS\<close>, cut to 256 and 4096 runes. Bytes that are no UTF-8 are replaced.\<close>

theorem webhook_body_decodes:
  assumes "build_request url_ok t ev = Some r"
  shows "json_parse (payload_json (rqBody r)) =
    (let title = to_valid (evTitle ev); body = to_valid (evBody ev)
     in case detect_format (ntURL t) of
          FormatApprise \<Rightarrow> Some (JObject [(''title'', JString title), (''body'', JString body)])
        | FormatDiscord \<Rightarrow>
            let shown = (if title = [] \<and> body = [] then ''(empty notification)'' else truncate_runes body 4096)
            in Some (JObject [(''username'', JString ''SSH-BBS''), (''embeds'', JArray [JObject
                 ((if title \<noteq> [] then [(''title'', JString (truncate_runes title 256))] else [])
                  @ (if shown \<noteq> [] then [(''description'', JString shown)] else []) @ [(''color'', JInt 10317823)])])]))"
  using assms by (rule request_body_decodes)

text \<open>A title that tries to close its string and add a field.\<close>

definition demo_title :: string where "demo_title = ''a'' @ [CHR 0x22] @ '','' @ [NL] @ [CHR 0x22] @ ''evil'' @ [CHR 0x22] @ '':'' @ [CHR 0x22] @ ''<''"

lemma webhook_body_decodes_witness:
  "\<exists>r. build_request (\<lambda>u. True) (new_target 1 ''hook'' ''https://x.io'' demo_now 1) (demo_event\<lparr>evTitle := demo_title\<rparr>) = Some r
    \<and> json_parse (payload_json (rqBody r)) = Some (JObject [(''title'', JString demo_title), (''body'', JString ''b'')])"
proof -
  let ?t = "new_target 1 ''hook'' ''https://x.io'' demo_now 1" and ?ev = "demo_event\<lparr>evTitle := demo_title\<rparr>"
  obtain r where r: "build_request (\<lambda>u. True) ?t ?ev = Some r" using build_request_ok [of "\<lambda>u. True" ?t ?ev] by auto
  have "detect_format (ntURL ?t) = FormatApprise" unfolding new_target_def by code_simp
  moreover have "to_valid ''b'' = ''b''" "to_valid demo_title = demo_title" by (simp_all add: to_valid_ascii byte_of_def demo_title_def)
  ultimately show ?thesis using webhook_body_decodes [OF r] r by (simp add: demo_event_def Let_def)
qed

end
