(* ===== verification/PushFlow.thy ===== *)
theory PushFlow
  imports Json ScreenProps
begin

text \<open>
  A push from the key that submits it to the body that the webhook of the author receives: the article view, the
  push repository, the broker, the dispatcher and the encoder together.
\<close>

section \<open>The store\<close>

lemma pushes_create_frame:
  assumes "pushes_create a u n k s now d = (Inr p, d')"
  shows "users d' = users d" "prefs d' = prefs d" "targets d' = targets d"
proof -
  show "users d' = users d" "prefs d' = prefs d" "targets d' = targets d"
    using assms by (cases rule: pushes_create_cases [of a u n k s now d]; auto simp: ins_defs add_score_def)+
qed

lemma pushes_create_article:
  assumes "articles_ok d" and "art \<in> set (articles d)" and "pushes_create (aID art) u n k s now d = (Inr p, d')"
  shows "\<exists>b. articles_get_by_id (aID art) d' = Inr b \<and> aID b = aID art \<and> aAuthorID b = aAuthorID art \<and> aTitle b = aTitle art"
proof (cases rule: pushes_create_cases [of "aID art" u n k s now d])
  case (ok art' delta i d1)
  from assms(1,2) have "find_row aID (aID art) (articles d) = Some art" by (simp add: find_article_iff)
  moreover have "articles d1 = articles d" using ok(5) by (auto simp: ins_defs)
  moreover have "d' = add_score (aID art) delta d1" using ok(6) assms(3) by simp
  ultimately show ?thesis
    by (simp add: articles_get_by_id_def add_score_def find_row_update)
qed (use assms in simp)

section \<open>The receiver\<close>

text \<open>What the service behind a webhook reads: the two fields of an object, or, at Discord, the single embed of a message.\<close>

definition received :: "target_format \<Rightarrow> string \<Rightarrow> string \<Rightarrow> json" where
  "received fmt title body =
    (case fmt of
       FormatApprise \<Rightarrow> JObject [(''title'', JString title), (''body'', JString body)]
     | FormatDiscord \<Rightarrow> JObject [(''username'', JString ''SSH-BBS''), (''embeds'', JArray [JObject
         ((if title \<noteq> [] then [(''title'', JString (truncate_runes title 256))] else [])
          @ (if body \<noteq> [] then [(''description'', JString (truncate_runes body 4096))] else []) @ [(''color'', JInt 10317823)])])])"

lemma request_received:
  assumes "build_request url_ok t ev = Some r" and "evBody ev \<noteq> []"
  shows "json_parse (payload_json (rqBody r)) = Some (received (detect_format (ntURL t)) (to_valid (evTitle ev)) (to_valid (evBody ev)))"
  using assms(2) unfolding request_body_decodes [OF assms(1)]
  by (simp add: received_def Let_def truncate_Nil_iff split: target_format.split)

lemma apprise_body:
  assumes "build_request url_ok t ev = Some r" and "detect_format (ntURL t) = FormatApprise"
  shows "json_parse (payload_json (rqBody r)) =
    Some (JObject [(''title'', JString (to_valid (evTitle ev))), (''body'', JString (to_valid (evBody ev)))])"
  using assms(2) by (simp add: request_body_decodes [OF assms(1)] Let_def)

lemma deliver_request:
  assumes "t \<in> set (notify_list_enabled_targets (evToUserID ev) d)" and "url_ok (ntURL t)"
    and "prefs_allow (notify_get_prefs (evToUserID ev) d) (evKind ev)"
    and "npOnlyWhenOffline (notify_get_prefs (evToUserID ev) d) \<longrightarrow> \<not> online (evToUserID ev)"
  shows "\<exists>r \<in> set (deliver url_ok (Some online) d ev). build_request url_ok t ev = Some r \<and> rqURL r = ntURL t"
proof -
  obtain r where r: "build_request url_ok t ev = Some r" using build_request_ok [of url_ok t ev] assms(2) by auto
  then have "r \<in> set (List.map_filter (\<lambda>t. build_request url_ok t ev) (notify_list_enabled_targets (evToUserID ev) d))"
    using assms(1) by (force simp: List.map_filter_def)
  with assms(3,4) r build_request_url [OF r] show ?thesis by (intro bexI [of _ r]) (auto simp: deliver_def Let_def)
qed

section \<open>The whole way\<close>

text \<open>What the author is told.\<close>

definition push_event :: "'i lib \<Rightarrow> session_state \<Rightarrow> user \<Rightarrow> article \<Rightarrow> push_kind \<Rightarrow> string \<Rightarrow> event" where
  "push_event L w u a k body =
    \<lparr>evKind = KindPush, evToUserID = aAuthorID a, evFromUserID = uUserID u,
     evTitle = tr_for w (aAuthorID a) ''notify.push.title''
       [FString (uUserID u), FString (push_verb (recipient_locale w (aAuthorID a)) k)],
     evBody = truncate_width L (aTitle a) 60 @ [NL, NL] @ body\<rparr>"

lemma users_get_same: "users d' = users d \<Longrightarrow> users_get_by_id i d' = users_get_by_id i d"
  by (simp add: users_get_by_id_def)

lemma recipient_same:
  assumes "users (seDB w') = users (seDB w)" and "seDefault w' = seDefault w"
  shows "recipient_locale w' i = recipient_locale w i" and "tr_for w' i = tr_for w i"
proof -
  show r: "recipient_locale w' i = recipient_locale w i"
    using users_get_same [OF assms(1), of i] assms(2) by (simp add: recipient_locale_def split: sum.split)
  show "tr_for w' i = tr_for w i" by (intro ext) (simp add: tr_for_def r assms(2))
qed

lemma push_submitted:
  assumes "db_inv (seDB w)" and "seUser w = Some u" and "avArticle m = Some a" and "a \<in> set (articles (seDB w))"
    and "uID u \<in> user_ids (seDB w)" and "body = trim_space (tiValue L (avPushIn m))" and "body \<noteq> [] \<or> avPushKind m = PushKindArrow"
    and "kind_ok (avPushKind m)" and "aCommentsMode a \<noteq> CommentsModeLocked"
    and "aCommentsMode a = CommentsModeArrowsOnly \<longrightarrow> avPushKind m = PushKindArrow"
  obtains p d m' where "pushes_create (aID a) (uID u) (uUserID u) (avPushKind m) body (seNow w) (seDB w) = (Inr p, d)"
    and "p = new_push (aID a) (uID u) (uUserID u) (avPushKind m) body (seNow w) (seq_pushes (seDB w) + 1)"
    and "pushes_list_by_article (aID a) d = pushes_list_by_article (aID a) (seDB w) @ [p]"
    and "avPushes m' = avPushes m @ [p]" and "\<not> avPushing m'"
    and "update_push_input L ''enter'' m w = stay m' ((if aAuthorID a \<noteq> uID u then notify_dispatch (push_event L w u a (avPushKind m) body) else (\<lambda>x. x))
          (send_to_all (uID u) (PushAddedMsg (aID a) (uUserID u) (avPushKind m) body) (w\<lparr>seDB := d\<rparr>)))"
proof -
  let ?r = "pushes_create (aID a) (uID u) (uUserID u) (avPushKind m) body (seNow w) (seDB w)"
  have ok: "pushes_ok (seDB w)" "articles_ok (seDB w)" using db_invD [OF assms(1)] by simp_all
  have "ok_res (fst ?r)" using pushes_create_accepts [OF ok assms(4,5)] assms(8-10) by simp
  then obtain p d where r: "?r = (Inr p, d)" by (cases ?r) (auto simp: ok_res_def split: sum.splits)
  from pushes_create_lists [OF ok(1), of "aID a" "uID u" "uUserID u" "avPushKind m" body "seNow w"] r
  have p: "p = new_push (aID a) (uID u) (uUserID u) (avPushKind m) body (seNow w) (seq_pushes (seDB w) + 1)"
    "pushes_list_by_article (aID a) d = pushes_list_by_article (aID a) (seDB w) @ [p]" by simp_all
  obtain b where b: "articles_get_by_id (aID a) d = Inr b" "aID b = aID a" "aAuthorID b = aAuthorID a" "aTitle b = aTitle a"
    using pushes_create_article [OF ok(2) assms(4) r] by blast
  let ?w = "w\<lparr>seDB := d\<rparr>" and ?msg = "PushAddedMsg (aID a) (uUserID u) (avPushKind m) body"
  let ?m = "close_push L (refetch_article ?w (m\<lparr>avPushes := avPushes m @ [p]\<rparr>))"
  have m: "avArticle ?m = Some b" "avPushes ?m = avPushes m @ [p]" "\<not> avPushing ?m"
    using assms(3) b(1) by (simp_all add: close_push_def refetch_article_def)
  have same: "tr_for (send_to_all (uID u) ?msg ?w) i = tr_for w i" "recipient_locale (send_to_all (uID u) ?msg ?w) i = recipient_locale w i" for i
    using pushes_create_frame(1) [OF r] by (intro recipient_same; simp)+
  have "announce_push L u b (avPushKind m) body ?w =
      (if aAuthorID a \<noteq> uID u then notify_dispatch (push_event L w u a (avPushKind m) body) else (\<lambda>x. x)) (send_to_all (uID u) ?msg ?w)"
    by (simp add: announce_push_def Let_def b same push_event_def)
  moreover have "submit_push L m w = stay ?m (announce_push L u b (avPushKind m) body ?w)"
    using assms(2,3,6,7,9,10) r m(1) by (auto simp: submit_push_def Let_def on_db_def)
  ultimately show ?thesis using that [OF r p m(2,3)] by (simp add: update_push_input_def)
qed

text \<open>C8: Enter on the push input of an article that is shown as it is stored, with a comments mode that admits the push,
  appends one push by the session's user to
  the article, in the store and on the screen, closes the input, tells the sessions of every other user, each once and none of one's
  own, and, unless the article is one's own, hands one event to the dispatcher. Delivering that event sends to every enabled webhook
  of the author with an acceptable URL, if the preferences of the author allow it, a request from whose body the service, Discord or
  another, reads the title, in the language of the author, and the title of the article with the text of the push.\<close>

theorem push_reaches_author:
  assumes "db_inv (seDB w)" and "seUser w = Some u" and "avArticle m = Some a" and "a \<in> set (articles (seDB w))"
    and "uID u \<in> user_ids (seDB w)" and "body = trim_space (tiValue L (avPushIn m))" and "body \<noteq> [] \<or> avPushKind m = PushKindArrow"
    and "kind_ok (avPushKind m)" and "aCommentsMode a \<noteq> CommentsModeLocked"
    and "aCommentsMode a = CommentsModeArrowsOnly \<longrightarrow> avPushKind m = PushKindArrow"
    and "avPushing m" and "seHasBroker w" and "seHasNotify w"
    and "article_view_update L (KeyMsg ''enter'') m w = ((m', c), w')"
    and "p = new_push (aID a) (uID u) (uUserID u) (avPushKind m) body (seNow w) (seq_pushes (seDB w) + 1)"
    and "ev = push_event L w u a (avPushKind m) body"
  shows "pushes_list_by_article (aID a) (seDB w') = pushes_list_by_article (aID a) (seDB w) @ [p]
    \<and> avPushes m' = avPushes m @ [p] \<and> \<not> avPushing m' \<and> c = NoCmd
    \<and> seSent w' = seSent w @ broker_send_to_all (uID u) (PushAddedMsg (aID a) (uUserID u) (avPushKind m) body) (seBroker w)
    \<and> seEvents w' = seEvents w @ (if aAuthorID a = uID u then [] else [ev])
    \<and> (t \<in> set (notify_list_enabled_targets (aAuthorID a) (seDB w)) \<and> url_ok (ntURL t)
      \<and> npOnPush (notify_get_prefs (aAuthorID a) (seDB w))
      \<and> (npOnlyWhenOffline (notify_get_prefs (aAuthorID a) (seDB w)) \<longrightarrow> \<not> online (aAuthorID a)) \<longrightarrow>
      (\<exists>r \<in> set (deliver url_ok (Some online) (seDB w') ev). rqURL r = ntURL t
         \<and> json_parse (payload_json (rqBody r)) = Some (received (detect_format (ntURL t)) (to_valid (evTitle ev))
             (to_valid (truncate_width L (aTitle a) 60 @ [NL, NL] @ body)))))"
proof -
  obtain p1 d m1 where r: "pushes_create (aID a) (uID u) (uUserID u) (avPushKind m) body (seNow w) (seDB w) = (Inr p1, d)"
    and p1: "p1 = new_push (aID a) (uID u) (uUserID u) (avPushKind m) body (seNow w) (seq_pushes (seDB w) + 1)"
      "pushes_list_by_article (aID a) d = pushes_list_by_article (aID a) (seDB w) @ [p1]"
    and m1: "avPushes m1 = avPushes m @ [p1]" "\<not> avPushing m1"
    and step: "update_push_input L ''enter'' m w = stay m1 ((if aAuthorID a \<noteq> uID u then notify_dispatch (push_event L w u a (avPushKind m) body)
        else (\<lambda>x. x)) (send_to_all (uID u) (PushAddedMsg (aID a) (uUserID u) (avPushKind m) body) (w\<lparr>seDB := d\<rparr>)))"
    using push_submitted [OF assms(1-10)] by blast
  have w': "m' = m1" "c = NoCmd" "seDB w' = d"
    "seSent w' = seSent w @ broker_send_to_all (uID u) (PushAddedMsg (aID a) (uUserID u) (avPushKind m) body) (seBroker w)"
    "seEvents w' = seEvents w @ (if aAuthorID a = uID u then [] else [ev])"
    using assms(11-14,16) step by (auto simp: article_view_update_def stay_def send_to_all_def notify_dispatch_def)
  have frame: "notify_list_enabled_targets i d = notify_list_enabled_targets i (seDB w)" "notify_get_prefs i d = notify_get_prefs i (seDB w)" for i
    using pushes_create_frame [OF r] by (simp_all add: notify_list_enabled_targets_def notify_get_prefs_def)
  have ev: "evToUserID ev = aAuthorID a" "evKind ev = KindPush" "evBody ev = truncate_width L (aTitle a) 60 @ [NL, NL] @ body"
    by (simp_all add: assms(16) push_event_def)
  have sent: "\<exists>r \<in> set (deliver url_ok (Some online) (seDB w') ev). rqURL r = ntURL t
       \<and> json_parse (payload_json (rqBody r)) = Some (received (detect_format (ntURL t)) (to_valid (evTitle ev))
           (to_valid (truncate_width L (aTitle a) 60 @ [NL, NL] @ body)))"
    if t: "t \<in> set (notify_list_enabled_targets (aAuthorID a) (seDB w))" "url_ok (ntURL t)"
      "npOnPush (notify_get_prefs (aAuthorID a) (seDB w))"
      "npOnlyWhenOffline (notify_get_prefs (aAuthorID a) (seDB w)) \<longrightarrow> \<not> online (aAuthorID a)"
  proof -
    obtain q where "q \<in> set (deliver url_ok (Some online) d ev)" "build_request url_ok t ev = Some q" "rqURL q = ntURL t"
      using deliver_request [of t ev d url_ok online] t by (auto simp: ev frame prefs_allow_def)
    with request_received [OF this(2)] show ?thesis by (auto simp: w'(3) ev)
  qed
  show ?thesis
  proof (intro conjI impI)
    show "pushes_list_by_article (aID a) (seDB w') = pushes_list_by_article (aID a) (seDB w) @ [p]"
      "avPushes m' = avPushes m @ [p]" "\<not> avPushing m'" "c = NoCmd"
      using w' m1 p1 assms(15) by simp_all
  qed (use w'(4,5) sent in blast)+
qed

text \<open>Bob pushes on the third article, which is by alice, who has one webhook.\<close>

definition bob_state :: session_state where
  "bob_state = demo_state\<lparr>seUser := Some (demo_user 2 ''bob'')\<rparr>"

definition bob_view :: "string article_view" where
  "bob_view = (new_article_view demo_lib 4 bob_state)\<lparr>avPushing := True, avPushKind := PushKindPush, avPushIn := '' nice ''\<rparr>"

lemma push_reaches_author_witness:
  "\<exists>ev. seEvents (snd (article_view_update demo_lib (KeyMsg ''enter'') bob_view bob_state)) = [ev] \<and> evToUserID ev = 1
    \<and> (\<exists>r \<in> set (deliver (\<lambda>u. True) (Some (\<lambda>u. True)) (seDB (snd (article_view_update demo_lib (KeyMsg ''enter'') bob_view bob_state))) ev).
        rqURL r = ''https://x.io'')"
proof -
  let ?a = "new_article 1 1 ''alice'' ''third'' ''body'' (TS 2026 4 3 0 0 0) 4" and ?u = "demo_user 2 ''bob''"
  let ?t = "new_target 1 ''hook'' ''https://x.io'' demo_now 1"
  have db: "seDB bob_state = demo_db" "seUser bob_state = Some ?u" "seHasBroker bob_state" "seHasNotify bob_state" "seEvents bob_state = []"
    by (simp_all add: bob_state_def demo_state_def)
  have a: "articles_get_by_id 4 demo_db = Inr ?a" by (simp add: articles_get_by_id_def demo_db_def new_article_def find_row_def)
  have m: "avArticle bob_view = Some ?a" "avPushKind bob_view = PushKindPush" "avPushIn bob_view = '' nice ''" "avPushing bob_view"
    by (simp_all add: bob_view_def new_article_view_def Let_def db a render_body_def)
  have mem: "?a \<in> set (articles (seDB bob_state))" "uID ?u \<in> user_ids (seDB bob_state)"
    by (simp_all add: db demo_db_def user_ids_def demo_user_def)
  have body: "trim_space (tiValue demo_lib (avPushIn bob_view)) = ''nice''" unfolding m demo_lib_def by simp code_simp
  have fields: "aAuthorID ?a = 1" "aCommentsMode ?a = CommentsModeOpen" "uID ?u = 2" by (simp_all add: new_article_def demo_user_def new_user_def)
  obtain m' c w' where upd: "article_view_update demo_lib (KeyMsg ''enter'') bob_view bob_state = ((m', c), w')" by (metis prod.exhaust)
  have t: "?t \<in> set (notify_list_enabled_targets 1 demo_db)"
    by (simp add: notify_list_enabled_targets_def demo_db_def sort_by_def)
  have f: "detect_format (ntURL ?t) = FormatApprise" unfolding new_target_def by code_simp
  have pr: "notify_get_prefs 1 demo_db = default_notify_prefs" by (simp add: notify_get_prefs_def demo_db_def)
  have inv: "db_inv (seDB bob_state)" unfolding db by (rule demo_db_inv)
  have kind: "kind_ok (avPushKind bob_view)" by (simp add: m kind_ok_def)
  let ?ev = "push_event demo_lib bob_state ?u ?a PushKindPush ''nice''"
  have "seEvents w' = [?ev] \<and> (\<exists>r \<in> set (deliver (\<lambda>u. True) (Some (\<lambda>u. True)) (seDB w') ?ev). rqURL r = ''https://x.io'')"
    using push_reaches_author [where t = ?t and url_ok = "\<lambda>u. True" and online = "\<lambda>u. True", OF inv db(2) m(1) mem body [symmetric] _ kind _ _ m(4) db(3,4) upd refl refl]
      t f pr by (auto simp: fields m(2) db default_notify_prefs_def mode_defs)
  then show ?thesis using upd by (intro exI [of _ ?ev]) (simp add: push_event_def fields)
qed

end
