(* ===== verification/Ddl.thy ===== *)
theory Ddl
  imports Sql
begin

text \<open>
  The SQL of \<open>internal/store/migrations\<close>: tables of typed columns with their constraints, and the statements the
  files are made of. \<open>exec_sql\<close> runs the statements of a file; \<open>ddl\<close> is the same on schemas alone, without the rows.
\<close>

section \<open>Tables\<close>

datatype sql_value = SNull | SInt int | SText string | STime timestamp

datatype sql_type = TypeInteger | TypeText | TypeDatetime

datatype sql_default = NoDefault | DefaultTo sql_value | CurrentTimestamp

text \<open>\<open>PRIMARY KEY\<close> on an \<open>INTEGER\<close>, which is the row id, and \<open>UNIQUE COLLATE NOCASE\<close>.\<close>

datatype column_key = NoKey | PrimaryKey | UniqueNocase

text \<open>A foreign key has the table it refers to and whether its rows go with the row they refer to (\<open>ON DELETE CASCADE\<close>).\<close>

record column =
  coName :: string
  coType :: sql_type
  coKey :: column_key
  coNotNull :: bool
  coDefault :: sql_default
  coCheck :: "string list option"
  coRefs :: "(string \<times> bool) option"

record sql_table =
  tbName :: string
  tbColumns :: "column list"
  tbRows :: "sql_value list list"
  tbSeq :: int

record sql_db =
  sdTables :: "sql_table list"
  sdIndexes :: "(string \<times> string \<times> string list) list"

datatype stmt =
    PragmaForeignKeys
  | CreateTable string "column list"
  | AddColumn string column
  | CreateIndex string string "string list"
  | InsertOrIgnore string "string list" "sql_value list list"

section \<open>What a row must satisfy\<close>

fun has_type :: "sql_type \<Rightarrow> sql_value \<Rightarrow> bool" where
  "has_type t SNull = True"
| "has_type t (SInt i) = (t = TypeInteger)"
| "has_type t (SText s) = (t = TypeText)"
| "has_type t (STime s) = (t = TypeDatetime)"

text \<open>A CHECK lets NULL pass.\<close>

definition value_fits :: "column \<Rightarrow> sql_value \<Rightarrow> bool" where
  "value_fits c v \<longleftrightarrow> has_type (coType c) v \<and> (v = SNull \<longrightarrow> \<not> coNotNull c \<and> coKey c \<noteq> PrimaryKey)
     \<and> (case coCheck c of None \<Rightarrow> True | Some allowed \<Rightarrow> v = SNull \<or> v \<in> set (map SText allowed))"

definition table_of :: "string \<Rightarrow> sql_db \<Rightarrow> sql_table option" where
  "table_of n d = find (\<lambda>t. tbName t = n) (sdTables d)"

text \<open>The values of the primary key.\<close>

definition row_keys :: "column list \<Rightarrow> sql_value list \<Rightarrow> sql_value list" where
  "row_keys cols row = map snd (filter (\<lambda>(c, v). coKey c = PrimaryKey) (zip cols row))"

definition key_values :: "string \<Rightarrow> sql_db \<Rightarrow> sql_value list" where
  "key_values n d =
    (case table_of n d of None \<Rightarrow> [] | Some t \<Rightarrow> concat (map (row_keys (tbColumns t)) (tbRows t)))"

definition ref_fits :: "sql_db \<Rightarrow> column \<Rightarrow> sql_value \<Rightarrow> bool" where
  "ref_fits d c v \<longleftrightarrow> (case coRefs c of None \<Rightarrow> True | Some (t, _) \<Rightarrow> v = SNull \<or> v \<in> set (key_values t d))"

fun same_text :: "sql_value \<Rightarrow> sql_value \<Rightarrow> bool" where
  "same_text (SText a) (SText b) = (nocase a = nocase b)"
| "same_text _ _ = False"

definition value_clash :: "column \<Rightarrow> sql_value \<Rightarrow> sql_value \<Rightarrow> bool" where
  "value_clash c v v' \<longleftrightarrow> (coKey c = PrimaryKey \<and> v = v') \<or> (coKey c = UniqueNocase \<and> same_text v v')"

definition row_clash :: "column list \<Rightarrow> sql_value list \<Rightarrow> sql_value list \<Rightarrow> bool" where
  "row_clash cols r r' \<longleftrightarrow> list_ex (\<lambda>(c, v, v'). value_clash c v v') (zip cols (zip r r'))"

definition row_fits :: "column list \<Rightarrow> sql_value list \<Rightarrow> bool" where
  "row_fits cols row \<longleftrightarrow> list_all2 value_fits cols row"

definition refs_fit :: "sql_db \<Rightarrow> column list \<Rightarrow> sql_value list \<Rightarrow> bool" where
  "refs_fit d cols row \<longleftrightarrow> list_all2 (ref_fits d) cols row"

definition table_fits :: "sql_db \<Rightarrow> sql_table \<Rightarrow> bool" where
  "table_fits d t \<longleftrightarrow>
     (\<forall>r \<in> set (tbRows t). row_fits (tbColumns t) r \<and> refs_fit d (tbColumns t) r)
     \<and> sorted_wrt (\<lambda>r r'. \<not> row_clash (tbColumns t) r r') (tbRows t)"

definition sql_fits :: "sql_db \<Rightarrow> bool" where
  "sql_fits d \<longleftrightarrow> distinct (map tbName (sdTables d)) \<and> (\<forall>t \<in> set (sdTables d). table_fits d t)"

section \<open>Running statements\<close>

definition default_value :: "timestamp \<Rightarrow> column \<Rightarrow> sql_value" where
  "default_value now c = (case coDefault c of NoDefault \<Rightarrow> SNull | DefaultTo v \<Rightarrow> v | CurrentTimestamp \<Rightarrow> STime now)"

definition constant_default :: "column \<Rightarrow> sql_value" where
  "constant_default c = (case coDefault c of DefaultTo v \<Rightarrow> v | _ \<Rightarrow> SNull)"

text \<open>
  What SQLite demands of an added column: a new name, no key, a constant default that satisfies the NOT NULL and the
  CHECK, and a NULL default when it is a foreign key.
\<close>

definition addable :: "column list \<Rightarrow> column \<Rightarrow> bool" where
  "addable cols c \<longleftrightarrow> coName c \<notin> set (map coName cols) \<and> coKey c = NoKey \<and> coDefault c \<noteq> CurrentTimestamp
     \<and> value_fits c (constant_default c) \<and> (coRefs c \<noteq> None \<longrightarrow> constant_default c = SNull)"

definition put_table :: "sql_table \<Rightarrow> sql_db \<Rightarrow> sql_db" where
  "put_table t d = d\<lparr>sdTables := map (\<lambda>x. if tbName x = tbName t then t else x) (sdTables d)\<rparr>"

definition filled_row :: "timestamp \<Rightarrow> column list \<Rightarrow> string list \<Rightarrow> sql_value list \<Rightarrow> int \<Rightarrow> sql_value list" where
  "filled_row now cols names vals i =
    map (\<lambda>c. if coKey c = PrimaryKey then SInt i
             else case map_of (zip names vals) (coName c) of Some v \<Rightarrow> v | None \<Rightarrow> default_value now c) cols"

text \<open>A row that violates a key, a NOT NULL or a CHECK is ignored, after its id was taken; a dangling reference fails.\<close>

definition insert_row :: "timestamp \<Rightarrow> sql_db \<Rightarrow> string list \<Rightarrow> sql_value list \<Rightarrow> sql_table \<Rightarrow> sql_table option" where
  "insert_row now d names vals t =
    (let i = tbSeq t + 1; row = filled_row now (tbColumns t) names vals i
     in if \<not> row_fits (tbColumns t) row \<or> list_ex (\<lambda>r. row_clash (tbColumns t) r row) (tbRows t) then Some (t\<lparr>tbSeq := i\<rparr>)
        else if \<not> refs_fit d (tbColumns t) row then None
        else Some (t\<lparr>tbRows := tbRows t @ [row], tbSeq := i\<rparr>))"

fun insert_rows :: "timestamp \<Rightarrow> string list \<Rightarrow> sql_value list list \<Rightarrow> sql_table \<Rightarrow> sql_db \<Rightarrow> sql_db option" where
  "insert_rows now names [] t d = Some d"
| "insert_rows now names (vals # rows) t d =
     (case insert_row now d names vals t of
        None \<Rightarrow> None
      | Some t' \<Rightarrow> insert_rows now names rows t' (put_table t' d))"

text \<open>The pragma has no effect inside the transaction of a migration; \<open>Open\<close> has set it on the connection.\<close>

fun exec_stmt :: "timestamp \<Rightarrow> stmt \<Rightarrow> sql_db \<Rightarrow> sql_db option" where
  "exec_stmt now PragmaForeignKeys d = Some d"
| "exec_stmt now (CreateTable n cols) d =
     (if n \<in> set (map tbName (sdTables d)) \<or> \<not> distinct (map coName cols) then None
      else Some (d\<lparr>sdTables := sdTables d @ [\<lparr>tbName = n, tbColumns = cols, tbRows = [], tbSeq = 0\<rparr>]\<rparr>))"
| "exec_stmt now (AddColumn n c) d =
     (case table_of n d of
        None \<Rightarrow> None
      | Some t \<Rightarrow>
          if \<not> addable (tbColumns t) c then None
          else Some (put_table (t\<lparr>tbColumns := tbColumns t @ [c], tbRows := map (\<lambda>r. r @ [constant_default c]) (tbRows t)\<rparr>) d))"
| "exec_stmt now (CreateIndex i n names) d =
     (case table_of n d of
        None \<Rightarrow> None
      | Some t \<Rightarrow>
          if i \<in> set (map fst (sdIndexes d)) \<or> \<not> set names \<subseteq> set (map coName (tbColumns t)) then None
          else Some (d\<lparr>sdIndexes := sdIndexes d @ [(i, n, names)]\<rparr>))"
| "exec_stmt now (InsertOrIgnore n names rows) d =
     (case table_of n d of
        None \<Rightarrow> None
      | Some t \<Rightarrow> if \<not> set names \<subseteq> set (map coName (tbColumns t)) then None else insert_rows now names rows t d)"

fun exec_sql :: "timestamp \<Rightarrow> stmt list \<Rightarrow> sql_db \<Rightarrow> sql_db option" where
  "exec_sql now [] d = Some d"
| "exec_sql now (s # ss) d = (case exec_stmt now s d of None \<Rightarrow> None | Some d' \<Rightarrow> exec_sql now ss d')"

section \<open>Schemas\<close>

type_synonym schema = "(string \<times> column list) list \<times> (string \<times> string \<times> string list) list"

definition schema_of :: "sql_db \<Rightarrow> schema" where
  "schema_of d = (map (\<lambda>t. (tbName t, tbColumns t)) (sdTables d), sdIndexes d)"

fun ddl_stmt :: "stmt \<Rightarrow> schema \<Rightarrow> schema option" where
  "ddl_stmt PragmaForeignKeys (ts, xs) = Some (ts, xs)"
| "ddl_stmt (CreateTable n cols) (ts, xs) =
     (if n \<in> set (map fst ts) \<or> \<not> distinct (map coName cols) then None else Some (ts @ [(n, cols)], xs))"
| "ddl_stmt (AddColumn n c) (ts, xs) =
     (case map_of ts n of
        None \<Rightarrow> None
      | Some cols \<Rightarrow>
          if addable cols c then Some (map (\<lambda>(m, cs). (m, if m = n then cols @ [c] else cs)) ts, xs) else None)"
| "ddl_stmt (CreateIndex i n names) (ts, xs) =
     (case map_of ts n of
        None \<Rightarrow> None
      | Some cols \<Rightarrow>
          if i \<in> set (map fst xs) \<or> \<not> set names \<subseteq> set (map coName cols) then None else Some (ts, xs @ [(i, n, names)]))"
| "ddl_stmt (InsertOrIgnore n names rows) (ts, xs) =
     (case map_of ts n of
        None \<Rightarrow> None
      | Some cols \<Rightarrow>
          if set names \<subseteq> set (map coName cols) \<and> list_all (\<lambda>c. coRefs c = None) cols then Some (ts, xs) else None)"

fun ddl :: "stmt list \<Rightarrow> schema \<Rightarrow> schema option" where
  "ddl [] sc = Some sc"
| "ddl (s # ss) sc = (case ddl_stmt s sc of None \<Rightarrow> None | Some sc' \<Rightarrow> ddl ss sc')"

lemma ddl_append: "ddl (xs @ ys) sc = (case ddl xs sc of None \<Rightarrow> None | Some sc' \<Rightarrow> ddl ys sc')"
  by (induction xs arbitrary: sc) (simp_all split: option.split)

lemma map_of_schema: "map_of (map (\<lambda>t. (tbName t, tbColumns t)) ts) n = map_option tbColumns (find (\<lambda>t. tbName t = n) ts)"
  by (induction ts) auto

lemma table_of_Some: "table_of n d = Some t \<Longrightarrow> t \<in> set (sdTables d) \<and> tbName t = n"
  by (auto simp: table_of_def find_Some_iff)

section \<open>The statements keep the constraints and every row\<close>

text \<open>The tables only grow: a row keeps its values and gains the defaults of the added columns.\<close>

definition table_grows :: "sql_table \<Rightarrow> sql_table \<Rightarrow> bool" where
  "table_grows t t' \<longleftrightarrow> tbName t' = tbName t \<and> tbSeq t \<le> tbSeq t'
     \<and> (\<exists>cs more. tbColumns t' = tbColumns t @ cs \<and> tbRows t' = map (\<lambda>r. r @ map constant_default cs) (tbRows t) @ more)"

definition sql_grows :: "sql_db \<Rightarrow> sql_db \<Rightarrow> bool" where
  "sql_grows d d' \<longleftrightarrow> (\<forall>t \<in> set (sdTables d). \<exists>t' \<in> set (sdTables d'). table_grows t t')"

lemma table_grows_refl [simp]: "table_grows t t"
  by (auto simp: table_grows_def intro!: exI [of _ "[]"])

lemma table_grows_trans: "table_grows t u \<Longrightarrow> table_grows u v \<Longrightarrow> table_grows t v"
  unfolding table_grows_def by (auto simp: comp_def)

lemma sql_growsI:
  "(\<And>t. t \<in> set (sdTables d) \<Longrightarrow> t \<in> set (sdTables d') \<or> (\<exists>t' \<in> set (sdTables d'). table_grows t t')) \<Longrightarrow> sql_grows d d'"
  unfolding sql_grows_def using table_grows_refl by blast

lemma sql_grows_refl [simp]: "sql_grows d d"
  by (rule sql_growsI) simp

lemma sql_grows_trans: "sql_grows d e \<Longrightarrow> sql_grows e f \<Longrightarrow> sql_grows d f"
  unfolding sql_grows_def by (meson table_grows_trans)

lemma sql_fits_find:
  assumes "sql_fits d" and "t \<in> set (sdTables d)"
  shows "table_of (tbName t) d = Some t"
proof -
  have "distinct (map tbName ts) \<Longrightarrow> t \<in> set ts \<Longrightarrow> find (\<lambda>x. tbName x = tbName t) ts = Some t" for ts
    by (induction ts) auto
  with assms show ?thesis by (simp add: sql_fits_def table_of_def)
qed

lemma table_of_put:
  assumes "table_of (tbName t) d = Some t0"
  shows "table_of n (put_table t d) = (if n = tbName t then Some t else table_of n d)"
proof -
  have "find (\<lambda>x. tbName x = tbName t) ts = Some t0 \<Longrightarrow>
      find (\<lambda>x. tbName x = n) (map (\<lambda>x. if tbName x = tbName t then t else x) ts) =
      (if n = tbName t then Some t else find (\<lambda>x. tbName x = n) ts)" for ts
  proof (induction ts)
    case (Cons x ts)
    show ?case
    proof (cases "tbName x = tbName t")
      case True
      have "n \<noteq> tbName t \<Longrightarrow> find (\<lambda>x. tbName x = n) (map (\<lambda>x. if tbName x = tbName t then t else x) ts) = find (\<lambda>x. tbName x = n) ts"
        by (induction ts) auto
      with True show ?thesis by simp
    next
      case False
      with Cons show ?thesis by auto
    qed
  qed simp
  with assms show ?thesis by (simp add: table_of_def put_table_def)
qed

lemma put_table_set:
  assumes "sql_fits d" and "table_of (tbName t) d = Some t0"
  shows "set (sdTables (put_table t d)) = insert t (set (sdTables d) - {t0})"
    and "map tbName (sdTables (put_table t d)) = map tbName (sdTables d)"
proof -
  have t0: "t0 \<in> set (sdTables d)" "tbName t0 = tbName t" using table_of_Some [OF assms(2)] by simp_all
  have only: "x = t0" if "x \<in> set (sdTables d)" "tbName x = tbName t" for x
    using sql_fits_find [OF assms(1) that(1)] assms(2) that(2) by simp
  show "set (sdTables (put_table t d)) = insert t (set (sdTables d) - {t0})"
  proof -
    have "(\<lambda>x. if tbName x = tbName t then t else x) ` set (sdTables d) = (\<lambda>x. if x = t0 then t else x) ` set (sdTables d)"
      by (rule image_cong) (auto dest: only simp: t0(2))
    also have "\<dots> = insert t (set (sdTables d) - {t0})" using t0(1) by force
    finally show ?thesis by (simp add: put_table_def)
  qed
  show "map tbName (sdTables (put_table t d)) = map tbName (sdTables d)" by (simp add: put_table_def)
qed

lemma sql_grows_put:
  assumes "sql_fits d" and "table_of (tbName t) d = Some t0" and "table_grows t0 t"
  shows "sql_grows d (put_table t d)"
proof (rule sql_growsI)
  fix x assume x: "x \<in> set (sdTables d)"
  have set: "set (sdTables (put_table t d)) = insert t (set (sdTables d) - {t0})" by (rule put_table_set(1) [OF assms(1,2)])
  show "x \<in> set (sdTables (put_table t d)) \<or> (\<exists>t' \<in> set (sdTables (put_table t d)). table_grows x t')"
    using x assms(3) by (cases "x = t0") (simp_all add: set)
qed

text \<open>References stay good when keys are only added.\<close>

definition keys_within :: "sql_db \<Rightarrow> sql_db \<Rightarrow> bool" where
  "keys_within d d' \<longleftrightarrow> (\<forall>n. set (key_values n d) \<subseteq> set (key_values n d'))"

lemma refs_fit_mono: "keys_within d d' \<Longrightarrow> refs_fit d cols r \<Longrightarrow> refs_fit d' cols r"
  unfolding refs_fit_def by (erule list_all2_mono) (auto simp: ref_fits_def keys_within_def split: option.splits)

lemma table_fits_mono: "keys_within d d' \<Longrightarrow> table_fits d t \<Longrightarrow> table_fits d' t"
  by (auto simp: table_fits_def intro: refs_fit_mono)

definition table_keys :: "sql_table \<Rightarrow> sql_value list" where
  "table_keys t = concat (map (row_keys (tbColumns t)) (tbRows t))"

lemma sql_fits_put:
  assumes "sql_fits d" and "table_of (tbName t) d = Some t0" and "set (table_keys t0) \<subseteq> set (table_keys t)" and "table_fits d t"
  shows "sql_fits (put_table t d)"
proof -
  have "keys_within d (put_table t d)"
    using assms(2,3) by (auto simp: keys_within_def key_values_def table_of_put [OF assms(2)] table_keys_def)
  then show ?thesis
    using assms(1,4) put_table_set [OF assms(1,2)] table_fits_mono by (auto simp: sql_fits_def)
qed

lemma row_fits_length: "row_fits cols r \<Longrightarrow> length r = length cols"
  by (simp add: row_fits_def list_all2_lengthD)

lemma row_clash_extend:
  "length r = length cols \<Longrightarrow> length r' = length cols \<Longrightarrow> coKey c = NoKey \<Longrightarrow>
    row_clash (cols @ [c]) (r @ [v]) (r' @ [v']) = row_clash cols r r'"
  by (simp add: row_clash_def value_clash_def)

lemma row_keys_extend: "length r = length cols \<Longrightarrow> coKey c = NoKey \<Longrightarrow> row_keys (cols @ [c]) (r @ [v]) = row_keys cols r"
  by (simp add: row_keys_def)

lemma add_column_fits:
  assumes "table_fits d t" and "addable (tbColumns t) c"
  shows "table_fits d (t\<lparr>tbColumns := tbColumns t @ [c], tbRows := map (\<lambda>r. r @ [constant_default c]) (tbRows t)\<rparr>)"
    and "set (table_keys t) \<subseteq> set (table_keys (t\<lparr>tbColumns := tbColumns t @ [c], tbRows := map (\<lambda>r. r @ [constant_default c]) (tbRows t)\<rparr>))"
proof -
  have len: "r \<in> set (tbRows t) \<Longrightarrow> length r = length (tbColumns t)" for r using assms(1) by (auto simp: table_fits_def row_fits_length)
  have c: "coKey c = NoKey" "value_fits c (constant_default c)" using assms(2) by (simp_all add: addable_def)
  have "ref_fits d c (constant_default c)" using assms(2) by (auto simp: addable_def ref_fits_def split: option.splits)
  with assms(1) c have "row_fits (tbColumns t @ [c]) (r @ [constant_default c]) \<and> refs_fit d (tbColumns t @ [c]) (r @ [constant_default c])"
    if "r \<in> set (tbRows t)" for r
    using that by (auto simp: table_fits_def row_fits_def refs_fit_def intro: list_all2_appendI)
  moreover have "sorted_wrt (\<lambda>r r'. \<not> row_clash (tbColumns t @ [c]) (r @ [constant_default c]) (r' @ [constant_default c])) (tbRows t)"
    by (rule sorted_wrt_mono_rel [of _ "\<lambda>r r'. \<not> row_clash (tbColumns t) r r'"])
       (use assms(1) len c in \<open>auto simp: row_clash_extend table_fits_def\<close>)
  ultimately show "table_fits d (t\<lparr>tbColumns := tbColumns t @ [c], tbRows := map (\<lambda>r. r @ [constant_default c]) (tbRows t)\<rparr>)"
    by (simp add: table_fits_def sorted_wrt_map)
  show "set (table_keys t) \<subseteq> set (table_keys (t\<lparr>tbColumns := tbColumns t @ [c], tbRows := map (\<lambda>r. r @ [constant_default c]) (tbRows t)\<rparr>))"
    using len c(1) by (auto simp: table_keys_def row_keys_extend)
qed

lemma insert_row_cases:
  assumes "insert_row now d names vals t = Some t'" and "table_fits d t"
  shows "table_fits d t'" and "set (table_keys t) \<subseteq> set (table_keys t')" and "table_grows t t'"
    and "tbName t' = tbName t" and "tbColumns t' = tbColumns t"
proof -
  let ?row = "filled_row now (tbColumns t) names vals (tbSeq t + 1)"
  have *: "t' = t\<lparr>tbSeq := tbSeq t + 1\<rparr> \<or> (t' = t\<lparr>tbRows := tbRows t @ [?row], tbSeq := tbSeq t + 1\<rparr>
      \<and> row_fits (tbColumns t) ?row \<and> (\<forall>r \<in> set (tbRows t). \<not> row_clash (tbColumns t) r ?row) \<and> refs_fit d (tbColumns t) ?row)"
    using assms(1) by (auto simp: insert_row_def Let_def list_ex_iff split: if_splits)
  then show "table_fits d t'" using assms(2) by (auto simp: table_fits_def sorted_wrt_append)
  show "set (table_keys t) \<subseteq> set (table_keys t')" "tbName t' = tbName t" "tbColumns t' = tbColumns t"
    using * by (auto simp: table_keys_def)
  have "tbRows t' = map (\<lambda>r. r @ map constant_default []) (tbRows t) @ (if tbRows t' = tbRows t then [] else [?row])"
    "tbColumns t' = tbColumns t @ []" "tbName t' = tbName t" "tbSeq t \<le> tbSeq t'"
    using * by auto
  then show "table_grows t t'" unfolding table_grows_def by blast
qed

lemma insert_rows_spec:
  assumes "insert_rows now names rows t d = Some d'" and "sql_fits d" and "table_of (tbName t) d = Some t"
  shows "sql_fits d' \<and> sql_grows d d' \<and> schema_of d' = schema_of d"
  using assms
proof (induction rows arbitrary: t d)
  case (Cons vals rows)
  then obtain t' where t': "insert_row now d names vals t = Some t'" "insert_rows now names rows t' (put_table t' d) = Some d'"
    by (auto split: option.splits)
  have "t \<in> set (sdTables d)" using table_of_Some [OF Cons.prems(3)] by simp
  with Cons.prems(2) have fits: "table_fits d t" by (simp add: sql_fits_def)
  note row = insert_row_cases [OF t'(1) fits]
  have find: "table_of (tbName t') d = Some t" using Cons.prems(3) row(4) by simp
  have same: "map (\<lambda>x. (tbName x, tbColumns x)) (sdTables (put_table t' d)) = map (\<lambda>x. (tbName x, tbColumns x)) (sdTables d)"
  proof -
    have "tbColumns x = tbColumns t" if "x \<in> set (sdTables d)" "tbName x = tbName t'" for x
      using sql_fits_find [OF Cons.prems(2) that(1)] that(2) find by simp
    then show ?thesis using row(5) by (simp add: put_table_def)
  qed
  have "sql_fits d' \<and> sql_grows (put_table t' d) d' \<and> schema_of d' = schema_of (put_table t' d)"
    using t'(2) by (rule Cons.IH) (simp_all add: sql_fits_put [OF Cons.prems(2) find row(2,1)] table_of_put [OF find])
  with sql_grows_trans [OF sql_grows_put [OF Cons.prems(2) find row(3)]] same show ?case
    by (auto simp: schema_of_def put_table_def)
qed auto

lemma find_snoc: "find P (xs @ [y]) = (case find P xs of None \<Rightarrow> if P y then Some y else None | Some x \<Rightarrow> Some x)"
  by (induction xs) auto

lemma exec_stmt_keeps:
  assumes "exec_stmt now s d = Some d'" and "sql_fits d"
  shows "sql_fits d' \<and> sql_grows d d'"
proof (cases s)
  case (CreateTable n cols)
  let ?t = "\<lparr>tbName = n, tbColumns = cols, tbRows = [], tbSeq = 0\<rparr>"
  have n: "n \<notin> tbName ` set (sdTables d)" and d': "d' = d\<lparr>sdTables := sdTables d @ [?t]\<rparr>"
    using assms(1) CreateTable by (auto split: if_splits)
  have "keys_within d d'"
    by (auto simp: keys_within_def key_values_def table_of_def d' find_snoc split: option.splits)
  then have "table_fits d' t" if "t \<in> set (sdTables d)" for t
    using assms(2) that by (auto simp: sql_fits_def intro: table_fits_mono)
  moreover have "table_fits d' ?t" by (simp add: table_fits_def)
  ultimately have "sql_fits d'" using assms(2) n by (auto simp: d' sql_fits_def)
  moreover have "sql_grows d d'" by (rule sql_growsI) (simp add: d')
  ultimately show ?thesis ..
next
  case (AddColumn n c)
  obtain t where t: "table_of n d = Some t" "addable (tbColumns t) c"
    and d': "d' = put_table (t\<lparr>tbColumns := tbColumns t @ [c], tbRows := map (\<lambda>r. r @ [constant_default c]) (tbRows t)\<rparr>) d"
    using assms(1) AddColumn by (auto split: option.splits if_splits)
  have in_d: "t \<in> set (sdTables d)" "tbName t = n" using table_of_Some [OF t(1)] by simp_all
  then have fits: "table_fits d t" using assms(2) by (simp add: sql_fits_def)
  have "table_grows t (t\<lparr>tbColumns := tbColumns t @ [c], tbRows := map (\<lambda>r. r @ [constant_default c]) (tbRows t)\<rparr>)"
    unfolding table_grows_def by (intro conjI exI [of _ "[c]"] exI [of _ "[]"]) simp_all
  then show ?thesis unfolding d'
    using sql_fits_put [OF assms(2) _ add_column_fits(2,1) [OF fits t(2)]] sql_grows_put [OF assms(2)] t(1) in_d(2) by simp
next
  case (CreateIndex i n names)
  then obtain xs where d': "d' = d\<lparr>sdIndexes := xs\<rparr>" using assms(1) by (auto split: option.splits if_splits)
  have "keys_within d d'" by (simp add: keys_within_def key_values_def table_of_def d')
  then have "sql_fits d'" using assms(2) table_fits_mono by (auto simp: d' sql_fits_def)
  moreover have "sql_grows d d'" by (rule sql_growsI) (simp add: d')
  ultimately show ?thesis ..
next
  case (InsertOrIgnore n names rows)
  then obtain t where t: "table_of n d = Some t" "insert_rows now names rows t d = Some d'"
    using assms(1) by (auto split: option.splits if_splits)
  then show ?thesis using insert_rows_spec [OF t(2) assms(2)] table_of_Some [OF t(1)] by simp
qed (use assms in auto)

text \<open>A statement runs, whatever the rows, when it runs on the schema.\<close>

lemma no_refs_fit: "list_all (\<lambda>c. coRefs c = None) cols \<Longrightarrow> row_fits cols row \<Longrightarrow> refs_fit d cols row"
  by (auto simp: refs_fit_def row_fits_def list_all2_conv_all_nth list_all_length ref_fits_def)

lemma insert_rows_run:
  "list_all (\<lambda>c. coRefs c = None) (tbColumns t) \<Longrightarrow> \<exists>d'. insert_rows now names rows t d = Some d'"
proof (induction rows arbitrary: t d)
  case (Cons vals rows)
  have "insert_row now d names vals t \<noteq> None"
    using no_refs_fit [OF Cons.prems, of _ d] by (auto simp: insert_row_def Let_def)
  then obtain t' where "insert_row now d names vals t = Some t'" by blast
  moreover have "tbColumns t' = tbColumns t" using calculation by (auto simp: insert_row_def Let_def split: if_splits)
  ultimately show ?case using Cons by simp
qed simp

lemma ddl_stmt_exec:
  assumes "ddl_stmt s (schema_of d) = Some sc" and "sql_fits d"
  shows "\<exists>d'. exec_stmt now s d = Some d' \<and> schema_of d' = sc"
proof (cases s)
  case (InsertOrIgnore n names rows)
  then obtain t where t: "table_of n d = Some t" "set names \<subseteq> set (map coName (tbColumns t))"
    "list_all (\<lambda>c. coRefs c = None) (tbColumns t)" "sc = schema_of d"
    using assms(1) by (auto simp: schema_of_def map_of_schema table_of_def split: option.splits if_splits)
  from insert_rows_run [OF t(3), of now names rows d] obtain d' where d': "insert_rows now names rows t d = Some d'" by blast
  then have "schema_of d' = sc" using insert_rows_spec [OF d' assms(2)] table_of_Some [OF t(1)] t(1,4) by simp
  with d' t(1,2) InsertOrIgnore show ?thesis by simp
next
  case (AddColumn n c)
  then obtain t where t: "table_of n d = Some t" "addable (tbColumns t) c"
    "sc = (map (\<lambda>(m, cs). (m, if m = n then tbColumns t @ [c] else cs)) (fst (schema_of d)), snd (schema_of d))"
    using assms(1) by (auto simp: schema_of_def map_of_schema table_of_def split: option.splits if_splits)
  with AddColumn table_of_Some [OF t(1)] show ?thesis
    by (simp add: schema_of_def put_table_def comp_def if_distrib [of "\<lambda>x. (n, tbColumns x)"])
next
  case (CreateIndex i n names)
  then show ?thesis
    using assms(1) by (auto simp: schema_of_def map_of_schema table_of_def split: option.splits if_splits)
qed (use assms in \<open>auto simp: schema_of_def split: if_splits\<close>)

lemma ddl_exec:
  "ddl ss (schema_of d) = Some sc \<Longrightarrow> sql_fits d \<Longrightarrow>
    \<exists>d'. exec_sql now ss d = Some d' \<and> schema_of d' = sc \<and> sql_fits d' \<and> sql_grows d d'"
proof (induction ss arbitrary: d)
  case (Cons s ss)
  then obtain sc1 where "ddl_stmt s (schema_of d) = Some sc1" "ddl ss sc1 = Some sc" by (auto split: option.splits)
  with ddl_stmt_exec [OF this(1) Cons.prems(2)] obtain d1 where d1: "exec_stmt now s d = Some d1" "ddl ss (schema_of d1) = Some sc"
    by blast
  from exec_stmt_keeps [OF d1(1) Cons.prems(2)] Cons.IH [OF d1(2)] d1(1) show ?case by (auto intro: sql_grows_trans)
qed simp

end
