(* ===== verification/Migrations.thy ===== *)
theory Migrations
  imports Ddl Migrate BoardRepo
begin

text \<open>
  The files of \<open>internal/store/migrations\<close>, statement by statement, and \<open>Open\<close> of \<open>store.go\<close>, which applies them.
\<close>

section \<open>The files\<close>

definition auto_id :: column where
  "auto_id = \<lparr>coName = ''id'', coType = TypeInteger, coKey = PrimaryKey, coNotNull = False, coDefault = NoDefault,
     coCheck = None, coRefs = None\<rparr>"

definition nullable :: "string \<Rightarrow> sql_type \<Rightarrow> column" where
  "nullable n t = \<lparr>coName = n, coType = t, coKey = NoKey, coNotNull = False, coDefault = NoDefault, coCheck = None, coRefs = None\<rparr>"

definition not_null :: "string \<Rightarrow> sql_type \<Rightarrow> column" where
  "not_null n t = (nullable n t)\<lparr>coNotNull := True\<rparr>"

definition text_default :: "string \<Rightarrow> string \<Rightarrow> column" where
  "text_default n s = (not_null n TypeText)\<lparr>coDefault := DefaultTo (SText s)\<rparr>"

definition int_default :: "string \<Rightarrow> int \<Rightarrow> column" where
  "int_default n i = (not_null n TypeInteger)\<lparr>coDefault := DefaultTo (SInt i)\<rparr>"

definition created_at :: column where
  "created_at = (not_null ''created_at'' TypeDatetime)\<lparr>coDefault := CurrentTimestamp\<rparr>"

definition refers :: "string \<Rightarrow> string \<Rightarrow> bool \<Rightarrow> column" where
  "refers n t cascade = (not_null n TypeInteger)\<lparr>coRefs := Some (t, cascade)\<rparr>"

definition sql_0001 :: "stmt list" where
  "sql_0001 =
    [PragmaForeignKeys,
     CreateTable ''users''
      [auto_id, (not_null ''user_id'' TypeText)\<lparr>coKey := UniqueNocase\<rparr>, not_null ''password_hash'' TypeText,
       text_default ''nickname'' [], text_default ''realname'' [], text_default ''email'' [],
       int_default ''num_logins'' 0, int_default ''num_posts'' 0, nullable ''last_login_at'' TypeDatetime,
       nullable ''last_host'' TypeText, created_at],
     CreateTable ''boards''
      [auto_id, (not_null ''name'' TypeText)\<lparr>coKey := UniqueNocase\<rparr>, not_null ''title'' TypeText,
       text_default ''description'' [], text_default ''bm'' [], int_default ''attr'' 0, created_at],
     CreateTable ''articles''
      [auto_id, refers ''board_id'' ''boards'' True, refers ''author_id'' ''users'' False, not_null ''author_userid'' TypeText,
       not_null ''title'' TypeText, not_null ''body'' TypeText, int_default ''recommend_score'' 0, int_default ''filemode'' 0,
       created_at],
     CreateIndex ''idx_articles_board_created'' ''articles'' [''board_id'', ''created_at''],
     CreateTable ''pushes''
      [auto_id, refers ''article_id'' ''articles'' True, refers ''user_id'' ''users'' False, not_null ''user_userid'' TypeText,
       (not_null ''kind'' TypeText)\<lparr>coCheck := Some [''push'', ''boo'', ''arrow'']\<rparr>, text_default ''body'' [], created_at],
     CreateIndex ''idx_pushes_article'' ''pushes'' [''article_id'', ''id''],
     CreateTable ''water_balloons''
      [auto_id, refers ''from_user_id'' ''users'' False, not_null ''from_userid'' TypeText, refers ''to_user_id'' ''users'' False,
       not_null ''body'' TypeText, int_default ''delivered_live'' 0, nullable ''read_at'' TypeDatetime, created_at],
     CreateIndex ''idx_wb_to_unread'' ''water_balloons'' [''to_user_id'', ''read_at'']]"

definition sql_0002 :: "stmt list" where
  "sql_0002 =
    [InsertOrIgnore ''boards'' [''name'', ''title'', ''description'']
       (map (\<lambda>(name, title, desc). [SText name, SText title, SText desc]) default_boards)]"

definition sql_0003 :: "stmt list" where
  "sql_0003 =
    [CreateTable ''mail''
      [auto_id, nullable ''thread_id'' TypeInteger, (nullable ''parent_id'' TypeInteger)\<lparr>coRefs := Some (''mail'', False)\<rparr>,
       refers ''from_user_id'' ''users'' False, not_null ''from_userid'' TypeText, refers ''to_user_id'' ''users'' False,
       not_null ''subject'' TypeText, not_null ''body'' TypeText, nullable ''read_at'' TypeDatetime, created_at],
     CreateIndex ''idx_mail_to_unread'' ''mail'' [''to_user_id'', ''read_at''],
     CreateIndex ''idx_mail_thread'' ''mail'' [''thread_id'', ''id'']]"

definition sql_0004 :: "stmt list" where
  "sql_0004 =
    [AddColumn ''users'' ((text_default ''role'' ''user'')\<lparr>coCheck := Some [''guest'', ''user'', ''mod'', ''admin'']\<rparr>),
     AddColumn ''users'' (int_default ''must_change_password'' 0),
     CreateIndex ''idx_users_role'' ''users'' [''role'']]"

definition sql_0005 :: "stmt list" where "sql_0005 = [AddColumn ''articles'' (nullable ''updated_at'' TypeDatetime)]"

definition sql_0006 :: "stmt list" where "sql_0006 = [AddColumn ''boards'' (nullable ''banner'' TypeText)]"

definition sql_0007 :: "stmt list" where
  "sql_0007 =
    [AddColumn ''articles'' (nullable ''pinned_at'' TypeDatetime),
     CreateIndex ''idx_articles_board_pinned'' ''articles'' [''board_id'', ''pinned_at'']]"

definition sql_0008 :: "stmt list" where
  "sql_0008 =
    [AddColumn ''articles'' ((text_default ''comments_mode'' ''open'')\<lparr>coCheck := Some [''open'', ''arrows_only'', ''locked'']\<rparr>)]"

definition sql_0009 :: "stmt list" where
  "sql_0009 =
    [AddColumn ''users'' (text_default ''bio'' []),
     CreateTable ''user_notif_prefs''
      [auto_id\<lparr>coName := ''user_id'', coRefs := Some (''users'', True)\<rparr>, int_default ''on_push'' 1, int_default ''on_wb'' 1,
       int_default ''on_mail'' 1, int_default ''on_reply'' 1, int_default ''only_when_offline'' 0],
     CreateTable ''user_notif_targets''
      [auto_id, refers ''user_id'' ''users'' True, text_default ''label'' [], not_null ''url'' TypeText, int_default ''enabled'' 1,
       created_at],
     CreateIndex ''idx_notif_targets_user'' ''user_notif_targets'' [''user_id'', ''enabled'']]"

definition sql_0010 :: "stmt list" where "sql_0010 = [AddColumn ''users'' (text_default ''locale'' ''zh-TW'')]"

definition migrationsFS :: "stmt list mig_entry list" where
  "migrationsFS =
    map (\<lambda>(n, body). \<lparr>meName = n, meIsDir = False, meBody = body\<rparr>)
     [(''0001_init.sql'', sql_0001), (''0002_seed_boards.sql'', sql_0002), (''0003_add_mail.sql'', sql_0003),
      (''0004_add_user_roles.sql'', sql_0004), (''0005_articles_updated_at.sql'', sql_0005),
      (''0006_boards_banner.sql'', sql_0006), (''0007_articles_pinned_at.sql'', sql_0007),
      (''0008_articles_comments_mode.sql'', sql_0008), (''0009_user_settings_and_notify.sql'', sql_0009),
      (''0010_add_user_locale.sql'', sql_0010)]"

lemmas column_defs = auto_id_def nullable_def not_null_def text_default_def int_default_def created_at_def refers_def

section \<open>Opening a database\<close>

text \<open>\<open>Open\<close>, from the point where the connection is made: it fails iff a migration does.\<close>

definition store_open :: "timestamp \<Rightarrow> sql_db mig_db \<Rightarrow> (migrate_error + unit) \<times> sql_db mig_db" where
  "store_open now m = migrate_apply (exec_sql now) migrationsFS m"

text \<open>A new file, and the schema the first \<open>k\<close> files leave.\<close>

definition new_file :: "sql_db mig_db" where
  "new_file = \<lparr>migApplied = [], migData = \<lparr>sdTables = [], sdIndexes = []\<rparr>\<rparr>"

definition schema_after :: "nat \<Rightarrow> schema option" where
  "schema_after k = ddl (concat (map meBody (take k migrationsFS))) ([], [])"

text \<open>A file as the program of \<open>k\<close> migrations may have left it, with whatever rows the constraints allow.\<close>

definition left_by :: "nat \<Rightarrow> sql_db mig_db \<Rightarrow> bool" where
  "left_by k m \<longleftrightarrow> k \<le> 10 \<and> set (migApplied m) = {1..int k} \<and> schema_after k = Some (schema_of (migData m)) \<and> sql_fits (migData m)"

definition file_versions :: "(int \<times> stmt list mig_entry) list" where
  "file_versions = zip [1, 2, 3, 4, 5, 6, 7, 8, 9, 10] migrationsFS"

lemma versions_parse:
  "parse_version ''0001_init.sql'' = Inr 1" "parse_version ''0002_seed_boards.sql'' = Inr 2" "parse_version ''0003_add_mail.sql'' = Inr 3"
  "parse_version ''0004_add_user_roles.sql'' = Inr 4" "parse_version ''0005_articles_updated_at.sql'' = Inr 5"
  "parse_version ''0006_boards_banner.sql'' = Inr 6" "parse_version ''0007_articles_pinned_at.sql'' = Inr 7"
  "parse_version ''0008_articles_comments_mode.sql'' = Inr 8" "parse_version ''0009_user_settings_and_notify.sql'' = Inr 9"
  "parse_version ''0010_add_user_locale.sql'' = Inr 10"
  by code_simp+

lemma files_have_suffix:
  "list_all (\<lambda>n. has_suffix n ''.sql'') [''0001_init.sql'', ''0002_seed_boards.sql'', ''0003_add_mail.sql'', ''0004_add_user_roles.sql'',
     ''0005_articles_updated_at.sql'', ''0006_boards_banner.sql'', ''0007_articles_pinned_at.sql'', ''0008_articles_comments_mode.sql'',
     ''0009_user_settings_and_notify.sql'', ''0010_add_user_locale.sql'']"
  by code_simp

lemma embedded_files: "migration_files migrationsFS file_versions"
  unfolding migration_files_def using files_have_suffix
  by (simp add: migrationsFS_def file_versions_def versions_parse)

lemma migrationsFS_length: "length migrationsFS = 10" "map fst file_versions = [1..10]"
  by (simp_all add: migrationsFS_def file_versions_def upto_rec1)

lemma pending_files:
  assumes "k \<le> 10" and "set applied = {1..int k}"
  shows "pending_order applied file_versions = drop k file_versions"
proof (rule strict_fst_unique)
  show "sorted_wrt (<) (map fst (pending_order applied file_versions))"
    by (rule pending_order_strict) (simp add: migrationsFS_length)
  show "sorted_wrt (<) (map fst (drop k file_versions))"
    by (simp only: drop_map [symmetric] migrationsFS_length sorted_wrt_drop sorted_wrt_upto)
  have at: "fst (file_versions ! i) = int i + 1" if "i < 10" for i
  proof -
    have "i < length file_versions" using that migrationsFS_length by (simp add: file_versions_def)
    then have "fst (file_versions ! i) = [1..10] ! i" using migrationsFS_length(2) by (metis nth_map)
    with that show ?thesis by (simp add: nth_upto)
  qed
  have len: "length file_versions = 10" by (simp add: file_versions_def migrationsFS_length)
  have "x \<in> set (drop k file_versions) \<longleftrightarrow> x \<in> set file_versions \<and> fst x \<notin> set applied" for x
  proof -
    have "drop k file_versions = map ((!) file_versions) [k..<10]" using len by (metis add_0 drop_map drop_upt map_nth)
    then have "x \<in> set (drop k file_versions) \<longleftrightarrow> (\<exists>i. k \<le> i \<and> i < 10 \<and> x = file_versions ! i)" by auto
    moreover have "x \<in> set file_versions \<longleftrightarrow> (\<exists>i < 10. x = file_versions ! i)" using len by (auto simp: in_set_conv_nth)
    moreover have "fst (file_versions ! i) \<notin> set applied \<longleftrightarrow> k \<le> i" if "i < 10" for i using at [OF that] assms by auto
    ultimately show ?thesis by blast
  qed
  then show "set (pending_order applied file_versions) = set (drop k file_versions)"
    by (auto simp: pending_order_def)
qed

interpretation sqlite: sql_engine "exec_sql now" ddl schema_of sql_fits sql_grows for now
  by unfold_locales (use ddl_exec in \<open>auto intro: sql_grows_trans\<close>)

lemma plan_files: "sqlite.plan_all bodies sc = ddl (concat bodies) sc"
  by (induction bodies arbitrary: sc) (simp_all add: ddl_append split: option.split)

section \<open>The schema the code runs on\<close>

definition users_columns :: "column list" where
  "users_columns =
    [auto_id, (not_null ''user_id'' TypeText)\<lparr>coKey := UniqueNocase\<rparr>, not_null ''password_hash'' TypeText,
     text_default ''nickname'' [], text_default ''realname'' [], text_default ''email'' [],
     int_default ''num_logins'' 0, int_default ''num_posts'' 0, nullable ''last_login_at'' TypeDatetime,
     nullable ''last_host'' TypeText, created_at,
     (text_default ''role'' ''user'')\<lparr>coCheck := Some [''guest'', ''user'', ''mod'', ''admin'']\<rparr>,
     int_default ''must_change_password'' 0, text_default ''bio'' [], text_default ''locale'' ''zh-TW'']"

definition boards_columns :: "column list" where
  "boards_columns =
    [auto_id, (not_null ''name'' TypeText)\<lparr>coKey := UniqueNocase\<rparr>, not_null ''title'' TypeText,
     text_default ''description'' [], text_default ''bm'' [], int_default ''attr'' 0, created_at, nullable ''banner'' TypeText]"

definition articles_columns :: "column list" where
  "articles_columns =
    [auto_id, refers ''board_id'' ''boards'' True, refers ''author_id'' ''users'' False, not_null ''author_userid'' TypeText,
     not_null ''title'' TypeText, not_null ''body'' TypeText, int_default ''recommend_score'' 0, int_default ''filemode'' 0,
     created_at, nullable ''updated_at'' TypeDatetime, nullable ''pinned_at'' TypeDatetime,
     (text_default ''comments_mode'' ''open'')\<lparr>coCheck := Some [''open'', ''arrows_only'', ''locked'']\<rparr>]"

definition pushes_columns :: "column list" where
  "pushes_columns =
    [auto_id, refers ''article_id'' ''articles'' True, refers ''user_id'' ''users'' False, not_null ''user_userid'' TypeText,
     (not_null ''kind'' TypeText)\<lparr>coCheck := Some [''push'', ''boo'', ''arrow'']\<rparr>, text_default ''body'' [], created_at]"

definition wbs_columns :: "column list" where
  "wbs_columns =
    [auto_id, refers ''from_user_id'' ''users'' False, not_null ''from_userid'' TypeText, refers ''to_user_id'' ''users'' False,
     not_null ''body'' TypeText, int_default ''delivered_live'' 0, nullable ''read_at'' TypeDatetime, created_at]"

definition mail_columns :: "column list" where
  "mail_columns =
    [auto_id, nullable ''thread_id'' TypeInteger, (nullable ''parent_id'' TypeInteger)\<lparr>coRefs := Some (''mail'', False)\<rparr>,
     refers ''from_user_id'' ''users'' False, not_null ''from_userid'' TypeText, refers ''to_user_id'' ''users'' False,
     not_null ''subject'' TypeText, not_null ''body'' TypeText, nullable ''read_at'' TypeDatetime, created_at]"

definition prefs_columns :: "column list" where
  "prefs_columns =
    [auto_id\<lparr>coName := ''user_id'', coRefs := Some (''users'', True)\<rparr>, int_default ''on_push'' 1, int_default ''on_wb'' 1,
     int_default ''on_mail'' 1, int_default ''on_reply'' 1, int_default ''only_when_offline'' 0]"

definition targets_columns :: "column list" where
  "targets_columns =
    [auto_id, refers ''user_id'' ''users'' True, text_default ''label'' [], not_null ''url'' TypeText, int_default ''enabled'' 1,
     created_at]"

lemmas table_columns = users_columns_def boards_columns_def articles_columns_def pushes_columns_def wbs_columns_def
  mail_columns_def prefs_columns_def targets_columns_def

definition current_schema :: schema where
  "current_schema =
    ([(''users'', users_columns), (''boards'', boards_columns), (''articles'', articles_columns), (''pushes'', pushes_columns),
      (''water_balloons'', wbs_columns), (''mail'', mail_columns), (''user_notif_prefs'', prefs_columns),
      (''user_notif_targets'', targets_columns)],
     [(''idx_articles_board_created'', ''articles'', [''board_id'', ''created_at'']), (''idx_pushes_article'', ''pushes'', [''article_id'', ''id'']),
      (''idx_wb_to_unread'', ''water_balloons'', [''to_user_id'', ''read_at'']), (''idx_mail_to_unread'', ''mail'', [''to_user_id'', ''read_at'']),
      (''idx_mail_thread'', ''mail'', [''thread_id'', ''id'']), (''idx_users_role'', ''users'', [''role'']),
      (''idx_articles_board_pinned'', ''articles'', [''board_id'', ''pinned_at'']),
      (''idx_notif_targets_user'', ''user_notif_targets'', [''user_id'', ''enabled''])])"

lemma schema_after_all: "schema_after 10 = Some current_schema"
  by code_simp

lemma store_open_left:
  assumes "left_by k m"
  obtains m' where "store_open now m = (Inr (), m')" "left_by 10 m'" "sql_grows (migData m) (migData m')"
proof -
  let ?ps = "drop k file_versions"
  have k: "k \<le> 10" "set (migApplied m) = {1..int k}" using assms by (simp_all add: left_by_def)
  have bodies: "map (\<lambda>p. meBody (snd p)) file_versions = map meBody migrationsFS"
    by (simp add: file_versions_def migrationsFS_def)
  have "map meBody migrationsFS = map meBody (take k migrationsFS) @ map (\<lambda>p. meBody (snd p)) ?ps"
    by (metis append_take_drop_id bodies drop_map map_append take_map)
  then have "schema_after 10 = ddl (concat (map meBody (take k migrationsFS)) @ concat (map (\<lambda>p. meBody (snd p)) ?ps)) ([], [])"
    by (simp add: schema_after_def migrationsFS_length del: map_map)
  then have "ddl (concat (map (\<lambda>p. meBody (snd p)) ?ps)) (schema_of (migData m)) = Some current_schema"
    using assms by (simp add: schema_after_all ddl_append left_by_def schema_after_def [symmetric])
  moreover have fst_ps: "map fst ?ps = [int k + 1..10]"
  proof -
    have "k = 0 \<or> k = 1 \<or> k = 2 \<or> k = 3 \<or> k = 4 \<or> k = 5 \<or> k = 6 \<or> k = 7 \<or> k = 8 \<or> k = 9 \<or> k = 10" using k(1) by arith
    then show ?thesis unfolding drop_map [symmetric] migrationsFS_length by (elim disjE) (simp_all add: upto_rec1)
  qed
  ultimately have "\<exists>m'. run_pending (exec_sql now) ?ps m = (Inr (), m') \<and> schema_of (migData m') = current_schema
      \<and> sql_fits (migData m') \<and> sql_grows (migData m) (migData m') \<and> set (migApplied m') = set (map fst ?ps) \<union> set (migApplied m)"
    using assms k by (intro sqlite.run_planned) (auto simp: left_by_def plan_files)
  then obtain m' where m': "run_pending (exec_sql now) ?ps m = (Inr (), m')" "schema_of (migData m') = current_schema"
    "sql_fits (migData m')" "sql_grows (migData m) (migData m')" "set (migApplied m') = set (map fst ?ps) \<union> set (migApplied m)" by blast
  moreover have "store_open now m = run_pending (exec_sql now) ?ps m"
    by (simp add: store_open_def migrate_apply_files [OF embedded_files] pending_files [OF k])
  moreover have "set (migApplied m') = {1..10}" using m'(5) k by (auto simp: fst_ps)
  ultimately show thesis using that by (simp add: left_by_def schema_after_all)
qed

lemma store_open_again: "left_by 10 m \<Longrightarrow> store_open now m = (Inr (), m)"
  using pending_files [of 10 "migApplied m"]
  by (simp add: store_open_def migrate_apply_files [OF embedded_files] left_by_def file_versions_def migrationsFS_length)

lemma new_file_left: "left_by 0 new_file"
  by (simp add: left_by_def new_file_def schema_after_def schema_of_def sql_fits_def)

section \<open>Killed while migrating\<close>

text \<open>
  Every file runs in a transaction of its own, so a process killed while it opens the database leaves the first \<open>n\<close> pending
  files applied and nothing of the next.
\<close>

definition store_open_cut :: "nat \<Rightarrow> timestamp \<Rightarrow> sql_db mig_db \<Rightarrow> sql_db mig_db" where
  "store_open_cut n now m =
    (case collect_pending (migApplied m) migrationsFS of
       Inl e \<Rightarrow> m
     | Inr ps \<Rightarrow> snd (run_pending (exec_sql now) (take n (sort_by (by_asc fst any_order) ps)) m))"

text \<open>A new file after its first \<open>k\<close> migrations.\<close>

definition begun :: "nat \<Rightarrow> timestamp \<Rightarrow> sql_db mig_db" where
  "begun k now = snd (run_pending (exec_sql now) (take k file_versions) new_file)"

fun reads_clock :: "stmt \<Rightarrow> bool" where
  "reads_clock (InsertOrIgnore n names rows) = True"
| "reads_clock s = False"

lemma clockless_stmt: "\<not> reads_clock s \<Longrightarrow> exec_stmt now s d = exec_stmt now' s d"
  by (cases s) simp_all

lemma clockless_sql: "\<forall>s \<in> set ss. \<not> reads_clock s \<Longrightarrow> exec_sql now ss d = exec_sql now' ss d"
  using clockless_stmt [of _ now _ now'] by (induction ss arbitrary: d) (auto split: option.split)

lemma run_pending_append:
  "run_pending exec (ps @ qs) m =
    (case run_pending exec ps m of (Inl e, m') \<Rightarrow> (Inl e, m') | (Inr _, m') \<Rightarrow> run_pending exec qs m')"
  by (induction ps arbitrary: m) (auto split: prod.split sum.split)

lemma run_pending_cong:
  "(\<And>p d. p \<in> set ps \<Longrightarrow> exec (meBody (snd p)) d = exec' (meBody (snd p)) d) \<Longrightarrow> run_pending exec ps m = run_pending exec' ps m"
  by (induction ps arbitrary: m) (auto simp: run_one_def split: prod.split sum.split option.split)

text \<open>Only the second file, the seed of the boards, reads the clock.\<close>

lemma clockless_files: "p \<in> set (drop 2 file_versions) \<union> set (take 1 file_versions) \<Longrightarrow> s \<in> set (meBody (snd p)) \<Longrightarrow> \<not> reads_clock s"
proof -
  have "list_all (\<lambda>p. list_all (\<lambda>s. \<not> reads_clock s) (meBody (snd p))) (drop 2 file_versions @ take 1 file_versions)" by code_simp
  then show "p \<in> set (drop 2 file_versions) \<union> set (take 1 file_versions) \<Longrightarrow> s \<in> set (meBody (snd p)) \<Longrightarrow> \<not> reads_clock s"
    unfolding list_all_iff set_append by blast
qed

lemma clockless_run:
  "set ps \<subseteq> set (drop 2 file_versions) \<union> set (take 1 file_versions) \<Longrightarrow> run_pending (exec_sql now) ps m = run_pending (exec_sql now') ps m"
  using clockless_files by (intro run_pending_cong clockless_sql) blast

lemma begun_run: "run_pending (exec_sql now) (take k file_versions) new_file = (Inr (), begun k now)"
proof -
  obtain m where "store_open now new_file = (Inr (), m)" using store_open_left [OF new_file_left] .
  then have "run_pending (exec_sql now) (take k file_versions @ drop k file_versions) new_file = (Inr (), m)"
    using pending_files [of 0 "[]"] by (simp add: store_open_def migrate_apply_files [OF embedded_files] new_file_def)
  then show ?thesis
    by (simp only: run_pending_append begun_def) (auto split: prod.splits sum.splits)
qed

lemma begun_applied: "set (migApplied (begun k now)) = {1..int (min 10 k)}"
proof -
  obtain qs where "take k file_versions = qs" "migApplied (begun k now) = rev (map fst qs) @ migApplied new_file"
    using run_pending_prefix [OF begun_run [of now k]] by auto
  then have "set (migApplied (begun k now)) = set (take k [1..10])"
    by (simp add: new_file_def) (metis list.set_map migrationsFS_length(2) take_map)
  moreover have "set (take k [1..10]) = {1..int (min 10 k)}"
  proof -
    have "take k [1..10] = map (\<lambda>i. int i + 1) [0..<min 10 k]"
      by (rule nth_equalityI) (simp_all add: nth_upto)
    moreover have "x \<in> (\<lambda>i. int i + 1) ` {0..<min 10 k}" if "1 \<le> x" "x \<le> int (min 10 k)" for x
      using that by (intro image_eqI [of _ _ "nat (x - 1)"]) auto
    ultimately show ?thesis by auto
  qed
  ultimately show ?thesis by simp
qed

lemma begun_goes_on:
  assumes "k \<le> 10"
  shows "run_pending (exec_sql now') (take n (drop k file_versions)) (begun k now) =
    (Inr (), begun (k + n) (if k < 2 then now' else now))"
proof -
  have on: "run_pending (exec_sql t) (take n (drop k file_versions)) (begun k t) = (Inr (), begun (k + n) t)" for t
    using begun_run [of t "k + n"] begun_run [of t k] by (simp add: take_add run_pending_append)
  show ?thesis
  proof (cases "k < 2")
    case True
    then have "set (take k file_versions) \<subseteq> set (take 1 file_versions)" by (intro set_take_subset_set_take) simp
    then have "set (take k file_versions) \<subseteq> set (drop 2 file_versions) \<union> set (take 1 file_versions)" by blast
    from clockless_run [OF this, of now new_file now'] have "begun k now = begun k now'" by (simp only: begun_def)
    with on True show ?thesis by simp
  next
    case False
    then have "set (take n (drop k file_versions)) \<subseteq> set (drop 2 file_versions)"
      by (meson le_less_linear order_trans set_drop_subset_set_drop set_take_subset)
    then have "run_pending (exec_sql now') (take n (drop k file_versions)) (begun k now)
        = run_pending (exec_sql now) (take n (drop k file_versions)) (begun k now)"
      by (intro clockless_run) blast
    with on False show ?thesis by simp
  qed
qed

lemma begun_opens:
  assumes "k \<le> 10"
  shows "store_open now' (begun k now) = store_open (if k < 2 then now' else now) new_file"
    and "store_open_cut n now' (begun k now) = begun (k + n) (if k < 2 then now' else now)"
proof -
  note todo = pending_files [OF assms, of "migApplied (begun k now)"]
  have len: "length file_versions = 10" by (simp add: file_versions_def migrationsFS_length)
  then have all: "take 10 (drop k file_versions) = drop k file_versions" by simp
  have "store_open now' (begun k now) = (Inr (), begun (k + 10) (if k < 2 then now' else now))"
    using begun_goes_on [OF assms, of now' 10 now] todo begun_applied [of k now] assms
    by (simp add: store_open_def migrate_apply_files [OF embedded_files] all)
  moreover have "store_open t new_file = (Inr (), begun 10 t)" for t
    using begun_run [of t 10] pending_files [of 0 "[]"] len
    by (simp add: store_open_def migrate_apply_files [OF embedded_files] new_file_def)
  moreover have "begun (k + 10) t = begun 10 t" for t using len by (simp add: begun_def)
  ultimately show "store_open now' (begun k now) = store_open (if k < 2 then now' else now) new_file" by simp
  have "collect_pending (migApplied (begun k now)) migrationsFS = Inr (filter (\<lambda>p. fst p \<notin> set (migApplied (begun k now))) file_versions)"
    using embedded_files by (simp add: migration_files_def collect_pending_applied)
  then show "store_open_cut n now' (begun k now) = begun (k + n) (if k < 2 then now' else now)"
    using begun_goes_on [OF assms, of now' n now] todo begun_applied [of k now] assms
    by (simp add: store_open_cut_def pending_order_def)
qed

lemma begun_new: "begun 0 now = new_file"
  by (simp add: begun_def)

lemma begun_all: "10 \<le> k \<Longrightarrow> store_open now new_file = (Inr (), begun k now)"
  using begun_opens(2) [of 0 k now now] begun_opens(1) [of 0 now now] begun_run [of now k] pending_files [of 0 "[]"]
  by (simp add: store_open_def migrate_apply_files [OF embedded_files] new_file_def file_versions_def migrationsFS_length)

text \<open>A file with all migrations has none left to be cut.\<close>

lemma store_open_cut_done: "left_by 10 m \<Longrightarrow> store_open_cut n now m = m"
  using pending_files [of 10 "migApplied m"] embedded_files
  by (simp add: store_open_cut_def left_by_def migration_files_def collect_pending_applied pending_order_def file_versions_def
      migrationsFS_length)

end
