(* ===== verification/Rows.thy ===== *)
theory Rows
  imports Migrations StoreInv "HOL-Library.Monad_Syntax"
begin

text \<open>
  Rows and records: the column lists of the repositories with what \<open>Scan\<close> makes of a row, and the database of the model
  as the tables of the migrated schema.
\<close>

section \<open>Reading a row\<close>

text \<open>The destinations of \<open>Scan\<close>: \<open>int64\<close>, \<open>string\<close> and \<open>time.Time\<close> refuse a NULL, \<open>sql.NullTime\<close>, \<open>sql.NullString\<close>
  and \<open>sql.NullInt64\<close> take it.\<close>

fun scan_int :: "sql_value \<Rightarrow> int option" where
  "scan_int (SInt i) = Some i"
| "scan_int _ = None"

fun scan_text :: "sql_value \<Rightarrow> string option" where
  "scan_text (SText s) = Some s"
| "scan_text _ = None"

fun scan_time :: "sql_value \<Rightarrow> timestamp option" where
  "scan_time (STime t) = Some t"
| "scan_time _ = None"

definition scan_null :: "(sql_value \<Rightarrow> 'a option) \<Rightarrow> sql_value \<Rightarrow> 'a option option" where
  "scan_null scan v = (if v = SNull then Some None else map_option Some (scan v))"

definition select_row :: "string list \<Rightarrow> column list \<Rightarrow> sql_value list \<Rightarrow> sql_value list option" where
  "select_row names cols row = those (map (map_of (zip (map coName cols) row)) names)"

definition userColumns :: "string list" where
  "userColumns = [''id'', ''user_id'', ''password_hash'', ''nickname'', ''realname'', ''email'', ''num_logins'', ''num_posts'',
     ''last_login_at'', ''last_host'', ''created_at'', ''role'', ''must_change_password'', ''bio'', ''locale'']"

definition scan_user :: "sql_value list \<Rightarrow> user option" where
  "scan_user row =
    (case row of
       [c1, c2, c3, c4, c5, c6, c7, c8, c9, c10, c11, c12, c13, c14, c15] \<Rightarrow>
         do { i \<leftarrow> scan_int c1; name \<leftarrow> scan_text c2; hash \<leftarrow> scan_text c3; nick \<leftarrow> scan_text c4; real \<leftarrow> scan_text c5;
              email \<leftarrow> scan_text c6; logins \<leftarrow> scan_int c7; posts \<leftarrow> scan_int c8; login_at \<leftarrow> scan_null scan_time c9;
              host \<leftarrow> scan_null scan_text c10; created \<leftarrow> scan_time c11; r \<leftarrow> scan_text c12; must_change \<leftarrow> scan_int c13;
              bio \<leftarrow> scan_text c14; loc \<leftarrow> scan_text c15;
              Some \<lparr>uID = i, uUserID = name, uPasswordHash = hash, uNickname = nick, uRealName = real, uEmail = email,
                uNumLogins = logins, uNumPosts = posts, uLastLoginAt = login_at, uLastHost = host, uCreatedAt = created,
                uRole = r, uMustChangePassword = (must_change \<noteq> 0), uBio = bio, uLocale = loc\<rparr> }
     | _ \<Rightarrow> None)"

definition boardColumns :: "string list" where
  "boardColumns = [''id'', ''name'', ''title'', ''description'', ''bm'', ''attr'', ''created_at'', ''banner'']"

definition scan_board :: "sql_value list \<Rightarrow> board option" where
  "scan_board row =
    (case row of
       [c1, c2, c3, c4, c5, c6, c7, c8] \<Rightarrow>
         do { i \<leftarrow> scan_int c1; name \<leftarrow> scan_text c2; title \<leftarrow> scan_text c3; desc \<leftarrow> scan_text c4; bm \<leftarrow> scan_text c5;
              attr \<leftarrow> scan_int c6; created \<leftarrow> scan_time c7; banner \<leftarrow> scan_null scan_text c8;
              Some \<lparr>bID = i, bName = name, bTitle = title, bDescription = desc, bBM = bm, bAttr = attr, bCreatedAt = created,
                bBannerCol = banner\<rparr> }
     | _ \<Rightarrow> None)"

definition articleColumns :: "string list" where
  "articleColumns = [''id'', ''board_id'', ''author_id'', ''author_userid'', ''title'', ''body'', ''recommend_score'', ''filemode'',
     ''created_at'', ''updated_at'', ''pinned_at'', ''comments_mode'']"

definition scan_article :: "sql_value list \<Rightarrow> article option" where
  "scan_article row =
    (case row of
       [c1, c2, c3, c4, c5, c6, c7, c8, c9, c10, c11, c12] \<Rightarrow>
         do { i \<leftarrow> scan_int c1; b \<leftarrow> scan_int c2; author \<leftarrow> scan_int c3; name \<leftarrow> scan_text c4; title \<leftarrow> scan_text c5;
              body \<leftarrow> scan_text c6; score \<leftarrow> scan_int c7; filemode \<leftarrow> scan_int c8; created \<leftarrow> scan_time c9;
              updated \<leftarrow> scan_null scan_time c10; pinned \<leftarrow> scan_null scan_time c11; m \<leftarrow> scan_text c12;
              Some \<lparr>aID = i, aBoardID = b, aAuthorID = author, aAuthorUserID = name, aTitle = title, aBody = body,
                aRecommendScore = score, aFilemode = filemode, aCreatedAt = created, aUpdatedAt = updated, aPinnedAt = pinned,
                aCommentsMode = m\<rparr> }
     | _ \<Rightarrow> None)"

definition pushColumns :: "string list" where
  "pushColumns = [''id'', ''article_id'', ''user_id'', ''user_userid'', ''kind'', ''body'', ''created_at'']"

definition scan_push :: "sql_value list \<Rightarrow> push option" where
  "scan_push row =
    (case row of
       [c1, c2, c3, c4, c5, c6, c7] \<Rightarrow>
         do { i \<leftarrow> scan_int c1; a \<leftarrow> scan_int c2; u \<leftarrow> scan_int c3; name \<leftarrow> scan_text c4; k \<leftarrow> scan_text c5;
              body \<leftarrow> scan_text c6; created \<leftarrow> scan_time c7;
              Some \<lparr>pID = i, pArticleID = a, pUserID = u, pUserUserID = name, pKind = k, pBody = body, pCreatedAt = created\<rparr> }
     | _ \<Rightarrow> None)"

definition wbColumns :: "string list" where
  "wbColumns = [''id'', ''from_user_id'', ''from_userid'', ''to_user_id'', ''body'', ''delivered_live'', ''read_at'', ''created_at'']"

definition scan_wb :: "sql_value list \<Rightarrow> water_balloon option" where
  "scan_wb row =
    (case row of
       [c1, c2, c3, c4, c5, c6, c7, c8] \<Rightarrow>
         do { i \<leftarrow> scan_int c1; from_id \<leftarrow> scan_int c2; name \<leftarrow> scan_text c3; to_id \<leftarrow> scan_int c4; body \<leftarrow> scan_text c5;
              live \<leftarrow> scan_int c6; read_at \<leftarrow> scan_null scan_time c7; created \<leftarrow> scan_time c8;
              Some \<lparr>wID = i, wFromUserID = from_id, wFromUserIDStr = name, wToUserID = to_id, wBody = body,
                wDeliveredLive = (live \<noteq> 0), wReadAt = read_at, wCreatedAt = created\<rparr> }
     | _ \<Rightarrow> None)"

text \<open>The \<open>ThreadID\<close> of a mail is an \<open>int64\<close>, although the column can be NULL.\<close>

definition mailColumns :: "string list" where
  "mailColumns = [''id'', ''thread_id'', ''parent_id'', ''from_user_id'', ''from_userid'', ''to_user_id'', ''subject'', ''body'',
     ''read_at'', ''created_at'']"

definition mail_of_row :: "sql_value list \<Rightarrow> mail option" where
  "mail_of_row row =
    (case row of
       [c1, c2, c3, c4, c5, c6, c7, c8, c9, c10] \<Rightarrow>
         do { i \<leftarrow> scan_int c1; thread \<leftarrow> scan_int c2; parent \<leftarrow> scan_null scan_int c3; from_id \<leftarrow> scan_int c4; name \<leftarrow> scan_text c5;
              to_id \<leftarrow> scan_int c6; subject \<leftarrow> scan_text c7; body \<leftarrow> scan_text c8; read_at \<leftarrow> scan_null scan_time c9;
              created \<leftarrow> scan_time c10;
              Some \<lparr>mID = i, mThreadCol = Some thread, mParentID = parent, mFromUserID = from_id, mFromUserIDStr = name,
                mToUserID = to_id, mSubject = subject, mBody = body, mReadAt = read_at, mCreatedAt = created\<rparr> }
     | _ \<Rightarrow> None)"

text \<open>A row of \<open>mail\<close> as it is, with the NULL that \<open>scanMail\<close> refuses.\<close>

definition stored_mail :: "sql_value list \<Rightarrow> mail option" where
  "stored_mail row =
    (case row of
       c1 # c2 # cs \<Rightarrow> do { m \<leftarrow> mail_of_row (c1 # (if c2 = SNull then SInt 0 else c2) # cs);
                        Some (m\<lparr>mThreadCol := (if c2 = SNull then None else mThreadCol m)\<rparr>) }
     | _ \<Rightarrow> None)"

definition prefsSelect :: "string list" where
  "prefsSelect = [''on_push'', ''on_wb'', ''on_mail'', ''on_reply'', ''only_when_offline'']"

definition scan_prefs :: "sql_value list \<Rightarrow> notify_prefs option" where
  "scan_prefs row =
    (case row of
       [c1, c2, c3, c4, c5] \<Rightarrow>
         do { p \<leftarrow> scan_int c1; w \<leftarrow> scan_int c2; m \<leftarrow> scan_int c3; r \<leftarrow> scan_int c4; off \<leftarrow> scan_int c5;
              Some \<lparr>npOnPush = (p \<noteq> 0), npOnWB = (w \<noteq> 0), npOnMail = (m \<noteq> 0), npOnReply = (r \<noteq> 0), npOnlyWhenOffline = (off \<noteq> 0)\<rparr> }
     | _ \<Rightarrow> None)"

definition targetsSelect :: "string list" where
  "targetsSelect = [''id'', ''user_id'', ''label'', ''url'', ''enabled'', ''created_at'']"

definition scan_target :: "sql_value list \<Rightarrow> notify_target option" where
  "scan_target row =
    (case row of
       [c1, c2, c3, c4, c5, c6] \<Rightarrow>
         do { i \<leftarrow> scan_int c1; u \<leftarrow> scan_int c2; label \<leftarrow> scan_text c3; url \<leftarrow> scan_text c4; enabled \<leftarrow> scan_int c5;
              created \<leftarrow> scan_time c6;
              Some \<lparr>ntID = i, ntUserID = u, ntLabel = label, ntURL = url, ntEnabled = (enabled \<noteq> 0), ntCreatedAt = created\<rparr> }
     | _ \<Rightarrow> None)"

lemmas scan_defs = scan_user_def scan_board_def scan_article_def scan_push_def scan_wb_def mail_of_row_def scan_prefs_def
  scan_target_def

lemmas select_defs = userColumns_def boardColumns_def articleColumns_def pushColumns_def wbColumns_def mailColumns_def
  prefsSelect_def targetsSelect_def

section \<open>The records as rows\<close>

definition null_text :: "string option \<Rightarrow> sql_value" where
  "null_text s = (case s of None \<Rightarrow> SNull | Some x \<Rightarrow> SText x)"

definition null_time :: "timestamp option \<Rightarrow> sql_value" where
  "null_time t = (case t of None \<Rightarrow> SNull | Some x \<Rightarrow> STime x)"

definition null_int :: "int option \<Rightarrow> sql_value" where
  "null_int i = (case i of None \<Rightarrow> SNull | Some x \<Rightarrow> SInt x)"

definition b2i :: "bool \<Rightarrow> sql_value" where
  "b2i b = SInt (if b then 1 else 0)"

definition user_row :: "user \<Rightarrow> sql_value list" where
  "user_row u =
    [SInt (uID u), SText (uUserID u), SText (uPasswordHash u), SText (uNickname u), SText (uRealName u), SText (uEmail u),
     SInt (uNumLogins u), SInt (uNumPosts u), null_time (uLastLoginAt u), null_text (uLastHost u), STime (uCreatedAt u),
     SText (uRole u), b2i (uMustChangePassword u), SText (uBio u), SText (uLocale u)]"

definition board_row :: "board \<Rightarrow> sql_value list" where
  "board_row b =
    [SInt (bID b), SText (bName b), SText (bTitle b), SText (bDescription b), SText (bBM b), SInt (bAttr b), STime (bCreatedAt b),
     null_text (bBannerCol b)]"

definition article_row :: "article \<Rightarrow> sql_value list" where
  "article_row a =
    [SInt (aID a), SInt (aBoardID a), SInt (aAuthorID a), SText (aAuthorUserID a), SText (aTitle a), SText (aBody a),
     SInt (aRecommendScore a), SInt (aFilemode a), STime (aCreatedAt a), null_time (aUpdatedAt a), null_time (aPinnedAt a),
     SText (aCommentsMode a)]"

definition push_row_of :: "push \<Rightarrow> sql_value list" where
  "push_row_of p =
    [SInt (pID p), SInt (pArticleID p), SInt (pUserID p), SText (pUserUserID p), SText (pKind p), SText (pBody p), STime (pCreatedAt p)]"

definition wb_row :: "water_balloon \<Rightarrow> sql_value list" where
  "wb_row w =
    [SInt (wID w), SInt (wFromUserID w), SText (wFromUserIDStr w), SInt (wToUserID w), SText (wBody w), b2i (wDeliveredLive w),
     null_time (wReadAt w), STime (wCreatedAt w)]"

definition mail_row :: "mail \<Rightarrow> sql_value list" where
  "mail_row m =
    [SInt (mID m), null_int (mThreadCol m), null_int (mParentID m), SInt (mFromUserID m), SText (mFromUserIDStr m), SInt (mToUserID m),
     SText (mSubject m), SText (mBody m), null_time (mReadAt m), STime (mCreatedAt m)]"

definition prefs_row :: "int \<times> notify_prefs \<Rightarrow> sql_value list" where
  "prefs_row x =
    (case x of (i, p) \<Rightarrow>
       [SInt i, b2i (npOnPush p), b2i (npOnWB p), b2i (npOnMail p), b2i (npOnReply p), b2i (npOnlyWhenOffline p)])"

definition target_cells :: "notify_target \<Rightarrow> sql_value list" where
  "target_cells t = [SInt (ntID t), SInt (ntUserID t), SText (ntLabel t), SText (ntURL t), b2i (ntEnabled t), STime (ntCreatedAt t)]"

lemmas row_defs = user_row_def board_row_def article_row_def push_row_of_def wb_row_def mail_row_def prefs_row_def target_cells_def

definition sql_of :: "db \<Rightarrow> sql_db" where
  "sql_of d =
    \<lparr>sdTables =
       [\<lparr>tbName = ''users'', tbColumns = users_columns, tbRows = map user_row (users d), tbSeq = seq_users d\<rparr>,
        \<lparr>tbName = ''boards'', tbColumns = boards_columns, tbRows = map board_row (boards d), tbSeq = seq_boards d\<rparr>,
        \<lparr>tbName = ''articles'', tbColumns = articles_columns, tbRows = map article_row (articles d), tbSeq = seq_articles d\<rparr>,
        \<lparr>tbName = ''pushes'', tbColumns = pushes_columns, tbRows = map push_row_of (pushes d), tbSeq = seq_pushes d\<rparr>,
        \<lparr>tbName = ''water_balloons'', tbColumns = wbs_columns, tbRows = map wb_row (wbs d), tbSeq = seq_wbs d\<rparr>,
        \<lparr>tbName = ''mail'', tbColumns = mail_columns, tbRows = map mail_row (mails d), tbSeq = seq_mails d\<rparr>,
        \<lparr>tbName = ''user_notif_prefs'', tbColumns = prefs_columns, tbRows = map prefs_row (prefs d), tbSeq = 0\<rparr>,
        \<lparr>tbName = ''user_notif_targets'', tbColumns = targets_columns, tbRows = map target_cells (targets d), tbSeq = seq_targets d\<rparr>],
     sdIndexes = snd current_schema\<rparr>"

lemma sql_tables:
  "sdTables (sql_of d) =
      [\<lparr>tbName = ''users'', tbColumns = users_columns, tbRows = map user_row (users d), tbSeq = seq_users d\<rparr>,
       \<lparr>tbName = ''boards'', tbColumns = boards_columns, tbRows = map board_row (boards d), tbSeq = seq_boards d\<rparr>,
       \<lparr>tbName = ''articles'', tbColumns = articles_columns, tbRows = map article_row (articles d), tbSeq = seq_articles d\<rparr>,
       \<lparr>tbName = ''pushes'', tbColumns = pushes_columns, tbRows = map push_row_of (pushes d), tbSeq = seq_pushes d\<rparr>,
       \<lparr>tbName = ''water_balloons'', tbColumns = wbs_columns, tbRows = map wb_row (wbs d), tbSeq = seq_wbs d\<rparr>,
       \<lparr>tbName = ''mail'', tbColumns = mail_columns, tbRows = map mail_row (mails d), tbSeq = seq_mails d\<rparr>,
       \<lparr>tbName = ''user_notif_prefs'', tbColumns = prefs_columns, tbRows = map prefs_row (prefs d), tbSeq = 0\<rparr>,
       \<lparr>tbName = ''user_notif_targets'', tbColumns = targets_columns, tbRows = map target_cells (targets d), tbSeq = seq_targets d\<rparr>]"
  by (simp add: sql_of_def)

lemma schema_of_sql: "schema_of (sql_of d) = current_schema"
  by (simp add: schema_of_def sql_of_def current_schema_def)

section \<open>What the columns admit\<close>

lemma fits_columns [simp]:
  "value_fits auto_id v \<longleftrightarrow> (\<exists>i. v = SInt i)"
  "value_fits (auto_id\<lparr>coName := n, coRefs := f\<rparr>) v \<longleftrightarrow> (\<exists>i. v = SInt i)"
  "value_fits (not_null n TypeText) v \<longleftrightarrow> (\<exists>s. v = SText s)"
  "value_fits ((not_null n TypeText)\<lparr>coKey := UniqueNocase\<rparr>) v \<longleftrightarrow> (\<exists>s. v = SText s)"
  "value_fits ((not_null n TypeText)\<lparr>coCheck := Some xs\<rparr>) v \<longleftrightarrow> (\<exists>s \<in> set xs. v = SText s)"
  "value_fits (text_default n s0) v \<longleftrightarrow> (\<exists>s. v = SText s)"
  "value_fits ((text_default n s0)\<lparr>coCheck := Some xs\<rparr>) v \<longleftrightarrow> (\<exists>s \<in> set xs. v = SText s)"
  "value_fits (int_default n i0) v \<longleftrightarrow> (\<exists>i. v = SInt i)"
  "value_fits (refers n tab b) v \<longleftrightarrow> (\<exists>i. v = SInt i)"
  "value_fits created_at v \<longleftrightarrow> (\<exists>t. v = STime t)"
  "value_fits (nullable n TypeDatetime) v \<longleftrightarrow> (\<exists>t. v = null_time t)"
  "value_fits (nullable n TypeText) v \<longleftrightarrow> (\<exists>s. v = null_text s)"
  "value_fits (nullable n TypeInteger) v \<longleftrightarrow> (\<exists>i. v = null_int i)"
  "value_fits ((nullable n TypeInteger)\<lparr>coRefs := f\<rparr>) v \<longleftrightarrow> (\<exists>i. v = null_int i)"
  by (cases v; force simp: value_fits_def column_defs null_time_def null_text_def null_int_def split: option.splits)+

lemma column_names [simp]:
  "coName auto_id = ''id''" "coName (nullable n t) = n" "coName (not_null n t) = n" "coName (text_default n s) = n"
  "coName (int_default n i) = n" "coName created_at = ''created_at''" "coName (refers n tab b) = n"
  by (simp_all add: column_defs)

lemma column_refs [simp]:
  "coRefs auto_id = None" "coRefs (nullable n t) = None" "coRefs (not_null n t) = None" "coRefs (text_default n s) = None"
  "coRefs (int_default n i) = None" "coRefs created_at = None" "coRefs (refers n tab b) = Some (tab, b)"
  by (simp_all add: column_defs)

lemma column_keys [simp]:
  "coKey auto_id = PrimaryKey" "coKey (nullable n t) = NoKey" "coKey (not_null n t) = NoKey" "coKey (text_default n s) = NoKey"
  "coKey (int_default n i) = NoKey" "coKey created_at = NoKey" "coKey (refers n tab b) = NoKey"
  by (simp_all add: column_defs)

lemma scan_nulls [simp]:
  "scan_null scan_time (null_time t) = Some t" "scan_null scan_text (null_text s) = Some s" "scan_null scan_int (null_int i) = Some i"
  by (simp_all add: scan_null_def null_time_def null_text_def null_int_def split: option.split)

lemma scan_int_null [simp]: "scan_int (null_int i) = i" "null_int i = SNull \<longleftrightarrow> i = None"
  by (simp_all add: null_int_def split: option.split)

lemma scan_b2i [simp]: "scan_int (b2i b) = Some (if b then 1 else 0)"
  by (simp add: b2i_def)

definition scanned :: "string list \<Rightarrow> column list \<Rightarrow> (sql_value list \<Rightarrow> 'a option) \<Rightarrow> sql_value list \<Rightarrow> 'a option" where
  "scanned names cols scan row = Option.bind (select_row names cols row) scan"

lemma select_all_columns:
  assumes "distinct (map coName cols)" and "length row = length cols"
  shows "select_row (map coName cols) cols row = Some row"
proof -
  have "map (map_of (zip (map coName cols) row)) (map coName cols) = map Some row"
    using assms map_of_zip_nth [of "map coName cols" row] by (intro nth_equalityI) simp_all
  moreover have "those (map Some xs) = Some xs" for xs :: "sql_value list" by (induction xs) auto
  ultimately show ?thesis by (simp only: select_row_def)
qed

lemma selected_columns:
  "userColumns = map coName users_columns" "boardColumns = map coName boards_columns" "articleColumns = map coName articles_columns"
  "pushColumns = map coName pushes_columns" "wbColumns = map coName wbs_columns" "mailColumns = map coName mail_columns"
  "targetsSelect = map coName targets_columns"
  by (simp_all add: select_defs table_columns)

lemma columns_distinct:
  "distinct (map coName users_columns)" "distinct (map coName boards_columns)" "distinct (map coName articles_columns)"
  "distinct (map coName pushes_columns)" "distinct (map coName wbs_columns)" "distinct (map coName mail_columns)"
  "distinct (map coName targets_columns)"
  by (simp_all add: table_columns)

lemma scanned_rows:
  "length row = length users_columns \<Longrightarrow> scanned userColumns users_columns scan row = scan row"
  "length row = length boards_columns \<Longrightarrow> scanned boardColumns boards_columns scan' row = scan' row"
  "length row = length articles_columns \<Longrightarrow> scanned articleColumns articles_columns scan2 row = scan2 row"
  "length row = length pushes_columns \<Longrightarrow> scanned pushColumns pushes_columns scan3 row = scan3 row"
  "length row = length wbs_columns \<Longrightarrow> scanned wbColumns wbs_columns scan4 row = scan4 row"
  "length row = length mail_columns \<Longrightarrow> scanned mailColumns mail_columns scan5 row = scan5 row"
  "length row = length targets_columns \<Longrightarrow> scanned targetsSelect targets_columns scan6 row = scan6 row"
  by (simp_all add: scanned_def selected_columns select_all_columns columns_distinct)

text \<open>Every row that the columns admit is read, a mail without a thread excepted.\<close>

lemma fitting_rows_scan:
  "row_fits users_columns row \<Longrightarrow> \<exists>u. scanned userColumns users_columns scan_user row = Some u"
  "row_fits boards_columns row \<Longrightarrow> \<exists>b. scanned boardColumns boards_columns scan_board row = Some b"
  "row_fits articles_columns row \<Longrightarrow> \<exists>a. scanned articleColumns articles_columns scan_article row = Some a"
  "row_fits pushes_columns row \<Longrightarrow> \<exists>p. scanned pushColumns pushes_columns scan_push row = Some p"
  "row_fits wbs_columns row \<Longrightarrow> \<exists>w. scanned wbColumns wbs_columns scan_wb row = Some w"
  "row_fits targets_columns row \<Longrightarrow> \<exists>t. scanned targetsSelect targets_columns scan_target row = Some t"
  by (simp_all add: scanned_rows row_fits_length)
     (auto simp: row_fits_def table_columns list_all2_Cons1 scan_defs)

lemma fitting_mail_scans:
  "row_fits mail_columns row \<Longrightarrow> (\<exists>m. scanned mailColumns mail_columns mail_of_row row = Some m) \<longleftrightarrow> row ! 1 \<noteq> SNull"
  by (simp add: scanned_rows row_fits_length)
     (auto simp: row_fits_def table_columns list_all2_Cons1 scan_defs split: bind_split)

lemma fitting_prefs_scan:
  "row_fits prefs_columns row \<Longrightarrow> \<exists>p. scanned prefsSelect prefs_columns scan_prefs row = Some p"
  by (auto simp: row_fits_def table_columns list_all2_Cons1 scan_defs scanned_def select_row_def select_defs)

text \<open>And the records come back.\<close>

lemma rows_scan_back:
  "scanned userColumns users_columns scan_user (user_row u) = Some u"
  "scanned boardColumns boards_columns scan_board (board_row b) = Some b"
  "scanned articleColumns articles_columns scan_article (article_row a) = Some a"
  "scanned pushColumns pushes_columns scan_push (push_row_of p) = Some p"
  "scanned wbColumns wbs_columns scan_wb (wb_row w) = Some w"
  "scanned targetsSelect targets_columns scan_target (target_cells t) = Some t"
  "scanned prefsSelect prefs_columns scan_prefs (prefs_row (i, np)) = Some np"
  by (simp_all add: scanned_rows row_defs table_columns)
     (simp_all add: scan_defs scanned_def select_row_def select_defs)

lemma fitting_mail_stored: "row_fits mail_columns row \<Longrightarrow> \<exists>m. stored_mail row = Some m"
  by (auto simp: row_fits_def table_columns list_all2_Cons1 scan_defs stored_mail_def split: bind_split)

text \<open>\<open>scanMail\<close> reads a stored mail unless its thread is NULL.\<close>

lemma scan_stored_mail:
  "row_fits mail_columns row \<Longrightarrow> scanned mailColumns mail_columns mail_of_row row =
    (case stored_mail row of None \<Rightarrow> None | Some m \<Rightarrow> (case scan_mail m of Inl _ \<Rightarrow> None | Inr m' \<Rightarrow> Some m'))"
  by (simp add: scanned_rows row_fits_length)
     (auto simp: row_fits_def table_columns list_all2_Cons1 scan_defs stored_mail_def scan_mail_def split: bind_split)

lemma stored_mail_back: "stored_mail (mail_row m) = Some m"
  by (cases "mThreadCol m") (simp_all add: stored_mail_def mail_row_def mail_of_row_def)

lemma mail_scans_back:
  "scanned mailColumns mail_columns mail_of_row (mail_row m) = (if mThreadCol m = None then None else Some m)"
proof -
  have "length (mail_row m) = length mail_columns" by (simp add: mail_row_def mail_columns_def)
  then show ?thesis by (cases "mThreadCol m") (simp_all add: scanned_rows mail_of_row_def mail_row_def)
qed

section \<open>Codecs\<close>

text \<open>
  What \<open>INSERT\<close> and \<open>Scan\<close> of a table owe each other: the row written for a record is read as that record; in a total codec every
  row that the columns admit is read as some record.
\<close>

locale row_codec =
  fixes cols :: "column list" and enc :: "'r \<Rightarrow> sql_value list" and read :: "sql_value list \<Rightarrow> 'r option" and valid :: "'r \<Rightarrow> bool"
  assumes read_back: "valid r \<Longrightarrow> read (enc r) = Some r"
begin

lemma table_read_back: "\<forall>r \<in> set rs. valid r \<Longrightarrow> map (read \<circ> enc) rs = map Some rs"
  by (simp add: read_back)

lemma those_read_back: "\<forall>r \<in> set rs. valid r \<Longrightarrow> those (map (read \<circ> enc) rs) = Some rs"
proof -
  have "those (map Some xs) = Some xs" for xs :: "'r list" by (induction xs) auto
  then show "\<forall>r \<in> set rs. valid r \<Longrightarrow> those (map (read \<circ> enc) rs) = Some rs" by (simp only: table_read_back)
qed

lemma enc_inject: "valid r \<Longrightarrow> valid r' \<Longrightarrow> enc r = enc r' \<Longrightarrow> r = r'"
  by (metis option.inject read_back)

end

locale total_codec = row_codec +
  assumes reads: "row_fits cols row \<Longrightarrow> \<exists>r. read row = Some r"
begin

lemma table_reads: "\<forall>row \<in> set rows. row_fits cols row \<Longrightarrow> \<exists>rs. those (map read rows) = Some rs"
proof (induction rows)
  case (Cons row rows)
  then show ?case using reads [of row] by auto
qed simp

end

definition read_prefs :: "sql_value list \<Rightarrow> (int \<times> notify_prefs) option" where
  "read_prefs row =
    (case row of
       [] \<Rightarrow> None
     | k # _ \<Rightarrow> do { i \<leftarrow> scan_int k; p \<leftarrow> scanned prefsSelect prefs_columns scan_prefs row; Some (i, p) })"

lemma read_prefs_back: "read_prefs (prefs_row x) = Some x"
  using rows_scan_back(7) [of "fst x" "snd x"] by (cases x) (simp add: read_prefs_def prefs_row_def)

lemma read_prefs_total: "row_fits prefs_columns row \<Longrightarrow> \<exists>x. read_prefs row = Some x"
  using fitting_prefs_scan [of row]
  by (cases row) (auto simp: read_prefs_def row_fits_def prefs_columns_def)

interpretation user_rows: total_codec users_columns user_row "scanned userColumns users_columns scan_user" "\<lambda>_. True"
  by unfold_locales (simp_all add: rows_scan_back fitting_rows_scan)

interpretation board_rows: total_codec boards_columns board_row "scanned boardColumns boards_columns scan_board" "\<lambda>_. True"
  by unfold_locales (simp_all add: rows_scan_back fitting_rows_scan)

interpretation article_rows: total_codec articles_columns article_row "scanned articleColumns articles_columns scan_article" "\<lambda>_. True"
  by unfold_locales (simp_all add: rows_scan_back fitting_rows_scan)

interpretation push_rows: total_codec pushes_columns push_row_of "scanned pushColumns pushes_columns scan_push" "\<lambda>_. True"
  by unfold_locales (simp_all add: rows_scan_back fitting_rows_scan)

interpretation wb_rows: total_codec wbs_columns wb_row "scanned wbColumns wbs_columns scan_wb" "\<lambda>_. True"
  by unfold_locales (simp_all add: rows_scan_back fitting_rows_scan)

interpretation mail_rows: row_codec mail_columns mail_row "scanned mailColumns mail_columns mail_of_row" "\<lambda>m. mThreadCol m \<noteq> None"
  by unfold_locales (simp add: mail_scans_back)

interpretation mail_cells: total_codec mail_columns mail_row stored_mail "\<lambda>_. True"
  by unfold_locales (simp_all add: stored_mail_back fitting_mail_stored)

interpretation prefs_rows: total_codec prefs_columns prefs_row read_prefs "\<lambda>_. True"
  by unfold_locales (simp add: read_prefs_back, rule read_prefs_total)

interpretation target_rows: total_codec targets_columns target_cells "scanned targetsSelect targets_columns scan_target" "\<lambda>_. True"
  by unfold_locales (simp_all add: rows_scan_back fitting_rows_scan)

lemmas tables_read_back = user_rows.those_read_back board_rows.those_read_back article_rows.those_read_back
  push_rows.those_read_back wb_rows.those_read_back mail_cells.those_read_back prefs_rows.those_read_back target_rows.those_read_back

section \<open>The constraints on records\<close>

text \<open>What the constraints say of a record.\<close>

lemma encoded_rows_fit:
  "row_fits users_columns (user_row u) \<longleftrightarrow> role_valid (uRole u)"
  "row_fits boards_columns (board_row b)"
  "row_fits articles_columns (article_row a) \<longleftrightarrow> comments_mode_valid (aCommentsMode a)"
  "row_fits pushes_columns (push_row_of p) \<longleftrightarrow> kind_ok (pKind p)"
  "row_fits wbs_columns (wb_row w)" "row_fits mail_columns (mail_row m)" "row_fits prefs_columns (prefs_row x)"
  "row_fits targets_columns (target_cells t)"
  by (auto simp: row_fits_def table_columns row_defs b2i_def role_valid_iff role_defs comments_mode_valid_def mode_defs kind_ok_def kind_defs
      split: prod.splits)

lemma encoded_clash:
  "row_clash users_columns (user_row u) (user_row u') \<longleftrightarrow> uID u = uID u' \<or> nocase (uUserID u) = nocase (uUserID u')"
  "row_clash boards_columns (board_row b) (board_row b') \<longleftrightarrow> bID b = bID b' \<or> nocase (bName b) = nocase (bName b')"
  "row_clash articles_columns (article_row a) (article_row a') \<longleftrightarrow> aID a = aID a'"
  "row_clash pushes_columns (push_row_of p) (push_row_of p') \<longleftrightarrow> pID p = pID p'"
  "row_clash wbs_columns (wb_row w) (wb_row w') \<longleftrightarrow> wID w = wID w'"
  "row_clash mail_columns (mail_row m) (mail_row m') \<longleftrightarrow> mID m = mID m'"
  "row_clash prefs_columns (prefs_row x) (prefs_row x') \<longleftrightarrow> fst x = fst x'"
  "row_clash targets_columns (target_cells t) (target_cells t') \<longleftrightarrow> ntID t = ntID t'"
  by (simp_all add: row_clash_def table_columns row_defs value_clash_def split: prod.split)

lemma encoded_keys:
  "set (key_values ''users'' (sql_of d)) = SInt ` user_ids d" "set (key_values ''boards'' (sql_of d)) = SInt ` board_ids d"
  "set (key_values ''articles'' (sql_of d)) = SInt ` article_ids d" "set (key_values ''mail'' (sql_of d)) = SInt ` mID ` set (mails d)"
proof -
  have keys: "row_keys users_columns (user_row u) = [SInt (uID u)]" "row_keys boards_columns (board_row b) = [SInt (bID b)]"
    "row_keys articles_columns (article_row a) = [SInt (aID a)]" "row_keys mail_columns (mail_row m) = [SInt (mID m)]" for u b a m
    by (simp_all add: row_keys_def table_columns row_defs)
  show "set (key_values ''users'' (sql_of d)) = SInt ` user_ids d" "set (key_values ''boards'' (sql_of d)) = SInt ` board_ids d"
    "set (key_values ''articles'' (sql_of d)) = SInt ` article_ids d" "set (key_values ''mail'' (sql_of d)) = SInt ` mID ` set (mails d)"
    by (auto simp: key_values_def table_of_def sql_of_def keys id_set_defs)
qed

lemma encoded_refs:
  "refs_fit (sql_of d) users_columns (user_row u)" "refs_fit (sql_of d) boards_columns (board_row b)"
  "refs_fit (sql_of d) articles_columns (article_row a) \<longleftrightarrow> aBoardID a \<in> board_ids d \<and> aAuthorID a \<in> user_ids d"
  "refs_fit (sql_of d) pushes_columns (push_row_of p) \<longleftrightarrow> pArticleID p \<in> article_ids d \<and> pUserID p \<in> user_ids d"
  "refs_fit (sql_of d) wbs_columns (wb_row w) \<longleftrightarrow> wFromUserID w \<in> user_ids d \<and> wToUserID w \<in> user_ids d"
  "refs_fit (sql_of d) mail_columns (mail_row m) \<longleftrightarrow> (case mParentID m of None \<Rightarrow> True | Some p \<Rightarrow> p \<in> mID ` set (mails d))
     \<and> mFromUserID m \<in> user_ids d \<and> mToUserID m \<in> user_ids d"
  "refs_fit (sql_of d) prefs_columns (prefs_row x) \<longleftrightarrow> fst x \<in> user_ids d"
  "refs_fit (sql_of d) targets_columns (target_cells t) \<longleftrightarrow> ntUserID t \<in> user_ids d"
  by (auto simp: refs_fit_def ref_fits_def table_columns row_defs encoded_keys null_int_def inj_image_mem_iff inj_def
      split: prod.split option.split)

section \<open>The schema and the model\<close>

lemma distinct_sorted_wrt: "sorted_wrt (\<lambda>x y. f x \<noteq> f y) xs \<longleftrightarrow> distinct (map f xs)"
  by (induction xs) auto

lemma sorted_wrt_both: "sorted_wrt (\<lambda>x y. P x y \<and> Q x y) xs \<longleftrightarrow> sorted_wrt P xs \<and> sorted_wrt Q xs"
  by (induction xs) auto

lemma sql_of_distinct: "distinct (map tbName (sdTables (sql_of d)))"
  by (simp add: sql_of_def)

lemma sql_fits_tables:
  "sql_fits (sql_of d) \<longleftrightarrow>
    (distinct (map uID (users d)) \<and> distinct (map (\<lambda>u. nocase (uUserID u)) (users d)) \<and> (\<forall>u \<in> set (users d). role_valid (uRole u)))
    \<and> (distinct (map bID (boards d)) \<and> distinct (map (\<lambda>b. nocase (bName b)) (boards d)))
    \<and> (distinct (map aID (articles d)) \<and> (\<forall>a \<in> set (articles d). comments_mode_valid (aCommentsMode a)
          \<and> aBoardID a \<in> board_ids d \<and> aAuthorID a \<in> user_ids d))
    \<and> (distinct (map pID (pushes d)) \<and> (\<forall>p \<in> set (pushes d). kind_ok (pKind p) \<and> pArticleID p \<in> article_ids d \<and> pUserID p \<in> user_ids d))
    \<and> (distinct (map wID (wbs d)) \<and> (\<forall>w \<in> set (wbs d). wFromUserID w \<in> user_ids d \<and> wToUserID w \<in> user_ids d))
    \<and> (distinct (map mID (mails d)) \<and> (\<forall>m \<in> set (mails d).
          (case mParentID m of None \<Rightarrow> True | Some p \<Rightarrow> p \<in> mID ` set (mails d)) \<and> mFromUserID m \<in> user_ids d \<and> mToUserID m \<in> user_ids d))
    \<and> (distinct (map fst (prefs d)) \<and> fst ` set (prefs d) \<subseteq> user_ids d)
    \<and> (distinct (map ntID (targets d)) \<and> (\<forall>t \<in> set (targets d). ntUserID t \<in> user_ids d))"
proof -
  have "sql_fits (sql_of d) \<longleftrightarrow> (\<forall>t \<in> set (sdTables (sql_of d)). table_fits (sql_of d) t)"
    using sql_of_distinct by (simp add: sql_fits_def)
  then show ?thesis
    by (simp add: sql_tables table_fits_def encoded_rows_fit encoded_refs sorted_wrt_map
        encoded_clash sorted_wrt_both distinct_sorted_wrt) blast
qed

lemma db_inv_fits:
  assumes "db_inv d"
  shows "sql_fits (sql_of d)"
proof -
  have "case mParentID m of None \<Rightarrow> True | Some p \<Rightarrow> p \<in> mID ` set (mails d)" if "m \<in> set (mails d)" for m
    using db_invD(7) [OF assms] that by (force simp: mails_ok_def mail_linked_def split: option.splits)
  then show ?thesis
    unfolding sql_fits_tables using db_invD [OF assms]
    by (auto simp: users_ok_def boards_ok_def articles_ok_def pushes_ok_def wbs_ok_def mails_ok_def prefs_ok_def targets_ok_def
        dest: table_ok_distinct)
qed

lemma new_file_opened: "migData (snd (store_open now new_file)) = sql_of (snd (boards_seed_defaults now empty_db))"
  by code_simp
section \<open>The file as a database\<close>

definition read_table :: "string \<Rightarrow> (sql_value list \<Rightarrow> 'a option) \<Rightarrow> sql_db \<Rightarrow> ('a list \<times> int) option" where
  "read_table n read d =
    (case table_of n d of None \<Rightarrow> None | Some t \<Rightarrow> map_option (\<lambda>xs. (xs, tbSeq t)) (those (map read (tbRows t))))"

definition db_of_sql :: "sql_db \<Rightarrow> db option" where
  "db_of_sql s =
    do { us \<leftarrow> read_table ''users'' (scanned userColumns users_columns scan_user) s;
         bs \<leftarrow> read_table ''boards'' (scanned boardColumns boards_columns scan_board) s;
         as \<leftarrow> read_table ''articles'' (scanned articleColumns articles_columns scan_article) s;
         ps \<leftarrow> read_table ''pushes'' (scanned pushColumns pushes_columns scan_push) s;
         ws \<leftarrow> read_table ''water_balloons'' (scanned wbColumns wbs_columns scan_wb) s;
         ms \<leftarrow> read_table ''mail'' stored_mail s;
         np \<leftarrow> read_table ''user_notif_prefs'' read_prefs s;
         ts \<leftarrow> read_table ''user_notif_targets'' (scanned targetsSelect targets_columns scan_target) s;
         Some \<lparr>users = fst us, seq_users = snd us, boards = fst bs, seq_boards = snd bs, articles = fst as, seq_articles = snd as,
           pushes = fst ps, seq_pushes = snd ps, wbs = fst ws, seq_wbs = snd ws, mails = fst ms, seq_mails = snd ms,
           prefs = fst np, targets = fst ts, seq_targets = snd ts\<rparr> }"

lemma db_of_sql_of: "db_of_sql (sql_of d) = Some d"
  by (simp add: db_of_sql_def read_table_def table_of_def sql_tables tables_read_back)

text \<open>A file of the current schema is a database of the model.\<close>

lemma current_tables:
  assumes "schema_of s = current_schema"
  obtains us bs as ps ws ms np ts where "sdTables s = [us, bs, as, ps, ws, ms, np, ts]"
    "map tbName [us, bs, as, ps, ws, ms, np, ts] =
       [''users'', ''boards'', ''articles'', ''pushes'', ''water_balloons'', ''mail'', ''user_notif_prefs'', ''user_notif_targets'']"
    "tbColumns us = users_columns" "tbColumns bs = boards_columns" "tbColumns as = articles_columns" "tbColumns ps = pushes_columns"
    "tbColumns ws = wbs_columns" "tbColumns ms = mail_columns" "tbColumns np = prefs_columns" "tbColumns ts = targets_columns"
  using assms by (auto simp: schema_of_def current_schema_def map_eq_Cons_conv)

lemma db_of_sql_total:
  assumes "schema_of s = current_schema" and "sql_fits s"
  shows "\<exists>d. db_of_sql s = Some d"
proof -
  obtain us bs as ps ws ms np ts where t: "sdTables s = [us, bs, as, ps, ws, ms, np, ts]"
    "map tbName [us, bs, as, ps, ws, ms, np, ts] =
       [''users'', ''boards'', ''articles'', ''pushes'', ''water_balloons'', ''mail'', ''user_notif_prefs'', ''user_notif_targets'']"
    and c: "tbColumns us = users_columns" "tbColumns bs = boards_columns" "tbColumns as = articles_columns" "tbColumns ps = pushes_columns"
    "tbColumns ws = wbs_columns" "tbColumns ms = mail_columns" "tbColumns np = prefs_columns" "tbColumns ts = targets_columns"
    using current_tables [OF assms(1)] .
  have fits: "t \<in> set (sdTables s) \<Longrightarrow> \<forall>row \<in> set (tbRows t). row_fits (tbColumns t) row" for t
    using assms(2) by (simp add: sql_fits_def table_fits_def)
  obtain us' bs' as' ps' ws' ms' np' ts' where read:
    "those (map (scanned userColumns users_columns scan_user) (tbRows us)) = Some us'"
    "those (map (scanned boardColumns boards_columns scan_board) (tbRows bs)) = Some bs'"
    "those (map (scanned articleColumns articles_columns scan_article) (tbRows as)) = Some as'"
    "those (map (scanned pushColumns pushes_columns scan_push) (tbRows ps)) = Some ps'"
    "those (map (scanned wbColumns wbs_columns scan_wb) (tbRows ws)) = Some ws'"
    "those (map stored_mail (tbRows ms)) = Some ms'"
    "those (map read_prefs (tbRows np)) = Some np'"
    "those (map (scanned targetsSelect targets_columns scan_target) (tbRows ts)) = Some ts'"
    using user_rows.table_reads [of "tbRows us"] board_rows.table_reads [of "tbRows bs"] article_rows.table_reads [of "tbRows as"]
      push_rows.table_reads [of "tbRows ps"] wb_rows.table_reads [of "tbRows ws"] mail_cells.table_reads [of "tbRows ms"] prefs_rows.table_reads [of "tbRows np"]
      target_rows.table_reads [of "tbRows ts"] fits [of us] fits [of bs] fits [of as] fits [of ps] fits [of ws] fits [of ms] fits [of np] fits [of ts]
    unfolding t(1) c by auto
  with t(2) show ?thesis by (simp add: db_of_sql_def read_table_def table_of_def t(1))
qed

end
