(* ===== verification/SchemaProps.thy ===== *)
theory SchemaProps
  imports Rows StoreProps
begin

text \<open>
  \<open>store.Open\<close> on old and new database files, and the model of the repositories as an instance of the SQL schema.
\<close>

section \<open>Old files\<close>

text \<open>A row of a table can be read by the repository of the table; a mail needs its thread id.\<close>

definition readable :: "string \<Rightarrow> sql_value list \<Rightarrow> bool" where
  "readable table row \<longleftrightarrow>
    (if table = ''users'' then scanned userColumns users_columns scan_user row \<noteq> None
     else if table = ''boards'' then scanned boardColumns boards_columns scan_board row \<noteq> None
     else if table = ''articles'' then scanned articleColumns articles_columns scan_article row \<noteq> None
     else if table = ''pushes'' then scanned pushColumns pushes_columns scan_push row \<noteq> None
     else if table = ''water_balloons'' then scanned wbColumns wbs_columns scan_wb row \<noteq> None
     else if table = ''mail'' then (scanned mailColumns mail_columns mail_of_row row \<noteq> None) = (row ! 1 \<noteq> SNull)
     else if table = ''user_notif_prefs'' then scanned prefsSelect prefs_columns scan_prefs row \<noteq> None
     else table = ''user_notif_targets'' \<and> scanned targetsSelect targets_columns scan_target row \<noteq> None)"

lemma left_by_readable:
  assumes "left_by 10 m" and "t \<in> set (sdTables (migData m))" and "row \<in> set (tbRows t)"
  shows "readable (tbName t) row"
proof -
  have fits: "row_fits (tbColumns t) row" using assms by (auto simp: left_by_def sql_fits_def table_fits_def)
  have "schema_of (migData m) = current_schema" using assms(1) schema_after_all by (simp add: left_by_def)
  then have "fst current_schema = map (\<lambda>t. (tbName t, tbColumns t)) (sdTables (migData m))" by (metis fst_conv schema_of_def)
  then have "(tbName t, tbColumns t) \<in> set (fst current_schema)" using assms(2) by simp
  then show ?thesis
    using fits fitting_rows_scan [of row] fitting_mail_scans [of row] fitting_prefs_scan [of row]
    by (auto simp: current_schema_def readable_def)
qed

text \<open>C22: opening a database that any earlier version of the program has left, after the first k migrations and with
  whatever rows the constraints of its schema allow, succeeds: afterwards all ten migrations are recorded, the schema is the current
  one, all its constraints hold, every row is still there, extended by the defaults of the columns added since, and every row
  can be read by its repository, a mail exactly when it has a thread id, so that the file is a database of the model. Opening again,
  at any time, changes nothing.\<close>

theorem open_migrates:
  assumes "left_by k m" and "store_open now m = (r, m')"
  shows "r = Inr () \<and> set (migApplied m') = {1..10} \<and> schema_of (migData m') = current_schema \<and> sql_fits (migData m')
    \<and> sql_grows (migData m) (migData m')
    \<and> (\<forall>t \<in> set (sdTables (migData m')). \<forall>row \<in> set (tbRows t). readable (tbName t) row)
    \<and> (\<exists>d. db_of_sql (migData m') = Some d)
    \<and> store_open now' m' = (Inr (), m')"
proof -
  obtain m1 where m1: "store_open now m = (Inr (), m1)" "left_by 10 m1" "sql_grows (migData m) (migData m1)"
    using store_open_left [OF assms(1)] .
  with assms(2) have "r = Inr ()" "m' = m1" by simp_all
  moreover have "schema_of (migData m1) = current_schema" "sql_fits (migData m1)" "set (migApplied m1) = {1..10}"
    using m1(2) by (simp_all add: left_by_def schema_after_all)
  moreover note db_of_sql_total [OF this(1,2)]
  ultimately show ?thesis using m1(3) store_open_again [OF m1(2), of now'] left_by_readable [OF m1(2)] by simp
qed

text \<open>A file of the first version, with one user.\<close>

definition old_file :: "sql_db mig_db" where
  "old_file = \<lparr>migApplied = [1], migData =
     \<lparr>sdTables = map (\<lambda>t. if tbName t = ''users''
         then t\<lparr>tbRows := [[SInt 1, SText ''alice'', SText ''hash'', SText [], SText [], SText [], SInt 3, SInt 0, SNull, SText ''::1'',
             STime demo_now]], tbSeq := 1\<rparr> else t)
         (sdTables (the (exec_sql demo_now sql_0001 (migData new_file)))),
      sdIndexes = sdIndexes (the (exec_sql demo_now sql_0001 (migData new_file)))\<rparr>\<rparr>"

lemma old_file_left: "left_by 1 old_file"
proof -
  have "schema_after 1 = Some (schema_of (migData old_file))" "sql_fits (migData old_file)" by code_simp+
  then show ?thesis by (simp add: left_by_def) (simp add: old_file_def)
qed

lemma open_migrates_witness:
  "\<exists>m'. store_open demo_now old_file = (Inr (), m') \<and> store_open demo_now m' = (Inr (), m') \<and> set (migApplied m') = {1..10}
    \<and> (\<exists>t \<in> set (sdTables (migData m')). \<exists>row \<in> set (tbRows t). \<exists>u. scanned userColumns users_columns scan_user row = Some u
        \<and> uUserID u = ''alice'' \<and> uRole u = RoleUser)"
proof -
  obtain r m' where run: "store_open demo_now old_file = (r, m')" by (metis prod.exhaust)
  note all = open_migrates [OF old_file_left run, of demo_now]
  have "\<exists>t \<in> set (sdTables (migData (snd (store_open demo_now old_file)))). \<exists>row \<in> set (tbRows t).
      case scanned userColumns users_columns scan_user row of None \<Rightarrow> False | Some u \<Rightarrow> uUserID u = ''alice'' \<and> uRole u = RoleUser"
    by code_simp
  then have "\<exists>t \<in> set (sdTables (migData m')). \<exists>row \<in> set (tbRows t). \<exists>u. scanned userColumns users_columns scan_user row = Some u
        \<and> uUserID u = ''alice'' \<and> uRole u = RoleUser"
    unfolding run by (auto split: option.splits)
  with all run show ?thesis by auto
qed

section \<open>The model as a SQL database\<close>

text \<open>C23: the database of the model is a database of the migrated schema. Its tables satisfy the keys, the
  \<open>UNIQUE COLLATE NOCASE\<close>, NOT NULL, CHECK and foreign-key constraints of the SQL files exactly when the uniqueness, the
  valid roles, modes and kinds and the references stated below hold, which they do in every database the server reaches; reading
  the rows with the column lists of the repositories gives every record back, a mail whose thread id is NULL excepted; and the
  file that \<open>Open\<close> makes is the empty database after the seed of the three boards.\<close>

theorem schema_is_model:
  "schema_of (sql_of d) = current_schema
   \<and> (db_reachable d \<longrightarrow> sql_fits (sql_of d))
   \<and> (sql_fits (sql_of d) \<longleftrightarrow>
      (distinct (map uID (users d)) \<and> distinct (map (\<lambda>u. nocase (uUserID u)) (users d)) \<and> (\<forall>u \<in> set (users d). role_valid (uRole u)))
      \<and> (distinct (map bID (boards d)) \<and> distinct (map (\<lambda>b. nocase (bName b)) (boards d)))
      \<and> (distinct (map aID (articles d)) \<and> (\<forall>a \<in> set (articles d). comments_mode_valid (aCommentsMode a)
            \<and> aBoardID a \<in> board_ids d \<and> aAuthorID a \<in> user_ids d))
      \<and> (distinct (map pID (pushes d)) \<and> (\<forall>p \<in> set (pushes d). kind_ok (pKind p) \<and> pArticleID p \<in> article_ids d \<and> pUserID p \<in> user_ids d))
      \<and> (distinct (map wID (wbs d)) \<and> (\<forall>w \<in> set (wbs d). wFromUserID w \<in> user_ids d \<and> wToUserID w \<in> user_ids d))
      \<and> (distinct (map mID (mails d)) \<and> (\<forall>m \<in> set (mails d).
            (case mParentID m of None \<Rightarrow> True | Some p \<Rightarrow> p \<in> mID ` set (mails d)) \<and> mFromUserID m \<in> user_ids d \<and> mToUserID m \<in> user_ids d))
      \<and> (distinct (map fst (prefs d)) \<and> fst ` set (prefs d) \<subseteq> user_ids d)
      \<and> (distinct (map ntID (targets d)) \<and> (\<forall>t \<in> set (targets d). ntUserID t \<in> user_ids d)))
   \<and> map (scanned userColumns users_columns scan_user \<circ> user_row) (users d) = map Some (users d)
   \<and> map (scanned boardColumns boards_columns scan_board \<circ> board_row) (boards d) = map Some (boards d)
   \<and> map (scanned articleColumns articles_columns scan_article \<circ> article_row) (articles d) = map Some (articles d)
   \<and> map (scanned pushColumns pushes_columns scan_push \<circ> push_row_of) (pushes d) = map Some (pushes d)
   \<and> map (scanned wbColumns wbs_columns scan_wb \<circ> wb_row) (wbs d) = map Some (wbs d)
   \<and> map (scanned mailColumns mail_columns mail_of_row \<circ> mail_row) (mails d) = map (\<lambda>m. if mThreadCol m = None then None else Some m) (mails d)
   \<and> map (scanned prefsSelect prefs_columns scan_prefs \<circ> prefs_row) (prefs d) = map (Some \<circ> snd) (prefs d)
   \<and> map (scanned targetsSelect targets_columns scan_target \<circ> target_cells) (targets d) = map Some (targets d)
   \<and> migData (snd (store_open now new_file)) = sql_of (snd (boards_seed_defaults now empty_db))"
proof -
  have "map (scanned prefsSelect prefs_columns scan_prefs \<circ> prefs_row) (prefs d) = map (Some \<circ> snd) (prefs d)"
    using rows_scan_back(7) by (simp add: split_paired_all)
  then show ?thesis
    using db_inv_fits [OF db_reachable_inv] new_file_opened
    by (intro conjI sql_fits_tables) (simp_all add: schema_of_sql rows_scan_back mail_scans_back)
qed

lemma schema_is_model_witness:
  "sql_fits (sql_of first_calls) \<and> pUserID (hd (pushes first_calls)) \<in> user_ids first_calls \<and> \<not> sql_fits (sql_of (first_calls\<lparr>users := []\<rparr>))"
proof -
  have "sql_fits (sql_of first_calls)" using schema_is_model [of first_calls] first_calls_reachable by blast
  moreover have "pushes first_calls = [hd (pushes first_calls)]"
    using first_calls_rows(2) by (cases "pushes first_calls") auto
  then have "hd (pushes first_calls) \<in> set (pushes first_calls)" by (metis list.set_intros(1))
  ultimately have "pUserID (hd (pushes first_calls)) \<in> user_ids first_calls" using schema_is_model [of first_calls] by blast
  moreover have "hd (pushes first_calls) \<in> set (pushes (first_calls\<lparr>users := []\<rparr>))"
    using \<open>hd (pushes first_calls) \<in> set (pushes first_calls)\<close> by simp
  then have "\<not> sql_fits (sql_of (first_calls\<lparr>users := []\<rparr>))"
    using schema_is_model [of "first_calls\<lparr>users := []\<rparr>"] by (auto simp: user_ids_def)
  ultimately show ?thesis using \<open>sql_fits (sql_of first_calls)\<close> by blast
qed

end
