(* ===== verification/MainProgram.thy ===== *)
theory MainProgram
  imports SchemaProps Serving Drain
begin

text \<open>
  The process around the server: \<open>main\<close> of \<open>cmd/sshbbs/main.go\<close> from its parsed flags to a running server, on the database
  file it opens, and the import command. A database file outlives the processes that serve it.
\<close>

section \<open>Opening the database file\<close>

text \<open>
  \<open>Open\<close> of \<open>store.go\<close>: the driver gets the path with its pragmas, and the file is migrated once it answers. What the driver makes of the
  name is an argument.
\<close>

datatype connection = NoDriver | NoAnswer | Connected

datatype open_error = OpenSqlite | PingSqlite | MigrateFailed migrate_error

definition dsn :: "string \<Rightarrow> string" where
  "dsn path = ''file:'' @ path @ ''?_pragma=journal_mode(WAL)&_pragma=foreign_keys(on)&_pragma=busy_timeout(5000)''"

type_synonym db_file = "sql_db mig_db"

definition open_path :: "(string \<Rightarrow> connection) \<Rightarrow> string \<Rightarrow> timestamp \<Rightarrow> db_file \<Rightarrow> (open_error + unit) \<times> db_file" where
  "open_path driver path now m =
    (case driver (dsn path) of
       NoDriver \<Rightarrow> (Inl OpenSqlite, m)
     | NoAnswer \<Rightarrow> (Inl PingSqlite, m)
     | Connected \<Rightarrow> (case store_open now m of (Inl e, m1) \<Rightarrow> (Inl (MigrateFailed e), m1) | (Inr _, m1) \<Rightarrow> (Inr (), m1)))"

section \<open>Starting the process\<close>

text \<open>
  The flags of the server after parsing; the embedded articles and banners and the outcome of \<open>server.New\<close>, which reads
  the host key, are arguments. A failure leaves the file as far as it has come.
\<close>

record server_flags =
  sfAddr :: string
  sfDB :: string
  sfHostKey :: string
  sfAdminPassword :: string
  sfLocale :: string

record serving =
  sgLocale :: locale_tag
  sgApplied :: "int list"
  sgDB :: db
  sgBroker :: broker
  sgPool :: pool

datatype main_failure = BadLocale | OpenFailed open_error | SeedFailed auth_error | NewFailed

definition file_of :: "int list \<Rightarrow> db \<Rightarrow> db_file" where
  "file_of vs d = \<lparr>migApplied = vs, migData = sql_of d\<rparr>"

text \<open>The rows of an opened file as the repositories read them: on a migrated file every row has its record (\<open>open_migrates\<close>).\<close>

definition rows_of :: "db_file \<Rightarrow> db" where
  "rows_of m = the (db_of_sql (migData m))"

definition main_start ::
  "(string \<Rightarrow> string option) \<Rightarrow> (string \<Rightarrow> connection) \<Rightarrow> (string \<Rightarrow> string \<Rightarrow> bool) \<Rightarrow> server_flags \<Rightarrow> (string \<times> string) list \<Rightarrow>
    (string \<rightharpoonup> string) \<Rightarrow> timestamp \<Rightarrow> db_file \<Rightarrow> (main_failure + serving) \<times> db_file" where
  "main_start gen driver new_ok flags files banners now m =
    (case main_locale (sfLocale flags) LocaleZHTW of
       None \<Rightarrow> (Inl BadLocale, m)
     | Some loc \<Rightarrow>
         (case open_path driver (sfDB flags) now m of
            (Inl e, m1) \<Rightarrow> (Inl (OpenFailed e), m1)
          | (Inr _, m1) \<Rightarrow>
              (case start_up gen (sfAdminPassword flags) files banners now (rows_of m1) of
                 (Inl e, d1) \<Rightarrow> (Inl (SeedFailed e), file_of (migApplied m1) d1)
               | (Inr _, d1) \<Rightarrow>
                   (if \<not> new_ok (sfAddr flags) (sfHostKey flags) then Inl NewFailed
                    else Inr \<lparr>sgLocale = loc, sgApplied = migApplied m1, sgDB = d1, sgBroker = new_broker, sgPool = started\<rparr>,
                    file_of (migApplied m1) d1))))"

text \<open>The import command opens the file only when the document has a title and a board.\<close>

definition main_import ::
  "(string \<Rightarrow> connection) \<Rightarrow> (string \<Rightarrow> string option) \<Rightarrow> import_flags \<Rightarrow> timestamp \<Rightarrow> db_file \<Rightarrow> int \<times> db_file" where
  "main_import driver read f now m =
    (if ifFile f = [] then (2, m)
     else case read (import_path (ifFile f)) of
       None \<Rightarrow> (1, m)
     | Some body \<Rightarrow>
         let p = parse_markdown body
         in if mdTitle p = [] \<or> (ifBoard f = [] \<and> mdBoardName p = []) then (1, m)
         else case open_path driver (ifDB f) now m of
           (Inl e, m1) \<Rightarrow> (1, m1)
         | (Inr _, m1) \<Rightarrow>
             (case run_import read f now (rows_of m1) of (code, d1) \<Rightarrow> (code, file_of (migApplied m1) d1)))"

section \<open>Opening\<close>

lemma file_of_sel [simp]: "migApplied (file_of vs d) = vs" "migData (file_of vs d) = sql_of d"
  by (simp_all add: file_of_def)

lemma rows_of_file [simp]: "rows_of (file_of vs d) = d"
  by (simp add: rows_of_def db_of_sql_of)

lemma open_path_ok:
  "driver (dsn path) = Connected \<Longrightarrow> store_open now m = (Inr (), m') \<Longrightarrow> open_path driver path now m = (Inr (), m')"
  by (simp add: open_path_def)

lemma open_path_cases:
  obtains "driver (dsn path) = Connected" | e where "open_path driver path now m = (Inl e, m)"
  by (cases "driver (dsn path)") (auto simp: open_path_def)

lemma main_start_open:
  assumes "driver (dsn (sfDB flags)) = Connected" and "store_open now m = (Inr (), file_of vs d)"
    and "main_locale (sfLocale flags) LocaleZHTW = Some loc"
  shows "main_start gen driver new_ok flags files banners now m =
    (case start_up gen (sfAdminPassword flags) files banners now d of
       (Inl e, d1) \<Rightarrow> (Inl (SeedFailed e), file_of vs d1)
     | (Inr _, d1) \<Rightarrow>
        (if \<not> new_ok (sfAddr flags) (sfHostKey flags) then Inl NewFailed
         else Inr \<lparr>sgLocale = loc, sgApplied = vs, sgDB = d1, sgBroker = new_broker, sgPool = started\<rparr>, file_of vs d1))"
  using assms by (simp add: main_start_def open_path_ok db_of_sql_of split: sum.split prod.split)

lemma new_file_opens:
  "\<exists>vs. set vs = {1..10} \<and> store_open now new_file = (Inr (), file_of vs (snd (boards_seed_defaults now empty_db)))"
proof -
  obtain m' where "store_open now new_file = (Inr (), m')" "left_by 10 m'" using store_open_left [OF new_file_left] .
  with new_file_opened [of now] show ?thesis
    by (intro exI [of _ "migApplied m'"]) (simp add: left_by_def file_of_def)
qed

end
