(* ===== verification/Smoke.thy ===== *)
theory Smoke
  imports MainProgram PushFlow
begin

text \<open>
  \<open>cmd/bbsmoke/main.go\<close>: the end-to-end check that an event reaches a webhook. The sidecar is a parameter: what it
  posts to the sink for a request, if anything, within the time the program waits.
\<close>

definition smokeURL :: string where "smokeURL = ''http://localhost:8000/notify/smoketest''"

definition smoke_hash :: string where "smoke_hash = ''$2a$12$placeholderplaceholderplaceholderplaceholderplaceholder.''"

definition smoke_event :: "int \<Rightarrow> event" where
  "smoke_event uid =
    \<lparr>evKind = KindPush, evToUserID = uid, evFromUserID = ''bob'',
     evTitle = ''[BBS-smoke] bob '' @ [CHR 0xE6, CHR 0x8E, CHR 0xA8, CHR 0xE4, CHR 0xBA, CHR 0x86, CHR 0xE4, CHR 0xBD, CHR 0xA0, CHR 0xE7, CHR 0x9A, CHR 0x84, CHR 0xE6, CHR 0x96, CHR 0x87, CHR 0xE7, CHR 0xAB, CHR 0xA0] @ '' '' @ [CHR 0xC2, CHR 0xAB] @ ''Hello'' @ [CHR 0xC2, CHR 0xBB],
     evBody = [CHR 0xE2, CHR 0x86, CHR 0x92] @ '' '' @ [CHR 0xE6, CHR 0x8E, CHR 0xA8] @ '' nice post (round-trip test)''\<rparr>"

definition smoke_setup :: "timestamp \<Rightarrow> db \<Rightarrow> (db_error + int) \<times> db" where
  "smoke_setup now d =
    (case users_create ''alice'' smoke_hash [] [] now d of
       (Inl e, d1) \<Rightarrow> (Inl e, d1)
     | (Inr u, d1) \<Rightarrow>
         (case notify_add_target (uID u) ''apprise-smoke'' smokeURL now d1 of
            (Inl e, d2) \<Rightarrow> (Inl e, d2)
          | (Inr _, d2) \<Rightarrow> (Inr (uID u), d2)))"

text \<open>The exit code and the body that is printed; one worker takes the event and delivers it.\<close>

definition bbsmoke :: "(http_request \<Rightarrow> string option) \<Rightarrow> (string \<Rightarrow> bool) \<Rightarrow> timestamp \<Rightarrow> db \<Rightarrow> int \<times> string option" where
  "bbsmoke sidecar url_ok now d =
    (case smoke_setup now d of
       (Inl e, _) \<Rightarrow> (2, None)
     | (Inr uid, d1) \<Rightarrow>
         (case plBusy (pool_take (pool_dispatch (smoke_event uid) started)) of
            [] \<Rightarrow> (1, None)
          | ev # _ \<Rightarrow>
              (case List.map_filter sidecar (deliver url_ok (Some (\<lambda>u. broker_is_online u new_broker)) d1 ev) of
                 [] \<Rightarrow> (1, None)
               | body # _ \<Rightarrow> (0, Some body))))"

lemma smoke_url_ok: "validate_notify_url smokeURL = Inr ()" "trim_space smokeURL = smokeURL" "detect_format smokeURL = FormatApprise"
  by code_simp+

lemma smoke_setup_spec:
  assumes "db_inv d" and "\<not> user_name_taken ''alice'' d"
  obtains d1 where "smoke_setup now d = (Inr (seq_users d + 1), d1)" and "prefs d1 = prefs d"
    and "targets d1 = targets d @ [new_target (seq_users d + 1) ''apprise-smoke'' smokeURL now (seq_targets d + 1)]"
proof -
  have "trim_space ''apprise-smoke'' = ''apprise-smoke''" by code_simp
  then show ?thesis
    using users_create_spec [OF db_invD(1) [OF assms(1)] assms(2)] that
    by (simp add: smoke_setup_def notify_add_target_def smoke_url_ok user_ids_def ins_defs Let_def)
qed

text \<open>A new account has no preferences and no webhook but its own: every foreign key points to an account that exists.\<close>

lemma fresh_id_unused:
  assumes "db_inv d"
  shows "map_of (prefs d) (seq_users d + 1) = None" and "filter (\<lambda>t. ntUserID t = seq_users d + 1 \<and> ntEnabled t) (targets d) = []"
proof -
  have "seq_users d + 1 \<notin> user_ids d"
    using db_invD(1) [OF assms] by (force simp: users_ok_def table_ok_def user_ids_def)
  with db_invD(8,9) [OF assms] show "map_of (prefs d) (seq_users d + 1) = None"
    "filter (\<lambda>t. ntUserID t = seq_users d + 1 \<and> ntEnabled t) (targets d) = []"
    by (auto simp: prefs_ok_def targets_ok_def map_of_eq_None_iff filter_empty_conv)
qed

text \<open>On any database without an account alice the check makes exactly one request, to the webhook it has set up, from whose
  body the receiver reads the title and the text of its event, and it succeeds iff the sidecar passes that request on;
  on a database that has alice it fails at once.\<close>

theorem smoke_test_round_trip:
  assumes "db_inv d" and "url_ok smokeURL"
  shows "if user_name_taken ''alice'' d then bbsmoke sidecar url_ok now d = (2, None)
    else \<exists>r. rqURL r = smokeURL \<and> rqMethod r = ''POST''
      \<and> json_parse (payload_json (rqBody r)) = Some (JObject [(''title'', JString (to_valid (evTitle (smoke_event 0)))),
          (''body'', JString (to_valid (evBody (smoke_event 0))))])
      \<and> bbsmoke sidecar url_ok now d = (case sidecar r of None \<Rightarrow> (1, None) | Some body \<Rightarrow> (0, Some body))"
proof (cases "user_name_taken ''alice'' d")
  case True
  then show ?thesis by (simp add: bbsmoke_def smoke_setup_def users_create_taken)
next
  case False
  let ?i = "seq_users d + 1" and ?t = "new_target (seq_users d + 1) ''apprise-smoke'' smokeURL now (seq_targets d + 1)"
  obtain d1 where d1: "smoke_setup now d = (Inr ?i, d1)" "prefs d1 = prefs d" "targets d1 = targets d @ [?t]"
    using smoke_setup_spec [OF assms(1) False] by blast
  obtain r where r: "build_request url_ok ?t (smoke_event ?i) = Some r" using build_request_ok [of url_ok ?t "smoke_event ?i"] assms(2) by auto
  have "plBusy (pool_take (pool_dispatch (smoke_event ?i) started)) = [smoke_event ?i]"
    by (simp add: pool_take_def pool_dispatch_def started_def new_manager_def dispatch_def dispatch_check_def dispatch_send_def
        defaultQueue_def worker_take_def Let_def)
  moreover have "deliver url_ok (Some (\<lambda>u. broker_is_online u new_broker)) d1 (smoke_event ?i) = [r]"
    using fresh_id_unused [OF assms(1)] r
    by (simp add: deliver_def notify_get_prefs_def notify_list_enabled_targets_def d1 default_notify_prefs_def prefs_allow_def
        smoke_event_def sort_by_def List.map_filter_simps Let_def)
  ultimately have "bbsmoke sidecar url_ok now d = (case sidecar r of None \<Rightarrow> (1, None) | Some body \<Rightarrow> (0, Some body))"
    by (simp add: bbsmoke_def d1(1) List.map_filter_simps split: option.split)
  moreover have "rqURL r = smokeURL" "rqMethod r = ''POST''" using build_request_url [OF r] by simp_all
  moreover have "json_parse (payload_json (rqBody r)) = Some (JObject [(''title'', JString (to_valid (evTitle (smoke_event 0)))),
      (''body'', JString (to_valid (evBody (smoke_event 0))))])"
    using apprise_body [OF r] smoke_url_ok(3) by (simp add: smoke_event_def)
  ultimately show ?thesis using False by auto
qed

lemma smoke_test_round_trip_witness:
  "bbsmoke (\<lambda>r. None) (\<lambda>u. True) demo_now demo_db = (2, None) \<and> fst (bbsmoke (\<lambda>r. Some (rqURL r)) (\<lambda>u. True) demo_now empty_db) = 0"
proof -
  have "user_name_taken ''alice'' demo_db" "\<not> user_name_taken ''alice'' empty_db"
    by (simp_all add: user_name_taken_def demo_db_def empty_db_def demo_user_def new_user_def)
  with smoke_test_round_trip [OF demo_db_inv, of "\<lambda>u. True" "\<lambda>r. None" demo_now]
    smoke_test_round_trip [OF db_inv_empty, of "\<lambda>u. True" "\<lambda>r. Some (rqURL r)" demo_now] show ?thesis by auto
qed

section \<open>The whole program\<close>

text \<open>The program opens a new file in a temporary directory, once it can listen.\<close>

definition smoke_main :: "bool \<Rightarrow> (http_request \<Rightarrow> string option) \<Rightarrow> (string \<Rightarrow> bool) \<Rightarrow> timestamp \<Rightarrow> int \<times> string option" where
  "smoke_main listens sidecar url_ok now =
    (if \<not> listens then (2, None)
     else case store_open now new_file of
       (Inl e, m) \<Rightarrow> (2, None)
     | (Inr _, m) \<Rightarrow>
         (case db_of_sql (migData m) of None \<Rightarrow> (2, None) | Some d \<Rightarrow> bbsmoke sidecar url_ok now d))"

lemma smoke_main_opens: "smoke_main True sidecar url_ok now = bbsmoke sidecar url_ok now (snd (boards_seed_defaults now empty_db))"
proof -
  obtain vs where "store_open now new_file = (Inr (), file_of vs (snd (boards_seed_defaults now empty_db)))"
    using new_file_opens [of now] by blast
  then show ?thesis by (simp add: smoke_main_def db_of_sql_of)
qed

end
