(* ===== verification/ExportImport.thy ===== *)
theory ExportImport
  imports Seed RootProps
begin

text \<open>
  From the export screen to the import command: the file that \<open>screen_article_export.go\<close> writes is one that
  \<open>cmd_import.go\<close> turns back into the article.
\<close>

text \<open>What the screen shows is the document of its article.\<close>

definition export_opts :: "article_export \<Rightarrow> format_opts" where
  "export_opts m = \<lparr>foIncludePushes = axIncludePushes m, foBoardName = (case axBoard m of None \<Rightarrow> [] | Some b \<Rightarrow> bName b)\<rparr>"

definition shows_document :: "article_export \<Rightarrow> bool" where
  "shows_document m \<longleftrightarrow> axLoadErr m = NoErr \<and> axArticle m \<noteq> None \<and> format_article (axArticle m) (axPushes m) (export_opts m) = Some (axRendered m)"

lemma export_rerender_sel [simp]:
  "axArticleID (export_rerender m) = axArticleID m" "axArticle (export_rerender m) = axArticle m"
  "axPushes (export_rerender m) = axPushes m" "axBoard (export_rerender m) = axBoard m"
  "axIncludePushes (export_rerender m) = axIncludePushes m" "axLoadErr (export_rerender m) = axLoadErr m"
  by (simp_all add: export_rerender_def split: option.split)

lemma shows_document_upd [simp]:
  "shows_document (m\<lparr>axScroll := s\<rparr>) = shows_document m" "shows_document (m\<lparr>axStatusLine := t\<rparr>) = shows_document m"
  "shows_document (m\<lparr>axWidth := x\<rparr>) = shows_document m" "shows_document (m\<lparr>axHeight := y\<rparr>) = shows_document m"
  by (simp_all add: shows_document_def export_opts_def)

lemma rerender_writes:
  assumes "axArticle m = Some a"
  obtains out where "format_article (Some a) (axPushes m) (export_opts m) = Some out" and "export_rerender m = m\<lparr>axRendered := out\<rparr>"
proof -
  obtain out where "format_article (Some a) (axPushes m) (export_opts m) = Some out" by (simp add: format_article_def Let_def)
  with assms that show ?thesis by (simp add: export_rerender_def export_opts_def)
qed

lemma shows_document_rerender:
  assumes "axLoadErr m = NoErr" and "axArticle m \<noteq> None"
  shows "shows_document (export_rerender m)"
proof -
  from assms(2) obtain a where a: "axArticle m = Some a" by blast
  show ?thesis using a assms(1) by (rule_tac rerender_writes [OF a]) (simp add: shows_document_def export_opts_def)
qed

lemma new_export_shows: "articles_get_by_id i (seDB w) = Inr a \<Longrightarrow> shows_document (new_article_export i w)"
  unfolding new_article_export_def Let_def by (simp add: shows_document_rerender)

text \<open>What an update keeps: the article, and that its document is shown.\<close>

definition same_export :: "article_export \<Rightarrow> article_export \<Rightarrow> bool" where
  "same_export m m' \<longleftrightarrow> shows_document m' \<and> axArticleID m' = axArticleID m \<and> axArticle m' = axArticle m
     \<and> axPushes m' = axPushes m \<and> axBoard m' = axBoard m"

definition keeps_export :: "article_export \<Rightarrow> article_export updated \<Rightarrow> bool" where
  "keeps_export m u \<longleftrightarrow> (shows_document m \<longrightarrow> same_export m (fst (fst u)))"

lemma same_export_upd [intro]:
  "shows_document m \<Longrightarrow> same_export m m"
  "shows_document m \<Longrightarrow> same_export m (m\<lparr>axScroll := s\<rparr>)"
  "shows_document m \<Longrightarrow> same_export m (m\<lparr>axStatusLine := t\<rparr>)"
  "shows_document m \<Longrightarrow> same_export m (m\<lparr>axWidth := x, axHeight := y\<rparr>)"
  "shows_document m \<Longrightarrow> same_export m ((export_rerender (m\<lparr>axIncludePushes := p\<rparr>))\<lparr>axScroll := s, axStatusLine := t\<rparr>)"
  by (auto simp: same_export_def intro!: shows_document_rerender) (simp_all add: shows_document_def)

lemma keeps_rules:
  "keeps_export m u \<Longrightarrow> keeps_export m v \<Longrightarrow> keeps_export m (if q then u else v)"
  "(shows_document m \<Longrightarrow> same_export m m') \<Longrightarrow> keeps_export m (stay m' w)"
  "(shows_document m \<Longrightarrow> same_export m m') \<Longrightarrow> keeps_export m (goto n m' w)"
  "keeps_export m u \<Longrightarrow> (\<And>x. keeps_export m (f x)) \<Longrightarrow> keeps_export m (case y of None \<Rightarrow> u | Some x \<Rightarrow> f x)"
  by (auto simp: keeps_export_def stay_def goto_def split: option.split)

lemma keeps_key: "keeps_export m (export_key L key m w)"
  unfolding export_key_def export_write_to_disk_def export_copy_def Let_def
  by (intro keeps_rules) (auto intro: same_export_upd)

lemma export_step_shows:
  assumes "shows_document m"
  shows "same_export m (fst (fst (article_export_update L msg m w)))"
proof -
  have "keeps_export m (article_export_update L msg m w)"
    unfolding article_export_update_def by (cases msg) (auto intro!: keeps_rules keeps_key)
  with assms show ?thesis by (simp add: keeps_export_def)
qed

fun export_run :: "'i lib \<Rightarrow> tui_msg list \<Rightarrow> article_export \<Rightarrow> session_state \<Rightarrow> article_export \<times> session_state" where
  "export_run L [] m w = (m, w)"
| "export_run L (msg # msgs) m w = (case article_export_update L msg m w of ((m1, _), w1) \<Rightarrow> export_run L msgs m1 w1)"

lemma export_run_shows:
  "shows_document m \<Longrightarrow> export_run L msgs m w = (m', w') \<Longrightarrow> same_export m m'"
proof (induction msgs arbitrary: m w)
  case (Cons msg msgs)
  obtain m1 c w1 where one: "article_export_update L msg m w = ((m1, c), w1)" by (metis prod.exhaust)
  with export_step_shows [OF Cons.prems(1), of L msg w] have 1: "same_export m m1" by simp
  from Cons.prems(2) one have "export_run L msgs m1 w1 = (m', w')" by simp
  moreover have "shows_document m1" using 1 by (simp add: same_export_def)
  ultimately have "same_export m1 m'" using Cons.IH by blast
  with 1 show ?case by (simp add: same_export_def)
qed auto

lemma document_parses:
  assumes "shows_document m" and "axArticle m = Some a" and "article_clean a (export_opts m)" and "\<forall>p \<in> set (axPushes m). push_clean p"
  shows "mdTitle (parse_markdown (axRendered m)) = aTitle a \<and> mdBoardName (parse_markdown (axRendered m)) = foBoardName (export_opts m)
    \<and> mdBody (parse_markdown (axRendered m)) = aBody a"
  using export_parses_back [OF assms(3,4)] assms(1,2) by (simp add: shows_document_def read_back_def)

lemma run_import_created:
  assumes "articles_ok d" and "ifFile f \<noteq> []" and "read (import_path (ifFile f)) = Some body" and "mdTitle (parse_markdown body) \<noteq> []"
    and "ifBoard f = []" and "mdBoardName (parse_markdown body) \<noteq> []"
    and "users_get_by_user_id (ifAuthor f) d = Inr u" and "boards_get_by_name (mdBoardName (parse_markdown body)) d = Inr b"
  shows "run_import read f now d =
    (0, d\<lparr>articles := articles d @ [new_article (bID b) (uID u) (uUserID u) (mdTitle (parse_markdown body)) (mdBody (parse_markdown body)) now (seq_articles d + 1)],
          seq_articles := seq_articles d + 1\<rparr>)"
proof -
  have "bID b \<in> board_ids d" "uID u \<in> user_ids d"
    using get_by_user_id_Inr [OF assms(7)] boards_get_by_name_Inr [OF assms(8)] by (auto simp: board_ids_def user_ids_def)
  from articles_create_spec [OF assms(1) this] assms(2-8) show ?thesis by (simp add: run_import_def Let_def)
qed

text \<open>C13: after any input on the export screen, with or without the pushes, the key 3 of a member writes one file, and
  the import command on that file, run later on a database that has the board and the author it is given, succeeds and appends
  one article to that board with exactly the title and the body of the exported one, under the new
  author; nothing else changes. The exported article needs fields that survive the document (\<open>article_clean\<close>), a
  title, and a board.\<close>

theorem export_then_import:
  assumes "articles_get_by_id i (seDB w0) = Inr a" and "export_run L msgs (new_article_export i w0) w0 = (m, w)"
    and "aTitle a \<noteq> []" and "axBoard m = Some b" and "bName b \<noteq> []"
    and "article_clean a (export_opts m)" and "\<forall>p \<in> set (axPushes m). push_clean p"
    and "seUser w = Some u" and "uRole u \<noteq> RoleGuest" and "osMkdirAll L (''data/exports/'' @ uUserID u) = None"
    and "osWriteFile L (export_path u i (seNow w)) (axRendered m) = None"
    and "article_export_update L (KeyMsg ''3'') m w = ((m', c), w')"
    and "articles_ok d" and "users_get_by_user_id author d = Inr v" and "boards_get_by_name (bName b) d = Inr b'"
    and "ifFile f \<noteq> []" and "ifBoard f = []" and "ifAuthor f = author"
    and "\<forall>doc. seFiles w' = seFiles w @ [(export_path u i (seNow w), doc)] \<longrightarrow> read (import_path (ifFile f)) = Some doc"
  shows "run_import read f now d =
    (0, d\<lparr>articles := articles d @ [new_article (bID b') (uID v) (uUserID v) (aTitle a) (aBody a) now (seq_articles d + 1)],
          seq_articles := seq_articles d + 1\<rparr>)"
proof -
  have "axArticle (new_article_export i w0) = Some a" "axArticleID (new_article_export i w0) = i"
    using assms(1) by (simp_all add: new_article_export_def Let_def)
  with export_run_shows [OF new_export_shows [OF assms(1)] assms(2)]
  have m: "shows_document m" "axArticle m = Some a" and id: "axArticleID m = i" by (simp_all add: same_export_def)
  have doc: "mdTitle (parse_markdown (axRendered m)) = aTitle a" "mdBoardName (parse_markdown (axRendered m)) = bName b"
    "mdBody (parse_markdown (axRendered m)) = aBody a"
    using document_parses [OF m assms(6,7)] assms(4) by (simp_all add: export_opts_def)
  have "seFiles w' = seFiles w @ [(export_path u i (seNow w), axRendered m)]"
    using assms(8-12) m(1) id by (auto simp: article_export_update_def export_key_def export_write_to_disk_def stay_def Let_def shows_document_def)
  with assms(19) have "read (import_path (ifFile f)) = Some (axRendered m)" by blast
  with run_import_created [where body = "axRendered m" and read = read and f = f and d = d and u = v and b = b'] doc
    assms(3,5,13-18) show ?thesis by simp
qed
text \<open>Alice exports an article of bob with its pushes and the file is imported for bob.\<close>

lemma demo_export_clean:
  "article_clean (new_article 1 2 ''bob'' ''second'' ''body'' (TS 2026 4 2 0 0 0) 2) \<lparr>foIncludePushes = p, foBoardName = ''Welcome''\<rparr>"
proof -
  have "clean_value ''second''" "clean_value ''Welcome''" "clean_value ''bob''" "body_clean ''body''" by code_simp+
  then show ?thesis
    by (simp add: article_clean_def new_article_def civil_utc_def days_in_def is_leap_def int64_def)
qed

definition demo_export :: article_export where
  "demo_export = (export_rerender ((new_article_export 2 demo_state)\<lparr>axIncludePushes := True\<rparr>))\<lparr>axScroll := 0, axStatusLine := []\<rparr>"

lemma export_then_import_witness:
  "\<exists>read. run_import read \<lparr>ifFile = ''post.md'', ifBoard = [], ifAuthor = ''BOB'', ifDB = ''data/bbs.db''\<rparr> demo_now demo_db =
    (0, demo_db\<lparr>articles := articles demo_db @ [new_article 1 2 ''bob'' ''second'' ''body'' demo_now 5], seq_articles := 5\<rparr>)"
proof -
  let ?a = "new_article 1 2 ''bob'' ''second'' ''body'' (TS 2026 4 2 0 0 0) 2" and ?b = "new_board ''Welcome'' ''W'' ''d'' demo_now 1"
  let ?read = "\<lambda>p. Some (axRendered demo_export)" and ?f = "\<lparr>ifFile = ''post.md'', ifBoard = [], ifAuthor = ''BOB'', ifDB = ''data/bbs.db''\<rparr>"
  have a: "articles_get_by_id 2 (seDB demo_state) = Inr ?a"
    by (simp add: articles_get_by_id_def demo_db_def new_article_def find_row_def)
  have b: "boards_get_by_id 1 demo_db = Inr ?b" by (simp add: boards_get_by_id_def demo_db_def new_board_def find_row_def)
  have ps: "pushes_list_by_article 2 demo_db = []" by (simp add: pushes_list_by_article_def demo_db_def new_push_def sort_by_def)
  have new: "axLoadErr (new_article_export 2 demo_state) = NoErr" using a by (simp add: new_article_export_def Let_def)
  have m: "axArticleID demo_export = 2" "axBoard demo_export = Some ?b" "axPushes demo_export = []" "axIncludePushes demo_export"
    using a b ps by (simp_all add: demo_export_def new_article_export_def Let_def new_article_def)
  have run: "export_run demo_lib [KeyMsg ''2''] (new_article_export 2 demo_state) demo_state = (demo_export, demo_state)"
    using new by (simp add: article_export_update_def export_key_def demo_export_def stay_def)
  have opts: "export_opts demo_export = \<lparr>foIncludePushes = True, foBoardName = ''Welcome''\<rparr>"
    using m by (simp add: export_opts_def new_board_def)
  have os: "osMkdirAll demo_lib p = None" "osWriteFile demo_lib p t = None" for p t by (simp_all add: demo_lib_def)
  have role: "uRole (demo_user 1 ''alice'') \<noteq> RoleGuest" by (simp add: demo_user_def new_user_def role_defs)
  obtain m' c w' where upd: "article_export_update demo_lib (KeyMsg ''3'') demo_export demo_state = ((m', c), w')" by (metis prod.exhaust)
  moreover have "axLoadErr demo_export = NoErr" using new by (simp add: demo_export_def)
  ultimately have "seFiles w' = seFiles demo_state @ [(export_path (demo_user 1 ''alice'') 2 (seNow demo_state), axRendered demo_export)]"
    using m(1) by (auto simp: article_export_update_def export_key_def export_write_to_disk_def stay_def Let_def os role)
  then have files: "\<forall>doc. seFiles w' = seFiles demo_state @ [(export_path (demo_user 1 ''alice'') 2 (seNow demo_state), doc)] \<longrightarrow>
      ?read (import_path (ifFile ?f)) = Some doc" by simp
  have arts: "articles_ok demo_db" using db_invD(3) [OF demo_db_inv] .
  have u: "users_get_by_user_id ''BOB'' demo_db = Inr (demo_user 2 ''bob'')"
  proof -
    have "nocase ''bob'' = nocase ''BOB''" by code_simp
    then show ?thesis
      unfolding get_by_user_id_iff [OF db_invD(1) [OF demo_db_inv]] by (simp add: demo_db_def demo_user_def new_user_def)
  qed
  have bd: "boards_get_by_name (bName ?b) demo_db = Inr ?b"
    by (simp add: boards_get_by_name_def demo_db_def new_board_def)
  have t: "aTitle ?a \<noteq> []" "bName ?b \<noteq> []" by (simp_all add: new_article_def new_board_def)
  have "run_import ?read ?f demo_now demo_db = (0, demo_db\<lparr>articles := articles demo_db @
      [new_article (bID ?b) (uID (demo_user 2 ''bob'')) (uUserID (demo_user 2 ''bob'')) (aTitle ?a) (aBody ?a) demo_now (seq_articles demo_db + 1)],
      seq_articles := seq_articles demo_db + 1\<rparr>)"
    by (rule export_then_import [OF a run _ m(2) _ _ _ _ _ _ _ upd arts u bd _ _ _ files])
       (simp_all add: opts demo_export_clean m os role t)
  then show ?thesis
    by (intro exI [of _ ?read]) (simp add: new_article_def new_board_def demo_user_def new_user_def demo_db_def)
qed

end
