(* ===== verification/RoleRace.thy ===== *)
theory RoleRace
  imports ScreenProps
begin

text \<open>
  The user administration of several administrators at once. \<open>applyRole\<close> counts the administrators and then
  writes the role, two statements without a common lock or transaction.
\<close>

text \<open>
  A role change under way: the session it comes from, the row it was pressed on, the new role, and whether the guard has let it
  pass. A session handles one key at a time and keeps the rows it loaded last, however old they are.
\<close>

record role_change =
  rcBy :: nat
  rcUser :: user
  rcRole :: role
  rcPassed :: bool

record role_state =
  rsDB :: db
  rsPages :: "nat \<Rightarrow> user list"
  rsChanges :: "role_change list"

definition load_page :: "nat \<Rightarrow> int \<Rightarrow> role_state \<Rightarrow> role_state" where
  "load_page k off s = s\<lparr>rsPages := (rsPages s)(k := users_list_all adminUsersPageSize off (rsDB s))\<rparr>"

text \<open>The row is as it is stored, as far as the guard reads it.\<close>

definition shown_as_stored :: "user \<Rightarrow> db \<Rightarrow> bool" where
  "shown_as_stored u d \<longleftrightarrow> (case users_get_by_id (uID u) d of Inl _ \<Rightarrow> False | Inr v \<Rightarrow> uRole v = uRole u)"

text \<open>
  A session loads a page; a key is pressed on a row of the page; the guard is asked; the write follows and the page is loaded again.
  With \<open>fresh\<close> keys are only pressed on rows that are as they are stored, with \<open>quiet\<close> only while no other change is under
  way; the code demands neither.
\<close>

inductive role_step :: "bool \<Rightarrow> bool \<Rightarrow> role_state \<Rightarrow> role_state \<Rightarrow> bool" for fresh quiet where
  loaded: "role_step fresh quiet s (load_page k off s)"
| pressed: "u \<in> set (rsPages s k) \<Longrightarrow> role_valid target \<Longrightarrow> k \<notin> rcBy ` set (rsChanges s) \<Longrightarrow>
    fresh \<longrightarrow> shown_as_stored u (rsDB s) \<Longrightarrow> quiet \<longrightarrow> rsChanges s = [] \<Longrightarrow>
    role_step fresh quiet s (s\<lparr>rsChanges := rsChanges s @ [\<lparr>rcBy = k, rcUser = u, rcRole = target, rcPassed = False\<rparr>]\<rparr>)"
| refused: "rsChanges s = xs @ c # ys \<Longrightarrow> \<not> rcPassed c \<Longrightarrow> role_stops (rcUser c) (rcRole c) (rsDB s) \<Longrightarrow>
    role_step fresh quiet s (s\<lparr>rsChanges := xs @ ys\<rparr>)"
| passed: "rsChanges s = xs @ c # ys \<Longrightarrow> \<not> rcPassed c \<Longrightarrow> \<not> role_stops (rcUser c) (rcRole c) (rsDB s) \<Longrightarrow>
    role_step fresh quiet s (s\<lparr>rsChanges := xs @ c\<lparr>rcPassed := True\<rparr> # ys\<rparr>)"
| written: "rsChanges s = xs @ c # ys \<Longrightarrow> rcPassed c \<Longrightarrow>
    role_step fresh quiet s
      (load_page (rcBy c) off (s\<lparr>rsDB := snd (users_set_role (uID (rcUser c)) (rcRole c) (rsDB s)), rsChanges := xs @ ys\<rparr>))"

inductive role_run :: "bool \<Rightarrow> bool \<Rightarrow> role_state \<Rightarrow> role_state \<Rightarrow> bool" for fresh quiet where
  here: "role_run fresh quiet x x"
| further: "role_run fresh quiet x y \<Longrightarrow> role_step fresh quiet y z \<Longrightarrow> role_run fresh quiet x z"

lemma load_page_sel [simp]:
  "rsDB (load_page k off s) = rsDB s" "rsChanges (load_page k off s) = rsChanges s"
  "rsPages (load_page k off s) = (rsPages s)(k := users_list_all adminUsersPageSize off (rsDB s))"
  by (simp_all add: load_page_def)

lemma role_run_trans: "role_run F Q y z \<Longrightarrow> role_run F Q x y \<Longrightarrow> role_run F Q x z"
  by (induction rule: role_run.induct) (auto intro: role_run.further)

text \<open>Alone and on a fresh row, a change is decided and written on the same database.\<close>

definition alone :: "role_state \<Rightarrow> bool" where
  "alone s \<longleftrightarrow> users_ok (rsDB s) \<and> has_admin (rsDB s) \<and>
     (rsChanges s = [] \<or> (\<exists>c. rsChanges s = [c] \<and> shown_as_stored (rcUser c) (rsDB s) \<and> role_valid (rcRole c)
        \<and> (rcPassed c \<longrightarrow> \<not> role_stops (rcUser c) (rcRole c) (rsDB s))))"

lemma passed_write_keeps_admin:
  assumes "users_ok d" and "has_admin d" and "shown_as_stored u d" and "role_valid r" and "\<not> role_stops u r d"
  shows "has_admin (snd (users_set_role (uID u) r d))"
proof -
  obtain v where get: "users_get_by_id (uID u) d = Inr v" and role: "uRole v = uRole u"
    using assms(3) by (auto simp: shown_as_stored_def split: sum.splits)
  then have v: "v \<in> set (users d)" "uID v = uID u" using get_by_id_Inr [OF get] by simp_all
  have same: "x \<in> set (users d) \<Longrightarrow> uID x = uID u \<Longrightarrow> x = v" for x
    using v assms(1) by (auto simp: users_ok_def intro: distinct_key_eq [OF table_ok_distinct])
  have "\<exists>x \<in> set (users d). if uID x = uID u then r = RoleAdmin else uRole x = RoleAdmin"
  proof (cases "r = RoleAdmin")
    case True
    with v show ?thesis by auto
  next
    case False
    show ?thesis
    proof (cases "uRole u = RoleAdmin")
      case True
      with False assms(5) another_admin [OF _ assms(1), of "uID u"] show ?thesis by (force simp: role_stops_def)
    next
      case other: False
      from assms(2) obtain x where "x \<in> set (users d)" "uRole x = RoleAdmin" by (auto simp: has_admin_def)
      moreover from this other same role have "uID x \<noteq> uID u" by metis
      ultimately show ?thesis by auto
    qed
  qed
  with has_admin_set_role [OF assms(4)] show ?thesis by simp
qed

lemma alone_step: "role_step True True x y \<Longrightarrow> alone x \<Longrightarrow> alone y"
proof (induction rule: role_step.induct)
  case (written s xs c ys off)
  then have "has_admin (snd (users_set_role (uID (rcUser c)) (rcRole c) (rsDB s)))"
    by (intro passed_write_keeps_admin) (auto simp: alone_def append_eq_Cons_conv Cons_eq_append_conv)
  with written show ?case by (auto simp: alone_def append_eq_Cons_conv Cons_eq_append_conv users_write_ok)
qed (auto simp: alone_def append_eq_Cons_conv Cons_eq_append_conv)

lemma alone_run: "role_run True True x y \<Longrightarrow> alone x \<Longrightarrow> alone y"
  by (induction rule: role_run.induct) (auto intro: alone_step)

text \<open>A change from its key to its write, with nothing in between.\<close>

definition changed :: "nat \<Rightarrow> user \<Rightarrow> role \<Rightarrow> role_state \<Rightarrow> role_state" where
  "changed k u r s = load_page k 0 (s\<lparr>rsDB := snd (users_set_role (uID u) r (rsDB s)), rsChanges := []\<rparr>)"

lemma whole_change:
  assumes "u \<in> set (rsPages s k)" and "role_valid r" and "rsChanges s = []" and "F \<longrightarrow> shown_as_stored u (rsDB s)"
    and "\<not> role_stops u r (rsDB s)"
  shows "role_run F Q s (changed k u r s)"
proof -
  let ?c = "\<lparr>rcBy = k, rcUser = u, rcRole = r, rcPassed = False\<rparr>"
  have 1: "role_step F Q s (s\<lparr>rsChanges := [?c]\<rparr>)" using role_step.pressed [of u s k r F Q] assms by simp
  have 2: "role_step F Q (s\<lparr>rsChanges := [?c]\<rparr>) (s\<lparr>rsChanges := [?c\<lparr>rcPassed := True\<rparr>]\<rparr>)"
    using role_step.passed [of "s\<lparr>rsChanges := [?c]\<rparr>" "[]" ?c "[]" F Q] assms(5) by simp
  have 3: "role_step F Q (s\<lparr>rsChanges := [?c\<lparr>rcPassed := True\<rparr>]\<rparr>) (changed k u r s)"
    using role_step.written [of "s\<lparr>rsChanges := [?c\<lparr>rcPassed := True\<rparr>]\<rparr>" "[]" "?c\<lparr>rcPassed := True\<rparr>" "[]" F Q 0] by (simp add: changed_def)
  show ?thesis by (rule role_run.further [OF role_run.further [OF role_run.further [OF role_run.here 1] 2] 3])
qed

text \<open>Two accounts and nobody else, opened in the administration by nobody yet.\<close>

definition board_of_two :: "role \<Rightarrow> role \<Rightarrow> db" where
  "board_of_two r r' = empty_db\<lparr>users := [(demo_user 1 ''alice'')\<lparr>uRole := r\<rparr>, (demo_user 2 ''bob'')\<lparr>uRole := r'\<rparr>], seq_users := 2\<rparr>"

definition unopened :: "db \<Rightarrow> role_state" where
  "unopened d = \<lparr>rsDB = d, rsPages = (\<lambda>_. []), rsChanges = []\<rparr>"

lemma unopened_sel [simp]: "rsDB (unopened d) = d" "rsPages (unopened d) = (\<lambda>_. [])" "rsChanges (unopened d) = []"
  by (simp_all add: unopened_def)

lemma two_ok: "role_valid r \<Longrightarrow> role_valid r' \<Longrightarrow> users_ok (board_of_two r r')"
proof -
  have "nocase ''alice'' \<noteq> nocase ''bob''" by code_simp
  then show "role_valid r \<Longrightarrow> role_valid r' \<Longrightarrow> users_ok (board_of_two r r')"
    by (simp add: users_ok_def board_of_two_def table_ok_def demo_user_def new_user_def)
qed

lemma two_facts [simp]:
  "users_list_all adminUsersPageSize 0 (board_of_two r r') = [(demo_user 1 ''alice'')\<lparr>uRole := r\<rparr>, (demo_user 2 ''bob'')\<lparr>uRole := r'\<rparr>]"
  "role_valid q \<Longrightarrow> snd (users_set_role 1 q (board_of_two r r')) = board_of_two q r'"
  "role_valid q \<Longrightarrow> snd (users_set_role 2 q (board_of_two r r')) = board_of_two r q"
  "has_admin (board_of_two r r') \<longleftrightarrow> r = RoleAdmin \<or> r' = RoleAdmin"
  "users_count_by_role q (board_of_two r r') = (if r = q then 1 else 0) + (if r' = q then 1 else 0)"
  "uID (demo_user i n) = i"
  by (simp_all add: users_list_all_def board_of_two_def adminUsersPageSize_def sort_by_def by_asc_def demo_user_def new_user_def
      users_set_role_def update_rows_def has_admin_def users_count_by_role_def)

lemma two_stored [simp]:
  "shown_as_stored ((demo_user 1 n)\<lparr>uRole := q\<rparr>) (board_of_two r r') \<longleftrightarrow> r = q"
  "shown_as_stored ((demo_user 2 n)\<lparr>uRole := q\<rparr>) (board_of_two r r') \<longleftrightarrow> r' = q"
  by (simp_all add: shown_as_stored_def users_get_by_id_def find_row_def board_of_two_def demo_user_def new_user_def)


lemma demoting_each_other:
  "\<exists>s. role_run True False (unopened (board_of_two RoleAdmin RoleAdmin)) s \<and> rsChanges s = [] \<and> \<not> has_admin (rsDB s)"
proof -
  let ?d = "board_of_two RoleAdmin RoleAdmin"
  let ?a = "(demo_user 1 ''alice'')\<lparr>uRole := RoleAdmin\<rparr>" and ?b = "(demo_user 2 ''bob'')\<lparr>uRole := RoleAdmin\<rparr>"
  let ?ca = "\<lparr>rcBy = 1, rcUser = ?b, rcRole = RoleUser, rcPassed = False\<rparr>" and ?cb = "\<lparr>rcBy = 2, rcUser = ?a, rcRole = RoleUser, rcPassed = False\<rparr>"
  let ?s = "load_page 2 0 (load_page 1 0 (unopened ?d))"
  have free: "\<not> role_stops ?b RoleUser ?d" "\<not> role_stops ?a RoleUser ?d" by (simp_all add: role_stops_def role_defs)
  have opened: "role_run True False (unopened ?d) ?s"
    by (rule role_run.further [OF role_run.further [OF role_run.here role_step.loaded] role_step.loaded])
  have 1: "role_step True False ?s (?s\<lparr>rsChanges := [?ca]\<rparr>)"
    using role_step.pressed [of ?b ?s 1 RoleUser True False] by simp
  have 2: "role_step True False (?s\<lparr>rsChanges := [?ca]\<rparr>) (?s\<lparr>rsChanges := [?ca, ?cb]\<rparr>)"
    using role_step.pressed [of ?a "?s\<lparr>rsChanges := [?ca]\<rparr>" 2 RoleUser True False] by simp
  have 3: "role_step True False (?s\<lparr>rsChanges := [?ca, ?cb]\<rparr>) (?s\<lparr>rsChanges := [?ca\<lparr>rcPassed := True\<rparr>, ?cb]\<rparr>)"
    using role_step.passed [of "?s\<lparr>rsChanges := [?ca, ?cb]\<rparr>" "[]" ?ca "[?cb]" True False] free by simp
  let ?s4 = "?s\<lparr>rsChanges := [?ca\<lparr>rcPassed := True\<rparr>, ?cb\<lparr>rcPassed := True\<rparr>]\<rparr>"
  have 4: "role_step True False (?s\<lparr>rsChanges := [?ca\<lparr>rcPassed := True\<rparr>, ?cb]\<rparr>) ?s4"
    using role_step.passed [of "?s\<lparr>rsChanges := [?ca\<lparr>rcPassed := True\<rparr>, ?cb]\<rparr>" "[?ca\<lparr>rcPassed := True\<rparr>]" ?cb "[]" True False] free by simp
  obtain s5 where 5: "role_step True False ?s4 s5" "rsDB s5 = board_of_two RoleAdmin RoleUser" "rsChanges s5 = [?cb\<lparr>rcPassed := True\<rparr>]"
    using role_step.written [of ?s4 "[]" "?ca\<lparr>rcPassed := True\<rparr>" "[?cb\<lparr>rcPassed := True\<rparr>]" True False 0] by force
  obtain s6 where 6: "role_step True False s5 s6" "rsDB s6 = board_of_two RoleUser RoleUser" "rsChanges s6 = []"
    using role_step.written [of s5 "[]" "?cb\<lparr>rcPassed := True\<rparr>" "[]" True False 0] 5(2,3) by force
  have "role_run True False (unopened ?d) s6"
    by (rule role_run.further [OF role_run.further [OF role_run.further [OF role_run.further [OF role_run.further
          [OF role_run.further [OF opened 1] 2] 3] 4] 5(1)] 6(1)])
  with 6 show ?thesis by (auto simp: role_defs)
qed

lemma demoting_from_old_page:
  "\<exists>s. role_run False True (unopened (board_of_two RoleAdmin RoleUser)) s \<and> rsChanges s = [] \<and> \<not> has_admin (rsDB s)"
proof -
  let ?d = "board_of_two RoleAdmin RoleUser"
  let ?a = "(demo_user 1 ''alice'')\<lparr>uRole := RoleAdmin\<rparr>" and ?b = "(demo_user 2 ''bob'')\<lparr>uRole := RoleUser\<rparr>"
  let ?s = "load_page 2 0 (load_page 1 0 (unopened ?d))"
  let ?s1 = "changed 2 ?b RoleAdmin ?s"
  let ?s2 = "changed 2 ?a RoleUser ?s1"
  let ?s3 = "changed 1 ?b RoleGuest ?s2"
  have opened: "role_run False True (unopened ?d) ?s"
    by (rule role_run.further [OF role_run.further [OF role_run.here role_step.loaded] role_step.loaded])
  have s1: "rsDB ?s1 = board_of_two RoleAdmin RoleAdmin" "rsChanges ?s1 = []" "rsPages ?s1 1 = [?a, ?b]"
    "rsPages ?s1 2 = [?a, ?b\<lparr>uRole := RoleAdmin\<rparr>]" by (simp_all add: changed_def)
  have s2: "rsDB ?s2 = board_of_two RoleUser RoleAdmin" "rsChanges ?s2 = []" "rsPages ?s2 1 = [?a, ?b]"
    using s1 by (simp_all add: changed_def)
  have s3: "rsDB ?s3 = board_of_two RoleUser RoleGuest" "rsChanges ?s3 = []"
    using s2 by (simp_all add: changed_def)
  have "role_run False True ?s ?s1" by (rule whole_change) (simp_all add: role_valid_iff role_stops_def role_defs)
  moreover have "role_run False True ?s1 ?s2"
    by (rule whole_change) (simp_all only: s1, simp_all add: role_valid_iff role_stops_def role_defs)
  moreover have "role_run False True ?s2 ?s3"
    by (rule whole_change) (simp_all only: s2, simp_all add: role_valid_iff role_stops_def role_defs)
  ultimately have "role_run False True (unopened ?d) ?s3" using opened by (blast intro: role_run_trans)
  with s3 show ?thesis by (auto simp: role_defs)
qed

text \<open>C27: as long as administrators change roles one after the other, each on a row that shows the role as it is stored, the board
  never loses its last administrator. Both conditions are needed, and the code demands neither: two administrators who demote each
  other at the same moment both pass the guard, and changes one after the other of which one is made on an outdated page
  pass it too; both leave nobody who can administrate.\<close>

theorem last_admin_race:
  "(\<forall>s s'. users_ok (rsDB s) \<and> has_admin (rsDB s) \<and> rsChanges s = [] \<and> role_run True True s s' \<longrightarrow> has_admin (rsDB s'))
    \<and> (\<exists>d s. users_ok d \<and> has_admin d \<and> role_run True False (unopened d) s \<and> rsChanges s = [] \<and> \<not> has_admin (rsDB s))
    \<and> (\<exists>d s. users_ok d \<and> has_admin d \<and> role_run False True (unopened d) s \<and> rsChanges s = [] \<and> \<not> has_admin (rsDB s))"
proof (intro conjI allI impI)
  fix s s' assume "users_ok (rsDB s) \<and> has_admin (rsDB s) \<and> rsChanges s = [] \<and> role_run True True s s'"
  then have "alone s'" using alone_run [of s s'] by (simp add: alone_def)
  then show "has_admin (rsDB s')" by (simp add: alone_def)
next
  have "users_ok (board_of_two RoleAdmin r)" "has_admin (board_of_two RoleAdmin r)" if "role_valid r" for r
    using two_ok [OF _ that] by simp_all
  then show "\<exists>d s. users_ok d \<and> has_admin d \<and> role_run True False (unopened d) s \<and> rsChanges s = [] \<and> \<not> has_admin (rsDB s)"
    "\<exists>d s. users_ok d \<and> has_admin d \<and> role_run False True (unopened d) s \<and> rsChanges s = [] \<and> \<not> has_admin (rsDB s)"
    using demoting_each_other demoting_from_old_page role_valid_consts by metis+
qed

lemma last_admin_race_witness:
  "\<exists>s. role_run True True (unopened (board_of_two RoleAdmin RoleUser)) s \<and> has_admin (rsDB s)"
proof -
  let ?s = "unopened (board_of_two RoleAdmin RoleUser)"
  have "role_run True True ?s (load_page 1 0 ?s)" by (rule role_run.further [OF role_run.here role_step.loaded])
  moreover have "users_ok (board_of_two RoleAdmin RoleUser)" by (rule two_ok) simp_all
  ultimately show ?thesis using last_admin_race [THEN conjunct1, rule_format, of ?s "load_page 1 0 ?s"] by auto
qed

end
