(* ===== verification/Lifecycle.thy ===== *)
theory Lifecycle
  imports MainProgram
begin

text \<open>
  The life of a database file through the processes that serve it: starts, failed starts, imports, the work of any number of
  sessions, an orderly stop, and a kill at any moment, between two statements of a repository call included.
\<close>

section \<open>Steps\<close>

text \<open>
  A file is served by one process at a time. Every write is in the file when its statement or transaction ends, so a process that is
  killed leaves the database of that moment: the first few migrations, a database between two writes of a start-up or of an update,
  or, with \<open>tear\<close>, the one between the two statements that send a mail.
\<close>

datatype life = Stopped db_file | Running "int list" db

definition part_way :: "db \<Rightarrow> db \<Rightarrow> db \<Rightarrow> bool" where
  "part_way d d' x \<longleftrightarrow> db_step\<^sup>*\<^sup>* d x \<and> db_step\<^sup>*\<^sup>* x d'"

definition torn_way :: "db \<Rightarrow> db \<Rightarrow> db \<Rightarrow> bool" where
  "torn_way d d' x \<longleftrightarrow> (\<exists>i a b. db_step\<^sup>*\<^sup>* d a \<and> half_insert i a x b \<and> db_step\<^sup>*\<^sup>* b d')"

inductive life_step :: "'i env \<Rightarrow> bool \<Rightarrow> life \<Rightarrow> life \<Rightarrow> bool" for E tear where
  boots: "main_start (enGen E) driver new_ok flags files banners now m = (Inr g, m') \<Longrightarrow>
    life_step E tear (Stopped m) (Running (sgApplied g) (sgDB g))"
| fails: "main_start (enGen E) driver new_ok flags files banners now m = (Inl e, m') \<Longrightarrow> life_step E tear (Stopped m) (Stopped m')"
| loads: "main_import driver read f now m = (code, m') \<Longrightarrow> life_step E tear (Stopped m) (Stopped m')"
| serves: "served E d d' \<Longrightarrow> life_step E tear (Running vs d) (Running vs d')"
| stops: "life_step E tear (Running vs d) (Stopped (file_of vs d))"
| dies_migrating: "life_step E tear (Stopped m) (Stopped (store_open_cut n now m))"
| dies_starting: "store_open now m = (Inr (), m1) \<Longrightarrow> d = rows_of m1 \<Longrightarrow>
    start_up (enGen E) pw files banners now d = (r, d') \<Longrightarrow> part_way d d' x \<Longrightarrow>
    life_step E tear (Stopped m) (Stopped (file_of (migApplied m1) x))"
| dies_serving: "served E d d' \<Longrightarrow> part_way d d' x \<Longrightarrow> life_step E tear (Running vs d) (Stopped (file_of vs x))"
| dies_sending: "tear \<Longrightarrow> served E d d' \<Longrightarrow> torn_way d d' x \<Longrightarrow> life_step E tear (Running vs d) (Stopped (file_of vs x))"

section \<open>The invariant of a life\<close>

definition life_db :: "bool \<Rightarrow> db \<Rightarrow> bool" where
  "life_db tear d \<longleftrightarrow> (if tear then db_killed d else db_reachable d)"

fun life_ok :: "bool \<Rightarrow> life \<Rightarrow> bool" where
  "life_ok tear (Stopped m) \<longleftrightarrow> (\<exists>k now. k < 10 \<and> m = begun k now) \<or> (\<exists>vs d. m = file_of vs d \<and> set vs = {1..10} \<and> life_db tear d)"
| "life_ok tear (Running vs d) \<longleftrightarrow> set vs = {1..10} \<and> life_db tear d"

lemma life_db_killed: "life_db tear d \<Longrightarrow> db_killed d"
  by (auto simp: life_db_def db_killed_reachable split: if_splits)

lemma life_db_step: "db_step d d' \<Longrightarrow> life_db tear d \<Longrightarrow> life_db tear d'"
  by (auto simp: life_db_def intro: db_reachable.step db_killed_step killed_step.whole)

interpretation life_writes: db_kept "life_db tear" for tear
  by unfold_locales (rule life_db_step)

lemma life_db_steps: "db_step\<^sup>*\<^sup>* d d' \<Longrightarrow> life_db tear d \<Longrightarrow> life_db tear d'"
  by (induction rule: rtranclp_induct) (auto intro: life_db_step)

lemma life_db_torn: "torn_way d d' x \<Longrightarrow> life_db True d \<Longrightarrow> life_db True x"
  unfolding torn_way_def using life_db_steps [of d _ True] by (auto simp: life_db_def intro: db_killed_step killed_step.half)

text \<open>A database that was killed still satisfies every constraint of the schema.\<close>

lemma killed_fits: "db_killed d \<Longrightarrow> sql_fits (sql_of d)"
proof -
  assume d: "db_killed d"
  have core: "db_inv (without_mail d)" and sound: "mails_sound d" using db_killed_inv [OF d] by simp_all
  have "case mParentID m of None \<Rightarrow> True | Some p \<Rightarrow> p \<in> mID ` set (mails d)" if "m \<in> set (mails d)" for m
    using sound that by (fastforce simp: mails_sound_def mail_placed_def split: option.split)
  then show ?thesis
    unfolding sql_fits_tables using db_invD [OF core] sound
    by (auto simp: users_ok_def boards_ok_def articles_ok_def pushes_ok_def wbs_ok_def mails_sound_def prefs_ok_def targets_ok_def
        dest: table_ok_distinct)
qed

lemma file_of_left: "set vs = {1..10} \<Longrightarrow> db_killed d \<Longrightarrow> left_by 10 (file_of vs d)"
  by (simp add: left_by_def file_of_def schema_after_all schema_of_sql killed_fits)

text \<open>Every file of a life opens, and its rows are a database of that life.\<close>

lemma life_file_opens:
  assumes "life_ok tear (Stopped m)"
  obtains vs d where "store_open now m = (Inr (), file_of vs d)" "set vs = {1..10}" "life_db tear d"
proof -
  consider k t where "k < 10" "m = begun k t" | vs d where "m = file_of vs d" "set vs = {1..10}" "life_db tear d"
    using assms by auto
  then show thesis
  proof cases
    case 1
    let ?t = "if k < 2 then now else t"
    have "life_db tear (snd (boards_seed_defaults ?t empty_db))"
      by (rule life_db_step [OF db_step.board_seed]) (simp add: life_db_def db_killed_empty db_reachable.start)
    with new_file_opens [of ?t] begun_opens(1) [of k now t] 1 that show thesis by auto
  next
    case 2
    with store_open_again [OF file_of_left] life_db_killed that show thesis by blast
  qed
qed

lemma life_file_cut: "life_ok tear (Stopped m) \<Longrightarrow> life_ok tear (Stopped (store_open_cut n now m))"
proof -
  assume m: "life_ok tear (Stopped m)"
  consider k t where "k < 10" "m = begun k t" | vs d where "m = file_of vs d" "set vs = {1..10}" "life_db tear d"
    using m by auto
  then show ?thesis
  proof cases
    case 1
    let ?t = "if k < 2 then now else t"
    have cut: "store_open_cut n now m = begun (k + n) ?t" using 1 begun_opens(2) [of k n now t] by simp
    show ?thesis
    proof (cases "k + n < 10")
      case False
      then have "store_open now m = (Inr (), begun (k + n) ?t)" using 1 begun_opens(1) [of k now t] begun_all [of "k + n" ?t] by simp
      moreover obtain vs d where "store_open now m = (Inr (), file_of vs d)" "set vs = {1..10}" "life_db tear d"
        using life_file_opens [OF m] .
      ultimately show ?thesis by (auto simp: cut)
    qed (use cut in auto)
  next
    case 2
    with m store_open_cut_done [OF file_of_left] life_db_killed show ?thesis by fastforce
  qed
qed

lemma life_start:
  assumes "life_ok tear (Stopped m)" and "main_start gen driver new_ok flags files banners now m = (r, m')"
  shows "life_ok tear (Stopped m') \<and> (\<forall>g. r = Inr g \<longrightarrow> life_ok tear (Running (sgApplied g) (sgDB g)) \<and> m' = file_of (sgApplied g) (sgDB g))"
proof (cases "main_locale (sfLocale flags) LocaleZHTW")
  case None
  with assms show ?thesis by (auto simp: main_start_def)
next
  case (Some loc)
  show ?thesis
  proof (cases rule: open_path_cases [where driver = driver and path = "sfDB flags" and now = now and m = m])
    case (2 e)
    with assms Some show ?thesis by (auto simp: main_start_def)
  next
    case 1
    obtain vs d where m: "store_open now m = (Inr (), file_of vs d)" "set vs = {1..10}" "life_db tear d"
      using life_file_opens [OF assms(1)] .
    obtain x d1 where up: "start_up gen (sfAdminPassword flags) files banners now d = (x, d1)" by fastforce
    then have "life_db tear d1" using life_writes.start_up_step [OF m(3), of gen "sfAdminPassword flags" files banners now] by simp
    with m(2) have ok: "life_ok tear (Stopped (file_of vs d1))" "life_ok tear (Running vs d1)" by auto
    have "m' = file_of vs d1 \<and> (\<forall>g. r = Inr g \<longrightarrow> sgApplied g = vs \<and> sgDB g = d1)"
      using assms(2) main_start_open [where driver = driver and flags = flags and gen = gen and new_ok = new_ok and files = files and banners = banners,
        OF 1 m(1) Some] up by (cases x) (auto split: if_splits)
    with ok show ?thesis by auto
  qed
qed

lemma life_import:
  assumes "life_ok tear (Stopped m)" and "main_import driver read f now m = (code, m')"
  shows "life_ok tear (Stopped m')"
proof -
  obtain vs d where m: "store_open now m = (Inr (), file_of vs d)" "set vs = {1..10}" "life_db tear d"
    using life_file_opens [OF assms(1)] .
  obtain c d1 where imp: "run_import read f now d = (c, d1)" by fastforce
  then have "life_db tear d1" using life_writes.run_import_step [OF m(3), of read f now] by simp
  moreover have "m' = m \<or> m' = file_of vs d1"
    using assms(2) by (auto simp: main_import_def Let_def open_path_def m(1) db_of_sql_of imp split: if_splits option.splits connection.splits)
  ultimately show ?thesis using assms(1) m(2) by auto
qed

lemma life_step_ok: "life_step E tear s s' \<Longrightarrow> life_ok tear s \<Longrightarrow> life_ok tear s'"
proof (induction rule: life_step.induct)
  case (boots new_ok flags files banners now m g m')
  then show ?case using life_start by blast
next
  case (fails new_ok flags files banners now m e m')
  then show ?case using life_start by blast
next
  case (loads read f now m code m')
  then show ?case using life_import by blast
next
  case (serves d d' vs)
  then show ?case using life_db_steps [OF served_steps] by auto
next
  case (dies_migrating m n now)
  then show ?case by (rule life_file_cut)
next
  case (dies_starting now m m1 d pw files banners r d' x)
  obtain vs d0 where "store_open now m = (Inr (), file_of vs d0)" "set vs = {1..10}" "life_db tear d0"
    using life_file_opens [OF dies_starting.prems] .
  with dies_starting.hyps show ?case using life_db_steps [of d x tear] by (auto simp: db_of_sql_of part_way_def)
next
  case (dies_serving d d' x vs)
  then show ?case using life_db_steps [of d x tear] by (auto simp: part_way_def)
next
  case (dies_sending d d' x vs)
  then show ?case using life_db_torn [of d d' x] by auto
qed auto

lemma life_run_ok: "(life_step E tear)\<^sup>*\<^sup>* s s' \<Longrightarrow> life_ok tear s \<Longrightarrow> life_ok tear s'"
  by (induction rule: rtranclp_induct) (auto intro: life_step_ok)

lemma life_begins: "life_ok tear (Stopped new_file)"
  using begun_new by fastforce

section \<open>Properties\<close>

text \<open>C20: whatever happens to a database file from the day it is made, starts that succeed or fail, imports, the work of any
  number of sessions, a stop or a kill at any moment, in the middle of the migrations, of a start-up or of an update: the file can
  always be served again, given a valid locale and a password that bcrypt takes, a driver that opens it and a host key, and a server finds exactly the database the last one
  left. Unless a kill fell between the two statements that send a mail, that is always a database that whole repository calls have
  made; and even then every table but the mails is, while the mails keep their keys and references.\<close>

theorem server_life:
  assumes "(life_step E tear)\<^sup>*\<^sup>* (Stopped new_file) s" and "main_locale (sfLocale flags) LocaleZHTW = Some loc"
    and "driver (dsn (sfDB flags)) = Connected" and "new_ok (sfAddr flags) (sfHostKey flags)"
  shows "(s = Running vs d \<longrightarrow> (\<not> tear \<longrightarrow> db_reachable d \<and> db_inv d) \<and> db_reachable (without_mail d) \<and> mails_sound d
      \<and> main_start gen driver new_ok flags files banners now (file_of vs d) =
        (case start_up gen (sfAdminPassword flags) files banners now d of
           (Inl e, d1) \<Rightarrow> (Inl (SeedFailed e), file_of vs d1)
         | (Inr _, d1) \<Rightarrow> (Inr \<lparr>sgLocale = loc, sgApplied = vs, sgDB = d1, sgBroker = new_broker, sgPool = started\<rparr>, file_of vs d1)))
    \<and> (s = Stopped m \<and> gen (if sfAdminPassword flags = [] then DefaultAdminPassword else sfAdminPassword flags) = Some h \<longrightarrow>
        (\<exists>g. main_start gen driver new_ok flags files banners now m = (Inr g, file_of (sgApplied g) (sgDB g))
          \<and> sgLocale g = loc \<and> sgBroker g = new_broker \<and> sgPool g = started
          \<and> (\<not> tear \<longrightarrow> db_reachable (sgDB g)) \<and> db_reachable (without_mail (sgDB g)) \<and> mails_sound (sgDB g)))"
proof (intro conjI impI)
  have ok: "life_ok tear s" using life_run_ok [OF assms(1) life_begins] .
  have known: "(\<not> tear \<longrightarrow> db_reachable d) \<and> db_reachable (without_mail d) \<and> mails_sound d" if "life_db tear d" for d
    using db_killed_inv [OF life_db_killed [OF that]] that by (simp add: life_db_def)
  {
    assume s: "s = Running vs d"
    with ok have r: "set vs = {1..10}" "life_db tear d" by simp_all
    with known show "db_reachable (without_mail d)" "mails_sound d" by blast+
    show "db_reachable d" "db_inv d" if "\<not> tear" using known [OF r(2)] that db_reachable_inv by blast+
    show "main_start gen driver new_ok flags files banners now (file_of vs d) =
        (case start_up gen (sfAdminPassword flags) files banners now d of
           (Inl e, d1) \<Rightarrow> (Inl (SeedFailed e), file_of vs d1)
         | (Inr _, d1) \<Rightarrow> (Inr \<lparr>sgLocale = loc, sgApplied = vs, sgDB = d1, sgBroker = new_broker, sgPool = started\<rparr>, file_of vs d1))"
      by (simp add: main_start_open [where driver = driver and flags = flags, OF assms(3) store_open_again [OF file_of_left [OF r(1) life_db_killed [OF r(2)]]] assms(2)] assms(4) split: sum.split prod.split)
  }
  assume s: "s = Stopped m \<and> gen (if sfAdminPassword flags = [] then DefaultAdminPassword else sfAdminPassword flags) = Some h"
  then obtain vs d where m: "store_open now m = (Inr (), file_of vs d)" "set vs = {1..10}" "life_db tear d"
    using ok life_file_opens by blast
  obtain d1 where up: "start_up gen (sfAdminPassword flags) files banners now d = (Inr (), d1)"
    using start_up_runs [OF db_killed_inv(2) [OF life_db_killed [OF m(3)]]] s by blast
  then have "life_db tear d1" using life_writes.start_up_step [OF m(3), of gen "sfAdminPassword flags" files banners now] by simp
  with known have "(\<not> tear \<longrightarrow> db_reachable d1) \<and> db_reachable (without_mail d1) \<and> mails_sound d1" by blast
  with main_start_open [where driver = driver and flags = flags and gen = gen and new_ok = new_ok and files = files and banners = banners,
      OF assms(3) m(1) assms(2)] up assms(4)
  show "\<exists>g. main_start gen driver new_ok flags files banners now m = (Inr g, file_of (sgApplied g) (sgDB g))
      \<and> sgLocale g = loc \<and> sgBroker g = new_broker \<and> sgPool g = started
      \<and> (\<not> tear \<longrightarrow> db_reachable (sgDB g)) \<and> db_reachable (without_mail (sgDB g)) \<and> mails_sound (sgDB g)" by simp
qed

definition demo_flags :: server_flags where
  "demo_flags = \<lparr>sfAddr = '':2222'', sfDB = ''data/bbs.db'', sfHostKey = ''.ssh/host_ed25519'', sfAdminPassword = [], sfLocale = ''en''\<rparr>"

text \<open>A first start that is killed after three migrations, a second one, a kill, and a third with another locale.\<close>

lemma server_life_witness:
  "\<exists>vs d. (life_step demo_env False)\<^sup>*\<^sup>* (Stopped new_file) (Running vs d)
    \<and> (life_step demo_env False)\<^sup>*\<^sup>* (Stopped new_file) (Stopped (file_of vs d)) \<and> db_inv d
    \<and> (\<exists>g. fst (main_start demo_gen (\<lambda>_. Connected) (\<lambda>_ _. True) demo_flags [] Map.empty demo_now (file_of vs d)) = Inr g
        \<and> sgLocale g = ''en'')"
proof -
  have loc: "main_locale (sfLocale demo_flags) LocaleZHTW = Some ''en''" by code_simp
  have hash: "demo_gen (if sfAdminPassword demo_flags = [] then DefaultAdminPassword else sfAdminPassword demo_flags)
      = Some (replicate 59 (CHR ''$'') @ DefaultAdminPassword)"
    by (simp add: demo_gen_def DefaultAdminPassword_def demo_flags_def)
  let ?cut = "store_open_cut 3 demo_now new_file"
  have cut: "(life_step demo_env False)\<^sup>*\<^sup>* (Stopped new_file) (Stopped ?cut)"
    by (rule r_into_rtranclp) (rule life_step.dies_migrating)
  obtain g m where g: "main_start demo_gen (\<lambda>_. Connected) (\<lambda>_ _. True) demo_flags [] Map.empty demo_now ?cut = (Inr g, m)"
    using server_life [where driver = "\<lambda>_. Connected" and new_ok = "\<lambda>_ _. True", OF cut loc refl TrueI, where gen = demo_gen and files = "[]" and banners = Map.empty
        and now = demo_now and m = ?cut] hash by blast
  have "life_step demo_env False (Stopped ?cut) (Running (sgApplied g) (sgDB g))"
    using life_step.boots [of demo_env "\<lambda>_. Connected" "\<lambda>_ _. True" demo_flags "[]" Map.empty demo_now ?cut g m False] g by (simp add: demo_env_def)
  with cut have run: "(life_step demo_env False)\<^sup>*\<^sup>* (Stopped new_file) (Running (sgApplied g) (sgDB g))"
    by (rule rtranclp.rtrancl_into_rtrancl)
  then have stop: "(life_step demo_env False)\<^sup>*\<^sup>* (Stopped new_file) (Stopped (file_of (sgApplied g) (sgDB g)))"
    by (rule rtranclp.rtrancl_into_rtrancl) (rule life_step.stops)
  from server_life [where driver = "\<lambda>_. Connected" and new_ok = "\<lambda>_ _. True", OF run loc refl TrueI] have "db_inv (sgDB g)" by blast
  moreover from server_life [where driver = "\<lambda>_. Connected" and new_ok = "\<lambda>_ _. True", OF stop loc refl TrueI, where gen = demo_gen and files = "[]" and banners = Map.empty and now = demo_now
      and m = "file_of (sgApplied g) (sgDB g)"] hash
  obtain g' where "fst (main_start demo_gen (\<lambda>_. Connected) (\<lambda>_ _. True) demo_flags [] Map.empty demo_now (file_of (sgApplied g) (sgDB g))) = Inr g'"
    "sgLocale g' = ''en''" by fastforce
  ultimately show ?thesis using run stop by blast
qed

end
