(* ===== verification/CommandLine.thy ===== *)
theory CommandLine
  imports Lifecycle
begin

text \<open>
  The program from its arguments to its exit status: what \<open>main\<close> and \<open>runImport\<close> use of Go's package \<open>flag\<close>, the environment, the
  choice of the subcommand, the file each command opens, and the end of \<open>main\<close> by a signal or an error of the listener.
\<close>

section \<open>Flags\<close>

text \<open>
  \<open>FlagSet.Parse\<close> for flags that take a string: \<open>-k v\<close>, \<open>-k=v\<close> and both with two dashes; it stops at the first argument that is no flag
  and behind \<open>--\<close>. An unknown \<open>-h\<close> or \<open>-help\<close> asks for the usage.
\<close>

datatype flag_outcome = Parsed "string \<rightharpoonup> string" "string list" | HelpAsked | BadFlag

fun parse_flags :: "string list \<Rightarrow> (string \<rightharpoonup> string) \<Rightarrow> string list \<Rightarrow> flag_outcome" where
  "parse_flags formal given [] = Parsed given []"
| "parse_flags formal given (s # args) =
    (if length s < 2 \<or> \<not> has_prefix s ''-'' then Parsed given (s # args)
     else if s = ''--'' then Parsed given args
     else let name = (if has_prefix s ''--'' then drop 2 s else drop 1 s)
       in if name = [] \<or> has_prefix name ''-'' \<or> has_prefix name ''='' then BadFlag
       else let key = takeWhile (\<lambda>c. c \<noteq> CHR ''='') name; joined = CHR ''='' \<in> set name; rest = drop (length key + 1) name
         in if key \<notin> set formal then (if key = ''help'' \<or> key = ''h'' then HelpAsked else BadFlag)
         else if joined then parse_flags formal (given(key \<mapsto> rest)) args
         else (case args of [] \<Rightarrow> BadFlag | v # args' \<Rightarrow> parse_flags formal (given(key \<mapsto> v)) args'))"

definition flag_value :: "(string \<rightharpoonup> string) \<Rightarrow> string \<Rightarrow> string \<Rightarrow> string" where
  "flag_value given key dflt = (case given key of None \<Rightarrow> dflt | Some v \<Rightarrow> v)"

definition server_formal :: "string list" where
  "server_formal = [''addr'', ''db'', ''hostkey'', ''admin-password'', ''locale'']"

text \<open>The default of \<open>-locale\<close> is the environment variable \<open>BBS_LOCALE\<close>, empty when it is not set.\<close>

definition server_flags_of :: "string \<Rightarrow> (string \<rightharpoonup> string) \<Rightarrow> server_flags" where
  "server_flags_of bbs_locale given =
    \<lparr>sfAddr = flag_value given ''addr'' '':2222'', sfDB = flag_value given ''db'' ''data/bbs.db'',
     sfHostKey = flag_value given ''hostkey'' ''.ssh/host_ed25519'', sfAdminPassword = flag_value given ''admin-password'' [],
     sfLocale = flag_value given ''locale'' bbs_locale\<rparr>"

definition import_formal :: "string list" where
  "import_formal = [''file'', ''board'', ''author'', ''db'']"

definition import_flags_of :: "(string \<rightharpoonup> string) \<Rightarrow> import_flags" where
  "import_flags_of given =
    \<lparr>ifFile = flag_value given ''file'' [], ifBoard = flag_value given ''board'' [], ifAuthor = flag_value given ''author'' ''admin'',
     ifDB = flag_value given ''db'' ''data/bbs.db''\<rparr>"

section \<open>The program\<close>

text \<open>What the process finds outside: the environment, bcrypt, the SQLite driver, what \<open>server.New\<close> makes of address and host key, the
  embedded files, the files an import can read, and the database files by their path.\<close>

record host =
  hoLocale :: string
  hoGen :: "string \<Rightarrow> string option"
  hoDriver :: "string \<Rightarrow> connection"
  hoServer :: "string \<Rightarrow> string \<Rightarrow> bool"
  hoFiles :: "(string \<times> string) list"
  hoBanners :: "string \<rightharpoonup> string"
  hoRead :: "string \<Rightarrow> string option"

datatype outcome = Exited int | Serving server_flags serving

definition run_server :: "host \<Rightarrow> server_flags \<Rightarrow> timestamp \<Rightarrow> (string \<Rightarrow> db_file) \<Rightarrow> outcome \<times> (string \<Rightarrow> db_file)" where
  "run_server h flags now fs =
    (case main_start (hoGen h) (hoDriver h) (hoServer h) flags (hoFiles h) (hoBanners h) now (fs (sfDB flags)) of
       (Inl e, m) \<Rightarrow> (Exited 1, fs(sfDB flags := m))
     | (Inr g, m) \<Rightarrow> (Serving flags g, fs(sfDB flags := m)))"

definition import_command :: "host \<Rightarrow> import_flags \<Rightarrow> timestamp \<Rightarrow> (string \<Rightarrow> db_file) \<Rightarrow> outcome \<times> (string \<Rightarrow> db_file)" where
  "import_command h f now fs =
    (case main_import (hoDriver h) (hoRead h) f now (fs (ifDB f)) of (code, m) \<Rightarrow> (Exited code, fs(ifDB f := m)))"

text \<open>\<open>flag.Parse\<close> of the server ends the process itself, with status 0 for the usage and 2 for an error; \<open>log.Fatalf\<close> ends it with 1.\<close>

definition run_program :: "host \<Rightarrow> string list \<Rightarrow> timestamp \<Rightarrow> (string \<Rightarrow> db_file) \<Rightarrow> outcome \<times> (string \<Rightarrow> db_file)" where
  "run_program h args now fs =
    (case main_command args of
       RunImport rest \<Rightarrow>
         (case parse_flags import_formal Map.empty rest of
            HelpAsked \<Rightarrow> (Exited 0, fs)
          | BadFlag \<Rightarrow> (Exited 2, fs)
          | Parsed given others \<Rightarrow> import_command h (import_flags_of given) now fs)
     | UnknownSubcommand arg \<Rightarrow> (Exited 1, fs)
     | RunServer \<Rightarrow>
         (case parse_flags server_formal Map.empty (tl args) of
            HelpAsked \<Rightarrow> (Exited 0, fs)
          | BadFlag \<Rightarrow> (Exited 2, fs)
          | Parsed given others \<Rightarrow> run_server h (server_flags_of (hoLocale h) given) now fs))"

section \<open>The end of main\<close>

text \<open>
  \<open>main\<close> waits for the listener or a signal. An error of the listener other than \<open>ErrServerClosed\<close> is fatal, so that the deferred
  calls, the \<open>Stop\<close> of the dispatcher and the \<open>Close\<close> of the store, do not run. A signal runs \<open>shutdown\<close>, whose polls of the broker
  are given.
\<close>

datatype listener_result = ListenNil | ErrServerClosed | ListenFailed

datatype ending = ListenerReturned listener_result | Signalled "(broker \<times> bool \<times> broker) list"

record main_exit =
  exStatus :: int
  exQuit :: "nat list"
  exDeferred :: bool

definition main_finish :: "broker \<Rightarrow> ending \<Rightarrow> main_exit option" where
  "main_finish b e =
    (case e of
       ListenerReturned r \<Rightarrow>
         Some (if r = ListenFailed then \<lparr>exStatus = 1, exQuit = [], exDeferred = False\<rparr>
               else \<lparr>exStatus = 0, exQuit = [], exDeferred = True\<rparr>)
     | Signalled polls \<Rightarrow>
         (case shutdown b polls of
            (quit, None) \<Rightarrow> None
          | (quit, Some _) \<Rightarrow> Some \<lparr>exStatus = 0, exQuit = quit, exDeferred = True\<rparr>))"

text \<open>A signal ends the process by the first poll at which the timer has fired, after every live program was told to quit.\<close>

lemma signal_ends:
  assumes "\<exists>(b', fired, c) \<in> set polls. fired"
  shows "main_finish b (Signalled polls) =
    Some \<lparr>exStatus = 0, exQuit = map sProgram (broker_sessions_snapshot b), exDeferred = True\<rparr>"
  using drain_poll_ends [OF assms] by (auto simp: main_finish_def shutdown_def Let_def split: option.split)

section \<open>Reading what was written\<close>

text \<open>A setting as a user may write it: with one dash or two, joined by \<open>=\<close> or as two arguments.\<close>

datatype setting = Setting (stDouble: bool) (stJoined: bool) (stKey: string) (stValue: string)

fun setting_args :: "setting \<Rightarrow> string list" where
  "setting_args (Setting dbl joined k v) =
    (let name = (if dbl then ''--'' else ''-'') @ k in if joined then [name @ ''='' @ v] else [name, v])"

definition settings_given :: "setting list \<Rightarrow> string \<rightharpoonup> string" where
  "settings_given xs = map_of (rev (map (\<lambda>x. (stKey x, stValue x)) xs))"

definition flag_name :: "string \<Rightarrow> bool" where
  "flag_name k \<longleftrightarrow> k \<noteq> [] \<and> \<not> has_prefix k ''-'' \<and> CHR ''='' \<notin> set k"

lemma formal_names: "k \<in> set server_formal \<Longrightarrow> flag_name k" "k \<in> set import_formal \<Longrightarrow> flag_name k"
  by (auto simp: server_formal_def import_formal_def flag_name_def has_prefix_def)

lemma flag_nameE:
  assumes "flag_name k"
  obtains c cs where "k = c # cs" "c \<noteq> CHR ''-''" "c \<noteq> CHR ''=''" "CHR ''='' \<notin> set cs"
  using assms by (cases k) (auto simp: flag_name_def has_prefix_def)

lemma parse_setting:
  assumes "stKey x \<in> set formal" and "flag_name (stKey x)"
  shows "parse_flags formal given (setting_args x @ args) = parse_flags formal (given(stKey x \<mapsto> stValue x)) args"
proof -
  obtain dbl joined k v where x: "x = Setting dbl joined k v" by (cases x)
  obtain c cs where k: "k = c # cs" "c \<noteq> CHR ''-''" "c \<noteq> CHR ''=''" "CHR ''='' \<notin> set cs"
    using flag_nameE [OF assms(2)] by (auto simp: x)
  have cut: "takeWhile (\<lambda>c. c \<noteq> CHR ''='') (cs @ CHR ''='' # v) = cs" "takeWhile (\<lambda>c. c \<noteq> CHR ''='') cs = cs"
    using k(4) by (simp_all add: takeWhile_append takeWhile_eq_all_conv) (metis+)?
  show ?thesis using assms(1) k by (cases dbl; cases joined) (simp_all add: x has_prefix_def Let_def cut)
qed

lemma parse_settings:
  assumes "\<forall>x \<in> set xs. stKey x \<in> set formal \<and> flag_name (stKey x)"
  shows "parse_flags formal given (concat (map setting_args xs)) = Parsed (given ++ settings_given xs) []"
  using assms
proof (induction xs arbitrary: given)
  case (Cons x xs)
  then have "parse_flags formal given (concat (map setting_args (x # xs)))
      = Parsed (given(stKey x \<mapsto> stValue x) ++ settings_given xs) []"
    by (simp add: parse_setting)
  also have "given(stKey x \<mapsto> stValue x) ++ settings_given xs = given ++ settings_given (x # xs)"
    by (simp add: settings_given_def map_add_def fun_eq_iff split: option.split)
  finally show ?case .
qed (simp add: settings_given_def)

lemma setting_args_dash: "\<exists>arg args. setting_args x = arg # args \<and> has_prefix arg ''-''"
  by (cases x) (auto simp: has_prefix_def Let_def)

lemma settings_run_server: "main_command (prog # concat (map setting_args xs)) = RunServer"
proof (cases xs)
  case (Cons x ys)
  obtain arg args where "setting_args x = arg # args" "has_prefix arg ''-''" using setting_args_dash by blast
  with Cons show ?thesis by simp
qed simp

lemma main_import_status:
  assumes "main_import driver read f now m = (code, m')"
  shows "code \<in> {0, 1, 2} \<and> (code = 2 \<longrightarrow> m' = m)"
  using assms
  by (auto simp: main_import_def run_import_def Let_def split: if_splits option.splits sum.splits prod.splits)

lemma run_server_other: "p \<noteq> sfDB flags \<Longrightarrow> snd (run_server h flags now fs) p = fs p" "fst (run_server h flags now fs) \<noteq> Exited 2"
  by (auto simp: run_server_def split: prod.split sum.split)

lemma import_command_other:
  "p \<noteq> ifDB f \<Longrightarrow> snd (import_command h f now fs) p = fs p"
  "fst (import_command h f now fs) = Exited 2 \<Longrightarrow> snd (import_command h f now fs) = fs"
  "fst (import_command h f now fs) \<in> {Exited 0, Exited 1, Exited 2}"
  using main_import_status [of "hoDriver h" "hoRead h" f now "fs (ifDB f)"]
  by (auto simp: import_command_def split: prod.splits)

lemma run_program_usage: "fst (run_program h args now fs) = Exited 2 \<Longrightarrow> snd (run_program h args now fs) = fs"
  by (auto simp: run_program_def run_server_other(2) import_command_other(2) split: main_mode.splits flag_outcome.splits)

text \<open>The value given last, for the specification.\<close>

definition last_setting :: "setting list \<Rightarrow> string \<Rightarrow> string \<Rightarrow> string" where
  "last_setting xs k dflt = foldl (\<lambda>v x. if stKey x = k then stValue x else v) dflt xs"

lemma flag_value_last: "flag_value (settings_given xs) k dflt = last_setting xs k dflt"
proof (induction xs rule: rev_induct)
  case (snoc x xs)
  then show ?case by (auto simp: flag_value_def settings_given_def last_setting_def)
qed (simp add: flag_value_def settings_given_def last_setting_def)

section \<open>Properties\<close>

text \<open>C40: however the flags are written, with one dash or two, joined or as two arguments, in any order and repeated, the server and
  the import command get for each flag the value given last and its default when it is not given, which for the locale is \<open>BBS_LOCALE\<close>;
  at most the file is touched that the last \<open>-db\<close> names, \<open>data/bbs.db\<close> without one. A word that is neither a flag nor \<open>import\<close> ends
  the process with status 1, and no file is touched by it, nor by any arguments that end with status 2.\<close>

theorem command_line_read:
  assumes "\<forall>x \<in> set xs. stKey x \<in> {''addr'', ''db'', ''hostkey'', ''admin-password'', ''locale''}"
    and "\<forall>y \<in> set ys. stKey y \<in> {''file'', ''board'', ''author'', ''db''}"
  shows "run_program h (prog # concat (map setting_args xs)) now fs =
      run_server h
        \<lparr>sfAddr = last_setting xs ''addr'' '':2222'', sfDB = last_setting xs ''db'' ''data/bbs.db'',
         sfHostKey = last_setting xs ''hostkey'' ''.ssh/host_ed25519'', sfAdminPassword = last_setting xs ''admin-password'' [],
         sfLocale = last_setting xs ''locale'' (hoLocale h)\<rparr> now fs
    \<and> run_program h (prog # ''import'' # concat (map setting_args ys)) now fs =
      import_command h
        \<lparr>ifFile = last_setting ys ''file'' [], ifBoard = last_setting ys ''board'' [], ifAuthor = last_setting ys ''author'' ''admin'',
         ifDB = last_setting ys ''db'' ''data/bbs.db''\<rparr> now fs
    \<and> (p \<noteq> last_setting xs ''db'' ''data/bbs.db'' \<longrightarrow> snd (run_program h (prog # concat (map setting_args xs)) now fs) p = fs p)
    \<and> (p \<noteq> last_setting ys ''db'' ''data/bbs.db'' \<longrightarrow> snd (run_program h (prog # ''import'' # concat (map setting_args ys)) now fs) p = fs p)
    \<and> (\<not> has_prefix word ''-'' \<and> word \<noteq> ''import'' \<longrightarrow> run_program h (prog # word # args) now fs = (Exited 1, fs))
    \<and> (fst (run_program h args now fs) = Exited 2 \<longrightarrow> snd (run_program h args now fs) = fs)"
proof -
  let ?sf = "server_flags_of (hoLocale h) (settings_given xs)" and ?if = "import_flags_of (settings_given ys)"
  have xs: "\<forall>x \<in> set xs. stKey x \<in> set server_formal" using assms(1) by (simp add: server_formal_def)
  have ys: "\<forall>y \<in> set ys. stKey y \<in> set import_formal" using assms(2) by (simp add: import_formal_def)
  have server: "run_program h (prog # concat (map setting_args xs)) now fs = run_server h ?sf now fs"
    using parse_settings [of xs server_formal Map.empty] xs formal_names(1) by (simp add: run_program_def settings_run_server)
  have import: "run_program h (prog # ''import'' # concat (map setting_args ys)) now fs = import_command h ?if now fs"
    using parse_settings [of ys import_formal Map.empty] ys formal_names(2) by (simp add: run_program_def has_prefix_def)
  have word: "\<not> has_prefix word ''-'' \<and> word \<noteq> ''import'' \<longrightarrow> run_program h (prog # word # args) now fs = (Exited 1, fs)"
    by (simp add: run_program_def)
  show ?thesis
    using server import word run_server_other(1) [of p ?sf h now fs] import_command_other(1) [of p ?if h now fs] run_program_usage [of h args now fs]
    by (simp add: server_flags_of_def import_flags_of_def flag_value_last)
qed

text \<open>Two settings of the locale, the second one wins; \<open>help\<close> and an unknown flag.\<close>

definition demo_host :: host where
  "demo_host = \<lparr>hoLocale = ''zh-TW'', hoGen = demo_gen, hoDriver = (\<lambda>_. Connected), hoServer = (\<lambda>_ _. True), hoFiles = [],
     hoBanners = Map.empty, hoRead = (\<lambda>_. None)\<rparr>"

lemma command_line_read_witness:
  "run_program demo_host [''sshbbs'', ''--locale=xx'', ''-locale'', ''en''] demo_now (\<lambda>_. new_file)
      = run_server demo_host \<lparr>sfAddr = '':2222'', sfDB = ''data/bbs.db'', sfHostKey = ''.ssh/host_ed25519'', sfAdminPassword = [], sfLocale = ''en''\<rparr>
          demo_now (\<lambda>_. new_file)
    \<and> run_program demo_host [''sshbbs'', ''export''] demo_now (\<lambda>_. new_file) = (Exited 1, \<lambda>_. new_file)
    \<and> fst (run_program demo_host [''sshbbs'', ''-help''] demo_now (\<lambda>_. new_file)) = Exited 0
    \<and> fst (run_program demo_host [''sshbbs'', ''-port'', ''22''] demo_now (\<lambda>_. new_file)) = Exited 2"
proof (intro conjI)
  let ?xs = "[Setting True True ''locale'' ''xx'', Setting False False ''locale'' ''en'']"
  have xs: "\<forall>x \<in> set ?xs. stKey x \<in> {''addr'', ''db'', ''hostkey'', ''admin-password'', ''locale''}" by simp
  note read = command_line_read [OF xs, of "[]", simplified ball_empty list.set, OF TrueI]
  show "run_program demo_host [''sshbbs'', ''--locale=xx'', ''-locale'', ''en''] demo_now (\<lambda>_. new_file)
      = run_server demo_host \<lparr>sfAddr = '':2222'', sfDB = ''data/bbs.db'', sfHostKey = ''.ssh/host_ed25519'', sfAdminPassword = [], sfLocale = ''en''\<rparr>
          demo_now (\<lambda>_. new_file)"
    using read [THEN conjunct1, of demo_host "''sshbbs''" demo_now "\<lambda>_. new_file"] by (simp add: last_setting_def demo_host_def)
qed (simp_all add: run_program_def server_formal_def has_prefix_def)

end
