(* ===== verification/Authorship.thy ===== *)
theory Authorship
  imports Serving PushFlow
begin

text \<open>
  In whose name a session writes. The part of the database that belongs to others is a view that no update of
  the session changes, shown write by write for the relation \<open>acts\<close> of \<open>SessionDB\<close>; the screens follow because
  they make no other writes.
\<close>

section \<open>What belongs to others\<close>

text \<open>
  The rows of others, as far as the user has no say in them; the pushes below the user's own articles are looked at separately. A moderator may edit, pin and delete articles,
  delete pushes and set banners; an administrator may set roles. The score of an article follows its pushes,
  the pushes on an article share its fate, and the mark of a message as read is not its sender's.
\<close>

definition moderates :: "user \<Rightarrow> bool" where
  "moderates u \<longleftrightarrow> role_at_least (uRole u) RoleMod"

definition own_articles :: "user \<Rightarrow> db \<Rightarrow> int set" where
  "own_articles u d = aID ` set (filter (\<lambda>a. aAuthorID a = uID u) (articles d))"

definition others :: "user \<Rightarrow> db \<Rightarrow> db" where
  "others u d =
    \<lparr>users = map (if uRole u = RoleAdmin then uRole_update (\<lambda>_. RoleUser) else id) (filter (\<lambda>x. uID x \<noteq> uID u) (users d)),
     seq_users = seq_users d,
     boards = map (if moderates u then bBannerCol_update (\<lambda>_. None) else id) (boards d), seq_boards = seq_boards d,
     articles = (if moderates u then []
       else map (aRecommendScore_update (\<lambda>_. 0)) (filter (\<lambda>a. aAuthorID a \<noteq> uID u) (articles d))),
     seq_articles = 0,
     pushes = (if moderates u then [] else filter (\<lambda>p. pUserID p \<noteq> uID u \<and> pArticleID p \<notin> own_articles u d) (pushes d)),
     seq_pushes = 0,
     wbs = map (wReadAt_update (\<lambda>_. None)) (filter (\<lambda>w. wFromUserID w \<noteq> uID u) (wbs d)), seq_wbs = 0,
     mails = map (mReadAt_update (\<lambda>_. None)) (filter (\<lambda>m. mFromUserID m \<noteq> uID u) (mails d)), seq_mails = 0,
     prefs = filter (\<lambda>p. fst p \<noteq> uID u) (prefs d),
     targets = filter (\<lambda>t. ntUserID t \<noteq> uID u) (targets d), seq_targets = 0\<rparr>"

text \<open>
  Whoever the user is: a row is there already, with the same author, or it carries the user's id and name.
\<close>

definition signature :: "article \<Rightarrow> int \<times> int \<times> int \<times> string" where
  "signature a = (aID a, aBoardID a, aAuthorID a, aAuthorUserID a)"

definition inherited :: "('r \<Rightarrow> 'k) \<Rightarrow> ('r \<Rightarrow> bool) \<Rightarrow> 'r list \<Rightarrow> 'r list \<Rightarrow> bool" where
  "inherited f S rows rows' \<longleftrightarrow> (\<forall>r \<in> set rows'. f r \<in> f ` set rows \<or> S r)"

definition signed :: "user \<Rightarrow> db \<Rightarrow> db \<Rightarrow> bool" where
  "signed u d d' \<longleftrightarrow>
    inherited signature (\<lambda>a. aAuthorID a = uID u \<and> aAuthorUserID a = uUserID u) (articles d) (articles d')
    \<and> inherited id (\<lambda>p. pUserID p = uID u \<and> pUserUserID p = uUserID u) (pushes d) (pushes d')
    \<and> inherited (wReadAt_update (\<lambda>_. None)) (\<lambda>w. wFromUserID w = uID u \<and> wFromUserIDStr w = uUserID u) (wbs d) (wbs d')
    \<and> inherited (mReadAt_update (\<lambda>_. None)) (\<lambda>m. mFromUserID m = uID u \<and> mFromUserIDStr m = uUserID u) (mails d) (mails d')"

text \<open>
  The pushes of others, wherever they are: each stays as long as its article stands, and none is changed or added. A moderator
  may delete any. Articles come with numbers not given before, so an article that is gone does not come back.
\<close>

definition pushes_stay :: "user \<Rightarrow> db \<Rightarrow> db \<Rightarrow> bool" where
  "pushes_stay u d d' \<longleftrightarrow> moderates u \<or>
     filter (\<lambda>p. pUserID p \<noteq> uID u \<and> pArticleID p \<in> article_ids d') (pushes d) = filter (\<lambda>p. pUserID p \<noteq> uID u) (pushes d')"

definition articles_grow :: "db \<Rightarrow> db \<Rightarrow> bool" where
  "articles_grow d d' \<longleftrightarrow> seq_articles d \<le> seq_articles d' \<and> (\<forall>i \<in> article_ids d'. i \<in> article_ids d \<or> seq_articles d < i)"

definition licences :: "user \<Rightarrow> licence set" where
  "licences u = (if uRole u = RoleAdmin then {Administers} else {})"

lemma licences_simps [simp]: "Registers \<notin> licences u" "Administers \<in> licences u \<longleftrightarrow> uRole u = RoleAdmin"
  by (simp_all add: licences_def)

section \<open>Rows out of sight\<close>

lemma hidden_update:
  "(\<And>x. x \<in> set xs \<Longrightarrow> C x \<Longrightarrow> K (f x) = K x \<and> (K x \<longrightarrow> g (f x) = g x)) \<Longrightarrow>
    map g (filter K (update_rows C f xs)) = map g (filter K xs)"
  by (induction xs) (auto simp: update_rows_def)

lemmas hidden_update_id = hidden_update [where g = "\<lambda>x. x", simplified]

lemma hidden_delete: "(\<And>x. x \<in> set xs \<Longrightarrow> C x \<Longrightarrow> \<not> K x) \<Longrightarrow> filter K (delete_rows C xs) = filter K xs"
  by (induction xs) (auto simp: delete_rows_def)

lemma hidden_upsert: "\<not> K (k, v) \<Longrightarrow> (\<And>y. K (k, y) = K (k, v)) \<Longrightarrow> filter K (upsert k v xs) = filter K xs"
  by (induction xs) auto

lemma users_writes_others:
  "others u (snd (users_increment_posts (uID u) d)) = others u d"
  "others u (snd (users_set_password (uID u) h d)) = others u d"
  "others u (snd (users_set_locale (uID u) loc d)) = others u d"
  "others u (snd (users_set_bio (uID u) bio d)) = others u d"
  "uRole u = RoleAdmin \<Longrightarrow> others u (snd (users_set_role i r d)) = others u d"
  by (simp_all add: others_def user_write_defs hidden_update own_articles_def)

lemma messages_others:
  "others u (snd (wbs_insert (uID u) n t s l now d)) = others u d"
  "others u (snd (wbs_mark_read i now d)) = others u d"
  "others u (snd (wbs_mark_conversation_read v c now d)) = others u d"
  "others u (snd (mails_mark_read i now d)) = others u d"
  by (simp_all add: others_def own_articles_def wb_mark_defs wbs_insert_def ins_wb_def Let_def mails_mark_read_def mark_wb_def
      hidden_update new_wb_def)

lemma owned_others:
  "(\<And>t. ntUserID (f t) = ntUserID t) \<Longrightarrow> others u (d\<lparr>targets := update_rows (owned_target i (uID u)) f (targets d)\<rparr>) = others u d"
  "others u (d\<lparr>targets := delete_rows (owned_target i (uID u)) (targets d)\<rparr>) = others u d"
  by (auto simp: others_def own_articles_def owned_target_def intro!: hidden_update_id hidden_delete)

lemma settings_others:
  "others u (snd (notify_set_prefs (uID u) p d)) = others u d"
  "others u (snd (notify_add_target (uID u) l url now d)) = others u d"
  "others u (snd (notify_update_target t (uID u) l url e d)) = others u d"
  "others u (snd (notify_set_target_enabled t (uID u) e d)) = others u d"
  "others u (snd (notify_delete_target t (uID u) d)) = others u d"
  by (simp_all add: target_write_snd owned_others,
      simp_all add: others_def own_articles_def notify_set_prefs_def hidden_upsert notify_add_target_def new_target_def ins_target_def
        Let_def split: sum.split)

lemma store_target_others: "others u (snd (store_target (uID u) l url ts i now d)) = others u d"
proof (cases "i = 0")
  case True
  then show ?thesis by (simp add: store_target_def settings_others)
next
  case False
  let ?e = "case find (\<lambda>t. ntID t = i) ts of None \<Rightarrow> True | Some t \<Rightarrow> ntEnabled t"
  obtain r d1 where "notify_update_target i (uID u) l url ?e d = (r, d1)" by (metis surj_pair)
  with settings_others(3) [of u i l url ?e d] False show ?thesis by (simp add: store_target_def Let_def split: sum.split)
qed

lemma mails_insert_others: "db_inv d \<Longrightarrow> others u (snd (mails_insert (uID u) n t subj b parent now d)) = others u d"
  by (cases rule: mails_insert_cases [of "uID u" n t subj b parent now d])
    (simp_all add: others_def own_articles_def mails_insert_spec db_invD(7) mail_row_def Let_def)

lemma own_articles_update:
  assumes "\<And>a. aID (f a) = aID a" and "\<And>a. aAuthorID (f a) = aAuthorID a"
  shows "own_articles u (d\<lparr>articles := update_rows P f (articles d)\<rparr>) = own_articles u d"
proof -
  have "map aID (filter (\<lambda>a. aAuthorID a = uID u) (update_rows P f xs)) = map aID (filter (\<lambda>a. aAuthorID a = uID u) xs)" for xs
    by (rule hidden_update) (simp add: assms)
  then show ?thesis unfolding own_articles_def set_map [symmetric] by simp
qed

lemma article_update_others:
  assumes "\<And>a. aID (f a) = aID a" and "\<And>a. aAuthorID (f a) = aAuthorID a"
    and "\<And>a. a \<in> set (articles d) \<Longrightarrow> P a \<Longrightarrow>
      moderates u \<or> aAuthorID a = uID u \<or> aRecommendScore_update (\<lambda>_. 0) (f a) = aRecommendScore_update (\<lambda>_. 0) a"
  shows "others u (d\<lparr>articles := update_rows P f (articles d)\<rparr>) = others u d"
  using assms by (auto simp: others_def own_articles_update intro!: hidden_update)

lemma found_article: "db_inv d \<Longrightarrow> find_row aID i (articles d) = Some a \<Longrightarrow> b \<in> set (articles d) \<Longrightarrow> aID b = i \<Longrightarrow> b = a"
  using find_article_iff [OF db_invD(3), of d i b] by simp

lemma article_writes_others:
  assumes "db_inv d"
  shows "others u (snd (article_repo_update i (uID u) (uRole u) t s now d)) = others u d"
    and "others u (snd (articles_set_pinned i (uID u) (uRole u) pin now d)) = others u d"
    and "others u (snd (articles_set_comments_mode i (uID u) (uRole u) m d)) = others u d"
  using found_article [OF assms, of i]
  by (auto simp: article_mod_defs moderates_def intro!: article_update_others split: option.split)

lemma articles_create_others:
  assumes "db_inv d"
  shows "others u (snd (articles_create b (uID u) n t s now d)) = others u d"
proof (cases "b \<in> board_ids d \<and> uID u \<in> user_ids d")
  case True
  have "\<forall>p \<in> set (pushes d). pArticleID p \<noteq> seq_articles d + 1"
    using db_invD(3,4) [OF assms] by (fastforce simp: pushes_ok_def articles_ok_def table_ok_def article_ids_def)
  with True show ?thesis
    by (auto simp: articles_create_spec db_invD(3) [OF assms] others_def own_articles_def intro!: filter_cong)
qed (auto simp: articles_create_def)

lemma articles_delete_others:
  assumes "db_inv d"
  shows "others u (snd (articles_delete i (uID u) (uRole u) d)) = others u d"
proof (cases "fst (articles_delete i (uID u) (uRole u) d)")
  case (Inl e)
  then show ?thesis by (auto simp: articles_delete_def split: option.splits if_splits)
next
  case (Inr v)
  then obtain a where a: "find_row aID i (articles d) = Some a" "moderates u \<or> aAuthorID a = uID u"
    by (auto simp: articles_delete_def moderates_def split: option.splits if_splits)
  let ?d = "snd (articles_delete i (uID u) (uRole u) d)"
  have d: "?d = d\<lparr>articles := delete_rows (\<lambda>a. aID a = i) (articles d), pushes := delete_rows (\<lambda>p. pArticleID p = i) (pushes d)\<rparr>"
    using a by (auto simp: articles_delete_def moderates_def)
  show ?thesis
  proof (cases "moderates u")
    case True
    with d show ?thesis by (simp add: others_def)
  next
    case False
    with a have own: "aAuthorID b = uID u" if "b \<in> set (articles d)" "aID b = i" for b
      using found_article [OF assms a(1) that] by simp
    have "i \<in> own_articles u d" using a False by (auto simp: own_articles_def dest: find_row_Some)
    moreover have "own_articles u ?d = own_articles u d - {i}" by (auto simp: d own_articles_def)
    ultimately have "filter (\<lambda>p. pUserID p \<noteq> uID u \<and> pArticleID p \<notin> own_articles u ?d) (delete_rows (\<lambda>p. pArticleID p = i) ps)
        = filter (\<lambda>p. pUserID p \<noteq> uID u \<and> pArticleID p \<notin> own_articles u d) ps" for ps :: "push list"
      by (auto simp: delete_rows_def intro!: filter_cong)
    moreover have "filter (\<lambda>a. aAuthorID a \<noteq> uID u) (delete_rows (\<lambda>a. aID a = i) (articles d)) = filter (\<lambda>a. aAuthorID a \<noteq> uID u) (articles d)"
      by (rule hidden_delete) (simp add: own)
    ultimately show ?thesis unfolding others_def using d by simp
  qed
qed

lemma banner_others: "others u (snd (boards_update_banner i (uID u) (uRole u) b d)) = others u d"
  by (auto simp: boards_update_banner_def others_def moderates_def own_articles_def hidden_update [where K = "\<lambda>_. True", simplified]
      split: option.split)

lemma add_score_others: "others u (add_score i n d) = others u d"
  unfolding add_score_def by (rule article_update_others) simp_all

lemma pushes_create_others: "others u (snd (pushes_create a (uID u) n k s now d)) = others u d"
proof (cases rule: pushes_create_cases [of a "uID u" n k s now d])
  case (ok art delta i d1)
  then have "others u d1 = others u d" by (auto simp: ins_defs others_def own_articles_def)
  with ok(6) show ?thesis by (simp add: add_score_others)
qed simp

lemma pushes_delete_others:
  assumes "db_inv d"
  shows "others u (snd (pushes_delete i (uID u) (uRole u) d)) = others u d"
proof (cases "find_row pID i (pushes d)")
  case (Some p)
  have "q = p" if "q \<in> set (pushes d)" "pID q = i" for q
    using that Some db_invD(4) [OF assms] by (auto simp: pushes_ok_def dest!: find_row_Some table_ok_distinct intro: distinct_key_eq)
  then have "others u (d\<lparr>pushes := delete_rows (\<lambda>q. pID q = i) (pushes d)\<rparr>) = others u d" if "moderates u \<or> pUserID p = uID u"
    using that by (auto simp: others_def own_articles_def intro!: hidden_delete)
  with Some show ?thesis
    by (auto simp: pushes_delete_def Let_def moderates_def add_score_others split: sum.split)
qed (simp add: pushes_delete_def)

section \<open>The pushes of others\<close>

lemma articles_numbered: "db_inv d \<Longrightarrow> i \<in> article_ids d \<Longrightarrow> i \<le> seq_articles d"
  using db_invD(3) [of d] by (auto simp: articles_ok_def table_ok_def article_ids_def)

lemma pushes_on_articles: "db_inv d \<Longrightarrow> p \<in> set (pushes d) \<Longrightarrow> pArticleID p \<in> article_ids d"
  using db_invD(4) [of d] by (auto simp: pushes_ok_def)

lemma others_pushes:
  "db_inv d \<Longrightarrow> filter (\<lambda>p. pUserID p \<noteq> uID u \<and> pArticleID p \<in> article_ids d) (pushes d) = filter (\<lambda>p. pUserID p \<noteq> uID u) (pushes d)"
  by (rule filter_cong) (auto dest: pushes_on_articles)

lemma untouched_pushes_stay:
  "db_inv d \<Longrightarrow> pushes d' = pushes d \<Longrightarrow> article_ids d' = article_ids d \<Longrightarrow> seq_articles d' = seq_articles d \<Longrightarrow>
    pushes_stay u d d' \<and> articles_grow d d'"
  by (simp add: pushes_stay_def articles_grow_def others_pushes)

lemma pushes_stay_trans:
  assumes "db_inv d" and "pushes_stay u d d1 \<and> articles_grow d d1" and "pushes_stay u d1 d2 \<and> articles_grow d1 d2"
  shows "pushes_stay u d d2 \<and> articles_grow d d2"
proof -
  have "pArticleID p \<in> article_ids d1" if "p \<in> set (pushes d)" "pArticleID p \<in> article_ids d2" for p
    using that assms pushes_on_articles [OF assms(1) that(1)] articles_numbered [OF assms(1), of "pArticleID p"]
    by (force simp: articles_grow_def)
  then have "filter (\<lambda>p. pUserID p \<noteq> uID u \<and> pArticleID p \<in> article_ids d2) (pushes d)
      = filter (\<lambda>p. pArticleID p \<in> article_ids d2) (filter (\<lambda>p. pUserID p \<noteq> uID u \<and> pArticleID p \<in> article_ids d1) (pushes d))"
    by (auto intro!: filter_cong)
  moreover have "filter (\<lambda>p. pUserID p \<noteq> uID u \<and> pArticleID p \<in> article_ids d2) (pushes d1)
      = filter (\<lambda>p. pArticleID p \<in> article_ids d2) (filter (\<lambda>p. pUserID p \<noteq> uID u) (pushes d1))"
    by (simp add: conj_commute)
  ultimately have "pushes_stay u d d2" using assms(2,3) unfolding pushes_stay_def by metis
  moreover have "articles_grow d d2" using assms(2,3) by (force simp: articles_grow_def)
  ultimately show ?thesis by simp
qed

lemmas frame_defs = user_write_defs boards_update_banner_def notify_set_prefs_def target_write_defs
  wb_mark_defs wbs_insert_def ins_wb_def mails_mark_read_def article_ids_def Let_def

lemma settings_frame:
  assumes "db_inv d"
  shows "pushes_stay u d (snd (users_increment_posts i d)) \<and> articles_grow d (snd (users_increment_posts i d))"
    "pushes_stay u d (snd (users_set_password i h d)) \<and> articles_grow d (snd (users_set_password i h d))"
    "pushes_stay u d (snd (users_set_locale i loc d)) \<and> articles_grow d (snd (users_set_locale i loc d))"
    "pushes_stay u d (snd (users_set_bio i bio d)) \<and> articles_grow d (snd (users_set_bio i bio d))"
    "pushes_stay u d (snd (users_set_role i r d)) \<and> articles_grow d (snd (users_set_role i r d))"
    "pushes_stay u d (snd (boards_update_banner b i r s d)) \<and> articles_grow d (snd (boards_update_banner b i r s d))"
    "pushes_stay u d (snd (notify_set_prefs i p d)) \<and> articles_grow d (snd (notify_set_prefs i p d))"
    "pushes_stay u d (snd (notify_set_target_enabled t i e d)) \<and> articles_grow d (snd (notify_set_target_enabled t i e d))"
    "pushes_stay u d (snd (notify_delete_target t i d)) \<and> articles_grow d (snd (notify_delete_target t i d))"
  by (rule untouched_pushes_stay [OF assms]; simp add: frame_defs split: option.split)+

lemma messages_frame:
  assumes "db_inv d"
  shows "pushes_stay u d (snd (wbs_insert i n t s l now d)) \<and> articles_grow d (snd (wbs_insert i n t s l now d))"
    "pushes_stay u d (snd (wbs_mark_read i now d)) \<and> articles_grow d (snd (wbs_mark_read i now d))"
    "pushes_stay u d (snd (wbs_mark_conversation_read v c now d)) \<and> articles_grow d (snd (wbs_mark_conversation_read v c now d))"
    "pushes_stay u d (snd (mails_mark_read i now d)) \<and> articles_grow d (snd (mails_mark_read i now d))"
    "pushes_stay u d (snd (mails_insert i n t subj b parent now d)) \<and> articles_grow d (snd (mails_insert i n t subj b parent now d))"
  subgoal by (rule untouched_pushes_stay [OF assms]) (simp_all add: frame_defs)
  subgoal by (rule untouched_pushes_stay [OF assms]) (simp_all add: frame_defs)
  subgoal by (rule untouched_pushes_stay [OF assms]) (simp_all add: frame_defs)
  subgoal by (rule untouched_pushes_stay [OF assms]) (simp_all add: frame_defs)
  subgoal by (rule untouched_pushes_stay [OF assms]; cases rule: mails_insert_cases [of i n t subj b parent now d])
      (simp_all add: mails_insert_spec db_invD(7) [OF assms] article_ids_def Let_def)
  done

lemma store_target_frame:
  "articles (snd (store_target i l url ts j now d)) = articles d" "pushes (snd (store_target i l url ts j now d)) = pushes d"
  "wbs (snd (store_target i l url ts j now d)) = wbs d" "mails (snd (store_target i l url ts j now d)) = mails d"
  by (auto simp: store_target_def notify_add_target_def notify_update_target_def ins_target_def Let_def split: sum.split)

lemma store_target_articles:
  "article_ids (snd (store_target i l url ts j now d)) = article_ids d"
  "seq_articles (snd (store_target i l url ts j now d)) = seq_articles d"
  by (auto simp: store_target_def notify_add_target_def notify_update_target_def ins_target_def article_ids_def Let_def split: sum.split)

lemma article_writes_stay:
  assumes "db_inv d"
  shows "pushes_stay u d (snd (article_repo_update i q r t s now d)) \<and> articles_grow d (snd (article_repo_update i q r t s now d))"
    "pushes_stay u d (snd (articles_set_pinned i q r pin now d)) \<and> articles_grow d (snd (articles_set_pinned i q r pin now d))"
    "pushes_stay u d (snd (articles_set_comments_mode i q r m d)) \<and> articles_grow d (snd (articles_set_comments_mode i q r m d))"
  by (rule untouched_pushes_stay [OF assms]; auto simp: article_mod_defs article_ids_def image_rid_update split: option.split)+

lemma articles_create_stay:
  assumes "db_inv d"
  shows "pushes_stay u d (snd (articles_create b i n t s now d)) \<and> articles_grow d (snd (articles_create b i n t s now d))"
proof (cases "b \<in> board_ids d \<and> i \<in> user_ids d")
  case True
  then show ?thesis
    by (auto simp: articles_create_spec db_invD(3) [OF assms] pushes_stay_def articles_grow_def article_ids_def
        intro!: filter_cong dest: pushes_on_articles [OF assms])
next
  case False
  then show ?thesis by (intro untouched_pushes_stay [OF assms]) (auto simp: articles_create_def)
qed

lemma articles_delete_stay:
  assumes "db_inv d"
  shows "pushes_stay u d (snd (articles_delete i q r d)) \<and> articles_grow d (snd (articles_delete i q r d))"
proof (cases "snd (articles_delete i q r d) = d")
  case True
  then show ?thesis by (intro untouched_pushes_stay [OF assms]) simp_all
next
  case False
  then have d: "snd (articles_delete i q r d)
      = d\<lparr>articles := delete_rows (\<lambda>a. aID a = i) (articles d), pushes := delete_rows (\<lambda>p. pArticleID p = i) (pushes d)\<rparr>"
    by (auto simp: articles_delete_def split: option.splits if_splits)
  have "pArticleID p \<in> aID ` {a \<in> set (articles d). aID a \<noteq> i}" if "p \<in> set (pushes d)" "pArticleID p \<noteq> i" for p
    using that pushes_on_articles [OF assms that(1)] by (auto simp: article_ids_def)
  then show ?thesis unfolding d
    by (auto simp: pushes_stay_def articles_grow_def article_ids_def delete_rows_def intro!: filter_cong)
qed

lemma pushes_create_stay:
  assumes "db_inv d"
  shows "pushes_stay u d (snd (pushes_create a (uID u) n k s now d)) \<and> articles_grow d (snd (pushes_create a (uID u) n k s now d))"
proof (cases rule: pushes_create_cases [of a "uID u" n k s now d])
  case (err e)
  then show ?thesis by (intro untouched_pushes_stay [OF assms]) simp_all
next
  case (ok art delta i d1)
  from ok(5) obtain p where 1: "article_ids d1 = article_ids d" "seq_articles d1 = seq_articles d" "pushes d1 = pushes d @ [p]" "pUserID p = uID u"
    by (auto simp: ins_defs article_ids_def new_push_def)
  note others_pushes [OF assms, of u]
  moreover have "pushes (add_score a delta d1) = pushes d1" "seq_articles (add_score a delta d1) = seq_articles d1"
    by (simp_all add: add_score_def)
  ultimately have "pushes_stay u d (add_score a delta d1) \<and> articles_grow d (add_score a delta d1)"
    using 1 by (simp add: pushes_stay_def articles_grow_def)
  with ok(6) show ?thesis by simp
qed

lemma pushes_delete_stay:
  assumes "db_inv d"
  shows "pushes_stay u d (snd (pushes_delete i (uID u) (uRole u) d)) \<and> articles_grow d (snd (pushes_delete i (uID u) (uRole u) d))"
proof (cases "snd (pushes_delete i (uID u) (uRole u) d) = d")
  case True
  then show ?thesis by (intro untouched_pushes_stay [OF assms]) simp_all
next
  case False
  then obtain p delta where p: "find_row pID i (pushes d) = Some p" "moderates u \<or> pUserID p = uID u"
    and d: "snd (pushes_delete i (uID u) (uRole u) d)
      = add_score (pArticleID p) delta (d\<lparr>pushes := delete_rows (\<lambda>q. pID q = i) (pushes d)\<rparr>)"
    by (auto simp: pushes_delete_def Let_def moderates_def split: option.splits sum.splits if_splits)
  have "q = p" if "q \<in> set (pushes d)" "pID q = i" for q
    using that p(1) db_invD(4) [OF assms] by (auto simp: pushes_ok_def dest!: find_row_Some table_ok_distinct intro: distinct_key_eq)
  with p(2) show ?thesis unfolding d
    by (auto simp: pushes_stay_def articles_grow_def add_score_def article_ids_def image_rid_update delete_rows_def
        intro!: filter_cong dest: pushes_on_articles [OF assms])
qed

section \<open>Writes in the user's name\<close>

lemma acts_others:
  assumes "acts (licences u) (Some u) d d'" and "db_inv d"
  shows "others u d' = others u d"
  using assms
  by (induction rule: acts.induct)
    (simp_all add: users_writes_others messages_others settings_others store_target_others mails_insert_others article_writes_others
      articles_create_others articles_delete_others banner_others pushes_create_others pushes_delete_others)

lemma acts_stay:
  assumes "acts (licences u) (Some u) d d'" and "db_inv d"
  shows "pushes_stay u d d' \<and> articles_grow d d'"
  using assms
proof (induction rule: acts.induct)
  case (stores_target v label url ts i now d)
  then show ?case by (intro untouched_pushes_stay) (simp_all add: store_target_frame store_target_articles)
qed (simp_all add: settings_frame messages_frame article_writes_stay articles_create_stay articles_delete_stay
    pushes_create_stay pushes_delete_stay)

lemma inherited_refl [simp]: "inherited f S rows rows"
  by (simp add: inherited_def)

lemma inherited_update:
  "inherited f S rows0 rows \<Longrightarrow> (\<And>r. f (g r) = f r \<and> S (g r) = S r) \<Longrightarrow> inherited f S rows0 (update_rows C g rows)"
  by (auto simp: inherited_def set_update_rows)

lemma inherited_delete [simp]: "inherited f S rows0 rows \<Longrightarrow> inherited f S rows0 (delete_rows C rows)"
  by (auto simp: inherited_def)

lemma inherited_append [simp]: "inherited f S rows0 (rows @ [r]) \<longleftrightarrow> inherited f S rows0 rows \<and> (f r \<in> f ` set rows0 \<or> S r)"
  by (auto simp: inherited_def)

lemma signed_refl: "signed u d d"
  by (simp add: signed_def)

lemma settings_signed:
  assumes "signed u d0 d"
  shows "signed u d0 (snd (users_increment_posts i d))" "signed u d0 (snd (users_set_password i h d))"
    "signed u d0 (snd (users_set_locale i loc d))" "signed u d0 (snd (users_set_bio i bio d))" "signed u d0 (snd (users_set_role i r d))"
    "signed u d0 (snd (boards_update_banner b i r s d))" "signed u d0 (snd (notify_set_prefs i p d))"
    "signed u d0 (snd (store_target i l url ts j now d))"
    "signed u d0 (snd (notify_set_target_enabled t i e d))" "signed u d0 (snd (notify_delete_target t i d))"
  using assms
  by (simp_all add: signed_def user_write_defs boards_update_banner_def notify_set_prefs_def target_write_defs store_target_frame
      split: option.split)

lemma article_writes_signed:
  assumes "signed u d0 d"
  shows "signed u d0 (snd (articles_create b (uID u) (uUserID u) t s now d))" "signed u d0 (snd (articles_delete i q r d))"
    "signed u d0 (snd (article_repo_update i q r t s now d))" "signed u d0 (snd (articles_set_pinned i q r pin now d))"
    "signed u d0 (snd (articles_set_comments_mode i q r m d))"
  using assms
  by (simp_all add: signed_def articles_create_def articles_delete_def article_mod_defs ins_article_def Let_def new_article_def
      inherited_update signature_def split: option.split)

lemma push_writes_signed:
  assumes "signed u d0 d"
  shows "signed u d0 (snd (pushes_create a (uID u) (uUserID u) k s now d))" "signed u d0 (snd (pushes_delete i q r d))"
  using assms
  by (simp_all add: signed_def pushes_create_def pushes_delete_def ins_push_def add_score_def Let_def new_push_def
      inherited_update signature_def split: option.split sum.split)

lemma message_writes_signed:
  assumes "signed u d0 d"
  shows "signed u d0 (snd (wbs_insert (uID u) (uUserID u) t s l now d))" "signed u d0 (snd (wbs_mark_read i now d))"
    "signed u d0 (snd (wbs_mark_conversation_read v c now d))" "signed u d0 (snd (mails_mark_read i now d))"
  using assms
  by (simp_all add: signed_def wb_mark_defs wbs_insert_def ins_wb_def mark_wb_def Let_def new_wb_def mails_mark_read_def inherited_update)

lemma mails_insert_signed:
  "db_inv d \<Longrightarrow> signed u d0 d \<Longrightarrow> signed u d0 (snd (mails_insert (uID u) (uUserID u) t subj b parent now d))"
  by (cases rule: mails_insert_cases [of "uID u" "uUserID u" t subj b parent now d])
    (simp_all add: signed_def mails_insert_spec db_invD(7) mail_row_def new_mail_def Let_def)

lemma acts_signed:
  assumes "acts (licences u) (Some u) d d'" and "db_inv d" and "signed u d0 d"
  shows "signed u d0 d'"
  using assms
  by (induction rule: acts.induct)
    (simp_all add: settings_signed article_writes_signed push_writes_signed message_writes_signed mails_insert_signed)

interpretation inv: db_kept db_inv
  by unfold_locales (rule db_step_inv)

lemma acts_inv: "acts G U d d' \<Longrightarrow> db_inv d \<Longrightarrow> db_inv d'"
  by (rule inv.acts_step)

interpretation author: session_kept
  "\<lambda>d'. db_inv d \<and> db_inv d' \<and> others u d' = others u d \<and> signed u d d' \<and> pushes_stay u d d' \<and> articles_grow d d'"
  "licences u" "Some u" for u d
  using acts_inv acts_others acts_signed acts_stay pushes_stay_trans by unfold_locales metis

section \<open>Sessions\<close>

lemma root_ok_licensed:
  assumes "root_ok r w" and "seUser w = Some u"
  shows "licensed (licences u) (rtSub r)"
  using assms by (cases "rtSub r") (simp_all add: root_ok_def guarded_def user_is_def)

text \<open>C6: in every state a signed-in session can reach, whatever message it handles, the rows of other users stay
  what they are: their accounts, their articles and pushes, the texts of their messages, their notification
  settings and the boards. Exempt are the marks of messages as read, the scores, the pushes below an article
  the user deletes (on an article that stands no push of another user goes, comes or changes), and what the role allows: roles
  to administrators, articles, pushes and banners to moderators. Whatever the role, every article, push, water balloon and mail
  that was not there before carries the id and the name of the session's user.\<close>

theorem session_writes_as_user:
  assumes "session_run E (new_root E w0, w0) (r, w)" and "signed_in (seUser w0)" and "\<not> seIsRegister w0"
    and "seUser w = Some u" and "db_inv (seDB w)" and "root_update E msg r w = (x, w')"
  shows "others u (seDB w') = others u (seDB w) \<and> pushes_stay u (seDB w) (seDB w') \<and> signed u (seDB w) (seDB w')"
proof -
  have "licensed (licences u) (rtSub r)" using reachable_root_ok [OF assms(1-3)] assms(4) by (rule root_ok_licensed)
  with author.root_update_kept [of u r w "seDB w" E msg] assms(4-6) show ?thesis
    by (simp add: kept_def signed_refl untouched_pushes_stay)
qed

text \<open>Bob opens the conversation with Alice, which marks her water balloon as read.\<close>

definition open_thread :: tui_msg where
  "open_thread = NavigateMsg ((nav ScreenWBThread)\<lparr>nvCounterpartyUserID := 1\<rparr>)"

lemma open_thread_reads:
  "map wReadAt (wbs (seDB (snd (root_update demo_env open_thread (new_root demo_env bob_state) bob_state)))) = [Some demo_now, None]"
  by (simp add: open_thread_def root_update_def navigate_def nav_def guest_write_blocked_def navigate_non_admin_blocked_def user_is_def
      new_sub_def new_wb_thread_def bob_state_def demo_state_def demo_db_def demo_user_def session_uid_def on_db_def
      wbs_mark_conversation_read_def update_rows_def mark_wb_def wb_unread_def users_get_by_id_def find_row_def
      sub_update_def wb_thread_update_def lift_sub_def stay_def new_user_def new_wb_def Let_def)

lemma session_writes_as_user_witness:
  "let w' = snd (root_update demo_env open_thread (new_root demo_env bob_state) bob_state)
   in map wReadAt (wbs (seDB w')) = [Some demo_now, None]
     \<and> others (demo_user 2 ''bob'') (seDB w') = others (demo_user 2 ''bob'') demo_db
     \<and> pushes_stay (demo_user 2 ''bob'') demo_db (seDB w') \<and> signed (demo_user 2 ''bob'') demo_db (seDB w')"
  using session_writes_as_user [OF session_run.here, of bob_state "demo_user 2 ''bob''" demo_env open_thread] demo_db_inv
    open_thread_reads
  by (simp add: bob_state_def demo_state_def Let_def prod_eq_iff)

end
