(* ===== verification/Spec2Isabelle.thy ===== *)
theory Spec2Isabelle
  imports MessageProps Migrate AuthProps Broker Dispatch MarkdownRT Server ComposeProps ScreenProps Hub Seed Banner Serving RootView Webhook Drain
    Json PushFlow Smoke ExportImport RoleRace HalfMail MainProgram Lifecycle CommandLine Authorship
begin

text \<open>
  Verification of sshbbs, a bulletin board served over SSH: a Go program with a bubbletea user interface
  over an SQLite database. Boards hold articles with pushes (recommend, boo, neutral) and a cached
  score; users exchange one-line messages (water balloons) and threaded mail, and are told about events
  by webhooks.

  \<^bold>\<open>How the parts interact.\<close> \<open>internal/server\<close> authenticates an SSH connection with \<open>internal/auth\<close>, makes a
  program whose model is the root of \<open>internal/tui\<close>, registers it in the broker of \<open>internal/chat\<close> and
  replays unread water balloons. The screens read and write \<open>internal/store\<close>, send messages to
  other programs through the broker, hand events to the dispatcher of \<open>internal/notify\<close>, export with
  \<open>internal/markdown\<close> and take their texts from \<open>internal/i18n\<close>. \<open>internal/seed\<close> fills a fresh database.

  \<^bold>\<open>Theories and sources.\<close>
  \<^item> \<open>Prelude\<close>, \<open>Utf8\<close>, \<open>Strconv\<close>, \<open>NetAddr\<close>, \<open>Sql\<close>: what the code uses of Go's strings, unicode/utf8, strconv,
    time and net packages and of SQLite (NOCASE, LIKE, ORDER BY, AUTOINCREMENT).
  \<^item> \<open>Schema\<close>: the rows and the database, one record of tables (\<open>internal/store\<close> types and migrations).
    \<open>UserRepo\<close>, \<open>BoardRepo\<close>, \<open>ArticleRepo\<close>, \<open>PushRepo\<close>, \<open>WaterBalloonRepo\<close>, \<open>MailRepo\<close>, \<open>NotifyRepo\<close>: one
    function per repository method; \<open>Migrate\<close>: \<open>migrate.go\<close>; \<open>Ddl\<close>, \<open>Migrations\<close>: the SQL of the migration files over
    tables of constrained columns, and the migrating part of \<open>Open\<close> in \<open>store.go\<close>; \<open>HalfMail\<close>: the two statements that send a mail, with a
    kill between them; \<open>Rows\<close>, \<open>SchemaProps\<close>: the column lists and \<open>Scan\<close> of the
    repositories, and the model database as the tables of the migrated schema.
    \<open>StoreInv\<close> has a step for every write and the invariant of the whole database, \<open>StoreProps\<close> and
    \<open>MessageProps\<close> what the store promises.
  \<^item> \<open>Auth\<close>, \<open>AuthProps\<close>: \<open>internal/auth\<close>. \<open>I18nTables\<close>, \<open>I18n\<close>: \<open>internal/i18n\<close>.
    \<open>Markdown\<close>, \<open>MarkdownRT\<close>: \<open>markdown.go\<close> and its round trip. \<open>Dispatch\<close>, \<open>Webhook\<close>: \<open>internal/notify\<close>,
    with the part of encoding/json and net/url it uses; \<open>Json\<close>: a receiver's JSON reader; \<open>Drain\<close>: its pool of workers between \<open>Start\<close> and the end of
    \<open>Stop\<close>, and the beginning and end of \<open>main.go\<close>.
  \<^item> \<open>Broker\<close>: every method of \<open>broker.go\<close> as one step. \<open>Hub\<close>: the same broker among running programs, with
    the read lock, pending writers and unbuffered channels, for what one step hides.
  \<^item> \<open>Tui\<close>: messages, commands, the state of a session (\<open>messages.go\<close>, \<open>Deps\<close>), the terminal libraries.
    \<open>MenuScreens\<close>, \<open>BoardScreens\<close>, \<open>ArticleView\<close>, \<open>ComposeScreens\<close>, \<open>WBScreens\<close>, \<open>MailScreens\<close>,
    \<open>AccountScreens\<close>, \<open>NotifyScreen\<close>: the constructor and the whole \<open>Update\<close> of every \<open>screen_*.go\<close>;
    \<open>Root\<close>: \<open>root.go\<close>; \<open>Banner\<close>: \<open>runewidth.go\<close>. \<open>Server\<close>: \<open>internal/server\<close>. \<open>Seed\<close>: \<open>internal/seed\<close>, the
    seeding in \<open>main.go\<close> and \<open>cmd_import.go\<close>. \<open>MainProgram\<close>: \<open>main.go\<close> and the import command on a database file, from \<open>Open\<close> on;
    \<open>Lifecycle\<close>: such a file through starts, stops and kills; \<open>CommandLine\<close>: both commands from their arguments, as package \<open>flag\<close> reads
    them, to the exit status. \<open>Smoke\<close>: \<open>cmd/bbsmoke\<close>.
  \<^item> \<open>ScreenInv\<close>, \<open>RootInv\<close>, \<open>RootProps\<close>: an invariant per screen, of the root and of every reachable state of a
    session; \<open>ComposeProps\<close>, \<open>ScreenProps\<close>: what single submissions do.
  \<^item> \<open>Render\<close> (\<open>styles.go\<close> and what the views share), \<open>MenuViews\<close>, \<open>FormViews\<close>, \<open>ArticleViews\<close>, \<open>HelpPages\<close>
    (\<open>help.go\<close>) and \<open>RootView\<close>: the \<open>View\<close> of every screen and of the root, as byte strings.
  \<^item> Across components: \<open>PushFlow\<close> from the push input to the webhook of the author, \<open>ExportImport\<close> from the export screen
    to the import command, \<open>RoleRace\<close> role changes of several administrators, each on the page it loaded last.
  \<^item> \<open>SessionDB\<close>, \<open>Serving\<close>: every update of every screen, every login and replay and the start-up write to the
    database through the repositories only (locale \<open>db_kept\<close>, with \<open>session_kept\<close> for the writes of one user's session);
    \<open>Authorship\<close>: in whose name a session writes.

  \<^bold>\<open>Conventions.\<close> A Go string is a list of bytes; literals outside ASCII are spelled out in UTF-8. Identifiers are
  integers (the counters never come near the end of 64 bits). A fallible operation returns its result as
  \<open>Inl\<close> error or \<open>Inr\<close> value together with the new database; a refusal returns the old one. A
  timestamp of SQLite is a civil record; the clock is an argument. An \<open>Update\<close> returns the new model, a command and the new
  session state; \<open>Crash\<close> is the command of an update that panics. Functions are executable, loops are
  recursive functions with a proof of termination; no function that models code needs fuel. The one bounded loop,
  \<open>re_loop\<close>, exists to state how many turns the reply-prefix loop takes; the JSON reader of a receiver, which is no code
  of the repository, gets the length of its text as fuel, and that is shown to be enough for every text the encoders write.

  \<^bold>\<open>Parameters.\<close> Third-party code is an argument: bcrypt (\<open>gen\<close>, \<open>cmp\<close> with \<open>bcrypt_laws\<close>), the text widgets,
  glamour and go-runewidth (record \<open>lib\<close>, with \<open>width_law\<close> where a width is bounded), lipgloss and what a widget draws
  (record \<open>skin\<close>), the HTTP client, the file system. Each law has a concrete instance (\<open>demo_bcrypt\<close>,
  \<open>demo_lib\<close>) on which the witnesses run.

  \<^bold>\<open>Interfaces.\<close> Tables with fresh identifiers, stable orders, live sessions, what every write of the store keeps and
  every write of a session does, what
  the migrations need of an SQL engine, what inserting and scanning a row owe each other, and the simulation of one step relation by another are locales, each interpreted on the model's own definitions in the theory that provides them.

  \<^bold>\<open>What is shown.\<close> Every reachable database satisfies keys, uniqueness, foreign keys and cached scores; the rights on
  articles, pushes, targets and roles; the contents and order of listings; mail threads and unread marks; who
  can register, log in and start a session; that start-up is idempotent but for a counter; that a session leaves what belongs to
  others alone and signs what it writes; that no reachable state of a session
  indexes out of range or shows a guest a compose form, and that each can be drawn; that the whole server keeps the
  integrity of the database; that every database an earlier version left is migrated without losing a row, that the model is
  an instance of the SQL schema, and that a database file survives stops, kills at any moment and restarts; how the
  command line is read; that a push reaches the
  webhooks of the author and what is posted there reads back; which messages and logs redact webhook credentials; that clean documents parse back
  and exports can be imported; the bounds of the banner and
  of the queue; and that sends under way complete when their waits are acyclic and no others begin. Several theorems state how the
  code goes wrong: two deadlocks of the broker, two panics, a water-balloon input that guests reach, events lost at a shutdown, an escape from the forced rotation, a window
  in which a mail cannot be read, a kill in that window that leaves a mail unreadable for good and its inbox while the mail is listed, administrators who demote each other at once or from an outdated page, and a limit that hides the newest messages.

  \<^bold>\<open>Not modelled.\<close> What lipgloss makes of a style; the heights and widths of text widgets; logging; errors of the
  database driver such as a full disk, so the load errors of plain lists; the HTTP exchange with its timeout, and what
  net/url makes of a bracketed host (parameters); the delivery of signals and the listener; the accessors of \<open>store.go\<close>, which all name the
  one database of the model, and its \<open>Close\<close>. The SQL files are translated as lists of
  statements; of SQLite the model has what these statements and the constraints mean, not storage, locking or query plans. The \<open>EqualFold\<close> of user handles is folded on ASCII, which all
  registered handles are. Where a screen starts a goroutine for a write (marking a water balloon as read), the
  model runs it at once. The test helper \<open>storetest\<close> is outside.
\<close>

end
